(* ===== verification/Prelude.thy ===== *)
theory Prelude
  imports Main "HOL-Library.Word" "HOL-Library.List_Lexorder" "HOL-Library.Char_ord"
    "HOL-Library.Sublist"
begin

text \<open>
  Shared vocabulary of the development.

  \<^item> Machine integers: \<open>u8\<close>, \<open>u16\<close>, \<open>u32\<close>, \<open>u64\<close> are words of that width; an \<open>i64\<close> is an
    \<open>int\<close> brought back into range by \<open>wrap_i64\<close>.
  \<^item> Fallible code: a Rust \<open>Result<T, E>\<close> is a value of \<open>('e, 'a) result\<close>, \<open>Inl\<close> the error;
    \<open>res_bind\<close> is the \<open>?\<close> operator, \<open>res_mapM\<close> and \<open>res_forM\<close> are \<open>collect\<close> into a
    \<open>Result\<close> and a \<open>for\<close> loop left at the first error. Where the code can panic, the error type
    is \<open>'e failure\<close>.
  \<^item> Stateful fallible code: \<open>('s, 'e, 'a) eff\<close> passes a state and returns a result together
    with the new state, so an operation that fails half-way keeps what it did before.
    \<open>eff_bind\<close> is sequencing with \<open>?\<close>, \<open>eff_catch\<close> is a \<open>match\<close> on the result of a call.
  \<^item> \<open>keeps P m\<close>: whatever \<open>m\<close> returns, the state after it satisfies \<open>P\<close> if the state before
    did. Its rules are collected in \<open>keeps_intros\<close>; with them an invariant of a handler is
    proved from the invariants of the calls it makes.
\<close>

named_theorems keeps_intros \<open>rules that establish \<open>keeps P m\<close>\<close>
named_theorems res_simps \<open>equations that evaluate results\<close>
named_theorems eff_simps \<open>equations that evaluate stateful computations\<close>

section \<open>Machine integers\<close>

type_synonym u8 = "8 word"
type_synonym u16 = "16 word"
type_synonym u32 = "32 word"
type_synonym u64 = "64 word"

definition i64_max :: int where
  "i64_max = 2 ^ 63 - 1"

definition wrap_i64 :: "int \<Rightarrow> int" where
  "wrap_i64 n = (n + 2 ^ 63) mod 2 ^ 64 - 2 ^ 63"

lemma wrap_i64_id: "- (2 ^ 63) \<le> n \<Longrightarrow> n \<le> i64_max \<Longrightarrow> wrap_i64 n = n"
  by (simp add: wrap_i64_def i64_max_def)

lemma unat_u16_less [simp]: "unat (p :: u16) < 65536"
  using unsigned_less [where w = p and 'a = nat] by simp

lemma unat_u8_less [simp]: "unat (b :: u8) < 256"
  using unsigned_less [where w = b and 'a = nat] by simp

section \<open>Results\<close>

type_synonym ('e, 'a) result = "'e + 'a"

definition res_bind :: "('e, 'a) result \<Rightarrow> ('a \<Rightarrow> ('e, 'b) result) \<Rightarrow> ('e, 'b) result" where
  "res_bind r f = (case r of Inl e \<Rightarrow> Inl e | Inr x \<Rightarrow> f x)"

definition map_err :: "('e \<Rightarrow> 'f) \<Rightarrow> ('e, 'a) result \<Rightarrow> ('f, 'a) result" where
  "map_err g r = (case r of Inl e \<Rightarrow> Inl (g e) | Inr x \<Rightarrow> Inr x)"

definition ok_or :: "'e \<Rightarrow> 'a option \<Rightarrow> ('e, 'a) result" where
  "ok_or e v = (case v of None \<Rightarrow> Inl e | Some x \<Rightarrow> Inr x)"

definition res_check :: "bool \<Rightarrow> 'e \<Rightarrow> ('e, unit) result" where
  "res_check bad e = (if bad then Inl e else Inr ())"

definition res_ok :: "('e, 'a) result \<Rightarrow> bool" where
  "res_ok r = (case r of Inl _ \<Rightarrow> False | Inr _ \<Rightarrow> True)"

text \<open>\<open>Option<Result<T, E>>::transpose\<close> after a \<open>map\<close>.\<close>

definition res_opt :: "('a \<Rightarrow> ('e, 'b) result) \<Rightarrow> 'a option \<Rightarrow> ('e, 'b option) result" where
  "res_opt f v = (case v of None \<Rightarrow> Inr None | Some x \<Rightarrow> res_bind (f x) (\<lambda>y. Inr (Some y)))"

fun res_mapM :: "('a \<Rightarrow> ('e, 'b) result) \<Rightarrow> 'a list \<Rightarrow> ('e, 'b list) result" where
  "res_mapM f [] = Inr []"
| "res_mapM f (x # xs) = res_bind (f x) (\<lambda>y. res_bind (res_mapM f xs) (\<lambda>ys. Inr (y # ys)))"

fun res_forM :: "('a \<Rightarrow> ('e, unit) result) \<Rightarrow> 'a list \<Rightarrow> ('e, unit) result" where
  "res_forM f [] = Inr ()"
| "res_forM f (x # xs) = res_bind (f x) (\<lambda>_. res_forM f xs)"

lemma res_bind_Inl [simp, res_simps]: "res_bind (Inl e) f = Inl e"
  by (simp add: res_bind_def)

lemma res_bind_Inr [simp, res_simps]: "res_bind (Inr x) f = f x"
  by (simp add: res_bind_def)

lemma res_bind_eq_Inr [simp]: "res_bind r f = Inr y \<longleftrightarrow> (\<exists>x. r = Inr x \<and> f x = Inr y)"
  by (cases r) auto

lemma res_bind_eq_Inl: "res_bind r f = Inl e \<longleftrightarrow> r = Inl e \<or> (\<exists>x. r = Inr x \<and> f x = Inl e)"
  by (cases r) auto

lemma res_bind_assoc: "res_bind (res_bind r f) g = res_bind r (\<lambda>x. res_bind (f x) g)"
  by (cases r) auto

lemma map_err_simps [simp, res_simps]: "map_err g (Inl e) = Inl (g e)" "map_err g (Inr x) = Inr x"
  by (simp_all add: map_err_def)

lemma map_err_eq_Inr [simp]: "map_err g r = Inr x \<longleftrightarrow> r = Inr x"
  by (cases r) auto

lemma ok_or_simps [simp, res_simps]: "ok_or e None = Inl e" "ok_or e (Some x) = Inr x"
  by (simp_all add: ok_or_def)

lemma ok_or_eq_Inr [simp]: "ok_or e v = Inr x \<longleftrightarrow> v = Some x"
  by (cases v) auto

lemma res_check_simps [simp, res_simps]: "res_check True e = Inl e" "res_check False e = Inr ()"
  by (simp_all add: res_check_def)

lemma res_check_eq_Inr [simp]: "res_check bad e = Inr u \<longleftrightarrow> \<not> bad"
  by (simp add: res_check_def)

lemma res_check_eq_Inl [simp]: "res_check bad e = Inl e' \<longleftrightarrow> bad \<and> e' = e"
  by (auto simp: res_check_def)

lemma res_ok_simps [simp, res_simps]: "res_ok (Inl e) = False" "res_ok (Inr x) = True"
  by (simp_all add: res_ok_def)

lemma res_ok_iff: "res_ok r \<longleftrightarrow> (\<exists>x. r = Inr x)"
  by (cases r) auto

lemma res_opt_simps [simp, res_simps]:
  "res_opt f None = Inr None"
  "res_opt f (Some x) = res_bind (f x) (\<lambda>y. Inr (Some y))"
  by (simp_all add: res_opt_def)

lemma res_forM_ok [simp]: "res_forM f xs = Inr u \<longleftrightarrow> (\<forall>x\<in>set xs. f x = Inr ())"
  by (induction xs) auto

lemma res_forM_cong: "(\<And>x. x \<in> set xs \<Longrightarrow> f x = g x) \<Longrightarrow> res_forM f xs = res_forM g xs"
  by (induction xs) auto

lemma res_forM_append: "res_forM f (xs @ ys) = res_bind (res_forM f xs) (\<lambda>_. res_forM f ys)"
  by (induction xs) (auto simp: res_bind_assoc)

lemma res_mapM_ok: "res_mapM f xs = Inr ys \<longleftrightarrow> list_all2 (\<lambda>x y. f x = Inr y) xs ys"
proof (induction xs arbitrary: ys)
  case Nil
  then show ?case by auto
next
  case (Cons x xs)
  show ?case by (cases ys) (auto simp: Cons.IH)
qed

lemma res_mapM_map_ok: "(\<And>x. x \<in> set xs \<Longrightarrow> f (g x) = Inr x) \<Longrightarrow> res_mapM f (map g xs) = Inr xs"
  by (induction xs) auto

lemma res_mapM_eq_map: "(\<And>x. x \<in> set xs \<Longrightarrow> f x = Inr (h x)) \<Longrightarrow> res_mapM f xs = Inr (map h xs)"
  by (induction xs) auto

text \<open>Code that may also panic: a \<open>Result\<close> whose error is either the returned error or a panic with
  its message.\<close>

datatype 'e failure = Fail 'e | Panic string

section \<open>Stateful computations\<close>

type_synonym ('s, 'e, 'a) eff = "'s \<Rightarrow> ('e, 'a) result \<times> 's"

definition eff_ret :: "'a \<Rightarrow> ('s, 'e, 'a) eff" where
  "eff_ret x s = (Inr x, s)"

definition eff_err :: "'e \<Rightarrow> ('s, 'e, 'a) eff" where
  "eff_err e s = (Inl e, s)"

definition eff_lift :: "('e, 'a) result \<Rightarrow> ('s, 'e, 'a) eff" where
  "eff_lift r s = (r, s)"

definition eff_bind :: "('s, 'e, 'a) eff \<Rightarrow> ('a \<Rightarrow> ('s, 'e, 'b) eff) \<Rightarrow> ('s, 'e, 'b) eff" where
  "eff_bind m f s = (case m s of (Inl e, s') \<Rightarrow> (Inl e, s') | (Inr x, s') \<Rightarrow> f x s')"

text \<open>A \<open>match\<close> on the result of a call: the handler receives the whole \<open>Result\<close>.\<close>

definition eff_catch ::
  "('s, 'e, 'a) eff \<Rightarrow> (('e, 'a) result \<Rightarrow> ('s, 'f, 'b) eff) \<Rightarrow> ('s, 'f, 'b) eff" where
  "eff_catch m h s = (case m s of (r, s') \<Rightarrow> h r s')"

definition eff_map_err :: "('e \<Rightarrow> 'f) \<Rightarrow> ('s, 'e, 'a) eff \<Rightarrow> ('s, 'f, 'a) eff" where
  "eff_map_err g m s = (case m s of (r, s') \<Rightarrow> (map_err g r, s'))"

fun eff_forM :: "('a \<Rightarrow> ('s, 'e, unit) eff) \<Rightarrow> 'a list \<Rightarrow> ('s, 'e, unit) eff" where
  "eff_forM f [] = eff_ret ()"
| "eff_forM f (x # xs) = eff_bind (f x) (\<lambda>_. eff_forM f xs)"

text \<open>A loop that also accumulates a local value (a \<open>Vec\<close> it pushes to, say).\<close>

fun eff_foldM :: "('a \<Rightarrow> 'b \<Rightarrow> ('s, 'e, 'b) eff) \<Rightarrow> 'a list \<Rightarrow> 'b \<Rightarrow> ('s, 'e, 'b) eff" where
  "eff_foldM f [] acc = eff_ret acc"
| "eff_foldM f (x # xs) acc = eff_bind (f x acc) (eff_foldM f xs)"

lemma eff_ret_app [simp, eff_simps]: "eff_ret x s = (Inr x, s)"
  by (simp add: eff_ret_def)

lemma eff_err_app [simp, eff_simps]: "eff_err e s = (Inl e, s)"
  by (simp add: eff_err_def)

lemma eff_lift_app [simp, eff_simps]: "eff_lift r s = (r, s)"
  by (simp add: eff_lift_def)

lemma eff_bind_step [eff_simps]:
  "m s = (Inl e, s') \<Longrightarrow> eff_bind m f s = (Inl e, s')"
  "m s = (Inr x, s') \<Longrightarrow> eff_bind m f s = f x s'"
  by (simp_all add: eff_bind_def)

lemma eff_bind_eq_Inr:
  "eff_bind m f s = (Inr y, t) \<longleftrightarrow> (\<exists>x s'. m s = (Inr x, s') \<and> f x s' = (Inr y, t))"
  by (auto simp: eff_bind_def split: prod.splits sum.splits)

lemma eff_bind_eq_Inl:
  "eff_bind m f s = (Inl e, t) \<longleftrightarrow>
     m s = (Inl e, t) \<or> (\<exists>x s'. m s = (Inr x, s') \<and> f x s' = (Inl e, t))"
  by (auto simp: eff_bind_def split: prod.splits sum.splits)

lemma eff_bind_ret [simp, eff_simps]: "eff_bind (eff_ret x) f = f x"
  by (rule ext) (simp add: eff_bind_def)

lemma eff_bind_err [simp, eff_simps]: "eff_bind (eff_err e) f = eff_err e"
  by (rule ext) (simp add: eff_bind_def)

lemma eff_bind_lift_simps [simp, eff_simps]:
  "eff_bind (eff_lift (Inr x)) f = f x"
  "eff_bind (eff_lift (Inl e)) f = eff_err e"
  by (rule ext, simp add: eff_bind_def)+

lemma eff_bind_assoc: "eff_bind (eff_bind m f) g = eff_bind m (\<lambda>x. eff_bind (f x) g)"
  by (rule ext) (simp add: eff_bind_def split: prod.splits sum.splits)

section \<open>Invariants of stateful computations\<close>

definition keeps :: "('s \<Rightarrow> bool) \<Rightarrow> ('s, 'e, 'a) eff \<Rightarrow> bool" where
  "keeps P m \<longleftrightarrow> (\<forall>s. P s \<longrightarrow> P (snd (m s)))"

lemma keepsI: "(\<And>s. P s \<Longrightarrow> P (snd (m s))) \<Longrightarrow> keeps P m"
  by (simp add: keeps_def)

lemma keepsD: "keeps P m \<Longrightarrow> m s = (r, t) \<Longrightarrow> P s \<Longrightarrow> P t"
  by (auto simp: keeps_def dest!: spec [of _ s])

lemma keeps_ret [keeps_intros]: "keeps P (eff_ret x)"
  by (simp add: keeps_def)

lemma keeps_err [keeps_intros]: "keeps P (eff_err e)"
  by (simp add: keeps_def)

lemma keeps_lift [keeps_intros]: "keeps P (eff_lift r)"
  by (simp add: keeps_def)

lemma keeps_bind [keeps_intros]:
  assumes "keeps P m" and "\<And>x. keeps P (f x)"
  shows "keeps P (eff_bind m f)"
proof (rule keepsI)
  fix s
  assume P: "P s"
  obtain r s' where m: "m s = (r, s')" by (cases "m s")
  have P': "P s'" using keepsD [OF assms(1) m P] .
  show "P (snd (eff_bind m f s))"
  proof (cases r)
    case (Inl e)
    then show ?thesis using m P' by (simp add: eff_bind_def)
  next
    case (Inr x)
    then show ?thesis using m P' assms(2) [of x] by (simp add: eff_bind_def keeps_def)
  qed
qed

text \<open>After a pure check the rest may rely on its success.\<close>

lemma keeps_lift_bind: "(\<And>x. r = Inr x \<Longrightarrow> keeps P (f x)) \<Longrightarrow> keeps P (eff_bind (eff_lift r) f)"
  by (cases r) (auto intro: keeps_intros)

lemma keeps_catch [keeps_intros]:
  assumes "keeps P m" and "\<And>r. keeps P (h r)"
  shows "keeps P (eff_catch m h)"
proof (rule keepsI)
  fix s
  assume P: "P s"
  obtain r s' where m: "m s = (r, s')" by (cases "m s")
  have P': "P s'" using keepsD [OF assms(1) m P] .
  then show "P (snd (eff_catch m h s))"
    using m assms(2) [of r] by (simp add: eff_catch_def keeps_def)
qed

lemma keeps_map_err [keeps_intros]: "keeps P m \<Longrightarrow> keeps P (eff_map_err g m)"
  by (auto simp: keeps_def eff_map_err_def split: prod.splits)

lemma keeps_if [keeps_intros]: "keeps P m \<Longrightarrow> keeps P n \<Longrightarrow> keeps P (if b then m else n)"
  by simp

lemma keeps_case_option [keeps_intros]:
  "keeps P m \<Longrightarrow> (\<And>x. keeps P (f x)) \<Longrightarrow> keeps P (case v of None \<Rightarrow> m | Some x \<Rightarrow> f x)"
  by (cases v) auto

lemma keeps_case_sum [keeps_intros]:
  "(\<And>e. keeps P (f e)) \<Longrightarrow> (\<And>x. keeps P (g x)) \<Longrightarrow> keeps P (case r of Inl e \<Rightarrow> f e | Inr x \<Rightarrow> g x)"
  by (cases r) auto

lemma keeps_case_prod [keeps_intros]:
  "(\<And>x y. keeps P (f x y)) \<Longrightarrow> keeps P (case p of (x, y) \<Rightarrow> f x y)"
  by (cases p) auto

lemma keeps_let [keeps_intros]: "(\<And>x. keeps P (f x)) \<Longrightarrow> keeps P (Let v f)"
  by simp

lemma keeps_forM [keeps_intros]: "(\<And>x. keeps P (f x)) \<Longrightarrow> keeps P (eff_forM f xs)"
  by (induction xs) (auto intro: keeps_intros)

lemma keeps_foldM [keeps_intros]: "(\<And>x acc. keeps P (f x acc)) \<Longrightarrow> keeps P (eff_foldM f xs acc)"
  by (induction xs arbitrary: acc) (auto intro: keeps_intros)

section \<open>Lists\<close>

lemma find_None_iff_ex: "find P xs = None \<longleftrightarrow> (\<forall>x\<in>set xs. \<not> P x)"
  by (induction xs) auto

lemma find_SomeD: "find P xs = Some x \<Longrightarrow> x \<in> set xs \<and> P x"
  by (induction xs) (auto split: if_splits)

lemma take_eq_append: "take (length w) s = w \<Longrightarrow> \<exists>r. s = w @ r"
  by (metis append_take_drop_id)

text \<open>All unordered pairs of positions: what a loop over \<open>iter().skip(index + 1)\<close> visits.\<close>

fun pairwise_ok :: "('a \<Rightarrow> 'a \<Rightarrow> bool) \<Rightarrow> 'a list \<Rightarrow> bool" where
  "pairwise_ok R [] = True"
| "pairwise_ok R (x # xs) = ((\<forall>y\<in>set xs. R x y) \<and> pairwise_ok R xs)"

lemma pairwise_ok_append:
  "pairwise_ok R (xs @ ys) \<longleftrightarrow>
     pairwise_ok R xs \<and> pairwise_ok R ys \<and> (\<forall>x\<in>set xs. \<forall>y\<in>set ys. R x y)"
  by (induction xs) auto

lemma pairwise_ok_nth:
  "pairwise_ok R xs \<longleftrightarrow> (\<forall>i j. i < j \<longrightarrow> j < length xs \<longrightarrow> R (xs ! i) (xs ! j))"
proof (induction xs)
  case Nil
  then show ?case by simp
next
  case (Cons x xs)
  show ?case
  proof
    assume "pairwise_ok R (x # xs)"
    then show "\<forall>i j. i < j \<longrightarrow> j < length (x # xs) \<longrightarrow> R ((x # xs) ! i) ((x # xs) ! j)"
      using Cons.IH by (auto simp: nth_Cons split: nat.splits)
  next
    assume *: "\<forall>i j. i < j \<longrightarrow> j < length (x # xs) \<longrightarrow> R ((x # xs) ! i) ((x # xs) ! j)"
    have "R x y" if y: "y \<in> set xs" for y
    proof -
      from y obtain k where "k < length xs" "xs ! k = y" by (auto simp: in_set_conv_nth)
      then show ?thesis using * [rule_format, of 0 "Suc k"] by simp
    qed
    moreover have "R (xs ! i) (xs ! j)" if "i < j" "j < length xs" for i j
      using * [rule_format, of "Suc i" "Suc j"] that by simp
    ultimately show "pairwise_ok R (x # xs)" using Cons.IH by auto
  qed
qed

lemma pairwise_ok_sym:
  assumes "pairwise_ok R xs" and "\<And>x y. R x y \<Longrightarrow> R y x" and "i < length xs" "j < length xs" "i \<noteq> j"
  shows "R (xs ! i) (xs ! j)"
  using assms by (cases i j rule: linorder_cases) (auto simp: pairwise_ok_nth)

lemma pairwise_ok_map: "pairwise_ok R (map f xs) \<longleftrightarrow> pairwise_ok (\<lambda>x y. R (f x) (f y)) xs"
  by (induction xs) auto

lemma pairwise_ok_mono:
  "pairwise_ok R xs \<Longrightarrow> (\<And>x y. x \<in> set xs \<Longrightarrow> y \<in> set xs \<Longrightarrow> R x y \<Longrightarrow> S x y) \<Longrightarrow> pairwise_ok S xs"
  by (induction xs) auto

lemma pairwise_ok_filter: "pairwise_ok R xs \<Longrightarrow> pairwise_ok R (filter P xs)"
  by (induction xs) auto

lemma pairwise_ok_distinct:
  assumes "pairwise_ok R xs" and "\<And>x y. R x y \<Longrightarrow> R y x" and "x \<in> set xs" "y \<in> set xs" "x \<noteq> y"
  shows "R x y"
proof -
  from assms(3,4) obtain i j where "i < length xs" "j < length xs" "xs ! i = x" "xs ! j = y"
    by (auto simp: in_set_conv_nth)
  then show ?thesis using pairwise_ok_sym [OF assms(1,2), of i j] assms(5) by auto
qed

lemma pairwise_neq_distinct: "pairwise_ok (\<lambda>a b. f a \<noteq> f b) xs \<Longrightarrow> distinct (map f xs)"
  by (induction xs) auto

lemma pairwise_ok_set:
  "distinct xs \<Longrightarrow> (\<And>x y. x \<in> set xs \<Longrightarrow> y \<in> set xs \<Longrightarrow> x \<noteq> y \<Longrightarrow> R x y) \<Longrightarrow> pairwise_ok R xs"
  by (induction xs) auto

lemma pairwise_ok_list_all2:
  assumes "list_all2 Q xs ys" "pairwise_ok R xs"
    and "\<And>x x' y y'. x \<in> set xs \<Longrightarrow> x' \<in> set xs \<Longrightarrow> Q x y \<Longrightarrow> Q x' y' \<Longrightarrow> R x x' \<Longrightarrow> S y y'"
  shows "pairwise_ok S ys"
  using assms
proof (induction rule: list_all2_induct)
  case (Cons x xs y ys)
  have "S y y'" if y': "y' \<in> set ys" for y'
  proof -
    from y' obtain i where "i < length ys" "y' = ys ! i" by (auto simp: in_set_conv_nth)
    with Cons.hyps(2) obtain x' where "x' \<in> set xs" "Q x' y'"
      by (metis list_all2_conv_all_nth nth_mem)
    with Cons.prems(1) Cons.hyps(1) show ?thesis by (intro Cons.prems(2) [of x x' y y']) auto
  qed
  moreover have "pairwise_ok S ys"
  proof (rule Cons.IH)
    show "pairwise_ok R xs" using Cons.prems(1) by simp
    show "S b b'" if "a \<in> set xs" "a' \<in> set xs" "Q a b" "Q a' b'" "R a a'" for a a' b b'
      by (rule Cons.prems(2) [of a a']) (use that in auto)
  qed
  ultimately show ?case by simp
qed simp

end
