(* ===== verification/Rust_Std.thy ===== *)
theory Rust_Std
  imports Prelude
begin

text \<open>
  The parts of Rust's standard library the sources call, on the values they call them with.

  A Rust \<open>str\<close> is a sequence of UTF-8 bytes; it is a \<open>string\<close> here, one \<open>char\<close> per byte, so
  \<open>len()\<close> is \<open>length\<close> and \<open>==\<close>/\<open>Ord\<close> are equality and the lexicographic order of
  \<open>List_Lexorder\<close>. \<open>str::trim\<close> removes Unicode \<open>White_Space\<close> characters, whose UTF-8
  encodings \<open>white_space\<close> lists; since UTF-8 is self-synchronising, removing such byte
  sequences at the ends removes exactly those characters.

  An \<open>Ipv4Addr\<close> is its four octets. \<open>ip_to_string\<close> and \<open>parse_ipv4\<close> are its \<open>Display\<close> and
  \<open>FromStr\<close> (dotted decimal, at most three digits per octet, no leading zeros); the round trip
  between them is \<open>parse_ipv4_to_string\<close>.
\<close>

section \<open>Strings\<close>

definition white_space :: "string list" where
  "white_space =
     [[CHR 0x09], [CHR 0x0A], [CHR 0x0B], [CHR 0x0C], [CHR 0x0D], [CHR 0x20],
      [CHR 0xC2, CHR 0x85], [CHR 0xC2, CHR 0xA0],
      [CHR 0xE1, CHR 0x9A, CHR 0x80],
      [CHR 0xE2, CHR 0x80, CHR 0x80], [CHR 0xE2, CHR 0x80, CHR 0x81],
      [CHR 0xE2, CHR 0x80, CHR 0x82], [CHR 0xE2, CHR 0x80, CHR 0x83],
      [CHR 0xE2, CHR 0x80, CHR 0x84], [CHR 0xE2, CHR 0x80, CHR 0x85],
      [CHR 0xE2, CHR 0x80, CHR 0x86], [CHR 0xE2, CHR 0x80, CHR 0x87],
      [CHR 0xE2, CHR 0x80, CHR 0x88], [CHR 0xE2, CHR 0x80, CHR 0x89],
      [CHR 0xE2, CHR 0x80, CHR 0x8A],
      [CHR 0xE2, CHR 0x80, CHR 0xA8], [CHR 0xE2, CHR 0x80, CHR 0xA9],
      [CHR 0xE2, CHR 0x80, CHR 0xAF], [CHR 0xE2, CHR 0x81, CHR 0x9F],
      [CHR 0xE3, CHR 0x80, CHR 0x80]]"

text \<open>The white-space character a string starts with, if any.\<close>

definition ws_head :: "string \<Rightarrow> string option" where
  "ws_head s = find (\<lambda>w. take (length w) s = w) white_space"

definition ws_last :: "string \<Rightarrow> string option" where
  "ws_last s = find (\<lambda>w. take (length w) (rev s) = rev w) white_space"

lemma white_space_nonempty: "w \<in> set white_space \<Longrightarrow> w \<noteq> []"
  by (auto simp: white_space_def)

lemma ws_head_SomeD: "ws_head s = Some w \<Longrightarrow> w \<noteq> [] \<and> take (length w) s = w"
  by (auto simp: ws_head_def dest: find_SomeD white_space_nonempty)

lemma ws_last_SomeD: "ws_last s = Some w \<Longrightarrow> w \<noteq> [] \<and> take (length w) (rev s) = rev w"
  by (auto simp: ws_last_def dest: find_SomeD white_space_nonempty)

lemma ws_head_length: "ws_head s = Some w \<Longrightarrow> length s - length w < length s"
  using ws_head_SomeD [of s w] by (cases s) auto

lemma ws_last_length: "ws_last s = Some w \<Longrightarrow> length s - length w < length s"
  using ws_last_SomeD [of s w] by (cases s rule: rev_cases) auto

function trim_start :: "string \<Rightarrow> string" where
  "trim_start s = (case ws_head s of None \<Rightarrow> s | Some w \<Rightarrow> trim_start (drop (length w) s))"
  by pat_completeness auto
termination
  by (relation "measure length") (auto dest: ws_head_length)

function trim_end :: "string \<Rightarrow> string" where
  "trim_end s =
     (case ws_last s of None \<Rightarrow> s | Some w \<Rightarrow> trim_end (take (length s - length w) s))"
  by pat_completeness auto
termination
  by (relation "measure length") (auto dest: ws_last_length)

declare trim_start.simps [simp del] trim_end.simps [simp del]

definition trim :: "string \<Rightarrow> string" where
  "trim s = trim_end (trim_start s)"

definition ascii_lower :: "char \<Rightarrow> char" where
  "ascii_lower c =
     (if (65::nat) \<le> of_char c \<and> of_char c \<le> (90::nat) then char_of (of_char c + 32 :: nat) else c)"

definition to_ascii_lowercase :: "string \<Rightarrow> string" where
  "to_ascii_lowercase s = map ascii_lower s"

definition ascii_upper :: "char \<Rightarrow> char" where
  "ascii_upper c = (let n = of_char c :: nat in if 97 \<le> n \<and> n \<le> 122 then char_of (n - 32) else c)"

definition to_ascii_uppercase :: "string \<Rightarrow> string" where
  "to_ascii_uppercase s = map ascii_upper s"

definition eq_ignore_ascii_case :: "string \<Rightarrow> string \<Rightarrow> bool" where
  "eq_ignore_ascii_case s t \<longleftrightarrow> to_ascii_lowercase s = to_ascii_lowercase t"

definition is_ascii_alphanumeric :: "char \<Rightarrow> bool" where
  "is_ascii_alphanumeric c \<longleftrightarrow>
     (let n = of_char c :: nat
      in 48 \<le> n \<and> n \<le> 57 \<or> 65 \<le> n \<and> n \<le> 90 \<or> 97 \<le> n \<and> n \<le> 122)"

fun split_on :: "char \<Rightarrow> string \<Rightarrow> string list" where
  "split_on c [] = [[]]"
| "split_on c (x # xs) =
     (if x = c then [] # split_on c xs
      else (case split_on c xs of [] \<Rightarrow> [[x]] | p # ps \<Rightarrow> (x # p) # ps))"

definition str_contains :: "string \<Rightarrow> string \<Rightarrow> bool" where
  "str_contains s p = list_ex (\<lambda>i. take (length p) (drop i s) = p) [0..<Suc (length s)]"

definition strip_prefix :: "string \<Rightarrow> string \<Rightarrow> string option" where
  "strip_prefix p s = (if take (length p) s = p then Some (drop (length p) s) else None)"

fun intercalate :: "string \<Rightarrow> string list \<Rightarrow> string" where
  "intercalate sep [] = []"
| "intercalate sep [x] = x"
| "intercalate sep (x # y # ys) = x @ sep @ intercalate sep (y # ys)"

subsection \<open>Searching\<close>

lemma str_contains_iff: "str_contains s p \<longleftrightarrow> (\<exists>a b. s = a @ p @ b)"
proof
  assume "str_contains s p"
  then obtain i where "take (length p) (drop i s) = p"
    unfolding str_contains_def list_ex_iff by blast
  then have "s = take i s @ p @ drop (length p) (drop i s)" by (metis append_take_drop_id)
  then show "\<exists>a b. s = a @ p @ b" by blast
next
  assume "\<exists>a b. s = a @ p @ b"
  then obtain a b where "s = a @ p @ b" by blast
  then show "str_contains s p" by (auto simp: str_contains_def list_ex_iff intro!: bexI [of _ "length a"])
qed

subsection \<open>Trimming\<close>

lemma trim_start_no_head: "ws_head (trim_start s) = None"
proof (induction s rule: trim_start.induct)
  case (1 s)
  then show ?case by (cases "ws_head s") (simp_all add: trim_start.simps [of s])
qed

lemma trim_start_id [simp]: "ws_head s = None \<Longrightarrow> trim_start s = s"
  by (simp add: trim_start.simps)

lemma trim_end_no_last: "ws_last (trim_end s) = None"
proof (induction s rule: trim_end.induct)
  case (1 s)
  then show ?case by (cases "ws_last s") (simp_all add: trim_end.simps [of s])
qed

lemma trim_end_id [simp]: "ws_last s = None \<Longrightarrow> trim_end s = s"
  by (simp add: trim_end.simps)

lemma trim_end_prefix: "\<exists>r. s = trim_end s @ r"
proof (induction s rule: trim_end.induct)
  case (1 s)
  show ?case
  proof (cases "ws_last s")
    case None
    then show ?thesis by simp
  next
    case (Some w)
    with 1 obtain r where "take (length s - length w) s = trim_end (take (length s - length w) s) @ r"
      by blast
    then have "s = trim_end (take (length s - length w) s) @ r @ drop (length s - length w) s"
      by (metis append.assoc append_take_drop_id)
    moreover have "trim_end s = trim_end (take (length s - length w) s)"
      using Some by (simp add: trim_end.simps [of s])
    ultimately show ?thesis by metis
  qed
qed

lemma ws_head_append_None: "ws_head (s @ t) = None \<Longrightarrow> ws_head s = None"
proof (rule ccontr)
  assume none: "ws_head (s @ t) = None" and "ws_head s \<noteq> None"
  then obtain w where "ws_head s = Some w" by blast
  then have w: "w \<in> set white_space" "take (length w) s = w"
    by (auto simp: ws_head_def dest: find_SomeD)
  then obtain r where "s = w @ r" by (metis take_eq_append)
  then have "take (length w) (s @ t) = w" by simp
  with w(1) none show False by (auto simp: ws_head_def find_None_iff_ex)
qed

lemma trim_no_ws: "ws_head (trim s) = None" "ws_last (trim s) = None"
proof -
  obtain r where "trim_start s = trim s @ r"
    using trim_end_prefix [of "trim_start s"] by (auto simp: trim_def)
  then show "ws_head (trim s) = None"
    using trim_start_no_head [of s] ws_head_append_None by metis
  show "ws_last (trim s) = None"
    by (simp add: trim_def trim_end_no_last)
qed

lemma trim_trim [simp]: "trim (trim s) = trim s"
  using trim_no_ws [of s] by (simp add: trim_def [of "trim s"])

lemma trim_id: "ws_head s = None \<Longrightarrow> ws_last s = None \<Longrightarrow> trim s = s"
  by (simp add: trim_def)

lemma trim_Nil [simp]: "trim [] = []"
  by (rule trim_id) (simp_all add: ws_head_def ws_last_def white_space_def)

text \<open>A printable ASCII character is not the first or last byte of a white-space character.\<close>

definition ascii_graphic :: "char \<Rightarrow> bool" where
  "ascii_graphic c \<longleftrightarrow> (33::nat) \<le> of_char c \<and> of_char c \<le> (126::nat)"

lemma white_space_ends:
  "\<forall>w\<in>set white_space. \<not> ascii_graphic (hd w) \<and> \<not> ascii_graphic (last w)"
  by (simp add: white_space_def ascii_graphic_def)

lemma ws_head_graphic: "ascii_graphic c \<Longrightarrow> ws_head (c # s) = None"
  using white_space_ends white_space_nonempty
  by (auto simp: ws_head_def find_None_iff_ex take_Cons' dest!: bspec) (metis list.sel(1))

lemma ws_last_graphic: "ascii_graphic c \<Longrightarrow> ws_last (s @ [c]) = None"
proof -
  assume c: "ascii_graphic c"
  have "take (length w) (rev (s @ [c])) \<noteq> rev w" if w: "w \<in> set white_space" for w
  proof
    assume *: "take (length w) (rev (s @ [c])) = rev w"
    obtain v x where w': "w = v @ [x]" using white_space_nonempty [OF w] by (cases w rule: rev_cases) auto
    from * w' have "x = c" by simp
    with w w' c white_space_ends show False by force
  qed
  then show ?thesis by (simp add: ws_last_def find_None_iff_ex)
qed

lemma trim_graphic:
  assumes "s \<noteq> []" and "ascii_graphic (hd s)" and "ascii_graphic (last s)"
  shows "trim s = s"
proof (rule trim_id)
  show "ws_head s = None"
    using assms by (cases s) (auto simp: ws_head_graphic)
  show "ws_last s = None"
    using assms by (cases s rule: rev_cases) (auto simp: ws_last_graphic)
qed

subsection \<open>Splitting\<close>

lemma split_on_nonempty [simp]: "split_on c s \<noteq> []"
  by (induction s) (auto split: list.splits)

lemma split_on_no_sep: "c \<notin> set s \<Longrightarrow> split_on c s = [s]"
  by (induction s) auto

lemma split_on_append: "c \<notin> set s \<Longrightarrow> split_on c (s @ c # t) = s # split_on c t"
  by (induction s) auto

lemma intercalate_split_on: "intercalate [c] (split_on c s) = s"
proof (induction s)
  case (Cons x s)
  then show ?case by (cases "split_on c s"; cases "tl (split_on c s)") auto
qed simp

section \<open>Decimal numbers\<close>

definition digit_char :: "nat \<Rightarrow> char" where
  "digit_char d = char_of (48 + d)"

definition digit_val :: "char \<Rightarrow> nat option" where
  "digit_val c =
     (let n = of_char c :: nat in if 48 \<le> n \<and> n \<le> 57 then Some (n - 48) else None)"

fun show_nat :: "nat \<Rightarrow> string" where
  "show_nat n = (if n < 10 then [digit_char n] else show_nat (n div 10) @ [digit_char (n mod 10)])"

declare show_nat.simps [simp del]

definition show_int :: "int \<Rightarrow> string" where
  "show_int i = (if i < 0 then ''-'' @ show_nat (nat (- i)) else show_nat (nat i))"

fun read_digits :: "nat \<Rightarrow> string \<Rightarrow> nat option" where
  "read_digits acc [] = Some acc"
| "read_digits acc (c # cs) =
     (case digit_val c of None \<Rightarrow> None | Some d \<Rightarrow> read_digits (acc * 10 + d) cs)"

lemma digit_chars [simp]:
  "digit_char 0 = CHR ''0''" "digit_char (Suc 0) = CHR ''1''" "digit_char 2 = CHR ''2''"
  "digit_char 3 = CHR ''3''" "digit_char 4 = CHR ''4''" "digit_char 5 = CHR ''5''"
  "digit_char 6 = CHR ''6''" "digit_char 7 = CHR ''7''" "digit_char 8 = CHR ''8''"
  "digit_char 9 = CHR ''9''"
  by (simp_all add: digit_char_def char_of_def bit_0)

lemma digit_val_char [simp]: "d < 10 \<Longrightarrow> digit_val (digit_char d) = Some d"
  by (simp add: digit_val_def digit_char_def)

lemma digit_val_range: "digit_val c = Some d \<Longrightarrow> d < 10"
  by (auto simp: digit_val_def Let_def split: if_splits)

lemma read_digits_append:
  "read_digits acc (s @ t) = (case read_digits acc s of None \<Rightarrow> None | Some v \<Rightarrow> read_digits v t)"
  by (induction s arbitrary: acc) (auto split: option.splits)

lemma read_digits_show_nat [simp]: "read_digits 0 (show_nat n) = Some n"
proof (induction n rule: show_nat.induct)
  case (1 n)
  show ?case
  proof (cases "n < 10")
    case True
    then show ?thesis by (simp add: show_nat.simps)
  next
    case False
    then have "read_digits 0 (show_nat (n div 10)) = Some (n div 10)" using 1 by simp
    then show ?thesis
      using False by (subst show_nat.simps) (simp add: read_digits_append)
  qed
qed

lemma show_nat_inj: "show_nat m = show_nat n \<Longrightarrow> m = n"
  by (metis option.inject read_digits_show_nat)

lemma set_show_nat: "c \<in> set (show_nat n) \<Longrightarrow> \<exists>d < 10. c = digit_char d"
proof (induction n rule: show_nat.induct)
  case (1 n)
  show ?case
  proof (cases "n < 10")
    case True
    with 1 show ?thesis by (auto simp: show_nat.simps)
  next
    case False
    from False 1(2) have "c \<in> set (show_nat (n div 10)) \<or> c = digit_char (n mod 10)"
      by (subst (asm) show_nat.simps) auto
    moreover have "n mod 10 < 10" by simp
    ultimately show ?thesis using 1(1) False by blast
  qed
qed

lemma of_char_digit: "d < 10 \<Longrightarrow> of_char (digit_char d) = 48 + d"
  by (simp add: digit_char_def)

lemma digit_graphic: "d < 10 \<Longrightarrow> ascii_graphic (digit_char d)"
  by (simp add: ascii_graphic_def of_char_digit)

lemma show_nat_graphic: "c \<in> set (show_nat n) \<Longrightarrow> ascii_graphic c"
  using digit_graphic set_show_nat by blast

lemma show_nat_nonempty [simp]: "show_nat n \<noteq> []"
  by (subst show_nat.simps) simp

lemma digit_neq: "of_char c < (48::nat) \<or> (57::nat) < of_char c \<Longrightarrow> c \<notin> set (show_nat n)"
proof
  assume c: "of_char c < (48::nat) \<or> (57::nat) < of_char c" and "c \<in> set (show_nat n)"
  then obtain d where "d < 10" "c = digit_char d" using set_show_nat by blast
  then show False using c by (simp add: of_char_digit)
qed

lemma length_show_nat: "n < 10 \<Longrightarrow> length (show_nat n) = 1"
  "10 \<le> n \<Longrightarrow> n < 100 \<Longrightarrow> length (show_nat n) = 2"
  "100 \<le> n \<Longrightarrow> n < 1000 \<Longrightarrow> length (show_nat n) = 3"
proof -
  show one: "length (show_nat n) = 1" if "n < 10" for n
    using that by (simp add: show_nat.simps)
  show two: "length (show_nat n) = 2" if "10 \<le> n" "n < 100" for n
    using that one [of "n div 10"] by (subst show_nat.simps) auto
  show "length (show_nat n) = 3" if "100 \<le> n" "n < 1000" for n
    using that two [of "n div 10"] by (subst show_nat.simps) auto
qed

text \<open>The first digit of a number of several digits is not a zero.\<close>

lemma hd_show_nat: "10 \<le> n \<Longrightarrow> hd (show_nat n) \<noteq> CHR ''0''"
proof (induction n rule: show_nat.induct)
  case (1 n)
  then have rec: "show_nat n = show_nat (n div 10) @ [digit_char (n mod 10)]"
    by (subst show_nat.simps) simp
  show ?case
  proof (cases "n div 10 < 10")
    case True
    from 1(2) have pos: "0 < n div 10" by simp
    have "of_char (digit_char (n div 10)) = 48 + n div 10" using True by (simp add: of_char_digit)
    moreover have "of_char CHR ''0'' = (48::nat)" by simp
    ultimately have "digit_char (n div 10) \<noteq> CHR ''0''" using pos by force
    then show ?thesis using True rec by (simp add: show_nat.simps)
  next
    case False
    then show ?thesis using 1 rec by simp
  qed
qed

section \<open>IPv4 addresses\<close>

datatype ipv4_addr = Ipv4Addr (oct_a: u8) (oct_b: u8) (oct_c: u8) (oct_d: u8)

definition octets :: "ipv4_addr \<Rightarrow> u8 list" where
  "octets ip = [oct_a ip, oct_b ip, oct_c ip, oct_d ip]"

text \<open>\<open>u32::from(ip)\<close>: the octets in network order.\<close>

definition ip_to_bits :: "ipv4_addr \<Rightarrow> u32" where
  "ip_to_bits ip =
     of_nat (unat (oct_a ip) * 16777216 + unat (oct_b ip) * 65536 +
             unat (oct_c ip) * 256 + unat (oct_d ip))"

definition ip_is_private :: "ipv4_addr \<Rightarrow> bool" where
  "ip_is_private ip \<longleftrightarrow>
     oct_a ip = 10 \<or> oct_a ip = 172 \<and> 16 \<le> oct_b ip \<and> oct_b ip \<le> 31 \<or>
     oct_a ip = 192 \<and> oct_b ip = 168"

definition ip_is_loopback :: "ipv4_addr \<Rightarrow> bool" where
  "ip_is_loopback ip \<longleftrightarrow> oct_a ip = 127"

definition ip_is_link_local :: "ipv4_addr \<Rightarrow> bool" where
  "ip_is_link_local ip \<longleftrightarrow> oct_a ip = 169 \<and> oct_b ip = 254"

definition ip_is_multicast :: "ipv4_addr \<Rightarrow> bool" where
  "ip_is_multicast ip \<longleftrightarrow> 224 \<le> oct_a ip \<and> oct_a ip \<le> 239"

definition ip_is_broadcast :: "ipv4_addr \<Rightarrow> bool" where
  "ip_is_broadcast ip \<longleftrightarrow> ip = Ipv4Addr 255 255 255 255"

definition ip_is_unspecified :: "ipv4_addr \<Rightarrow> bool" where
  "ip_is_unspecified ip \<longleftrightarrow> ip = Ipv4Addr 0 0 0 0"

definition show_octet :: "u8 \<Rightarrow> string" where
  "show_octet b = show_nat (unat b)"

definition show_u16 :: "u16 \<Rightarrow> string" where
  "show_u16 p = show_nat (unat p)"

definition ip_to_string :: "ipv4_addr \<Rightarrow> string" where
  "ip_to_string ip =
     show_octet (oct_a ip) @ ''.'' @ show_octet (oct_b ip) @ ''.'' @
     show_octet (oct_c ip) @ ''.'' @ show_octet (oct_d ip)"

definition parse_octet :: "string \<Rightarrow> u8 option" where
  "parse_octet s =
     (if s = [] \<or> 3 < length s \<or> 1 < length s \<and> hd s = CHR ''0'' then None
      else (case read_digits 0 s of
              None \<Rightarrow> None
            | Some v \<Rightarrow> if v \<le> 255 then Some (of_nat v) else None))"

definition parse_ipv4 :: "string \<Rightarrow> ipv4_addr option" where
  "parse_ipv4 s =
     (case split_on CHR ''.'' s of
        [a, b, c, d] \<Rightarrow>
          (case (parse_octet a, parse_octet b, parse_octet c, parse_octet d) of
             (Some w, Some x, Some y, Some z) \<Rightarrow> Some (Ipv4Addr w x y z)
           | _ \<Rightarrow> None)
      | _ \<Rightarrow> None)"

lemma parse_octet_show [simp]: "parse_octet (show_octet b) = Some b"
proof -
  have less: "unat b < 256" by simp
  have len: "length (show_nat (unat b)) \<le> 3"
    using less less_trans [OF less, of 1000] length_show_nat [of "unat b"] by (cases "unat b < 10"; cases "unat b < 100") (simp_all add: not_less)
  have "\<not> (1 < length (show_nat (unat b)) \<and> hd (show_nat (unat b)) = CHR ''0'')"
    using hd_show_nat [of "unat b"] length_show_nat(1) [of "unat b"]
    by (cases "unat b < 10") auto
  moreover have "unat b \<le> 255" using less by linarith
  ultimately show ?thesis using len by (simp add: parse_octet_def show_octet_def)
qed

lemma dot_not_in_octet: "CHR ''.'' \<notin> set (show_octet b)"
  unfolding show_octet_def by (rule digit_neq) simp

lemma parse_ipv4_to_string [simp]: "parse_ipv4 (ip_to_string ip) = Some ip"
  by (cases ip)
    (simp add: parse_ipv4_def ip_to_string_def split_on_append split_on_no_sep dot_not_in_octet)

text \<open>Both parsers accept one spelling of each value: there are no leading zeros.\<close>

lemma show_read_digits:
  "s \<noteq> [] \<Longrightarrow> hd s \<noteq> CHR ''0'' \<or> length s = 1 \<Longrightarrow> read_digits 0 s = Some n \<Longrightarrow> show_nat n = s"
proof (induction s arbitrary: n rule: rev_induct)
  case (snoc c s)
  then obtain v d where v: "read_digits 0 s = Some v" and d: "digit_val c = Some d" and n: "n = v * 10 + d"
    by (auto simp: read_digits_append split: option.splits)
  have c: "digit_char d = c" using d by (auto simp: digit_val_def digit_char_def Let_def split: if_splits)
  have dl: "d < 10" using d by (rule digit_val_range)
  show ?case
  proof (cases "s = []")
    case True
    then show ?thesis using v n c dl by (simp add: show_nat.simps)
  next
    case False
    then have hd: "hd s \<noteq> CHR ''0''" using snoc.prems(2) by (simp add: hd_append)
    with False have s: "show_nat v = s" using snoc.IH v by blast
    have "v \<noteq> 0"
    proof
      assume "v = 0"
      then show False using s hd by (auto simp: show_nat.simps)
    qed
    then show ?thesis using n c dl s by (subst show_nat.simps) simp
  qed
qed simp

lemma parse_octet_canonical: "parse_octet s = Some b \<Longrightarrow> s = show_octet b"
proof -
  assume *: "parse_octet s = Some b"
  then obtain v where v: "read_digits 0 s = Some v" "v \<le> 255" "b = of_nat v"
    and s: "s \<noteq> []" "hd s \<noteq> CHR ''0'' \<or> length s = 1"
    by (cases s) (auto simp: parse_octet_def split: if_splits option.splits)
  have "unat b = v" using v by (simp add: unat_of_nat)
  then show ?thesis using show_read_digits [OF s v(1)] by (simp add: show_octet_def)
qed

lemma parse_ipv4_canonical: "parse_ipv4 s = Some ip \<Longrightarrow> s = ip_to_string ip"
proof -
  assume "parse_ipv4 s = Some ip"
  then obtain a b c d where sp: "split_on CHR ''.'' s = [a, b, c, d]"
    and "parse_octet a = Some (oct_a ip)" "parse_octet b = Some (oct_b ip)"
      "parse_octet c = Some (oct_c ip)" "parse_octet d = Some (oct_d ip)"
    by (auto simp: parse_ipv4_def split: list.splits option.splits)
  then have "s = intercalate ''.'' [show_octet (oct_a ip), show_octet (oct_b ip),
      show_octet (oct_c ip), show_octet (oct_d ip)]"
    using intercalate_split_on [of "CHR ''.''" s] by (auto dest!: parse_octet_canonical)
  then show ?thesis by (simp add: ip_to_string_def)
qed

lemma ip_to_string_inj [simp]: "ip_to_string x = ip_to_string y \<longleftrightarrow> x = y"
  by (metis option.inject parse_ipv4_to_string)

lemma show_u16_inj [simp]: "show_u16 p = show_u16 q \<longleftrightarrow> p = q"
  by (metis show_nat_inj show_u16_def unsigned_word_eqI)

lemma unat_ip_to_bits:
  "unat (ip_to_bits ip) =
     unat (oct_a ip) * 16777216 + unat (oct_b ip) * 65536 + unat (oct_c ip) * 256 + unat (oct_d ip)"
proof -
  have "unat (oct_a ip) * 16777216 + unat (oct_b ip) * 65536 + unat (oct_c ip) * 256 + unat (oct_d ip)
      < 4294967296"
    using unat_u8_less [of "oct_a ip"] unat_u8_less [of "oct_b ip"]
      unat_u8_less [of "oct_c ip"] unat_u8_less [of "oct_d ip"] by linarith
  then show ?thesis unfolding ip_to_bits_def unat_of_nat by simp
qed

text \<open>The inverse of \<open>ip_to_bits\<close>, \<open>Ipv4Addr::from(u32)\<close>.\<close>

definition ip_from_bits :: "u32 \<Rightarrow> ipv4_addr" where
  "ip_from_bits w =
     Ipv4Addr (of_nat (unat w div 16777216)) (of_nat (unat w div 65536))
       (of_nat (unat w div 256)) (of_nat (unat w))"

lemma of_nat_u8_mod: "(of_nat n :: u8) = of_nat (n mod 256)"
  by (simp add: word_of_nat_eq_iff take_bit_eq_mod)

lemma ip_from_to_bits [simp]: "ip_from_bits (ip_to_bits ip) = ip"
proof (cases ip)
  case (Ipv4Addr a b c d)
  have split: "((x * 16777216 + y * 65536 + z * 256 + w) div 16777216) mod 256 = x"
    "((x * 16777216 + y * 65536 + z * 256 + w) div 65536) mod 256 = y"
    "((x * 16777216 + y * 65536 + z * 256 + w) div 256) mod 256 = z"
    "(x * 16777216 + y * 65536 + z * 256 + w) mod 256 = w"
    if "x < 256" "y < 256" "z < 256" "w < 256" for x y z w :: nat
  proof -
    have nest: "x * 16777216 + y * 65536 + z * 256 + w = ((x * 256 + y) * 256 + z) * 256 + w" by simp
    have d1: "(((x * 256 + y) * 256 + z) * 256 + w) div 256 = (x * 256 + y) * 256 + z"
      using that by simp
    have d2: "((x * 256 + y) * 256 + z) div 256 = x * 256 + y" using that by simp
    have d3: "(x * 256 + y) div 256 = x" using that by simp
    have dd: "n div 65536 = n div 256 div 256" "n div 16777216 = n div 256 div 256 div 256"
      for n :: nat by (simp_all flip: div_mult2_eq)
    show "((x * 16777216 + y * 65536 + z * 256 + w) div 16777216) mod 256 = x"
      "((x * 16777216 + y * 65536 + z * 256 + w) div 65536) mod 256 = y"
      "((x * 16777216 + y * 65536 + z * 256 + w) div 256) mod 256 = z"
      "(x * 16777216 + y * 65536 + z * 256 + w) mod 256 = w"
      unfolding nest dd d1 d2 d3 using that by (simp_all only: mod_mult_self3 mod_less)
  qed
  have s: "unat (ip_to_bits (Ipv4Addr a b c d)) = unat a * 16777216 + unat b * 65536 + unat c * 256 + unat d"
    by (simp add: unat_ip_to_bits)
  show ?thesis
    unfolding Ipv4Addr ip_from_bits_def s
    by (subst (1 2 3 4) of_nat_u8_mod) (simp only: split unat_u8_less, simp)
qed

lemma ip_to_bits_inj [simp]: "ip_to_bits x = ip_to_bits y \<longleftrightarrow> x = y"
  by (metis ip_from_to_bits)

text \<open>Blocks of addresses: a value lies between the ends of a network of prefix length 8, of a
  run of networks of prefix length 16, or of one of prefix length 24 exactly when its leading
  octets do.\<close>

lemma ip_blocks:
  fixes A B C D :: nat
  assumes "B < 256" "C < 256" "D < 256"
  defines "n \<equiv> A * 16777216 + B * 65536 + C * 256 + D"
  shows "a * 16777216 \<le> n \<and> n \<le> a * 16777216 + 16777215 \<longleftrightarrow> A = a"
    and "b' < 256 \<Longrightarrow> a * 16777216 + b * 65536 \<le> n \<and> n \<le> a * 16777216 + b' * 65536 + 65535 \<longleftrightarrow>
      A = a \<and> b \<le> B \<and> B \<le> b'"
    and "b < 256 \<Longrightarrow> c < 256 \<Longrightarrow> 
      a * 16777216 + b * 65536 + c * 256 \<le> n \<and> n \<le> a * 16777216 + b * 65536 + c * 256 + 255 \<longleftrightarrow>
      A = a \<and> B = b \<and> C = c"
proof -
  show "a * 16777216 \<le> n \<and> n \<le> a * 16777216 + 16777215 \<longleftrightarrow> A = a"
    unfolding n_def using assms(1-3) by linarith
  show "a * 16777216 + b * 65536 \<le> n \<and> n \<le> a * 16777216 + b' * 65536 + 65535 \<longleftrightarrow> A = a \<and> b \<le> B \<and> B \<le> b'"
    if b': "b' < 256"
  proof -
    have "a * 16777216 + b * 65536 \<le> n \<Longrightarrow> n \<le> a * 16777216 + b' * 65536 + 65535 \<Longrightarrow> A = a"
      unfolding n_def using assms(1-3) b' by linarith
    then show ?thesis unfolding n_def using assms(1-3) by (cases "A = a") auto
  qed
  show "a * 16777216 + b * 65536 + c * 256 \<le> n \<and> n \<le> a * 16777216 + b * 65536 + c * 256 + 255 \<longleftrightarrow> A = a \<and> B = b \<and> C = c"
    if bc: "b < 256" "c < 256"
  proof -
    have a: "a * 16777216 + b * 65536 + c * 256 \<le> n \<Longrightarrow> n \<le> a * 16777216 + b * 65536 + c * 256 + 255 \<Longrightarrow> A = a"
      unfolding n_def using assms(1-3) bc by linarith
    have "a * 16777216 + b * 65536 + c * 256 \<le> n \<Longrightarrow> n \<le> a * 16777216 + b * 65536 + c * 256 + 255 \<Longrightarrow> B = b"
      using a unfolding n_def using assms(1-3) bc by linarith
    with a show ?thesis unfolding n_def using assms(1-3) by (cases "A = a"; cases "B = b") auto
  qed
qed

lemma octet_cmp:
  "(w :: u8) = v \<longleftrightarrow> unat w = unat v"
  by (auto intro: unsigned_word_eqI)

lemma addr_cmp: "ip = Ipv4Addr a b c d \<longleftrightarrow> unat (oct_a ip) = unat a \<and> unat (oct_b ip) = unat b \<and> unat (oct_c ip) = unat c \<and> unat (oct_d ip) = unat d" 
  by (cases ip) (auto simp: octet_cmp)

end
