(* ===== verification/Http_Auth.thy ===== *)
theory Http_Auth
  imports Rust_Std
begin

unbundle bit_operations_syntax

text \<open>
  Bearer tokens, which the agent (\<open>src/crates/edge-agent/src/api.rs\<close>) and the gateway
  (\<open>src/crates/edge-gateway/src/main.rs\<close>) check with the same code: the comparison
  \<open>constant_time_eq\<close>, of which each crate has a copy, and the reading of the \<open>Authorization\<close> header.

  The \<open>http\<close> crate's \<open>HeaderMap\<close> is a type parameter with its functions in \<open>header_ops\<close>:
  \<open>HeaderMap::get\<close> (the first value of a name) and \<open>HeaderValue::to_str\<close>. A string is its bytes, so
  \<open>as_bytes\<close> is the identity.

  The locale \<open>bearer_guard\<close> is what a service promises of its check; what follows for the handlers
  behind the check is proved in it once.
\<close>

section \<open>Comparing tokens\<close>

definition byte_at :: "string \<Rightarrow> nat \<Rightarrow> u8" where
  "byte_at s i = (if i < length s then of_char (s ! i) else 0)"

definition constant_time_eq :: "string \<Rightarrow> string \<Rightarrow> bool" where
  "constant_time_eq left right \<longleftrightarrow>
     fold (\<lambda>idx diff. diff OR ucast (byte_at left idx XOR byte_at right idx))
       [0..<max (length left) (length right)]
       ((of_nat (length left) :: u64) XOR of_nat (length right)) = 0"

text \<open>A Rust string has at most \<open>isize::MAX\<close> bytes.\<close>

definition rust_str :: "string \<Rightarrow> bool" where
  "rust_str s \<longleftrightarrow> length s < 2 ^ 63"

lemma word_xor_eq_0: "(a :: 'a::len word) XOR b = 0 \<longleftrightarrow> a = b"
proof
  assume "a XOR b = 0"
  then have "(a XOR b) XOR b = b" by simp
  then show "a = b" by (simp add: xor.assoc)
qed simp

lemma fold_or_eq_0:
  "fold (\<lambda>i d. d OR f i) is d = 0 \<longleftrightarrow> d = (0 :: 'a::len word) \<and> (\<forall>i\<in>set is. f i = 0)"
  by (induction "is" arbitrary: d) (auto simp: or_eq_0_iff)

lemma ucast_u8_eq_0: "(ucast (x :: u8) :: u64) = 0 \<longleftrightarrow> x = 0"
proof
  have "unat x < 2 ^ 64" using unat_u8_less [of x] by (rule order_less_trans) simp
  moreover assume "(ucast x :: u64) = 0"
  then have "unat (ucast x :: u64) = 0" by simp
  ultimately show "x = 0" by (simp add: unsigned_ucast_eq take_bit_nat_eq_self unat_eq_zero)
qed simp

lemma of_char_u8_inj: "(of_char c :: u8) = of_char d \<longleftrightarrow> c = d"
proof
  have n: "(of_char x :: u8) = of_nat (of_char x)" for x
    by (rule of_nat_of_char [symmetric])
  assume "(of_char c :: u8) = of_char d"
  then have "unat (of_nat (of_char c) :: u8) = unat (of_nat (of_char d) :: u8)" by (simp only: n)
  then have "(of_char c :: nat) = of_char d"
    using nat_of_char_less_256 [of c] nat_of_char_less_256 [of d] by (simp add: unat_of_nat)
  then show "c = d" by simp
qed simp

lemma constant_time_eq_iff:
  assumes "length l < 2 ^ 64" "length r < 2 ^ 64"
  shows "constant_time_eq l r \<longleftrightarrow> l = r"
proof -
  have len: "(of_nat (length l) :: u64) = of_nat (length r) \<longleftrightarrow> length l = length r"
    using assms word_of_nat_eq_iff [where 'a = 64] by (simp add: take_bit_nat_eq_self)
  have "constant_time_eq l r \<longleftrightarrow>
      length l = length r \<and> (\<forall>i < max (length l) (length r). byte_at l i = byte_at r i)"
    unfolding constant_time_eq_def fold_or_eq_0 word_xor_eq_0 ucast_u8_eq_0 len by auto
  also have "\<dots> \<longleftrightarrow> l = r"
    by (auto simp: byte_at_def of_char_u8_inj intro!: nth_equalityI)
  finally show ?thesis .
qed

section \<open>The header\<close>

record 'm header_ops =
  header_get :: "'m \<Rightarrow> string \<Rightarrow> string option"
  header_to_str :: "string \<Rightarrow> string option"

definition authorization :: "('m, 'x) header_ops_scheme \<Rightarrow> 'm \<Rightarrow> string option" where
  "authorization H hs = Option.bind (header_get H hs ''authorization'') (header_to_str H)"

definition bearer_token :: "('m, 'x) header_ops_scheme \<Rightarrow> 'm \<Rightarrow> string option" where
  "bearer_token H hs = Option.bind (authorization H hs) (strip_prefix ''Bearer '')"

lemma strip_prefix_eq_Some: "strip_prefix p s = Some r \<longleftrightarrow> s = p @ r"
  by (auto simp: strip_prefix_def) (metis append_take_drop_id)

lemma bearer_token_eq_Some: "bearer_token H hs = Some t \<longleftrightarrow> authorization H hs = Some (''Bearer '' @ t)"
  by (auto simp: bearer_token_def bind_eq_Some_conv strip_prefix_eq_Some)

text \<open>The texts involved are Rust strings.\<close>

definition auth_sized :: "('m, 'x) header_ops_scheme \<Rightarrow> 'm \<Rightarrow> string \<Rightarrow> bool" where
  "auth_sized H hs t \<longleftrightarrow> rust_str t \<and> (\<forall>v. authorization H hs = Some v \<longrightarrow> rust_str v)"

section \<open>Guards\<close>

locale bearer_guard =
  fixes guard :: "('m, 'x) header_ops_scheme \<Rightarrow> string option \<Rightarrow> 'm \<Rightarrow> ('e, unit) result"
    and denied :: 'e
  assumes no_token: "guard H None hs = Inr ()"
    and accepts: "auth_sized H hs t \<Longrightarrow> authorization H hs = Some (''Bearer '' @ t) \<Longrightarrow>
      guard H (Some t) hs = Inr ()"
    and refuses: "auth_sized H hs t \<Longrightarrow> authorization H hs \<noteq> Some (''Bearer '' @ t) \<Longrightarrow>
      guard H (Some t) hs = Inl denied"
begin

lemma guard_exact:
  "auth_sized H hs t \<Longrightarrow>
     guard H (Some t) hs = (if authorization H hs = Some (''Bearer '' @ t) then Inr () else Inl denied)"
  by (simp add: accepts refuses)

text \<open>A handler that starts with the guard answers a caller without the token with \<open>denied\<close> and has
  no effect.\<close>

lemma guarded_denied:
  assumes "auth_sized H hs t" "authorization H hs \<noteq> Some (''Bearer '' @ t)"
  shows "eff_bind (eff_lift (map_err f (guard H (Some t) hs))) k s = (Inl (f denied), s)"
  using refuses [OF assms] by simp

text \<open>With the token the guard is transparent.\<close>

lemma guarded_allowed:
  assumes "auth_sized H hs t" "authorization H hs = Some (''Bearer '' @ t)"
  shows "eff_bind (eff_lift (map_err f (guard H (Some t) hs))) k = k ()"
  using accepts [OF assms] by simp

end

text \<open>The check as both services write it, with the error they answer with.\<close>

definition check_bearer :: "'e \<Rightarrow> ('m, 'x) header_ops_scheme \<Rightarrow> string option \<Rightarrow> 'm \<Rightarrow> ('e, unit) result" where
  "check_bearer denied H token hs =
     (case token of
        None \<Rightarrow> Inr ()
      | Some expected \<Rightarrow>
          (case bearer_token H hs of
             None \<Rightarrow> Inl denied
           | Some actual \<Rightarrow> (if constant_time_eq actual expected then Inr () else Inl denied)))"

lemma check_bearer_guard: "bearer_guard (check_bearer denied) denied"
proof
  fix H :: "('a, 'b) header_ops_scheme" and hs :: 'a and t :: string
  show "check_bearer denied H None hs = Inr ()" by (simp add: check_bearer_def)
  assume sized: "auth_sized H hs t"
  have eq: "constant_time_eq a t \<longleftrightarrow> a = t" if "bearer_token H hs = Some a" for a
    using sized that by (intro constant_time_eq_iff) (auto simp: auth_sized_def rust_str_def bearer_token_eq_Some)
  show "check_bearer denied H (Some t) hs = Inr ()" if "authorization H hs = Some (''Bearer '' @ t)"
    using that eq [of t] bearer_token_eq_Some [of H hs t] by (simp add: check_bearer_def)
  show "check_bearer denied H (Some t) hs = Inl denied" if "authorization H hs \<noteq> Some (''Bearer '' @ t)"
    using that eq bearer_token_eq_Some [of H hs] by (auto simp: check_bearer_def split: option.splits)
qed

end
