(* ===== verification/Core_Mapping.thy ===== *)
theory Core_Mapping
  imports Rust_Std
begin

text \<open>
  The data model of \<open>edge-core\<close> (\<open>src/crates/edge-core/src/mapping.rs\<close> and
  \<open>errors.rs\<close>): the error type, mapping identifiers, the enumerations with their wire names and
  parsers, the configuration and the mapping record.

  Values the code gets from outside are arguments: \<open>now\<close> is what \<open>OffsetDateTime::now_utc()\<close>
  returns (an instant, in nanoseconds since the epoch) and \<open>uuid\<close> the text of a fresh UUID.
  The \<open>ipnet\<close> crate is not part of the repository: an \<open>Ipv4Net\<close> is its address and prefix
  length, and the crate's functions are the fields of \<open>ipnet_ops\<close>, a parameter of every
  definition that calls them.
\<close>

section \<open>The ipnet crate\<close>

datatype ipv4_net = Ipv4Net (net_addr: ipv4_addr) (net_prefix_len: u8)

record ipnet_ops =
  net_contains :: "ipv4_net \<Rightarrow> ipv4_addr \<Rightarrow> bool"
  net_network :: "ipv4_net \<Rightarrow> ipv4_addr"
  net_broadcast :: "ipv4_net \<Rightarrow> ipv4_addr"
  net_to_string :: "ipv4_net \<Rightarrow> string"

text \<open>What the crate documents of \<open>contains\<close>, \<open>network\<close> and \<open>broadcast\<close>: a network holds the
  addresses from its network address to its broadcast address.\<close>

definition ipnet_doc :: "'a ipnet_ops_scheme \<Rightarrow> bool" where
  "ipnet_doc N \<longleftrightarrow>
     (\<forall>n ip. net_contains N n ip \<longleftrightarrow>
        ip_to_bits (net_network N n) \<le> ip_to_bits ip \<and>
        ip_to_bits ip \<le> ip_to_bits (net_broadcast N n))"

section \<open>Identifiers\<close>

datatype mapping_id = MappingId (id_str: string)

instantiation mapping_id :: linorder
begin

definition less_eq_mapping_id :: "mapping_id \<Rightarrow> mapping_id \<Rightarrow> bool" where
  "less_eq_mapping_id a b \<longleftrightarrow> id_str a \<le> id_str b"

definition less_mapping_id :: "mapping_id \<Rightarrow> mapping_id \<Rightarrow> bool" where
  "less_mapping_id a b \<longleftrightarrow> id_str a < id_str b"

instance
  by standard
    (auto simp: less_eq_mapping_id_def less_mapping_id_def mapping_id.expand)

end

section \<open>Errors\<close>

datatype edge_core_error =
    Validation string
  | NotFound mapping_id
  | DuplicatePublicIp ipv4_addr
  | DuplicateEdgePrivateIp ipv4_addr
  | DuplicateTargetIp ipv4_addr
  | DuplicateMappingId mapping_id
  | Store string

fun core_error_to_string :: "edge_core_error \<Rightarrow> string" where
  "core_error_to_string (Validation m) = ''validation failed: '' @ m"
| "core_error_to_string (NotFound i) = ''mapping not found: '' @ id_str i"
| "core_error_to_string (DuplicatePublicIp ip) = ''public IP already mapped: '' @ ip_to_string ip"
| "core_error_to_string (DuplicateEdgePrivateIp ip) =
     ''edge private IP already mapped: '' @ ip_to_string ip"
| "core_error_to_string (DuplicateTargetIp ip) = ''target IP already mapped: '' @ ip_to_string ip"
| "core_error_to_string (DuplicateMappingId i) = ''mapping id already exists: '' @ id_str i"
| "core_error_to_string (Store m) = ''store error: '' @ m"

type_synonym 'a core_result = "(edge_core_error, 'a) result"

definition mapping_id_new :: "string \<Rightarrow> mapping_id" where
  "mapping_id_new uuid = MappingId (''map_'' @ uuid)"

definition mapping_id_from_str :: "string \<Rightarrow> mapping_id core_result" where
  "mapping_id_from_str value =
     (let trimmed = trim value
      in if trimmed = [] then Inl (Validation ''mapping id cannot be empty'')
         else Inr (MappingId trimmed))"

section \<open>Enumerations\<close>

datatype protocol = ProtoAll | Tcp | Udp
datatype mapping_mode = OneToOneSnat | PortForwardSnat
datatype mapping_backend = Nft | Xdp | Proxy
datatype mapping_status = MPending | MActive | MDisabled | MDegraded | MError
datatype oci_auth_mode = InstancePrincipal | ApiKey

text \<open>The names \<open>serde\<close> writes for the variants (\<open>rename_all = "snake_case"\<close>).\<close>

fun protocol_wire :: "protocol \<Rightarrow> string" where
  "protocol_wire ProtoAll = ''all''"
| "protocol_wire Tcp = ''tcp''"
| "protocol_wire Udp = ''udp''"

fun mode_wire :: "mapping_mode \<Rightarrow> string" where
  "mode_wire OneToOneSnat = ''one_to_one_snat''"
| "mode_wire PortForwardSnat = ''port_forward_snat''"

fun backend_wire :: "mapping_backend \<Rightarrow> string" where
  "backend_wire Nft = ''nft''"
| "backend_wire Xdp = ''xdp''"
| "backend_wire Proxy = ''proxy''"

fun status_wire :: "mapping_status \<Rightarrow> string" where
  "status_wire MPending = ''pending''"
| "status_wire MActive = ''active''"
| "status_wire MDisabled = ''disabled''"
| "status_wire MDegraded = ''degraded''"
| "status_wire MError = ''error''"

definition protocol_from_str :: "string \<Rightarrow> protocol core_result" where
  "protocol_from_str value =
     (let v = to_ascii_lowercase (trim value)
      in if v = ''all'' then Inr ProtoAll
         else if v = ''tcp'' then Inr Tcp
         else if v = ''udp'' then Inr Udp
         else Inl (Validation (''unsupported protocol: '' @ v)))"

definition mode_from_str :: "string \<Rightarrow> mapping_mode core_result" where
  "mode_from_str value =
     (let v = to_ascii_lowercase (trim value)
      in if v = ''one_to_one_snat'' then Inr OneToOneSnat
         else if v = ''port_forward_snat'' then Inr PortForwardSnat
         else Inl (Validation (''unsupported mapping mode: '' @ v)))"

definition backend_from_str :: "string \<Rightarrow> mapping_backend core_result" where
  "backend_from_str value =
     (let v = to_ascii_lowercase (trim value)
      in if v = ''nft'' then Inr Nft
         else if v = ''xdp'' then Inr Xdp
         else if v = ''proxy'' then Inr Proxy
         else Inl (Validation (''unsupported mapping backend: '' @ v)))"

definition oci_auth_from_str :: "string \<Rightarrow> oci_auth_mode core_result" where
  "oci_auth_from_str value =
     (let v = to_ascii_lowercase (trim value)
      in if v = ''instance_principal'' then Inr InstancePrincipal
         else if v = ''api_key'' then Inr ApiKey
         else Inl (Validation (''unsupported OCI auth mode: '' @ v)))"

section \<open>Configuration and mappings\<close>

record edge_config =
  wan_interface :: string
  netbird_interface :: string
  target_cidrs :: "ipv4_net list"
  oci_compartment_id :: "string option"
  oci_vnic_id :: "string option"
  oci_subnet_id :: "string option"
  oci_nsg_ids :: "string list"
  oci_region :: "string option"
  oci_auth :: oci_auth_mode
  api_token :: "string option"

definition edge_config_new :: "string \<Rightarrow> string \<Rightarrow> ipv4_net list \<Rightarrow> edge_config" where
  "edge_config_new wan nb cidrs =
     \<lparr>wan_interface = wan, netbird_interface = nb, target_cidrs = cidrs,
      oci_compartment_id = None, oci_vnic_id = None, oci_subnet_id = None, oci_nsg_ids = [],
      oci_region = None, oci_auth = InstancePrincipal, api_token = None\<rparr>"

definition contains_target :: "'a ipnet_ops_scheme \<Rightarrow> edge_config \<Rightarrow> ipv4_addr \<Rightarrow> bool" where
  "contains_target N cfg ip = list_ex (\<lambda>cidr. net_contains N cidr ip) (target_cidrs cfg)"

type_synonym timestamp = int

record mapping =
  m_id :: mapping_id
  m_name :: string
  public_ip :: "ipv4_addr option"
  oci_public_ip_ocid :: "string option"
  edge_private_ip :: ipv4_addr
  oci_private_ip_ocid :: "string option"
  target_ip :: ipv4_addr
  public_port :: "u16 option"
  target_port :: "u16 option"
  m_protocol :: protocol
  m_mode :: mapping_mode
  m_backend :: mapping_backend
  enabled :: bool
  m_status :: mapping_status
  last_error :: "string option"
  health_status :: "string option"
  last_checked_at :: "timestamp option"
  created_at :: timestamp
  updated_at :: timestamp

definition mapping_new ::
  "string \<Rightarrow> timestamp \<Rightarrow> string \<Rightarrow> ipv4_addr option \<Rightarrow> ipv4_addr \<Rightarrow> ipv4_addr \<Rightarrow> mapping" where
  "mapping_new uuid now name pub edge target =
     \<lparr>m_id = mapping_id_new uuid, m_name = name, public_ip = pub, oci_public_ip_ocid = None,
      edge_private_ip = edge, oci_private_ip_ocid = None, target_ip = target,
      public_port = None, target_port = None, m_protocol = ProtoAll, m_mode = OneToOneSnat,
      m_backend = Nft, enabled = True, m_status = MPending, last_error = None,
      health_status = None, last_checked_at = None, created_at = now, updated_at = now\<rparr>"

definition with_id :: "mapping_id \<Rightarrow> mapping \<Rightarrow> mapping" where
  "with_id i m = m\<lparr>m_id := i\<rparr>"

definition mark_status :: "timestamp \<Rightarrow> mapping_status \<Rightarrow> mapping \<Rightarrow> mapping" where
  "mark_status now st m = m\<lparr>m_status := st, updated_at := now\<rparr>"

definition mapping_set_enabled :: "timestamp \<Rightarrow> bool \<Rightarrow> mapping \<Rightarrow> mapping" where
  "mapping_set_enabled now en m =
     m\<lparr>enabled := en, m_status := (if en then MPending else MDisabled), updated_at := now\<rparr>"

section \<open>Parsers and wire names\<close>

lemma mapping_id_from_str_ok:
  "mapping_id_from_str s = Inr i \<longleftrightarrow> trim s \<noteq> [] \<and> i = MappingId (trim s)"
  by (auto simp: mapping_id_from_str_def Let_def)

lemma mapping_id_reparse: "mapping_id_from_str s = Inr i \<Longrightarrow> mapping_id_from_str (id_str i) = Inr i"
  by (auto simp: mapping_id_from_str_ok)

lemma mapping_id_new_parses:
  assumes "uuid \<noteq> []" and "ascii_graphic (last uuid)"
  shows "mapping_id_from_str (id_str (mapping_id_new uuid)) = Inr (mapping_id_new uuid)"
proof -
  have "trim (''map_'' @ uuid) = ''map_'' @ uuid"
    by (rule trim_graphic) (use assms in \<open>simp_all add: ascii_graphic_def\<close>)
  then show ?thesis by (simp add: mapping_id_from_str_ok mapping_id_new_def)
qed

lemma protocol_from_str_ok:
  "protocol_from_str s = Inr p \<longleftrightarrow> to_ascii_lowercase (trim s) = protocol_wire p"
  by (cases p) (auto simp: protocol_from_str_def Let_def)

lemma mode_from_str_ok:
  "mode_from_str s = Inr p \<longleftrightarrow> to_ascii_lowercase (trim s) = mode_wire p"
  by (cases p) (auto simp: mode_from_str_def Let_def)

lemma backend_from_str_ok:
  "backend_from_str s = Inr p \<longleftrightarrow> to_ascii_lowercase (trim s) = backend_wire p"
  by (cases p) (auto simp: backend_from_str_def Let_def)

lemma trim_wire:
  "trim (protocol_wire p) = protocol_wire p"
  "trim (mode_wire md) = mode_wire md"
  "trim (backend_wire b) = backend_wire b"
proof -
  show "trim (protocol_wire p) = protocol_wire p"
    by (rule trim_graphic; cases p; simp add: ascii_graphic_def)
  show "trim (mode_wire md) = mode_wire md"
    by (rule trim_graphic; cases md; simp add: ascii_graphic_def)
  show "trim (backend_wire b) = backend_wire b"
    by (rule trim_graphic; cases b; simp add: ascii_graphic_def)
qed

lemma lowercase_wire:
  "to_ascii_lowercase (protocol_wire p) = protocol_wire p"
  "to_ascii_lowercase (mode_wire md) = mode_wire md"
  "to_ascii_lowercase (backend_wire b) = backend_wire b"
proof -
  show "to_ascii_lowercase (protocol_wire p) = protocol_wire p"
    by (cases p) (simp_all add: to_ascii_lowercase_def ascii_lower_def)
  show "to_ascii_lowercase (mode_wire md) = mode_wire md"
    by (cases md) (simp_all add: to_ascii_lowercase_def ascii_lower_def)
  show "to_ascii_lowercase (backend_wire b) = backend_wire b"
    by (cases b) (simp_all add: to_ascii_lowercase_def ascii_lower_def)
qed

lemma wire_inj [simp]:
  "protocol_wire p = protocol_wire q \<longleftrightarrow> p = q"
  "mode_wire md = mode_wire md' \<longleftrightarrow> md = md'"
  "backend_wire b = backend_wire b' \<longleftrightarrow> b = b'"
  "status_wire st = status_wire st' \<longleftrightarrow> st = st'"
proof -
  show "protocol_wire p = protocol_wire q \<longleftrightarrow> p = q" by (cases p; cases q) simp_all
  show "mode_wire md = mode_wire md' \<longleftrightarrow> md = md'" by (cases md; cases md') simp_all
  show "backend_wire b = backend_wire b' \<longleftrightarrow> b = b'" by (cases b; cases b') simp_all
  show "status_wire st = status_wire st' \<longleftrightarrow> st = st'" by (cases st; cases st') simp_all
qed

text \<open>The names the enumerations are written with are read back by their parsers, in any
  letter case and with any surrounding white space, and nothing else is accepted: a text parses
  to a protocol exactly when its trimmed lower-case form is that protocol's wire name, and the
  same holds for modes and back ends.\<close>

theorem enum_parse_roundtrip:
  "protocol_from_str (protocol_wire p) = Inr p \<and>
   mode_from_str (mode_wire md) = Inr md \<and>
   backend_from_str (backend_wire b) = Inr b \<and>
   (protocol_from_str s = Inr p \<longleftrightarrow> to_ascii_lowercase (trim s) = protocol_wire p) \<and>
   (mode_from_str s = Inr md \<longleftrightarrow> to_ascii_lowercase (trim s) = mode_wire md) \<and>
   (backend_from_str s = Inr b \<longleftrightarrow> to_ascii_lowercase (trim s) = backend_wire b)"
  by (simp add: protocol_from_str_ok mode_from_str_ok backend_from_str_ok trim_wire lowercase_wire)

end
