(* ===== verification/Samples.thy ===== *)
theory Samples
  imports Core_Mapping
begin

text \<open>
  Concrete values: an implementation of the \<open>ipnet\<close> functions on CIDR networks, and the
  configuration and mappings the crates' own tests use. Witnesses evaluate the development on
  them.
\<close>

unbundle bit_operations_syntax

definition cidr_host_mask :: "ipv4_net \<Rightarrow> u32" where
  "cidr_host_mask n = mask (32 - unat (net_prefix_len n))"

definition cidr_network :: "ipv4_net \<Rightarrow> ipv4_addr" where
  "cidr_network n = ip_from_bits (ip_to_bits (net_addr n) AND NOT (cidr_host_mask n))"

definition cidr_broadcast :: "ipv4_net \<Rightarrow> ipv4_addr" where
  "cidr_broadcast n = ip_from_bits (ip_to_bits (net_addr n) OR cidr_host_mask n)"

definition cidr_contains :: "ipv4_net \<Rightarrow> ipv4_addr \<Rightarrow> bool" where
  "cidr_contains n ip \<longleftrightarrow>
     ip_to_bits (cidr_network n) \<le> ip_to_bits ip \<and> ip_to_bits ip \<le> ip_to_bits (cidr_broadcast n)"

definition cidr_ops :: ipnet_ops where
  "cidr_ops =
     \<lparr>net_contains = cidr_contains, net_network = cidr_network, net_broadcast = cidr_broadcast,
      net_to_string = (\<lambda>n. ip_to_string (net_addr n) @ ''/'' @ show_octet (net_prefix_len n))\<rparr>"

lemma cidr_ops_doc: "ipnet_doc cidr_ops"
  by (simp add: ipnet_doc_def cidr_ops_def cidr_contains_def)

definition sample_net :: ipv4_net where
  "sample_net = Ipv4Net (Ipv4Addr 192 168 20 0) 24"

definition sample_config :: edge_config where
  "sample_config = edge_config_new ''ens3'' ''wt0'' [sample_net]"

definition sample_uuid :: "nat \<Rightarrow> string" where
  "sample_uuid n = ''uuid'' @ show_nat n"

text \<open>The static mapping of the tests, and two port forwards that share its private address.\<close>

definition sample_static :: mapping where
  "sample_static =
     mapping_new (sample_uuid 1) 1000 ''prod_vm_1'' (Some (Ipv4Addr 8 8 8 8))
       (Ipv4Addr 10 0 0 101) (Ipv4Addr 192 168 20 42)"

definition sample_tcp :: mapping where
  "sample_tcp =
     (mapping_new (sample_uuid 2) 2000 ''mysql'' (Some (Ipv4Addr 8 8 8 8))
       (Ipv4Addr 10 0 0 101) (Ipv4Addr 192 168 20 42))
     \<lparr>m_mode := PortForwardSnat, m_protocol := Tcp, public_port := Some 13306,
      target_port := Some 3306\<rparr>"

definition sample_udp :: mapping where
  "sample_udp =
     (mapping_new (sample_uuid 3) 3000 ''udp_service'' (Some (Ipv4Addr 8 8 8 8))
       (Ipv4Addr 10 0 0 101) (Ipv4Addr 192 168 20 43))
     \<lparr>m_mode := PortForwardSnat, m_protocol := Udp, public_port := Some 14444,
      target_port := Some 4444\<rparr>"

lemmas sample_defs =
  sample_static_def sample_tcp_def sample_udp_def mapping_new_def mapping_id_new_def
  sample_config_def edge_config_new_def sample_net_def

lemma sample_network [simp]:
  "net_network cidr_ops sample_net = Ipv4Addr 192 168 20 0"
  "net_broadcast cidr_ops sample_net = Ipv4Addr 192 168 20 255"
  by (simp_all add: cidr_ops_def sample_net_def cidr_network_def cidr_broadcast_def
      cidr_host_mask_def ip_to_bits_def ip_from_bits_def mask_numeral)

lemma sample_contains [simp]:
  "net_contains cidr_ops sample_net (Ipv4Addr 192 168 20 42)"
  "net_contains cidr_ops sample_net (Ipv4Addr 192 168 20 43)"
  using sample_network cidr_ops_doc
  by (simp_all add: ipnet_doc_def ip_to_bits_def)

lemma sample_names [simp]:
  "trim ''prod_vm_1'' = ''prod_vm_1''" "trim ''mysql'' = ''mysql''"
  "trim ''udp_service'' = ''udp_service''" "trim ''ens3'' = ''ens3''" "trim ''wt0'' = ''wt0''"
  by (rule trim_graphic; simp add: ascii_graphic_def)+

end
