(* ===== verification/Core_Validation.thy ===== *)
theory Core_Validation
  imports Samples
begin

text \<open>
  \<open>src/crates/edge-core/src/validation.rs\<close>: the checks on a configuration, on one mapping and
  on a list of mappings, in the order the code makes them.

  The abstract side is three predicates: \<open>edge_config_ok\<close>, \<open>mapping_ok\<close> (one mapping is
  acceptable under a configuration) and \<open>compatible\<close> (two mappings may be stored together).
  \<open>validate_mapping_refines\<close> and \<open>validate_mappings_refines\<close> show that the checks accept exactly
  what these predicates describe; \<open>validated_owner_unique\<close> is what the data plane needs of an
  accepted list.
\<close>

section \<open>Checks on addresses and names\<close>

definition is_reserved_or_private :: "ipv4_addr \<Rightarrow> bool" where
  "is_reserved_or_private ip \<longleftrightarrow>
     ip_is_private ip
     \<or> ip_is_loopback ip
     \<or> ip_is_link_local ip
     \<or> ip_is_multicast ip
     \<or> ip_is_broadcast ip
     \<or> ip_is_unspecified ip
     \<or> oct_a ip = 100 \<and> (64 \<le> oct_b ip \<and> oct_b ip \<le> 127)
     \<or> oct_a ip = 192 \<and> oct_b ip = 0 \<and> oct_c ip = 0
     \<or> oct_a ip = 192 \<and> oct_b ip = 0 \<and> oct_c ip = 2
     \<or> oct_a ip = 198 \<and> oct_b ip = 51 \<and> oct_c ip = 100
     \<or> oct_a ip = 203 \<and> oct_b ip = 0 \<and> oct_c ip = 113
     \<or> 240 \<le> oct_a ip"

definition is_network_or_broadcast :: "'a ipnet_ops_scheme \<Rightarrow> ipv4_addr \<Rightarrow> ipv4_net \<Rightarrow> bool" where
  "is_network_or_broadcast N ip cidr \<longleftrightarrow>
     (if 31 \<le> net_prefix_len cidr then False
      else ip = net_network N cidr \<or> ip = net_broadcast N cidr)"

definition validate_name :: "string \<Rightarrow> unit core_result" where
  "validate_name name =
     (let trimmed = trim name
      in if trimmed = [] then Inl (Validation ''mapping name cannot be empty'')
         else if 63 < length trimmed then Inl (Validation ''mapping name cannot exceed 63 bytes'')
         else if \<not> list_all (\<lambda>c. is_ascii_alphanumeric c \<or> c = CHR ''-'' \<or> c = CHR ''_'') trimmed
         then Inl (Validation
           (''mapping name may only contain ASCII letters, digits, '' @ [CHR 0x27] @ ''-'' @
            [CHR 0x27] @ '' and '' @ [CHR 0x27] @ ''_'' @ [CHR 0x27]))
         else Inr ())"

definition validate_interface_name :: "string \<Rightarrow> string \<Rightarrow> unit core_result" where
  "validate_interface_name field name =
     (let trimmed = trim name
      in if trimmed = [] then Inl (Validation (field @ '' cannot be empty''))
         else if 15 < length trimmed then Inl (Validation (field @ '' cannot exceed 15 bytes''))
         else if CHR ''/'' \<in> set trimmed \<or> CHR 0x00 \<in> set trimmed \<or> trimmed = ''.'' \<or> trimmed = ''..''
         then Inl (Validation (field @ '' is not a valid Linux interface name''))
         else Inr ())"

definition validate_public_ip :: "ipv4_addr \<Rightarrow> unit core_result" where
  "validate_public_ip ip =
     (if is_reserved_or_private ip
      then Inl (Validation (''public IP must be globally routable: '' @ ip_to_string ip))
      else Inr ())"

definition validate_edge_private_ip :: "ipv4_addr \<Rightarrow> unit core_result" where
  "validate_edge_private_ip ip =
     (if \<not> ip_is_private ip
      then Inl (Validation (''edge private IP must be RFC1918 private: '' @ ip_to_string ip))
      else Inr ())"

definition validate_target_ip ::
  "'a ipnet_ops_scheme \<Rightarrow> ipv4_addr \<Rightarrow> ipv4_net list \<Rightarrow> unit core_result" where
  "validate_target_ip N ip cidrs =
     (case find (\<lambda>cidr. net_contains N cidr ip) cidrs of
        None \<Rightarrow> Inl (Validation
          (''target IP is outside configured target CIDRs: '' @ ip_to_string ip))
      | Some cidr \<Rightarrow>
          if is_network_or_broadcast N ip cidr
          then Inl (Validation
            (''target IP cannot be network or broadcast address: '' @ ip_to_string ip))
          else Inr ())"

section \<open>Configurations and mappings\<close>

definition validate_edge_config :: "'a ipnet_ops_scheme \<Rightarrow> edge_config \<Rightarrow> unit core_result" where
  "validate_edge_config N cfg =
     res_bind (validate_interface_name ''wan_interface'' (wan_interface cfg)) (\<lambda>_.
     res_bind (validate_interface_name ''netbird_interface'' (netbird_interface cfg)) (\<lambda>_.
     if target_cidrs cfg = []
     then Inl (Validation ''at least one target CIDR must be configured'')
     else res_forM (\<lambda>cidr.
            if ip_is_unspecified (net_addr cidr)
            then Inl (Validation (''target CIDR cannot be unspecified: '' @ net_to_string N cidr))
            else Inr ()) (target_cidrs cfg)))"

definition validate_backend :: "mapping \<Rightarrow> unit core_result" where
  "validate_backend m =
     (case m_backend m of
        Nft \<Rightarrow> Inr ()
      | Xdp \<Rightarrow>
          if m_mode m = PortForwardSnat then Inr ()
          else Inl (Validation ''xdp backend only supports port-forward mappings'')
      | Proxy \<Rightarrow> Inl (Validation ''proxy mapping backend is not implemented''))"

definition validate_mode :: "mapping \<Rightarrow> unit core_result" where
  "validate_mode m =
     (case m_mode m of
        OneToOneSnat \<Rightarrow>
          if public_port m \<noteq> None
          then Inl (Validation ''one-to-one mappings cannot set public_port'')
          else if target_port m = Some 0
          then Inl (Validation ''target port must be between 1 and 65535'')
          else if m_protocol m \<noteq> ProtoAll
          then Inl (Validation ''one-to-one mappings must use protocol=all'')
          else Inr ()
      | PortForwardSnat \<Rightarrow>
          if public_port m = None
          then Inl (Validation ''port-forward mappings require public_port'')
          else if public_port m = Some 0
          then Inl (Validation ''public port must be between 1 and 65535'')
          else if target_port m = None
          then Inl (Validation ''port-forward mappings require target_port'')
          else if target_port m = Some 0
          then Inl (Validation ''target port must be between 1 and 65535'')
          else if m_protocol m = ProtoAll
          then Inl (Validation ''port-forward mappings must use protocol=tcp or protocol=udp'')
          else Inr ())"

definition validate_mapping :: "'a ipnet_ops_scheme \<Rightarrow> mapping \<Rightarrow> edge_config \<Rightarrow> unit core_result" where
  "validate_mapping N m cfg =
     res_bind (validate_name (m_name m)) (\<lambda>_.
     res_bind (case public_ip m of None \<Rightarrow> Inr () | Some ip \<Rightarrow> validate_public_ip ip) (\<lambda>_.
     res_bind (validate_edge_private_ip (edge_private_ip m)) (\<lambda>_.
     res_bind (validate_target_ip N (target_ip m) (target_cidrs cfg)) (\<lambda>_.
     if public_ip m = Some (edge_private_ip m)
     then Inl (Validation ''public IP and edge private IP cannot match'')
     else if edge_private_ip m = target_ip m
     then Inl (Validation ''edge private IP and target IP cannot match'')
     else res_bind (validate_backend m) (\<lambda>_. validate_mode m)))))"

definition conflicts :: "mapping \<Rightarrow> mapping \<Rightarrow> bool" where
  "conflicts l r \<longleftrightarrow>
     (if \<not> enabled l \<or> \<not> enabled r then False
      else (case (m_mode l, m_mode r) of
              (OneToOneSnat, OneToOneSnat) \<Rightarrow>
                edge_private_ip l = edge_private_ip r \<or> target_ip l = target_ip r
            | (OneToOneSnat, PortForwardSnat) \<Rightarrow> edge_private_ip l = edge_private_ip r
            | (PortForwardSnat, OneToOneSnat) \<Rightarrow> edge_private_ip l = edge_private_ip r
            | (PortForwardSnat, PortForwardSnat) \<Rightarrow>
                edge_private_ip l = edge_private_ip r \<and> m_protocol l = m_protocol r \<and>
                public_port l = public_port r))"

definition conflict_error :: "mapping \<Rightarrow> mapping \<Rightarrow> edge_core_error" where
  "conflict_error l r =
     (if m_mode l = OneToOneSnat \<and> m_mode r = OneToOneSnat \<and> target_ip l = target_ip r
      then DuplicateTargetIp (target_ip l)
      else if edge_private_ip l = edge_private_ip r
      then DuplicateEdgePrivateIp (edge_private_ip l)
      else Validation ''mapping conflicts with an existing enabled mapping'')"

text \<open>One iteration of the inner loop of \<open>validate_mappings\<close>, the outer loop with the set
  \<open>public_ips\<close> it fills, and the function.\<close>

definition validate_pair :: "mapping \<Rightarrow> mapping \<Rightarrow> unit core_result" where
  "validate_pair m existing =
     (if conflicts m existing then Inl (conflict_error m existing)
      else (case public_ip m of
              None \<Rightarrow> Inr ()
            | Some ip \<Rightarrow>
                if public_ip m = public_ip existing \<and>
                   (m_mode m = OneToOneSnat \<or> m_mode existing = OneToOneSnat)
                then Inl (DuplicatePublicIp ip) else Inr ()))"

definition note_public_ip :: "ipv4_addr set \<Rightarrow> mapping \<Rightarrow> ipv4_addr set core_result" where
  "note_public_ip ips m =
     (case (public_ip m, m_mode m) of
        (Some ip, OneToOneSnat) \<Rightarrow>
          if ip \<in> ips then Inl (DuplicatePublicIp ip) else Inr (insert ip ips)
      | _ \<Rightarrow> Inr ips)"

fun validate_pairs :: "ipv4_addr set \<Rightarrow> mapping list \<Rightarrow> unit core_result" where
  "validate_pairs ips [] = Inr ()"
| "validate_pairs ips (m # rest) =
     res_bind (note_public_ip ips m) (\<lambda>ips'.
     res_bind (res_forM (validate_pair m) rest) (\<lambda>_. validate_pairs ips' rest))"

definition validate_mappings ::
  "'a ipnet_ops_scheme \<Rightarrow> mapping list \<Rightarrow> edge_config \<Rightarrow> unit core_result" where
  "validate_mappings N ms cfg =
     res_bind (res_forM (\<lambda>m. validate_mapping N m cfg) ms) (\<lambda>_. validate_pairs {} ms)"

section \<open>What the checks mean\<close>

definition name_ok :: "string \<Rightarrow> bool" where
  "name_ok name \<longleftrightarrow>
     trim name \<noteq> [] \<and> length (trim name) \<le> 63 \<and>
     (\<forall>c\<in>set (trim name). is_ascii_alphanumeric c \<or> c = CHR ''-'' \<or> c = CHR ''_'')"

definition interface_ok :: "string \<Rightarrow> bool" where
  "interface_ok name \<longleftrightarrow>
     trim name \<noteq> [] \<and> length (trim name) \<le> 15 \<and> CHR ''/'' \<notin> set (trim name) \<and>
     CHR 0x00 \<notin> set (trim name) \<and> trim name \<noteq> ''.'' \<and> trim name \<noteq> ''..''"

definition edge_config_ok :: "edge_config \<Rightarrow> bool" where
  "edge_config_ok cfg \<longleftrightarrow>
     interface_ok (wan_interface cfg) \<and> interface_ok (netbird_interface cfg) \<and>
     target_cidrs cfg \<noteq> [] \<and>
     (\<forall>cidr\<in>set (target_cidrs cfg). \<not> ip_is_unspecified (net_addr cidr))"

text \<open>The target lies in a configured network and is not an end of the first one holding it.\<close>

definition target_ok :: "'a ipnet_ops_scheme \<Rightarrow> edge_config \<Rightarrow> ipv4_addr \<Rightarrow> bool" where
  "target_ok N cfg ip \<longleftrightarrow>
     (\<exists>cidr. find (\<lambda>c. net_contains N c ip) (target_cidrs cfg) = Some cidr \<and>
        \<not> is_network_or_broadcast N ip cidr)"

definition ports_ok :: "mapping \<Rightarrow> bool" where
  "ports_ok m \<longleftrightarrow>
     (case m_mode m of
        OneToOneSnat \<Rightarrow> public_port m = None \<and> target_port m \<noteq> Some 0 \<and> m_protocol m = ProtoAll
      | PortForwardSnat \<Rightarrow>
          (\<exists>p q. public_port m = Some p \<and> p \<noteq> 0 \<and> target_port m = Some q \<and> q \<noteq> 0) \<and>
          m_protocol m \<noteq> ProtoAll)"

definition backend_ok :: "mapping \<Rightarrow> bool" where
  "backend_ok m \<longleftrightarrow> m_backend m = Nft \<or> m_backend m = Xdp \<and> m_mode m = PortForwardSnat"

definition mapping_ok :: "'a ipnet_ops_scheme \<Rightarrow> edge_config \<Rightarrow> mapping \<Rightarrow> bool" where
  "mapping_ok N cfg m \<longleftrightarrow>
     name_ok (m_name m) \<and>
     (\<forall>ip. public_ip m = Some ip \<longrightarrow> \<not> is_reserved_or_private ip) \<and>
     ip_is_private (edge_private_ip m) \<and>
     target_ok N cfg (target_ip m) \<and>
     public_ip m \<noteq> Some (edge_private_ip m) \<and>
     edge_private_ip m \<noteq> target_ip m \<and>
     backend_ok m \<and> ports_ok m"

text \<open>Two mappings claim the same public address and one of them claims all of it.\<close>

definition public_clash :: "mapping \<Rightarrow> mapping \<Rightarrow> bool" where
  "public_clash a b \<longleftrightarrow>
     public_ip a \<noteq> None \<and> public_ip a = public_ip b \<and>
     (m_mode a = OneToOneSnat \<or> m_mode b = OneToOneSnat)"

definition compatible :: "mapping \<Rightarrow> mapping \<Rightarrow> bool" where
  "compatible a b \<longleftrightarrow> \<not> conflicts a b \<and> \<not> public_clash a b"

text \<open>A mapping that receives traffic for an address, transport protocol and port.\<close>

definition serves :: "mapping \<Rightarrow> ipv4_addr \<Rightarrow> protocol \<Rightarrow> u16 \<Rightarrow> bool" where
  "serves m ip proto port \<longleftrightarrow>
     enabled m \<and> edge_private_ip m = ip \<and>
     (m_mode m = OneToOneSnat \<or> m_protocol m = proto \<and> public_port m = Some port)"

text \<open>Two mappings justify an error: they share the address it names.\<close>

definition justifies :: "mapping \<Rightarrow> mapping \<Rightarrow> edge_core_error \<Rightarrow> bool" where
  "justifies a b e \<longleftrightarrow>
     (case e of
        DuplicatePublicIp ip \<Rightarrow> public_ip a = Some ip \<and> public_ip b = Some ip
      | DuplicateTargetIp ip \<Rightarrow> target_ip a = ip \<and> target_ip b = ip
      | DuplicateEdgePrivateIp ip \<Rightarrow> edge_private_ip a = ip \<and> edge_private_ip b = ip
      | _ \<Rightarrow> False)"

section \<open>Refinement\<close>

lemma validate_name_ok: "validate_name s = Inr () \<longleftrightarrow> name_ok s"
  by (auto simp: validate_name_def name_ok_def Let_def list_all_iff)

lemma validate_interface_name_ok: "validate_interface_name f s = Inr () \<longleftrightarrow> interface_ok s"
  by (auto simp: validate_interface_name_def interface_ok_def Let_def)

lemma validate_edge_config_ok: "validate_edge_config N cfg = Inr () \<longleftrightarrow> edge_config_ok cfg"
  by (auto simp: validate_edge_config_def edge_config_ok_def validate_interface_name_ok
      split: if_splits)

lemma validate_public_ip_ok: "validate_public_ip ip = Inr () \<longleftrightarrow> \<not> is_reserved_or_private ip"
  by (simp add: validate_public_ip_def)

lemma validate_edge_private_ip_ok: "validate_edge_private_ip ip = Inr () \<longleftrightarrow> ip_is_private ip"
  by (simp add: validate_edge_private_ip_def)

lemma validate_target_ip_ok:
  "validate_target_ip N ip (target_cidrs cfg) = Inr () \<longleftrightarrow> target_ok N cfg ip"
  by (auto simp: validate_target_ip_def target_ok_def split: option.splits)

lemma validate_backend_ok: "validate_backend m = Inr () \<longleftrightarrow> backend_ok m"
  by (auto simp: validate_backend_def backend_ok_def split: mapping_backend.splits)

lemma validate_mode_ok: "validate_mode m = Inr () \<longleftrightarrow> ports_ok m"
  by (auto simp: validate_mode_def ports_ok_def split: mapping_mode.splits)

lemmas validate_ok =
  validate_name_ok validate_public_ip_ok validate_edge_private_ip_ok validate_target_ip_ok
  validate_backend_ok validate_mode_ok

lemma validate_mapping_ok: "validate_mapping N m cfg = Inr () \<longleftrightarrow> mapping_ok N cfg m"
  by (cases "public_ip m") (auto simp: validate_mapping_def mapping_ok_def validate_ok)

text \<open>The checks on one mapping report nothing but \<open>Validation\<close> errors.\<close>

definition validation_only :: "unit core_result \<Rightarrow> bool" where
  "validation_only r \<longleftrightarrow> (case r of Inl (Validation _) \<Rightarrow> True | Inl _ \<Rightarrow> False | Inr _ \<Rightarrow> True)"

lemma validation_only_intros:
  "validation_only (Inr ())"
  "validation_only (Inl (Validation msg))"
  "validation_only r \<Longrightarrow> validation_only r' \<Longrightarrow> validation_only (if b then r else r')"
  "validation_only r \<Longrightarrow> (\<And>x. validation_only (f x)) \<Longrightarrow> validation_only (res_bind r f)"
  by (cases r; simp add: validation_only_def)+

lemma validation_only_checks:
  "validation_only (validate_name s)" "validation_only (validate_public_ip ip)"
  "validation_only (validate_edge_private_ip ip)" "validation_only (validate_target_ip N ip cidrs)"
  "validation_only (validate_backend m)" "validation_only (validate_mode m)"
  by (simp_all add: validation_only_def validate_name_def validate_public_ip_def Let_def
      validate_edge_private_ip_def validate_target_ip_def validate_backend_def validate_mode_def
      split: option.split mapping_backend.split mapping_mode.split)

lemma validate_mapping_validation_only: "validation_only (validate_mapping N m cfg)"
  unfolding validate_mapping_def
  by (intro validation_only_intros validation_only_checks)
    (cases "public_ip m", simp_all add: validation_only_intros validation_only_checks)

lemma conflicts_sym: "conflicts a b \<longleftrightarrow> conflicts b a"
  by (cases "m_mode a"; cases "m_mode b") (auto simp: conflicts_def)

lemma public_clash_sym: "public_clash a b \<longleftrightarrow> public_clash b a"
  by (auto simp: public_clash_def)

lemma compatible_sym: "compatible a b \<Longrightarrow> compatible b a"
  by (simp add: compatible_def conflicts_sym [of a b] public_clash_sym [of a b])

lemma validate_pair_ok: "validate_pair m e = Inr () \<longleftrightarrow> compatible m e"
  by (cases "public_ip m") (auto simp: validate_pair_def compatible_def public_clash_def)

text \<open>The set \<open>public_ips\<close> decides nothing the pair check does not decide as well.\<close>

lemma validate_pairs_ok:
  "validate_pairs ips ms = Inr () \<longleftrightarrow>
     pairwise_ok compatible ms \<and>
     (\<forall>m\<in>set ms. m_mode m = OneToOneSnat \<longrightarrow> (\<forall>ip\<in>ips. public_ip m \<noteq> Some ip))"
proof (induction ms arbitrary: ips)
  case Nil
  then show ?case by simp
next
  case (Cons m rest)
  have clash: "public_ip e \<noteq> Some ip"
    if "compatible m e" "m_mode m = OneToOneSnat" "public_ip m = Some ip" for e ip
    using that by (auto simp: compatible_def public_clash_def)
  show ?case
    using clash
    by (cases "m_mode m"; cases "public_ip m")
      (auto simp: note_public_ip_def validate_pair_ok Cons.IH)
qed

lemma validate_mappings_ok:
  "validate_mappings N ms cfg = Inr () \<longleftrightarrow>
     (\<forall>m\<in>set ms. mapping_ok N cfg m) \<and> pairwise_ok compatible ms"
  by (auto simp: validate_mappings_def validate_mapping_ok validate_pairs_ok)

lemma conflict_error_cases:
  "conflicts a b \<Longrightarrow>
     conflict_error a b = DuplicateTargetIp (target_ip a) \<and> target_ip a = target_ip b \<or>
     conflict_error a b = DuplicateEdgePrivateIp (edge_private_ip a) \<and>
       edge_private_ip a = edge_private_ip b"
  by (cases "m_mode a"; cases "m_mode b")
    (auto simp: conflicts_def conflict_error_def split: if_splits)

lemma serves_conflict:
  "serves a ip proto port \<Longrightarrow> serves b ip proto port \<Longrightarrow> conflicts a b"
  by (cases "m_mode a"; cases "m_mode b") (auto simp: serves_def conflicts_def)

lemma validate_pair_error: "validate_pair m r = Inl e \<Longrightarrow> justifies m r e"
  using conflict_error_cases [of m r]
  by (auto simp: validate_pair_def justifies_def split: option.splits if_splits)

lemma res_forM_error: "res_forM f xs = Inl e \<Longrightarrow> \<exists>x\<in>set xs. f x = Inl e"
  by (induction xs) (auto simp: res_bind_eq_Inl)

lemma note_public_ip_error:
  "note_public_ip ips m = Inl e \<Longrightarrow> \<exists>ip\<in>ips. e = DuplicatePublicIp ip \<and> public_ip m = Some ip"
  by (auto simp: note_public_ip_def split: option.splits mapping_mode.splits if_splits)

lemma note_public_ip_seen:
  "note_public_ip ips m = Inr ips' \<Longrightarrow> ip \<in> ips' \<Longrightarrow> public_ip m = Some ip \<or> ip \<in> ips"
  by (auto simp: note_public_ip_def split: option.splits mapping_mode.splits if_splits)

lemma validate_pairs_error:
  "validate_pairs ips ms = Inl e \<Longrightarrow>
     \<not> pairwise_ok (\<lambda>a b. \<not> justifies a b e) ms \<or>
     (\<exists>m\<in>set ms. \<exists>ip\<in>ips. e = DuplicatePublicIp ip \<and> public_ip m = Some ip)"
proof (induction ms arbitrary: ips)
  case Nil
  then show ?case by simp
next
  case (Cons m rest)
  from Cons.prems consider
      (seen) "note_public_ip ips m = Inl e"
    | (pair) "res_forM (validate_pair m) rest = Inl e"
    | (later) ips' where "note_public_ip ips m = Inr ips'" "validate_pairs ips' rest = Inl e"
    by (auto simp: res_bind_eq_Inl)
  then show ?case
  proof cases
    case seen
    from note_public_ip_error [OF this] show ?thesis by auto
  next
    case pair
    from res_forM_error [OF this] show ?thesis by (auto dest: validate_pair_error)
  next
    case later
    from Cons.IH [OF later(2)] show ?thesis
      using note_public_ip_seen [OF later(1)] by (fastforce simp: justifies_def)
  qed
qed

lemma validate_mappings_error:
  assumes "validate_mappings N ms cfg = Inl e"
  shows "(\<exists>m\<in>set ms. validate_mapping N m cfg = Inl e) \<or>
    (\<exists>i j. i < j \<and> j < length ms \<and> justifies (ms ! i) (ms ! j) e)"
proof -
  from assms consider "res_forM (\<lambda>m. validate_mapping N m cfg) ms = Inl e"
    | "validate_pairs {} ms = Inl e"
    by (auto simp: validate_mappings_def res_bind_eq_Inl)
  then show ?thesis
  proof cases
    case 1
    then show ?thesis by (rule res_forM_error [THEN disjI1])
  next
    case 2
    from validate_pairs_error [OF this] show ?thesis by (simp add: pairwise_ok_nth)
  qed
qed

lemma sample_ok:
  "mapping_ok cidr_ops sample_config sample_static"
  "mapping_ok cidr_ops sample_config sample_tcp"
  "mapping_ok cidr_ops sample_config sample_udp"
  by (simp_all add: mapping_ok_def sample_defs name_ok_def is_ascii_alphanumeric_def Let_def
      is_reserved_or_private_def ip_is_private_def ip_is_loopback_def ip_is_link_local_def
      ip_is_multicast_def ip_is_broadcast_def ip_is_unspecified_def target_ok_def
      is_network_or_broadcast_def backend_ok_def ports_ok_def flip: sample_net_def)

lemma sample_compatible: "compatible sample_tcp sample_udp" "compatible sample_udp sample_tcp"
  by (simp_all add: compatible_def conflicts_def public_clash_def sample_defs)

section \<open>Properties\<close>

text \<open>C34. \<open>validate_mapping\<close> accepts a mapping exactly when it satisfies the declarative
  description \<open>mapping_ok\<close> (name, routable public address, RFC 1918 edge address, target inside
  a configured network and not an end of it, distinct addresses, back end, mode, protocol and
  ports), and every rejection is a \<open>Validation\<close> error.\<close>

theorem validate_mapping_refines:
  "(validate_mapping N m cfg = Inr () \<longleftrightarrow> mapping_ok N cfg m) \<and>
   (\<exists>msg. validate_mapping N m cfg \<in> {Inr (), Inl (Validation msg)})"
proof
  show "validate_mapping N m cfg = Inr () \<longleftrightarrow> mapping_ok N cfg m"
    by (rule validate_mapping_ok)
  show "\<exists>msg. validate_mapping N m cfg \<in> {Inr (), Inl (Validation msg)}"
    using validate_mapping_validation_only [of N m cfg]
    by (cases "validate_mapping N m cfg") (auto simp: validation_only_def split: edge_core_error.splits)
qed

text \<open>C3. \<open>validate_mappings\<close>, with its two loops and the set of public addresses it keeps,
  accepts a list exactly when every mapping is acceptable and every two positions hold
  compatible mappings: no conflict between enabled ones, and no public address shared with a
  one-to-one mapping. In particular the set of seen addresses never rejects a list the pair
  check would accept.\<close>

theorem validate_mappings_refines:
  "validate_mappings N ms cfg = Inr () \<longleftrightarrow>
     list_all (mapping_ok N cfg) ms \<and>
     \<not> (\<exists>i j. i < j \<and> j < length ms \<and>
          (conflicts (ms ! i) (ms ! j) \<or> public_clash (ms ! i) (ms ! j)))"
  by (auto simp: validate_mappings_ok pairwise_ok_nth compatible_def list_all_iff)

text \<open>In a list \<open>validate_mappings\<close> accepts, at most one position holds an enabled mapping
  that receives the traffic of a given private address, transport protocol and port: the
  destination of a packet does not depend on the order of the rules.\<close>

theorem validated_owner_unique:
  assumes ok: "validate_mappings N ms cfg = Inr ()"
    and "i < length ms" "serves (ms ! i) ip proto port"
    and "j < length ms" "serves (ms ! j) ip proto port"
  shows "i = j"
proof (rule ccontr)
  assume "i \<noteq> j"
  with assms have "compatible (ms ! i) (ms ! j)"
    by (auto simp: validate_mappings_ok intro: pairwise_ok_sym compatible_sym)
  then show False
    using serves_conflict assms(3,5) by (auto simp: compatible_def)
qed

theorem validated_owner_unique_witness:
  "validate_mappings cidr_ops [sample_tcp, sample_udp] sample_config = Inr () \<and>
   serves ([sample_tcp, sample_udp] ! 0) (Ipv4Addr 10 0 0 101) Tcp 13306 \<and>
   (\<exists>!i. i < length [sample_tcp, sample_udp] \<and>
      serves ([sample_tcp, sample_udp] ! i) (Ipv4Addr 10 0 0 101) Tcp 13306)"
proof -
  have ok: "validate_mappings cidr_ops [sample_tcp, sample_udp] sample_config = Inr ()"
    by (simp add: validate_mappings_ok sample_ok sample_compatible)
  have s: "serves ([sample_tcp, sample_udp] ! 0) (Ipv4Addr 10 0 0 101) Tcp 13306"
    by (simp add: serves_def sample_defs)
  have "0 < length [sample_tcp, sample_udp]" by simp
  note unique = validated_owner_unique [OF ok this s]
  show ?thesis using ok s unique by blast
qed

text \<open>Every error of \<open>validate_mappings\<close> other than a \<open>Validation\<close> error names an address
  two different positions of the list really share, and its fall-back message "mapping
  conflicts with an existing enabled mapping" is never produced: a conflict is always reported
  by address.\<close>

theorem validate_mappings_errors_justified:
  assumes err: "validate_mappings N ms cfg = Inl e"
  shows "(\<exists>m\<in>set ms. validate_mapping N m cfg = Inl e) \<or>
    (\<exists>i j. i < j \<and> j < length ms \<and> justifies (ms ! i) (ms ! j) e)"
  using validate_mappings_error [OF err] .

theorem validate_mappings_errors_justified_witness:
  "validate_mappings cidr_ops [sample_tcp, sample_tcp] sample_config =
     Inl (DuplicateEdgePrivateIp (Ipv4Addr 10 0 0 101)) \<and>
   (\<exists>i j. i < j \<and> j < length [sample_tcp, sample_tcp] \<and>
      justifies ([sample_tcp, sample_tcp] ! i) ([sample_tcp, sample_tcp] ! j)
        (DuplicateEdgePrivateIp (Ipv4Addr 10 0 0 101)))"
proof -
  have "conflicts sample_tcp sample_tcp"
    and "conflict_error sample_tcp sample_tcp = DuplicateEdgePrivateIp (Ipv4Addr 10 0 0 101)"
    and "m_mode sample_tcp = PortForwardSnat"
    by (simp_all add: conflicts_def conflict_error_def sample_defs)
  moreover have "validate_mapping cidr_ops sample_tcp sample_config = Inr ()"
    by (simp add: validate_mapping_ok sample_ok)
  ultimately have err: "validate_mappings cidr_ops [sample_tcp, sample_tcp] sample_config =
      Inl (DuplicateEdgePrivateIp (Ipv4Addr 10 0 0 101))"
    by (simp add: validate_mappings_def validate_pair_def note_public_ip_def split: option.splits)
  show ?thesis
    using err validate_mappings_errors_justified [OF err]
      \<open>validate_mapping cidr_ops sample_tcp sample_config = Inr ()\<close> by auto
qed

text \<open>The address blocks \<open>validate_public_ip\<close> rejects, as ranges of 32-bit values.\<close>

definition reserved_ranges :: "(nat \<times> nat) list" where
  "reserved_ranges =
     [(0, 0),                       \<comment> \<open>0.0.0.0\<close>
      (167772160, 184549375),       \<comment> \<open>10.0.0.0/8\<close>
      (1681915904, 1686110207),     \<comment> \<open>100.64.0.0/10\<close>
      (2130706432, 2147483647),     \<comment> \<open>127.0.0.0/8\<close>
      (2851995648, 2852061183),     \<comment> \<open>169.254.0.0/16\<close>
      (2886729728, 2887778303),     \<comment> \<open>172.16.0.0/12\<close>
      (3221225472, 3221225727),     \<comment> \<open>192.0.0.0/24\<close>
      (3221225984, 3221226239),     \<comment> \<open>192.0.2.0/24\<close>
      (3232235520, 3232301055),     \<comment> \<open>192.168.0.0/16\<close>
      (3325256704, 3325256959),     \<comment> \<open>198.51.100.0/24\<close>
      (3405803776, 3405804031),     \<comment> \<open>203.0.113.0/24\<close>
      (3758096384, 4294967295)]     \<comment> \<open>224.0.0.0/4 and 240.0.0.0/4\<close>"

definition in_reserved_range :: "ipv4_addr \<Rightarrow> bool" where
  "in_reserved_range ip \<longleftrightarrow>
     list_ex (\<lambda>(lo, hi). lo \<le> unat (ip_to_bits ip) \<and> unat (ip_to_bits ip) \<le> hi) reserved_ranges"

lemma octet_numerals:
  "unat (0 :: u8) = 0" "unat (2 :: u8) = 2" "unat (10 :: u8) = 10" "unat (16 :: u8) = 16"
  "unat (31 :: u8) = 31" "unat (51 :: u8) = 51" "unat (64 :: u8) = 64" "unat (100 :: u8) = 100"
  "unat (113 :: u8) = 113" "unat (127 :: u8) = 127" "unat (168 :: u8) = 168"
  "unat (169 :: u8) = 169" "unat (172 :: u8) = 172" "unat (192 :: u8) = 192"
  "unat (198 :: u8) = 198" "unat (203 :: u8) = 203" "unat (224 :: u8) = 224"
  "unat (239 :: u8) = 239" "unat (240 :: u8) = 240" "unat (254 :: u8) = 254"
  "unat (255 :: u8) = 255"
  by simp_all

lemma in_reserved_range_octets:
  fixes ip :: ipv4_addr
  defines "A \<equiv> unat (oct_a ip)" and "B \<equiv> unat (oct_b ip)" and "C \<equiv> unat (oct_c ip)"
    and "D \<equiv> unat (oct_d ip)"
  shows "in_reserved_range ip \<longleftrightarrow>
    A = 0 \<and> B = 0 \<and> C = 0 \<and> D = 0 \<or> A = 10 \<or> A = 100 \<and> 64 \<le> B \<and> B \<le> 127 \<or>
    A = 127 \<or> A = 169 \<and> 254 \<le> B \<and> B \<le> 254 \<or> A = 172 \<and> 16 \<le> B \<and> B \<le> 31 \<or>
    A = 192 \<and> B = 0 \<and> C = 0 \<or> A = 192 \<and> B = 0 \<and> C = 2 \<or> A = 192 \<and> 168 \<le> B \<and> B \<le> 168 \<or>
    A = 198 \<and> B = 51 \<and> C = 100 \<or> A = 203 \<and> B = 0 \<and> C = 113 \<or> 224 \<le> A"
proof -
  define n where n: "n = unat (ip_to_bits ip)"
  have bounds: "A < 256" "B < 256" "C < 256" "D < 256" by (simp_all add: assms)
  have eq: "n = A * 16777216 + B * 65536 + C * 256 + D" by (simp add: n assms unat_ip_to_bits)
  note blocks = ip_blocks [OF bounds(2-4), where A = A, folded eq]
  have "n \<le> 0 \<longleftrightarrow> A = 0 \<and> B = 0 \<and> C = 0 \<and> D = 0" "3758096384 \<le> n \<and> n \<le> 4294967295 \<longleftrightarrow> 224 \<le> A"
    using bounds unfolding eq by auto
  moreover have "167772160 \<le> n \<and> n \<le> 184549375 \<longleftrightarrow> A = 10"
    "2130706432 \<le> n \<and> n \<le> 2147483647 \<longleftrightarrow> A = 127"
    using blocks(1) [where a = 10] blocks(1) [where a = 127] by simp_all
  moreover have "1681915904 \<le> n \<and> n \<le> 1686110207 \<longleftrightarrow> A = 100 \<and> 64 \<le> B \<and> B \<le> 127"
    "2851995648 \<le> n \<and> n \<le> 2852061183 \<longleftrightarrow> A = 169 \<and> 254 \<le> B \<and> B \<le> 254"
    "2886729728 \<le> n \<and> n \<le> 2887778303 \<longleftrightarrow> A = 172 \<and> 16 \<le> B \<and> B \<le> 31"
    "3232235520 \<le> n \<and> n \<le> 3232301055 \<longleftrightarrow> A = 192 \<and> 168 \<le> B \<and> B \<le> 168"
    using blocks(2) [where a = 100 and b = 64 and b' = 127]
      blocks(2) [where a = 169 and b = 254 and b' = 254]
      blocks(2) [where a = 172 and b = 16 and b' = 31]
      blocks(2) [where a = 192 and b = 168 and b' = 168] by simp_all
  moreover have "3221225472 \<le> n \<and> n \<le> 3221225727 \<longleftrightarrow> A = 192 \<and> B = 0 \<and> C = 0"
    "3221225984 \<le> n \<and> n \<le> 3221226239 \<longleftrightarrow> A = 192 \<and> B = 0 \<and> C = 2"
    "3325256704 \<le> n \<and> n \<le> 3325256959 \<longleftrightarrow> A = 198 \<and> B = 51 \<and> C = 100"
    "3405803776 \<le> n \<and> n \<le> 3405804031 \<longleftrightarrow> A = 203 \<and> B = 0 \<and> C = 113"
    using blocks(3) [where a = 192 and b = 0 and c = 0] blocks(3) [where a = 192 and b = 0 and c = 2]
      blocks(3) [where a = 198 and b = 51 and c = 100] blocks(3) [where a = 203 and b = 0 and c = 113]
    by simp_all
  ultimately show ?thesis
    unfolding in_reserved_range_def reserved_ranges_def n [symmetric]
    by (simp only: list_ex_iff list.set bex_simps prod.case le0 simp_thms)
qed

lemma is_reserved_or_private_ranges: "is_reserved_or_private ip \<longleftrightarrow> in_reserved_range ip"
proof -
  define A B C D where d: "A = unat (oct_a ip)" "B = unat (oct_b ip)" "C = unat (oct_c ip)"
    "D = unat (oct_d ip)"
  have high: "224 \<le> A \<longleftrightarrow> 224 \<le> A \<and> A \<le> 239 \<or> A = 255 \<and> B = 255 \<and> C = 255 \<and> D = 255 \<or> 240 \<le> A"
    by linarith
  have single: "254 \<le> B \<and> B \<le> 254 \<longleftrightarrow> B = 254" "168 \<le> B \<and> B \<le> 168 \<longleftrightarrow> B = 168" by linarith+
  show ?thesis
    unfolding in_reserved_range_octets [of ip, folded d] single is_reserved_or_private_def ip_is_private_def ip_is_loopback_def ip_is_link_local_def
      ip_is_multicast_def ip_is_broadcast_def ip_is_unspecified_def addr_cmp octet_cmp
      word_le_nat_alt d [symmetric] octet_numerals
    by (subst (2) high) (simp only: disj_ac conj_ac)
qed

text \<open>C38. \<open>is_reserved_or_private\<close>, a disjunction of tests on octets, is membership of the
  32-bit address in the listed blocks: the private, shared, loopback, link-local, documentation,
  protocol-assignment, multicast and reserved ranges and the single address 0.0.0.0.\<close>

theorem reserved_ranges_equiv:
  "is_reserved_or_private ip =
     list_ex (\<lambda>(lo, hi). lo \<le> unat (ip_to_bits ip) \<and> unat (ip_to_bits ip) \<le> hi) reserved_ranges"
  by (simp add: is_reserved_or_private_ranges in_reserved_range_def)

text \<open>The target of an accepted mapping is a host address: if the \<open>ipnet\<close> functions behave as
  documented, it lies in a configured network, and strictly between that network's first and
  last address unless the network has a prefix length of at least 31.\<close>

theorem accepted_target_is_host:
  assumes doc: "ipnet_doc N" and ok: "validate_mapping N m cfg = Inr ()"
  shows "\<exists>cidr\<in>set (target_cidrs cfg).
    (if 31 \<le> net_prefix_len cidr
     then ip_to_bits (net_network N cidr) \<le> ip_to_bits (target_ip m) \<and>
          ip_to_bits (target_ip m) \<le> ip_to_bits (net_broadcast N cidr)
     else ip_to_bits (net_network N cidr) < ip_to_bits (target_ip m) \<and>
          ip_to_bits (target_ip m) < ip_to_bits (net_broadcast N cidr))"
proof -
  from ok obtain cidr where
      f: "find (\<lambda>c. net_contains N c (target_ip m)) (target_cidrs cfg) = Some cidr"
    and n: "\<not> is_network_or_broadcast N (target_ip m) cidr"
    by (auto simp: validate_mapping_ok mapping_ok_def target_ok_def)
  from find_SomeD [OF f] have "cidr \<in> set (target_cidrs cfg)"
    and "net_contains N cidr (target_ip m)" by auto
  with doc n show ?thesis
    by (intro bexI [of _ cidr])
      (auto simp: ipnet_doc_def is_network_or_broadcast_def order_less_le)
qed

theorem accepted_target_is_host_witness:
  "ipnet_doc cidr_ops \<and> validate_mapping cidr_ops sample_static sample_config = Inr () \<and>
   (\<exists>cidr\<in>set (target_cidrs sample_config).
      ip_to_bits (net_network cidr_ops cidr) < ip_to_bits (target_ip sample_static))"
proof -
  have ok: "validate_mapping cidr_ops sample_static sample_config = Inr ()"
    by (simp add: validate_mapping_ok sample_ok)
  have "\<not> 31 \<le> net_prefix_len cidr" if "cidr \<in> set (target_cidrs sample_config)" for cidr
    using that by (simp add: sample_defs)
  with cidr_ops_doc ok accepted_target_is_host [OF cidr_ops_doc ok] show ?thesis by auto
qed

text \<open>The check behind the message "public IP must be globally routable" accepts addresses
  that are not globally routable: of 0.0.0.0/8 it rejects 0.0.0.0 only, and it does not reject
  the benchmarking block 198.18.0.0/15.\<close>

theorem public_ip_check_accepts_unroutable:
  "validate_public_ip (Ipv4Addr 0 b c d) =
     (if b = 0 \<and> c = 0 \<and> d = 0
      then Inl (Validation ''public IP must be globally routable: 0.0.0.0'') else Inr ()) \<and>
   validate_public_ip (Ipv4Addr 198 18 c d) = Inr () \<and>
   validate_public_ip (Ipv4Addr 198 19 c d) = Inr ()"
  by (simp add: validate_public_ip_def is_reserved_or_private_def ip_is_private_def
      ip_is_loopback_def ip_is_link_local_def ip_is_multicast_def ip_is_broadcast_def
      ip_is_unspecified_def ip_to_string_def show_octet_def show_nat.simps)

end
