(* ===== verification/Store_Contract.thy ===== *)
theory Store_Contract
  imports Core_Validation
begin

text \<open>
  What the two mapping stores of the program promise, as the locale \<open>mapping_store\<close>. The
  in-memory store of \<open>edge-core\<close> and the SQLite store of \<open>edge-store\<close> run the same checks on a
  write (\<open>reject_pair\<close> is the body of the loop both have), differ in what they do to the time
  stamps and to errors, and interpret the locale in their own theories.

  The lemmas of the locale are proved once for both: what a read returns after a write, and that
  any sequence of writes keeps the stored mappings \<open>coherent\<close>.
\<close>

section \<open>The check of a candidate against one stored mapping\<close>

definition reject_pair :: "mapping \<Rightarrow> mapping \<Rightarrow> unit core_result" where
  "reject_pair candidate existing =
     res_bind
       (case public_ip candidate of
          None \<Rightarrow> Inr ()
        | Some ip \<Rightarrow>
            if public_ip existing = Some ip \<and>
               (m_mode existing = OneToOneSnat \<or> m_mode candidate = OneToOneSnat)
            then Inl (DuplicatePublicIp ip) else Inr ())
       (\<lambda>_. if m_mode existing = OneToOneSnat \<and> m_mode candidate = OneToOneSnat \<and>
               target_ip existing = target_ip candidate
            then Inl (DuplicateTargetIp (target_ip candidate))
            else if conflicts existing candidate
            then Inl (DuplicateEdgePrivateIp (edge_private_ip candidate))
            else Inr ())"

text \<open>Two one-to-one mappings with the same target. Unlike \<open>conflicts\<close> this does not ask whether
  they are enabled.\<close>

definition target_clash :: "mapping \<Rightarrow> mapping \<Rightarrow> bool" where
  "target_clash a b \<longleftrightarrow>
     m_mode a = OneToOneSnat \<and> m_mode b = OneToOneSnat \<and> target_ip a = target_ip b"

definition admits :: "mapping \<Rightarrow> mapping \<Rightarrow> bool" where
  "admits candidate existing \<longleftrightarrow> compatible candidate existing \<and> \<not> target_clash candidate existing"

lemma reject_pair_ok: "reject_pair c x = Inr () \<longleftrightarrow> admits c x"
  by (cases "public_ip c")
    (auto simp: reject_pair_def admits_def compatible_def public_clash_def target_clash_def
      conflicts_sym)

lemma reject_pair_error:
  assumes "reject_pair c x = Inl e" shows "justifies c x e"
proof -
  have edge: "edge_private_ip c = edge_private_ip x" if "conflicts x c" "\<not> target_clash c x"
    using that by (cases "m_mode c"; cases "m_mode x") (auto simp: conflicts_def target_clash_def split: if_splits)
  show ?thesis
    using assms edge
    by (cases "public_ip c")
      (auto simp: reject_pair_def justifies_def target_clash_def split: if_splits)
qed

lemma admits_sym: "admits a b \<Longrightarrow> admits b a"
  by (auto simp: admits_def target_clash_def intro: compatible_sym)

text \<open>What does not depend on the enabled flags: the part of the check no later operation can
  undo.\<close>

definition coherent_pair :: "mapping \<Rightarrow> mapping \<Rightarrow> bool" where
  "coherent_pair a b \<longleftrightarrow> \<not> public_clash a b \<and> \<not> target_clash a b"

lemma admits_coherent: "admits a b \<Longrightarrow> coherent_pair a b"
  by (simp add: admits_def coherent_pair_def compatible_def)

lemma coherent_pair_sym: "coherent_pair a b \<Longrightarrow> coherent_pair b a"
  by (auto simp: coherent_pair_def target_clash_def public_clash_sym)

text \<open>The fields a mapping is routed by; time stamps, status and health are left out.\<close>

definition same_route :: "mapping \<Rightarrow> mapping \<Rightarrow> bool" where
  "same_route a b \<longleftrightarrow>
     m_id a = m_id b \<and> m_name a = m_name b \<and> public_ip a = public_ip b \<and>
     edge_private_ip a = edge_private_ip b \<and> target_ip a = target_ip b \<and>
     public_port a = public_port b \<and> target_port a = target_port b \<and>
     m_protocol a = m_protocol b \<and> m_mode a = m_mode b \<and> m_backend a = m_backend b"

lemma same_route_coherent: "same_route a b \<Longrightarrow> coherent_pair a x \<Longrightarrow> coherent_pair b x"
  by (auto simp: same_route_def coherent_pair_def public_clash_def target_clash_def)

lemma same_route_mapping_ok: "same_route a b \<Longrightarrow> mapping_ok N cfg a \<longleftrightarrow> mapping_ok N cfg b"
  by (cases "m_mode b") (simp_all add: same_route_def mapping_ok_def backend_ok_def ports_ok_def)

lemma same_route_admits:
  "same_route a b \<Longrightarrow> enabled a = enabled b \<Longrightarrow> admits a x \<longleftrightarrow> admits b x"
  by (cases "m_mode b"; cases "m_mode x")
    (simp_all add: same_route_def admits_def compatible_def conflicts_def public_clash_def
      target_clash_def)

lemma same_route_set_enabled: "same_route m (mapping_set_enabled now en m)"
  by (simp add: same_route_def mapping_set_enabled_def)

lemma set_enabled_mapping_ok [simp]:
  "mapping_ok N cfg (mapping_set_enabled now en m) \<longleftrightarrow> mapping_ok N cfg m"
  by (rule same_route_mapping_ok [OF same_route_set_enabled, symmetric])

lemma set_enabled_fields [simp]:
  "m_id (mapping_set_enabled now en m) = m_id m"
  "enabled (mapping_set_enabled now en m) = en"
  "m_status (mapping_set_enabled now en m) = (if en then MPending else MDisabled)"
  by (simp_all add: mapping_set_enabled_def)

section \<open>The contract\<close>

type_synonym mapping_view = "mapping_id \<Rightarrow> mapping option"

definition fits :: "mapping \<Rightarrow> mapping_view \<Rightarrow> bool" where
  "fits c v \<longleftrightarrow> (\<forall>i x. v i = Some x \<longrightarrow> i \<noteq> m_id c \<longrightarrow> admits c x)"

definition coherent :: "mapping_view \<Rightarrow> bool" where
  "coherent v \<longleftrightarrow>
     (\<forall>i x. v i = Some x \<longrightarrow> m_id x = i) \<and>
     (\<forall>i j x y. v i = Some x \<longrightarrow> v j = Some y \<longrightarrow> i \<noteq> j \<longrightarrow> coherent_pair x y)"

text \<open>The change \<open>set_mapping_enabled\<close> makes, at some time.\<close>

definition enables :: "mapping_id \<Rightarrow> bool \<Rightarrow> mapping_view \<Rightarrow> mapping_view \<Rightarrow> bool" where
  "enables i en v w \<longleftrightarrow> (\<exists>now x. v i = Some x \<and> w = v(i \<mapsto> mapping_set_enabled now en x))"

text \<open>The writes of a store, as a client sends them; the time stamps are those the in-memory store
  would read from the clock. A failed \<open>WEnable\<close> may still have had its effect: the SQLite store
  reads the mapping back after the update, and that read can fail.\<close>

datatype store_write =
    WInsert mapping
  | WUpdate timestamp mapping
  | WDelete mapping_id
  | WEnable timestamp mapping_id bool

locale mapping_store =
  fixes invar :: "'s \<Rightarrow> bool"
    and find_m :: "'s \<Rightarrow> mapping_view"
    and perform :: "store_write \<Rightarrow> 's \<Rightarrow> bool \<times> 's"
  assumes perform_invar: "invar s \<Longrightarrow> invar (snd (perform w s))"
    and insert_done: "invar s \<Longrightarrow> perform (WInsert m) s = (True, t) \<Longrightarrow>
      find_m s (m_id m) = None \<and> fits m (find_m s) \<and> find_m t = (find_m s)(m_id m \<mapsto> m)"
    and insert_failed: "invar s \<Longrightarrow> perform (WInsert m) s = (False, t) \<Longrightarrow> find_m t = find_m s"
    and update_done: "invar s \<Longrightarrow> perform (WUpdate now m) s = (True, t) \<Longrightarrow>
      find_m s (m_id m) \<noteq> None \<and> fits m (find_m s) \<and>
      (\<exists>m'. same_route m m' \<and> enabled m' = enabled m \<and> find_m t = (find_m s)(m_id m \<mapsto> m'))"
    and update_failed: "invar s \<Longrightarrow> perform (WUpdate now m) s = (False, t) \<Longrightarrow> find_m t = find_m s"
    and delete_done: "invar s \<Longrightarrow> perform (WDelete i) s = (True, t) \<Longrightarrow>
      find_m s i \<noteq> None \<and> find_m t = (find_m s)(i := None)"
    and delete_failed: "invar s \<Longrightarrow> perform (WDelete i) s = (False, t) \<Longrightarrow> find_m t = find_m s"
    and enable_done: "invar s \<Longrightarrow> perform (WEnable now i en) s = (True, t) \<Longrightarrow> enables i en (find_m s) (find_m t)"
    and enable_failed: "invar s \<Longrightarrow> perform (WEnable now i en) s = (False, t) \<Longrightarrow>
      find_m t = find_m s \<or> enables i en (find_m s) (find_m t)"
begin

fun writes :: "store_write list \<Rightarrow> 's \<Rightarrow> 's" where
  "writes [] s = s"
| "writes (w # ws) s = writes ws (snd (perform w s))"

lemma get_after_insert: "invar s \<Longrightarrow> perform (WInsert m) s = (True, t) \<Longrightarrow> find_m t (m_id m) = Some m"
  by (drule (1) insert_done) simp

lemma get_after_delete: "invar s \<Longrightarrow> perform (WDelete i) s = (True, t) \<Longrightarrow> find_m t i = None"
  by (drule (1) delete_done) simp

lemma failed_write:
  "invar s \<Longrightarrow> perform w s = (False, t) \<Longrightarrow>
     find_m t = find_m s \<or> (\<exists>now i en. w = WEnable now i en \<and> enables i en (find_m s) (find_m t))"
  by (cases w) (auto dest: insert_failed update_failed delete_failed enable_failed)

lemma coherent_upd:
  assumes "coherent v" and "m_id m' = i" and "\<And>j x. v j = Some x \<Longrightarrow> j \<noteq> i \<Longrightarrow> coherent_pair m' x"
  shows "coherent (v(i \<mapsto> m'))"
  using assms by (auto simp: coherent_def intro: coherent_pair_sym)

lemma coherent_del: "coherent v \<Longrightarrow> coherent (v(i := None))"
  by (auto simp: coherent_def)

lemma coherent_enables:
  assumes coh: "coherent v" and "enables i en v w" shows "coherent w"
proof -
  from assms(2) obtain now x where x: "v i = Some x" "w = v(i \<mapsto> mapping_set_enabled now en x)"
    by (auto simp: enables_def)
  have "coherent_pair (mapping_set_enabled now en x) y" if "v j = Some y" "j \<noteq> i" for j y
    using coh x(1) that by (intro same_route_coherent [OF same_route_set_enabled])
      (auto simp: coherent_def)
  moreover have "m_id (mapping_set_enabled now en x) = i" using coh x(1) by (simp add: coherent_def)
  ultimately show ?thesis using coherent_upd [OF coh, of "mapping_set_enabled now en x" i] x(2) by simp
qed

lemma perform_coherent:
  assumes inv: "invar s" and coh: "coherent (find_m s)" and w: "perform w s = (ok, t)"
  shows "coherent (find_m t)"
proof (cases ok)
  case False
  with inv w failed_write [of s w t] coh show ?thesis by (auto intro: coherent_enables)
next
  case True
  with w have w: "perform w s = (True, t)" by simp
  show ?thesis
  proof (cases w)
    case (WInsert m)
    from insert_done [OF inv w [unfolded WInsert]] coh show ?thesis
      by (auto simp: fits_def intro!: coherent_upd dest: admits_coherent)
  next
    case (WUpdate now m)
    from update_done [OF inv w [unfolded WUpdate]] obtain m' where
      m': "same_route m m'" "find_m t = (find_m s)(m_id m \<mapsto> m')" and f: "fits m (find_m s)"
      by blast
    have "coherent_pair m' x" if "find_m s j = Some x" "j \<noteq> m_id m" for j x
      using f that m'(1) by (auto simp: fits_def intro: same_route_coherent dest: admits_coherent)
    moreover have "m_id m' = m_id m" using m'(1) by (simp add: same_route_def)
    ultimately show ?thesis using coherent_upd [OF coh, of m' "m_id m"] m'(2) by simp
  next
    case (WDelete i)
    from delete_done [OF inv w [unfolded WDelete]] coh show ?thesis by (simp add: coherent_del)
  next
    case (WEnable now i en)
    from enable_done [OF inv w [unfolded WEnable]] coh show ?thesis by (blast intro: coherent_enables)
  qed
qed

lemma writes_invar: "invar s \<Longrightarrow> invar (writes ws s)"
  by (induction ws arbitrary: s) (auto intro: perform_invar)

lemma writes_coherent: "invar s \<Longrightarrow> coherent (find_m s) \<Longrightarrow> coherent (find_m (writes ws s))"
proof (induction ws arbitrary: s)
  case Nil
  then show ?case by simp
next
  case (Cons w ws)
  obtain ok t where t: "perform w s = (ok, t)" by (cases "perform w s")
  have "coherent (find_m t)" using perform_coherent [OF Cons.prems t] .
  moreover have "invar t" using perform_invar [OF Cons.prems(1), of w] t by simp
  ultimately show ?case using Cons.IH t by simp
qed

end

end
