(* ===== verification/Btree_Map.thy ===== *)
theory Btree_Map
  imports Prelude
begin

text \<open>
  Rust's \<open>BTreeMap\<close> as its sorted list of entries. The locale \<open>ordered_map\<close> is the interface its
  clients use: lookup after insert and remove, iteration in key order, each key once. The
  interpretation \<open>bt\<close> discharges its laws for the list.
\<close>

locale ordered_map =
  fixes lookup :: "'m \<Rightarrow> 'k::linorder \<Rightarrow> 'v option"
    and ins :: "'k \<Rightarrow> 'v \<Rightarrow> 'm \<Rightarrow> 'm"
    and del :: "'k \<Rightarrow> 'm \<Rightarrow> 'm"
    and entries :: "'m \<Rightarrow> ('k \<times> 'v) list"
    and invar :: "'m \<Rightarrow> bool"
  assumes lookup_entries: "invar m \<Longrightarrow> lookup m = map_of (entries m)"
    and entries_sorted: "invar m \<Longrightarrow> sorted (map fst (entries m))"
    and entries_distinct: "invar m \<Longrightarrow> distinct (map fst (entries m))"
    and lookup_ins: "invar m \<Longrightarrow> lookup (ins k v m) = (lookup m)(k \<mapsto> v)"
    and lookup_del: "invar m \<Longrightarrow> lookup (del k m) = (lookup m)(k := None)"
    and invar_ins: "invar m \<Longrightarrow> invar (ins k v m)"
    and invar_del: "invar m \<Longrightarrow> invar (del k m)"
begin

lemma in_entries: "invar m \<Longrightarrow> (k, v) \<in> set (entries m) \<longleftrightarrow> lookup m k = Some v"
  by (simp add: lookup_entries entries_distinct)

lemma in_values: "invar m \<Longrightarrow> v \<in> set (map snd (entries m)) \<longleftrightarrow> (\<exists>k. lookup m k = Some v)"
  using in_entries by (force simp: image_iff)

text \<open>A property of all values is kept by an insert if the new value has it, and by a remove.\<close>

lemma values_all:
  "invar m \<Longrightarrow> (\<forall>x\<in>set (map snd (entries m)). P x) \<longleftrightarrow> (\<forall>k v. lookup m k = Some v \<longrightarrow> P v)"
  using in_values by blast

lemma values_ins:
  "invar m \<Longrightarrow> \<forall>x\<in>set (map snd (entries m)). P x \<Longrightarrow> P v \<Longrightarrow>
     \<forall>x\<in>set (map snd (entries (ins k v m))). P x"
  by (simp only: values_all invar_ins lookup_ins) simp

lemma values_del:
  "invar m \<Longrightarrow> \<forall>x\<in>set (map snd (entries m)). P x \<Longrightarrow> \<forall>x\<in>set (map snd (entries (del k m))). P x"
  by (simp only: values_all invar_del lookup_del) simp

lemma lookup_inj:
  assumes "invar m" and "i < length (entries m)" "j < length (entries m)"
    and "fst (entries m ! i) = fst (entries m ! j)"
  shows "i = j"
  using assms entries_distinct [OF assms(1)] by (auto simp: distinct_conv_nth)

end

type_synonym ('k, 'v) btree = "('k \<times> 'v) list"

fun bt_insert :: "'k::linorder \<Rightarrow> 'v \<Rightarrow> ('k, 'v) btree \<Rightarrow> ('k, 'v) btree" where
  "bt_insert k v [] = [(k, v)]"
| "bt_insert k v ((k', v') # es) =
     (if k < k' then (k, v) # (k', v') # es
      else if k = k' then (k, v) # es
      else (k', v') # bt_insert k v es)"

definition bt_remove :: "'k::linorder \<Rightarrow> ('k, 'v) btree \<Rightarrow> ('k, 'v) btree" where
  "bt_remove k es = filter (\<lambda>e. fst e \<noteq> k) es"

definition bt_invar :: "('k::linorder, 'v) btree \<Rightarrow> bool" where
  "bt_invar es \<longleftrightarrow> sorted (map fst es) \<and> distinct (map fst es)"

lemma bt_insert_keys: "set (map fst (bt_insert k v es)) = insert k (set (map fst es))"
  by (induction k v es rule: bt_insert.induct) auto

lemma bt_insert_invar: "bt_invar es \<Longrightarrow> bt_invar (bt_insert k v es)"
proof (induction k v es rule: bt_insert.induct)
  case (1 k v)
  then show ?case by (simp add: bt_invar_def)
next
  case (2 k v k' v' es)
  then have "bt_invar es" and low: "\<forall>x\<in>set (map fst es). k' < x"
    by (auto simp: bt_invar_def order_less_le)
  with 2 show ?case
    using bt_insert_keys [of k v es]
    by (auto simp: bt_invar_def not_less order.strict_iff_order)
qed

lemma bt_insert_lookup: "map_of (bt_insert k v es) = (map_of es)(k \<mapsto> v)"
  by (induction k v es rule: bt_insert.induct) (auto simp: fun_eq_iff)

lemma bt_remove_lookup: "map_of (bt_remove k es) = (map_of es)(k := None)"
  by (induction es) (auto simp: bt_remove_def fun_eq_iff)

lemma bt_remove_invar: "bt_invar es \<Longrightarrow> bt_invar (bt_remove k es)"
  by (auto simp: bt_invar_def bt_remove_def sorted_map distinct_map sorted_wrt_filter
      intro: inj_on_subset)

interpretation bt: ordered_map map_of bt_insert bt_remove "\<lambda>es. es" bt_invar
  by unfold_locales
    (simp_all add: bt_insert_lookup bt_remove_lookup bt_insert_invar bt_remove_invar,
     simp_all add: bt_invar_def)

end
