(* ===== verification/Core_State.thy ===== *)
theory Core_State
  imports Store_Contract Btree_Map
begin

text \<open>
  \<open>src/crates/edge-core/src/state.rs\<close>: generations and events, and \<open>InMemoryStateStore\<close> with
  every operation of the trait \<open>StateStore\<close>. The store's \<open>BTreeMap\<close> is the sorted entry list of
  \<open>Btree_Map\<close>; \<open>now\<close> is what \<open>OffsetDateTime::now_utc()\<close> returns in the call.

  The store interprets \<open>mapping_store\<close>; \<open>mem_reachable\<close> is the set of states any sequence of calls
  can reach from \<open>new\<close>, and \<open>mem_inv\<close> the invariant they all have.
\<close>

section \<open>Generations and events\<close>

datatype generation_status = GRendered | GValidated | GActive | GFailed
datatype event_level = EvDebug | EvInfo | EvWarn | EvError

record generation =
  g_id :: int
  g_status :: generation_status
  nftables_config :: string
  g_created_at :: timestamp
  applied_at :: "timestamp option"
  g_error :: "string option"

record new_generation =
  ng_status :: generation_status
  ng_config :: string
  ng_applied_at :: "timestamp option"
  ng_error :: "string option"

record event =
  ev_id :: int
  ev_level :: event_level
  ev_message :: string
  ev_data :: "string option"
  ev_created_at :: timestamp

record new_event =
  ne_level :: event_level
  ne_message :: string
  ne_data :: "string option"

section \<open>The in-memory store\<close>

record mem_store =
  mem_config :: "edge_config option"
  mem_mappings :: "(mapping_id, mapping) btree"
  mem_generations :: "generation list"
  mem_events :: "event list"
  next_generation_id :: int
  next_event_id :: int

definition mem_new :: mem_store where
  "mem_new =
     \<lparr>mem_config = None, mem_mappings = [], mem_generations = [], mem_events = [],
      next_generation_id = 1, next_event_id = 1\<rparr>"

type_synonym 'a mem_eff = "(mem_store, edge_core_error, 'a) eff"

definition validate_mapping_for_write ::
  "'n ipnet_ops_scheme \<Rightarrow> mapping \<Rightarrow> mem_store \<Rightarrow> unit core_result" where
  "validate_mapping_for_write N candidate s =
     res_bind (ok_or (Store ''edge config must be set before mappings'') (mem_config s)) (\<lambda>config.
     res_bind (validate_mapping N candidate config) (\<lambda>_.
     res_forM (\<lambda>existing. if m_id existing = m_id candidate then Inr ()
                         else reject_pair candidate existing)
       (map snd (mem_mappings s))))"

definition mem_set_edge_config :: "'n ipnet_ops_scheme \<Rightarrow> edge_config \<Rightarrow> unit mem_eff" where
  "mem_set_edge_config N config s =
     (case res_bind (validate_edge_config N config) (\<lambda>_.
             res_forM (\<lambda>m. validate_mapping N m config) (map snd (mem_mappings s))) of
        Inl e \<Rightarrow> (Inl e, s)
      | Inr _ \<Rightarrow> (Inr (), s\<lparr>mem_config := Some config\<rparr>))"

definition mem_insert_mapping :: "'n ipnet_ops_scheme \<Rightarrow> mapping \<Rightarrow> unit mem_eff" where
  "mem_insert_mapping N m s =
     (if map_of (mem_mappings s) (m_id m) \<noteq> None then (Inl (DuplicateMappingId (m_id m)), s)
      else (case validate_mapping_for_write N m s of
              Inl e \<Rightarrow> (Inl e, s)
            | Inr _ \<Rightarrow> (Inr (), s\<lparr>mem_mappings := bt_insert (m_id m) m (mem_mappings s)\<rparr>)))"

definition mem_get_mapping :: "mapping_id \<Rightarrow> mem_store \<Rightarrow> mapping core_result" where
  "mem_get_mapping i s = ok_or (NotFound i) (map_of (mem_mappings s) i)"

definition mem_list_mappings :: "mem_store \<Rightarrow> mapping list" where
  "mem_list_mappings s = map snd (mem_mappings s)"

definition mem_update_mapping :: "'n ipnet_ops_scheme \<Rightarrow> timestamp \<Rightarrow> mapping \<Rightarrow> unit mem_eff" where
  "mem_update_mapping N now m s =
     (if map_of (mem_mappings s) (m_id m) = None then (Inl (NotFound (m_id m)), s)
      else let m' = m\<lparr>updated_at := now\<rparr>
           in case validate_mapping_for_write N m' s of
                Inl e \<Rightarrow> (Inl e, s)
              | Inr _ \<Rightarrow> (Inr (), s\<lparr>mem_mappings := bt_insert (m_id m') m' (mem_mappings s)\<rparr>))"

definition mem_delete_mapping :: "mapping_id \<Rightarrow> mapping mem_eff" where
  "mem_delete_mapping i s =
     (case map_of (mem_mappings s) i of
        None \<Rightarrow> (Inl (NotFound i), s)
      | Some m \<Rightarrow> (Inr m, s\<lparr>mem_mappings := bt_remove i (mem_mappings s)\<rparr>))"

definition mem_set_mapping_enabled :: "timestamp \<Rightarrow> mapping_id \<Rightarrow> bool \<Rightarrow> unit mem_eff" where
  "mem_set_mapping_enabled now i en s =
     (case map_of (mem_mappings s) i of
        None \<Rightarrow> (Inl (NotFound i), s)
      | Some m \<Rightarrow>
          (Inr (), s\<lparr>mem_mappings := bt_insert i
             (m\<lparr>enabled := en, m_status := (if en then MPending else MDisabled), updated_at := now\<rparr>)
             (mem_mappings s)\<rparr>))"

definition mem_record_generation :: "timestamp \<Rightarrow> new_generation \<Rightarrow> generation mem_eff" where
  "mem_record_generation now ng s =
     (if trim (ng_config ng) = []
      then (Inl (Validation ''generation nftables_config cannot be empty''), s)
      else let g = \<lparr>g_id = next_generation_id s, g_status = ng_status ng,
                    nftables_config = ng_config ng, g_created_at = now,
                    applied_at = ng_applied_at ng, g_error = ng_error ng\<rparr>
           in (Inr g, s\<lparr>next_generation_id := wrap_i64 (next_generation_id s + 1),
                       mem_generations := mem_generations s @ [g]\<rparr>))"

definition mem_record_event :: "timestamp \<Rightarrow> new_event \<Rightarrow> event mem_eff" where
  "mem_record_event now ne s =
     (if trim (ne_message ne) = [] then (Inl (Validation ''event message cannot be empty''), s)
      else let e = \<lparr>ev_id = next_event_id s, ev_level = ne_level ne, ev_message = ne_message ne,
                    ev_data = ne_data ne, ev_created_at = now\<rparr>
           in (Inr e, s\<lparr>next_event_id := wrap_i64 (next_event_id s + 1),
                       mem_events := mem_events s @ [e]\<rparr>))"

section \<open>Sequences of calls\<close>

datatype mem_call =
    CConfig edge_config
  | CWrite store_write
  | CGeneration timestamp new_generation
  | CEvent timestamp new_event

fun mem_write :: "'n ipnet_ops_scheme \<Rightarrow> store_write \<Rightarrow> mem_store \<Rightarrow> bool \<times> mem_store" where
  "mem_write N (WInsert m) s = apfst res_ok (mem_insert_mapping N m s)"
| "mem_write N (WUpdate now m) s = apfst res_ok (mem_update_mapping N now m s)"
| "mem_write N (WDelete i) s = apfst res_ok (mem_delete_mapping i s)"
| "mem_write N (WEnable now i en) s = apfst res_ok (mem_set_mapping_enabled now i en s)"

fun mem_exec :: "'n ipnet_ops_scheme \<Rightarrow> mem_call \<Rightarrow> mem_store \<Rightarrow> bool \<times> mem_store" where
  "mem_exec N (CConfig cfg) s = apfst res_ok (mem_set_edge_config N cfg s)"
| "mem_exec N (CWrite w) s = mem_write N w s"
| "mem_exec N (CGeneration now ng) s = apfst res_ok (mem_record_generation now ng s)"
| "mem_exec N (CEvent now ne) s = apfst res_ok (mem_record_event now ne s)"

text \<open>The states that calls with a given property can reach from an empty store.\<close>

inductive mem_reachable :: "'n ipnet_ops_scheme \<Rightarrow> (mem_call \<Rightarrow> bool) \<Rightarrow> mem_store \<Rightarrow> bool" for N P where
  reach_new: "mem_reachable N P mem_new"
| reach_call: "mem_reachable N P s \<Longrightarrow> P c \<Longrightarrow> mem_exec N c s = (ok, t) \<Longrightarrow> mem_reachable N P t"

definition reenables :: "mem_call \<Rightarrow> bool" where
  "reenables c = (case c of CWrite (WEnable _ _ en) \<Rightarrow> en | _ \<Rightarrow> False)"

section \<open>The store keeps its contract\<close>

abbreviation mem_view :: "mem_store \<Rightarrow> mapping_view" where
  "mem_view s \<equiv> map_of (mem_mappings s)"

definition mem_invar :: "mem_store \<Rightarrow> bool" where
  "mem_invar s \<longleftrightarrow> bt_invar (mem_mappings s) \<and> (\<forall>i m. mem_view s i = Some m \<longrightarrow> m_id m = i)"

lemma mem_list_view: "mem_invar s \<Longrightarrow> m \<in> set (mem_list_mappings s) \<longleftrightarrow> mem_view s (m_id m) = Some m"
  using bt.in_values [of "mem_mappings s" m] by (auto simp: mem_invar_def mem_list_mappings_def)

lemma mem_invar_ins: "mem_invar s \<Longrightarrow> mem_invar (s\<lparr>mem_mappings := bt_insert (m_id m) m (mem_mappings s)\<rparr>)"
  by (auto simp: mem_invar_def bt.invar_ins bt.lookup_ins)

lemma mem_invar_del: "mem_invar s \<Longrightarrow> mem_invar (s\<lparr>mem_mappings := bt_remove i (mem_mappings s)\<rparr>)"
  by (auto simp: mem_invar_def bt.invar_del bt.lookup_del)

lemma write_check_ok:
  assumes "mem_invar s"
  shows "validate_mapping_for_write N m s = Inr () \<longleftrightarrow>
    (\<exists>cfg. mem_config s = Some cfg \<and> mapping_ok N cfg m) \<and> fits m (mem_view s)"
proof -
  have "(res_forM (\<lambda>x. if m_id x = m_id m then Inr () else reject_pair m x)
      (map snd (mem_mappings s)) = Inr ()) \<longleftrightarrow>
    (\<forall>x\<in>set (mem_list_mappings s). m_id x \<noteq> m_id m \<longrightarrow> admits m x)"
    by (simp add: mem_list_mappings_def reject_pair_ok imp_conv_disj)
  also have "\<dots> \<longleftrightarrow> (\<forall>i x. mem_view s i = Some x \<longrightarrow> m_id x \<noteq> m_id m \<longrightarrow> admits m x)"
    using assms by (simp only: mem_invar_def mem_list_mappings_def bt.values_all)
  also have "\<dots> \<longleftrightarrow> fits m (mem_view s)"
    using assms unfolding fits_def mem_invar_def by metis
  finally show ?thesis
    unfolding validate_mapping_for_write_def
    by (cases "mem_config s") (simp_all add: validate_mapping_ok)
qed

lemmas mem_write_defs =
  mem_insert_mapping_def mem_update_mapping_def mem_delete_mapping_def mem_set_mapping_enabled_def
  Let_def apfst_def map_prod_def

lemma mem_write_invar: "mem_invar s \<Longrightarrow> mem_invar (snd (mem_write N w s))"
proof (cases w)
  case (WEnable now i en)
  assume "mem_invar s"
  then have "m_id m = i" if "mem_view s i = Some m" for m using that by (simp add: mem_invar_def)
  with WEnable \<open>mem_invar s\<close> show ?thesis
    using mem_invar_ins [of s "mapping_set_enabled now en (the (mem_view s i))"]
    by (cases "mem_view s i") (simp_all add: mem_write_defs mapping_set_enabled_def)
next
  case (WUpdate now m)
  assume "mem_invar s"
  with WUpdate show ?thesis
    using mem_invar_ins [of s "m\<lparr>updated_at := now\<rparr>"]
    by (auto simp: mem_write_defs split: sum.splits)
qed (auto simp: mem_write_defs mem_invar_ins mem_invar_del split: sum.splits option.splits)

lemma mem_set_enabled_alt:
  "mem_set_mapping_enabled now i en s =
     (case map_of (mem_mappings s) i of
        None \<Rightarrow> (Inl (NotFound i), s)
      | Some m \<Rightarrow> (Inr (), s\<lparr>mem_mappings := bt_insert i (mapping_set_enabled now en m) (mem_mappings s)\<rparr>))"
  unfolding mem_set_mapping_enabled_def mapping_set_enabled_def ..

lemma mem_write_failed: "mem_write N w s = (False, t) \<Longrightarrow> t = s"
  by (cases w) (auto simp: mem_write_defs split: if_splits sum.splits option.splits)

interpretation mem: mapping_store mem_invar mem_view "mem_write N" for N
proof
  fix s t :: mem_store and m now i en w
  assume inv: "mem_invar s"
  then have bt: "bt_invar (mem_mappings s)" by (simp add: mem_invar_def)
  show "mem_invar (snd (mem_write N w s))" using inv by (rule mem_write_invar)
  show "mem_view s (m_id m) = None \<and> fits m (mem_view s) \<and> mem_view t = (mem_view s)(m_id m \<mapsto> m)"
    if "mem_write N (WInsert m) s = (True, t)"
    using that inv bt
    by (auto simp: mem_write_defs write_check_ok bt.lookup_ins split: if_splits sum.splits)
  show "mem_view s (m_id m) \<noteq> None \<and> fits m (mem_view s) \<and>
      (\<exists>m'. same_route m m' \<and> enabled m' = enabled m \<and> mem_view t = (mem_view s)(m_id m \<mapsto> m'))"
    if w: "mem_write N (WUpdate now m) s = (True, t)"
  proof -
    let ?m = "m\<lparr>updated_at := now\<rparr>"
    from w have "validate_mapping_for_write N ?m s = Inr ()" "mem_view s (m_id m) \<noteq> None"
      and t: "t = s\<lparr>mem_mappings := bt_insert (m_id m) ?m (mem_mappings s)\<rparr>"
      by (auto simp: mem_write_defs split: if_splits sum.splits)
    moreover have "same_route m ?m" by (simp add: same_route_def)
    ultimately show ?thesis
      using inv same_route_admits [of m ?m]
      by (auto simp: write_check_ok fits_def bt bt.lookup_ins intro!: exI [of _ ?m])
  qed
  show "mem_view s i \<noteq> None \<and> mem_view t = (mem_view s)(i := None)"
    if "mem_write N (WDelete i) s = (True, t)"
    using that bt by (auto simp: mem_write_defs bt.lookup_del split: option.splits)
  show "enables i en (mem_view s) (mem_view t)" if "mem_write N (WEnable now i en) s = (True, t)"
  proof -
    from that obtain x where "mem_view s i = Some x"
      and "t = s\<lparr>mem_mappings := bt_insert i (mapping_set_enabled now en x) (mem_mappings s)\<rparr>"
      by (auto simp: mem_set_enabled_alt split: option.splits)
    then show ?thesis using bt by (auto simp: enables_def bt.lookup_ins)
  qed
qed (auto dest: mem_write_failed simp del: mem_write.simps)

section \<open>Invariants of all reachable states\<close>

definition mem_valid :: "'n ipnet_ops_scheme \<Rightarrow> mem_store \<Rightarrow> bool" where
  "mem_valid N s \<longleftrightarrow>
     (\<forall>cfg. mem_config s = Some cfg \<longrightarrow> edge_config_ok cfg) \<and>
     (\<forall>i m. mem_view s i = Some m \<longrightarrow> (\<exists>cfg. mem_config s = Some cfg \<and> mapping_ok N cfg m))"

text \<open>Identifiers count up from 1, wrapping around like an \<open>i64\<close>.\<close>

definition numbered :: "int list \<Rightarrow> int \<Rightarrow> bool" where
  "numbered ids next \<longleftrightarrow>
     next = wrap_i64 (1 + int (length ids)) \<and> (\<forall>k<length ids. ids ! k = wrap_i64 (1 + int k))"

definition mem_numbered :: "mem_store \<Rightarrow> bool" where
  "mem_numbered s \<longleftrightarrow>
     numbered (map g_id (mem_generations s)) (next_generation_id s) \<and>
     numbered (map ev_id (mem_events s)) (next_event_id s)"

lemma wrap_i64_Suc: "wrap_i64 (wrap_i64 n + 1) = wrap_i64 (n + 1)"
proof -
  have "((n + 2 ^ 63) mod 2 ^ 64 + 1) mod 2 ^ 64 = (n + 2 ^ 63 + 1) mod (2 ^ 64 :: int)"
    by (rule mod_add_left_eq)
  then show ?thesis by (simp add: wrap_i64_def algebra_simps)
qed

lemma numbered_snoc: "numbered ids next \<Longrightarrow> numbered (ids @ [next]) (wrap_i64 (next + 1))"
  using wrap_i64_Suc [of "1 + int (length ids)"]
  by (auto simp: numbered_def nth_append less_Suc_eq algebra_simps)

lemma view_other_calls:
  "\<nexists>w. c = CWrite w \<Longrightarrow> mem_mappings (snd (mem_exec N c s)) = mem_mappings s"
  by (cases c)
    (auto simp: mem_set_edge_config_def mem_record_generation_def mem_record_event_def Let_def
      apfst_def map_prod_def split: sum.split)

lemma write_keeps_rest:
  "mem_config (snd (mem_write N w s)) = mem_config s"
  "mem_generations (snd (mem_write N w s)) = mem_generations s"
  "mem_events (snd (mem_write N w s)) = mem_events s"
  "next_generation_id (snd (mem_write N w s)) = next_generation_id s"
  "next_event_id (snd (mem_write N w s)) = next_event_id s"
  by (cases w; auto simp: mem_write_defs split: sum.split option.split)+

lemma mem_exec_invar:
  assumes "mem_invar s" shows "mem_invar (snd (mem_exec N c s))"
proof (cases "\<exists>w. c = CWrite w")
  case True
  then show ?thesis using mem_write_invar [OF assms] by auto
next
  case False
  then show ?thesis using assms view_other_calls [of c N s] by (simp add: mem_invar_def)
qed

lemma mem_exec_coherent:
  assumes "mem_invar s" "coherent (mem_view s)" shows "coherent (mem_view (snd (mem_exec N c s)))"
proof (cases "\<exists>w. c = CWrite w")
  case True
  then obtain w where "c = CWrite w" by blast
  moreover obtain ok t where "mem_write N w s = (ok, t)" by (cases "mem_write N w s")
  ultimately show ?thesis using mem.perform_coherent [OF assms] by simp
next
  case False
  then show ?thesis using assms view_other_calls [of c N s] by simp
qed

lemma mem_write_valid:
  assumes "mem_invar s" "mem_valid N s" shows "mem_valid N (snd (mem_write N w s))"
proof -
  obtain ok t where t: "mem_write N w s = (ok, t)" by (cases "mem_write N w s")
  have cfg: "mem_config t = mem_config s" using write_keeps_rest(1) [of N w s] t by simp
  have "\<exists>cfg. mem_config s = Some cfg \<and> mapping_ok N cfg m" if m: "mem_view t i = Some m" for i m
  proof (cases "ok \<and> mem_view s i \<noteq> Some m")
    case False
    then show ?thesis using mem_write_failed [of N w s t] t m assms(2) by (auto simp: mem_valid_def)
  next
    case True
    then have t: "mem_write N w s = (True, t)" and new: "mem_view s i \<noteq> Some m" using t by auto
    show ?thesis
    proof (cases w)
      case (WInsert m')
      then have "validate_mapping_for_write N m' s = Inr ()"
        and "t = s\<lparr>mem_mappings := bt_insert (m_id m') m' (mem_mappings s)\<rparr>"
        using t by (auto simp: mem_write_defs split: if_splits sum.splits)
      then show ?thesis using m new assms(1)
        by (auto simp: write_check_ok mem_invar_def bt.lookup_ins split: if_splits)
    next
      case (WUpdate now m')
      then have "validate_mapping_for_write N (m'\<lparr>updated_at := now\<rparr>) s = Inr ()"
        and "t = s\<lparr>mem_mappings := bt_insert (m_id m') (m'\<lparr>updated_at := now\<rparr>) (mem_mappings s)\<rparr>"
        using t by (auto simp: mem_write_defs split: if_splits sum.splits)
      then show ?thesis using m new assms(1)
        by (auto simp: write_check_ok mem_invar_def bt.lookup_ins split: if_splits)
    next
      case (WDelete j)
      with t new m mem.delete_done [OF assms(1), of N j t] show ?thesis by (auto split: if_splits)
    next
      case (WEnable now j en)
      with t new m mem.enable_done [OF assms(1), of N now j en t] assms(2) show ?thesis
        by (auto simp: mem_valid_def enables_def split: if_splits)
    qed
  qed
  with assms(2) cfg t show ?thesis by (auto simp: mem_valid_def)
qed

lemma mem_exec_valid:
  assumes "mem_invar s" "mem_valid N s" shows "mem_valid N (snd (mem_exec N c s))"
proof (cases c)
  case (CConfig cfg)
  have "mem_valid N (s\<lparr>mem_config := Some cfg\<rparr>)" if "validate_edge_config N cfg = Inr ()"
    and v: "\<forall>m\<in>set (map snd (mem_mappings s)). validate_mapping N m cfg = Inr ()"
    using that(1) assms(1) v
    by (simp only: mem_invar_def bt.values_all)
      (auto simp: mem_valid_def validate_edge_config_ok validate_mapping_ok)
  with CConfig assms show ?thesis
    by (auto simp: mem_set_edge_config_def split: sum.split)
next
  case (CWrite w)
  then show ?thesis using mem_write_valid [OF assms] by simp
qed (use assms in \<open>auto simp: mem_record_generation_def mem_record_event_def Let_def mem_valid_def
       split: if_splits\<close>)

lemma mem_exec_numbered:
  assumes "mem_numbered s" shows "mem_numbered (snd (mem_exec N c s))"
proof (cases c)
  case (CWrite w)
  with assms show ?thesis by (simp add: mem_numbered_def write_keeps_rest)
qed (use assms in \<open>auto simp: mem_numbered_def mem_set_edge_config_def mem_record_generation_def
       mem_record_event_def Let_def numbered_snoc split: sum.split\<close>)

lemma mem_reachable_invariants:
  "mem_reachable N P s \<Longrightarrow>
     mem_invar s \<and> coherent (mem_view s) \<and> mem_valid N s \<and> mem_numbered s"
proof (induction rule: mem_reachable.induct)
  case reach_new
  show ?case
    by (simp add: mem_new_def mem_invar_def bt_invar_def coherent_def mem_valid_def mem_numbered_def
        numbered_def wrap_i64_id i64_max_def)
next
  case (reach_call s c ok t)
  then have "t = snd (mem_exec N c s)" by simp
  then show ?case
    using reach_call.IH mem_exec_invar [of s N c] mem_exec_coherent [of s N c]
      mem_exec_valid [of s N c] mem_exec_numbered [of s N c] by simp
qed

text \<open>Without a call that enables a stored mapping, the stored mappings stay pairwise admissible,
  which is more than \<open>coherent\<close>: no two enabled ones conflict.\<close>

definition all_admit :: "mapping_view \<Rightarrow> bool" where
  "all_admit v \<longleftrightarrow> (\<forall>i j x y. v i = Some x \<longrightarrow> v j = Some y \<longrightarrow> i \<noteq> j \<longrightarrow> admits x y)"

lemma all_admitD: "all_admit v \<Longrightarrow> v i = Some x \<Longrightarrow> v j = Some y \<Longrightarrow> j \<noteq> i \<Longrightarrow> admits x y"
  by (simp add: all_admit_def)

lemma all_admit_upd:
  "all_admit v \<Longrightarrow> (\<And>j y. v j = Some y \<Longrightarrow> j \<noteq> i \<Longrightarrow> admits x y) \<Longrightarrow> all_admit (v(i \<mapsto> x))"
  by (auto simp: all_admit_def intro: admits_sym)

lemma disable_admits: "admits x y \<Longrightarrow> admits (mapping_set_enabled now False x) y"
  by (auto simp: admits_def compatible_def conflicts_def public_clash_def target_clash_def
      mapping_set_enabled_def)

lemma mem_write_all_admit:
  assumes inv: "mem_invar s" and adm: "all_admit (mem_view s)" and no: "\<not> reenables (CWrite w)"
    and t: "mem_write N w s = (ok, t)"
  shows "all_admit (mem_view t)"
proof (cases ok)
  case False
  then show ?thesis using mem_write_failed [of N w s t] t adm by simp
next
  case True
  with t have t: "mem_write N w s = (True, t)" by simp
  show ?thesis
  proof (cases w)
    case (WInsert m)
    from mem.insert_done [OF inv t [unfolded WInsert]] adm show ?thesis
      by (auto simp: fits_def intro: all_admit_upd)
  next
    case (WUpdate now m)
    from mem.update_done [OF inv t [unfolded WUpdate]] obtain m' where
      m': "same_route m m'" "enabled m' = enabled m" "mem_view t = (mem_view s)(m_id m \<mapsto> m')"
      and "fits m (mem_view s)" by blast
    then show ?thesis
      using same_route_admits [OF m'(1)] by (auto simp: fits_def intro!: all_admit_upd adm)
  next
    case (WDelete i)
    from mem.delete_done [OF inv t [unfolded WDelete]] adm show ?thesis
      by (auto simp: all_admit_def)
  next
    case (WEnable now i en)
    with no have "\<not> en" by (simp add: reenables_def)
    from mem.enable_done [OF inv t [unfolded WEnable]] obtain now x where
      x: "mem_view s i = Some x" "mem_view t = (mem_view s)(i \<mapsto> mapping_set_enabled now en x)"
      unfolding enables_def by blast
    have "admits (mapping_set_enabled now en x) y" if "mem_view s j = Some y" "j \<noteq> i" for j y
      using disable_admits [OF all_admitD [OF adm x(1) that]] \<open>\<not> en\<close> by simp
    then show ?thesis using x(2) all_admit_upd [OF adm] by simp
  qed
qed

lemma mem_reachable_all_admit:
  "mem_reachable N (\<lambda>c. \<not> reenables c) s \<Longrightarrow> all_admit (mem_view s)"
proof (induction rule: mem_reachable.induct)
  case reach_new
  show ?case by (simp add: mem_new_def all_admit_def)
next
  case (reach_call s c ok t)
  show ?case
  proof (cases "\<exists>w. c = CWrite w")
    case True
    then show ?thesis
      using mem_reachable_invariants [OF reach_call.hyps(1)] reach_call mem_write_all_admit by auto
  next
    case False
    then show ?thesis using reach_call view_other_calls [of c N s] by simp
  qed
qed

lemma pairwise_entries:
  assumes "distinct (map fst es)"
    and "\<And>i j x y. map_of es i = Some x \<Longrightarrow> map_of es j = Some y \<Longrightarrow> i \<noteq> j \<Longrightarrow> R x y"
  shows "pairwise_ok R (map snd es)"
  using assms
proof (induction es)
  case Nil
  then show ?case by simp
next
  case (Cons e es)
  have "R (snd e) y" if "(k, y) \<in> set es" for k y
    using Cons.prems(2) [of "fst e" "snd e" k y] Cons.prems(1) that by (force simp: image_iff)
  moreover have "pairwise_ok R (map snd es)"
  proof (rule Cons.IH)
    show "distinct (map fst es)" using Cons.prems(1) by simp
    fix i j x y
    assume ij: "map_of es i = Some x" "map_of es j = Some y" "i \<noteq> j"
    then have "i \<noteq> fst e" "j \<noteq> fst e" using Cons.prems(1) by (auto dest!: map_of_SomeD simp: rev_image_eqI)
    then show "R x y" using Cons.prems(2) [of i x j y] ij by simp
  qed
  ultimately show ?case by auto
qed

lemma bt_remove_insert: "k \<notin> fst ` set es \<Longrightarrow> bt_remove k (bt_insert k v es) = es"
proof (induction k v es rule: bt_insert.induct)
  case (2 k v k' v' es)
  then have "filter (\<lambda>e. fst e \<noteq> k) es = es" by (auto simp: filter_id_conv)
  with 2 show ?case by (auto simp: bt_remove_def)
qed (simp add: bt_remove_def)

lemma mem_list_ids:
  assumes "mem_invar s" shows "map m_id (mem_list_mappings s) = map fst (mem_mappings s)"
proof -
  have "m_id (snd e) = fst e" if "e \<in> set (mem_mappings s)" for e
    using that assms bt.in_entries [of "mem_mappings s" "fst e" "snd e"] by (simp add: mem_invar_def)
  then show ?thesis by (simp add: mem_list_mappings_def)
qed

section \<open>Sample states\<close>

definition sample_calls :: "mem_call list" where
  "sample_calls =
     [CConfig sample_config, CWrite (WInsert sample_tcp), CWrite (WInsert sample_udp)]"

fun mem_run :: "'n ipnet_ops_scheme \<Rightarrow> mem_call list \<Rightarrow> mem_store \<Rightarrow> mem_store" where
  "mem_run N [] s = s"
| "mem_run N (c # cs) s = mem_run N cs (snd (mem_exec N c s))"

lemma mem_run_reachable:
  "mem_reachable N P s \<Longrightarrow> \<forall>c\<in>set cs. P c \<Longrightarrow> mem_reachable N P (mem_run N cs s)"
proof (induction cs arbitrary: s)
  case (Cons c cs)
  from Cons.prems have "mem_reachable N P (snd (mem_exec N c s))"
    by (auto intro: reach_call [of N P s c "fst (mem_exec N c s)"])
  with Cons show ?case by simp
qed simp

lemma sample_config_ok: "edge_config_ok sample_config"
  by (simp add: edge_config_ok_def interface_ok_def sample_defs ip_is_unspecified_def)

lemma sample_ids [simp]:
  "m_id sample_static = MappingId ''map_uuid1''" "m_id sample_tcp = MappingId ''map_uuid2''"
  "m_id sample_udp = MappingId ''map_uuid3''"
  by (simp_all add: sample_defs sample_uuid_def show_nat.simps)

lemma sample_admits: "admits sample_udp sample_tcp"
  using sample_compatible by (simp add: admits_def target_clash_def) (simp add: sample_defs)

definition sample_store :: mem_store where
  "sample_store =
     mem_new\<lparr>mem_config := Some sample_config,
       mem_mappings := [(m_id sample_tcp, sample_tcp), (m_id sample_udp, sample_udp)]\<rparr>"

lemma sample_run: "mem_run cidr_ops sample_calls mem_new = sample_store"
proof -
  let ?s0 = "mem_new\<lparr>mem_config := Some sample_config\<rparr>"
  let ?s1 = "?s0\<lparr>mem_mappings := [(m_id sample_tcp, sample_tcp)]\<rparr>"
  have 0: "mem_exec cidr_ops (CConfig sample_config) mem_new = (True, ?s0)"
    using sample_config_ok [folded validate_edge_config_ok [of cidr_ops]]
    by (simp add: mem_set_edge_config_def mem_new_def)
  have 1: "mem_exec cidr_ops (CWrite (WInsert sample_tcp)) ?s0 = (True, ?s1)"
    using sample_ok [folded validate_mapping_ok]
    by (simp add: mem_insert_mapping_def validate_mapping_for_write_def mem_new_def)
  have "reject_pair sample_udp sample_tcp = Inr ()" by (simp add: reject_pair_ok sample_admits)
  then have 2: "mem_exec cidr_ops (CWrite (WInsert sample_udp)) ?s1 = (True, sample_store)"
    using sample_ok [folded validate_mapping_ok]
    by (simp add: mem_insert_mapping_def validate_mapping_for_write_def mem_new_def sample_store_def
        less_mapping_id_def)
  show ?thesis unfolding sample_calls_def by (simp only: mem_run.simps 0 1 2 snd_conv)
qed

lemma sample_reachable: "mem_reachable cidr_ops (\<lambda>c. \<not> reenables c) sample_store"
  using mem_run_reachable [OF reach_new, of sample_calls "\<lambda>c. \<not> reenables c" cidr_ops]
  by (simp add: sample_run) (simp add: sample_calls_def reenables_def)

lemma sample_reachable_all: "mem_reachable cidr_ops (\<lambda>_. True) sample_store"
  using mem_run_reachable [OF reach_new, of sample_calls "\<lambda>_. True" cidr_ops]
  by (simp add: sample_run)

text \<open>A port forward that claims what \<open>sample_tcp\<close> claims, under another identifier.\<close>

definition sample_rival :: mapping where
  "sample_rival = with_id (MappingId ''map_rival'') sample_tcp"

definition reenable_calls :: "mem_call list" where
  "reenable_calls =
     [CConfig sample_config, CWrite (WInsert sample_tcp),
      CWrite (WEnable 10 (m_id sample_tcp) False), CWrite (WInsert sample_rival),
      CWrite (WEnable 20 (m_id sample_tcp) True)]"

abbreviation sample_off :: mapping where
  "sample_off \<equiv> mapping_set_enabled 10 False sample_tcp"

abbreviation sample_on :: mapping where
  "sample_on \<equiv> mapping_set_enabled 20 True sample_off"

lemma sample_rival_facts:
  "m_id sample_rival = MappingId ''map_rival''" "mapping_ok cidr_ops sample_config sample_rival"
  "reject_pair sample_rival sample_off = Inr ()" "conflicts sample_rival sample_on"
  "conflict_error sample_rival sample_on = DuplicateEdgePrivateIp (Ipv4Addr 10 0 0 101)"
proof -
  show "m_id sample_rival = MappingId ''map_rival''" by (simp add: sample_rival_def with_id_def)
  show "mapping_ok cidr_ops sample_config sample_rival"
    using sample_ok(2)
    by (cases "m_mode sample_tcp")
      (simp_all add: sample_rival_def with_id_def mapping_ok_def backend_ok_def ports_ok_def)
  show "reject_pair sample_rival sample_off = Inr ()" "conflicts sample_rival sample_on"
    "conflict_error sample_rival sample_on = DuplicateEdgePrivateIp (Ipv4Addr 10 0 0 101)"
    by (simp_all add: sample_rival_def with_id_def mapping_set_enabled_def reject_pair_def
        conflicts_def conflict_error_def sample_defs)
qed

lemma reenable_run:
  "mem_run cidr_ops reenable_calls mem_new =
     mem_new\<lparr>mem_config := Some sample_config,
       mem_mappings := [(m_id sample_rival, sample_rival), (m_id sample_tcp, sample_on)]\<rparr>"
proof -
  have "validate_mapping cidr_ops sample_rival sample_config = Inr ()"
    "validate_mapping cidr_ops sample_tcp sample_config = Inr ()"
    "validate_edge_config cidr_ops sample_config = Inr ()"
    using sample_rival_facts(2) sample_ok(2) sample_config_ok
    by (simp_all add: validate_mapping_ok validate_edge_config_ok)
  then show ?thesis
    using sample_rival_facts(3)
    by (simp add: reenable_calls_def mem_set_edge_config_def mem_insert_mapping_def
        mem_set_enabled_alt validate_mapping_for_write_def mem_new_def sample_rival_facts(1)
        less_mapping_id_def)
qed

section \<open>Properties\<close>

text \<open>C33. Whatever sequence of calls built it, the in-memory store lists its mappings in the order
  of their identifiers and each identifier once, every stored mapping is acceptable under the
  configuration the store holds now, and no two stored mappings share a public address one of
  them owns alone, nor a one-to-one target.\<close>

theorem mem_reachable_sound:
  assumes "mem_reachable N (\<lambda>_. True) s"
  shows "sorted_wrt (<) (map m_id (mem_list_mappings s)) \<and>
    (\<forall>m\<in>set (mem_list_mappings s). \<exists>cfg. mem_config s = Some cfg \<and> edge_config_ok cfg \<and>
       validate_mapping N m cfg = Inr ()) \<and>
    pairwise_ok (\<lambda>a b. \<not> public_clash a b \<and> \<not> target_clash a b) (mem_list_mappings s)"
proof (intro conjI)
  from mem_reachable_invariants [OF assms] have inv: "mem_invar s" and coh: "coherent (mem_view s)"
    and valid: "mem_valid N s" by simp_all
  from inv have bt: "bt_invar (mem_mappings s)" by (simp add: mem_invar_def)
  then show "sorted_wrt (<) (map m_id (mem_list_mappings s))"
    by (simp add: mem_list_ids [OF inv] bt_invar_def strict_sorted_iff)
  show "\<forall>m\<in>set (mem_list_mappings s). \<exists>cfg. mem_config s = Some cfg \<and> edge_config_ok cfg \<and>
      validate_mapping N m cfg = Inr ()"
    using valid mem_list_view [OF inv] unfolding mem_valid_def validate_mapping_ok by blast
  show "pairwise_ok (\<lambda>a b. \<not> public_clash a b \<and> \<not> target_clash a b) (mem_list_mappings s)"
    using bt coh unfolding mem_list_mappings_def
    by (intro pairwise_entries) (auto simp: bt_invar_def coherent_def coherent_pair_def)
qed

theorem mem_reachable_sound_witness:
  "mem_reachable cidr_ops (\<lambda>_. True) sample_store \<and>
   sorted_wrt (<) (map m_id (mem_list_mappings sample_store)) \<and>
   mem_list_mappings sample_store = [sample_tcp, sample_udp]"
  using sample_reachable_all mem_reachable_sound [OF sample_reachable_all]
  by (simp add: mem_list_mappings_def sample_store_def)

text \<open>Reading back what was written: after a successful insert into a reachable store, the
  new mapping is found under its identifier, every other identifier reads as before, and
  deleting it returns it and restores the store as it was.\<close>

theorem mem_insert_get_delete:
  assumes reach: "mem_reachable N (\<lambda>_. True) s" and ins: "mem_insert_mapping N m s = (Inr u, t)"
  shows "mem_get_mapping (m_id m) t = Inr m \<and>
    (\<forall>j. j \<noteq> m_id m \<longrightarrow> mem_get_mapping j t = mem_get_mapping j s) \<and>
    mem_delete_mapping (m_id m) t = (Inr m, s)"
proof -
  from mem_reachable_invariants [OF reach] have inv: "mem_invar s" by simp
  have w: "mem_write N (WInsert m) s = (True, t)" using ins by simp
  note law = mem.insert_done [OF inv w]
  from ins have t: "t = s\<lparr>mem_mappings := bt_insert (m_id m) m (mem_mappings s)\<rparr>"
    by (auto simp: mem_insert_mapping_def split: if_splits sum.splits)
  have "m_id m \<notin> fst ` set (mem_mappings s)" using law by (simp add: map_of_eq_None_iff)
  then have "bt_remove (m_id m) (mem_mappings t) = mem_mappings s" using t by (simp add: bt_remove_insert)
  with law t show ?thesis by (simp add: mem_get_mapping_def mem_delete_mapping_def)
qed

theorem mem_insert_get_delete_witness:
  "\<exists>t. mem_insert_mapping cidr_ops sample_udp (snd (mem_delete_mapping (m_id sample_udp) sample_store)) =
         (Inr (), t) \<and> mem_get_mapping (m_id sample_udp) t = Inr sample_udp"
proof -
  let ?s = "snd (mem_delete_mapping (m_id sample_udp) sample_store)"
  have s: "?s = sample_store\<lparr>mem_mappings := [(m_id sample_tcp, sample_tcp)]\<rparr>"
    by (simp add: mem_delete_mapping_def sample_store_def bt_remove_def)
  have reach: "mem_reachable cidr_ops (\<lambda>_. True) ?s"
    using mem_run_reachable [OF sample_reachable_all, of "[CWrite (WDelete (m_id sample_udp))]"] by simp
  have "reject_pair sample_udp sample_tcp = Inr ()" by (simp add: reject_pair_ok sample_admits)
  then have ins: "mem_insert_mapping cidr_ops sample_udp ?s = (Inr (), sample_store)"
    using sample_ok [folded validate_mapping_ok] unfolding s
    by (simp add: mem_insert_mapping_def validate_mapping_for_write_def mem_new_def sample_store_def
        less_mapping_id_def)
  then show ?thesis using mem_insert_get_delete [OF reach ins] by blast
qed

text \<open>A call that reports an error has changed nothing: every check of every operation comes
  before its first write.\<close>

theorem mem_failed_call_no_effect:
  assumes "mem_exec N c s = (False, t)"
  shows "t = s"
proof (cases c)
  case (CWrite w)
  with assms show ?thesis using mem_write_failed by simp
qed (use assms in \<open>auto simp: mem_set_edge_config_def mem_record_generation_def mem_record_event_def
       Let_def split: if_splits sum.splits\<close>)

theorem mem_failed_call_no_effect_witness:
  "mem_exec cidr_ops (CWrite (WInsert sample_tcp)) sample_store = (False, sample_store)"
proof -
  obtain t where "mem_exec cidr_ops (CWrite (WInsert sample_tcp)) sample_store = (False, t)"
    by (simp add: mem_insert_mapping_def sample_store_def)
  then show ?thesis using mem_failed_call_no_effect by blast
qed

text \<open>As long as no call enables a stored mapping, the list of all stored mappings passes
  \<open>validate_mappings\<close>, the check the reconciler and the renderer run before they touch the
  system.\<close>

theorem mem_list_validates:
  assumes reach: "mem_reachable N (\<lambda>c. \<not> reenables c) s" and cfg: "mem_config s = Some cfg"
  shows "validate_mappings N (mem_list_mappings s) cfg = Inr ()"
proof -
  from mem_reachable_invariants [OF reach] have inv: "mem_invar s" and valid: "mem_valid N s"
    by simp_all
  have "pairwise_ok compatible (mem_list_mappings s)"
    using mem_reachable_all_admit [OF reach] inv unfolding mem_list_mappings_def
    by (intro pairwise_entries)
      (auto simp: mem_invar_def bt_invar_def all_admit_def admits_def)
  with valid cfg show ?thesis
    by (auto simp: validate_mappings_ok mem_list_view [OF inv] mem_valid_def)
qed

theorem mem_list_validates_witness:
  "mem_reachable cidr_ops (\<lambda>c. \<not> reenables c) sample_store \<and>
   mem_config sample_store = Some sample_config \<and>
   validate_mappings cidr_ops (mem_list_mappings sample_store) sample_config = Inr ()"
proof -
  have "mem_config sample_store = Some sample_config" by (simp add: sample_store_def)
  with sample_reachable mem_list_validates [OF sample_reachable this] show ?thesis by simp
qed

text \<open>The identifiers handed out for generations and events are 1, 2, 3 and so on in the
  order of the records, so they are unique and name a record by its position, as long as an
  \<open>i64\<close> can count them.\<close>

theorem mem_ids_count_records:
  assumes "mem_reachable N (\<lambda>_. True) s"
    and "int (length (mem_generations s)) \<le> i64_max" and "int (length (mem_events s)) \<le> i64_max"
  shows "map g_id (mem_generations s) = map int [1..<Suc (length (mem_generations s))] \<and>
    map ev_id (mem_events s) = map int [1..<Suc (length (mem_events s))]"
proof -
  have "ids = map int [1..<Suc (length ids)]"
    if "numbered ids n" "int (length ids) \<le> i64_max" for ids n
    using that by (intro nth_equalityI) (auto simp: numbered_def wrap_i64_id nth_append simp del: upt_Suc)
  then show ?thesis
    using mem_reachable_invariants [OF assms(1)] assms(2,3) unfolding mem_numbered_def
    by (metis length_map)
qed

theorem mem_ids_count_records_witness:
  "map ev_id (mem_events (mem_run cidr_ops
     [CEvent 5 \<lparr>ne_level = EvInfo, ne_message = ''mysql'', ne_data = None\<rparr>,
      CEvent 6 \<lparr>ne_level = EvWarn, ne_message = ''wt0'', ne_data = None\<rparr>] mem_new)) = [1, 2]"
proof -
  let ?cs = "[CEvent 5 \<lparr>ne_level = EvInfo, ne_message = ''mysql'', ne_data = None\<rparr>,
      CEvent 6 \<lparr>ne_level = EvWarn, ne_message = ''wt0'', ne_data = None\<rparr>]"
  let ?s = "mem_run cidr_ops ?cs mem_new"
  have r: "mem_reachable cidr_ops (\<lambda>_. True) ?s" by (rule mem_run_reachable [OF reach_new]) simp
  have "mem_generations ?s = []" "length (mem_events ?s) = 2"
    by (simp_all add: mem_record_event_def mem_new_def Let_def)
  then show ?thesis using mem_ids_count_records [OF r] by (simp add: i64_max_def upt_rec)
qed

text \<open>Enabling a stored mapping is not checked against the others: a store that holds one of
  the port forwards, disabled, and a second one with the same address, protocol and port,
  enables the first and then fails \<open>validate_mappings\<close> as a whole.\<close>

theorem mem_enable_unchecked:
  "map enabled (mem_list_mappings (mem_run cidr_ops reenable_calls mem_new)) = [True, True] \<and>
   validate_mappings cidr_ops (mem_list_mappings (mem_run cidr_ops reenable_calls mem_new))
     sample_config = Inl (DuplicateEdgePrivateIp (Ipv4Addr 10 0 0 101))"
proof -
  have "validate_mapping cidr_ops sample_on sample_config = Inr ()"
    "validate_mapping cidr_ops sample_rival sample_config = Inr ()"
    using sample_ok(2) sample_rival_facts(2) by (simp_all add: validate_mapping_ok)
  moreover have "m_mode sample_rival = PortForwardSnat" "enabled sample_rival"
    by (simp_all add: sample_rival_def with_id_def sample_defs)
  ultimately show ?thesis
    using sample_rival_facts
    by (simp add: reenable_run mem_list_mappings_def validate_mappings_def
        note_public_ip_def validate_pair_def split: option.split)
qed

end
