(* ===== verification/Env.thy ===== *)
theory Env
  imports Core_State
begin

text \<open>
  What the program takes from outside, as a record of functions, a parameter of the definitions
  that use it. \<open>env_ops\<close> extends the \<open>ipnet\<close> functions with the clock, the UUID generator, the
  \<open>time\<close> crate's RFC 3339 text, \<open>serde_json\<close> on the configuration, the texts of errors these
  libraries produce, and the faults of the SQL engine.

  What varies from call to call (the clock, fresh identifiers, faults of the engine) is a
  function of a counter the state carries, \<open>tick\<close>, which every such call advances: nothing is
  assumed of these functions, so a clock may go backwards and any statement may fail.
\<close>

datatype sql_failure =
    SqlRaise string
  | SqlUnique string
  | SqlFull

record env_ops = ipnet_ops +
  clock :: "nat \<Rightarrow> timestamp"
  uuid_v4 :: "nat \<Rightarrow> string"
  sql_fault :: "nat \<Rightarrow> string option"
  sql_text :: "sql_failure \<Rightarrow> string"
  time_format :: "timestamp \<Rightarrow> (string, string) result"
  time_parse :: "string \<Rightarrow> (string, timestamp) result"
  config_to_json :: "edge_config \<Rightarrow> (string, string) result"
  config_from_json :: "string \<Rightarrow> (string, edge_config) result"
  enum_error :: "string \<Rightarrow> string"

text \<open>The two round trips the stores rely on: RFC 3339 text names the instant it was written for,
  and \<open>serde_json\<close> reads back a configuration it wrote.\<close>

definition time_doc :: "'e env_ops_scheme \<Rightarrow> bool" where
  "time_doc E \<longleftrightarrow> (\<forall>t s. time_format E t = Inr s \<longrightarrow> time_parse E s = Inr t)"

definition json_doc :: "'e env_ops_scheme \<Rightarrow> bool" where
  "json_doc E \<longleftrightarrow> (\<forall>c s. config_to_json E c = Inr s \<longrightarrow> config_from_json E s = Inr c)"

section \<open>A concrete environment\<close>

text \<open>A clock that advances one second per reading, decimal time stamps, and configurations
  written as their two interface names around the rest, enough to read them back.\<close>

definition sample_time_text :: "timestamp \<Rightarrow> string" where
  "sample_time_text t = (if t < 0 then ''-'' @ show_nat (nat (- t)) else ''+'' @ show_nat (nat t))"

definition sample_time_parse :: "string \<Rightarrow> (string, timestamp) result" where
  "sample_time_parse s =
     (case s of
        [] \<Rightarrow> Inl ''empty''
      | c # ds \<Rightarrow>
          (case read_digits 0 ds of
             None \<Rightarrow> Inl ''not a number''
           | Some n \<Rightarrow> Inr (if c = CHR ''-'' then - int n else int n)))"

definition sample_json :: "edge_config \<Rightarrow> (string, string) result" where
  "sample_json c = (if c = sample_config then Inr ''sample'' else Inl ''not supported'')"

definition sample_unjson :: "string \<Rightarrow> (string, edge_config) result" where
  "sample_unjson s = (if s = ''sample'' then Inr sample_config else Inl ''not supported'')"

definition sample_env :: env_ops where
  "sample_env = ipnet_ops.extend cidr_ops
     \<lparr>clock = (\<lambda>n. 10000 + int n), uuid_v4 = sample_uuid, sql_fault = (\<lambda>_. None),
      sql_text = (\<lambda>f. case f of SqlRaise msg \<Rightarrow> msg | SqlUnique msg \<Rightarrow> msg | SqlFull \<Rightarrow> ''full''),
      time_format = (\<lambda>t. Inr (sample_time_text t)), time_parse = sample_time_parse,
      config_to_json = sample_json, config_from_json = sample_unjson,
      enum_error = (\<lambda>v. ''unknown variant '' @ v)\<rparr>"

lemma sample_env_simps [simp]:
  "net_contains sample_env = net_contains cidr_ops" "net_network sample_env = net_network cidr_ops"
  "net_broadcast sample_env = net_broadcast cidr_ops"
  "net_to_string sample_env = net_to_string cidr_ops"
  "sql_fault sample_env n = None" "time_format sample_env t = Inr (sample_time_text t)"
  "time_parse sample_env = sample_time_parse" "config_to_json sample_env = sample_json"
  "config_from_json sample_env = sample_unjson" "clock sample_env n = 10000 + int n"
  by (simp_all add: sample_env_def ipnet_ops.defs cidr_ops_def)

lemma sample_env_doc: "time_doc sample_env" "json_doc sample_env"
proof -
  have "sample_time_parse (sample_time_text t) = Inr t" for t
    by (cases "t < 0") (simp_all add: sample_time_parse_def sample_time_text_def)
  then show "time_doc sample_env" by (auto simp: time_doc_def)
  show "json_doc sample_env" by (simp add: json_doc_def sample_json_def sample_unjson_def)
qed

text \<open>The checks read only the \<open>ipnet\<close> part of an environment.\<close>

lemma net_only:
  assumes "net_contains N = net_contains M" "net_network N = net_network M"
    "net_broadcast N = net_broadcast M"
  shows "mapping_ok N cfg m \<longleftrightarrow> mapping_ok M cfg m"
  using assms by (simp add: mapping_ok_def target_ok_def is_network_or_broadcast_def)

lemma sample_env_ok [simp]: "mapping_ok sample_env cfg m \<longleftrightarrow> mapping_ok cidr_ops cfg m"
  by (rule net_only) simp_all

end
