(* ===== verification/Sql_Table.thy ===== *)
theory Sql_Table
  imports Env "HOL-Library.AList"
begin

text \<open>
  The database of \<open>edge-store\<close> (\<open>src/crates/edge-store/src/lib.rs\<close> and the schema in
  \<open>edge-core/src/state.rs\<close>): rows with the columns of the schema, texts and integers as SQLite
  holds them, and the statements the store issues, each one atomic.

  \<open>raise_conflict\<close> is the body of the two triggers \<open>mappings_reject_conflict_insert\<close> and
  \<open>mappings_reject_conflict_update\<close>, \<open>violated_index\<close> the primary key and the four partial unique
  indexes. A comparison with \<open>NULL\<close> is never true, so \<open>None\<close> columns match nothing.

  \<open>sql_reachable\<close> is the set of database states any interleaving of the statements of any number
  of clients can reach.
\<close>

section \<open>Tables\<close>

record mapping_row =
  r_id :: string
  r_name :: string
  r_public_ip :: "string option"
  r_oci_public_ip_ocid :: "string option"
  r_edge_private_ip :: string
  r_oci_private_ip_ocid :: "string option"
  r_target_ip :: string
  r_public_port :: "int option"
  r_target_port :: "int option"
  r_protocol :: string
  r_mode :: string
  r_backend :: string
  r_enabled :: int
  r_status :: string
  r_last_error :: "string option"
  r_health_status :: "string option"
  r_last_checked_at :: "string option"
  r_created_at :: string
  r_updated_at :: string

record generation_row =
  gr_id :: int
  gr_status :: string
  gr_nftables_config :: string
  gr_created_at :: string
  gr_applied_at :: "string option"
  gr_error :: "string option"

record event_row =
  er_id :: int
  er_level :: string
  er_message :: string
  er_data :: "string option"
  er_created_at :: string

record db =
  tick :: nat
  t_config :: "(string \<times> string) list"
  t_mappings :: "mapping_row list"
  t_generations :: "generation_row list"
  t_events :: "event_row list"
  seq_generations :: int
  seq_events :: int

definition empty_db :: db where
  "empty_db =
     \<lparr>tick = 0, t_config = [], t_mappings = [], t_generations = [], t_events = [],
      seq_generations = 0, seq_events = 0\<rparr>"

section \<open>Constraints\<close>

text \<open>The two literals of the schema's constraints.\<close>

definition o2o_text :: string where
  "o2o_text = ''one_to_one_snat''"

definition pf_text :: string where
  "pf_text = ''port_forward_snat''"

lemma texts_differ [simp]: "o2o_text \<noteq> pf_text" "pf_text \<noteq> o2o_text"
  by (simp_all add: o2o_text_def pf_text_def)

definition row_on :: "string \<Rightarrow> mapping_row \<Rightarrow> bool" where
  "row_on mode r \<longleftrightarrow> r_enabled r = 1 \<and> r_mode r = mode"

text \<open>\<open>a = b\<close> in SQL on columns that may be \<open>NULL\<close>.\<close>

definition sql_eq :: "'a option \<Rightarrow> 'a option \<Rightarrow> bool" where
  "sql_eq a b \<longleftrightarrow> (case (a, b) of (Some x, Some y) \<Rightarrow> x = y | _ \<Rightarrow> False)"

text \<open>A list of checks in order: the first that applies gives the message.\<close>

fun first_check :: "(bool \<times> string) list \<Rightarrow> string option" where
  "first_check [] = None"
| "first_check ((b, msg) # cs) = (if b then Some msg else first_check cs)"

definition raise_conflict :: "mapping_row \<Rightarrow> mapping_row list \<Rightarrow> string option" where
  "raise_conflict new rows =
     (if r_enabled new \<noteq> 1 then None
      else first_check
        [(r_mode new = pf_text \<and>
            list_ex (\<lambda>r. row_on o2o_text r \<and> r_edge_private_ip r = r_edge_private_ip new) rows,
          ''mapping conflict: one-to-one owns edge_private_ip''),
         (r_mode new = o2o_text \<and>
            list_ex (\<lambda>r. row_on pf_text r \<and> r_edge_private_ip r = r_edge_private_ip new) rows,
          ''mapping conflict: edge_private_ip already has port forwards''),
         (r_mode new = pf_text \<and>
            list_ex (\<lambda>r. row_on o2o_text r \<and> sql_eq (r_public_ip r) (r_public_ip new)) rows,
          ''mapping conflict: public_ip already used by one-to-one''),
         (r_mode new = o2o_text \<and>
            list_ex (\<lambda>r. r_enabled r = 1 \<and> sql_eq (r_public_ip r) (r_public_ip new)) rows,
          ''mapping conflict: public_ip already used'')])"

definition violated_index :: "mapping_row \<Rightarrow> mapping_row list \<Rightarrow> string option" where
  "violated_index new rows =
     first_check
       [(list_ex (\<lambda>r. r_id r = r_id new) rows, ''mappings.id''),
        (row_on o2o_text new \<and>
           list_ex (\<lambda>r. row_on o2o_text r \<and> r_edge_private_ip r = r_edge_private_ip new) rows,
         ''mappings_one_to_one_edge_private_ip_enabled_idx''),
        (row_on o2o_text new \<and>
           list_ex (\<lambda>r. row_on o2o_text r \<and> sql_eq (r_public_ip r) (r_public_ip new)) rows,
         ''mappings_one_to_one_public_ip_enabled_idx''),
        (row_on o2o_text new \<and>
           list_ex (\<lambda>r. row_on o2o_text r \<and> r_target_ip r = r_target_ip new) rows,
         ''mappings_one_to_one_target_ip_enabled_idx''),
        (row_on pf_text new \<and>
           list_ex (\<lambda>r. row_on pf_text r \<and> r_edge_private_ip r = r_edge_private_ip new \<and>
             r_protocol r = r_protocol new \<and> sql_eq (r_public_port r) (r_public_port new)) rows,
         ''mappings_port_forward_tuple_enabled_idx'')]"

definition check_row :: "mapping_row \<Rightarrow> mapping_row list \<Rightarrow> (sql_failure, unit) result" where
  "check_row new others =
     (case raise_conflict new others of
        Some msg \<Rightarrow> Inl (SqlRaise msg)
      | None \<Rightarrow> (case violated_index new others of
                   Some idx \<Rightarrow> Inl (SqlUnique idx)
                 | None \<Rightarrow> Inr ()))"

section \<open>Statements\<close>

text \<open>A statement on the database either fails and leaves it as it is, or returns a value and the
  new database.\<close>

type_synonym ('w, 'a) stmt = "'w db_scheme \<Rightarrow> (sql_failure, 'a \<times> 'w db_scheme) result"

definition insert_mapping_row :: "mapping_row \<Rightarrow> ('w, unit) stmt" where
  "insert_mapping_row new s =
     res_bind (check_row new (t_mappings s)) (\<lambda>_.
     Inr ((), s\<lparr>t_mappings := t_mappings s @ [new]\<rparr>))"

text \<open>\<open>UPDATE mappings SET ... WHERE id = ?\<close>, with the number of rows affected; \<open>checked\<close> says
  whether a column of the update trigger is assigned.\<close>

definition update_mapping_row ::
  "bool \<Rightarrow> string \<Rightarrow> (mapping_row \<Rightarrow> mapping_row) \<Rightarrow> ('w, nat) stmt" where
  "update_mapping_row checked i f s =
     (case find (\<lambda>r. r_id r = i) (t_mappings s) of
        None \<Rightarrow> Inr (0, s)
      | Some r \<Rightarrow>
          res_bind (if checked
                    then check_row (f r) (filter (\<lambda>x. r_id x \<noteq> i) (t_mappings s)) else Inr ()) (\<lambda>_.
          Inr (1, s\<lparr>t_mappings := map (\<lambda>x. if r_id x = i then f x else x) (t_mappings s)\<rparr>)))"

definition delete_mapping_row :: "string \<Rightarrow> ('w, unit) stmt" where
  "delete_mapping_row i s = Inr ((), s\<lparr>t_mappings := filter (\<lambda>r. r_id r \<noteq> i) (t_mappings s)\<rparr>)"

definition upsert_config :: "string \<Rightarrow> ('w, unit) stmt" where
  "upsert_config value s = Inr ((), s\<lparr>t_config := AList.update ''default'' value (t_config s)\<rparr>)"

text \<open>\<open>INTEGER PRIMARY KEY AUTOINCREMENT\<close>: one more than the largest identifier ever used, and an
  error once that is the largest \<open>i64\<close>.\<close>

definition insert_generation_row :: "(int \<Rightarrow> generation_row) \<Rightarrow> ('w, int) stmt" where
  "insert_generation_row row s =
     (if i64_max \<le> seq_generations s then Inl SqlFull
      else let i = seq_generations s + 1
           in Inr (i, s\<lparr>seq_generations := i, t_generations := t_generations s @ [row i]\<rparr>))"

definition insert_event_row :: "(int \<Rightarrow> event_row) \<Rightarrow> ('w, int) stmt" where
  "insert_event_row row s =
     (if i64_max \<le> seq_events s then Inl SqlFull
      else let i = seq_events s + 1
           in Inr (i, s\<lparr>seq_events := i, t_events := t_events s @ [row i]\<rparr>))"

definition select_stmt :: "('w db_scheme \<Rightarrow> 'a) \<Rightarrow> ('w, 'a) stmt" where
  "select_stmt f s = Inr (f s, s)"

text \<open>Running a statement through the pool: any of them may fail in the engine; an error becomes
  \<open>EdgeCoreError::Store\<close> with its text (\<open>sql_error\<close>).\<close>

definition query :: "'e env_ops_scheme \<Rightarrow> ('w, 'a) stmt \<Rightarrow> ('w db_scheme, edge_core_error, 'a) eff" where
  "query E st s =
     (let s' = s\<lparr>tick := Suc (tick s)\<rparr>
      in case sql_fault E (tick s) of
           Some msg \<Rightarrow> (Inl (Store msg), s')
         | None \<Rightarrow> (case st s' of
                      Inl e \<Rightarrow> (Inl (Store (sql_text E e)), s')
                    | Inr (x, t) \<Rightarrow> (Inr x, t)))"

definition now_utc :: "'e env_ops_scheme \<Rightarrow> ('w db_scheme, 'f, timestamp) eff" where
  "now_utc E s = (Inr (clock E (tick s)), s\<lparr>tick := Suc (tick s)\<rparr>)"

section \<open>The columns the store's updates assign\<close>

definition assign_columns :: "mapping_row \<Rightarrow> mapping_row \<Rightarrow> mapping_row" where
  "assign_columns new r = new\<lparr>r_id := r_id r, r_created_at := r_created_at r\<rparr>"

definition assign_enabled :: "bool \<Rightarrow> string \<Rightarrow> string \<Rightarrow> mapping_row \<Rightarrow> mapping_row" where
  "assign_enabled en status time r =
     r\<lparr>r_enabled := (if en then 1 else 0), r_status := status, r_updated_at := time\<rparr>"

definition assign_health ::
  "string \<Rightarrow> string option \<Rightarrow> string option \<Rightarrow> string \<Rightarrow> string \<Rightarrow> mapping_row \<Rightarrow> mapping_row" where
  "assign_health status health err checked time r =
     r\<lparr>r_status := status, r_health_status := health, r_last_error := err,
       r_last_checked_at := Some checked, r_updated_at := time\<rparr>"

section \<open>What the constraints guarantee\<close>

definition row_clash :: "mapping_row \<Rightarrow> mapping_row \<Rightarrow> bool" where
  "row_clash a b \<longleftrightarrow>
     r_enabled a = 1 \<and> r_enabled b = 1 \<and>
     (r_mode a = o2o_text \<and> r_mode b = o2o_text \<and>
        (r_edge_private_ip a = r_edge_private_ip b \<or> r_target_ip a = r_target_ip b \<or>
         sql_eq (r_public_ip a) (r_public_ip b)) \<or>
      (r_mode a = o2o_text \<and> r_mode b = pf_text \<or> r_mode a = pf_text \<and> r_mode b = o2o_text) \<and>
        (r_edge_private_ip a = r_edge_private_ip b \<or> sql_eq (r_public_ip a) (r_public_ip b)) \<or>
      r_mode a = pf_text \<and> r_mode b = pf_text \<and>
        r_edge_private_ip a = r_edge_private_ip b \<and> r_protocol a = r_protocol b \<and>
        sql_eq (r_public_port a) (r_public_port b))"

lemma sql_eq_sym: "sql_eq a b \<longleftrightarrow> sql_eq b a"
  by (auto simp: sql_eq_def split: option.splits)

lemma row_clash_sym: "row_clash a b \<longleftrightarrow> row_clash b a"
  unfolding row_clash_def sql_eq_sym [of "r_public_ip b" "r_public_ip a"]
    sql_eq_sym [of "r_public_port b" "r_public_port a"] by metis

lemma first_check_None: "first_check ((b, msg) # cs) = None \<longleftrightarrow> \<not> b \<and> first_check cs = None"
  by simp

declare first_check.simps(2) [simp del]

lemma check_row_ok:
  assumes "check_row new others = Inr ()" and r: "r \<in> set others"
  shows "r_id r \<noteq> r_id new" "\<not> row_clash new r"
proof -
  from assms(1) have raise: "raise_conflict new others = None"
    and idx: "violated_index new others = None"
    by (auto simp: check_row_def split: option.splits)
  show "r_id r \<noteq> r_id new"
    using idx r by (auto simp: violated_index_def first_check_None list_ex_iff)
  show "\<not> row_clash new r"
  proof
    assume clash: "row_clash new r"
    then have on: "r_enabled new = 1" "r_enabled r = 1" by (simp_all add: row_clash_def)
    from raise on r have
      "r_mode new = pf_text \<Longrightarrow> r_mode r = o2o_text \<Longrightarrow> r_edge_private_ip r \<noteq> r_edge_private_ip new"
      "r_mode new = o2o_text \<Longrightarrow> r_mode r = pf_text \<Longrightarrow> r_edge_private_ip r \<noteq> r_edge_private_ip new"
      "r_mode new = pf_text \<Longrightarrow> r_mode r = o2o_text \<Longrightarrow> \<not> sql_eq (r_public_ip r) (r_public_ip new)"
      "r_mode new = o2o_text \<Longrightarrow> \<not> sql_eq (r_public_ip r) (r_public_ip new)"
      by (auto simp: raise_conflict_def first_check_None list_ex_iff row_on_def)
    moreover from idx on r have
      "r_mode new = o2o_text \<Longrightarrow> r_mode r = o2o_text \<Longrightarrow> r_edge_private_ip r \<noteq> r_edge_private_ip new"
      "r_mode new = o2o_text \<Longrightarrow> r_mode r = o2o_text \<Longrightarrow> r_target_ip r \<noteq> r_target_ip new"
      "r_mode new = pf_text \<Longrightarrow> r_mode r = pf_text \<Longrightarrow> r_edge_private_ip r = r_edge_private_ip new \<Longrightarrow>
         r_protocol r = r_protocol new \<Longrightarrow> \<not> sql_eq (r_public_port r) (r_public_port new)"
      by (auto simp: violated_index_def first_check_None list_ex_iff row_on_def)
    ultimately show False
      using clash unfolding row_clash_def sql_eq_sym [of "r_public_ip new"]
        sql_eq_sym [of "r_public_port new"] by metis
  qed
qed

definition rows_apart :: "mapping_row \<Rightarrow> mapping_row \<Rightarrow> bool" where
  "rows_apart a b \<longleftrightarrow> r_id a \<noteq> r_id b \<and> \<not> row_clash a b"

text \<open>What the store binds: \<open>enabled\<close> is 0 or 1, and a port forward has a port, since every write
  of these columns is behind \<open>validate_mapping\<close>.\<close>

definition row_wf :: "mapping_row \<Rightarrow> bool" where
  "row_wf r \<longleftrightarrow> (r_enabled r = 0 \<or> r_enabled r = 1) \<and> (r_mode r = pf_text \<longrightarrow> r_public_port r \<noteq> None)"

definition rows_ok :: "mapping_row list \<Rightarrow> bool" where
  "rows_ok rows \<longleftrightarrow> (\<forall>r\<in>set rows. row_wf r) \<and> pairwise_ok rows_apart rows"

lemma rows_apart_sym: "rows_apart a b \<Longrightarrow> rows_apart b a"
  by (auto simp: rows_apart_def row_clash_sym)

lemma check_row_apart: "check_row new others = Inr () \<Longrightarrow> r \<in> set others \<Longrightarrow> rows_apart new r"
  using check_row_ok [of new others r] by (auto simp: rows_apart_def)

lemma rows_ok_insert:
  assumes "rows_ok (t_mappings s)" "insert_mapping_row new s = Inr (u, t)" "row_wf new"
  shows "rows_ok (t_mappings t)"
proof -
  from assms(2) have c: "check_row new (t_mappings s) = Inr ()"
    and t: "t_mappings t = t_mappings s @ [new]" by (auto simp: insert_mapping_row_def)
  have "rows_apart r new" if "r \<in> set (t_mappings s)" for r
    using check_row_apart [OF c that] by (rule rows_apart_sym)
  with assms(1,3) t show ?thesis by (auto simp: rows_ok_def pairwise_ok_append)
qed

lemma rows_ok_delete: "rows_ok rows \<Longrightarrow> rows_ok (filter P rows)"
  by (auto simp: rows_ok_def intro: pairwise_ok_filter)

text \<open>Changing the one row with a given identifier.\<close>

lemma rows_ok_replace:
  assumes ok: "rows_ok rows" and r: "r \<in> set rows" "r_id r = i"
    and new: "row_wf (f r)" "r_id (f r) = i"
    and apart: "\<And>x. x \<in> set rows \<Longrightarrow> r_id x \<noteq> i \<Longrightarrow> rows_apart (f r) x"
  shows "rows_ok (map (\<lambda>x. if r_id x = i then f x else x) rows)"
proof -
  let ?g = "\<lambda>x. if r_id x = i then f x else x"
  have same: "x = r" if "x \<in> set rows" "r_id x = i" for x
  proof (rule ccontr)
    assume "x \<noteq> r"
    then have "rows_apart x r"
      using pairwise_ok_distinct [of rows_apart rows, OF _ rows_apart_sym that(1) r(1)] ok
      by (simp add: rows_ok_def)
    then show False using that r by (simp add: rows_apart_def)
  qed
  have "rows_apart (?g x) (?g y)" if "x \<in> set rows" "y \<in> set rows" "rows_apart x y" for x y
  proof (cases "r_id x = i"; cases "r_id y = i")
    assume "r_id x = i" "r_id y = i"
    with that(3) show ?thesis by (auto simp: rows_apart_def)
  qed (use that same apart in \<open>auto intro: rows_apart_sym\<close>)
  then have "pairwise_ok rows_apart (map ?g rows)"
    unfolding pairwise_ok_map using ok pairwise_ok_mono [of rows_apart rows "\<lambda>x y. rows_apart (?g x) (?g y)"]
    by (simp add: rows_ok_def)
  then show ?thesis using ok new same by (auto simp: rows_ok_def)
qed

lemma rows_ok_update_checked:
  assumes ok: "rows_ok (t_mappings s)" and u: "update_mapping_row True i f s = Inr (n, t)"
    and keep: "\<And>r. r_id (f r) = r_id r" "\<And>r. row_wf r \<Longrightarrow> row_wf (f r)"
  shows "rows_ok (t_mappings t)"
proof (cases "find (\<lambda>r. r_id r = i) (t_mappings s)")
  case None
  with ok u show ?thesis by (simp add: update_mapping_row_def)
next
  case (Some r)
  with find_SomeD [OF Some] u have r: "r \<in> set (t_mappings s)" "r_id r = i"
    and c: "check_row (f r) (filter (\<lambda>x. r_id x \<noteq> i) (t_mappings s)) = Inr ()"
    and t: "t_mappings t = map (\<lambda>x. if r_id x = i then f x else x) (t_mappings s)"
    by (auto simp: update_mapping_row_def)
  have wf: "row_wf r" using ok r(1) by (simp add: rows_ok_def)
  show ?thesis
    unfolding t
    by (rule rows_ok_replace [OF ok r])
      (use keep(1) keep(2) [OF wf] r c in \<open>auto intro: check_row_apart\<close>)
qed

lemma rows_ok_update_unchecked:
  assumes ok: "rows_ok (t_mappings s)" and u: "update_mapping_row False i f s = Inr (n, t)"
    and keep: "\<And>r. r_id (f r) = r_id r" "\<And>r. row_wf (f r) = row_wf r"
      "\<And>r x. row_clash (f r) x \<longleftrightarrow> row_clash r x"
  shows "rows_ok (t_mappings t)"
proof (cases "find (\<lambda>r. r_id r = i) (t_mappings s)")
  case None
  with ok u show ?thesis by (simp add: update_mapping_row_def)
next
  case (Some r)
  with find_SomeD [OF Some] u have r: "r \<in> set (t_mappings s)" "r_id r = i"
    and t: "t_mappings t = map (\<lambda>x. if r_id x = i then f x else x) (t_mappings s)"
    by (auto simp: update_mapping_row_def)
  have "rows_apart (f r) x" if x: "x \<in> set (t_mappings s)" "r_id x \<noteq> i" for x
  proof -
    have "rows_apart r x"
      using pairwise_ok_distinct [of rows_apart "t_mappings s", OF _ rows_apart_sym r(1) x(1)] ok r x
      by (auto simp: rows_ok_def)
    then show ?thesis by (simp add: rows_apart_def keep)
  qed
  moreover have "row_wf r" using ok r(1) by (simp add: rows_ok_def)
  ultimately show ?thesis
    unfolding t by (intro rows_ok_replace [OF ok r]) (simp_all only: keep r)
qed

section \<open>Interleavings\<close>

datatype mapping_stmt =
    SInsert mapping_row
  | SUpdate string mapping_row
  | SEnable string bool string string
  | SHealth string string "string option" "string option" string string
  | SDelete string

fun mapping_stmt_exec :: "mapping_stmt \<Rightarrow> 'w db_scheme \<Rightarrow> (sql_failure, 'w db_scheme) result" where
  "mapping_stmt_exec (SInsert r) s = res_bind (insert_mapping_row r s) (\<lambda>(_, t). Inr t)"
| "mapping_stmt_exec (SUpdate i r) s =
     res_bind (update_mapping_row True i (assign_columns r) s) (\<lambda>(_, t). Inr t)"
| "mapping_stmt_exec (SEnable i en st time) s =
     res_bind (update_mapping_row True i (assign_enabled en st time) s) (\<lambda>(_, t). Inr t)"
| "mapping_stmt_exec (SHealth i st h e c time) s =
     res_bind (update_mapping_row False i (assign_health st h e c time) s) (\<lambda>(_, t). Inr t)"
| "mapping_stmt_exec (SDelete i) s = res_bind (delete_mapping_row i s) (\<lambda>(_, t). Inr t)"

definition stmt_wf :: "mapping_stmt \<Rightarrow> bool" where
  "stmt_wf st = (case st of SInsert r \<Rightarrow> row_wf r | SUpdate _ r \<Rightarrow> row_wf r | _ \<Rightarrow> True)"

inductive sql_reachable :: "'w db_scheme \<Rightarrow> bool" where
  sql_init: "t_mappings s = [] \<Longrightarrow> sql_reachable s"
| sql_stmt: "sql_reachable s \<Longrightarrow> stmt_wf st \<Longrightarrow> mapping_stmt_exec st s = Inr t \<Longrightarrow> sql_reachable t"
| sql_other: "sql_reachable s \<Longrightarrow> t_mappings t = t_mappings s \<Longrightarrow> sql_reachable t"

lemma assign_columns_keep [simp]:
  "r_id (assign_columns n r) = r_id r" "row_wf (assign_columns n r) = row_wf n"
  by (simp_all add: assign_columns_def row_wf_def)

lemma assign_enabled_keep [simp]:
  "r_id (assign_enabled en st t r) = r_id r"
  "row_wf r \<Longrightarrow> row_wf (assign_enabled en st t r)"
  by (simp_all add: assign_enabled_def row_wf_def)

lemma assign_health_keep [simp]:
  "r_id (assign_health st h e c t r) = r_id r"
  "row_wf (assign_health st h e c t r) = row_wf r"
  "row_clash (assign_health st h e c t r) x \<longleftrightarrow> row_clash r x"
  by (simp_all add: assign_health_def row_clash_def row_wf_def)

lemma rows_ok_stmt:
  assumes "rows_ok (t_mappings s)" "stmt_wf st" "mapping_stmt_exec st s = Inr t"
  shows "rows_ok (t_mappings t)"
proof (cases st)
  case (SInsert r)
  with assms show ?thesis by (auto simp: stmt_wf_def dest: rows_ok_insert)
next
  case (SUpdate i r)
  with assms show ?thesis
    by (auto simp: stmt_wf_def elim!: rows_ok_update_checked [OF assms(1)])
next
  case (SEnable i en st' time)
  with assms show ?thesis by (auto elim!: rows_ok_update_checked [OF assms(1)])
next
  case (SHealth i st' h e c time)
  with assms show ?thesis by (auto elim!: rows_ok_update_unchecked [OF assms(1)])
next
  case (SDelete i)
  with assms show ?thesis by (auto simp: delete_mapping_row_def intro: rows_ok_delete)
qed

lemma sql_reachable_rows_ok: "sql_reachable s \<Longrightarrow> rows_ok (t_mappings s)"
  by (induction rule: sql_reachable.induct) (auto simp: rows_ok_def [of "[]"] intro: rows_ok_stmt)

section \<open>Running statements\<close>

lemma query_Inl: "query E st s = (Inl e, t) \<Longrightarrow> t = s\<lparr>tick := Suc (tick s)\<rparr>"
  by (auto simp: query_def Let_def split: option.splits sum.splits)

lemma query_Inr: "query E st s = (Inr x, t) \<Longrightarrow> st (s\<lparr>tick := Suc (tick s)\<rparr>) = Inr (x, t)"
  by (auto simp: query_def Let_def split: option.splits sum.splits)

lemma query_ok:
  "sql_fault E (tick s) = None \<Longrightarrow> st (s\<lparr>tick := Suc (tick s)\<rparr>) = Inr (x, t) \<Longrightarrow> query E st s = (Inr x, t)"
  by (simp add: query_def Let_def)

lemma select_Inr:
  "query E (select_stmt f) s = (Inr x, t) \<Longrightarrow> t = s\<lparr>tick := Suc (tick s)\<rparr> \<and> x = f t"
  by (auto simp: select_stmt_def dest!: query_Inr)

text \<open>Computations that only read: whatever they return, the state differs in its counter only.\<close>

definition reads :: "('w db_scheme, 'e, 'a) eff \<Rightarrow> bool" where
  "reads m \<longleftrightarrow> (\<forall>s. \<exists>n. snd (m s) = s\<lparr>tick := n\<rparr>)"

named_theorems reads_intros \<open>rules that establish \<open>reads m\<close>\<close>

lemma readsD: "reads m \<Longrightarrow> m s = (r, t) \<Longrightarrow> \<exists>n. t = s\<lparr>tick := n\<rparr>"
  by (auto simp: reads_def dest!: spec [of _ s])

lemma tick_same: "\<exists>n. s = s\<lparr>tick := n\<rparr>"
  by (rule exI [of _ "tick s"]) simp

lemma reads_trivial [reads_intros]:
  "reads (eff_ret x)" "reads (eff_err e)" "reads (eff_lift r)" "reads (now_utc E)"
  by (auto simp: reads_def now_utc_def tick_same)

lemma reads_select [reads_intros]: "reads (query E (select_stmt f))"
proof -
  have "\<exists>n. snd (query E (select_stmt f) s) = s\<lparr>tick := n\<rparr>" for s
  proof (cases "query E (select_stmt f) s")
    case (Pair r t)
    then show ?thesis by (cases r) (auto dest: query_Inl select_Inr)
  qed
  then show ?thesis by (simp add: reads_def)
qed

lemma reads_bind [reads_intros]:
  assumes "reads m" "\<And>x. reads (f x)" shows "reads (eff_bind m f)"
proof -
  have "\<exists>n. snd (eff_bind m f s) = s\<lparr>tick := n\<rparr>" for s
  proof -
    obtain r t where m: "m s = (r, t)" by (cases "m s")
    obtain n where t: "t = s\<lparr>tick := n\<rparr>" using readsD [OF assms(1) m] by blast
    show ?thesis
    proof (cases r)
      case (Inr x)
      obtain n' where "snd (f x t) = t\<lparr>tick := n'\<rparr>" using assms(2) [of x] by (auto simp: reads_def)
      then show ?thesis using m t Inr by (auto simp: eff_bind_def)
    qed (use m t in \<open>auto simp: eff_bind_def\<close>)
  qed
  then show ?thesis by (simp add: reads_def)
qed

text \<open>A predicate that does not look at the counter is kept by what only reads, and by a query
  whose statement keeps it.\<close>

definition ignores_tick :: "('w db_scheme \<Rightarrow> bool) \<Rightarrow> bool" where
  "ignores_tick P \<longleftrightarrow> (\<forall>s n. P (s\<lparr>tick := n\<rparr>) \<longleftrightarrow> P s)"

lemma keeps_reads: "ignores_tick P \<Longrightarrow> reads m \<Longrightarrow> keeps P m"
  by (auto simp: keeps_def reads_def ignores_tick_def) (metis)

lemma keeps_query:
  assumes "ignores_tick P" "\<And>s x t. P s \<Longrightarrow> st s = Inr (x, t) \<Longrightarrow> P t"
  shows "keeps P (query E st)"
proof (rule keepsI)
  fix s
  assume P: "P s"
  then have P': "P (s\<lparr>tick := Suc (tick s)\<rparr>)" using assms(1) by (simp add: ignores_tick_def)
  show "P (snd (query E st s))"
  proof (cases "query E st s")
    case (Pair r t)
    then show ?thesis using P' assms(2) by (cases r) (auto dest: query_Inl query_Inr)
  qed
qed

end
