(* ===== verification/Sqlite_Store.thy ===== *)
theory Sqlite_Store
  imports Sql_Table
begin

text \<open>
  \<open>src/crates/edge-store/src/lib.rs\<close>: \<open>SqliteStore\<close>, every operation on configuration,
  mappings, generations and events as a sequence of the statements of \<open>Sql_Table\<close>, with the
  encoding of mappings as rows and back.

  The state is the database (\<open>'w db_scheme\<close>: the programs that use the store extend it with
  their own state).
\<close>

section \<open>Columns\<close>

fun generation_wire :: "generation_status \<Rightarrow> string" where
  "generation_wire GRendered = ''rendered''"
| "generation_wire GValidated = ''validated''"
| "generation_wire GActive = ''active''"
| "generation_wire GFailed = ''failed''"

fun level_wire :: "event_level \<Rightarrow> string" where
  "level_wire EvDebug = ''debug''"
| "level_wire EvInfo = ''info''"
| "level_wire EvWarn = ''warn''"
| "level_wire EvError = ''error''"

text \<open>\<open>enum_from_string\<close>: \<open>serde\<close> accepts exactly the wire name of a variant.\<close>

definition enum_from_string :: "'e env_ops_scheme \<Rightarrow> ('a \<Rightarrow> string) \<Rightarrow> 'a list \<Rightarrow> string \<Rightarrow> 'a core_result" where
  "enum_from_string E wire variants v =
     ok_or (Store (''decode enum: '' @ enum_error E v)) (find (\<lambda>x. wire x = v) variants)"

abbreviation all_protocols :: "protocol list" where
  "all_protocols \<equiv> [ProtoAll, Tcp, Udp]"

abbreviation all_modes :: "mapping_mode list" where
  "all_modes \<equiv> [OneToOneSnat, PortForwardSnat]"

abbreviation all_backends :: "mapping_backend list" where
  "all_backends \<equiv> [Nft, Xdp, Proxy]"

abbreviation all_statuses :: "mapping_status list" where
  "all_statuses \<equiv> [MPending, MActive, MDisabled, MDegraded, MError]"

abbreviation all_generation_statuses :: "generation_status list" where
  "all_generation_statuses \<equiv> [GRendered, GValidated, GActive, GFailed]"

abbreviation all_levels :: "event_level list" where
  "all_levels \<equiv> [EvDebug, EvInfo, EvWarn, EvError]"

definition format_time :: "'e env_ops_scheme \<Rightarrow> timestamp \<Rightarrow> string core_result" where
  "format_time E t = map_err (\<lambda>e. Store (''format time: '' @ e)) (time_format E t)"

definition format_optional_time :: "'e env_ops_scheme \<Rightarrow> timestamp option \<Rightarrow> string option core_result" where
  "format_optional_time E v = res_opt (format_time E) v"

definition parse_time :: "'e env_ops_scheme \<Rightarrow> string \<Rightarrow> timestamp core_result" where
  "parse_time E v = map_err (\<lambda>e. Store (''parse time '' @ v @ '': '' @ e)) (time_parse E v)"

definition parse_optional_time :: "'e env_ops_scheme \<Rightarrow> string option \<Rightarrow> timestamp option core_result" where
  "parse_optional_time E v = res_opt (parse_time E) v"

definition parse_ip :: "string \<Rightarrow> ipv4_addr core_result" where
  "parse_ip v =
     ok_or (Store (''decode IPv4 address '' @ v @ '': invalid IPv4 address syntax'')) (parse_ipv4 v)"

definition parse_optional_ip :: "string option \<Rightarrow> ipv4_addr option core_result" where
  "parse_optional_ip v = res_opt parse_ip v"

definition decode_port :: "int option \<Rightarrow> string \<Rightarrow> u16 option core_result" where
  "decode_port v column =
     (case v of
        Some port \<Rightarrow>
          if 1 \<le> port \<and> port \<le> 65535 then Inr (Some (word_of_int port))
          else Inl (Store (''invalid '' @ column @ '' in database: '' @ show_int port))
      | None \<Rightarrow> Inr None)"

definition mapping_columns :: "mapping \<Rightarrow> string option \<Rightarrow> string \<Rightarrow> string \<Rightarrow> mapping_row" where
  "mapping_columns m checked created updated =
     \<lparr>r_id = id_str (m_id m), r_name = m_name m,
      r_public_ip = map_option ip_to_string (public_ip m),
      r_oci_public_ip_ocid = oci_public_ip_ocid m,
      r_edge_private_ip = ip_to_string (edge_private_ip m),
      r_oci_private_ip_ocid = oci_private_ip_ocid m,
      r_target_ip = ip_to_string (target_ip m),
      r_public_port = map_option uint (public_port m),
      r_target_port = map_option uint (target_port m),
      r_protocol = protocol_wire (m_protocol m), r_mode = mode_wire (m_mode m),
      r_backend = backend_wire (m_backend m), r_enabled = (if enabled m then 1 else 0),
      r_status = status_wire (m_status m), r_last_error = last_error m,
      r_health_status = health_status m, r_last_checked_at = checked,
      r_created_at = created, r_updated_at = updated\<rparr>"

text \<open>The values bound by \<open>INSERT\<close>, and those bound by \<open>UPDATE\<close>, which leaves \<open>created_at\<close> out.\<close>

definition insert_values :: "'e env_ops_scheme \<Rightarrow> mapping \<Rightarrow> mapping_row core_result" where
  "insert_values E m =
     res_bind (format_optional_time E (last_checked_at m)) (\<lambda>checked.
     res_bind (format_time E (created_at m)) (\<lambda>created.
     res_bind (format_time E (updated_at m)) (\<lambda>updated.
     Inr (mapping_columns m checked created updated))))"

definition update_values :: "'e env_ops_scheme \<Rightarrow> mapping \<Rightarrow> mapping_row core_result" where
  "update_values E m =
     res_bind (format_optional_time E (last_checked_at m)) (\<lambda>checked.
     res_bind (format_time E (updated_at m)) (\<lambda>updated.
     Inr (mapping_columns m checked [] updated)))"

definition row_to_mapping :: "'e env_ops_scheme \<Rightarrow> mapping_row \<Rightarrow> mapping core_result" where
  "row_to_mapping E r =
     res_bind (decode_port (r_public_port r) ''public_port'') (\<lambda>pport.
     res_bind (decode_port (r_target_port r) ''target_port'') (\<lambda>tport.
     res_bind (mapping_id_from_str (r_id r)) (\<lambda>i.
     res_bind (parse_optional_ip (r_public_ip r)) (\<lambda>pip.
     res_bind (parse_ip (r_edge_private_ip r)) (\<lambda>eip.
     res_bind (parse_ip (r_target_ip r)) (\<lambda>tip.
     res_bind (enum_from_string E protocol_wire all_protocols (r_protocol r)) (\<lambda>proto.
     res_bind (enum_from_string E mode_wire all_modes (r_mode r)) (\<lambda>mode.
     res_bind (enum_from_string E backend_wire all_backends (r_backend r)) (\<lambda>backend.
     res_bind (enum_from_string E status_wire all_statuses (r_status r)) (\<lambda>status.
     res_bind (parse_optional_time E (r_last_checked_at r)) (\<lambda>checked.
     res_bind (parse_time E (r_created_at r)) (\<lambda>created.
     res_bind (parse_time E (r_updated_at r)) (\<lambda>updated.
     Inr \<lparr>m_id = i, m_name = r_name r, public_ip = pip,
          oci_public_ip_ocid = r_oci_public_ip_ocid r, edge_private_ip = eip,
          oci_private_ip_ocid = r_oci_private_ip_ocid r, target_ip = tip, public_port = pport,
          target_port = tport, m_protocol = proto, m_mode = mode, m_backend = backend,
          enabled = (r_enabled r \<noteq> 0), m_status = status, last_error = r_last_error r,
          health_status = r_health_status r, last_checked_at = checked, created_at = created,
          updated_at = updated\<rparr>)))))))))))))"

definition row_to_generation :: "'e env_ops_scheme \<Rightarrow> generation_row \<Rightarrow> generation core_result" where
  "row_to_generation E r =
     res_bind (enum_from_string E generation_wire all_generation_statuses (gr_status r)) (\<lambda>status.
     res_bind (parse_time E (gr_created_at r)) (\<lambda>created.
     res_bind (parse_optional_time E (gr_applied_at r)) (\<lambda>applied.
     Inr \<lparr>g_id = gr_id r, g_status = status, nftables_config = gr_nftables_config r,
          g_created_at = created, applied_at = applied, g_error = gr_error r\<rparr>)))"

definition row_to_event :: "'e env_ops_scheme \<Rightarrow> event_row \<Rightarrow> event core_result" where
  "row_to_event E r =
     res_bind (enum_from_string E level_wire all_levels (er_level r)) (\<lambda>level.
     res_bind (parse_time E (er_created_at r)) (\<lambda>created.
     Inr \<lparr>ev_id = er_id r, ev_level = level, ev_message = er_message r, ev_data = er_data r,
          ev_created_at = created\<rparr>))"

section \<open>Configuration\<close>

type_synonym ('w, 'a) store_eff = "('w db_scheme, edge_core_error, 'a) eff"

definition set_edge_config :: "'e env_ops_scheme \<Rightarrow> edge_config \<Rightarrow> ('w, unit) store_eff" where
  "set_edge_config E cfg =
     eff_bind (eff_lift (validate_edge_config E cfg)) (\<lambda>_.
     eff_bind (eff_lift (map_err (\<lambda>e. Store (''encode edge config: '' @ e)) (config_to_json E cfg)))
       (\<lambda>v. query E (upsert_config v)))"

definition get_edge_config :: "'e env_ops_scheme \<Rightarrow> ('w, edge_config option) store_eff" where
  "get_edge_config E =
     eff_bind (query E (select_stmt (\<lambda>s. map_of (t_config s) ''default''))) (\<lambda>row.
     eff_lift (res_opt
       (\<lambda>v. map_err (\<lambda>e. Store (''decode edge config: '' @ e)) (config_from_json E v)) row))"

definition ensure_edge_config :: "'e env_ops_scheme \<Rightarrow> edge_config \<Rightarrow> ('w, edge_config) store_eff" where
  "ensure_edge_config E cfg =
     eff_bind (get_edge_config E) (\<lambda>existing.
     case existing of
       Some c \<Rightarrow> eff_ret c
     | None \<Rightarrow> eff_bind (set_edge_config E cfg) (\<lambda>_. eff_ret cfg))"

definition resolve_edge_config ::
  "'e env_ops_scheme \<Rightarrow> edge_config \<Rightarrow> bool \<Rightarrow> ('w, edge_config) store_eff" where
  "resolve_edge_config E cfg authoritative =
     (if authoritative then eff_bind (set_edge_config E cfg) (\<lambda>_. eff_ret cfg)
      else ensure_edge_config E cfg)"

section \<open>Mappings\<close>

definition reject_duplicates :: "'e env_ops_scheme \<Rightarrow> mapping \<Rightarrow> ('w, unit) store_eff" where
  "reject_duplicates E m =
     eff_bind (query E (select_stmt (\<lambda>s. filter (\<lambda>r. r_id r \<noteq> id_str (m_id m)) (t_mappings s)))) (\<lambda>rows.
     eff_lift (res_forM (\<lambda>row.
       res_bind (row_to_mapping E row) (\<lambda>existing. reject_pair m existing)) rows))"

definition require_edge_config :: "'e env_ops_scheme \<Rightarrow> ('w, edge_config) store_eff" where
  "require_edge_config E =
     eff_bind (get_edge_config E) (\<lambda>c.
     eff_lift (ok_or (Store ''edge config must be set before mappings'') c))"

definition insert_mapping :: "'e env_ops_scheme \<Rightarrow> mapping \<Rightarrow> ('w, unit) store_eff" where
  "insert_mapping E m =
     eff_bind (require_edge_config E) (\<lambda>cfg.
     eff_bind (eff_lift (validate_mapping E m cfg)) (\<lambda>_.
     eff_bind (reject_duplicates E m) (\<lambda>_.
     eff_bind (eff_lift (insert_values E m)) (\<lambda>row.
     query E (insert_mapping_row row)))))"

definition get_mapping :: "'e env_ops_scheme \<Rightarrow> mapping_id \<Rightarrow> ('w, mapping) store_eff" where
  "get_mapping E i =
     eff_bind (query E (select_stmt (\<lambda>s. find (\<lambda>r. r_id r = id_str i) (t_mappings s)))) (\<lambda>row.
     eff_bind (eff_lift (ok_or (NotFound i) row)) (\<lambda>r.
     eff_lift (row_to_mapping E r)))"

text \<open>\<open>ORDER BY created_at, id\<close> compares both columns as texts.\<close>

definition list_mappings :: "'e env_ops_scheme \<Rightarrow> ('w, mapping list) store_eff" where
  "list_mappings E =
     eff_bind (query E (select_stmt (\<lambda>s. sort_key (\<lambda>r. [r_created_at r, r_id r]) (t_mappings s)))) (\<lambda>rows.
     eff_lift (res_mapM (row_to_mapping E) rows))"

definition delete_mapping :: "'e env_ops_scheme \<Rightarrow> mapping_id \<Rightarrow> ('w, mapping) store_eff" where
  "delete_mapping E i =
     eff_bind (get_mapping E i) (\<lambda>m.
     eff_bind (query E (delete_mapping_row (id_str i))) (\<lambda>_. eff_ret m))"

definition update_mapping :: "'e env_ops_scheme \<Rightarrow> mapping \<Rightarrow> ('w, unit) store_eff" where
  "update_mapping E m =
     eff_bind (require_edge_config E) (\<lambda>cfg.
     eff_bind (eff_lift (validate_mapping E m cfg)) (\<lambda>_.
     eff_bind (reject_duplicates E m) (\<lambda>_.
     eff_bind (eff_lift (update_values E m)) (\<lambda>row.
     eff_bind (query E (update_mapping_row True (id_str (m_id m)) (assign_columns row))) (\<lambda>affected.
     if affected = 0 then eff_err (NotFound (m_id m)) else eff_ret ())))))"

definition set_mapping_enabled ::
  "'e env_ops_scheme \<Rightarrow> mapping_id \<Rightarrow> bool \<Rightarrow> ('w, mapping) store_eff" where
  "set_mapping_enabled E i en =
     (let status = (if en then MPending else MDisabled)
      in eff_bind (now_utc E) (\<lambda>now.
         eff_bind (eff_lift (format_time E now)) (\<lambda>time.
         eff_bind (query E (update_mapping_row True (id_str i)
             (assign_enabled en (status_wire status) time))) (\<lambda>_.
         get_mapping E i))))"

definition set_mapping_health ::
  "'e env_ops_scheme \<Rightarrow> mapping_id \<Rightarrow> mapping_status \<Rightarrow> string option \<Rightarrow> string option \<Rightarrow>
     ('w, mapping) store_eff" where
  "set_mapping_health E i status health err =
     eff_bind (now_utc E) (\<lambda>now1.
     eff_bind (eff_lift (format_time E now1)) (\<lambda>checked.
     eff_bind (now_utc E) (\<lambda>now2.
     eff_bind (eff_lift (format_time E now2)) (\<lambda>time.
     eff_bind (query E (update_mapping_row False (id_str i)
         (assign_health (status_wire status) health err checked time))) (\<lambda>_.
     get_mapping E i)))))"

section \<open>Generations and events\<close>

definition record_generation ::
  "'e env_ops_scheme \<Rightarrow> generation_status \<Rightarrow> string \<Rightarrow> timestamp option \<Rightarrow> string option \<Rightarrow>
     ('w, generation) store_eff" where
  "record_generation E status config applied err =
     (if trim config = [] then eff_err (Validation ''generation nftables_config cannot be empty'')
      else
        eff_bind (now_utc E) (\<lambda>created.
        eff_bind (eff_lift (format_time E created)) (\<lambda>created_text.
        eff_bind (eff_lift (format_optional_time E applied)) (\<lambda>applied_text.
        eff_bind (query E (insert_generation_row (\<lambda>i.
            \<lparr>gr_id = i, gr_status = generation_wire status, gr_nftables_config = config,
             gr_created_at = created_text, gr_applied_at = applied_text, gr_error = err\<rparr>))) (\<lambda>i.
        eff_ret \<lparr>g_id = i, g_status = status, nftables_config = config, g_created_at = created,
                 applied_at = applied, g_error = err\<rparr>)))))"

definition latest_active_generation :: "'e env_ops_scheme \<Rightarrow> ('w, generation option) store_eff" where
  "latest_active_generation E =
     eff_bind (query E (select_stmt (\<lambda>s.
       case sort_key (\<lambda>r. - gr_id r) (filter (\<lambda>r. gr_status r = ''active'') (t_generations s)) of
         [] \<Rightarrow> None | r # _ \<Rightarrow> Some r))) (\<lambda>row.
     eff_lift (res_opt (row_to_generation E) row))"

definition get_generation :: "'e env_ops_scheme \<Rightarrow> int \<Rightarrow> ('w, generation) store_eff" where
  "get_generation E i =
     eff_bind (query E (select_stmt (\<lambda>s. find (\<lambda>r. gr_id r = i) (t_generations s)))) (\<lambda>row.
     eff_bind (eff_lift (ok_or (Store (''generation not found: '' @ show_int i)) row)) (\<lambda>r.
     eff_lift (row_to_generation E r)))"

definition record_event ::
  "'e env_ops_scheme \<Rightarrow> event_level \<Rightarrow> string \<Rightarrow> string option \<Rightarrow> ('w, event) store_eff" where
  "record_event E level message data =
     (if trim message = [] then eff_err (Validation ''event message cannot be empty'')
      else
        eff_bind (now_utc E) (\<lambda>created.
        eff_bind (eff_lift (format_time E created)) (\<lambda>created_text.
        eff_bind (query E (insert_event_row (\<lambda>i.
            \<lparr>er_id = i, er_level = level_wire level, er_message = message, er_data = data,
             er_created_at = created_text\<rparr>))) (\<lambda>i.
        eff_ret \<lparr>ev_id = i, ev_level = level, ev_message = message, ev_data = data,
                 ev_created_at = created\<rparr>))))"

definition clamp :: "int \<Rightarrow> int \<Rightarrow> int \<Rightarrow> int" where
  "clamp lo hi n = (if n < lo then lo else if hi < n then hi else n)"

definition list_events :: "'e env_ops_scheme \<Rightarrow> int \<Rightarrow> ('w, event list) store_eff" where
  "list_events E limit =
     eff_bind (query E (select_stmt (\<lambda>s.
       take (nat (clamp 1 500 limit)) (sort_key (\<lambda>r. - er_id r) (t_events s))))) (\<lambda>rows.
     eff_lift (res_mapM (row_to_event E) rows))"

section \<open>Encoding and decoding rows\<close>

lemma enum_from_string_ok:
  "enum_from_string E wire vs v = Inr x \<Longrightarrow> v = wire x"
  by (auto simp: enum_from_string_def dest: find_SomeD)

lemma enum_from_string_wire [simp]:
  "enum_from_string E protocol_wire all_protocols (protocol_wire p) = Inr p"
  "enum_from_string E mode_wire all_modes (mode_wire md) = Inr md"
  "enum_from_string E backend_wire all_backends (backend_wire b) = Inr b"
  "enum_from_string E status_wire all_statuses (status_wire st) = Inr st"
  "enum_from_string E generation_wire all_generation_statuses (generation_wire g) = Inr g"
  "enum_from_string E level_wire all_levels (level_wire l) = Inr l"
proof -
  show "enum_from_string E protocol_wire all_protocols (protocol_wire p) = Inr p"
    by (cases p) (simp_all add: enum_from_string_def)
  show "enum_from_string E mode_wire all_modes (mode_wire md) = Inr md"
    by (cases md) (simp_all add: enum_from_string_def)
  show "enum_from_string E backend_wire all_backends (backend_wire b) = Inr b"
    by (cases b) (simp_all add: enum_from_string_def)
  show "enum_from_string E status_wire all_statuses (status_wire st) = Inr st"
    by (cases st) (simp_all add: enum_from_string_def)
  show "enum_from_string E generation_wire all_generation_statuses (generation_wire g) = Inr g"
    by (cases g) (simp_all add: enum_from_string_def)
  show "enum_from_string E level_wire all_levels (level_wire l) = Inr l"
    by (cases l) (simp_all add: enum_from_string_def)
qed

lemma parse_ip_to_string [simp]: "parse_ip (ip_to_string ip) = Inr ip"
  by (simp add: parse_ip_def)

lemma parse_ip_ok: "parse_ip v = Inr ip \<Longrightarrow> v = ip_to_string ip"
  by (simp add: parse_ip_def parse_ipv4_canonical)

lemma parse_optional_ip_to_string [simp]: "parse_optional_ip (map_option ip_to_string v) = Inr v"
  by (cases v) (simp_all add: parse_optional_ip_def)

lemma parse_optional_ip_ok: "parse_optional_ip v = Inr ip \<Longrightarrow> v = map_option ip_to_string ip"
  by (cases v) (auto simp: parse_optional_ip_def dest: parse_ip_ok)

lemma decode_port_uint: "p \<noteq> Some 0 \<Longrightarrow> decode_port (map_option uint p) col = Inr p"
proof (cases p)
  case (Some w)
  assume "p \<noteq> Some 0"
  then have "uint w \<noteq> 0" using Some by (simp add: uint_0_iff)
  then have "1 \<le> uint w" using unsigned_greater_eq [where 'a = int, of w] by linarith
  moreover have "uint w \<le> 65535" using unsigned_less [of w, where 'a = int] by simp
  ultimately show ?thesis using Some by (simp add: decode_port_def)
qed (simp add: decode_port_def)

lemma decode_port_ok: "decode_port v col = Inr p \<Longrightarrow> v = map_option uint p"
  by (auto simp: decode_port_def uint_word_of_int split: option.splits if_splits)

lemma parse_format_time: "time_doc E \<Longrightarrow> format_time E t = Inr s \<Longrightarrow> parse_time E s = Inr t"
  by (simp add: time_doc_def format_time_def parse_time_def)

lemma parse_format_optional_time:
  "time_doc E \<Longrightarrow> format_optional_time E t = Inr s \<Longrightarrow> parse_optional_time E s = Inr t"
  by (cases t) (auto simp: format_optional_time_def parse_optional_time_def parse_format_time)

definition id_wf :: "mapping_id \<Rightarrow> bool" where
  "id_wf i \<longleftrightarrow> id_str i \<noteq> [] \<and> trim (id_str i) = id_str i"

lemma id_wf_from_str: "mapping_id_from_str s = Inr i \<Longrightarrow> id_wf i"
  by (auto simp: mapping_id_from_str_ok id_wf_def)

lemma id_wf_parses: "id_wf i \<Longrightarrow> mapping_id_from_str (id_str i) = Inr i"
  by (simp add: mapping_id_from_str_ok id_wf_def)

lemma row_to_mapping_columns:
  assumes "id_wf (m_id m)" "public_port m \<noteq> Some 0" "target_port m \<noteq> Some 0"
    "parse_optional_time E checked = Inr lc" "parse_time E created = Inr c" "parse_time E updated = Inr u"
  shows "row_to_mapping E (mapping_columns m checked created updated) =
    Inr (m\<lparr>last_checked_at := lc, created_at := c, updated_at := u\<rparr>)"
  using assms by (simp add: row_to_mapping_def mapping_columns_def decode_port_uint id_wf_parses)

text \<open>What decoding a row says about its columns.\<close>

lemma row_to_mapping_fields:
  assumes "row_to_mapping E r = Inr m"
  shows "id_str (m_id m) = trim (r_id r)" "r_public_ip r = map_option ip_to_string (public_ip m)"
    "r_edge_private_ip r = ip_to_string (edge_private_ip m)"
    "r_target_ip r = ip_to_string (target_ip m)"
    "r_public_port r = map_option uint (public_port m)" "r_protocol r = protocol_wire (m_protocol m)"
    "r_mode r = mode_wire (m_mode m)" "enabled m \<longleftrightarrow> r_enabled r \<noteq> 0"
  using assms
  by (auto simp: row_to_mapping_def mapping_id_from_str_ok dest: parse_ip_ok parse_optional_ip_ok
      decode_port_ok enum_from_string_ok)

lemma uint_option_eq: "sql_eq (map_option uint a) (map_option uint b) \<longleftrightarrow> a \<noteq> None \<and> a = b"
  by (cases a; cases b) (simp_all add: sql_eq_def word_uint_eq_iff)

lemma ip_option_eq: "sql_eq (map_option ip_to_string a) (map_option ip_to_string b) \<longleftrightarrow> a \<noteq> None \<and> a = b"
  by (cases a; cases b) (simp_all add: sql_eq_def)

lemma mode_wire_text [simp]:
  "mode_wire md = o2o_text \<longleftrightarrow> md = OneToOneSnat" "mode_wire md = pf_text \<longleftrightarrow> md = PortForwardSnat"
  by (cases md; simp add: o2o_text_def pf_text_def)+

text \<open>The rows of two enabled mappings clash in the sense of the schema exactly when the mappings
  are incompatible, except for port forwards without a port, which validation rejects.\<close>

lemma row_clash_mapping:
  assumes "row_to_mapping E r = Inr a" "row_to_mapping E r' = Inr b"
    and on: "r_enabled r = 1" "r_enabled r' = 1" and no: "\<not> row_clash r r'"
    and ports: "m_mode a = PortForwardSnat \<Longrightarrow> public_port a \<noteq> None"
  shows "compatible a b"
proof -
  note f = row_to_mapping_fields [OF assms(1)] row_to_mapping_fields [OF assms(2)]
  have en: "enabled a" "enabled b" using f(8,16) on by simp_all
  show ?thesis
    using no on en ports
    unfolding row_clash_def f mode_wire_text ip_option_eq uint_option_eq ip_to_string_inj wire_inj
      compatible_def conflicts_def public_clash_def
    by (cases "m_mode a"; cases "m_mode b") auto
qed

section \<open>The store issues well-formed statements only\<close>

lemma reads_get_edge_config [reads_intros]: "reads (get_edge_config E)"
  unfolding get_edge_config_def by (intro reads_intros)

lemma reads_require_edge_config [reads_intros]: "reads (require_edge_config E)"
  unfolding require_edge_config_def by (intro reads_intros)

lemma reads_reject_duplicates [reads_intros]: "reads (reject_duplicates E m)"
  unfolding reject_duplicates_def by (intro reads_intros)

lemma reads_get_mapping [reads_intros]: "reads (get_mapping E i)"
  unfolding get_mapping_def by (intro reads_intros)

lemma reads_lists [reads_intros]:
  "reads (list_mappings E)" "reads (list_events E n)" "reads (get_generation E g)"
  "reads (latest_active_generation E)"
  unfolding list_mappings_def list_events_def get_generation_def latest_active_generation_def
  by (intro reads_intros)+

lemma insert_values_wf:
  assumes "insert_values E m = Inr row" "mapping_ok N cfg m"
  shows "row_wf row" "\<exists>lc c u. row = mapping_columns m lc c u"
proof -
  from assms(1) obtain lc c u where row: "row = mapping_columns m lc c u"
    by (auto simp: insert_values_def)
  then show "\<exists>lc c u. row = mapping_columns m lc c u" by blast
  show "row_wf row"
    using assms(2) unfolding row by (cases "m_mode m")
      (auto simp: row_wf_def mapping_columns_def mapping_ok_def ports_ok_def o2o_text_def pf_text_def)
qed

lemma update_values_wf:
  assumes "update_values E m = Inr row" "mapping_ok N cfg m" shows "row_wf row"
proof -
  from assms(1) obtain lc u where row: "row = mapping_columns m lc [] u"
    by (auto simp: update_values_def)
  show ?thesis
    using assms(2) unfolding row by (cases "m_mode m")
      (auto simp: row_wf_def mapping_columns_def mapping_ok_def ports_ok_def o2o_text_def pf_text_def)
qed

lemma sql_reachable_ignores_tick: "ignores_tick (sql_reachable :: 'w db_scheme \<Rightarrow> bool)"
proof -
  have "sql_reachable (s\<lparr>tick := n\<rparr>) \<longleftrightarrow> sql_reachable s" for s :: "'w db_scheme" and n
  proof
    show "sql_reachable (s\<lparr>tick := n\<rparr>) \<Longrightarrow> sql_reachable s" by (erule sql_other) simp
    show "sql_reachable s \<Longrightarrow> sql_reachable (s\<lparr>tick := n\<rparr>)" by (erule sql_other) simp
  qed
  then show ?thesis by (simp add: ignores_tick_def)
qed

lemma keeps_reachable_stmt:
  assumes "\<And>s x t. st s = Inr (x, t) \<Longrightarrow>
    (\<exists>q. stmt_wf q \<and> mapping_stmt_exec q s = Inr t) \<or> t_mappings t = t_mappings s"
  shows "keeps sql_reachable (query E st)"
  by (rule keeps_query [OF sql_reachable_ignores_tick]) (use assms sql_stmt sql_other in blast)

lemma keeps_reachable_reads: "reads m \<Longrightarrow> keeps sql_reachable m"
  by (rule keeps_reads [OF sql_reachable_ignores_tick])

lemma keeps_reachable_writes [keeps_intros]:
  "row_wf row \<Longrightarrow> keeps sql_reachable (query E (insert_mapping_row row))"
  "row_wf row \<Longrightarrow> keeps sql_reachable (query E (update_mapping_row True i (assign_columns row)))"
  "keeps sql_reachable (query E (update_mapping_row True i (assign_enabled en st time)))"
  "keeps sql_reachable (query E (update_mapping_row False i (assign_health st h e c time)))"
  "keeps sql_reachable (query E (delete_mapping_row i))"
proof -
  show "keeps sql_reachable (query E (insert_mapping_row row))" if "row_wf row"
    by (rule keeps_reachable_stmt, rule disjI1, rule exI [of _ "SInsert row"])
      (use that in \<open>simp add: stmt_wf_def\<close>)
  show "keeps sql_reachable (query E (update_mapping_row True i (assign_columns row)))" if "row_wf row"
    by (rule keeps_reachable_stmt, rule disjI1, rule exI [of _ "SUpdate i row"])
      (use that in \<open>simp add: stmt_wf_def\<close>)
  show "keeps sql_reachable (query E (update_mapping_row True i (assign_enabled en st time)))"
    by (rule keeps_reachable_stmt, rule disjI1, rule exI [of _ "SEnable i en st time"])
      (simp add: stmt_wf_def)
  show "keeps sql_reachable (query E (update_mapping_row False i (assign_health st h e c time)))"
    by (rule keeps_reachable_stmt, rule disjI1, rule exI [of _ "SHealth i st h e c time"])
      (simp add: stmt_wf_def)
  show "keeps sql_reachable (query E (delete_mapping_row i))"
    by (rule keeps_reachable_stmt, rule disjI1, rule exI [of _ "SDelete i"]) (simp add: stmt_wf_def)
qed

lemma keeps_reachable_other [keeps_intros]:
  "keeps sql_reachable (query E (upsert_config v))"
  "keeps sql_reachable (query E (insert_generation_row g))"
  "keeps sql_reachable (query E (insert_event_row ev))"
  by (rule keeps_reachable_stmt;
      auto simp: upsert_config_def insert_generation_row_def insert_event_row_def Let_def split: if_splits)+

lemma keeps_reachable_insert_mapping [keeps_intros]: "keeps sql_reachable (insert_mapping E m)"
  unfolding insert_mapping_def
  by (intro keeps_bind keeps_lift_bind keeps_reachable_reads reads_intros keeps_reachable_writes)
    (auto simp: validate_mapping_ok intro: insert_values_wf)

lemma keeps_reachable_update_mapping [keeps_intros]: "keeps sql_reachable (update_mapping E m)"
  unfolding update_mapping_def
  by (intro keeps_bind keeps_lift_bind keeps_if keeps_ret keeps_err keeps_reachable_reads
      reads_intros keeps_reachable_writes)
    (auto simp: validate_mapping_ok intro: update_values_wf)

lemma keeps_reachable_ops [keeps_intros]:
  "keeps sql_reachable (set_edge_config E cfg)"
  "keeps sql_reachable (ensure_edge_config E cfg)"
  "keeps sql_reachable (delete_mapping E i)"
  "keeps sql_reachable (set_mapping_enabled E i en)"
  "keeps sql_reachable (set_mapping_health E i st h e)"
  "keeps sql_reachable (record_generation E gs config ap err)"
  "keeps sql_reachable (record_event E lv msg dt)"
  unfolding set_edge_config_def ensure_edge_config_def delete_mapping_def set_mapping_enabled_def
    set_mapping_health_def record_generation_def record_event_def Let_def
  by (intro keeps_bind keeps_if keeps_case_option keeps_ret keeps_err keeps_lift
      keeps_reachable_writes keeps_reachable_other keeps_reachable_reads reads_intros)+

section \<open>Rows by identifier\<close>

definition row_at :: "mapping_row list \<Rightarrow> string \<Rightarrow> mapping_row option" where
  "row_at rows k = find (\<lambda>r. r_id r = k) rows"

lemma row_at_SomeD: "row_at rows k = Some r \<Longrightarrow> r \<in> set rows \<and> r_id r = k"
  unfolding row_at_def by (rule find_SomeD)

lemma row_at_append: "row_at (rows @ [new]) k =
    (case row_at rows k of None \<Rightarrow> if r_id new = k then Some new else None | Some r \<Rightarrow> Some r)"
  by (induction rows) (auto simp: row_at_def)

lemma row_at_map:
  assumes "\<And>r. r_id (f r) = r_id r"
  shows "row_at (map (\<lambda>r. if r_id r = k then f r else r) rows) j =
    (if j = k then map_option f (row_at rows k) else row_at rows j)"
  using assms by (induction rows) (auto simp: row_at_def)

lemma row_at_filter: "row_at (filter (\<lambda>r. r_id r \<noteq> k) rows) j = (if j = k then None else row_at rows j)"
  by (induction rows) (auto simp: row_at_def)

definition decoded :: "'e env_ops_scheme \<Rightarrow> mapping_row \<Rightarrow> mapping option" where
  "decoded E r = (case row_to_mapping E r of Inl _ \<Rightarrow> None | Inr m \<Rightarrow> Some m)"

definition sql_view :: "'e env_ops_scheme \<Rightarrow> 'w db_scheme \<Rightarrow> mapping_view" where
  "sql_view E s i = Option.bind (row_at (t_mappings s) (id_str i)) (decoded E)"

definition row_good :: "'e env_ops_scheme \<Rightarrow> mapping_row \<Rightarrow> bool" where
  "row_good E r \<longleftrightarrow> (\<exists>m. row_to_mapping E r = Inr m \<and> id_str (m_id m) = r_id r)"

definition sql_invar :: "'e env_ops_scheme \<Rightarrow> 'w db_scheme \<Rightarrow> bool" where
  "sql_invar E s \<longleftrightarrow> (\<forall>r\<in>set (t_mappings s). row_good E r)"

lemma sql_view_tick [simp]: "sql_view E (s\<lparr>tick := n\<rparr>) = sql_view E s"
  by (simp add: sql_view_def fun_eq_iff)

lemma sql_invar_tick [simp]: "sql_invar E (s\<lparr>tick := n\<rparr>) \<longleftrightarrow> sql_invar E s"
  by (simp add: sql_invar_def)

lemma decoded_Some [simp]: "decoded E r = Some m \<longleftrightarrow> row_to_mapping E r = Inr m"
  by (simp add: decoded_def split: sum.split)

lemma sql_view_Some:
  "sql_view E s i = Some m \<longleftrightarrow>
     (\<exists>r. row_at (t_mappings s) (id_str i) = Some r \<and> row_to_mapping E r = Inr m)"
  by (simp add: sql_view_def Option.bind_eq_Some_conv)

lemma sql_view_key: "sql_invar E s \<Longrightarrow> sql_view E s i = Some m \<Longrightarrow> m_id m = i"
  by (auto simp: sql_view_Some sql_invar_def row_good_def mapping_id.expand dest!: row_at_SomeD)

lemma sql_view_None:
  assumes "sql_invar E s" shows "sql_view E s i = None \<longleftrightarrow> row_at (t_mappings s) (id_str i) = None"
  using assms row_at_SomeD [of "t_mappings s" "id_str i"]
  by (cases "row_at (t_mappings s) (id_str i)") (auto simp: sql_view_def sql_invar_def row_good_def decoded_def)

text \<open>Decoding a row the store's updates have changed.\<close>

definition enabled_row :: "bool \<Rightarrow> string \<Rightarrow> mapping_row \<Rightarrow> mapping_row" where
  "enabled_row en time r = assign_enabled en (status_wire (if en then MPending else MDisabled)) time r"

lemma enabled_row_id [simp]: "r_id (enabled_row en time r) = r_id r"
  by (simp add: enabled_row_def)

lemma row_assign_enabled:
  assumes "row_to_mapping E r = Inr x" "parse_time E time = Inr now"
  shows "row_to_mapping E (enabled_row en time r) = Inr (mapping_set_enabled now en x)"
  using assms by (auto simp: row_to_mapping_def enabled_row_def assign_enabled_def
      mapping_set_enabled_def simp del: status_wire.simps)

lemma row_assign_columns:
  assumes "time_doc E" "update_values E m = Inr row" "row_to_mapping E r = Inr x"
    and "mapping_ok N cfg m" "id_wf (m_id m)" "r_id r = id_str (m_id m)"
  shows "row_to_mapping E (assign_columns row r) = Inr (m\<lparr>created_at := created_at x\<rparr>)"
proof -
  from assms(2) obtain lc u where row: "row = mapping_columns m lc [] u"
    and lc: "format_optional_time E (last_checked_at m) = Inr lc" and u: "format_time E (updated_at m) = Inr u"
    by (auto simp: update_values_def)
  have cols: "assign_columns row r = mapping_columns m lc (r_created_at r) u"
    using assms(6) by (simp add: row assign_columns_def mapping_columns_def)
  have c: "parse_time E (r_created_at r) = Inr (created_at x)" using assms(3) by (auto simp: row_to_mapping_def)
  have "public_port m \<noteq> Some 0" "target_port m \<noteq> Some 0"
    using assms(4) by (cases "m_mode m"; auto simp: mapping_ok_def ports_ok_def)+
  then show ?thesis
    unfolding cols using assms(1,5) lc u c
    by (subst row_to_mapping_columns) (auto intro: parse_format_time parse_format_optional_time)
qed

lemma insert_values_decode:
  assumes "time_doc E" "insert_values E m = Inr row" "mapping_ok N cfg m" "id_wf (m_id m)"
  shows "row_to_mapping E row = Inr m" "r_id row = id_str (m_id m)"
proof -
  from assms(2) obtain lc c u where row: "row = mapping_columns m lc c u"
    and f: "format_optional_time E (last_checked_at m) = Inr lc" "format_time E (created_at m) = Inr c"
      "format_time E (updated_at m) = Inr u"
    by (auto simp: insert_values_def)
  have "public_port m \<noteq> Some 0" "target_port m \<noteq> Some 0"
    using assms(3) by (cases "m_mode m"; auto simp: mapping_ok_def ports_ok_def)+
  then show "row_to_mapping E row = Inr m"
    unfolding row using assms(1,4) f
    by (subst row_to_mapping_columns) (auto intro: parse_format_time parse_format_optional_time)
  show "r_id row = id_str (m_id m)" by (simp add: row mapping_columns_def)
qed

section \<open>What each operation does to the table\<close>

lemma reject_duplicates_ok:
  assumes "reject_duplicates E m s = (Inr u, t)" "r \<in> set (t_mappings s)" "r_id r \<noteq> id_str (m_id m)"
  shows "\<exists>x. row_to_mapping E r = Inr x \<and> admits m x"
  using assms
  by (auto simp: reject_duplicates_def eff_bind_eq_Inr reject_pair_ok dest!: select_Inr)

lemma insert_mapping_Inr:
  assumes "insert_mapping E m s = (Inr u, t)"
  shows "\<exists>cfg row s'. mapping_ok E cfg m \<and> insert_values E m = Inr row \<and>
    t_mappings s' = t_mappings s \<and> insert_mapping_row row s' = Inr ((), t) \<and>
    (\<forall>r\<in>set (t_mappings s). r_id r \<noteq> id_str (m_id m) \<longrightarrow> (\<exists>x. row_to_mapping E r = Inr x \<and> admits m x))"
proof -
  from assms obtain cfg row s1 s2 where
      1: "require_edge_config E s = (Inr cfg, s1)" and v: "validate_mapping E m cfg = Inr ()"
    and 2: "reject_duplicates E m s1 = (Inr (), s2)" and row: "insert_values E m = Inr row"
    and 3: "query E (insert_mapping_row row) s2 = (Inr (), t)"
    by (auto simp: insert_mapping_def eff_bind_eq_Inr)
  obtain n1 n2 where s1: "s1 = s\<lparr>tick := n1\<rparr>" and s2: "s2 = s\<lparr>tick := n2\<rparr>"
    using readsD [OF reads_require_edge_config 1] readsD [OF reads_reject_duplicates 2] by auto
  show ?thesis
    using v row query_Inr [OF 3] s1 s2 reject_duplicates_ok [OF 2]
    by (intro exI [of _ cfg] exI [of _ row] exI [of _ "s2\<lparr>tick := Suc (tick s2)\<rparr>"])
      (auto simp: validate_mapping_ok)
qed

lemma insert_mapping_Inl:
  assumes "insert_mapping E m s = (Inl e, t)" shows "\<exists>n. t = s\<lparr>tick := n\<rparr>"
proof -
  consider "require_edge_config E s = (Inl e, t)"
    | cfg s1 where "require_edge_config E s = (Inr cfg, s1)" "t = s1"
    | cfg s1 where "require_edge_config E s = (Inr cfg, s1)" "reject_duplicates E m s1 = (Inl e, t)"
    | cfg s1 s2 where "require_edge_config E s = (Inr cfg, s1)" "reject_duplicates E m s1 = (Inr (), s2)" "t = s2"
    | cfg s1 s2 row where "require_edge_config E s = (Inr cfg, s1)" "reject_duplicates E m s1 = (Inr (), s2)"
        "query E (insert_mapping_row row) s2 = (Inl e, t)"
    using assms by (auto simp: insert_mapping_def eff_bind_eq_Inl)
  then show ?thesis
    by cases (auto dest!: readsD [OF reads_require_edge_config] readsD [OF reads_reject_duplicates] query_Inl)
qed

lemma update_mapping_Inr:
  assumes "update_mapping E m s = (Inr u, t)"
  shows "\<exists>cfg row s' n. mapping_ok E cfg m \<and> update_values E m = Inr row \<and>
    t_mappings s' = t_mappings s \<and> n \<noteq> 0 \<and>
    update_mapping_row True (id_str (m_id m)) (assign_columns row) s' = Inr (n, t) \<and>
    (\<forall>r\<in>set (t_mappings s). r_id r \<noteq> id_str (m_id m) \<longrightarrow> (\<exists>x. row_to_mapping E r = Inr x \<and> admits m x))"
proof -
  from assms obtain cfg row s1 s2 n where
      1: "require_edge_config E s = (Inr cfg, s1)" and v: "validate_mapping E m cfg = Inr ()"
    and 2: "reject_duplicates E m s1 = (Inr (), s2)" and row: "update_values E m = Inr row"
    and 3: "query E (update_mapping_row True (id_str (m_id m)) (assign_columns row)) s2 = (Inr n, t)"
    and n: "n \<noteq> 0"
    by (auto simp: update_mapping_def eff_bind_eq_Inr split: if_splits)
  obtain n1 n2 where s1: "s1 = s\<lparr>tick := n1\<rparr>" and s2: "s2 = s\<lparr>tick := n2\<rparr>"
    using readsD [OF reads_require_edge_config 1] readsD [OF reads_reject_duplicates 2] by auto
  show ?thesis
    using v row n query_Inr [OF 3] s1 s2 reject_duplicates_ok [OF 2]
    by (intro exI [of _ cfg] exI [of _ row] exI [of _ "s2\<lparr>tick := Suc (tick s2)\<rparr>"] exI [of _ n])
      (auto simp: validate_mapping_ok)
qed

lemma update_mapping_row_cases:
  assumes "update_mapping_row c i f s = Inr (n, t)"
  shows "n = 0 \<and> t = s \<and> row_at (t_mappings s) i = None \<or>
    n = 1 \<and> row_at (t_mappings s) i \<noteq> None \<and>
      t = s\<lparr>t_mappings := map (\<lambda>x. if r_id x = i then f x else x) (t_mappings s)\<rparr>"
  using assms by (auto simp: update_mapping_row_def row_at_def split: option.splits)

lemma update_mapping_Inl:
  assumes "update_mapping E m s = (Inl e, t)" shows "\<exists>n. t = s\<lparr>tick := n\<rparr>"
proof -
  let ?u = "\<lambda>row. query E (update_mapping_row True (id_str (m_id m)) (assign_columns row))"
  consider "require_edge_config E s = (Inl e, t)"
    | cfg s1 where "require_edge_config E s = (Inr cfg, s1)" "t = s1"
    | cfg s1 where "require_edge_config E s = (Inr cfg, s1)" "reject_duplicates E m s1 = (Inl e, t)"
    | cfg s1 s2 where "require_edge_config E s = (Inr cfg, s1)" "reject_duplicates E m s1 = (Inr (), s2)" "t = s2"
    | cfg s1 s2 row where "require_edge_config E s = (Inr cfg, s1)" "reject_duplicates E m s1 = (Inr (), s2)"
        "?u row s2 = (Inl e, t)"
    | cfg s1 s2 row where "require_edge_config E s = (Inr cfg, s1)" "reject_duplicates E m s1 = (Inr (), s2)"
        "?u row s2 = (Inr 0, t)"
    using assms by (auto simp: update_mapping_def eff_bind_eq_Inl split: if_splits)
  then show ?thesis
    by cases (auto dest!: readsD [OF reads_require_edge_config] readsD [OF reads_reject_duplicates]
        query_Inl query_Inr update_mapping_row_cases)
qed

lemma delete_mapping_Inr:
  assumes "delete_mapping E i s = (Inr m, t)"
  shows "\<exists>n. sql_view E s i = Some m \<and>
    t = s\<lparr>tick := n, t_mappings := filter (\<lambda>r. r_id r \<noteq> id_str i) (t_mappings s)\<rparr>"
proof -
  from assms obtain s1 where 1: "get_mapping E i s = (Inr m, s1)"
    and 2: "query E (delete_mapping_row (id_str i)) s1 = (Inr (), t)"
    by (auto simp: delete_mapping_def eff_bind_eq_Inr)
  obtain n where s1: "s1 = s\<lparr>tick := n\<rparr>" using readsD [OF reads_get_mapping 1] by blast
  have "sql_view E s i = Some m"
    using 1 by (auto simp: get_mapping_def eff_bind_eq_Inr sql_view_Some row_at_def dest!: select_Inr)
  with query_Inr [OF 2] s1 show ?thesis by (auto simp: delete_mapping_row_def)
qed

lemma delete_mapping_Inl:
  assumes "delete_mapping E i s = (Inl e, t)" shows "\<exists>n. t = s\<lparr>tick := n\<rparr>"
  using assms by (auto simp: delete_mapping_def eff_bind_eq_Inl
      dest!: query_Inl readsD [OF reads_get_mapping])

text \<open>Whatever \<open>set_mapping_enabled\<close> returns, it has either changed nothing or assigned its columns
  to the row of the identifier.\<close>

lemma set_mapping_enabled_effect:
  assumes "set_mapping_enabled E i en s = (r, t)"
  shows "(\<exists>n. t = s\<lparr>tick := n\<rparr>) \<and> \<not> (res_ok r \<and> row_at (t_mappings s) (id_str i) \<noteq> None) \<or>
    (\<exists>n now time. format_time E now = Inr time \<and> row_at (t_mappings s) (id_str i) \<noteq> None \<and>
       t = s\<lparr>t_mappings := map (\<lambda>x. if r_id x = id_str i
         then enabled_row en time x else x) (t_mappings s), tick := n\<rparr>)"
proof -
  define now s1 where "now = clock E (tick s)" and s1: "s1 = s\<lparr>tick := Suc (tick s)\<rparr>"
  have eq: "set_mapping_enabled E i en s = (case format_time E now of
      Inl e \<Rightarrow> (Inl e, s1)
    | Inr time \<Rightarrow> eff_bind (query E (update_mapping_row True (id_str i) (enabled_row en time)))
        (\<lambda>_. get_mapping E i) s1)"
    by (simp add: set_mapping_enabled_def Let_def now_utc_def eff_bind_def now_def s1
        enabled_row_def [abs_def] split: sum.split)
  show ?thesis
  proof (cases "format_time E now")
    case (Inl e)
    with eq assms s1 show ?thesis by auto
  next
    case (Inr time)
    obtain q s2 where q: "query E (update_mapping_row True (id_str i) (enabled_row en time)) s1 = (q, s2)"
      by (cases "query E (update_mapping_row True (id_str i) (enabled_row en time)) s1")
    show ?thesis
    proof (cases q)
      case (Inl e)
      have "(r, t) = (Inl e, s2)" using q Inl Inr eq assms by (simp add: eff_bind_def)
      moreover have "s2 = s1\<lparr>tick := Suc (tick s1)\<rparr>" using query_Inl q Inl by blast
      ultimately show ?thesis using s1 by auto
    next
      case (Inr n)
      with q \<open>format_time E now = Inr time\<close> eq assms have g: "get_mapping E i s2 = (r, t)"
        by (simp add: eff_bind_def)
      obtain k where t: "t = s2\<lparr>tick := k\<rparr>" using readsD [OF reads_get_mapping g] by blast
      from update_mapping_row_cases [OF query_Inr [OF q [unfolded Inr]]] show ?thesis
      proof
        assume "n = 0 \<and> s2 = s1\<lparr>tick := Suc (tick s1)\<rparr> \<and>
          row_at (t_mappings (s1\<lparr>tick := Suc (tick s1)\<rparr>)) (id_str i) = None"
        then show ?thesis using s1 t by auto
      next
        assume "n = 1 \<and> row_at (t_mappings (s1\<lparr>tick := Suc (tick s1)\<rparr>)) (id_str i) \<noteq> None \<and>
          s2 = s1\<lparr>tick := Suc (tick s1), t_mappings :=
            map (\<lambda>x. if r_id x = id_str i then enabled_row en time x else x)
              (t_mappings (s1\<lparr>tick := Suc (tick s1)\<rparr>))\<rparr>"
        then show ?thesis
          using s1 t \<open>format_time E now = Inr time\<close>
          by (intro disjI2 exI [of _ k] exI [of _ now] exI [of _ time]) simp
      qed
    qed
  qed
qed

section \<open>The store keeps its contract\<close>

text \<open>The writes of \<open>mapping_store\<close> on this store. An identifier that \<open>MappingId::new\<close> and
  \<open>MappingId::from_str\<close> cannot produce is not sent; the clock is the store's own.\<close>

fun sql_write :: "'e env_ops_scheme \<Rightarrow> store_write \<Rightarrow> 'w db_scheme \<Rightarrow> bool \<times> 'w db_scheme" where
  "sql_write E (WInsert m) s =
     (if id_wf (m_id m) then apfst res_ok (insert_mapping E m s) else (False, s))"
| "sql_write E (WUpdate now m) s =
     (if id_wf (m_id m) then apfst res_ok (update_mapping E m s) else (False, s))"
| "sql_write E (WDelete i) s = apfst res_ok (delete_mapping E i s)"
| "sql_write E (WEnable now i en) s = apfst res_ok (set_mapping_enabled E i en s)"

lemma apfst_res_ok:
  "apfst res_ok p = (True, t) \<longleftrightarrow> (\<exists>x. p = (Inr x, t))"
  "apfst res_ok p = (False, t) \<longleftrightarrow> (\<exists>e. p = (Inl e, t))"
  by (cases p; cases "fst p"; auto)+

lemma sql_insert_law:
  assumes doc: "time_doc E" and inv: "sql_invar E s" and wf: "id_wf (m_id m)"
    and ins: "insert_mapping E m s = (Inr u, t)"
  shows "sql_invar E t" "sql_view E s (m_id m) = None" "fits m (sql_view E s)"
    "sql_view E t = (sql_view E s)(m_id m \<mapsto> m)"
proof -
  from insert_mapping_Inr [OF ins] obtain cfg row s' where ok: "mapping_ok E cfg m"
    and row: "insert_values E m = Inr row" and s': "t_mappings s' = t_mappings s"
    and st: "insert_mapping_row row s' = Inr ((), t)"
    and adm: "\<forall>r\<in>set (t_mappings s). r_id r \<noteq> id_str (m_id m) \<longrightarrow> (\<exists>x. row_to_mapping E r = Inr x \<and> admits m x)"
    by blast
  note dec = insert_values_decode [OF doc row ok wf]
  from st s' have c: "check_row row (t_mappings s) = Inr ()" and t: "t_mappings t = t_mappings s @ [row]"
    by (auto simp: insert_mapping_row_def)
  show "sql_invar E t" using inv dec by (auto simp: sql_invar_def t row_good_def)
  have none: "row_at (t_mappings s) (id_str (m_id m)) = None"
  proof (cases "row_at (t_mappings s) (id_str (m_id m))")
    case (Some r)
    then show ?thesis using row_at_SomeD [OF Some] check_row_ok(1) [OF c] dec(2) by auto
  qed simp
  then show "sql_view E s (m_id m) = None" by (simp add: sql_view_def)
  show "fits m (sql_view E s)"
    unfolding fits_def
  proof (intro allI impI)
    fix i x
    assume "sql_view E s i = Some x" "i \<noteq> m_id m"
    then show "admits m x"
      using adm by (auto simp: sql_view_Some mapping_id.expand dest!: row_at_SomeD)
  qed
  show "sql_view E t = (sql_view E s)(m_id m \<mapsto> m)"
  proof
    fix i
    show "sql_view E t i = ((sql_view E s)(m_id m \<mapsto> m)) i"
      using none dec
      by (cases "i = m_id m")
        (auto simp: sql_view_def t row_at_append decoded_def mapping_id.expand split: option.split)
  qed
qed

lemma sql_update_law:
  assumes doc: "time_doc E" and inv: "sql_invar E s" and wf: "id_wf (m_id m)"
    and upd: "update_mapping E m s = (Inr u, t)"
  shows "sql_invar E t" "sql_view E s (m_id m) \<noteq> None" "fits m (sql_view E s)"
    "\<exists>m'. same_route m m' \<and> enabled m' = enabled m \<and> sql_view E t = (sql_view E s)(m_id m \<mapsto> m')"
proof -
  from update_mapping_Inr [OF upd] obtain cfg row s' n where ok: "mapping_ok E cfg m"
    and row: "update_values E m = Inr row" and s': "t_mappings s' = t_mappings s" and n: "n \<noteq> 0"
    and st: "update_mapping_row True (id_str (m_id m)) (assign_columns row) s' = Inr (n, t)"
    and adm: "\<forall>r\<in>set (t_mappings s). r_id r \<noteq> id_str (m_id m) \<longrightarrow> (\<exists>x. row_to_mapping E r = Inr x \<and> admits m x)"
    by blast
  let ?f = "\<lambda>x. if r_id x = id_str (m_id m) then assign_columns row x else x"
  from update_mapping_row_cases [OF st] n s' have t: "t_mappings t = map ?f (t_mappings s)"
    and some: "row_at (t_mappings s) (id_str (m_id m)) \<noteq> None" by auto
  have dec: "\<exists>c. row_to_mapping E (assign_columns row r) = Inr (m\<lparr>created_at := c\<rparr>)"
    if "r \<in> set (t_mappings s)" "r_id r = id_str (m_id m)" for r
  proof -
    from inv that obtain x where "row_to_mapping E r = Inr x" by (auto simp: sql_invar_def row_good_def)
    then show ?thesis using row_assign_columns [OF doc row _ ok wf that(2)] by blast
  qed
  show "sql_invar E t"
    unfolding sql_invar_def t
  proof
    fix r'
    assume "r' \<in> set (map ?f (t_mappings s))"
    then obtain r where r: "r \<in> set (t_mappings s)" "r' = ?f r" by auto
    show "row_good E r'"
    proof (cases "r_id r = id_str (m_id m)")
      case True
      then show ?thesis using dec [OF r(1) True] r(2) by (auto simp: row_good_def)
    qed (use r inv in \<open>auto simp: sql_invar_def\<close>)
  qed
  show "sql_view E s (m_id m) \<noteq> None" using sql_view_None [OF inv] some by simp
  show "fits m (sql_view E s)"
    unfolding fits_def
  proof (intro allI impI)
    fix i x
    assume "sql_view E s i = Some x" "i \<noteq> m_id m"
    then show "admits m x"
      using adm by (auto simp: sql_view_Some mapping_id.expand dest!: row_at_SomeD)
  qed
  from some obtain r where r: "row_at (t_mappings s) (id_str (m_id m)) = Some r" by blast
  from dec [of r] row_at_SomeD [OF r] obtain c where
    c: "row_to_mapping E (assign_columns row r) = Inr (m\<lparr>created_at := c\<rparr>)" by blast
  have "sql_view E t i = ((sql_view E s)(m_id m \<mapsto> m\<lparr>created_at := c\<rparr>)) i" for i
    using r c by (cases "i = m_id m")
      (auto simp: sql_view_def t row_at_map decoded_def mapping_id.expand)
  then have "sql_view E t = (sql_view E s)(m_id m \<mapsto> m\<lparr>created_at := c\<rparr>)" by blast
  then show "\<exists>m'. same_route m m' \<and> enabled m' = enabled m \<and> sql_view E t = (sql_view E s)(m_id m \<mapsto> m')"
    by (intro exI [of _ "m\<lparr>created_at := c\<rparr>"]) (simp add: same_route_def)
qed

lemma sql_delete_law:
  assumes inv: "sql_invar E s" and del: "delete_mapping E i s = (Inr m, t)"
  shows "sql_invar E t" "sql_view E s i = Some m" "sql_view E t = (sql_view E s)(i := None)"
proof -
  from delete_mapping_Inr [OF del] obtain n where v: "sql_view E s i = Some m"
    and t: "t = s\<lparr>tick := n, t_mappings := filter (\<lambda>r. r_id r \<noteq> id_str i) (t_mappings s)\<rparr>" by blast
  show "sql_invar E t" using inv by (simp add: t sql_invar_def)
  show "sql_view E s i = Some m" by (rule v)
  show "sql_view E t = (sql_view E s)(i := None)"
    by (auto simp: fun_eq_iff sql_view_def t row_at_filter mapping_id.expand)
qed

lemma sql_enable_law:
  assumes doc: "time_doc E" and inv: "sql_invar E s" and en: "set_mapping_enabled E i en s = (r, t)"
  shows "sql_invar E t" "sql_view E t = sql_view E s \<or> enables i en (sql_view E s) (sql_view E t)"
    "res_ok r \<Longrightarrow> sql_view E s i \<noteq> None \<Longrightarrow> enables i en (sql_view E s) (sql_view E t)"
proof -
  let ?g = "\<lambda>time x. if r_id x = id_str i then enabled_row en time x else x"
  consider (same) n where "t = s\<lparr>tick := n\<rparr>" "\<not> (res_ok r \<and> row_at (t_mappings s) (id_str i) \<noteq> None)"
    | (changed) n now time where "format_time E now = Inr time" "row_at (t_mappings s) (id_str i) \<noteq> None"
        "t = s\<lparr>t_mappings := map (?g time) (t_mappings s), tick := n\<rparr>"
    using set_mapping_enabled_effect [OF en] by blast
  then have "sql_invar E t \<and> (sql_view E t = sql_view E s \<or> enables i en (sql_view E s) (sql_view E t)) \<and>
    (res_ok r \<longrightarrow> sql_view E s i \<noteq> None \<longrightarrow> enables i en (sql_view E s) (sql_view E t))"
  proof cases
    case same
    then show ?thesis using inv sql_view_None [OF inv, of i] by auto
  next
    case changed
    have p: "parse_time E time = Inr now" using parse_format_time [OF doc changed(1)] .
    have dec: "row_to_mapping E (?g time x) = Inr (mapping_set_enabled now en m)"
      if "row_to_mapping E x = Inr m" "r_id x = id_str i" for x m
      using row_assign_enabled [OF that(1) p, of en] that(2) by simp
    have good: "row_good E (?g time x)" if "x \<in> set (t_mappings s)" for x
    proof (cases "r_id x = id_str i")
      case True
      from inv that obtain m where m: "row_to_mapping E x = Inr m" "id_str (m_id m) = r_id x"
        by (auto simp: sql_invar_def row_good_def)
      then show ?thesis
        unfolding row_good_def using True by (intro exI [of _ "mapping_set_enabled now en m"] conjI)
          (use dec [OF m(1) True] in simp_all)
    qed (use inv that in \<open>simp add: sql_invar_def\<close>)
    from changed(2) obtain x where x: "row_at (t_mappings s) (id_str i) = Some x" by blast
    with row_at_SomeD [OF x] inv obtain m where m: "row_to_mapping E x = Inr m" and xi: "r_id x = id_str i"
      by (auto simp: sql_invar_def row_good_def)
    have view: "sql_view E t j = ((sql_view E s)(i \<mapsto> mapping_set_enabled now en m)) j" for j
      using x dec [OF m xi] xi unfolding changed(3)
      by (cases "j = i") (auto simp: sql_view_def row_at_map decoded_def mapping_id.expand)
    have "sql_view E s i = Some m" using x m by (simp add: sql_view_Some)
    then have "enables i en (sql_view E s) (sql_view E t)"
      unfolding enables_def using view by (intro exI [of _ now] exI [of _ m]) auto
    have "\<forall>x\<in>set (map (?g time) (t_mappings s)). row_good E x"
      unfolding set_map ball_simps using good by blast
    then have "sql_invar E t" unfolding changed(3) sql_invar_def by (simp del: set_map)
    with \<open>enables i en (sql_view E s) (sql_view E t)\<close> show ?thesis by blast
  qed
  then show "sql_invar E t" "sql_view E t = sql_view E s \<or> enables i en (sql_view E s) (sql_view E t)"
    "res_ok r \<Longrightarrow> sql_view E s i \<noteq> None \<Longrightarrow> enables i en (sql_view E s) (sql_view E t)" by blast+
qed

lemma get_mapping_Inr: "get_mapping E i s = (Inr m, t) \<Longrightarrow> sql_view E t i = Some m"
  by (auto simp: get_mapping_def eff_bind_eq_Inr sql_view_Some row_at_def dest!: select_Inr)

lemma set_mapping_enabled_Inr: "set_mapping_enabled E i en s = (Inr m, t) \<Longrightarrow> sql_view E t i = Some m"
  by (auto simp: set_mapping_enabled_def Let_def eff_bind_eq_Inr intro: get_mapping_Inr)

locale sqlite_env =
  fixes E :: "'e env_ops_scheme"
  assumes times: "time_doc E"
begin

lemma enable_success:
  assumes inv: "sql_invar E s" and en: "set_mapping_enabled E i en s = (Inr m, t)"
  shows "enables i en (sql_view E s) (sql_view E t)"
proof -
  note law = sql_enable_law [OF times inv en]
  show ?thesis
  proof (cases "sql_view E s i")
    case None
    have "sql_view E t i = Some m" using set_mapping_enabled_Inr [OF en] .
    with None law(2) show ?thesis by auto
  qed (use law(3) in auto)
qed

end

sublocale sqlite_env \<subseteq> sql: mapping_store "sql_invar E" "sql_view E" "sql_write E"
proof
  fix s t m i w now en
  assume inv: "sql_invar E s"
  show "sql_invar E (snd (sql_write E w s))"
  proof (cases w)
    case (WInsert m)
    show ?thesis
      by (cases "insert_mapping E m s"; cases "fst (insert_mapping E m s)")
        (use WInsert inv sql_insert_law(1) [OF times inv] in \<open>auto dest: insert_mapping_Inl\<close>)
  next
    case (WUpdate now m)
    show ?thesis
      by (cases "update_mapping E m s"; cases "fst (update_mapping E m s)")
        (use WUpdate inv sql_update_law(1) [OF times inv] in \<open>auto dest: update_mapping_Inl\<close>)
  next
    case (WDelete i)
    show ?thesis
      by (cases "delete_mapping E i s"; cases "fst (delete_mapping E i s)")
        (use WDelete inv sql_delete_law(1) [OF inv] in \<open>auto dest: delete_mapping_Inl\<close>)
  next
    case (WEnable now i en)
    show ?thesis
      by (cases "set_mapping_enabled E i en s")
        (use WEnable sql_enable_law(1) [OF times inv] in auto)
  qed
  show "sql_view E s (m_id m) = None \<and> fits m (sql_view E s) \<and> sql_view E t = (sql_view E s)(m_id m \<mapsto> m)"
    if "sql_write E (WInsert m) s = (True, t)"
    using that sql_insert_law(2-4) [OF times inv] by (auto simp: apfst_res_ok split: if_splits)
  show "sql_view E t = sql_view E s" if "sql_write E (WInsert m) s = (False, t)"
    using that by (auto simp: apfst_res_ok split: if_splits dest: insert_mapping_Inl)
  show "sql_view E s (m_id m) \<noteq> None \<and> fits m (sql_view E s) \<and>
      (\<exists>m'. same_route m m' \<and> enabled m' = enabled m \<and> sql_view E t = (sql_view E s)(m_id m \<mapsto> m'))"
    if "sql_write E (WUpdate now m) s = (True, t)"
    using that sql_update_law(2-4) [OF times inv] by (auto simp: apfst_res_ok split: if_splits)
  show "sql_view E t = sql_view E s" if "sql_write E (WUpdate now m) s = (False, t)"
    using that by (auto simp: apfst_res_ok split: if_splits dest: update_mapping_Inl)
  show "sql_view E s i \<noteq> None \<and> sql_view E t = (sql_view E s)(i := None)"
    if "sql_write E (WDelete i) s = (True, t)"
    using that sql_delete_law(2,3) [OF inv] by (auto simp: apfst_res_ok)
  show "sql_view E t = sql_view E s" if "sql_write E (WDelete i) s = (False, t)"
    using that by (auto simp: apfst_res_ok dest: delete_mapping_Inl)
  show "enables i en (sql_view E s) (sql_view E t)" if "sql_write E (WEnable now i en) s = (True, t)"
    using that enable_success [OF inv] by (auto simp: apfst_res_ok)
  show "sql_view E t = sql_view E s \<or> enables i en (sql_view E s) (sql_view E t)"
    if "sql_write E (WEnable now i en) s = (False, t)"
    using that sql_enable_law(2) [OF times inv] by (auto simp: apfst_res_ok)
qed

interpretation sample_sql: sqlite_env sample_env
  by unfold_locales (rule sample_env_doc)

fun sql_run :: "'e env_ops_scheme \<Rightarrow> store_write list \<Rightarrow> 'w db_scheme \<Rightarrow> 'w db_scheme" where
  "sql_run E [] s = s"
| "sql_run E (w # ws) s = sql_run E ws (snd (sql_write E w s))"

context sqlite_env
begin

lemma sql_run_writes: "sql_run E ws s = sql.writes ws s"
  by (induction ws arbitrary: s) simp_all

lemma run_coherent:
  "sql_invar E s \<Longrightarrow> coherent (sql_view E s) \<Longrightarrow> coherent (sql_view E (sql_run E ws s))"
  unfolding sql_run_writes by (rule sql.writes_coherent)

lemma run_invar: "sql_invar E s \<Longrightarrow> sql_invar E (sql_run E ws s)"
  unfolding sql_run_writes by (rule sql.writes_invar)

end

section \<open>What the checks accept, the constraints accept\<close>

lemma mapping_columns_fields [simp]:
  "r_id (mapping_columns m lc c u) = id_str (m_id m)"
  "r_public_ip (mapping_columns m lc c u) = map_option ip_to_string (public_ip m)"
  "r_edge_private_ip (mapping_columns m lc c u) = ip_to_string (edge_private_ip m)"
  "r_target_ip (mapping_columns m lc c u) = ip_to_string (target_ip m)"
  "r_public_port (mapping_columns m lc c u) = map_option uint (public_port m)"
  "r_protocol (mapping_columns m lc c u) = protocol_wire (m_protocol m)"
  "r_mode (mapping_columns m lc c u) = mode_wire (m_mode m)"
  "r_enabled (mapping_columns m lc c u) = (if enabled m then 1 else 0)"
  by (simp_all add: mapping_columns_def)

lemma conflicts_iff:
  "conflicts a b \<longleftrightarrow> enabled a \<and> enabled b \<and>
     ((m_mode a = OneToOneSnat \<or> m_mode b = OneToOneSnat) \<and> edge_private_ip a = edge_private_ip b \<or>
      m_mode a = OneToOneSnat \<and> m_mode b = OneToOneSnat \<and> target_ip a = target_ip b \<or>
      m_mode a = PortForwardSnat \<and> m_mode b = PortForwardSnat \<and>
        edge_private_ip a = edge_private_ip b \<and> m_protocol a = m_protocol b \<and>
        public_port a = public_port b)"
  by (cases "m_mode a"; cases "m_mode b") (auto simp: conflicts_def)

lemma check_row_complete:
  assumes rows: "\<And>r. r \<in> set rows \<Longrightarrow> r_id r \<noteq> id_str (m_id m) \<and>
      (\<exists>x. row_to_mapping E r = Inr x \<and> admits m x)"
  shows "check_row (mapping_columns m lc c u) rows = Inr ()"
proof -
  let ?new = "mapping_columns m lc c u"
  have row: "r_id r \<noteq> id_str (m_id m) \<and> (\<exists>x. r_enabled r = 1 \<longrightarrow> enabled x \<and> r_edge_private_ip r = ip_to_string (edge_private_ip x) \<and>
      r_target_ip r = ip_to_string (target_ip x) \<and> r_public_ip r = map_option ip_to_string (public_ip x) \<and>
      r_public_port r = map_option uint (public_port x) \<and> r_protocol r = protocol_wire (m_protocol x) \<and>
      r_mode r = mode_wire (m_mode x) \<and> \<not> conflicts m x \<and> \<not> public_clash m x)" if "r \<in> set rows" for r
  proof -
    from rows [OF that] obtain x where x: "row_to_mapping E r = Inr x" "admits m x" by blast
    show ?thesis
      using row_to_mapping_fields [OF x(1)] x(2) rows [OF that]
      by (intro conjI exI [of _ x]) (simp_all add: admits_def compatible_def)
  qed
  have r: "raise_conflict ?new rows = None"
    unfolding raise_conflict_def
    by (cases "enabled m")
      (auto simp: first_check_None list_ex_iff row_on_def ip_option_eq conflicts_iff public_clash_def
        simp del: mode_wire.simps dest!: row)
  have v: "violated_index ?new rows = None"
    unfolding violated_index_def
    by (cases "enabled m")
      (auto simp: first_check_None list_ex_iff row_on_def ip_option_eq uint_option_eq conflicts_iff
        public_clash_def simp del: mode_wire.simps dest!: row)
  show ?thesis by (simp add: check_row_def r v)
qed

lemma row_at_distinct:
  assumes "pairwise_ok rows_apart rows" "r \<in> set rows" shows "row_at rows (r_id r) = Some r"
  using assms by (induction rows) (auto simp: row_at_def rows_apart_def)

lemma fits_rows:
  assumes inv: "sql_invar E s" and ok: "rows_ok (t_mappings s)" and f: "fits m (sql_view E s)"
    and r: "r \<in> set (t_mappings s)" "r_id r \<noteq> id_str (m_id m)"
  shows "\<exists>x. row_to_mapping E r = Inr x \<and> admits m x"
proof -
  from inv r obtain x where x: "row_to_mapping E r = Inr x" "id_str (m_id x) = r_id r"
    by (auto simp: sql_invar_def row_good_def)
  have "row_at (t_mappings s) (r_id r) = Some r" using ok r(1) by (auto simp: rows_ok_def intro: row_at_distinct)
  then have "sql_view E s (m_id x) = Some x" using x by (simp add: sql_view_Some)
  moreover have "m_id x \<noteq> m_id m" using x r by auto
  ultimately show ?thesis using f x(1) by (auto simp: fits_def)
qed

text \<open>Queries that do not fail in the engine.\<close>

lemma select_ok:
  "sql_fault E (tick s) = None \<Longrightarrow>
     query E (select_stmt f) s = (Inr (f (s\<lparr>tick := Suc (tick s)\<rparr>)), s\<lparr>tick := Suc (tick s)\<rparr>)"
  by (simp add: query_def select_stmt_def Let_def)

lemma require_edge_config_ok:
  assumes "\<And>n. sql_fault E n = None" "map_of (t_config s) ''default'' = Some v"
    "config_from_json E v = Inr cfg"
  shows "require_edge_config E s = (Inr cfg, s\<lparr>tick := Suc (tick s)\<rparr>)"
  using assms by (simp add: require_edge_config_def get_edge_config_def select_ok eff_bind_def)

lemma reject_duplicates_complete:
  assumes "\<And>n. sql_fault E n = None"
    and "\<And>r. r \<in> set (t_mappings s) \<Longrightarrow> r_id r \<noteq> id_str (m_id m) \<Longrightarrow>
      \<exists>x. row_to_mapping E r = Inr x \<and> admits m x"
  shows "reject_duplicates E m s = (Inr (), s\<lparr>tick := Suc (tick s)\<rparr>)"
proof -
  have "res_forM (\<lambda>row. res_bind (row_to_mapping E row) (reject_pair m))
      (filter (\<lambda>r. r_id r \<noteq> id_str (m_id m)) (t_mappings s)) = Inr ()"
    using assms(2) by (fastforce simp: reject_pair_ok)
  then show ?thesis using assms(1) by (simp add: reject_duplicates_def select_ok eff_bind_def)
qed

lemma insert_mapping_complete:
  assumes faults: "\<And>n. sql_fault E n = None"
    and cfg: "map_of (t_config s) ''default'' = Some v" "config_from_json E v = Inr cfg"
    and ok: "mapping_ok E cfg m" and row: "insert_values E m = Inr row"
    and inv: "sql_invar E s" "rows_ok (t_mappings s)"
    and fresh: "sql_view E s (m_id m) = None" and f: "fits m (sql_view E s)"
  shows "insert_mapping E m s =
    (Inr (), s\<lparr>tick := tick s + 3, t_mappings := t_mappings s @ [row]\<rparr>)"
proof -
  have none: "r_id r \<noteq> id_str (m_id m)" if "r \<in> set (t_mappings s)" for r
    using fresh row_at_distinct [of "t_mappings s" r] that inv
    by (auto simp: sql_view_None [OF inv(1)] rows_ok_def)
  have adm: "r_id r \<noteq> id_str (m_id m) \<and> (\<exists>x. row_to_mapping E r = Inr x \<and> admits m x)"
    if "r \<in> set (t_mappings s)" for r
    using fits_rows [OF inv f that none [OF that]] none [OF that] by blast
  have "check_row row (t_mappings s) = Inr ()"
    using insert_values_wf(2) [OF row ok] check_row_complete [OF adm] by auto
  moreover have "reject_duplicates E m (s\<lparr>tick := Suc (tick s)\<rparr>) = (Inr (), s\<lparr>tick := Suc (Suc (tick s))\<rparr>)"
    using reject_duplicates_complete [OF faults, of "s\<lparr>tick := Suc (tick s)\<rparr>" m] adm by simp
  ultimately show ?thesis
    using require_edge_config_ok [OF faults cfg] ok [folded validate_mapping_ok] row faults
    by (simp add: insert_mapping_def eff_bind_def query_def insert_mapping_row_def Let_def)
qed

end
