(* ===== verification/Xdp_Plan.thy ===== *)
theory Xdp_Plan
  imports Core_Validation
begin

text \<open>
  \<open>src/crates/edge-xdp/src/lib.rs\<close>: the plan of BPF map entries for the mappings of the XDP
  back end, with the byte layout of keys and values.
\<close>

section \<open>Data\<close>

datatype xdp_error =
    XdpDisabled string
  | XdpConfigError string
  | XdpMapping string string

fun xdp_error_to_string :: "xdp_error \<Rightarrow> string" where
  "xdp_error_to_string (XdpDisabled names) =
     ''XDP mappings are present but XDP is disabled: '' @ names"
| "xdp_error_to_string (XdpConfigError msg) = ''XDP config is invalid: '' @ msg"
| "xdp_error_to_string (XdpMapping i msg) = ''XDP mapping '' @ i @ '' is invalid: '' @ msg"

datatype xdp_attach_mode = Skb | Native

record xdp_config =
  xdp_enabled :: bool
  xdp_interface :: string
  pin_path :: string
  attach_mode :: xdp_attach_mode

definition xdp_config_disabled :: "string \<Rightarrow> xdp_config" where
  "xdp_config_disabled iface =
     \<lparr>xdp_enabled = False, xdp_interface = iface, pin_path = ''/sys/fs/bpf/edgeroute'',
      attach_mode = Skb\<rparr>"

definition xdp_config_enabled :: "string \<Rightarrow> string \<Rightarrow> xdp_config" where
  "xdp_config_enabled iface path =
     \<lparr>xdp_enabled = True, xdp_interface = iface, pin_path = path, attach_mode = Skb\<rparr>"

record xdp_map_key =
  k_edge_private_ip :: ipv4_addr
  k_protocol :: protocol
  k_public_port :: u16

record xdp_map_value =
  v_target_ip :: ipv4_addr
  v_target_port :: u16
  v_flags :: u16

record xdp_forward_entry =
  xe_mapping_id :: string
  xe_name :: string
  xe_key :: xdp_map_key
  xe_value :: xdp_map_value

record xdp_plan =
  plan_interface :: string
  plan_pin_path :: string
  plan_attach_mode :: xdp_attach_mode
  plan_entries :: "xdp_forward_entry list"

definition plan_is_empty :: "xdp_plan \<Rightarrow> bool" where
  "plan_is_empty p \<longleftrightarrow> plan_entries p = []"

section \<open>Bytes\<close>

definition u16_to_be_bytes :: "u16 \<Rightarrow> u8 list" where
  "u16_to_be_bytes w = [ucast (drop_bit 8 w), ucast w]"

definition protocol_number :: "protocol \<Rightarrow> u8" where
  "protocol_number p = (case p of Tcp \<Rightarrow> 6 | Udp \<Rightarrow> 17 | ProtoAll \<Rightarrow> 0)"

text \<open>\<open>bytes[a..b].copy_from_slice(src)\<close> on an array: the slice is replaced in place. It panics
  unless the source has the length of the slice, which it has in both uses.\<close>

definition copy_into :: "nat \<Rightarrow> u8 list \<Rightarrow> u8 list \<Rightarrow> u8 list" where
  "copy_into a src bytes = take a bytes @ src @ drop (a + length src) bytes"

definition key_bytes :: "xdp_map_key \<Rightarrow> u8 list" where
  "key_bytes k =
     (let b0 = replicate 8 0;
          b1 = copy_into 0 (octets (k_edge_private_ip k)) b0;
          b2 = copy_into 4 (u16_to_be_bytes (k_public_port k)) b1
      in b2[6 := protocol_number (k_protocol k)])"

definition value_bytes :: "xdp_map_value \<Rightarrow> u8 list" where
  "value_bytes v =
     (let b0 = replicate 8 0;
          b1 = copy_into 0 (octets (v_target_ip v)) b0;
          b2 = copy_into 4 (u16_to_be_bytes (v_target_port v)) b1
      in copy_into 6 (u16_to_be_bytes (v_flags v)) b2)"

section \<open>Planning\<close>

definition xdp_validate_config :: "xdp_config \<Rightarrow> (xdp_error, unit) result" where
  "xdp_validate_config c =
     (if \<not> xdp_enabled c then Inr ()
      else if trim (xdp_interface c) = [] then Inl (XdpConfigError ''interface cannot be empty'')
      else if pin_path c = [] then Inl (XdpConfigError ''pin_path cannot be empty'')
      else if hd (pin_path c) \<noteq> CHR ''/'' then Inl (XdpConfigError ''pin_path must be absolute'')
      else Inr ())"

definition plan_entry ::
  "'a ipnet_ops_scheme \<Rightarrow> mapping \<Rightarrow> edge_config \<Rightarrow> (xdp_error, xdp_forward_entry) result" where
  "plan_entry N m cfg =
     (let bad = (\<lambda>msg. XdpMapping (id_str (m_id m)) msg)
      in if m_mode m \<noteq> PortForwardSnat
         then Inl (bad ''only port-forward mappings can use XDP'')
         else if m_protocol m = ProtoAll then Inl (bad ''XDP mappings must be tcp or udp'')
         else
           res_bind (ok_or (bad ''XDP mappings require public_port'') (public_port m)) (\<lambda>pport.
           res_bind (ok_or (bad ''XDP mappings require target_port'') (target_port m)) (\<lambda>tport.
           if \<not> contains_target N cfg (target_ip m)
           then Inl (bad (''target IP is outside configured target CIDRs: '' @
                         ip_to_string (target_ip m)))
           else Inr
             \<lparr>xe_mapping_id = id_str (m_id m), xe_name = m_name m,
              xe_key = \<lparr>k_edge_private_ip = edge_private_ip m, k_protocol = m_protocol m,
                        k_public_port = pport\<rparr>,
              xe_value = \<lparr>v_target_ip = target_ip m, v_target_port = tport, v_flags = 0\<rparr>\<rparr>)))"

definition is_xdp :: "mapping \<Rightarrow> bool" where
  "is_xdp m \<longleftrightarrow> enabled m \<and> m_backend m = Xdp"

definition xdp_plan_of ::
  "'a ipnet_ops_scheme \<Rightarrow> xdp_config \<Rightarrow> mapping list \<Rightarrow> edge_config \<Rightarrow> (xdp_error, xdp_plan) result"
  where
  "xdp_plan_of N c ms cfg =
     res_bind (xdp_validate_config c) (\<lambda>_.
     let xdp_mappings = filter is_xdp ms
     in if \<not> xdp_enabled c \<and> xdp_mappings \<noteq> []
        then Inl (XdpDisabled (intercalate '','' (map m_name xdp_mappings)))
        else res_bind (res_mapM (\<lambda>m. plan_entry N m cfg) xdp_mappings) (\<lambda>entries.
          Inr \<lparr>plan_interface = xdp_interface c, plan_pin_path = pin_path c,
               plan_attach_mode = attach_mode c, plan_entries = entries\<rparr>))"

section \<open>Lemmas\<close>

lemma u16_be_inj: "u16_to_be_bytes p = u16_to_be_bytes q \<longleftrightarrow> p = q"
proof
  assume *: "u16_to_be_bytes p = u16_to_be_bytes q"
  show "p = q"
  proof (rule bit_word_eqI)
    fix n
    assume "n < LENGTH(16)"
    then have n: "n < 16" by simp
    from * have hi: "(ucast (drop_bit 8 p) :: u8) = ucast (drop_bit 8 q)"
      and lo: "(ucast p :: u8) = ucast q" by (simp_all add: u16_to_be_bytes_def)
    show "bit p n \<longleftrightarrow> bit q n"
    proof (cases "n < 8")
      case True
      have "bit (ucast p :: u8) n \<longleftrightarrow> bit (ucast q :: u8) n" using lo by simp
      then show ?thesis using True n by (simp add: bit_ucast_iff)
    next
      case False
      have "bit (ucast (drop_bit 8 p) :: u8) (n - 8) \<longleftrightarrow> bit (ucast (drop_bit 8 q) :: u8) (n - 8)"
        using hi by simp
      moreover have "n - 8 < 8" using False n by simp
      ultimately show ?thesis using False n by (simp add: bit_ucast_iff bit_drop_bit_eq)
    qed
  qed
qed simp

lemma key_bytes_eq:
  "key_bytes k =
     octets (k_edge_private_ip k) @ u16_to_be_bytes (k_public_port k) @
     [protocol_number (k_protocol k), 0]"
  by (simp add: key_bytes_def copy_into_def octets_def u16_to_be_bytes_def Let_def numeral_eq_Suc)

lemma value_bytes_eq:
  "value_bytes v =
     octets (v_target_ip v) @ u16_to_be_bytes (v_target_port v) @ u16_to_be_bytes (v_flags v)"
  by (simp add: value_bytes_def copy_into_def octets_def u16_to_be_bytes_def Let_def numeral_eq_Suc)

lemma protocol_number_inj: "protocol_number p = protocol_number q \<longleftrightarrow> p = q"
  by (cases p; cases q) (simp_all add: protocol_number_def)

lemma octets_inj: "octets x = octets y \<longleftrightarrow> x = y"
  by (cases x; cases y) (simp add: octets_def)

lemma length_octets [simp]: "length (octets x) = 4" "length (u16_to_be_bytes w) = 2"
  by (simp_all add: octets_def u16_to_be_bytes_def)

definition xdp_entry :: "mapping \<Rightarrow> xdp_forward_entry" where
  "xdp_entry m =
     \<lparr>xe_mapping_id = id_str (m_id m), xe_name = m_name m,
      xe_key = \<lparr>k_edge_private_ip = edge_private_ip m, k_protocol = m_protocol m,
                k_public_port = the (public_port m)\<rparr>,
      xe_value = \<lparr>v_target_ip = target_ip m, v_target_port = the (target_port m), v_flags = 0\<rparr>\<rparr>"

lemma xdp_mapping_ports:
  assumes "mapping_ok N cfg m" "m_backend m = Xdp"
  obtains p q where "m_mode m = PortForwardSnat" "public_port m = Some p" "target_port m = Some q"
    "m_protocol m \<noteq> ProtoAll"
  using assms by (auto simp: mapping_ok_def backend_ok_def ports_ok_def)

lemma plan_entry_ok:
  assumes ok: "mapping_ok N cfg m" and xdp: "m_backend m = Xdp"
  shows "plan_entry N m cfg = Inr (xdp_entry m)"
proof -
  have "contains_target N cfg (target_ip m)"
    using ok by (auto simp: mapping_ok_def target_ok_def contains_target_def list_ex_iff
        dest: find_SomeD)
  then show ?thesis
    by (cases rule: xdp_mapping_ports [OF ok xdp]) (simp add: plan_entry_def xdp_entry_def)
qed

lemma plan_ok:
  assumes "validate_mappings N ms cfg = Inr ()" and "xdp_validate_config c = Inr ()"
    and "xdp_enabled c \<or> filter is_xdp ms = []"
  shows "xdp_plan_of N c ms cfg =
    Inr \<lparr>plan_interface = xdp_interface c, plan_pin_path = pin_path c,
         plan_attach_mode = attach_mode c, plan_entries = map xdp_entry (filter is_xdp ms)\<rparr>"
proof -
  have "res_mapM (\<lambda>m. plan_entry N m cfg) (filter is_xdp ms) = Inr (map xdp_entry (filter is_xdp ms))"
    by (rule res_mapM_eq_map, rule plan_entry_ok)
      (use assms(1) in \<open>auto simp: validate_mappings_ok is_xdp_def\<close>)
  then show ?thesis using assms(2,3) by (auto simp: xdp_plan_of_def)
qed

lemma key_bytes_inj: "key_bytes j = key_bytes k \<longleftrightarrow> j = k"
  by (simp add: key_bytes_eq octets_inj u16_be_inj protocol_number_inj)
    (auto intro: xdp_map_key.equality)

lemma value_bytes_inj: "value_bytes v = value_bytes w \<longleftrightarrow> v = w"
  by (simp add: value_bytes_eq octets_inj u16_be_inj) (auto intro: xdp_map_value.equality)

lemma xdp_keys_distinct:
  assumes "validate_mappings N ms cfg = Inr ()"
  shows "distinct (map (\<lambda>m. key_bytes (xe_key (xdp_entry m))) (filter is_xdp ms))"
proof -
  have ok: "pairwise_ok compatible ms" and each: "\<forall>m\<in>set ms. mapping_ok N cfg m"
    using assms by (simp_all add: validate_mappings_ok)
  have "xe_key (xdp_entry a) \<noteq> xe_key (xdp_entry b)"
    if "a \<in> set (filter is_xdp ms)" "b \<in> set (filter is_xdp ms)" "compatible a b" for a b
  proof -
    from that each have "m_mode a = PortForwardSnat" "m_mode b = PortForwardSnat"
      "public_port a \<noteq> None" "public_port b \<noteq> None" "enabled a" "enabled b"
      by (auto simp: is_xdp_def elim!: xdp_mapping_ports)
    with that(3) show ?thesis by (auto simp: compatible_def conflicts_def xdp_entry_def)
  qed
  then have "pairwise_ok (\<lambda>a b. key_bytes (xe_key (xdp_entry a)) \<noteq> key_bytes (xe_key (xdp_entry b)))
      (filter is_xdp ms)"
    using pairwise_ok_mono [OF pairwise_ok_filter [OF ok, of is_xdp]] by (simp add: key_bytes_inj)
  then show ?thesis by (rule pairwise_neq_distinct)
qed

section \<open>Properties\<close>

text \<open>C39. The byte layout of the BPF map is unambiguous: keys and values are exactly eight bytes,
  and two keys, or two values, have the same bytes only if they are equal.\<close>

theorem xdp_bytes_layout:
  "length (key_bytes k) = 8 \<and> length (value_bytes v) = 8 \<and>
   (key_bytes j = key_bytes k \<longleftrightarrow> j = k) \<and> (value_bytes v = value_bytes w \<longleftrightarrow> v = w)"
  by (simp add: key_bytes_inj value_bytes_inj) (simp add: key_bytes_eq value_bytes_eq)

text \<open>C37. For mappings that pass \<open>validate_mappings\<close> and a valid, enabled XDP configuration, the
  plan never fails: it has exactly one entry per enabled mapping of the XDP back end, in list
  order, with the addresses and ports of that mapping and flags 0, and no two entries have the
  same key bytes, so no entry overwrites another in the BPF map.\<close>

theorem xdp_plan_complete:
  assumes "validate_mappings N ms cfg = Inr ()" and "xdp_validate_config c = Inr ()"
    and "xdp_enabled c"
  shows "\<exists>p. xdp_plan_of N c ms cfg = Inr p \<and>
    map (\<lambda>e. (xe_mapping_id e, k_edge_private_ip (xe_key e), k_protocol (xe_key e),
               Some (k_public_port (xe_key e)), v_target_ip (xe_value e),
               Some (v_target_port (xe_value e)), v_flags (xe_value e))) (plan_entries p) =
    map (\<lambda>m. (id_str (m_id m), edge_private_ip m, m_protocol m, public_port m, target_ip m,
               target_port m, 0)) (filter is_xdp ms) \<and>
    distinct (map (key_bytes \<circ> xe_key) (plan_entries p))"
proof -
  have "Some (the (public_port m)) = public_port m \<and> Some (the (target_port m)) = target_port m"
    if "m \<in> set (filter is_xdp ms)" for m
    using that assms(1) by (auto simp: validate_mappings_ok is_xdp_def elim!: xdp_mapping_ports)
  then show ?thesis
    using plan_ok [OF assms(1,2)] xdp_keys_distinct [OF assms(1)] assms(3)
    by (simp add: comp_def xdp_entry_def)
qed

theorem xdp_plan_complete_witness:
  "\<exists>p. xdp_plan_of cidr_ops (xdp_config_enabled ''ens3'' ''/sys/fs/bpf/edgeroute'')
         [sample_tcp\<lparr>m_backend := Xdp\<rparr>, sample_udp] sample_config = Inr p \<and>
       length (plan_entries p) = 1"
proof -
  let ?ms = "[sample_tcp\<lparr>m_backend := Xdp\<rparr>, sample_udp]"
  have ok: "mapping_ok cidr_ops sample_config (sample_tcp\<lparr>m_backend := Xdp\<rparr>)"
    using sample_ok(2) by (simp add: mapping_ok_def backend_ok_def ports_ok_def sample_defs)
  have "compatible (sample_tcp\<lparr>m_backend := Xdp\<rparr>) sample_udp"
    by (simp add: compatible_def conflicts_def public_clash_def sample_defs)
  with ok have v: "validate_mappings cidr_ops ?ms sample_config = Inr ()"
    by (simp add: validate_mappings_ok sample_ok)
  have c: "xdp_validate_config (xdp_config_enabled ''ens3'' ''/sys/fs/bpf/edgeroute'') = Inr ()"
    "xdp_enabled (xdp_config_enabled ''ens3'' ''/sys/fs/bpf/edgeroute'')"
    by (simp_all add: xdp_validate_config_def xdp_config_enabled_def)
  have f: "filter is_xdp ?ms = [sample_tcp\<lparr>m_backend := Xdp\<rparr>]" by (simp add: is_xdp_def sample_defs)
  from xdp_plan_complete [OF v c] show ?thesis unfolding f by (elim exE) (auto dest: map_eq_imp_length_eq)
qed

text \<open>With XDP disabled the plan is refused as soon as one enabled mapping asks for the XDP
  back end, and the error lists exactly those mappings; otherwise the plan is empty.\<close>

theorem xdp_disabled_plan:
  assumes "\<not> xdp_enabled c"
  shows "xdp_plan_of N c ms cfg =
    (if \<exists>m\<in>set ms. enabled m \<and> m_backend m = Xdp
     then Inl (XdpDisabled (intercalate '','' (map m_name (filter is_xdp ms))))
     else Inr \<lparr>plan_interface = xdp_interface c, plan_pin_path = pin_path c,
               plan_attach_mode = attach_mode c, plan_entries = []\<rparr>)"
proof -
  have "filter is_xdp ms \<noteq> [] \<longleftrightarrow> (\<exists>m\<in>set ms. enabled m \<and> m_backend m = Xdp)"
    by (auto simp: filter_empty_conv is_xdp_def)
  then show ?thesis
    using assms
    by (cases "filter is_xdp ms = []") (auto simp: xdp_plan_of_def xdp_validate_config_def Let_def)
qed

theorem xdp_disabled_plan_witness:
  "xdp_plan_of cidr_ops (xdp_config_disabled ''ens3'') [sample_tcp\<lparr>m_backend := Xdp\<rparr>] sample_config =
     Inl (XdpDisabled ''mysql'')"
proof -
  have "\<not> xdp_enabled (xdp_config_disabled ''ens3'')" by (simp add: xdp_config_disabled_def)
  from xdp_disabled_plan [OF this, of cidr_ops "[sample_tcp\<lparr>m_backend := Xdp\<rparr>]" sample_config]
  show ?thesis by (simp add: is_xdp_def) (simp add: sample_defs)
qed

end
