(* ===== verification/Nft_Render.thy ===== *)
theory Nft_Render
  imports Core_Validation
begin

text \<open>
  \<open>src/crates/edge-nft/src/render.rs\<close>: the nftables script for a list of mappings. The text is
  built piece by piece as the code pushes it; \<open>expect\<close> and \<open>unreachable!\<close> are the \<open>Panic\<close>
  branches, which \<open>render_nftables_total\<close> shows are never taken.
\<close>

section \<open>The renderer\<close>

abbreviation nl :: string where
  "nl \<equiv> [CHR 0x0A]"

abbreviation dq :: string where
  "dq \<equiv> [CHR 0x22]"

definition default_table_name :: string where
  "default_table_name = ''edge_nat''"

definition nft_protocol :: "protocol \<Rightarrow> (edge_core_error failure, string) result" where
  "nft_protocol p =
     (case p of
        Tcp \<Rightarrow> Inr ''tcp''
      | Udp \<Rightarrow> Inr ''udp''
      | ProtoAll \<Rightarrow> Inl (Panic ''port-forward mappings cannot use protocol=all''))"

definition is_nft_one_to_one :: "mapping \<Rightarrow> bool" where
  "is_nft_one_to_one m \<longleftrightarrow> enabled m \<and> m_backend m = Nft \<and> m_mode m = OneToOneSnat"

definition is_nft_port_forward :: "mapping \<Rightarrow> bool" where
  "is_nft_port_forward m \<longleftrightarrow> enabled m \<and> m_backend m = Nft \<and> m_mode m = PortForwardSnat"

definition render_element :: "mapping \<Rightarrow> string" where
  "render_element m =
     ''            '' @ ip_to_string (edge_private_ip m) @ '' : '' @ ip_to_string (target_ip m) @
     '','' @ nl"

definition render_forward ::
  "edge_config \<Rightarrow> mapping \<Rightarrow> (edge_core_error failure, string) result" where
  "render_forward cfg m =
     res_bind (nft_protocol (m_protocol m)) (\<lambda>proto.
     res_bind (ok_or (Panic ''validated public_port'') (public_port m)) (\<lambda>pport.
     res_bind (ok_or (Panic ''validated target_port'') (target_port m)) (\<lambda>tport.
     Inr (''        iifname '' @ dq @ wan_interface cfg @ dq @ '' ip daddr '' @
          ip_to_string (edge_private_ip m) @ '' '' @ proto @ '' dport '' @ show_u16 pport @
          '' dnat to '' @ ip_to_string (target_ip m) @ '':'' @ show_u16 tport @ nl))))"

definition render_masquerade :: "'a ipnet_ops_scheme \<Rightarrow> edge_config \<Rightarrow> ipv4_net \<Rightarrow> string" where
  "render_masquerade N cfg cidr =
     ''        oifname '' @ dq @ netbird_interface cfg @ dq @ '' ip daddr '' @ net_to_string N cidr @
     '' masquerade'' @ nl"

definition render_nftables ::
  "'a ipnet_ops_scheme \<Rightarrow> mapping list \<Rightarrow> edge_config \<Rightarrow> string \<Rightarrow>
     (edge_core_error failure, string) result" where
  "render_nftables N ms cfg table =
     res_bind (map_err Fail (validate_mappings N ms cfg)) (\<lambda>_.
     let one_to_one = filter is_nft_one_to_one ms;
         port_forwards = filter is_nft_port_forward ms
     in res_bind (res_mapM (render_forward cfg) port_forwards) (\<lambda>forwards.
     Inr (''destroy table ip '' @ table @ nl @ nl @
          ''table ip '' @ table @ '' {'' @ nl @
          ''    map edge_to_target {'' @ nl @
          ''        type ipv4_addr : ipv4_addr;'' @ nl @
          ''        elements = {'' @ nl @
          concat (map render_element one_to_one) @
          ''        }'' @ nl @
          ''    }'' @ nl @ nl @
          ''    chain prerouting {'' @ nl @
          ''        type nat hook prerouting priority dstnat; policy accept;'' @ nl @ nl @
          concat forwards @
          (if \<not> list_ex is_nft_one_to_one ms then nl else []) @
          ''        dnat to ip daddr map @edge_to_target'' @ nl @
          ''    }'' @ nl @ nl @
          ''    chain postrouting {'' @ nl @
          ''        type nat hook postrouting priority srcnat; policy accept;'' @ nl @ nl @
          concat (map (render_masquerade N cfg) (target_cidrs cfg)) @
          ''    }'' @ nl @
          ''}'' @ nl)))"

section \<open>The script as a list of lines\<close>

text \<open>The same text line by line, for the proofs; what it means to \<open>nft\<close> is in \<open>Nft_Semantics\<close>.\<close>

definition element_line :: "mapping \<Rightarrow> string" where
  "element_line m =
     ''            '' @ ip_to_string (edge_private_ip m) @ '' : '' @ ip_to_string (target_ip m) @ '',''"

definition forward_line :: "edge_config \<Rightarrow> mapping \<Rightarrow> string" where
  "forward_line cfg m =
     ''        iifname '' @ dq @ wan_interface cfg @ dq @ '' ip daddr '' @
     ip_to_string (edge_private_ip m) @ '' '' @ protocol_wire (m_protocol m) @ '' dport '' @
     show_u16 (the (public_port m)) @ '' dnat to '' @ ip_to_string (target_ip m) @ '':'' @
     show_u16 (the (target_port m))"

definition masquerade_line :: "'a ipnet_ops_scheme \<Rightarrow> edge_config \<Rightarrow> ipv4_net \<Rightarrow> string" where
  "masquerade_line N cfg cidr =
     ''        oifname '' @ dq @ netbird_interface cfg @ dq @ '' ip daddr '' @ net_to_string N cidr @
     '' masquerade''"

definition nft_script ::
  "'a ipnet_ops_scheme \<Rightarrow> mapping list \<Rightarrow> edge_config \<Rightarrow> string \<Rightarrow> string list" where
  "nft_script N ms cfg table =
     [''destroy table ip '' @ table, [], ''table ip '' @ table @ '' {'',
      ''    map edge_to_target {'', ''        type ipv4_addr : ipv4_addr;'', ''        elements = {''] @
     map element_line (filter is_nft_one_to_one ms) @
     [''        }'', ''    }'', [], ''    chain prerouting {'',
      ''        type nat hook prerouting priority dstnat; policy accept;'', []] @
     map (forward_line cfg) (filter is_nft_port_forward ms) @
     (if list_ex is_nft_one_to_one ms then [] else [[]]) @
     [''        dnat to ip daddr map @edge_to_target'', ''    }'', [], ''    chain postrouting {'',
      ''        type nat hook postrouting priority srcnat; policy accept;'', []] @
     map (masquerade_line N cfg) (target_cidrs cfg) @
     [''    }'', ''}'']"

definition terminated :: "string list \<Rightarrow> string" where
  "terminated ls = concat (map (\<lambda>l. l @ nl) ls)"

lemma terminated_simps [simp]:
  "terminated [] = []" "terminated (l # ls) = l @ nl @ terminated ls"
  "terminated (ls @ ls') = terminated ls @ terminated ls'"
  by (simp_all add: terminated_def)

lemma split_terminated:
  "\<forall>l\<in>set ls. CHR 0x0A \<notin> set l \<Longrightarrow> split_on (CHR 0x0A) (terminated ls) = ls @ [[]]"
  by (induction ls) (simp_all add: split_on_append)

lemma terminated_map:
  "concat (map render_element ms) = terminated (map element_line ms)"
  "concat (map (render_masquerade N cfg) cidrs) = terminated (map (masquerade_line N cfg) cidrs)"
  "concat (map (\<lambda>m. forward_line cfg m @ nl) ms) = terminated (map (forward_line cfg) ms)"
proof -
  show "concat (map render_element ms) = terminated (map element_line ms)"
    by (induction ms) (simp_all add: render_element_def element_line_def)
  show "concat (map (render_masquerade N cfg) cidrs) = terminated (map (masquerade_line N cfg) cidrs)"
    by (induction cidrs) (simp_all add: render_masquerade_def masquerade_line_def)
  show "concat (map (\<lambda>m. forward_line cfg m @ nl) ms) = terminated (map (forward_line cfg) ms)"
    by (induction ms) simp_all
qed

lemma render_forward_ok:
  assumes "mapping_ok N cfg' m" "is_nft_port_forward m"
  shows "render_forward cfg m = Inr (forward_line cfg m @ nl)"
proof -
  from assms obtain p q where "public_port m = Some p" "target_port m = Some q"
    "m_protocol m \<noteq> ProtoAll"
    by (auto simp: mapping_ok_def ports_ok_def is_nft_port_forward_def)
  then show ?thesis
    by (cases "m_protocol m") (simp_all add: render_forward_def nft_protocol_def forward_line_def)
qed

lemma render_nftables_eq:
  "render_nftables N ms cfg table =
     res_bind (map_err Fail (validate_mappings N ms cfg))
       (\<lambda>_. Inr (terminated (nft_script N ms cfg table)))"
proof (cases "validate_mappings N ms cfg")
  case (Inr u)
  then have "\<forall>m\<in>set ms. mapping_ok N cfg m" by (simp add: validate_mappings_ok)
  then have "res_mapM (render_forward cfg) (filter is_nft_port_forward ms) =
      Inr (map (\<lambda>m. forward_line cfg m @ nl) (filter is_nft_port_forward ms))"
    by (intro res_mapM_eq_map) (auto intro: render_forward_ok)
  then show ?thesis
    by (simp add: render_nftables_def Inr Let_def terminated_map nft_script_def)
qed (simp add: render_nftables_def)

lemma no_newline:
  "CHR 0x0A \<notin> set (ip_to_string ip)" "CHR 0x0A \<notin> set (show_u16 p)"
  "CHR 0x0A \<notin> set (protocol_wire pr)"
  by (simp_all add: ip_to_string_def show_octet_def show_u16_def digit_neq) (cases pr; simp)

section \<open>Properties\<close>

text \<open>Rendering never panics: it fails exactly with the error of \<open>validate_mappings\<close>, and
  otherwise returns a script; the \<open>expect\<close> and \<open>unreachable!\<close> calls on ports and protocol are
  dead code behind that check.\<close>

theorem render_nftables_total:
  "render_nftables N ms cfg table =
     (case validate_mappings N ms cfg of
        Inl e \<Rightarrow> Inl (Fail e)
      | Inr _ \<Rightarrow> Inr (terminated (nft_script N ms cfg table)))"
  by (simp add: render_nftables_eq split: sum.split)

text \<open>The lines of the text, when no name contains a line break.\<close>

lemma render_nftables_lines:
  assumes "render_nftables N ms cfg table = Inr out"
    and "CHR 0x0A \<notin> set table" "CHR 0x0A \<notin> set (wan_interface cfg)"
    and "CHR 0x0A \<notin> set (netbird_interface cfg)"
    and "\<forall>cidr\<in>set (target_cidrs cfg). CHR 0x0A \<notin> set (net_to_string N cidr)"
  shows "split_on (CHR 0x0A) out = nft_script N ms cfg table @ [[]]"
proof -
  have out: "out = terminated (nft_script N ms cfg table)"
    using assms(1) by (auto simp: render_nftables_eq)
  show ?thesis
    unfolding out
    by (rule split_terminated)
      (use assms(2-5) in \<open>auto simp: nft_script_def element_line_def forward_line_def
         masquerade_line_def no_newline\<close>)
qed

end
