(* ===== verification/Host.thy ===== *)
theory Host
  imports Sqlite_Store Xdp_Plan Nft_Render
begin

text \<open>
  The machine the reconciler works on, as the program sees it: the database, the files, a history of
  the commands it ran, and everything else (interfaces, firewall) as an opaque state \<open>'h\<close> that
  commands change. \<open>host_env\<close> adds to the environment what processes, sockets and the file system
  answer; like the rest of the environment these are parameters.

  Every external call is one step of the counter \<open>tick\<close>. The history \<open>trace\<close> records each command
  with the files it could read, so that properties can speak about the order of commands.
\<close>

section \<open>Commands\<close>

datatype cmd_outcome =
    TimedOut
  | SpawnFailed string
  | Exited (exit_code: "int option") (cmd_stdout: string) (cmd_stderr: string)

datatype connect_outcome =
    ConnectTimeout
  | ConnectFailed string
  | Connected

datatype action = Ran (ran_program: string) (ran_args: "string list")
  (ran_files: "string \<Rightarrow> string option") (ran_outcome: cmd_outcome)

record 'h host_env = env_ops +
  run_cmd :: "nat \<Rightarrow> 'h \<Rightarrow> string \<Rightarrow> string list \<Rightarrow> cmd_outcome \<times> 'h"
  tcp_connect :: "nat \<Rightarrow> ipv4_addr \<Rightarrow> u16 \<Rightarrow> connect_outcome"
  io_fault :: "nat \<Rightarrow> string option"
  io_partial :: "nat \<Rightarrow> nat"

record 'h world = db +
  files :: "string \<Rightarrow> string option"
  hstate :: 'h
  trace :: "action list"

definition command :: "('h, 'e) host_env_scheme \<Rightarrow> string \<Rightarrow> string list \<Rightarrow> (('h, 'w) world_scheme, 'f, cmd_outcome) eff" where
  "command E prog args s =
     (case run_cmd E (tick s) (hstate s) prog args of
        (out, h) \<Rightarrow>
          (Inr out, s\<lparr>tick := Suc (tick s), hstate := h,
                     trace := trace s @ [Ran prog args (files s) out]\<rparr>))"

definition connect :: "('h, 'e) host_env_scheme \<Rightarrow> ipv4_addr \<Rightarrow> u16 \<Rightarrow> (('h, 'w) world_scheme, 'f, connect_outcome) eff" where
  "connect E ip port s = (Inr (tcp_connect E (tick s) ip port), s\<lparr>tick := Suc (tick s)\<rparr>)"

definition fresh_uuid :: "'e env_ops_scheme \<Rightarrow> ('w db_scheme, 'f, string) eff" where
  "fresh_uuid E s = (Inr (uuid_v4 E (tick s)), s\<lparr>tick := Suc (tick s)\<rparr>)"

text \<open>\<open>is_success\<close> and \<open>error_message\<close>, which the three crates that run commands share:
  \<open>edge-linux\<close>, \<open>edge-nft\<close> and \<open>edge-netbird\<close>. \<open>{:?}\<close> prints the exit code with its constructor.\<close>

definition is_success :: "int option \<Rightarrow> bool" where
  "is_success status \<longleftrightarrow> status = Some 0"

definition show_status :: "int option \<Rightarrow> string" where
  "show_status status = (case status of None \<Rightarrow> ''None'' | Some c \<Rightarrow> ''Some('' @ show_int c @ '')'')"

definition error_message :: "int option \<Rightarrow> string \<Rightarrow> string" where
  "error_message status stderr =
     (let t = trim stderr in if t = [] then ''exit status '' @ show_status status else t)"

section \<open>Lines and words\<close>

text \<open>\<open>str::lines\<close>: split at line feeds, without a final empty line, each line without its trailing
  carriage return.\<close>

definition strip_cr :: "string \<Rightarrow> string" where
  "strip_cr l = (if l \<noteq> [] \<and> last l = CHR 0x0D then butlast l else l)"

definition str_lines :: "string \<Rightarrow> string list" where
  "str_lines s =
     (let ps = split_on CHR 0x0A s
      in map strip_cr (if last ps = [] then butlast ps else ps))"

text \<open>\<open>str::split_whitespace\<close>: the maximal pieces without white space.\<close>

function take_word :: "string \<Rightarrow> string \<times> string" where
  "take_word s =
     (case s of
        [] \<Rightarrow> ([], [])
      | c # cs \<Rightarrow> (if ws_head s \<noteq> None then ([], s)
                   else (case take_word cs of (w, r) \<Rightarrow> (c # w, r))))"
  by auto
termination by (relation "measure length") auto

declare take_word.simps [simp del]

lemma take_word_length: "length (snd (take_word s)) \<le> length s"
  by (induction s rule: take_word.induct) (subst take_word.simps, auto split: list.splits prod.splits)

lemma trim_start_length: "length (trim_start s) \<le> length s"
proof (induction s rule: trim_start.induct)
  case (1 s)
  then show ?case by (cases "ws_head s") (auto simp: trim_start.simps [of s] intro: le_trans)
qed

function split_whitespace :: "string \<Rightarrow> string list" where
  "split_whitespace s =
     (case trim_start s of
        [] \<Rightarrow> []
      | c # cs \<Rightarrow> (case take_word cs of (w, r) \<Rightarrow> (c # w) # split_whitespace r))"
  by auto
termination
proof (relation "measure length")
  fix s c cs w r
  assume t: "trim_start s = c # cs" and x: "(w, r) = take_word cs"
  have "length r \<le> length cs" using take_word_length [of cs] x by (metis snd_conv)
  also have "\<dots> < length (trim_start s)" using t by simp
  also have "\<dots> \<le> length s" by (rule trim_start_length)
  finally show "(r, s) \<in> measure length" by simp
qed simp

declare split_whitespace.simps [simp del]

definition split_once :: "char \<Rightarrow> string \<Rightarrow> (string \<times> string) option" where
  "split_once c s =
     (if c \<in> set s then Some (takeWhile (\<lambda>x. x \<noteq> c) s, tl (dropWhile (\<lambda>x. x \<noteq> c) s)) else None)"

end
