(* ===== verification/Linux_Addr.thy ===== *)
theory Linux_Addr
  imports Host
begin

text \<open>
  \<open>src/crates/edge-linux/src/lib.rs\<close>: addresses of an interface through the \<open>ip\<close> tool, and
  \<open>src/crates/edge-nft/src/apply.rs\<close>: checking and applying a script through \<open>nft\<close>.

  What the \<open>ip\<close> tool does to the machine is not part of the repository: the locale \<open>ip_tool\<close> states
  what is documented of it, in terms of an abstraction \<open>addrs\<close> from the machine's state to the
  addresses of its interfaces, and the lemmas in it are what \<open>ensure_addr\<close> and
  \<open>delete_addr_if_present\<close> then guarantee. It is interpreted on a sample machine whose \<open>ip\<close>
  prints addresses the way iproute2 does, so that the code's own \<open>ensure_addr\<close> and
  \<open>delete_addr_if_present\<close> run on it.

  A \<open>Duration\<close> is the text its \<open>Debug\<close> output prints; when a command exceeds it is up to the
  environment.
\<close>

section \<open>The ip tool\<close>

datatype linux_error =
    LinuxTimeout string
  | LinuxCommand string
  | LinuxIo string

fun linux_error_to_string :: "linux_error \<Rightarrow> string" where
  "linux_error_to_string (LinuxTimeout d) = ''linux command timed out after '' @ d"
| "linux_error_to_string (LinuxCommand msg) = ''linux command failed: '' @ msg"
| "linux_error_to_string (LinuxIo msg) = ''linux process failed: '' @ msg"

record linux =
  linux_ip :: string
  linux_timeout :: string

definition linux_default :: linux where
  "linux_default = \<lparr>linux_ip = ''ip'', linux_timeout = ''5s''\<rparr>"

definition parse_ipv4_addresses :: "string \<Rightarrow> ipv4_addr list" where
  "parse_ipv4_addresses output =
     List.map_filter parse_ipv4
       (List.map_filter (\<lambda>cidr. case split_once CHR ''/'' cidr of Some (ip, _) \<Rightarrow> Some ip | None \<Rightarrow> Some cidr)
         (List.map_filter (\<lambda>rest. case split_whitespace rest of [] \<Rightarrow> None | w # _ \<Rightarrow> Some w)
           (List.map_filter (\<lambda>line. strip_prefix ''inet '' (trim line)) (str_lines output))))"

type_synonym ('h, 'w, 'a) linux_eff = "(('h, 'w) world_scheme, linux_error, 'a) eff"

definition linux_run_owned :: "('h, 'e) host_env_scheme \<Rightarrow> linux \<Rightarrow> string list \<Rightarrow> ('h, 'w, string) linux_eff" where
  "linux_run_owned E L args =
     eff_bind (command E (linux_ip L) args) (\<lambda>out.
     case out of
       TimedOut \<Rightarrow> eff_err (LinuxTimeout (linux_timeout L))
     | SpawnFailed msg \<Rightarrow> eff_err (LinuxIo msg)
     | Exited status stdout stderr \<Rightarrow>
         if \<not> is_success status then eff_err (LinuxCommand (error_message status stderr))
         else eff_ret stdout)"

definition interface_addresses :: "('h, 'e) host_env_scheme \<Rightarrow> linux \<Rightarrow> string \<Rightarrow> ('h, 'w, ipv4_addr list) linux_eff" where
  "interface_addresses E L iface =
     eff_bind (linux_run_owned E L [''-4'', ''addr'', ''show'', ''dev'', iface]) (\<lambda>stdout.
     eff_ret (parse_ipv4_addresses stdout))"

definition ensure_addr :: "('h, 'e) host_env_scheme \<Rightarrow> linux \<Rightarrow> string \<Rightarrow> ipv4_addr \<Rightarrow> ('h, 'w, bool) linux_eff" where
  "ensure_addr E L iface addr =
     eff_bind (interface_addresses E L iface) (\<lambda>existing.
     if addr \<in> set existing then eff_ret False
     else eff_bind (linux_run_owned E L [''addr'', ''add'', ip_to_string addr @ ''/32'', ''dev'', iface]) (\<lambda>_.
          eff_ret True))"

definition delete_addr_if_present ::
  "('h, 'e) host_env_scheme \<Rightarrow> linux \<Rightarrow> string \<Rightarrow> ipv4_addr \<Rightarrow> ('h, 'w, bool) linux_eff" where
  "delete_addr_if_present E L iface addr =
     eff_bind (interface_addresses E L iface) (\<lambda>existing.
     if addr \<notin> set existing then eff_ret False
     else eff_bind (linux_run_owned E L [''addr'', ''del'', ip_to_string addr @ ''/32'', ''dev'', iface]) (\<lambda>_.
          eff_ret True))"

section \<open>The nft tool\<close>

datatype nft_error =
    NftTimeout string
  | NftIo string

fun nft_error_to_string :: "nft_error \<Rightarrow> string" where
  "nft_error_to_string (NftTimeout d) = ''nft command timed out after '' @ d"
| "nft_error_to_string (NftIo msg) = ''nft process failed: '' @ msg"

record nft =
  nft_binary :: string
  nft_timeout :: string

definition nft_default :: nft where
  "nft_default = \<lparr>nft_binary = ''nft'', nft_timeout = ''5s''\<rparr>"

record nft_command =
  nc_status :: "int option"
  nc_stdout :: string
  nc_stderr :: string

type_synonym ('h, 'w, 'a) nft_eff = "(('h, 'w) world_scheme, nft_error, 'a) eff"

definition nft_run :: "('h, 'e) host_env_scheme \<Rightarrow> nft \<Rightarrow> string list \<Rightarrow> string \<Rightarrow> ('h, 'w, nft_command) nft_eff" where
  "nft_run E T args path =
     eff_bind (command E (nft_binary T) (filter (\<lambda>arg. arg \<noteq> []) args @ [path])) (\<lambda>out.
     case out of
       TimedOut \<Rightarrow> eff_err (NftTimeout (nft_timeout T))
     | SpawnFailed msg \<Rightarrow> eff_err (NftIo msg)
     | Exited status stdout stderr \<Rightarrow>
         eff_ret \<lparr>nc_status = status, nc_stdout = stdout, nc_stderr = stderr\<rparr>)"

definition check_file :: "('h, 'e) host_env_scheme \<Rightarrow> nft \<Rightarrow> string \<Rightarrow> ('h, 'w, nft_command) nft_eff" where
  "check_file E T path = nft_run E T [''-c'', ''-f''] path"

definition apply_file :: "('h, 'e) host_env_scheme \<Rightarrow> nft \<Rightarrow> string \<Rightarrow> ('h, 'w, nft_command) nft_eff" where
  "apply_file E T path = nft_run E T [''-f'', ''''] path"

section \<open>Reading the output of ip\<close>

lemma strip_cr_id: "CHR 0x0D \<notin> set l \<Longrightarrow> strip_cr l = l"
  unfolding strip_cr_def by (metis last_in_set)

lemma str_lines_terminated:
  assumes "\<forall>l\<in>set ls. CHR 0x0A \<notin> set l \<and> CHR 0x0D \<notin> set l"
  shows "str_lines (terminated ls) = ls"
proof -
  have "split_on CHR 0x0A (terminated ls) = ls @ [[]]" using assms by (intro split_terminated) auto
  then show ?thesis using assms by (simp add: str_lines_def map_idI strip_cr_id)
qed

lemma trim_start_spaces: "trim_start (CHR '' '' # s) = trim_start s"
proof -
  have "ws_head (CHR '' '' # s) = Some '' ''" by (simp add: ws_head_def white_space_def)
  then show ?thesis by (simp add: trim_start.simps [of "CHR '' '' # s"])
qed

lemma take_word_graphic:
  "\<forall>c\<in>set w. ascii_graphic c \<Longrightarrow> r = [] \<or> ws_head r \<noteq> None \<Longrightarrow> take_word (w @ r) = (w, r)"
proof (induction w)
  case Nil
  then show ?case by (subst take_word.simps) (auto split: list.splits simp: ws_head_def)
next
  case (Cons c w)
  then have "take_word (w @ r) = (w, r)" "ws_head (c # w @ r) = None" by (auto simp: ws_head_graphic)
  then show ?case by (subst take_word.simps) simp
qed

text \<open>A line of \<open>ip -4 addr show\<close> for an address, and any other line.\<close>

definition inet_line :: "ipv4_addr \<Rightarrow> nat \<Rightarrow> string \<Rightarrow> string" where
  "inet_line a plen tail = ''    inet '' @ ip_to_string a @ ''/'' @ show_nat plen @ tail"

definition tail_ok :: "string \<Rightarrow> bool" where
  "tail_ok t \<longleftrightarrow> (t = [] \<or> hd t = CHR '' '' \<and> ascii_graphic (last t)) \<and>
     CHR 0x0A \<notin> set t \<and> CHR 0x0D \<notin> set t"

definition other_line :: "string \<Rightarrow> bool" where
  "other_line l \<longleftrightarrow> strip_prefix ''inet '' (trim l) = None \<and> CHR 0x0A \<notin> set l \<and> CHR 0x0D \<notin> set l"

lemma ip_graphic: "\<forall>c\<in>set (ip_to_string a). ascii_graphic c"
  by (auto simp: ip_to_string_def show_octet_def show_nat_graphic) (simp add: ascii_graphic_def)+

lemma strip_inet_line:
  assumes "tail_ok t"
  shows "strip_prefix ''inet '' (trim (inet_line a p t)) = Some (ip_to_string a @ ''/'' @ show_nat p @ t)"
proof -
  let ?body = "''inet '' @ ip_to_string a @ ''/'' @ show_nat p @ t"
  have last: "ascii_graphic (last ?body)"
    using assms show_nat_graphic [of "last (show_nat p)" p]
    by (cases "t = []") (simp_all add: tail_ok_def last_append)
  have "trim_start (inet_line a p t) = trim_start ?body"
    by (simp add: inet_line_def trim_start_spaces)
  also have "\<dots> = ?body" by (rule trim_start_id) (simp add: ws_head_graphic ascii_graphic_def)
  finally have "trim (inet_line a p t) = trim_end ?body" by (simp add: trim_def)
  also have "\<dots> = ?body"
  proof (rule trim_end_id)
    obtain xs where "?body = xs @ [last ?body]" using append_butlast_last_id [of ?body] by (metis append_is_Nil_conv list.distinct(1))
    then show "ws_last ?body = None" using ws_last_graphic [OF last] by metis
  qed
  finally show ?thesis by (simp add: strip_prefix_def)
qed

lemma first_word_inet:
  assumes "tail_ok t"
  shows "\<exists>ws. split_whitespace (ip_to_string a @ ''/'' @ show_nat p @ t) =
    (ip_to_string a @ ''/'' @ show_nat p) # ws"
proof -
  define w where w: "w = ip_to_string a @ ''/'' @ show_nat p"
  have g: "\<forall>c\<in>set w. ascii_graphic c"
    using ip_graphic show_nat_graphic by (auto simp: w ascii_graphic_def [of "CHR ''/''"])
  obtain c cs where c: "w = c # cs" by (cases w) (auto simp: w ip_to_string_def)
  have "trim_start (w @ t) = w @ t" using g by (intro trim_start_id) (simp add: c ws_head_graphic)
  moreover have "t = [] \<or> ws_head t \<noteq> None"
    using assms by (cases t) (auto simp: tail_ok_def ws_head_def white_space_def)
  then have "take_word (cs @ t) = (cs, t)" using g by (intro take_word_graphic) (auto simp: c)
  ultimately have "split_whitespace (w @ t) = w # split_whitespace t"
    by (subst split_whitespace.simps) (simp add: c)
  then show ?thesis by (simp add: w)
qed

lemma split_once_slash: "CHR ''/'' \<notin> set w \<Longrightarrow> split_once CHR ''/'' (w @ ''/'' @ r) = Some (w, r)"
proof -
  assume "CHR ''/'' \<notin> set w"
  then have "takeWhile (\<lambda>x. x \<noteq> CHR ''/'') (w @ ''/'' @ r) = w"
    "dropWhile (\<lambda>x. x \<noteq> CHR ''/'') (w @ ''/'' @ r) = ''/'' @ r"
    by (induction w) auto
  then show ?thesis by (simp add: split_once_def)
qed

lemma no_slash: "CHR ''/'' \<notin> set (ip_to_string a)"
  by (simp add: ip_to_string_def show_octet_def digit_neq)

lemma no_breaks: "CHR 0x0A \<notin> set (ip_to_string a)" "CHR 0x0D \<notin> set (ip_to_string a)"
  "CHR 0x0A \<notin> set (show_nat n)" "CHR 0x0D \<notin> set (show_nat n)"
  by (simp_all add: ip_to_string_def show_octet_def digit_neq)

definition line_address :: "string \<Rightarrow> ipv4_addr list" where
  "line_address line =
     List.map_filter parse_ipv4
       (List.map_filter (\<lambda>cidr. case split_once CHR ''/'' cidr of Some (ip, _) \<Rightarrow> Some ip | None \<Rightarrow> Some cidr)
         (List.map_filter (\<lambda>rest. case split_whitespace rest of [] \<Rightarrow> None | w # _ \<Rightarrow> Some w)
           (List.map_filter (\<lambda>line. strip_prefix ''inet '' (trim line)) [line])))"

lemma parse_by_lines: "parse_ipv4_addresses out = concat (map line_address (str_lines out))"
proof -
  have "List.map_filter parse_ipv4
       (List.map_filter (\<lambda>cidr. case split_once CHR ''/'' cidr of Some (ip, _) \<Rightarrow> Some ip | None \<Rightarrow> Some cidr)
         (List.map_filter (\<lambda>rest. case split_whitespace rest of [] \<Rightarrow> None | w # _ \<Rightarrow> Some w)
           (List.map_filter (\<lambda>line. strip_prefix ''inet '' (trim line)) ls))) = concat (map line_address ls)" for ls
  proof (induction ls)
    case (Cons l ls)
    then show ?case
      by (auto simp: line_address_def List.map_filter_simps split: option.split list.split)
  qed (simp add: List.map_filter_simps)
  then show ?thesis by (simp add: parse_ipv4_addresses_def)
qed

lemma line_address_inet: "tail_ok t \<Longrightarrow> line_address (inet_line a p t) = [a]"
  using first_word_inet [of t a p] split_once_slash [OF no_slash, of a "show_nat p"]
  by (auto simp: line_address_def List.map_filter_simps strip_inet_line)

lemma line_address_other: "other_line l \<Longrightarrow> line_address l = []"
  by (simp add: line_address_def List.map_filter_simps other_line_def)

datatype addr_line = Inet ipv4_addr nat string | Other string

fun line_text :: "addr_line \<Rightarrow> string" where
  "line_text (Inet a p t) = inet_line a p t"
| "line_text (Other l) = l"

fun line_ok :: "addr_line \<Rightarrow> bool" where
  "line_ok (Inet a p t) = tail_ok t"
| "line_ok (Other l) = other_line l"

fun line_addrs :: "addr_line \<Rightarrow> ipv4_addr list" where
  "line_addrs (Inet a p t) = [a]"
| "line_addrs (Other l) = []"

lemma parse_lines:
  assumes "\<forall>l\<in>set ls. line_ok l"
  shows "parse_ipv4_addresses (terminated (map line_text ls)) = concat (map line_addrs ls)"
proof -
  have "CHR 0x0A \<notin> set (line_text l) \<and> CHR 0x0D \<notin> set (line_text l)" if "line_ok l" for l
    using that by (cases l) (auto simp: inet_line_def tail_ok_def other_line_def no_breaks)
  then have "str_lines (terminated (map line_text ls)) = map line_text ls"
    using assms by (intro str_lines_terminated) auto
  moreover have "line_address (line_text l) = line_addrs l" if "line_ok l" for l
    using that by (cases l) (simp_all add: line_address_inet line_address_other)
  then have "map line_address (map line_text ls) = map line_addrs ls" using assms by simp
  ultimately show ?thesis by (simp only: parse_by_lines)
qed

section \<open>The contract of address management\<close>

text \<open>The addresses of an interface, each with its prefix length. What the reconciler relies on: a call that
  succeeds leaves the address present, adding it as a host address if it was not there with any prefix, or
  removes its host address, touches nothing else, and says whether the address was there. \<open>apply_addresses\<close> is the
  fold of a list of requests, \<open>True\<close> for an address to ensure and \<open>False\<close> for one to delete.\<close>

type_synonym addr_set = "(ipv4_addr \<times> nat) set"

definition has_addr :: "addr_set \<Rightarrow> ipv4_addr \<Rightarrow> bool" where
  "has_addr A a \<longleftrightarrow> (\<exists>p. (a, p) \<in> A)"

definition request :: "bool \<times> ipv4_addr \<Rightarrow> addr_set \<Rightarrow> addr_set" where
  "request q A =
     (if fst q then if has_addr A (snd q) then A else insert (snd q, 32) A
      else A - {(snd q, 32)})"

definition apply_addresses :: "(bool \<times> ipv4_addr) list \<Rightarrow> addr_set \<Rightarrow> addr_set" where
  "apply_addresses qs A = fold request qs A"

lemma apply_addresses_other: "p \<noteq> 32 \<Longrightarrow> (a, p) \<in> apply_addresses qs A \<longleftrightarrow> (a, p) \<in> A"
proof (induction qs rule: rev_induct)
  case (snoc q qs)
  then show ?case by (auto simp: apply_addresses_def request_def)
qed (simp add: apply_addresses_def)

lemma apply_addresses_last:
  "case find (\<lambda>q. snd q = a) (rev qs) of
     None \<Rightarrow> (a, 32) \<in> apply_addresses qs A \<longleftrightarrow> (a, 32) \<in> A
   | Some q \<Rightarrow> if fst q then has_addr (apply_addresses qs A) a else (a, 32) \<notin> apply_addresses qs A"
proof (induction qs rule: rev_induct)
  case (snoc q qs)
  show ?case
  proof (cases "snd q = a")
    case True
    then show ?thesis by (auto simp: apply_addresses_def request_def has_addr_def)
  next
    case False
    then have "(a, p) \<in> apply_addresses (qs @ [q]) A \<longleftrightarrow> (a, p) \<in> apply_addresses qs A" for p
      by (auto simp: apply_addresses_def request_def)
    with snoc False show ?thesis by (auto simp: has_addr_def split: option.splits if_splits)
  qed
qed (simp add: apply_addresses_def)

locale addr_manager =
  fixes ensure remove :: "string \<Rightarrow> ipv4_addr \<Rightarrow> ('s, 'e, bool) eff"
    and addrs_of :: "'s \<Rightarrow> string \<Rightarrow> addr_set"
  assumes ensure_ok: "ensure iface a s = (Inr added, t) \<Longrightarrow>
      addrs_of t = (addrs_of s)(iface := request (True, a) (addrs_of s iface)) \<and> (added \<longleftrightarrow> \<not> has_addr (addrs_of s iface) a)"
    and remove_ok: "remove iface a s = (Inr removed, t) \<Longrightarrow>
      addrs_of t = (addrs_of s)(iface := request (False, a) (addrs_of s iface)) \<and> (removed \<longleftrightarrow> has_addr (addrs_of s iface) a)"
begin

text \<open>One request, and a loop of them in which every other step leaves the addresses alone.\<close>

lemma request_ok:
  assumes "(if on then ensure iface a else remove iface a) s = (Inr changed, t)"
  shows "addrs_of t = (addrs_of s)(iface := request (on, a) (addrs_of s iface))"
  using assms by (cases on) (auto dest: ensure_ok remove_ok)

lemma loop_ok:
  assumes step: "\<And>m acc acc' s t. m \<in> set ms \<Longrightarrow> step m acc s = (Inr acc', t) \<Longrightarrow>
      (if P m then (\<exists>changed. (if on m then ensure iface (ip m) else remove iface (ip m)) s = (Inr changed, t))
       else t = s)"
    and run: "eff_foldM step ms acc s = (Inr acc', t)"
  shows "addrs_of t = (addrs_of s)(iface :=
    apply_addresses (map (\<lambda>m. (on m, ip m)) (filter P ms)) (addrs_of s iface))"
  using assms
proof (induction ms arbitrary: acc s)
  case (Cons m ms)
  from Cons.prems(2) obtain acc1 u where m: "step m acc s = (Inr acc1, u)"
    and rest: "eff_foldM step ms acc1 u = (Inr acc', t)" by (auto simp: eff_bind_eq_Inr)
  have IH: "addrs_of t = (addrs_of u)(iface :=
      apply_addresses (map (\<lambda>m. (on m, ip m)) (filter P ms)) (addrs_of u iface))"
    by (rule Cons.IH [OF _ rest]) (rule Cons.prems(1), simp_all)
  show ?case
  proof (cases "P m")
    case True
    then obtain changed where "(if on m then ensure iface (ip m) else remove iface (ip m)) s = (Inr changed, u)"
      using Cons.prems(1) [OF _ m] by auto
    from request_ok [OF this] IH True show ?thesis by (simp add: apply_addresses_def)
  next
    case False
    with Cons.prems(1) [OF _ m] have "u = s" by simp
    with IH False show ?thesis by simp
  qed
qed (simp add: apply_addresses_def)

end

section \<open>What the ip tool does\<close>

definition cmd_ok :: "cmd_outcome \<Rightarrow> bool" where
  "cmd_ok out \<longleftrightarrow> (case out of Exited status _ _ \<Rightarrow> is_success status | _ \<Rightarrow> False)"

text \<open>What \<open>ip\<close> prints for \<open>addr show\<close> is a line \<open>inet ADDRESS/PREFIX ...\<close> for every address of the interface
  and lines that start otherwise. Adding and deleting name the prefix length; deleting an address leaves the same
  address with another prefix length in place.\<close>

definition prints_addresses :: "string \<Rightarrow> addr_set \<Rightarrow> bool" where
  "prints_addresses stdout A \<longleftrightarrow>
     (\<exists>ls. (\<forall>l\<in>set ls. line_ok l) \<and> stdout = terminated (map line_text ls) \<and> A = {(a, p). \<exists>t. Inet a p t \<in> set ls})"

lemma printed_parsed:
  assumes "prints_addresses stdout A"
  shows "a \<in> set (parse_ipv4_addresses stdout) \<longleftrightarrow> has_addr A a"
proof -
  from assms obtain ls where ls: "\<forall>l\<in>set ls. line_ok l" "stdout = terminated (map line_text ls)"
    "A = {(a, p). \<exists>t. Inet a p t \<in> set ls}" by (auto simp: prints_addresses_def)
  have "a \<in> set (line_addrs l) \<longleftrightarrow> (\<exists>p t. l = Inet a p t)" for l by (cases l) auto
  then show ?thesis using parse_lines [OF ls(1)] by (auto simp: ls(2,3) has_addr_def)
qed

locale ip_tool =
  fixes E :: "('h, 'e) host_env_scheme" and L :: linux and addrs :: "'h \<Rightarrow> string \<Rightarrow> addr_set"
  assumes show_reads: "run_cmd E n h (linux_ip L) [''-4'', ''addr'', ''show'', ''dev'', iface] = (out, h') \<Longrightarrow>
      addrs h' = addrs h \<and> (cmd_ok out \<longrightarrow> prints_addresses (cmd_stdout out) (addrs h iface))"
    and add_adds: "run_cmd E n h (linux_ip L) [''addr'', ''add'', ip_to_string a @ ''/32'', ''dev'', iface] = (out, h') \<Longrightarrow>
      cmd_ok out \<Longrightarrow> addrs h' = (addrs h)(iface := insert (a, 32) (addrs h iface))"
    and del_deletes: "run_cmd E n h (linux_ip L) [''addr'', ''del'', ip_to_string a @ ''/32'', ''dev'', iface] = (out, h') \<Longrightarrow>
      cmd_ok out \<Longrightarrow> addrs h' = (addrs h)(iface := addrs h iface - {(a, 32)})"
begin

abbreviation at :: "('h, 'w) world_scheme \<Rightarrow> string \<Rightarrow> addr_set" where
  "at s \<equiv> addrs (hstate s)"

lemma run_owned_ok:
  assumes "linux_run_owned E L args s = (Inr out, t)"
  shows "\<exists>status err. run_cmd E (tick s) (hstate s) (linux_ip L) args = (Exited status out err, hstate t) \<and>
    is_success status"
  using assms
  by (auto simp: linux_run_owned_def eff_bind_eq_Inr command_def split: prod.splits cmd_outcome.splits if_splits)

lemma interface_addresses_ok:
  assumes "interface_addresses E L iface s = (Inr as, t)"
  shows "(a \<in> set as \<longleftrightarrow> has_addr (at s iface) a) \<and> at t = at s"
proof -
  from assms obtain out where r: "linux_run_owned E L [''-4'', ''addr'', ''show'', ''dev'', iface] s = (Inr out, t)"
    and as: "as = parse_ipv4_addresses out"
    by (auto simp: interface_addresses_def eff_bind_eq_Inr)
  from run_owned_ok [OF r] show_reads have "prints_addresses out (at s iface)" "at t = at s" by (fastforce simp: cmd_ok_def)+
  then show ?thesis using printed_parsed by (simp add: as)
qed

lemma ensure_addr_ok:
  assumes "ensure_addr E L iface a s = (Inr added, t)"
  shows "at t = (at s)(iface := request (True, a) (at s iface)) \<and> (added \<longleftrightarrow> \<not> has_addr (at s iface) a)"
proof -
  from assms obtain as u where i: "interface_addresses E L iface s = (Inr as, u)"
    and rest: "(if a \<in> set as then eff_ret False
      else eff_bind (linux_run_owned E L [''addr'', ''add'', ip_to_string a @ ''/32'', ''dev'', iface]) (\<lambda>_.
          eff_ret True)) u = (Inr added, t)"
    by (auto simp: ensure_addr_def eff_bind_eq_Inr)
  note known = interface_addresses_ok [OF i, of a]
  show ?thesis
  proof (cases "a \<in> set as")
    case True
    with rest known show ?thesis by (auto simp: request_def fun_upd_idem)
  next
    case False
    with rest obtain out where r: "linux_run_owned E L [''addr'', ''add'', ip_to_string a @ ''/32'', ''dev'', iface] u = (Inr out, t)"
      and "added" by (auto simp: eff_bind_eq_Inr)
    from run_owned_ok [OF r] add_adds have "at t = (at u)(iface := insert (a, 32) (at u iface))"
      by (fastforce simp: cmd_ok_def)
    with known False \<open>added\<close> show ?thesis by (simp add: request_def)
  qed
qed

lemma delete_addr_ok:
  assumes "delete_addr_if_present E L iface a s = (Inr removed, t)"
  shows "at t = (at s)(iface := request (False, a) (at s iface)) \<and> (removed \<longleftrightarrow> has_addr (at s iface) a)"
proof -
  from assms obtain as u where i: "interface_addresses E L iface s = (Inr as, u)"
    and rest: "(if a \<notin> set as then eff_ret False
      else eff_bind (linux_run_owned E L [''addr'', ''del'', ip_to_string a @ ''/32'', ''dev'', iface]) (\<lambda>_.
          eff_ret True)) u = (Inr removed, t)"
    by (auto simp: delete_addr_if_present_def eff_bind_eq_Inr)
  note known = interface_addresses_ok [OF i, of a]
  show ?thesis
  proof (cases "a \<in> set as")
    case False
    with known have "at s iface - {(a, 32)} = at s iface" by (auto simp: has_addr_def)
    with rest known False show ?thesis by (auto simp: request_def fun_upd_idem)
  next
    case True
    with rest obtain out where r: "linux_run_owned E L [''addr'', ''del'', ip_to_string a @ ''/32'', ''dev'', iface] u = (Inr out, t)"
      and "removed" by (auto simp: eff_bind_eq_Inr)
    from run_owned_ok [OF r] del_deletes have "at t = (at u)(iface := at u iface - {(a, 32)})"
      by (fastforce simp: cmd_ok_def)
    with known True \<open>removed\<close> show ?thesis by (simp add: request_def)
  qed
qed

end

sublocale ip_tool \<subseteq> mgr: addr_manager "ensure_addr E L" "delete_addr_if_present E L" "\<lambda>s. addrs (hstate s)"
  by unfold_locales (rule ensure_addr_ok delete_addr_ok, assumption)+

context ip_tool
begin

lemma manages: "addr_manager (ensure_addr E L) (delete_addr_if_present E L) (\<lambda>s. addrs (hstate s))"
  by (rule mgr.addr_manager_axioms)

end

section \<open>A sample machine\<close>

text \<open>The state is the list of addresses of each interface. Every command succeeds: \<open>ip\<close> prints, adds
  and deletes addresses, \<open>nft\<close> accepts every file, and a connection to every target opens.\<close>

definition sample_host_run ::
  "nat \<Rightarrow> (string \<Rightarrow> ipv4_addr list) \<Rightarrow> string \<Rightarrow> string list \<Rightarrow> cmd_outcome \<times> (string \<Rightarrow> ipv4_addr list)" where
  "sample_host_run n h prog args =
     (case args of
        [a, b, c, d, iface] \<Rightarrow>
          if b = ''addr''
          then (Exited (Some 0) (terminated (map (\<lambda>x. inet_line x 32 '' scope global'') (h iface))) [], h)
          else (case parse_ipv4 (takeWhile (\<lambda>x. x \<noteq> CHR ''/'') c) of
                  None \<Rightarrow> (Exited (Some 0) [] [], h)
                | Some x \<Rightarrow>
                    (Exited (Some 0) [] [],
                     h(iface := if b = ''add'' then h iface @ [x] else filter (\<lambda>y. y \<noteq> x) (h iface))))
      | _ \<Rightarrow> (Exited (Some 0) [] [], h))"

definition sample_host_env :: "(string \<Rightarrow> ipv4_addr list) host_env" where
  "sample_host_env = env_ops.extend sample_env
     \<lparr>run_cmd = sample_host_run, tcp_connect = (\<lambda>_ _ _. Connected), io_fault = (\<lambda>_. None),
      io_partial = (\<lambda>_. 0)\<rparr>"

definition sample_host_addrs :: "(string \<Rightarrow> ipv4_addr list) \<Rightarrow> string \<Rightarrow> addr_set" where
  "sample_host_addrs h iface = (\<lambda>a. (a, 32)) ` set (h iface)"

lemma sample_host_env_run [simp]: "run_cmd sample_host_env = sample_host_run"
  by (simp add: sample_host_env_def env_ops.defs)

lemma takeWhile_slash: "takeWhile (\<lambda>x. x \<noteq> CHR ''/'') (ip_to_string a @ ''/32'') = ip_to_string a"
proof -
  have "takeWhile (\<lambda>x. x \<noteq> c) (w @ c # r) = w" if "c \<notin> set w" for c :: char and w r
    using that by (induction w) auto
  from this [OF no_slash, of a "''32''"] show ?thesis by simp
qed

lemma sample_host_show: "parse_ipv4_addresses (terminated (map (\<lambda>x. inet_line x 32 '' scope global'') h)) = h"
proof -
  have "tail_ok '' scope global''" by (simp add: tail_ok_def ascii_graphic_def)
  then show ?thesis
    using parse_lines [of "map (\<lambda>x. Inet x 32 '' scope global'') h"] by (simp add: comp_def)
qed

lemma sample_host_prints:
  "prints_addresses (terminated (map (\<lambda>x. inet_line x 32 '' scope global'') h)) ((\<lambda>a. (a, 32)) ` set h)"
  unfolding prints_addresses_def
  by (rule exI [of _ "map (\<lambda>x. Inet x 32 '' scope global'') h"]) (auto simp: tail_ok_def ascii_graphic_def comp_def)

interpretation sample_host: ip_tool sample_host_env linux_default sample_host_addrs
proof
  fix n h iface out h' a
  show "sample_host_addrs h' = sample_host_addrs h \<and>
      (cmd_ok out \<longrightarrow> prints_addresses (cmd_stdout out) (sample_host_addrs h iface))"
    if "run_cmd sample_host_env n h (linux_ip linux_default) [''-4'', ''addr'', ''show'', ''dev'', iface] = (out, h')"
    using that sample_host_prints by (auto simp: sample_host_run_def linux_default_def sample_host_addrs_def)
  show "sample_host_addrs h' = (sample_host_addrs h)(iface := insert (a, 32) (sample_host_addrs h iface))"
    if "run_cmd sample_host_env n h (linux_ip linux_default) [''addr'', ''add'', ip_to_string a @ ''/32'', ''dev'', iface] = (out, h')"
      and "cmd_ok out"
    using that takeWhile_slash [of a]
    by (intro ext) (auto simp: sample_host_run_def linux_default_def sample_host_addrs_def)
  show "sample_host_addrs h' = (sample_host_addrs h)(iface := sample_host_addrs h iface - {(a, 32)})"
    if "run_cmd sample_host_env n h (linux_ip linux_default) [''addr'', ''del'', ip_to_string a @ ''/32'', ''dev'', iface] = (out, h')"
      and "cmd_ok out"
    using that takeWhile_slash [of a]
    by (intro ext) (auto simp: sample_host_run_def linux_default_def sample_host_addrs_def)
qed

section \<open>Properties\<close>

text \<open>The addresses read from the output of \<open>ip -4 addr show\<close> are exactly those of its \<open>inet\<close> lines, in
  order, whatever follows the prefix length on the line and whatever other lines there are.\<close>

theorem ip_show_addresses_parsed:
  assumes "\<forall>l\<in>set ls. line_ok l"
  shows "parse_ipv4_addresses (terminated (map line_text ls)) = concat (map line_addrs ls)"
  using assms by (rule parse_lines)

theorem ip_show_addresses_parsed_witness:
  "parse_ipv4_addresses (terminated (map line_text
     [Other ''2: ens3: mtu 9000'', Inet (Ipv4Addr 10 0 0 5) 24 '' brd 10.0.0.255 scope global ens3'',
      Inet (Ipv4Addr 10 0 0 101) 32 []])) = [Ipv4Addr 10 0 0 5, Ipv4Addr 10 0 0 101]"
proof -
  have "trim ''2: ens3: mtu 9000'' = ''2: ens3: mtu 9000''"
    by (rule trim_graphic) (simp_all add: ascii_graphic_def)
  then have "\<forall>l\<in>set [Other ''2: ens3: mtu 9000'', Inet (Ipv4Addr 10 0 0 5) 24 '' brd 10.0.0.255 scope global ens3'',
      Inet (Ipv4Addr 10 0 0 101) 32 []]. line_ok l"
    by (simp add: other_line_def tail_ok_def strip_prefix_def ascii_graphic_def)
  from ip_show_addresses_parsed [OF this] show ?thesis by simp
qed

text \<open>If \<open>ip\<close> behaves as documented, \<open>ensure_addr\<close> that succeeds leaves the address on the interface, adds it as a
  host address only if it was missing and says so, and \<open>delete_addr_if_present\<close> that succeeds removes the host
  address and says whether the address was there; neither touches another address or interface.\<close>

theorem linux_addr_operations:
  assumes tool: "ip_tool E L addrs"
  shows "(ensure_addr E L iface a s = (Inr added, t) \<longrightarrow>
      addrs (hstate t) = (addrs (hstate s))(iface := request (True, a) (addrs (hstate s) iface)) \<and>
      (added \<longleftrightarrow> \<not> has_addr (addrs (hstate s) iface) a)) \<and>
    (delete_addr_if_present E L iface a s = (Inr removed, t) \<longrightarrow>
      addrs (hstate t) = (addrs (hstate s))(iface := request (False, a) (addrs (hstate s) iface)) \<and>
      (removed \<longleftrightarrow> has_addr (addrs (hstate s) iface) a))"
  using ip_tool.ensure_addr_ok [OF tool] ip_tool.delete_addr_ok [OF tool] by blast

definition sample_world :: "(string \<Rightarrow> ipv4_addr list) world" where
  "sample_world = db.extend empty_db
     \<lparr>files = Map.empty, hstate = (\<lambda>_. [])(''ens3'' := [Ipv4Addr 10 0 0 5]), trace = []\<rparr>"

theorem linux_addr_operations_witness:
  "\<exists>t. ensure_addr sample_host_env linux_default ''ens3'' (Ipv4Addr 10 0 0 101) sample_world = (Inr True, t) \<and>
     sample_host_addrs (hstate t) ''ens3'' = {(Ipv4Addr 10 0 0 101, 32), (Ipv4Addr 10 0 0 5, 32)}"
proof -
  have h: "hstate sample_world = (\<lambda>_. [])(''ens3'' := [Ipv4Addr 10 0 0 5])" by (simp add: sample_world_def db.defs)
  obtain t where t: "ensure_addr sample_host_env linux_default ''ens3'' (Ipv4Addr 10 0 0 101) sample_world = (Inr True, t)"
    using sample_host_show [of "[Ipv4Addr 10 0 0 5]"] takeWhile_slash [of "Ipv4Addr 10 0 0 101"]
    by (simp add: ensure_addr_def interface_addresses_def linux_run_owned_def command_def eff_bind_def
        sample_host_run_def linux_default_def is_success_def h)
  then have "sample_host_addrs (hstate t) =
      (sample_host_addrs (hstate sample_world))(''ens3'' :=
        request (True, Ipv4Addr 10 0 0 101) (sample_host_addrs (hstate sample_world) ''ens3''))"
    using linux_addr_operations [OF sample_host.ip_tool_axioms] by blast
  from fun_cong [OF this, of "''ens3''"] t show ?thesis
    by (intro exI [of _ t]) (simp add: h request_def has_addr_def
        sample_host_addrs_def [of "(\<lambda>_. [])(''ens3'' := [Ipv4Addr 10 0 0 5])"])
qed

end
