(* ===== verification/Reconcile.thy ===== *)
theory Reconcile
  imports Linux_Addr
begin

text \<open>
  \<open>src/crates/edge-reconcile/src/lib.rs\<close>: rendering, writing, checking and applying the nftables
  script, the addresses of the interface, health checks, and rollback to an earlier generation.

  \<open>reconcile\<close> is composed of one definition per stage of the function, in its order. The error
  type is \<open>reconcile_error failure\<close>, since the renderer can panic as far as its type goes.
\<close>

section \<open>Files\<close>

definition file_name :: "string \<Rightarrow> string" where
  "file_name p = rev (takeWhile (\<lambda>c. c \<noteq> CHR ''/'') (rev p))"

definition dir_part :: "string \<Rightarrow> string" where
  "dir_part p = rev (dropWhile (\<lambda>c. c \<noteq> CHR ''/'') (rev p))"

text \<open>\<open>Path::parent\<close> and \<open>Path::with_extension\<close> on paths without a trailing slash.\<close>

definition path_parent :: "string \<Rightarrow> string option" where
  "path_parent p =
     (if p = [] \<or> p = ''/'' then None
      else if dir_part p = ''/'' then Some ''/'' else Some (butlast (dir_part p)))"

definition file_stem :: "string \<Rightarrow> string" where
  "file_stem name =
     (if CHR ''.'' \<in> set (tl name) then rev (tl (dropWhile (\<lambda>c. c \<noteq> CHR ''.'') (rev name))) else name)"

definition with_extension :: "string \<Rightarrow> string \<Rightarrow> string" where
  "with_extension p ext = dir_part p @ file_stem (file_name p) @ ''.'' @ ext"

text \<open>A call into the file system: it fails with the environment's error, after what it did so far,
  or has its full effect.\<close>

definition fs_call ::
  "('h, 'e) host_env_scheme \<Rightarrow> ((string \<Rightarrow> string option) \<Rightarrow> string \<Rightarrow> string option) \<Rightarrow>
     (nat \<Rightarrow> (string \<Rightarrow> string option) \<Rightarrow> string \<Rightarrow> string option) \<Rightarrow>
     (('h, 'w) world_scheme, string, unit) eff" where
  "fs_call E done partly s =
     (let s' = s\<lparr>tick := Suc (tick s)\<rparr>
      in case io_fault E (tick s) of
           Some msg \<Rightarrow> (Inl msg, s'\<lparr>files := partly (io_partial E (tick s)) (files s)\<rparr>)
         | None \<Rightarrow> (Inr (), s'\<lparr>files := done (files s)\<rparr>))"

definition create_dir_all :: "('h, 'e) host_env_scheme \<Rightarrow> string \<Rightarrow> (('h, 'w) world_scheme, string, unit) eff" where
  "create_dir_all E dir = (if dir = [] then eff_ret () else fs_call E (\<lambda>f. f) (\<lambda>_ f. f))"

definition open_read :: "('h, 'e) host_env_scheme \<Rightarrow> string \<Rightarrow> (('h, 'w) world_scheme, string, unit) eff" where
  "open_read E p = fs_call E (\<lambda>f. f) (\<lambda>_ f. f)"

definition open_truncate :: "('h, 'e) host_env_scheme \<Rightarrow> string \<Rightarrow> (('h, 'w) world_scheme, string, unit) eff" where
  "open_truncate E p = fs_call E (\<lambda>f. f(p \<mapsto> [])) (\<lambda>_ f. f)"

definition write_all :: "('h, 'e) host_env_scheme \<Rightarrow> string \<Rightarrow> string \<Rightarrow> (('h, 'w) world_scheme, string, unit) eff" where
  "write_all E p bytes = fs_call E (\<lambda>f. f(p \<mapsto> bytes)) (\<lambda>n f. f(p \<mapsto> take n bytes))"

definition sync_all :: "('h, 'e) host_env_scheme \<Rightarrow> (('h, 'w) world_scheme, string, unit) eff" where
  "sync_all E = fs_call E (\<lambda>f. f) (\<lambda>_ f. f)"

definition fs_rename :: "('h, 'e) host_env_scheme \<Rightarrow> string \<Rightarrow> string \<Rightarrow> (('h, 'w) world_scheme, string, unit) eff" where
  "fs_rename E src dst = fs_call E (\<lambda>f. (f(src := None))(dst := f src)) (\<lambda>_ f. f)"

definition atomic_write :: "('h, 'e) host_env_scheme \<Rightarrow> string \<Rightarrow> string \<Rightarrow> (('h, 'w) world_scheme, string, unit) eff" where
  "atomic_write E path bytes =
     eff_bind (case path_parent path of Some dir \<Rightarrow> create_dir_all E dir | None \<Rightarrow> eff_ret ()) (\<lambda>_.
     eff_bind (fresh_uuid E) (\<lambda>unique.
     let tmp = with_extension path (''tmp-'' @ unique)
     in eff_bind (open_truncate E tmp) (\<lambda>_.
        eff_bind (write_all E tmp bytes) (\<lambda>_.
        eff_bind (sync_all E) (\<lambda>_.
        eff_bind (fs_rename E tmp path) (\<lambda>_.
        case path_parent path of
          Some dir \<Rightarrow>
            eff_catch (open_read E dir) (\<lambda>opened.
            case opened of
              Inr _ \<Rightarrow> eff_catch (sync_all E) (\<lambda>_. eff_ret ())
            | Inl _ \<Rightarrow> eff_ret ())
        | None \<Rightarrow> eff_ret ()))))))"

section \<open>Errors, options, report\<close>

datatype reconcile_error =
    RCore edge_core_error
  | RLinux linux_error
  | RNft nft_error
  | RIo string
  | RNftValidation string
  | RNftApply string
  | RHealth string
  | RXdp xdp_error
  | RXdpApplyUnsupported

fun reconcile_error_to_string :: "reconcile_error \<Rightarrow> string" where
  "reconcile_error_to_string (RCore e) = core_error_to_string e"
| "reconcile_error_to_string (RLinux e) = ''linux operation failed: '' @ linux_error_to_string e"
| "reconcile_error_to_string (RNft e) = ''nft operation failed: '' @ nft_error_to_string e"
| "reconcile_error_to_string (RIo msg) = ''io failed: '' @ msg"
| "reconcile_error_to_string (RNftValidation msg) = ''nft validation failed: '' @ msg"
| "reconcile_error_to_string (RNftApply msg) = ''nft apply failed: '' @ msg"
| "reconcile_error_to_string (RHealth msg) = ''health check failed: '' @ msg"
| "reconcile_error_to_string (RXdp e) = ''xdp operation failed: '' @ xdp_error_to_string e"
| "reconcile_error_to_string RXdpApplyUnsupported =
     ''xdp apply is not implemented; run dry-run to inspect the XDP plan''"

record reconcile_options =
  nft_output :: string
  dry_run :: bool
  apply_nft :: bool
  apply_linux :: bool
  opt_xdp :: xdp_config

definition reconcile_options_default :: reconcile_options where
  "reconcile_options_default =
     \<lparr>nft_output = ''/run/edge-router/generated.nft'', dry_run = False, apply_nft = True,
      apply_linux = True, opt_xdp = xdp_config_disabled []\<rparr>"

record reconcile_report =
  rep_nftables_config :: string
  rep_generation_id :: "int option"
  rep_added_addresses :: "string list"
  rep_removed_addresses :: "string list"
  rep_xdp_plan_entries :: nat

record reconciler =
  rc_linux :: linux
  rc_nft :: nft

type_synonym ('h, 'w, 'a) rec_eff = "(('h, 'w) world_scheme, reconcile_error failure, 'a) eff"

definition core_step :: "('w db_scheme, edge_core_error, 'a) eff \<Rightarrow> ('w db_scheme, reconcile_error failure, 'a) eff" where
  "core_step m = eff_map_err (\<lambda>e. Fail (RCore e)) m"

definition lift_render :: "(edge_core_error failure, 'a) result \<Rightarrow> (reconcile_error failure, 'a) result" where
  "lift_render r = map_err (\<lambda>f. case f of Fail e \<Rightarrow> Fail (RCore e) | Panic msg \<Rightarrow> Panic msg) r"

section \<open>Health checks\<close>

definition health_check :: "('h, 'e) host_env_scheme \<Rightarrow> ipv4_addr \<Rightarrow> u16 option \<Rightarrow> protocol \<Rightarrow>
    (('h, 'w) world_scheme, reconcile_error, string) eff" where
  "health_check E ip port proto =
     (if proto = Udp then eff_ret ''udp_unchecked''
      else (case port of
              None \<Rightarrow> eff_ret ''ok''
            | Some p \<Rightarrow>
                let addr = ip_to_string ip @ '':'' @ show_u16 p
                in eff_bind (connect E ip p) (\<lambda>out.
                   case out of
                     ConnectTimeout \<Rightarrow> eff_err (RHealth (''timed out: '' @ addr))
                   | ConnectFailed msg \<Rightarrow> eff_err (RHealth (addr @ '': '' @ msg))
                   | Connected \<Rightarrow> eff_ret ''tcp_ok'')))"

section \<open>Reconciling\<close>

definition record_failure :: "('h, 'e) host_env_scheme \<Rightarrow> string \<Rightarrow> string \<Rightarrow> string \<Rightarrow> ('h, 'w, unit) rec_eff" where
  "record_failure E rendered event message =
     eff_bind (core_step (record_generation E GFailed rendered None (Some message))) (\<lambda>_.
     eff_bind (core_step (record_event E EvError event (Some message))) (\<lambda>_. eff_ret ()))"

definition write_stage :: "('h, 'e) host_env_scheme \<Rightarrow> reconcile_options \<Rightarrow> string \<Rightarrow> ('h, 'w, unit) rec_eff" where
  "write_stage E opts rendered =
     eff_catch (atomic_write E (nft_output opts) rendered) (\<lambda>r.
     case r of
       Inl msg \<Rightarrow>
         eff_bind (record_failure E rendered ''failed to write nftables config'' msg) (\<lambda>_.
         eff_err (Fail (RIo msg)))
     | Inr _ \<Rightarrow> eff_ret ())"

definition check_stage :: "('h, 'e) host_env_scheme \<Rightarrow> reconciler \<Rightarrow> reconcile_options \<Rightarrow> string \<Rightarrow> ('h, 'w, unit) rec_eff" where
  "check_stage E R opts rendered =
     eff_bind (eff_map_err (\<lambda>e. Fail (RNft e)) (check_file E (rc_nft R) (nft_output opts))) (\<lambda>check.
     if \<not> is_success (nc_status check)
     then let message = error_message (nc_status check) (nc_stderr check)
          in eff_bind (record_failure E rendered ''nft validation failed'' message) (\<lambda>_.
             eff_err (Fail (RNftValidation message)))
     else eff_bind (core_step (record_generation E GValidated rendered None None)) (\<lambda>_. eff_ret ()))"

definition apply_stage :: "('h, 'e) host_env_scheme \<Rightarrow> reconciler \<Rightarrow> reconcile_options \<Rightarrow> string \<Rightarrow> ('h, 'w, unit) rec_eff" where
  "apply_stage E R opts rendered =
     (if apply_nft opts
      then eff_bind (eff_map_err (\<lambda>e. Fail (RNft e)) (apply_file E (rc_nft R) (nft_output opts))) (\<lambda>applied.
           if \<not> is_success (nc_status applied)
           then let message = error_message (nc_status applied) (nc_stderr applied)
                in eff_bind (record_failure E rendered ''nft apply failed'' message) (\<lambda>_.
                   eff_err (Fail (RNftApply message)))
           else eff_ret ())
      else eff_ret ())"

definition address_step :: "('h, 'e) host_env_scheme \<Rightarrow> reconciler \<Rightarrow> edge_config \<Rightarrow> mapping \<Rightarrow>
    string list \<times> string list \<Rightarrow> ('h, 'w, string list \<times> string list) rec_eff" where
  "address_step E R cfg m acc =
     (case acc of
        (added, removed) \<Rightarrow>
          if enabled m \<and> m_backend m = Nft
          then eff_bind (eff_map_err (\<lambda>e. Fail (RLinux e))
                 (ensure_addr E (rc_linux R) (wan_interface cfg) (edge_private_ip m))) (\<lambda>new.
               eff_ret (if new then added @ [ip_to_string (edge_private_ip m)] else added, removed))
          else if m_backend m = Nft
          then eff_bind (eff_map_err (\<lambda>e. Fail (RLinux e))
                 (delete_addr_if_present E (rc_linux R) (wan_interface cfg) (edge_private_ip m))) (\<lambda>gone.
               eff_ret (added, if gone then removed @ [ip_to_string (edge_private_ip m)] else removed))
          else eff_ret (added, removed))"

definition linux_stage :: "('h, 'e) host_env_scheme \<Rightarrow> reconciler \<Rightarrow> edge_config \<Rightarrow> reconcile_options \<Rightarrow>
    mapping list \<Rightarrow> ('h, 'w, string list \<times> string list) rec_eff" where
  "linux_stage E R cfg opts ms =
     (if apply_linux opts then eff_foldM (address_step E R cfg) ms ([], []) else eff_ret ([], []))"

definition health_step :: "('h, 'e) host_env_scheme \<Rightarrow> mapping \<Rightarrow> ('h, 'w, unit) rec_eff" where
  "health_step E m =
     eff_catch (health_check E (target_ip m) (target_port m) (m_protocol m)) (\<lambda>r.
     case r of
       Inr status \<Rightarrow>
         eff_bind (core_step (set_mapping_health E (m_id m) MActive (Some status) None)) (\<lambda>_. eff_ret ())
     | Inl error \<Rightarrow>
         let message = reconcile_error_to_string error
         in eff_bind (core_step (set_mapping_health E (m_id m) MDegraded (Some ''degraded'') (Some message))) (\<lambda>_.
            eff_bind (core_step (record_event E EvWarn ''mapping health degraded'' (Some message))) (\<lambda>_.
            eff_ret ())))"

definition show_bool :: "bool \<Rightarrow> string" where
  "show_bool b = (if b then ''true'' else ''false'')"

definition finish_stage :: "('h, 'e) host_env_scheme \<Rightarrow> reconcile_options \<Rightarrow> mapping list \<Rightarrow> string \<Rightarrow>
    generation \<Rightarrow> ('h, 'w, int) rec_eff" where
  "finish_stage E opts ms rendered rendered_generation =
     (if apply_nft opts \<and> apply_linux opts
      then eff_bind (now_utc E) (\<lambda>now.
           eff_bind (core_step (record_generation E GActive rendered (Some now) None)) (\<lambda>active.
           eff_bind (eff_forM (health_step E) (filter (\<lambda>m. enabled m \<and> m_backend m = Nft) ms)) (\<lambda>_.
           eff_bind (core_step (record_event E EvInfo ''reconcile applied''
               (Some (''generation='' @ show_int (g_id active))))) (\<lambda>_.
           eff_ret (g_id active)))))
      else eff_bind (core_step (record_event E EvInfo ''reconcile validated without full apply''
             (Some (''apply_nft='' @ show_bool (apply_nft opts) @ '',apply_linux='' @
               show_bool (apply_linux opts))))) (\<lambda>_.
           eff_ret (g_id rendered_generation)))"

definition reconcile :: "('h, 'e) host_env_scheme \<Rightarrow> reconciler \<Rightarrow> edge_config \<Rightarrow> reconcile_options \<Rightarrow>
    ('h, 'w, reconcile_report) rec_eff" where
  "reconcile E R cfg opts =
     eff_bind (core_step (list_mappings E)) (\<lambda>ms.
     eff_bind (eff_lift (lift_render (render_nftables E ms cfg default_table_name))) (\<lambda>rendered.
     eff_bind (eff_lift (map_err (\<lambda>e. Fail (RXdp e)) (xdp_plan_of E (opt_xdp opts) ms cfg))) (\<lambda>plan.
     if dry_run opts
     then eff_ret \<lparr>rep_nftables_config = rendered, rep_generation_id = None, rep_added_addresses = [],
                   rep_removed_addresses = [], rep_xdp_plan_entries = length (plan_entries plan)\<rparr>
     else if \<not> plan_is_empty plan then eff_err (Fail RXdpApplyUnsupported)
     else
       eff_bind (core_step (record_generation E GRendered rendered None None)) (\<lambda>generation.
       eff_bind (write_stage E opts rendered) (\<lambda>_.
       eff_bind (check_stage E R opts rendered) (\<lambda>_.
       eff_bind (apply_stage E R opts rendered) (\<lambda>_.
       eff_bind (linux_stage E R cfg opts ms) (\<lambda>(added, removed).
       eff_bind (finish_stage E opts ms rendered generation) (\<lambda>generation_id.
       eff_ret \<lparr>rep_nftables_config = rendered, rep_generation_id = Some generation_id,
                rep_added_addresses = added, rep_removed_addresses = removed,
                rep_xdp_plan_entries = length (plan_entries plan)\<rparr>)))))))))"

section \<open>Rollback\<close>

definition rollback :: "('h, 'e) host_env_scheme \<Rightarrow> reconciler \<Rightarrow> int \<Rightarrow> string \<Rightarrow> ('h, 'w, unit) rec_eff" where
  "rollback E R gen_id path =
     eff_bind (core_step (get_generation E gen_id)) (\<lambda>generation.
     eff_bind (eff_map_err (\<lambda>e. Fail (RIo e)) (atomic_write E path (nftables_config generation))) (\<lambda>_.
     eff_bind (eff_map_err (\<lambda>e. Fail (RNft e)) (check_file E (rc_nft R) path)) (\<lambda>check.
     if \<not> is_success (nc_status check)
     then let message = error_message (nc_status check) (nc_stderr check)
          in eff_bind (core_step (record_event E EvError ''rollback nft validation failed'' (Some message))) (\<lambda>_.
             eff_err (Fail (RNftValidation message)))
     else
       eff_bind (eff_map_err (\<lambda>e. Fail (RNft e)) (apply_file E (rc_nft R) path)) (\<lambda>applied.
       if \<not> is_success (nc_status applied)
       then let message = error_message (nc_status applied) (nc_stderr applied)
            in eff_bind (core_step (record_event E EvError ''rollback nft apply failed'' (Some message))) (\<lambda>_.
               eff_err (Fail (RNftApply message)))
       else eff_bind (core_step (record_event E EvWarn ''rollback applied''
              (Some (''generation='' @ show_int gen_id)))) (\<lambda>_. eff_ret ())))))"

end
