(* ===== verification/Netbird.thy ===== *)
theory Netbird
  imports Host
begin

text \<open>
  \<open>src/crates/edge-netbird/src/lib.rs\<close>: the commands that ask the NetBird daemon, the routing table
  and a target, and what the code reads from their output.

  The crate waits for a command without a time limit, so a command either cannot be started or
  exits: \<open>run_output\<close> is that answer. \<open>status_from_json\<close> is \<open>serde_json::from_str\<close> for the status
  type. Both are parameters, fields of \<open>netbird_env\<close>.
\<close>

section \<open>Data\<close>

datatype netbird_error =
    NbCommand string
  | NbJson string
  | NbIo string

fun netbird_error_to_string :: "netbird_error \<Rightarrow> string" where
  "netbird_error_to_string (NbCommand msg) = ''command failed: '' @ msg"
| "netbird_error_to_string (NbJson msg) = ''netbird JSON parse failed: '' @ msg"
| "netbird_error_to_string (NbIo msg) = ''process failed: '' @ msg"

record netbird_cli =
  nb_netbird :: string
  nb_ip :: string
  nb_ping :: string

definition netbird_cli_default :: netbird_cli where
  "netbird_cli_default = \<lparr>nb_netbird = ''netbird'', nb_ip = ''ip'', nb_ping = ''ping''\<rparr>"

record command_output =
  co_status :: "int option"
  co_stdout :: string
  co_stderr :: string

record route_check =
  rt_target :: ipv4_addr
  rt_route :: string
  rt_interface :: "string option"

record nb_peer =
  peer_fqdn :: "string option"
  peer_netbird_ip :: "string option"
  peer_netbird_ipv6 :: "string option"
  peer_status :: "string option"
  peer_connection_type :: "string option"
  peer_networks :: "string list"

record peer_overview =
  peers_total :: u64
  peers_connected :: u64
  peers_details :: "nb_peer list"

record service_status =
  svc_connected :: bool

record netbird_status =
  nb_peers :: peer_overview
  cli_version :: "string option"
  daemon_version :: "string option"
  daemon_status :: "string option"
  management :: service_status
  signal :: service_status
  netbird_ip :: "string option"
  netbird_ipv6 :: "string option"
  uses_kernel_interface :: "bool option"
  nb_fqdn :: "string option"
  nb_networks :: "string list"
  lazy_connection_enabled :: bool

record 'h netbird_env = "'h host_env" +
  run_output :: "nat \<Rightarrow> 'h \<Rightarrow> string \<Rightarrow> string list \<Rightarrow> (string, command_output) result \<times> 'h"
  status_from_json :: "string \<Rightarrow> (string, netbird_status) result"

section \<open>Reading the output\<close>

fun route_interface_field :: "string list \<Rightarrow> string option" where
  "route_interface_field [] = None"
| "route_interface_field (field # rest) =
     (if field = ''dev'' then (case rest of [] \<Rightarrow> None | i # _ \<Rightarrow> Some i)
      else route_interface_field rest)"

definition parse_route_interface :: "string \<Rightarrow> string option" where
  "parse_route_interface route = route_interface_field (split_whitespace route)"

definition uses_interface :: "route_check \<Rightarrow> string \<Rightarrow> bool" where
  "uses_interface check expected \<longleftrightarrow> rt_interface check = Some expected"

text \<open>Collecting into a \<open>BTreeSet\<close> and back gives the distinct values in ascending order.\<close>

definition advertised_networks :: "netbird_status \<Rightarrow> string list" where
  "advertised_networks st = sort (remdups (concat (map peer_networks (peers_details (nb_peers st)))))"

definition daemon_connected :: "netbird_status \<Rightarrow> bool" where
  "daemon_connected st =
     (case daemon_status st of None \<Rightarrow> False | Some v \<Rightarrow> eq_ignore_ascii_case v ''connected'')"

definition peer_is_healthy :: "nb_peer \<Rightarrow> bool" where
  "peer_is_healthy p =
     (case peer_status p of
        None \<Rightarrow> False
      | Some v \<Rightarrow> eq_ignore_ascii_case v ''connected'' \<or> eq_ignore_ascii_case v ''idle'')"

definition parse_status :: "('h, 'e) netbird_env_scheme \<Rightarrow> string \<Rightarrow> (netbird_error, netbird_status) result" where
  "parse_status E json = map_err NbJson (status_from_json E json)"

section \<open>Commands\<close>

type_synonym ('h, 'w, 'a) netbird_eff = "(('h, 'w) world_scheme, netbird_error, 'a) eff"

definition output_outcome :: "(string, command_output) result \<Rightarrow> cmd_outcome" where
  "output_outcome r =
     (case r of Inl msg \<Rightarrow> SpawnFailed msg | Inr out \<Rightarrow> Exited (co_status out) (co_stdout out) (co_stderr out))"

definition netbird_run_owned :: "('h, 'e) netbird_env_scheme \<Rightarrow> string \<Rightarrow> string list \<Rightarrow>
    ('h, 'w, command_output) netbird_eff" where
  "netbird_run_owned E binary args s =
     (case run_output E (tick s) (hstate s) binary args of
        (r, h) \<Rightarrow>
          let t = s\<lparr>tick := Suc (tick s), hstate := h,
                    trace := trace s @ [Ran binary args (files s) (output_outcome r)]\<rparr>
          in case r of
               Inl msg \<Rightarrow> (Inl (NbIo msg), t)
             | Inr out \<Rightarrow>
                 (if \<not> is_success (co_status out)
                  then (Inl (NbCommand (error_message (co_status out) (co_stderr out))), t)
                  else (Inr out, t)))"

definition nb_status :: "('h, 'e) netbird_env_scheme \<Rightarrow> netbird_cli \<Rightarrow> ('h, 'w, netbird_status) netbird_eff" where
  "nb_status E C =
     eff_bind (netbird_run_owned E (nb_netbird C) [''status'', ''--json'']) (\<lambda>out.
     eff_lift (parse_status E (co_stdout out)))"

definition route_get :: "('h, 'e) netbird_env_scheme \<Rightarrow> netbird_cli \<Rightarrow> ipv4_addr \<Rightarrow>
    ('h, 'w, route_check) netbird_eff" where
  "route_get E C target =
     eff_bind (netbird_run_owned E (nb_ip C) [''route'', ''get'', ip_to_string target]) (\<lambda>out.
     let route = trim (co_stdout out)
     in eff_ret \<lparr>rt_target = target, rt_route = route, rt_interface = parse_route_interface route\<rparr>)"

definition ping_once :: "('h, 'e) netbird_env_scheme \<Rightarrow> netbird_cli \<Rightarrow> ipv4_addr \<Rightarrow>
    ('h, 'w, command_output) netbird_eff" where
  "ping_once E C target =
     netbird_run_owned E (nb_ping C) [''-c'', ''1'', ''-W'', ''2'', ip_to_string target]"

section \<open>Routes and networks\<close>

text \<open>The interface of a route is the word after the first word \<open>dev\<close>.\<close>

lemma route_interface_field_iff:
  "route_interface_field ws = Some i \<longleftrightarrow>
     (\<exists>before after. ws = before @ ''dev'' # i # after \<and> ''dev'' \<notin> set before)"
proof (induction ws)
  case Nil
  then show ?case by simp
next
  case (Cons w ws)
  show ?case
  proof (cases "w = ''dev''")
    case True
    have "(\<exists>before after. w # ws = before @ ''dev'' # i # after \<and> ''dev'' \<notin> set before) \<longleftrightarrow>
        (\<exists>after. ws = i # after)"
      using True by (auto simp: Cons_eq_append_conv)
    then show ?thesis using True by (auto split: list.splits)
  next
    case False
    have "(\<exists>before after. w # ws = before @ ''dev'' # i # after \<and> ''dev'' \<notin> set before) \<longleftrightarrow>
        (\<exists>before after. ws = before @ ''dev'' # i # after \<and> ''dev'' \<notin> set before)"
      using False by (auto simp: Cons_eq_append_conv) (metis append_Cons set_ConsD)
    then show ?thesis using False Cons.IH by simp
  qed
qed

lemma advertised_networks_set:
  "set (advertised_networks st) = (\<Union>p\<in>set (peers_details (nb_peers st)). set (peer_networks p))"
  by (auto simp: advertised_networks_def)

lemma advertised_networks_strict: "sorted (advertised_networks st)" "distinct (advertised_networks st)"
  by (simp_all add: advertised_networks_def)

text \<open>One command, recorded, and nothing else of the machine's files or database.\<close>

lemma netbird_run_owned_effect:
  assumes "netbird_run_owned E b args s = (r, t)"
  obtains out h where
    "t = s\<lparr>tick := Suc (tick s), hstate := h, trace := trace s @ [Ran b args (files s) out]\<rparr>"
    "\<And>x. r = Inr x \<Longrightarrow> out = Exited (Some 0) (co_stdout x) (co_stderr x)"
  using assms that
  by (auto simp: netbird_run_owned_def Let_def output_outcome_def is_success_def
      split: prod.splits sum.splits if_splits)

end
