(* ===== verification/Oci.thy ===== *)
theory Oci
  imports Netbird Linux_Addr
begin

text \<open>
  \<open>src/crates/edge-oci/src/lib.rs\<close>: the requests of the Oracle Cloud API and the operations that
  run the \<open>oci\<close> command line tool, among them the allocation of a public address with its
  roll-back.

  \<open>serde_json\<close> on the crate's types and the process environment are fields of \<open>oci_env\<close>. The
  result of \<open>env::var\<close> is an option, since the code drops its error.
\<close>

section \<open>Errors and authentication\<close>

datatype oci_error =
    OciCommand string
  | OciJson string
  | OciIo string
  | OciTimeout nat
  | OciConfig string

fun oci_error_to_string :: "oci_error \<Rightarrow> string" where
  "oci_error_to_string (OciCommand msg) = ''OCI CLI failed: '' @ msg"
| "oci_error_to_string (OciJson msg) = ''OCI CLI JSON parse failed: '' @ msg"
| "oci_error_to_string (OciIo msg) = ''OCI CLI process failed: '' @ msg"
| "oci_error_to_string (OciTimeout n) = ''OCI CLI timed out after '' @ show_nat n @ ''s''"
| "oci_error_to_string (OciConfig msg) = ''OCI API config failed: '' @ msg"

datatype oci_auth_config =
    AuthInstancePrincipal (auth_region: string)
  | AuthApiKey (auth_region: string) (tenancy_id: string) (user_id: string) (fingerprint: string)
      (private_key_path: string)

section \<open>Data exchanged with the cloud\<close>

record port_range =
  port_min :: u16
  port_max :: u16

record port_options =
  destination_port_range :: port_range

record ingress_security_rule =
  rule_protocol :: string
  rule_source :: string
  rule_tcp_options :: "port_options option"
  rule_udp_options :: "port_options option"
  rule_description :: "string option"

record nsg_rule_cli =
  cli_direction :: string
  cli_protocol :: string
  cli_source :: string
  cli_source_type :: string
  cli_is_stateless :: bool
  cli_tcp_options :: "port_options option"
  cli_udp_options :: "port_options option"
  cli_description :: "string option"

record oci_public_ip =
  pub_id :: string
  pub_ip_address :: ipv4_addr
  pub_private_ip_id :: "string option"
  pub_lifetime :: "string option"
  pub_scope :: "string option"
  pub_lifecycle_state :: "string option"
  pub_display_name :: "string option"

record oci_private_ip =
  priv_id :: string
  priv_ip_address :: ipv4_addr
  priv_vnic_id :: "string option"
  priv_display_name :: "string option"

record vnic =
  vnic_id :: string
  vnic_display_name :: "string option"
  skip_source_dest_check :: "bool option"

record allocation =
  alloc_private_ip :: oci_private_ip
  alloc_public_ip :: oci_public_ip

text \<open>The bodies of requests, one constructor per structure the crate serialises.\<close>

datatype oci_body =
    CreatePrivateIpDetails string "string option"
  | CreatePublicIpDetails string string "string option" "string option"
  | UpdatePublicIpDetails "string option"
  | AddSecurityRulesDetails "ingress_security_rule list"
  | RemoveSecurityRulesDetails "string list"

record 'h oci_env = "'h netbird_env" +
  env_var :: "string \<Rightarrow> string option"
  env_var_os :: "string \<Rightarrow> string option"
  body_to_json :: "oci_body \<Rightarrow> (string, string) result"
  cli_rules_to_json :: "nsg_rule_cli list \<Rightarrow> (string, string) result"
  ids_to_json :: "string list \<Rightarrow> (string, string) result"
  public_ip_list_from_json :: "string \<Rightarrow> (string, oci_public_ip list) result"
  public_ip_from_json :: "string \<Rightarrow> (string, oci_public_ip) result"
  private_ip_from_json :: "string \<Rightarrow> (string, oci_private_ip) result"
  vnic_from_json :: "string \<Rightarrow> (string, vnic) result"

definition required_env :: "('h, 'e) oci_env_scheme \<Rightarrow> string \<Rightarrow> (oci_error, string) result" where
  "required_env E name = ok_or (OciConfig (''missing '' @ name)) (env_var E name)"

definition api_key_from_env :: "('h, 'e) oci_env_scheme \<Rightarrow> string \<Rightarrow> (oci_error, oci_auth_config) result" where
  "api_key_from_env E region =
     res_bind (required_env E ''OCI_TENANCY_ID'') (\<lambda>tenancy.
     res_bind (required_env E ''OCI_USER_ID'') (\<lambda>user.
     res_bind (required_env E ''OCI_FINGERPRINT'') (\<lambda>print.
     res_bind (required_env E ''OCI_PRIVATE_KEY_PATH'') (\<lambda>key.
     Inr (AuthApiKey region tenancy user print key)))))"

section \<open>API requests\<close>

datatype oci_http_method = OciGet | OciPost | OciPut

record oci_api_request =
  req_method :: oci_http_method
  req_endpoint :: string
  req_path_and_query :: string
  req_body :: "string option"

definition oci_endpoint :: "oci_auth_config \<Rightarrow> string \<Rightarrow> string" where
  "oci_endpoint auth service = ''https://'' @ service @ ''.'' @ auth_region auth @ ''.oraclecloud.com''"

definition request_get :: "string \<Rightarrow> string \<Rightarrow> oci_api_request" where
  "request_get endpoint path =
     \<lparr>req_method = OciGet, req_endpoint = endpoint, req_path_and_query = path, req_body = None\<rparr>"

definition request_with_body :: "('h, 'e) oci_env_scheme \<Rightarrow> oci_http_method \<Rightarrow> string \<Rightarrow> string \<Rightarrow> oci_body \<Rightarrow>
    (oci_error, oci_api_request) result" where
  "request_with_body E m endpoint path body =
     res_bind (map_err OciJson (body_to_json E body)) (\<lambda>json.
     Inr \<lparr>req_method = m, req_endpoint = endpoint, req_path_and_query = path, req_body = Some json\<rparr>)"

definition api_list_public_ips :: "oci_auth_config \<Rightarrow> string \<Rightarrow> oci_api_request" where
  "api_list_public_ips auth compartment =
     request_get (oci_endpoint auth ''iaas'')
       (''/20160918/publicIps?compartmentId='' @ compartment @ ''&scope=REGION'')"

definition assign_reserved_public_ip :: "('h, 'e) oci_env_scheme \<Rightarrow> oci_auth_config \<Rightarrow> string \<Rightarrow> string \<Rightarrow>
    (oci_error, oci_api_request) result" where
  "assign_reserved_public_ip E auth public private =
     request_with_body E OciPut (oci_endpoint auth ''iaas'') (''/20160918/publicIps/'' @ public)
       (UpdatePublicIpDetails (Some private))"

definition unassign_reserved_public_ip :: "('h, 'e) oci_env_scheme \<Rightarrow> oci_auth_config \<Rightarrow> string \<Rightarrow>
    (oci_error, oci_api_request) result" where
  "unassign_reserved_public_ip E auth public =
     request_with_body E OciPut (oci_endpoint auth ''iaas'') (''/20160918/publicIps/'' @ public)
       (UpdatePublicIpDetails None)"

definition api_create_private_ip :: "('h, 'e) oci_env_scheme \<Rightarrow> oci_auth_config \<Rightarrow> string \<Rightarrow> string option \<Rightarrow>
    (oci_error, oci_api_request) result" where
  "api_create_private_ip E auth vnic name =
     request_with_body E OciPost (oci_endpoint auth ''iaas'') ''/20160918/privateIps''
       (CreatePrivateIpDetails vnic name)"

definition api_create_reserved_public_ip :: "('h, 'e) oci_env_scheme \<Rightarrow> oci_auth_config \<Rightarrow> string \<Rightarrow> string \<Rightarrow>
    string option \<Rightarrow> (oci_error, oci_api_request) result" where
  "api_create_reserved_public_ip E auth compartment private name =
     request_with_body E OciPost (oci_endpoint auth ''iaas'') ''/20160918/publicIps''
       (CreatePublicIpDetails compartment ''RESERVED'' (Some private) name)"

definition add_nsg_security_rules :: "('h, 'e) oci_env_scheme \<Rightarrow> oci_auth_config \<Rightarrow> string \<Rightarrow>
    ingress_security_rule list \<Rightarrow> (oci_error, oci_api_request) result" where
  "add_nsg_security_rules E auth nsg rules =
     request_with_body E OciPost (oci_endpoint auth ''iaas'')
       (''/20160918/networkSecurityGroups/'' @ nsg @ ''/actions/addSecurityRules'')
       (AddSecurityRulesDetails rules)"

definition remove_nsg_security_rules :: "('h, 'e) oci_env_scheme \<Rightarrow> oci_auth_config \<Rightarrow> string \<Rightarrow>
    string list \<Rightarrow> (oci_error, oci_api_request) result" where
  "remove_nsg_security_rules E auth nsg ids =
     request_with_body E OciPost (oci_endpoint auth ''iaas'')
       (''/20160918/networkSecurityGroups/'' @ nsg @ ''/actions/removeSecurityRules'')
       (RemoveSecurityRulesDetails ids)"

section \<open>The command line tool\<close>

type_synonym ('h, 'w, 'a) oci_eff = "(('h, 'w) world_scheme, oci_error, 'a) eff"

text \<open>An \<open>OciCli\<close> is the path of its binary.\<close>

definition oci_cli_default :: string where
  "oci_cli_default = ''oci''"

definition oci_run_owned :: "('h, 'e) oci_env_scheme \<Rightarrow> string \<Rightarrow> string list \<Rightarrow> ('h, 'w, command_output) oci_eff" where
  "oci_run_owned E binary args =
     eff_bind (command E binary args) (\<lambda>outcome.
     case outcome of
       TimedOut \<Rightarrow> eff_err (OciTimeout 12)
     | SpawnFailed msg \<Rightarrow> eff_err (OciIo msg)
     | Exited status out err \<Rightarrow>
         if \<not> is_success status then eff_err (OciCommand (error_message status err))
         else eff_ret \<lparr>co_status = status, co_stdout = out, co_stderr = err\<rparr>)"

definition display_name_args :: "string option \<Rightarrow> string list" where
  "display_name_args name = (case name of None \<Rightarrow> [] | Some n \<Rightarrow> [''--display-name'', n])"

definition list_public_ips :: "('h, 'e) oci_env_scheme \<Rightarrow> string \<Rightarrow> string \<Rightarrow> ('h, 'w, oci_public_ip list) oci_eff" where
  "list_public_ips E B compartment =
     eff_bind (oci_run_owned E B [''network'', ''public-ip'', ''list'', ''--scope'', ''REGION'',
       ''--compartment-id'', compartment]) (\<lambda>out.
     eff_lift (map_err OciJson (public_ip_list_from_json E (co_stdout out))))"

definition oci_version :: "('h, 'e) oci_env_scheme \<Rightarrow> string \<Rightarrow> ('h, 'w, command_output) oci_eff" where
  "oci_version E B = oci_run_owned E B [''--version'']"

definition private_create_args :: "string \<Rightarrow> string option \<Rightarrow> string list" where
  "private_create_args vnic name =
     [''network'', ''private-ip'', ''create'', ''--vnic-id'', vnic] @ display_name_args name"

definition create_private_ip :: "('h, 'e) oci_env_scheme \<Rightarrow> string \<Rightarrow> string \<Rightarrow> string option \<Rightarrow>
    ('h, 'w, oci_private_ip) oci_eff" where
  "create_private_ip E B vnic name =
     eff_bind (oci_run_owned E B (private_create_args vnic name)) (\<lambda>out.
     eff_lift (map_err OciJson (private_ip_from_json E (co_stdout out))))"

definition public_create_args :: "string \<Rightarrow> string \<Rightarrow> string option \<Rightarrow> string list" where
  "public_create_args compartment private name =
     [''network'', ''public-ip'', ''create'', ''--compartment-id'', compartment, ''--lifetime'', ''RESERVED'',
      ''--private-ip-id'', private] @ display_name_args name"

definition create_reserved_public_ip :: "('h, 'e) oci_env_scheme \<Rightarrow> string \<Rightarrow> string \<Rightarrow> string \<Rightarrow> string option \<Rightarrow>
    ('h, 'w, oci_public_ip) oci_eff" where
  "create_reserved_public_ip E B compartment private name =
     eff_bind (oci_run_owned E B (public_create_args compartment private name)) (\<lambda>out.
     eff_lift (map_err OciJson (public_ip_from_json E (co_stdout out))))"

definition public_delete_args :: "string \<Rightarrow> string list" where
  "public_delete_args i = [''network'', ''public-ip'', ''delete'', ''--public-ip-id'', i, ''--force'']"

definition delete_public_ip :: "('h, 'e) oci_env_scheme \<Rightarrow> string \<Rightarrow> string \<Rightarrow> ('h, 'w, unit) oci_eff" where
  "delete_public_ip E B i = eff_bind (oci_run_owned E B (public_delete_args i)) (\<lambda>_. eff_ret ())"

definition private_delete_args :: "string \<Rightarrow> string list" where
  "private_delete_args i = [''network'', ''private-ip'', ''delete'', ''--private-ip-id'', i, ''--force'']"

definition delete_private_ip :: "('h, 'e) oci_env_scheme \<Rightarrow> string \<Rightarrow> string \<Rightarrow> ('h, 'w, unit) oci_eff" where
  "delete_private_ip E B i = eff_bind (oci_run_owned E B (private_delete_args i)) (\<lambda>_. eff_ret ())"

definition vnic_get_args :: "string \<Rightarrow> string list" where
  "vnic_get_args v = [''network'', ''vnic'', ''get'', ''--vnic-id'', v]"

definition get_vnic :: "('h, 'e) oci_env_scheme \<Rightarrow> string \<Rightarrow> string \<Rightarrow> ('h, 'w, vnic) oci_eff" where
  "get_vnic E B v =
     eff_bind (oci_run_owned E B (vnic_get_args v)) (\<lambda>out.
     eff_lift (map_err OciJson (vnic_from_json E (co_stdout out))))"

definition validate_vnic_forwarding :: "vnic \<Rightarrow> (oci_error, unit) result" where
  "validate_vnic_forwarding v =
     (if skip_source_dest_check v = Some True then Inr ()
      else Inl (OciCommand (''VNIC '' @ vnic_id v @
        '' has source/destination checks enabled; disable skip-source-dest-check before forwarding'')))"

definition validate_forwarding_vnic :: "('h, 'e) oci_env_scheme \<Rightarrow> string \<Rightarrow> string \<Rightarrow> ('h, 'w, vnic) oci_eff" where
  "validate_forwarding_vnic E B i =
     eff_bind (get_vnic E B i) (\<lambda>v.
     eff_bind (eff_lift (validate_vnic_forwarding v)) (\<lambda>_. eff_ret v))"

definition allocate_forwarding_ip :: "('h, 'e) oci_env_scheme \<Rightarrow> string \<Rightarrow> string \<Rightarrow> string \<Rightarrow> string option \<Rightarrow>
    ('h, 'w, allocation) oci_eff" where
  "allocate_forwarding_ip E B compartment vnic name =
     eff_bind (validate_forwarding_vnic E B vnic) (\<lambda>_.
     eff_bind (create_private_ip E B vnic name) (\<lambda>private.
     eff_catch (create_reserved_public_ip E B compartment (priv_id private) name) (\<lambda>created.
     case created of
       Inr public \<Rightarrow> eff_ret \<lparr>alloc_private_ip = private, alloc_public_ip = public\<rparr>
     | Inl error \<Rightarrow> eff_catch (delete_private_ip E B (priv_id private)) (\<lambda>_. eff_err error))))"

definition nsg_rule_ingress :: "ingress_security_rule \<Rightarrow> nsg_rule_cli" where
  "nsg_rule_ingress r =
     \<lparr>cli_direction = ''INGRESS'', cli_protocol = rule_protocol r, cli_source = rule_source r,
      cli_source_type = ''CIDR_BLOCK'', cli_is_stateless = False, cli_tcp_options = rule_tcp_options r,
      cli_udp_options = rule_udp_options r, cli_description = rule_description r\<rparr>"

definition add_nsg_rules :: "('h, 'e) oci_env_scheme \<Rightarrow> string \<Rightarrow> string \<Rightarrow> ingress_security_rule list \<Rightarrow>
    ('h, 'w, unit) oci_eff" where
  "add_nsg_rules E B nsg rules =
     eff_bind (eff_lift (map_err OciJson (cli_rules_to_json E (map nsg_rule_ingress rules)))) (\<lambda>json.
     eff_bind (oci_run_owned E B [''network'', ''nsg'', ''rules'', ''add'', ''--nsg-id'', nsg,
       ''--security-rules'', json]) (\<lambda>_. eff_ret ()))"

definition remove_nsg_rules :: "('h, 'e) oci_env_scheme \<Rightarrow> string \<Rightarrow> string \<Rightarrow> string list \<Rightarrow> ('h, 'w, unit) oci_eff" where
  "remove_nsg_rules E B nsg ids =
     eff_bind (eff_lift (map_err OciJson (ids_to_json E ids))) (\<lambda>json.
     eff_bind (oci_run_owned E B [''network'', ''nsg'', ''rules'', ''remove'', ''--nsg-id'', nsg,
       ''--security-rule-ids'', json]) (\<lambda>_. eff_ret ()))"


section \<open>What an operation runs\<close>

definition ran_cmd :: "string \<Rightarrow> string list \<Rightarrow> cmd_outcome \<Rightarrow> ('h, 'w) world_scheme \<Rightarrow> ('h, 'w) world_scheme \<Rightarrow> bool" where
  "ran_cmd B args out s t \<longleftrightarrow>
     (\<exists>h. t = s\<lparr>tick := Suc (tick s), hstate := h, trace := trace s @ [Ran B args (files s) out]\<rparr>)"

lemma ran_cmd_keeps:
  assumes "ran_cmd B args out s t"
  shows "files t = files s \<and> t_mappings t = t_mappings s \<and> t_config t = t_config s \<and>
    t_generations t = t_generations s \<and> t_events t = t_events s \<and>
    trace t = trace s @ [Ran B args (files s) out]"
  using assms by (auto simp: ran_cmd_def)

lemma oci_run_owned_effect:
  assumes "oci_run_owned E B args s = (r, t)"
  shows "\<exists>out. ran_cmd B args out s t \<and>
    (case r of Inl _ \<Rightarrow> \<not> cmd_ok out | Inr x \<Rightarrow> cmd_ok out \<and> co_stdout x = cmd_stdout out)"
proof -
  obtain out h where c: "run_cmd E (tick s) (hstate s) B args = (out, h)"
    by (cases "run_cmd E (tick s) (hstate s) B args")
  show ?thesis
    using assms c
    by (cases out)
      (auto simp: oci_run_owned_def eff_bind_def command_def ran_cmd_def cmd_ok_def is_success_def
        split: if_splits)
qed

text \<open>An operation that reads what the tool prints: the command, then the parser on its output.\<close>

lemma oci_item_effect:
  assumes "eff_bind (oci_run_owned E B args) (\<lambda>out. eff_lift (map_err OciJson (parse (co_stdout out)))) s = (r, t)"
  shows "\<exists>out. ran_cmd B args out s t \<and>
    (case r of Inl _ \<Rightarrow> cmd_ok out \<longrightarrow> (\<forall>x. parse (cmd_stdout out) \<noteq> Inr x)
     | Inr x \<Rightarrow> cmd_ok out \<and> parse (cmd_stdout out) = Inr x)"
proof -
  obtain q u where q: "oci_run_owned E B args s = (q, u)" by (cases "oci_run_owned E B args s")
  obtain out where out: "ran_cmd B args out s u"
    "case q of Inl _ \<Rightarrow> \<not> cmd_ok out | Inr x \<Rightarrow> cmd_ok out \<and> co_stdout x = cmd_stdout out"
    using oci_run_owned_effect [OF q] by blast
  show ?thesis
  proof (cases q)
    case (Inl e)
    then show ?thesis using assms q out by (auto simp: eff_bind_def)
  next
    case (Inr x)
    then show ?thesis
      using assms q out
      by (cases "parse (co_stdout x)") (auto simp: eff_bind_def)
  qed
qed

lemma oci_unit_effect:
  assumes "eff_bind (oci_run_owned E B args) (\<lambda>_. eff_ret ()) s = (r, t)"
  shows "\<exists>out. ran_cmd B args out s t \<and> (res_ok r \<longleftrightarrow> cmd_ok out)"
proof -
  obtain q u where q: "oci_run_owned E B args s = (q, u)" by (cases "oci_run_owned E B args s")
  obtain out where out: "ran_cmd B args out s u"
    "case q of Inl _ \<Rightarrow> \<not> cmd_ok out | Inr x \<Rightarrow> cmd_ok out \<and> co_stdout x = cmd_stdout out"
    using oci_run_owned_effect [OF q] by blast
  then show ?thesis using assms q by (cases q) (auto simp: eff_bind_def)
qed

lemma get_vnic_effect:
  "get_vnic E B v s = (r, t) \<Longrightarrow> \<exists>out. ran_cmd B (vnic_get_args v) out s t \<and>
    (case r of Inl _ \<Rightarrow> cmd_ok out \<longrightarrow> (\<forall>x. vnic_from_json E (cmd_stdout out) \<noteq> Inr x)
     | Inr x \<Rightarrow> cmd_ok out \<and> vnic_from_json E (cmd_stdout out) = Inr x)"
  unfolding get_vnic_def by (rule oci_item_effect)

lemma create_private_ip_effect:
  "create_private_ip E B v name s = (r, t) \<Longrightarrow> \<exists>out. ran_cmd B (private_create_args v name) out s t \<and>
    (case r of Inl _ \<Rightarrow> cmd_ok out \<longrightarrow> (\<forall>x. private_ip_from_json E (cmd_stdout out) \<noteq> Inr x)
     | Inr x \<Rightarrow> cmd_ok out \<and> private_ip_from_json E (cmd_stdout out) = Inr x)"
  unfolding create_private_ip_def by (rule oci_item_effect)

lemma create_public_ip_effect:
  "create_reserved_public_ip E B c p name s = (r, t) \<Longrightarrow> \<exists>out. ran_cmd B (public_create_args c p name) out s t \<and>
    (case r of Inl _ \<Rightarrow> cmd_ok out \<longrightarrow> (\<forall>x. public_ip_from_json E (cmd_stdout out) \<noteq> Inr x)
     | Inr x \<Rightarrow> cmd_ok out \<and> public_ip_from_json E (cmd_stdout out) = Inr x)"
  unfolding create_reserved_public_ip_def by (rule oci_item_effect)

lemma delete_public_ip_effect:
  "delete_public_ip E B i s = (r, t) \<Longrightarrow>
     \<exists>out. ran_cmd B (public_delete_args i) out s t \<and> (res_ok r \<longleftrightarrow> cmd_ok out)"
  unfolding delete_public_ip_def by (rule oci_unit_effect)

lemma delete_private_ip_effect:
  "delete_private_ip E B i s = (r, t) \<Longrightarrow>
     \<exists>out. ran_cmd B (private_delete_args i) out s t \<and> (res_ok r \<longleftrightarrow> cmd_ok out)"
  unfolding delete_private_ip_def by (rule oci_unit_effect)

section \<open>The courses of an allocation\<close>

text \<open>\<open>alloc_course E B fs c v n r cmds\<close>: an allocation in compartment \<open>c\<close> on the card \<open>v\<close> with
  display name \<open>n\<close> may run the commands \<open>cmds\<close> (while the files are \<open>fs\<close>) and answer \<open>r\<close>.\<close>

inductive alloc_course ::
  "('h, 'e) oci_env_scheme \<Rightarrow> string \<Rightarrow> (string \<Rightarrow> string option) \<Rightarrow> string \<Rightarrow> string \<Rightarrow> string option \<Rightarrow>
     (oci_error, allocation) result \<Rightarrow> action list \<Rightarrow> bool"
  for E B fs c v n where
  vnic_refused: "alloc_course E B fs c v n (Inl e) [Ran B (vnic_get_args v) fs o1]"
| private_failed:
    "cmd_ok o2 \<longrightarrow> (\<forall>p. private_ip_from_json E (cmd_stdout o2) \<noteq> Inr p) \<Longrightarrow>
     alloc_course E B fs c v n (Inl e)
       [Ran B (vnic_get_args v) fs o1, Ran B (private_create_args v n) fs o2]"
| public_failed:
    "cmd_ok o2 \<Longrightarrow> private_ip_from_json E (cmd_stdout o2) = Inr p \<Longrightarrow>
     cmd_ok o3 \<longrightarrow> (\<forall>q. public_ip_from_json E (cmd_stdout o3) \<noteq> Inr q) \<Longrightarrow>
     alloc_course E B fs c v n (Inl e)
       [Ran B (vnic_get_args v) fs o1, Ran B (private_create_args v n) fs o2,
        Ran B (public_create_args c (priv_id p) n) fs o3, Ran B (private_delete_args (priv_id p)) fs o4]"
| allocated:
    "cmd_ok o1 \<Longrightarrow> vnic_from_json E (cmd_stdout o1) = Inr w \<Longrightarrow> skip_source_dest_check w = Some True \<Longrightarrow>
     cmd_ok o2 \<Longrightarrow> private_ip_from_json E (cmd_stdout o2) = Inr p \<Longrightarrow>
     cmd_ok o3 \<Longrightarrow> public_ip_from_json E (cmd_stdout o3) = Inr q \<Longrightarrow>
     alloc_course E B fs c v n (Inr \<lparr>alloc_private_ip = p, alloc_public_ip = q\<rparr>)
       [Ran B (vnic_get_args v) fs o1, Ran B (private_create_args v n) fs o2,
        Ran B (public_create_args c (priv_id p) n) fs o3]"

inductive_cases alloc_course_failed: "alloc_course E B fs c v n (Inl e) cmds"
inductive_cases alloc_course_done: "alloc_course E B fs c v n (Inr a) cmds"

text \<open>\<open>ran_cmds cmds s t\<close>: \<open>t\<close> is \<open>s\<close> after commands that touched neither files nor tables.\<close>

definition ran_cmds :: "action list \<Rightarrow> ('h, 'w) world_scheme \<Rightarrow> ('h, 'w) world_scheme \<Rightarrow> bool" where
  "ran_cmds cmds s t \<longleftrightarrow> (\<exists>n h. t = s\<lparr>tick := n, hstate := h, trace := trace s @ cmds\<rparr>)"

lemma ran_cmds_refl: "ran_cmds [] s s"
  unfolding ran_cmds_def by (intro exI [of _ "tick s"] exI [of _ "hstate s"]) simp

lemma ran_cmds_step: "ran_cmds cmds s t \<Longrightarrow> ran_cmd B args out t u \<Longrightarrow>
    ran_cmds (cmds @ [Ran B args (files s) out]) s u"
  unfolding ran_cmds_def ran_cmd_def
  by (elim exE) (rule exI [of _ "Suc (tick t)"], rule exI [of _ "hstate u"], simp)

lemma ran_cmds_keeps:
  assumes "ran_cmds cmds s t"
  shows "files t = files s \<and> t_mappings t = t_mappings s \<and> t_config t = t_config s \<and>
    t_generations t = t_generations s \<and> t_events t = t_events s \<and> trace t = trace s @ cmds"
  using assms by (auto simp: ran_cmds_def)

lemma validate_vnic_forwarding_ok:
  "validate_vnic_forwarding w = Inr u \<longleftrightarrow> skip_source_dest_check w = Some True"
  by (simp add: validate_vnic_forwarding_def)

lemma validate_forwarding_vnic_effect:
  assumes "validate_forwarding_vnic E B v s = (r, t)"
  shows "\<exists>out. ran_cmd B (vnic_get_args v) out s t \<and>
    (case r of Inl _ \<Rightarrow> True
     | Inr w \<Rightarrow> cmd_ok out \<and> vnic_from_json E (cmd_stdout out) = Inr w \<and>
         skip_source_dest_check w = Some True)"
proof -
  obtain q u where q: "get_vnic E B v s = (q, u)" by (cases "get_vnic E B v s")
  from get_vnic_effect [OF q] show ?thesis
    using assms q
    by (auto simp: validate_forwarding_vnic_def eff_bind_def validate_vnic_forwarding_ok
        split: sum.splits)
qed

lemma alloc_tail:
  fixes s :: "('h, 'w) world_scheme"
  assumes run: "eff_catch (create_reserved_public_ip E B c (priv_id x) n) (\<lambda>created.
          case created of
            Inr public \<Rightarrow> eff_ret \<lparr>alloc_private_ip = x, alloc_public_ip = public\<rparr>
          | Inl error \<Rightarrow> eff_catch (delete_private_ip E B (priv_id x)) (\<lambda>_. eff_err error)) u = (r, t)"
    and before: "ran_cmds cmds s u"
  shows "\<exists>o3. (\<exists>q. r = Inr \<lparr>alloc_private_ip = x, alloc_public_ip = q\<rparr> \<and> cmd_ok o3 \<and>
        public_ip_from_json E (cmd_stdout o3) = Inr q \<and>
        ran_cmds (cmds @ [Ran B (public_create_args c (priv_id x) n) (files s) o3]) s t) \<or>
     (\<exists>e o4. r = Inl e \<and> (cmd_ok o3 \<longrightarrow> (\<forall>q. public_ip_from_json E (cmd_stdout o3) \<noteq> Inr q)) \<and>
        ran_cmds (cmds @ [Ran B (public_create_args c (priv_id x) n) (files s) o3,
          Ran B (private_delete_args (priv_id x)) (files s) o4]) s t)"
proof -
  obtain r3 s3 where p: "create_reserved_public_ip E B c (priv_id x) n u = (r3, s3)"
    by (cases "create_reserved_public_ip E B c (priv_id x) n u")
  obtain o3 where o3: "ran_cmd B (public_create_args c (priv_id x) n) o3 u s3" and
    r3: "case r3 of Inl _ \<Rightarrow> cmd_ok o3 \<longrightarrow> (\<forall>q. public_ip_from_json E (cmd_stdout o3) \<noteq> Inr q)
      | Inr q \<Rightarrow> cmd_ok o3 \<and> public_ip_from_json E (cmd_stdout o3) = Inr q"
    using create_public_ip_effect [OF p] by blast
  note c3 = ran_cmds_step [OF before o3]
  show ?thesis
  proof (cases r3)
    case (Inr q)
    then show ?thesis using run p c3 r3 by (auto simp: eff_catch_def)
  next
    case (Inl e)
    obtain r4 s4 where d: "delete_private_ip E B (priv_id x) s3 = (r4, s4)"
      by (cases "delete_private_ip E B (priv_id x) s3")
    obtain o4 where "ran_cmd B (private_delete_args (priv_id x)) o4 s3 s4"
      using delete_private_ip_effect [OF d] by blast
    from ran_cmds_step [OF c3 this] show ?thesis
      using run p d r3 Inl by (auto simp: eff_catch_def)
  qed
qed

lemma allocate_follows_course:
  fixes s :: "('h, 'w) world_scheme"
  assumes run: "allocate_forwarding_ip E B c v n s = (r, t)"
  shows "\<exists>cmds. alloc_course E B (files s) c v n r cmds \<and> ran_cmds cmds s t"
proof -
  obtain r1 s1 where v: "validate_forwarding_vnic E B v s = (r1, s1)"
    by (cases "validate_forwarding_vnic E B v s")
  obtain o1 where o1: "ran_cmd B (vnic_get_args v) o1 s s1" and r1: "case r1 of Inl _ \<Rightarrow> True
     | Inr w \<Rightarrow> cmd_ok o1 \<and> vnic_from_json E (cmd_stdout o1) = Inr w \<and> skip_source_dest_check w = Some True"
    using validate_forwarding_vnic_effect [OF v] by blast
  note c1 = ran_cmds_step [OF ran_cmds_refl o1, simplified]
  show ?thesis
  proof (cases r1)
    case (Inl e)
    then have "r = Inl e \<and> t = s1" using run v by (simp add: allocate_forwarding_ip_def eff_bind_def)
    then show ?thesis using c1 vnic_refused by fast
  next
    case vn: (Inr w)
    obtain r2 s2 where p: "create_private_ip E B v n s1 = (r2, s2)" by (cases "create_private_ip E B v n s1")
    obtain o2 where o2: "ran_cmd B (private_create_args v n) o2 s1 s2" and
      r2: "case r2 of Inl _ \<Rightarrow> cmd_ok o2 \<longrightarrow> (\<forall>x. private_ip_from_json E (cmd_stdout o2) \<noteq> Inr x)
        | Inr x \<Rightarrow> cmd_ok o2 \<and> private_ip_from_json E (cmd_stdout o2) = Inr x"
      using create_private_ip_effect [OF p] by blast
    note c2 = ran_cmds_step [OF c1 o2, simplified]
    show ?thesis
    proof (cases r2)
      case (Inl e)
      then have "r = Inl e \<and> t = s2"
        using run v p vn by (simp add: allocate_forwarding_ip_def eff_bind_def)
      then show ?thesis using c2 r2 Inl private_failed [of o2 E B "files s" c v n e o1] by auto
    next
      case pr: (Inr x)
      have rest: "eff_catch (create_reserved_public_ip E B c (priv_id x) n) (\<lambda>created.
          case created of
            Inr public \<Rightarrow> eff_ret \<lparr>alloc_private_ip = x, alloc_public_ip = public\<rparr>
          | Inl error \<Rightarrow> eff_catch (delete_private_ip E B (priv_id x)) (\<lambda>_. eff_err error)) s2 = (r, t)"
        using run v p vn pr by (simp add: allocate_forwarding_ip_def eff_bind_def)
      show ?thesis
        using alloc_tail [OF rest c2] r1 r2 vn pr by (auto intro: alloc_course.intros)
    qed
  qed
qed


section \<open>A concrete cloud\<close>

text \<open>A cloud that hands out one private and one public address. \<open>quota\<close> says whether it grants the
  public one; every other command succeeds.\<close>

definition sample_private :: oci_private_ip where
  "sample_private = \<lparr>priv_id = ''ocid1.privateip.7'', priv_ip_address = Ipv4Addr 10 0 0 7,
     priv_vnic_id = None, priv_display_name = None\<rparr>"

definition sample_public :: oci_public_ip where
  "sample_public = \<lparr>pub_id = ''ocid1.publicip.7'', pub_ip_address = Ipv4Addr 129 80 1 7,
     pub_private_ip_id = None, pub_lifetime = None, pub_scope = None, pub_lifecycle_state = None,
     pub_display_name = None\<rparr>"

definition sample_cloud_run ::
  "bool \<Rightarrow> nat \<Rightarrow> (string \<Rightarrow> ipv4_addr list) \<Rightarrow> string \<Rightarrow> string list \<Rightarrow> cmd_outcome \<times> (string \<Rightarrow> ipv4_addr list)" where
  "sample_cloud_run quota n h prog args =
     (if prog \<noteq> ''oci'' then sample_host_run n h prog args
      else if take 3 args = [''network'', ''public-ip'', ''create''] \<and> \<not> quota
      then (Exited (Some 1) [] ''LimitExceeded'', h)
      else (Exited (Some 0) (concat (take 3 args)) [], h))"

definition sample_netbird_env :: "bool \<Rightarrow> (string \<Rightarrow> ipv4_addr list) netbird_env" where
  "sample_netbird_env quota = host_env.extend (sample_host_env\<lparr>run_cmd := sample_cloud_run quota\<rparr>)
     \<lparr>run_output = (\<lambda>_ h _ _. (Inr \<lparr>co_status = Some 0, co_stdout = [], co_stderr = []\<rparr>, h)),
      status_from_json = (\<lambda>_. Inl ''not a status'')\<rparr>"

definition sample_cloud :: "bool \<Rightarrow> (string \<Rightarrow> ipv4_addr list) oci_env" where
  "sample_cloud quota = netbird_env.extend (sample_netbird_env quota)
     \<lparr>env_var = (\<lambda>_. None), env_var_os = (\<lambda>_. None), body_to_json = (\<lambda>_. Inr ''{}''),
      cli_rules_to_json = (\<lambda>_. Inr ''[]''), ids_to_json = (\<lambda>_. Inr ''[]''),
      public_ip_list_from_json = (\<lambda>_. Inr [sample_public]), public_ip_from_json = (\<lambda>_. Inr sample_public),
      private_ip_from_json = (\<lambda>_. Inr sample_private),
      vnic_from_json = (\<lambda>_. Inr \<lparr>vnic_id = ''ocid1.vnic.1'', vnic_display_name = None,
        skip_source_dest_check = Some True\<rparr>)\<rparr>"

lemma sample_cloud_simps [simp]:
  "run_cmd (sample_cloud quota) = sample_cloud_run quota"
  "private_ip_from_json (sample_cloud quota) j = Inr sample_private"
  "public_ip_from_json (sample_cloud quota) j = Inr sample_public"
  "vnic_from_json (sample_cloud quota) j = Inr \<lparr>vnic_id = ''ocid1.vnic.1'', vnic_display_name = None,
     skip_source_dest_check = Some True\<rparr>"
  by (simp_all add: sample_cloud_def sample_netbird_env_def netbird_env.defs host_env.defs)

section \<open>Allocation is rolled back\<close>

text \<open>C5. An allocation of a forwarding address leaves files and tables alone, and its commands are
  accounted for. If it succeeds, the card was read and has its source and destination check off, one
  private address was created on it and one reserved public address for that private address, and
  the two are what is returned. If it fails, then whenever the tool reported a created private address
  the last command deletes exactly that address, and no command reported a created public address.\<close>

theorem oci_allocation_rolls_back:
  assumes "allocate_forwarding_ip E B c v n s = (r, t)"
  shows "\<exists>cmds. trace t = trace s @ cmds \<and> files t = files s \<and> t_mappings t = t_mappings s \<and>
    (case r of
       Inr a \<Rightarrow> (\<exists>o1 o2 o3 w.
         cmds = [Ran B (vnic_get_args v) (files s) o1, Ran B (private_create_args v n) (files s) o2,
           Ran B (public_create_args c (priv_id (alloc_private_ip a)) n) (files s) o3] \<and>
         vnic_from_json E (cmd_stdout o1) = Inr w \<and> skip_source_dest_check w = Some True \<and>
         cmd_ok o2 \<and> private_ip_from_json E (cmd_stdout o2) = Inr (alloc_private_ip a) \<and>
         cmd_ok o3 \<and> public_ip_from_json E (cmd_stdout o3) = Inr (alloc_public_ip a))
     | Inl _ \<Rightarrow>
         (\<forall>out p. Ran B (private_create_args v n) (files s) out \<in> set cmds \<and> cmd_ok out \<and>
            private_ip_from_json E (cmd_stdout out) = Inr p \<longrightarrow>
            (\<exists>o4. last cmds = Ran B (private_delete_args (priv_id p)) (files s) o4)) \<and>
         (\<forall>out i p. Ran B (public_create_args c i n) (files s) out \<in> set cmds \<and> cmd_ok out \<longrightarrow>
            public_ip_from_json E (cmd_stdout out) \<noteq> Inr p))"
proof -
  obtain cmds where c: "alloc_course E B (files s) c v n r cmds" and w: "ran_cmds cmds s t"
    using allocate_follows_course [OF assms] by blast
  note args = vnic_get_args_def private_create_args_def public_create_args_def private_delete_args_def
  show ?thesis
  proof (cases r)
    case (Inl e)
    then show ?thesis
      using c ran_cmds_keeps [OF w] by (auto simp: args elim!: alloc_course_failed)
  next
    case (Inr a)
    then show ?thesis
      using c ran_cmds_keeps [OF w] by (auto elim!: alloc_course_done)
  qed
qed

lemmas alloc_eval = allocate_forwarding_ip_def validate_forwarding_vnic_def get_vnic_def create_private_ip_def
  create_reserved_public_ip_def delete_private_ip_def oci_run_owned_def command_def sample_cloud_run_def
  eff_bind_def eff_catch_def vnic_get_args_def private_create_args_def public_create_args_def
  private_delete_args_def display_name_args_def is_success_def error_message_def validate_vnic_forwarding_def

theorem oci_allocation_rolls_back_witness:
  "\<exists>t. allocate_forwarding_ip (sample_cloud False) ''oci'' ''c'' ''v'' None sample_world =
       (Inl (OciCommand ''LimitExceeded''), t) \<and>
     (\<exists>fs out. last (trace t) = Ran ''oci'' (private_delete_args ''ocid1.privateip.7'') fs out)"
proof -
  let ?E = "sample_cloud False"
  define run where "run = allocate_forwarding_ip ?E ''oci'' ''c'' ''v'' None sample_world"
  have "trim ''LimitExceeded'' = ''LimitExceeded''" by (rule trim_graphic) (simp_all add: ascii_graphic_def)
  then have "fst run = Inl (OciCommand ''LimitExceeded'')" by (simp add: run_def alloc_eval)
  then obtain t where t: "run = (Inl (OciCommand ''LimitExceeded''), t)" by (cases run) auto
  have empty: "trace sample_world = []" by (simp add: sample_world_def db.defs)
  have "Ran ''oci'' (private_create_args ''v'' None) (files sample_world)
      (Exited (Some 0) (concat [''network'', ''private-ip'', ''create'']) []) \<in> set (trace (snd run))"
    by (simp add: run_def alloc_eval)
  with t oci_allocation_rolls_back [OF t [unfolded run_def]] empty
  have "\<exists>o4. last (trace t) = Ran ''oci'' (private_delete_args (priv_id sample_private)) (files sample_world) o4"
    by (auto simp: cmd_ok_def is_success_def)
  then show ?thesis using t by (auto simp: run_def sample_private_def)
qed

end
