(* ===== verification/Agent_Api.thy ===== *)
theory Agent_Api
  imports Http_Auth Reconcile Oci
begin

text \<open>
  \<open>src/crates/edge-agent/src/api.rs\<close>: the handlers of the agent's HTTP interface, over the SQLite
  store, the reconciler, the NetBird and Oracle command line tools.

  A handler is one definition: the whole function from the authentication check on, with the
  extracted path, query or JSON body as an argument. Extractors run before a handler and have no
  effect on the machine; they and the serialisation of responses belong to \<open>axum\<close> and \<open>serde\<close>.
  \<open>api_request\<close> has one constructor per route and \<open>handle\<close> dispatches it. An answer is a response
  value, an \<open>api_error\<close> with its status code, or a panic of the renderer.
\<close>

section \<open>Errors\<close>

record api_error =
  err_status :: nat
  err_message :: string

fun api_error_of_core :: "edge_core_error \<Rightarrow> api_error" where
  "api_error_of_core (NotFound i) = \<lparr>err_status = 404, err_message = core_error_to_string (NotFound i)\<rparr>"
| "api_error_of_core (Store m) = \<lparr>err_status = 500, err_message = core_error_to_string (Store m)\<rparr>"
| "api_error_of_core e = \<lparr>err_status = 400, err_message = core_error_to_string e\<rparr>"

definition api_unauthorized :: api_error where
  "api_unauthorized = \<lparr>err_status = 401, err_message = ''missing or invalid bearer token''\<rparr>"

definition api_bad_gateway :: "string \<Rightarrow> api_error" where
  "api_bad_gateway msg = \<lparr>err_status = 502, err_message = msg\<rparr>"

definition api_bad_request :: "string \<Rightarrow> api_error" where
  "api_bad_request msg = \<lparr>err_status = 400, err_message = msg\<rparr>"

definition api_from_oci :: "oci_error \<Rightarrow> api_error" where
  "api_from_oci e = \<lparr>err_status = 502, err_message = oci_error_to_string e\<rparr>"

definition api_from_reconcile :: "reconcile_error \<Rightarrow> api_error" where
  "api_from_reconcile e = \<lparr>err_status = 500, err_message = reconcile_error_to_string e\<rparr>"

type_synonym ('h, 'w, 'a) api_eff = "(('h, 'w) world_scheme, api_error failure, 'a) eff"

definition api_core :: "('w db_scheme, edge_core_error, 'a) eff \<Rightarrow> ('w db_scheme, api_error failure, 'a) eff" where
  "api_core m = eff_map_err (\<lambda>e. Fail (api_error_of_core e)) m"

definition api_oci :: "('h, 'w, 'a) oci_eff \<Rightarrow> ('h, 'w, 'a) api_eff" where
  "api_oci m = eff_map_err (\<lambda>e. Fail (api_from_oci e)) m"

definition api_netbird :: "('h, 'w, 'a) netbird_eff \<Rightarrow> ('h, 'w, 'a) api_eff" where
  "api_netbird m = eff_map_err (\<lambda>e. Fail (api_bad_gateway (netbird_error_to_string e))) m"

definition lift_failure :: "('e \<Rightarrow> 'f) \<Rightarrow> 'e failure \<Rightarrow> 'f failure" where
  "lift_failure f x = (case x of Fail e \<Rightarrow> Fail (f e) | Panic msg \<Rightarrow> Panic msg)"

definition api_fail :: "api_error \<Rightarrow> ('h, 'w, 'a) api_eff" where
  "api_fail e = eff_err (Fail e)"

section \<open>Requests and responses\<close>

record create_mapping_request =
  cr_name :: string
  cr_public_ip :: "ipv4_addr option"
  cr_edge_private_ip :: ipv4_addr
  cr_target_ip :: ipv4_addr
  cr_public_port :: "u16 option"
  cr_target_port :: "u16 option"
  cr_mode :: "mapping_mode option"
  cr_protocol :: "protocol option"
  cr_backend :: "mapping_backend option"

record reconcile_request =
  rq_dry_run :: bool
  rq_skip_linux :: bool
  rq_skip_nft :: bool
  rq_include_config :: bool
  rq_enable_xdp :: bool
  rq_xdp_interface :: "string option"
  rq_xdp_pin_path :: "string option"
  rq_output :: "string option"

record oci_allocate_request =
  al_mapping_id :: string
  al_compartment_id :: "string option"
  al_vnic_id :: "string option"
  al_display_name :: "string option"
  al_confirm :: string

record oci_release_request =
  re_mapping_id :: "string option"
  re_public_ip_id :: "string option"
  re_private_ip_id :: "string option"
  re_confirm :: string

record oci_nsg_add_request =
  na_nsg_id :: "string option"
  na_protocol :: string
  na_source :: string
  na_port_min :: "u16 option"
  na_port_max :: "u16 option"
  na_description :: "string option"
  na_confirm :: string

record oci_nsg_remove_request =
  nr_nsg_id :: "string option"
  nr_rule_ids :: "string list"
  nr_confirm :: string

record status_response =
  sr_wan_interface :: string
  sr_netbird_interface :: string
  sr_target_cidrs :: "string list"
  sr_mappings :: nat
  sr_enabled_mappings :: nat

record reconcile_response =
  rr_generation_id :: "int option"
  rr_added_addresses :: "string list"
  rr_removed_addresses :: "string list"
  rr_xdp_plan_entries :: nat
  rr_nftables_config :: "string option"

record analytics_response =
  an_mapping_total :: nat
  an_mapping_enabled :: nat
  an_mapping_status :: "(string, nat) btree"
  an_mapping_backend :: "(string, nat) btree"
  an_event_level :: "(string, nat) btree"
  an_problem_mappings :: nat

record topology_flow =
  tf_id :: string
  tf_name :: string
  tf_public_endpoint :: string
  tf_edge_private_ip :: string
  tf_target_endpoint :: string
  tf_protocol :: string
  tf_mode :: string
  tf_backend :: string
  tf_status :: string
  tf_enabled :: bool

record topology_response =
  tr_wan_interface :: string
  tr_netbird_interface :: string
  tr_target_cidrs :: "string list"
  tr_flows :: "topology_flow list"

record oci_env_status =
  ev_tenancy_id :: bool
  ev_user_id :: bool
  ev_fingerprint :: bool
  ev_private_key_path :: bool

record oci_status_response =
  os_auth_mode :: oci_auth_mode
  os_region :: "string option"
  os_compartment_id_configured :: bool
  os_vnic_id_configured :: bool
  os_subnet_id_configured :: bool
  os_nsg_count :: nat
  os_api_key_env_ready :: bool
  os_env :: oci_env_status
  os_cli_available :: bool
  os_cli_version :: "string option"
  os_compartment_id :: "string option"
  os_vnic_id :: "string option"
  os_subnet_id :: "string option"
  os_nsg_ids :: "string list"

text \<open>The values of \<open>json!\<close>.\<close>

datatype json =
    JNull
  | JBool bool
  | JNum nat
  | JStr string
  | JArray "json list"
  | JObject "(string \<times> json) list"

definition json_opt :: "string option \<Rightarrow> json" where
  "json_opt v = (case v of None \<Rightarrow> JNull | Some x \<Rightarrow> JStr x)"

section \<open>Authentication and small helpers\<close>

definition require_auth :: "('m, 'x) header_ops_scheme \<Rightarrow> string option \<Rightarrow> 'm \<Rightarrow> (api_error, unit) result" where
  "require_auth H token headers =
     (case token of
        None \<Rightarrow> Inr ()
      | Some expected \<Rightarrow>
          (case Option.bind (Option.bind (header_get H headers ''authorization'') (header_to_str H))
                  (strip_prefix ''Bearer '') of
             None \<Rightarrow> Inl api_unauthorized
           | Some actual \<Rightarrow>
               (if constant_time_eq actual expected then Inr () else Inl api_unauthorized)))"

definition require_confirm :: "string \<Rightarrow> string \<Rightarrow> (api_error, unit) result" where
  "require_confirm v expected =
     (if eq_ignore_ascii_case (trim v) expected then Inr ()
      else Inl (api_bad_request (''confirmation failed: type '' @ [CHR 0x22] @ expected @ [CHR 0x22] @
        '' to proceed'')))"

definition resolve :: "string option \<Rightarrow> string option \<Rightarrow> string option" where
  "resolve v fallback =
     (case v of
        None \<Rightarrow> fallback
      | Some x \<Rightarrow> (if trim x \<noteq> [] then Some (trim x) else fallback))"

definition list_first :: "'a list \<Rightarrow> 'a option" where
  "list_first xs = (case xs of [] \<Rightarrow> None | x # _ \<Rightarrow> Some x)"

definition endpoint :: "string option \<Rightarrow> u16 option \<Rightarrow> string" where
  "endpoint ip port =
     (case (ip, port) of
        (Some i, Some p) \<Rightarrow> i @ '':'' @ show_u16 p
      | (Some i, None) \<Rightarrow> i
      | _ \<Rightarrow> ''-'')"

definition topology_flow_of :: "mapping \<Rightarrow> topology_flow" where
  "topology_flow_of m =
     \<lparr>tf_id = id_str (m_id m), tf_name = m_name m,
      tf_public_endpoint = endpoint (map_option ip_to_string (public_ip m)) (public_port m),
      tf_edge_private_ip = ip_to_string (edge_private_ip m),
      tf_target_endpoint = endpoint (Some (ip_to_string (target_ip m))) (target_port m),
      tf_protocol = protocol_wire (m_protocol m), tf_mode = mode_wire (m_mode m),
      tf_backend = backend_wire (m_backend m), tf_status = status_wire (m_status m),
      tf_enabled = enabled m\<rparr>"

text \<open>The counters are \<open>usize\<close>; a list in memory has fewer elements than they can count.\<close>

definition count_step :: "string \<Rightarrow> (string, nat) btree \<Rightarrow> (string, nat) btree" where
  "count_step v counts = bt_insert v (Suc (case map_of counts v of None \<Rightarrow> 0 | Some n \<Rightarrow> n)) counts"

definition count_by :: "string list \<Rightarrow> (string, nat) btree" where
  "count_by vs = fold count_step vs []"

definition api_xdp_config :: "bool \<Rightarrow> string option \<Rightarrow> string option \<Rightarrow> edge_config \<Rightarrow> xdp_config" where
  "api_xdp_config on interface pin cfg =
     (let i = (case interface of None \<Rightarrow> wan_interface cfg | Some x \<Rightarrow> x);
          p = (case pin of None \<Rightarrow> ''/sys/fs/bpf/edgeroute'' | Some x \<Rightarrow> x)
      in if on then xdp_config_enabled i p else xdp_config_disabled i)"

definition reconciler_default :: reconciler where
  "reconciler_default = \<lparr>rc_linux = linux_default, rc_nft = nft_default\<rparr>"

definition api_auth :: "('m, 'x) header_ops_scheme \<Rightarrow> edge_config \<Rightarrow> 'm \<Rightarrow> ('h, 'w, unit) api_eff" where
  "api_auth H cfg headers = eff_lift (map_err Fail (require_auth H (api_token cfg) headers))"

definition parse_id :: "string \<Rightarrow> ('h, 'w, mapping_id) api_eff" where
  "parse_id v = eff_lift (map_err (\<lambda>e. Fail (api_error_of_core e)) (mapping_id_from_str v))"

section \<open>Mappings\<close>

definition api_status :: "('h, 'e) oci_env_scheme \<Rightarrow> ('m, 'x) header_ops_scheme \<Rightarrow> edge_config \<Rightarrow> 'm \<Rightarrow>
    ('h, 'w, status_response) api_eff" where
  "api_status E H cfg hs =
     eff_bind (api_auth H cfg hs) (\<lambda>_.
     eff_bind (api_core (list_mappings E)) (\<lambda>ms.
     eff_ret \<lparr>sr_wan_interface = wan_interface cfg, sr_netbird_interface = netbird_interface cfg,
              sr_target_cidrs = map (net_to_string E) (target_cidrs cfg), sr_mappings = length ms,
              sr_enabled_mappings = length (filter enabled ms)\<rparr>))"

definition api_list_mappings :: "('h, 'e) oci_env_scheme \<Rightarrow> ('m, 'x) header_ops_scheme \<Rightarrow> edge_config \<Rightarrow> 'm \<Rightarrow>
    ('h, 'w, mapping list) api_eff" where
  "api_list_mappings E H cfg hs =
     eff_bind (api_auth H cfg hs) (\<lambda>_. api_core (list_mappings E))"

definition api_create_mapping :: "('h, 'e) oci_env_scheme \<Rightarrow> ('m, 'x) header_ops_scheme \<Rightarrow> edge_config \<Rightarrow> 'm \<Rightarrow>
    create_mapping_request \<Rightarrow> ('h, 'w, mapping) api_eff" where
  "api_create_mapping E H cfg hs rq =
     eff_bind (api_auth H cfg hs) (\<lambda>_.
     eff_bind (now_utc E) (\<lambda>now.
     eff_bind (fresh_uuid E) (\<lambda>uuid.
     let m = (mapping_new uuid now (cr_name rq) (cr_public_ip rq) (cr_edge_private_ip rq) (cr_target_ip rq))
           \<lparr>public_port := cr_public_port rq, target_port := cr_target_port rq,
            m_mode := (case cr_mode rq of None \<Rightarrow> OneToOneSnat | Some x \<Rightarrow> x),
            m_protocol := (case cr_protocol rq of None \<Rightarrow> ProtoAll | Some x \<Rightarrow> x),
            m_backend := (case cr_backend rq of None \<Rightarrow> Nft | Some x \<Rightarrow> x)\<rparr>
     in eff_bind (api_core (insert_mapping E m)) (\<lambda>_. eff_ret m))))"

definition api_get_mapping :: "('h, 'e) oci_env_scheme \<Rightarrow> ('m, 'x) header_ops_scheme \<Rightarrow> edge_config \<Rightarrow> 'm \<Rightarrow>
    string \<Rightarrow> ('h, 'w, mapping) api_eff" where
  "api_get_mapping E H cfg hs path =
     eff_bind (api_auth H cfg hs) (\<lambda>_.
     eff_bind (parse_id path) (\<lambda>i. api_core (get_mapping E i)))"

definition delete_options :: reconcile_options where
  "delete_options =
     \<lparr>nft_output = ''/run/edge-router/generated.nft'', dry_run = False, apply_nft = True,
      apply_linux = True, opt_xdp = xdp_config_disabled []\<rparr>"

definition api_delete_mapping :: "('h, 'e) oci_env_scheme \<Rightarrow> ('m, 'x) header_ops_scheme \<Rightarrow> edge_config \<Rightarrow> 'm \<Rightarrow>
    string \<Rightarrow> ('h, 'w, mapping) api_eff" where
  "api_delete_mapping E H cfg hs path =
     eff_bind (api_auth H cfg hs) (\<lambda>_.
     eff_bind (parse_id path) (\<lambda>i.
     eff_bind (api_core (set_mapping_enabled E i False)) (\<lambda>_.
     eff_catch (reconcile E reconciler_default cfg delete_options) (\<lambda>reconciled.
     case reconciled of
       Inl (Panic msg) \<Rightarrow> eff_err (Panic msg)
     | Inl (Fail error) \<Rightarrow>
         eff_bind (api_core (record_event E EvError ''delete reconcile failed''
           (Some (reconcile_error_to_string error)))) (\<lambda>_.
         api_fail (api_from_reconcile error))
     | Inr _ \<Rightarrow> api_core (delete_mapping E i)))))"

definition api_set_enabled :: "bool \<Rightarrow> ('h, 'e) oci_env_scheme \<Rightarrow> ('m, 'x) header_ops_scheme \<Rightarrow> edge_config \<Rightarrow>
    'm \<Rightarrow> string \<Rightarrow> ('h, 'w, mapping) api_eff" where
  "api_set_enabled on E H cfg hs path =
     eff_bind (api_auth H cfg hs) (\<lambda>_.
     eff_bind (parse_id path) (\<lambda>i. api_core (set_mapping_enabled E i on)))"

definition api_enable_mapping :: "('h, 'e) oci_env_scheme \<Rightarrow> ('m, 'x) header_ops_scheme \<Rightarrow> edge_config \<Rightarrow> 'm \<Rightarrow>
    string \<Rightarrow> ('h, 'w, mapping) api_eff" where
  "api_enable_mapping = api_set_enabled True"

definition api_disable_mapping :: "('h, 'e) oci_env_scheme \<Rightarrow> ('m, 'x) header_ops_scheme \<Rightarrow> edge_config \<Rightarrow> 'm \<Rightarrow>
    string \<Rightarrow> ('h, 'w, mapping) api_eff" where
  "api_disable_mapping = api_set_enabled False"

section \<open>Applying\<close>

definition api_dry_run_apply :: "('h, 'e) oci_env_scheme \<Rightarrow> ('m, 'x) header_ops_scheme \<Rightarrow> edge_config \<Rightarrow> 'm \<Rightarrow>
    ('h, 'w, string) api_eff" where
  "api_dry_run_apply E H cfg hs =
     eff_bind (api_auth H cfg hs) (\<lambda>_.
     eff_bind (api_core (list_mappings E)) (\<lambda>ms.
     eff_lift (map_err (lift_failure api_error_of_core) (render_nftables E ms cfg default_table_name))))"

definition api_reconcile :: "('h, 'e) oci_env_scheme \<Rightarrow> ('m, 'x) header_ops_scheme \<Rightarrow> edge_config \<Rightarrow> 'm \<Rightarrow>
    reconcile_request \<Rightarrow> ('h, 'w, reconcile_response) api_eff" where
  "api_reconcile E H cfg hs rq =
     eff_bind (api_auth H cfg hs) (\<lambda>_.
     let options =
       \<lparr>nft_output = (case rq_output rq of None \<Rightarrow> ''/run/edge-router/generated.nft'' | Some p \<Rightarrow> p),
        dry_run = rq_dry_run rq, apply_nft = (\<not> rq_skip_nft rq), apply_linux = (\<not> rq_skip_linux rq),
        opt_xdp = api_xdp_config (rq_enable_xdp rq) (rq_xdp_interface rq) (rq_xdp_pin_path rq) cfg\<rparr>
     in eff_bind (eff_map_err (lift_failure api_from_reconcile)
          (reconcile E reconciler_default cfg options)) (\<lambda>report.
        eff_ret \<lparr>rr_generation_id = rep_generation_id report, rr_added_addresses = rep_added_addresses report,
                 rr_removed_addresses = rep_removed_addresses report,
                 rr_xdp_plan_entries = rep_xdp_plan_entries report,
                 rr_nftables_config = (if rq_include_config rq then Some (rep_nftables_config report) else None)\<rparr>))"

section \<open>Status pages\<close>

definition api_netbird_status :: "('h, 'e) oci_env_scheme \<Rightarrow> ('m, 'x) header_ops_scheme \<Rightarrow> edge_config \<Rightarrow> 'm \<Rightarrow>
    ('h, 'w, netbird_status) api_eff" where
  "api_netbird_status E H cfg hs =
     eff_bind (api_auth H cfg hs) (\<lambda>_. api_netbird (nb_status E netbird_cli_default))"

definition api_netbird_networks :: "('h, 'e) oci_env_scheme \<Rightarrow> ('m, 'x) header_ops_scheme \<Rightarrow> edge_config \<Rightarrow> 'm \<Rightarrow>
    ('h, 'w, string list) api_eff" where
  "api_netbird_networks E H cfg hs =
     eff_bind (api_auth H cfg hs) (\<lambda>_.
     eff_bind (api_netbird (nb_status E netbird_cli_default)) (\<lambda>st. eff_ret (advertised_networks st)))"

definition api_events :: "('h, 'e) oci_env_scheme \<Rightarrow> ('m, 'x) header_ops_scheme \<Rightarrow> edge_config \<Rightarrow> 'm \<Rightarrow>
    ('h, 'w, event list) api_eff" where
  "api_events E H cfg hs = eff_bind (api_auth H cfg hs) (\<lambda>_. api_core (list_events E 100))"

definition api_analytics :: "('h, 'e) oci_env_scheme \<Rightarrow> ('m, 'x) header_ops_scheme \<Rightarrow> edge_config \<Rightarrow> 'm \<Rightarrow>
    ('h, 'w, analytics_response) api_eff" where
  "api_analytics E H cfg hs =
     eff_bind (api_auth H cfg hs) (\<lambda>_.
     eff_bind (api_core (list_mappings E)) (\<lambda>ms.
     eff_bind (api_core (list_events E 100)) (\<lambda>evs.
     let problems = length (filter (\<lambda>m. status_wire (m_status m) \<in> {''degraded'', ''error''}) ms)
     in eff_ret \<lparr>an_mapping_total = length ms, an_mapping_enabled = length (filter enabled ms),
                 an_mapping_status = count_by (map (\<lambda>m. status_wire (m_status m)) ms),
                 an_mapping_backend = count_by (map (\<lambda>m. backend_wire (m_backend m)) ms),
                 an_event_level = count_by (map (\<lambda>e. level_wire (ev_level e)) evs),
                 an_problem_mappings = problems\<rparr>)))"

definition api_topology :: "('h, 'e) oci_env_scheme \<Rightarrow> ('m, 'x) header_ops_scheme \<Rightarrow> edge_config \<Rightarrow> 'm \<Rightarrow>
    ('h, 'w, topology_response) api_eff" where
  "api_topology E H cfg hs =
     eff_bind (api_auth H cfg hs) (\<lambda>_.
     eff_bind (api_core (list_mappings E)) (\<lambda>ms.
     eff_ret \<lparr>tr_wan_interface = wan_interface cfg, tr_netbird_interface = netbird_interface cfg,
              tr_target_cidrs = map (net_to_string E) (target_cidrs cfg),
              tr_flows = map topology_flow_of ms\<rparr>))"

definition api_oci_status :: "('h, 'e) oci_env_scheme \<Rightarrow> ('m, 'x) header_ops_scheme \<Rightarrow> edge_config \<Rightarrow> 'm \<Rightarrow>
    ('h, 'w, oci_status_response) api_eff" where
  "api_oci_status E H cfg hs =
     eff_bind (api_auth H cfg hs) (\<lambda>_.
     eff_catch (oci_version E oci_cli_default) (\<lambda>cli.
     let env = \<lparr>ev_tenancy_id = (env_var_os E ''OCI_TENANCY_ID'' \<noteq> None),
                ev_user_id = (env_var_os E ''OCI_USER_ID'' \<noteq> None),
                ev_fingerprint = (env_var_os E ''OCI_FINGERPRINT'' \<noteq> None),
                ev_private_key_path = (env_var_os E ''OCI_PRIVATE_KEY_PATH'' \<noteq> None)\<rparr>
     in eff_ret
       \<lparr>os_auth_mode = oci_auth cfg, os_region = oci_region cfg,
        os_compartment_id_configured = (oci_compartment_id cfg \<noteq> None),
        os_vnic_id_configured = (oci_vnic_id cfg \<noteq> None),
        os_subnet_id_configured = (oci_subnet_id cfg \<noteq> None),
        os_nsg_count = length (oci_nsg_ids cfg),
        os_api_key_env_ready = (ev_tenancy_id env \<and> ev_user_id env \<and> ev_fingerprint env \<and> ev_private_key_path env),
        os_env = env, os_cli_available = res_ok cli,
        os_cli_version = (case cli of Inl _ \<Rightarrow> None | Inr out \<Rightarrow> Some (trim (co_stdout out))),
        os_compartment_id = oci_compartment_id cfg, os_vnic_id = oci_vnic_id cfg,
        os_subnet_id = oci_subnet_id cfg, os_nsg_ids = oci_nsg_ids cfg\<rparr>))"

end
