(* ===== verification/Agent_Oci.thy ===== *)
theory Agent_Oci
  imports Agent_Api
begin

text \<open>
  The handlers of \<open>src/crates/edge-agent/src/api.rs\<close> that act on Oracle Cloud resources, and the
  dispatch of all routes.
\<close>

section \<open>Cloud resources of a mapping\<close>

definition already_allocated :: "mapping \<Rightarrow> bool" where
  "already_allocated m \<longleftrightarrow>
     public_ip m \<noteq> None \<or> oci_public_ip_ocid m \<noteq> None \<or> oci_private_ip_ocid m \<noteq> None"

definition allocated_mapping :: "timestamp \<Rightarrow> allocation \<Rightarrow> mapping \<Rightarrow> mapping" where
  "allocated_mapping now a m =
     mark_status now MPending
       (m\<lparr>edge_private_ip := priv_ip_address (alloc_private_ip a),
          public_ip := Some (pub_ip_address (alloc_public_ip a)),
          oci_private_ip_ocid := Some (priv_id (alloc_private_ip a)),
          oci_public_ip_ocid := Some (pub_id (alloc_public_ip a))\<rparr>)"

text \<open>\<open>let _ = call.await\<close>: the result is dropped.\<close>

definition drop_result :: "('s, 'f, 'a) eff \<Rightarrow> ('s, 'e, unit) eff" where
  "drop_result m = eff_catch m (\<lambda>_. eff_ret ())"

definition missing_compartment :: api_error where
  "missing_compartment = api_bad_request
     ''missing compartment id (pass compartment_id or set oci_compartment_id)''"

definition missing_vnic :: api_error where
  "missing_vnic = api_bad_request ''missing vnic id (pass vnic_id or set oci_vnic_id)''"

definition missing_nsg :: api_error where
  "missing_nsg = api_bad_request ''missing nsg id (pass nsg_id or set oci_nsg_ids)''"

text \<open>The handler from the successful allocation on: the mapping is updated, and both addresses are
  deleted again if that fails.\<close>

definition store_allocation :: "('h, 'e) oci_env_scheme \<Rightarrow> mapping_id \<Rightarrow> mapping \<Rightarrow> allocation \<Rightarrow>
    ('h, 'w, mapping) api_eff" where
  "store_allocation E i m a =
     eff_bind (now_utc E) (\<lambda>now.
     let m' = allocated_mapping now a m
     in eff_catch (update_mapping E m') (\<lambda>updated.
        case updated of
          Inl error \<Rightarrow>
            eff_bind (drop_result (delete_public_ip E oci_cli_default (pub_id (alloc_public_ip a)))) (\<lambda>_.
            eff_bind (drop_result (delete_private_ip E oci_cli_default (priv_id (alloc_private_ip a)))) (\<lambda>_.
            api_fail (api_error_of_core error)))
        | Inr _ \<Rightarrow>
            eff_bind (drop_result (record_event E EvInfo ''oci allocate''
              (Some (''mapping '' @ id_str i @ '' public '' @ ip_to_string (pub_ip_address (alloc_public_ip a)) @
                '' private '' @ ip_to_string (priv_ip_address (alloc_private_ip a)))))) (\<lambda>_.
            eff_ret m')))"

definition oci_allocate :: "('h, 'e) oci_env_scheme \<Rightarrow> ('m, 'x) header_ops_scheme \<Rightarrow> edge_config \<Rightarrow> 'm \<Rightarrow>
    oci_allocate_request \<Rightarrow> ('h, 'w, mapping) api_eff" where
  "oci_allocate E H cfg hs rq =
     eff_bind (api_auth H cfg hs) (\<lambda>_.
     eff_bind (eff_lift (map_err Fail (require_confirm (al_confirm rq) ''confirm''))) (\<lambda>_.
     eff_bind (parse_id (al_mapping_id rq)) (\<lambda>i.
     eff_bind (api_core (get_mapping E i)) (\<lambda>m.
     if already_allocated m
     then api_fail (api_bad_request (''mapping already has OCI allocation fields: '' @ id_str i))
     else
       eff_bind (eff_lift (map_err Fail (ok_or missing_compartment
         (resolve (al_compartment_id rq) (oci_compartment_id cfg))))) (\<lambda>compartment.
       eff_bind (eff_lift (map_err Fail (ok_or missing_vnic
         (resolve (al_vnic_id rq) (oci_vnic_id cfg))))) (\<lambda>vnic.
       let name = (case resolve (al_display_name rq) None of None \<Rightarrow> m_name m | Some n \<Rightarrow> n)
       in eff_bind (api_oci (allocate_forwarding_ip E oci_cli_default compartment vnic (Some name))) (\<lambda>a.
          store_allocation E i m a)))))))"

definition delete_if_some :: "(string \<Rightarrow> ('h, 'w, unit) oci_eff) \<Rightarrow> string option \<Rightarrow> ('h, 'w, unit) api_eff" where
  "delete_if_some del v = (case v of None \<Rightarrow> eff_ret () | Some i \<Rightarrow> api_oci (del i))"

definition released_mapping :: "timestamp \<Rightarrow> mapping \<Rightarrow> mapping" where
  "released_mapping now m =
     mark_status now MDisabled
       (m\<lparr>public_ip := None, oci_public_ip_ocid := None, oci_private_ip_ocid := None\<rparr>)"

definition release_mapping :: "('h, 'e) oci_env_scheme \<Rightarrow> string \<Rightarrow> ('h, 'w, json) api_eff" where
  "release_mapping E mapping_text =
     eff_bind (parse_id mapping_text) (\<lambda>i.
     eff_bind (api_core (get_mapping E i)) (\<lambda>m.
     let public = oci_public_ip_ocid m; private = oci_private_ip_ocid m
     in if public = None \<and> private = None
        then api_fail (api_bad_request (''mapping has no OCI allocation to release: '' @ id_str i))
        else
          eff_bind (delete_if_some (delete_public_ip E oci_cli_default) public) (\<lambda>_.
          eff_bind (delete_if_some (delete_private_ip E oci_cli_default) private) (\<lambda>_.
          eff_bind (now_utc E) (\<lambda>now.
          eff_bind (api_core (update_mapping E (released_mapping now m))) (\<lambda>_.
          eff_bind (drop_result (record_event E EvWarn ''oci release'' (Some (''mapping '' @ id_str i)))) (\<lambda>_.
          eff_ret (JObject [(''released'', JBool True), (''mapping_id'', JStr (id_str i)),
            (''public_ip_id'', json_opt public), (''private_ip_id'', json_opt private)]))))))))"

definition oci_release :: "('h, 'e) oci_env_scheme \<Rightarrow> ('m, 'x) header_ops_scheme \<Rightarrow> edge_config \<Rightarrow> 'm \<Rightarrow>
    oci_release_request \<Rightarrow> ('h, 'w, json) api_eff" where
  "oci_release E H cfg hs rq =
     eff_bind (api_auth H cfg hs) (\<lambda>_.
     eff_bind (eff_lift (map_err Fail (require_confirm (re_confirm rq) ''delete''))) (\<lambda>_.
     case resolve (re_mapping_id rq) None of
       Some mapping_text \<Rightarrow> release_mapping E mapping_text
     | None \<Rightarrow>
         let public = resolve (re_public_ip_id rq) None; private = resolve (re_private_ip_id rq) None
         in if public = None \<and> private = None
            then api_fail (api_bad_request ''release needs mapping_id or public_ip_id/private_ip_id'')
            else
              eff_bind (delete_if_some (delete_public_ip E oci_cli_default) public) (\<lambda>_.
              eff_bind (delete_if_some (delete_private_ip E oci_cli_default) private) (\<lambda>_.
              eff_ret (JObject [(''released'', JBool True), (''public_ip_id'', json_opt public),
                (''private_ip_id'', json_opt private)])))))"

definition oci_vnic_check :: "('h, 'e) oci_env_scheme \<Rightarrow> ('m, 'x) header_ops_scheme \<Rightarrow> edge_config \<Rightarrow> 'm \<Rightarrow>
    string option \<Rightarrow> ('h, 'w, json) api_eff" where
  "oci_vnic_check E H cfg hs query_vnic =
     eff_bind (api_auth H cfg hs) (\<lambda>_.
     eff_bind (eff_lift (map_err Fail (ok_or missing_vnic (resolve query_vnic (oci_vnic_id cfg))))) (\<lambda>i.
     eff_bind (api_oci (get_vnic E oci_cli_default i)) (\<lambda>v.
     eff_ret (JObject [(''id'', JStr (vnic_id v)), (''display_name'', json_opt (vnic_display_name v)),
       (''skip_source_dest_check'',
         case skip_source_dest_check v of None \<Rightarrow> JNull | Some b \<Rightarrow> JBool b),
       (''ok'', JBool (res_ok (validate_vnic_forwarding v)))]))))"

definition oci_public_ips :: "('h, 'e) oci_env_scheme \<Rightarrow> ('m, 'x) header_ops_scheme \<Rightarrow> edge_config \<Rightarrow> 'm \<Rightarrow>
    string option \<Rightarrow> ('h, 'w, oci_public_ip list) api_eff" where
  "oci_public_ips E H cfg hs query_compartment =
     eff_bind (api_auth H cfg hs) (\<lambda>_.
     eff_bind (eff_lift (map_err Fail (ok_or missing_compartment
       (resolve query_compartment (oci_compartment_id cfg))))) (\<lambda>compartment.
     api_oci (list_public_ips E oci_cli_default compartment)))"

section \<open>Security rules\<close>

definition nsg_protocol :: "string \<Rightarrow> string" where
  "nsg_protocol v =
     (let p = to_ascii_lowercase (trim v)
      in if p = ''tcp'' \<or> p = ''6'' then ''6''
         else if p = ''udp'' \<or> p = ''17'' then ''17''
         else if p = ''all'' then ''all'' else p)"

definition nsg_ports :: "u16 option \<Rightarrow> u16 option \<Rightarrow> port_options option" where
  "nsg_ports lo hi =
     (case (lo, hi) of
        (Some a, Some b) \<Rightarrow> Some \<lparr>destination_port_range = \<lparr>port_min = a, port_max = b\<rparr>\<rparr>
      | (Some a, None) \<Rightarrow> Some \<lparr>destination_port_range = \<lparr>port_min = a, port_max = a\<rparr>\<rparr>
      | (None, Some b) \<Rightarrow> Some \<lparr>destination_port_range = \<lparr>port_min = b, port_max = b\<rparr>\<rparr>
      | (None, None) \<Rightarrow> None)"

definition nsg_rule :: "oci_nsg_add_request \<Rightarrow> ingress_security_rule" where
  "nsg_rule rq =
     (let protocol = nsg_protocol (na_protocol rq); ports = nsg_ports (na_port_min rq) (na_port_max rq)
      in \<lparr>rule_protocol = protocol, rule_source = trim (na_source rq),
          rule_tcp_options = (if protocol = ''6'' then ports else None),
          rule_udp_options = (if protocol = ''17'' then ports else None),
          rule_description = resolve (na_description rq) None\<rparr>)"

definition oci_nsg_add :: "('h, 'e) oci_env_scheme \<Rightarrow> ('m, 'x) header_ops_scheme \<Rightarrow> edge_config \<Rightarrow> 'm \<Rightarrow>
    oci_nsg_add_request \<Rightarrow> ('h, 'w, json) api_eff" where
  "oci_nsg_add E H cfg hs rq =
     eff_bind (api_auth H cfg hs) (\<lambda>_.
     eff_bind (eff_lift (map_err Fail (require_confirm (na_confirm rq) ''confirm''))) (\<lambda>_.
     eff_bind (eff_lift (map_err Fail (ok_or missing_nsg
       (resolve (na_nsg_id rq) (list_first (oci_nsg_ids cfg)))))) (\<lambda>nsg.
     eff_bind (api_oci (add_nsg_rules E oci_cli_default nsg [nsg_rule rq])) (\<lambda>_.
     eff_ret (JObject [(''added'', JBool True), (''nsg_id'', JStr nsg)])))))"

definition oci_nsg_remove :: "('h, 'e) oci_env_scheme \<Rightarrow> ('m, 'x) header_ops_scheme \<Rightarrow> edge_config \<Rightarrow> 'm \<Rightarrow>
    oci_nsg_remove_request \<Rightarrow> ('h, 'w, json) api_eff" where
  "oci_nsg_remove E H cfg hs rq =
     eff_bind (api_auth H cfg hs) (\<lambda>_.
     eff_bind (eff_lift (map_err Fail (require_confirm (nr_confirm rq) ''delete''))) (\<lambda>_.
     eff_bind (eff_lift (map_err Fail (ok_or missing_nsg
       (resolve (nr_nsg_id rq) (list_first (oci_nsg_ids cfg)))))) (\<lambda>nsg.
     let ids = filter (\<lambda>i. i \<noteq> []) (map trim (nr_rule_ids rq))
     in if ids = [] then api_fail (api_bad_request ''no rule ids supplied'')
        else eff_bind (api_oci (remove_nsg_rules E oci_cli_default nsg ids)) (\<lambda>_.
             eff_ret (JObject [(''removed'', JNum (length ids)), (''nsg_id'', JStr nsg)])))))"

section \<open>Routes\<close>

datatype api_request =
    GetStatus
  | ListMappings
  | CreateMapping create_mapping_request
  | GetMapping string
  | DeleteMapping string
  | EnableMapping string
  | DisableMapping string
  | DryRunApply
  | DoReconcile reconcile_request
  | GetNetbirdStatus
  | GetNetbirdNetworks
  | GetEvents
  | GetAnalytics
  | GetTopology
  | GetOciStatus
  | OciAllocate oci_allocate_request
  | OciRelease oci_release_request
  | OciVnicCheck "string option"
  | OciPublicIps "string option"
  | OciNsgAdd oci_nsg_add_request
  | OciNsgRemove oci_nsg_remove_request

datatype api_response =
    AStatus status_response
  | AMappings "mapping list"
  | AMapping mapping
  | AText string
  | AReconcile reconcile_response
  | ANetbird netbird_status
  | ANetworks "string list"
  | AEvents "event list"
  | AAnalytics analytics_response
  | ATopology topology_response
  | AOciStatus oci_status_response
  | AJson json
  | APublicIps "oci_public_ip list"

definition eff_map :: "('a \<Rightarrow> 'b) \<Rightarrow> ('s, 'e, 'a) eff \<Rightarrow> ('s, 'e, 'b) eff" where
  "eff_map f m = eff_bind m (\<lambda>x. eff_ret (f x))"

fun handle :: "('h, 'e) oci_env_scheme \<Rightarrow> ('m, 'x) header_ops_scheme \<Rightarrow> edge_config \<Rightarrow> 'm \<Rightarrow> api_request \<Rightarrow>
    ('h, 'w, api_response) api_eff" where
  "handle E H cfg hs GetStatus = eff_map AStatus (api_status E H cfg hs)"
| "handle E H cfg hs ListMappings = eff_map AMappings (api_list_mappings E H cfg hs)"
| "handle E H cfg hs (CreateMapping rq) = eff_map AMapping (api_create_mapping E H cfg hs rq)"
| "handle E H cfg hs (GetMapping i) = eff_map AMapping (api_get_mapping E H cfg hs i)"
| "handle E H cfg hs (DeleteMapping i) = eff_map AMapping (api_delete_mapping E H cfg hs i)"
| "handle E H cfg hs (EnableMapping i) = eff_map AMapping (api_enable_mapping E H cfg hs i)"
| "handle E H cfg hs (DisableMapping i) = eff_map AMapping (api_disable_mapping E H cfg hs i)"
| "handle E H cfg hs DryRunApply = eff_map AText (api_dry_run_apply E H cfg hs)"
| "handle E H cfg hs (DoReconcile rq) = eff_map AReconcile (api_reconcile E H cfg hs rq)"
| "handle E H cfg hs GetNetbirdStatus = eff_map ANetbird (api_netbird_status E H cfg hs)"
| "handle E H cfg hs GetNetbirdNetworks = eff_map ANetworks (api_netbird_networks E H cfg hs)"
| "handle E H cfg hs GetEvents = eff_map AEvents (api_events E H cfg hs)"
| "handle E H cfg hs GetAnalytics = eff_map AAnalytics (api_analytics E H cfg hs)"
| "handle E H cfg hs GetTopology = eff_map ATopology (api_topology E H cfg hs)"
| "handle E H cfg hs GetOciStatus = eff_map AOciStatus (api_oci_status E H cfg hs)"
| "handle E H cfg hs (OciAllocate rq) = eff_map AMapping (oci_allocate E H cfg hs rq)"
| "handle E H cfg hs (OciRelease rq) = eff_map AJson (oci_release E H cfg hs rq)"
| "handle E H cfg hs (OciVnicCheck q) = eff_map AJson (oci_vnic_check E H cfg hs q)"
| "handle E H cfg hs (OciPublicIps q) = eff_map APublicIps (oci_public_ips E H cfg hs q)"
| "handle E H cfg hs (OciNsgAdd rq) = eff_map AJson (oci_nsg_add E H cfg hs rq)"
| "handle E H cfg hs (OciNsgRemove rq) = eff_map AJson (oci_nsg_remove E H cfg hs rq)"

end
