(* ===== verification/Gateway.thy ===== *)
theory Gateway
  imports Http_Auth
begin

text \<open>
  \<open>src/crates/edge-gateway/src/main.rs\<close> and \<open>agent.rs\<close>: the unprivileged gateway in front of the
  agent, as built without the \<open>mock\<close> feature: its tokens, the proxy for \<open>/api\<close> with the rewriting of
  headers, and the calls the pages make to the agent. The pages (\<open>ui.rs\<close>) are in the theories \<open>Ui_*\<close>.

  Outside the repository, and so parameters in \<open>gateway_ops\<close>: the rest of \<open>HeaderMap\<close> and its names and
  values (\<open>http\<close>), \<open>Uri\<close> parsing, reading a body up to a limit (\<open>axum\<close>), the connection to the agent
  (\<open>hyper\<close>), files and TOML, lossy UTF-8 decoding. A \<open>Uri\<close> is its text. Building a request or a response
  from parts that already have their types does not fail and is not a step.

  The state counts the calls and keeps the requests that reached the connection, \<open>sent\<close>.
\<close>

section \<open>Data and environment\<close>

record gateway_error =
  ge_status :: nat
  ge_message :: string

definition gateway_unauthorized :: gateway_error where
  "gateway_unauthorized = \<lparr>ge_status = 401, ge_message = ''missing or invalid bearer token''\<rparr>"

definition gateway_bad_gateway :: "string \<Rightarrow> gateway_error" where
  "gateway_bad_gateway msg = \<lparr>ge_status = 502, ge_message = msg\<rparr>"

definition gateway_internal :: "string \<Rightarrow> gateway_error" where
  "gateway_internal msg = \<lparr>ge_status = 500, ge_message = msg\<rparr>"

record gateway_tokens =
  gt_gateway_token :: "string option"
  gt_api_token :: "string option"

record app_state =
  as_agent_socket :: string
  as_gateway_token :: "string option"
  as_api_token :: "string option"

record gateway_status =
  gs_status :: string
  gs_agent_socket :: string
  gs_upstream_auth :: string
  gs_api_auth :: string

record 'm http_request =
  hr_method :: string
  hr_path_and_query :: "string option"
  hr_headers :: 'm
  hr_body :: string

record 'm http_response =
  hp_status :: nat
  hp_headers :: 'm
  hp_body :: string

record 'm gateway_ops = "'m header_ops" +
  header_get_all :: "'m \<Rightarrow> string \<Rightarrow> string list"
  header_remove :: "string \<Rightarrow> 'm \<Rightarrow> 'm"
  header_insert :: "string \<Rightarrow> string \<Rightarrow> 'm \<Rightarrow> 'm"
  header_iter :: "'m \<Rightarrow> (string \<times> string) list"
  header_empty :: 'm
  header_name_of :: "string \<Rightarrow> string option"
  header_value_of :: "string \<Rightarrow> (string, string) result"
  uri_parse :: "string \<Rightarrow> (string, string) result"
  to_bytes :: "string \<Rightarrow> nat \<Rightarrow> (string, string) result"
  upstream :: "nat \<Rightarrow> 'm http_request \<Rightarrow> (string, 'm http_response) result"
  gw_read_to_string :: "string \<Rightarrow> (string, string) result"
  gw_toml :: "string \<Rightarrow> (string, gateway_tokens) result"
  utf8_lossy :: "string \<Rightarrow> string"

text \<open>What the \<open>http\<close> crate documents of the operations: \<open>get\<close> is the first of \<open>get_all\<close>, \<open>insert\<close>
  replaces all values of a name, \<open>remove\<close> drops them, and a header value has the bytes it was made
  from.\<close>

definition header_doc :: "('m, 'x) gateway_ops_scheme \<Rightarrow> bool" where
  "header_doc G \<longleftrightarrow>
     (\<forall>hs n. header_get G hs n = (case header_get_all G hs n of [] \<Rightarrow> None | v # _ \<Rightarrow> Some v)) \<and>
     (\<forall>hs n k. header_get_all G (header_remove G n hs) k = (if k = n then [] else header_get_all G hs k)) \<and>
     (\<forall>hs n v k. header_get_all G (header_insert G n v hs) k = (if k = n then [v] else header_get_all G hs k)) \<and>
     (\<forall>s v. header_value_of G s = Inr v \<longrightarrow> v = s)"

record 'm gateway_state =
  gw_tick :: nat
  sent :: "'m http_request list"

type_synonym ('m, 'w, 'a) gateway_eff = "(('m, 'w) gateway_state_scheme, gateway_error, 'a) eff"

section \<open>Tokens and addresses\<close>

text \<open>The chain of messages of an \<open>anyhow\<close> error, outermost first.\<close>

type_synonym anyhow = "string list"

definition gw_load_config :: "('m, 'x) gateway_ops_scheme \<Rightarrow> string \<Rightarrow> (anyhow, gateway_tokens) result" where
  "gw_load_config G path =
     res_bind (map_err (\<lambda>e. [e]) (gw_read_to_string G path)) (\<lambda>raw.
     map_err (\<lambda>e. [e]) (gw_toml G raw))"

definition or_else :: "'a option \<Rightarrow> 'a option \<Rightarrow> 'a option" where
  "or_else a b = (case a of None \<Rightarrow> b | Some x \<Rightarrow> Some x)"

definition load_tokens :: "('m, 'x) gateway_ops_scheme \<Rightarrow> string option \<Rightarrow> string option \<Rightarrow> string option \<Rightarrow>
    (anyhow, gateway_tokens) result" where
  "load_tokens G config cli_gateway cli_api =
     res_bind (res_opt (gw_load_config G) config) (\<lambda>cfg.
     let gateway = or_else cli_gateway (Option.bind cfg gt_gateway_token);
         api = or_else cli_api (Option.bind cfg gt_api_token)
     in if gateway = Some [] then Inl [''gateway token must not be empty'']
        else if api = Some [] then Inl [''upstream API token must not be empty'']
        else if api = None
        then Inl [''missing upstream API token; set EDGE_API_TOKEN or config api_token'']
        else Inr \<lparr>gt_gateway_token = gateway, gt_api_token = api\<rparr>)"

datatype ip_addr = IpV4 ipv4_addr | IpV6 "128 word"

record socket_addr =
  sa_ip :: ip_addr
  sa_port :: u16

definition unspecified :: "ip_addr \<Rightarrow> bool" where
  "unspecified a = (case a of IpV4 ip \<Rightarrow> ip_is_unspecified ip | IpV6 w \<Rightarrow> w = 0)"

text \<open>The text of a socket address is a parameter of its own.\<close>

definition gw_reject_public_bind :: "(socket_addr \<Rightarrow> string) \<Rightarrow> socket_addr \<Rightarrow> (anyhow, unit) result" where
  "gw_reject_public_bind show addr =
     (if unspecified (sa_ip addr)
      then Inl [''refusing to bind gateway to wildcard address '' @ show addr] else Inr ())"

definition gw_status :: "app_state \<Rightarrow> gateway_status" where
  "gw_status st =
     \<lparr>gs_status = ''ok'', gs_agent_socket = as_agent_socket st,
      gs_upstream_auth = (if as_api_token st \<noteq> None then ''configured'' else ''unconfigured''),
      gs_api_auth = (if as_gateway_token st \<noteq> None then ''bearer'' else ''netbird'')\<rparr>"

section \<open>Rewriting requests\<close>

definition require_gateway_auth :: "('m, 'x) header_ops_scheme \<Rightarrow> string option \<Rightarrow> 'm \<Rightarrow>
    (gateway_error, unit) result" where
  "require_gateway_auth G token headers =
     (case token of
        None \<Rightarrow> Inr ()
      | Some expected \<Rightarrow>
          (case Option.bind (Option.bind (header_get G headers ''authorization'') (header_to_str G))
                  (strip_prefix ''Bearer '') of
             None \<Rightarrow> Inl gateway_unauthorized
           | Some actual \<Rightarrow>
               (if constant_time_eq actual expected then Inr () else Inl gateway_unauthorized)))"

definition strip_api_prefix :: "string \<Rightarrow> string \<Rightarrow> string" where
  "strip_api_prefix path_and_query matched =
     (if matched = [] then ''/''
      else (case strip_prefix ''/api'' path_and_query of None \<Rightarrow> path_and_query | Some r \<Rightarrow> r))"

definition upstream_uri :: "('m, 'x) gateway_ops_scheme \<Rightarrow> string \<Rightarrow> (gateway_error, string) result" where
  "upstream_uri G path_and_query =
     (let path = (if path_and_query \<noteq> [] \<and> hd path_and_query = CHR ''/'' then path_and_query
                  else ''/'' @ path_and_query)
      in map_err gateway_internal (uri_parse G (''http://edge-agent'' @ path)))"

definition hop_by_hop_headers :: "string list" where
  "hop_by_hop_headers =
     [''connection'', ''keep-alive'', ''proxy-authenticate'', ''proxy-authorization'', ''te'', ''trailer'',
      ''transfer-encoding'', ''upgrade'']"

definition connection_nominated_headers :: "('m, 'x) gateway_ops_scheme \<Rightarrow> 'm \<Rightarrow> string list" where
  "connection_nominated_headers G headers =
     List.map_filter (\<lambda>name. header_name_of G (trim name))
       (concat (map (split_on CHR '','') (List.map_filter (header_to_str G) (header_get_all G headers ''connection''))))"

definition rewrite_headers :: "('m, 'x) gateway_ops_scheme \<Rightarrow> 'm \<Rightarrow> string \<Rightarrow> (gateway_error, 'm) result" where
  "rewrite_headers G headers token =
     (let nominated = connection_nominated_headers G headers;
          h1 = fold (header_remove G) hop_by_hop_headers headers;
          h2 = fold (header_remove G) nominated h1;
          h3 = header_remove G ''authorization'' h2;
          h4 = header_insert G ''host'' ''edge-agent'' h3
      in res_bind (map_err gateway_internal (header_value_of G (''Bearer '' @ token))) (\<lambda>v.
         Inr (header_insert G ''authorization'' v h4)))"

section \<open>Calling the agent\<close>

definition send_raw :: "('m, 'x) gateway_ops_scheme \<Rightarrow> app_state \<Rightarrow> string \<Rightarrow> string \<Rightarrow> 'm \<Rightarrow> string \<Rightarrow>
    ('m, 'w, 'm http_response) gateway_eff" where
  "send_raw G st method path headers body =
     eff_bind (eff_lift (ok_or (gateway_bad_gateway ''missing upstream API token'') (as_api_token st))) (\<lambda>token.
     eff_bind (eff_lift (rewrite_headers G headers token)) (\<lambda>hs.
     eff_bind (eff_lift (upstream_uri G path)) (\<lambda>uri s.
     let request = \<lparr>hr_method = method, hr_path_and_query = Some uri, hr_headers = hs, hr_body = body\<rparr>
     in (map_err gateway_bad_gateway (upstream G (gw_tick s) request),
         s\<lparr>gw_tick := Suc (gw_tick s), sent := sent s @ [request]\<rparr>))))"

definition status_is_success :: "nat \<Rightarrow> bool" where
  "status_is_success c \<longleftrightarrow> 200 \<le> c \<and> c < 300"

definition decode_json :: "('m, 'x) gateway_ops_scheme \<Rightarrow> (string \<Rightarrow> (string, 'a) result) \<Rightarrow> nat \<Rightarrow> string \<Rightarrow>
    (gateway_error, 'a) result" where
  "decode_json G from_slice status body =
     (if \<not> status_is_success status then Inl (gateway_bad_gateway (utf8_lossy G body))
      else map_err gateway_bad_gateway (from_slice body))"

definition decode_text :: "('m, 'x) gateway_ops_scheme \<Rightarrow> nat \<Rightarrow> string \<Rightarrow> (gateway_error, string) result" where
  "decode_text G status body =
     (let t = utf8_lossy G body
      in if \<not> status_is_success status then Inl (gateway_bad_gateway t) else Inr t)"

definition get_json :: "('m, 'x) gateway_ops_scheme \<Rightarrow> app_state \<Rightarrow> (string \<Rightarrow> (string, 'a) result) \<Rightarrow> string \<Rightarrow>
    ('m, 'w, 'a) gateway_eff" where
  "get_json G st from_slice path =
     eff_bind (send_raw G st ''GET'' path (header_empty G) []) (\<lambda>r.
     eff_lift (decode_json G from_slice (hp_status r) (hp_body r)))"

definition post_json :: "('m, 'x) gateway_ops_scheme \<Rightarrow> app_state \<Rightarrow> (string \<Rightarrow> (string, 'a) result) \<Rightarrow>
    ('b \<Rightarrow> (string, string) result) \<Rightarrow> string \<Rightarrow> 'b \<Rightarrow> ('m, 'w, 'a) gateway_eff" where
  "post_json G st from_slice to_vec path body =
     eff_bind (eff_lift (map_err gateway_internal (to_vec body))) (\<lambda>bytes.
     eff_bind (send_raw G st ''POST'' path
       (header_insert G ''content-type'' ''application/json'' (header_empty G)) bytes) (\<lambda>r.
     eff_lift (decode_json G from_slice (hp_status r) (hp_body r))))"

definition post_empty_json :: "('m, 'x) gateway_ops_scheme \<Rightarrow> app_state \<Rightarrow> (string \<Rightarrow> (string, 'a) result) \<Rightarrow>
    string \<Rightarrow> ('m, 'w, 'a) gateway_eff" where
  "post_empty_json G st from_slice path =
     eff_bind (send_raw G st ''POST'' path (header_empty G) []) (\<lambda>r.
     eff_lift (decode_json G from_slice (hp_status r) (hp_body r)))"

definition delete_json :: "('m, 'x) gateway_ops_scheme \<Rightarrow> app_state \<Rightarrow> (string \<Rightarrow> (string, 'a) result) \<Rightarrow>
    string \<Rightarrow> ('m, 'w, 'a) gateway_eff" where
  "delete_json G st from_slice path =
     eff_bind (send_raw G st ''DELETE'' path (header_empty G) []) (\<lambda>r.
     eff_lift (decode_json G from_slice (hp_status r) (hp_body r)))"

definition post_text :: "('m, 'x) gateway_ops_scheme \<Rightarrow> app_state \<Rightarrow> string \<Rightarrow> ('m, 'w, string) gateway_eff" where
  "post_text G st path =
     eff_bind (send_raw G st ''POST'' path (header_empty G) []) (\<lambda>r.
     eff_lift (decode_text G (hp_status r) (hp_body r)))"

definition max_proxy_body_bytes :: nat where
  "max_proxy_body_bytes = 1024 * 1024"

text \<open>The proxied response: status, the headers appended to it, body.\<close>

definition proxy :: "('m, 'x) gateway_ops_scheme \<Rightarrow> app_state \<Rightarrow> string \<Rightarrow> 'm http_request \<Rightarrow>
    ('m, 'w, nat \<times> (string \<times> string) list \<times> string) gateway_eff" where
  "proxy G st path rq =
     eff_bind (eff_lift (require_gateway_auth G (as_gateway_token st) (hr_headers rq))) (\<lambda>_.
     eff_bind (eff_lift (map_err gateway_bad_gateway (to_bytes G (hr_body rq) max_proxy_body_bytes))) (\<lambda>body.
     let path_and_query = (case hr_path_and_query rq of None \<Rightarrow> ''/'' | Some v \<Rightarrow> v);
         upstream_path = strip_api_prefix path_and_query path
     in eff_bind (send_raw G st (hr_method rq) upstream_path (hr_headers rq) body) (\<lambda>r.
        eff_ret (hp_status r, filter (\<lambda>(name, _). name \<notin> set hop_by_hop_headers) (header_iter G (hp_headers r)),
                 hp_body r))))"

section \<open>What is forwarded\<close>

lemma require_gateway_auth_check: "require_gateway_auth = check_bearer gateway_unauthorized"
  by (intro ext)
    (simp add: require_gateway_auth_def check_bearer_def bearer_token_def authorization_def split: option.split)

interpretation gateway: bearer_guard require_gateway_auth gateway_unauthorized
  unfolding require_gateway_auth_check by (rule check_bearer_guard)

lemma get_all_removed:
  assumes "header_doc G"
  shows "header_get_all G (fold (header_remove G) ns hs) k = (if k \<in> set ns then [] else header_get_all G hs k)"
  using assms by (induction ns arbitrary: hs) (auto simp: header_doc_def)

text \<open>The headers after the rewriting, as a multimap.\<close>

lemma rewritten_headers:
  assumes doc: "header_doc G" and run: "rewrite_headers G headers token = Inr hs"
  shows "header_get_all G hs k =
    (if k = ''authorization'' then [''Bearer '' @ token]
     else if k = ''host'' then [''edge-agent'']
     else if k \<in> set hop_by_hop_headers \<union> set (connection_nominated_headers G headers) then []
     else header_get_all G headers k)"
proof -
  from run obtain v where v: "header_value_of G (''Bearer '' @ token) = Inr v" and
    hs: "hs = header_insert G ''authorization'' v (header_insert G ''host'' ''edge-agent''
      (header_remove G ''authorization'' (fold (header_remove G) (connection_nominated_headers G headers)
        (fold (header_remove G) hop_by_hop_headers headers))))"
    by (auto simp: rewrite_headers_def Let_def)
  have "v = ''Bearer '' @ token" using doc v unfolding header_doc_def by blast
  then show ?thesis
    using doc unfolding hs by (simp add: header_doc_def get_all_removed [OF doc])
qed

lemma send_raw_sent:
  assumes "send_raw G st m p headers body s = (r, t)"
  shows "sent t = sent s \<or> (\<exists>token hs uri. as_api_token st = Some token \<and> rewrite_headers G headers token = Inr hs \<and>
    upstream_uri G p = Inr uri \<and>
    sent t = sent s @ [\<lparr>hr_method = m, hr_path_and_query = Some uri, hr_headers = hs, hr_body = body\<rparr>])"
  using assms
  by (auto simp: send_raw_def eff_bind_def Let_def split: prod.splits sum.splits)

text \<open>C8. The gateway keeps its secrets apart. With a gateway token configured, a proxied request without
  exactly that bearer token is refused with status 401 and nothing reaches the agent. A request that
  is proxied reaches the agent once, with the method of the client, the body read within the limit,
  exactly one \<open>Authorization\<close> header, the agent's token, whatever the client sent there, \<open>Host\<close>
  fixed, no hop-by-hop header and none the client's \<open>Connection\<close> header nominates, and every other
  header with the client's values.\<close>

theorem gateway_forwards:
  assumes doc: "header_doc G" and run: "proxy G st path rq s = (r, t)"
  shows "(\<forall>g. as_gateway_token st = Some g \<and> auth_sized G (hr_headers rq) g \<and>
        authorization G (hr_headers rq) \<noteq> Some (''Bearer '' @ g) \<longrightarrow>
        r = Inl gateway_unauthorized \<and> ge_status gateway_unauthorized = 401 \<and> t = s) \<and>
    (sent t = sent s \<or> (\<exists>q token. sent t = sent s @ [q] \<and> as_api_token st = Some token \<and>
        hr_method q = hr_method rq \<and> to_bytes G (hr_body rq) max_proxy_body_bytes = Inr (hr_body q) \<and>
        (\<forall>k. header_get_all G (hr_headers q) k =
           (if k = ''authorization'' then [''Bearer '' @ token]
            else if k = ''host'' then [''edge-agent'']
            else if k \<in> set hop_by_hop_headers \<union> set (connection_nominated_headers G (hr_headers rq)) then []
            else header_get_all G (hr_headers rq) k))))"
proof (intro conjI allI impI)
  fix g
  assume g: "as_gateway_token st = Some g \<and> auth_sized G (hr_headers rq) g \<and>
    authorization G (hr_headers rq) \<noteq> Some (''Bearer '' @ g)"
  then have "require_gateway_auth G (as_gateway_token st) (hr_headers rq) = Inl gateway_unauthorized"
    using gateway.refuses [of G "hr_headers rq" g] by simp
  then show "r = Inl gateway_unauthorized" "t = s" using run by (auto simp: proxy_def)
  show "ge_status gateway_unauthorized = 401" by (simp add: gateway_unauthorized_def)
next
  show "sent t = sent s \<or> (\<exists>q token. sent t = sent s @ [q] \<and> as_api_token st = Some token \<and>
      hr_method q = hr_method rq \<and> to_bytes G (hr_body rq) max_proxy_body_bytes = Inr (hr_body q) \<and>
      (\<forall>k. header_get_all G (hr_headers q) k =
         (if k = ''authorization'' then [''Bearer '' @ token]
          else if k = ''host'' then [''edge-agent'']
          else if k \<in> set hop_by_hop_headers \<union> set (connection_nominated_headers G (hr_headers rq)) then []
          else header_get_all G (hr_headers rq) k)))" (is "?no \<or> ?yes")
  proof (cases "sent t = sent s")
    case False
    with run obtain body p r' where b: "to_bytes G (hr_body rq) max_proxy_body_bytes = Inr body" and
      snd: "send_raw G st (hr_method rq) p (hr_headers rq) body s = (r', t)"
      by (cases "require_gateway_auth G (as_gateway_token st) (hr_headers rq)";
          cases "to_bytes G (hr_body rq) max_proxy_body_bytes")
        (auto simp: proxy_def eff_bind_def Let_def split: prod.splits sum.splits)
    from send_raw_sent [OF snd] False obtain token hs uri where
      "as_api_token st = Some token" "rewrite_headers G (hr_headers rq) token = Inr hs"
      "sent t = sent s @ [\<lparr>hr_method = hr_method rq, hr_path_and_query = Some uri, hr_headers = hs, hr_body = body\<rparr>]"
      by blast
    then show ?thesis using b rewritten_headers [OF doc] by auto
  qed simp
qed

section \<open>A concrete gateway\<close>

text \<open>Header maps as lists of names and values; a connection over which every exchange is answered.\<close>

definition list_gateway :: "(string \<times> string) list gateway_ops" where
  "list_gateway = header_ops.extend
     \<lparr>header_get = (\<lambda>hs n. map_of hs n), header_to_str = Some\<rparr>
     \<lparr>header_get_all = (\<lambda>hs n. map snd (filter (\<lambda>h. fst h = n) hs)),
      header_remove = (\<lambda>n hs. filter (\<lambda>h. fst h \<noteq> n) hs),
      header_insert = (\<lambda>n v hs. (n, v) # filter (\<lambda>h. fst h \<noteq> n) hs),
      header_iter = (\<lambda>hs. hs), header_empty = [], header_name_of = (\<lambda>n. Some n), header_value_of = Inr,
      uri_parse = Inr, to_bytes = (\<lambda>b n. if length b \<le> n then Inr b else Inl ''length limit exceeded''),
      upstream = (\<lambda>_ _. Inr \<lparr>hp_status = 200, hp_headers = [], hp_body = ''[]''\<rparr>),
      gw_read_to_string = (\<lambda>_. Inl ''no such file''), gw_toml = (\<lambda>_. Inl ''not supported''), utf8_lossy = (\<lambda>b. b)\<rparr>"

lemma map_of_first: "map_of hs n = (case map snd (filter (\<lambda>h. fst h = n) hs) of [] \<Rightarrow> None | v # _ \<Rightarrow> Some v)"
  by (induction hs) auto

lemma list_gateway_doc: "header_doc list_gateway"
  by (auto simp: header_doc_def list_gateway_def header_ops.defs map_of_first
      intro!: arg_cong [of _ _ "map snd"] filter_cong)

theorem gateway_forwards_witness:
  "\<exists>t q. proxy list_gateway \<lparr>as_agent_socket = ''/run/a.sock'', as_gateway_token = Some ''g'', as_api_token = Some ''a''\<rparr>
       ''v1/status'' \<lparr>hr_method = ''GET'', hr_path_and_query = Some ''/api/v1/status'',
         hr_headers = [(''authorization'', ''Bearer g''), (''accept'', ''text/html'')], hr_body = []\<rparr>
       \<lparr>gw_tick = 0, sent = []\<rparr> = (Inr (200, [], ''[]''), t) \<and>
     sent t = [q] \<and> header_get_all list_gateway (hr_headers q) ''authorization'' = [''Bearer a'']"
proof -
  let ?st = "\<lparr>as_agent_socket = ''/run/a.sock'', as_gateway_token = Some ''g'', as_api_token = Some ''a''\<rparr>"
  let ?rq = "\<lparr>hr_method = ''GET'', hr_path_and_query = Some ''/api/v1/status'',
         hr_headers = [(''authorization'', ''Bearer g''), (''accept'', ''text/html'')], hr_body = []\<rparr>"
  let ?s = "\<lparr>gw_tick = 0, sent = []\<rparr> :: (string \<times> string) list gateway_state"
  have eq: "constant_time_eq ''g'' ''g''" by (simp add: constant_time_eq_iff)
  obtain t where t: "proxy list_gateway ?st ''v1/status'' ?rq ?s = (Inr (200, [], ''[]''), t)" "length (sent t) = 1"
    by (simp add: proxy_def eff_bind_def list_gateway_def header_ops.defs require_gateway_auth_def eq
        strip_prefix_def Let_def send_raw_def rewrite_headers_def upstream_uri_def)
  from gateway_forwards [OF list_gateway_doc t(1)] t(2) obtain q where
    "sent t = [q]" "\<forall>k. header_get_all list_gateway (hr_headers q) k =
           (if k = ''authorization'' then [''Bearer '' @ ''a'']
            else if k = ''host'' then [''edge-agent'']
            else if k \<in> set hop_by_hop_headers \<union> set (connection_nominated_headers list_gateway (hr_headers ?rq)) then []
            else header_get_all list_gateway (hr_headers ?rq) k)"
    by auto
  with t show ?thesis by auto
qed

end
