(* ===== verification/Cli.thy ===== *)
theory Cli
  imports Agent_Oci Gateway
begin

text \<open>
  \<open>src/crates/edge-cli/src/main.rs\<close>, the command line tool over the same store, reconciler and cloud
  operations as the agent, and the configuration file and start-up of both
  (\<open>src/crates/edge-agent/src/main.rs\<close>).

  The machine gets a console: what is printed to standard output and standard error. An error is the
  chain of messages of an \<open>anyhow\<close> error, contexts first and last the text of the error they were
  added to. \<open>{:?}\<close> on the program's own enumerations prints the name of the variant; on types of other
  crates it is a parameter, as are files, TOML and opening the database.
\<close>

section \<open>Console and environment\<close>

record 'h console = "'h world" +
  con_out :: string
  con_err :: string

record file_config =
  fc_wan_interface :: "string option"
  fc_netbird_interface :: "string option"
  fc_target_cidrs :: "ipv4_net list option"
  fc_oci_compartment_id :: "string option"
  fc_oci_vnic_id :: "string option"
  fc_oci_subnet_id :: "string option"
  fc_oci_nsg_ids :: "string list option"
  fc_oci_region :: "string option"
  fc_oci_auth :: "oci_auth_mode option"
  fc_api_token :: "string option"

record 'h cli_env = "'h oci_env" +
  read_to_string :: "string \<Rightarrow> (string, string) result"
  toml_config :: "string \<Rightarrow> (string, file_config) result"
  db_open :: "string \<Rightarrow> string option"
  nets_debug :: "ipv4_net list \<Rightarrow> string"
  oci_error_debug :: "oci_error option \<Rightarrow> string"

type_synonym ('h, 'w, 'a) cli_eff = "(('h, 'w) console_scheme, anyhow failure, 'a) eff"

definition bail :: "string \<Rightarrow> ('h, 'w, 'a) cli_eff" where
  "bail msg = eff_err (Fail [msg])"

definition cli_core :: "('w db_scheme, edge_core_error, 'a) eff \<Rightarrow> ('w db_scheme, anyhow failure, 'a) eff" where
  "cli_core m = eff_map_err (\<lambda>e. Fail [core_error_to_string e]) m"

definition cli_oci :: "('s, oci_error, 'a) eff \<Rightarrow> ('s, anyhow failure, 'a) eff" where
  "cli_oci m = eff_map_err (\<lambda>e. Fail [oci_error_to_string e]) m"

definition cli_netbird :: "('s, netbird_error, 'a) eff \<Rightarrow> ('s, anyhow failure, 'a) eff" where
  "cli_netbird m = eff_map_err (\<lambda>e. Fail [netbird_error_to_string e]) m"

definition cli_reconciled :: "('s, reconcile_error failure, 'a) eff \<Rightarrow> ('s, anyhow failure, 'a) eff" where
  "cli_reconciled m = eff_map_err (lift_failure (\<lambda>e. [reconcile_error_to_string e])) m"

definition with_context :: "string \<Rightarrow> ('s, anyhow failure, 'a) eff \<Rightarrow> ('s, anyhow failure, 'a) eff" where
  "with_context c m = eff_map_err (lift_failure (\<lambda>e. c # e)) m"

definition print :: "string \<Rightarrow> ('h, 'w, unit) cli_eff" where
  "print v s = (Inr (), s\<lparr>con_out := con_out s @ v\<rparr>)"

definition println :: "string \<Rightarrow> ('h, 'w, unit) cli_eff" where
  "println v = print (v @ [CHR 0x0A])"

definition eprintln :: "string \<Rightarrow> ('h, 'w, unit) cli_eff" where
  "eprintln v s = (Inr (), s\<lparr>con_err := con_err s @ v @ [CHR 0x0A]\<rparr>)"

fun mode_debug :: "mapping_mode \<Rightarrow> string" where
  "mode_debug OneToOneSnat = ''OneToOneSnat''"
| "mode_debug PortForwardSnat = ''PortForwardSnat''"

fun protocol_debug :: "protocol \<Rightarrow> string" where
  "protocol_debug ProtoAll = ''All''"
| "protocol_debug Tcp = ''Tcp''"
| "protocol_debug Udp = ''Udp''"

fun status_debug :: "mapping_status \<Rightarrow> string" where
  "status_debug MPending = ''Pending''"
| "status_debug MActive = ''Active''"
| "status_debug MDisabled = ''Disabled''"
| "status_debug MDegraded = ''Degraded''"
| "status_debug MError = ''Error''"

definition or_dash :: "string option \<Rightarrow> string" where
  "or_dash v = (case v of None \<Rightarrow> ''-'' | Some x \<Rightarrow> x)"

definition port_suffix :: "u16 option \<Rightarrow> string" where
  "port_suffix p = (case p of None \<Rightarrow> [] | Some x \<Rightarrow> '':'' @ show_u16 x)"

definition tab :: string where
  "tab = [CHR 0x09]"

definition mapping_line :: "mapping \<Rightarrow> string" where
  "mapping_line m =
     id_str (m_id m) @ tab @ or_dash (map_option ip_to_string (public_ip m)) @ port_suffix (public_port m) @ tab @
     ip_to_string (edge_private_ip m) @ tab @ ip_to_string (target_ip m) @ port_suffix (target_port m) @ tab @
     mode_debug (m_mode m) @ ''/'' @ protocol_debug (m_protocol m) @ tab @ status_debug (m_status m) @ tab @
     ''enabled='' @ show_bool (enabled m)"

definition print_mapping_line :: "mapping \<Rightarrow> ('h, 'w, unit) cli_eff" where
  "print_mapping_line m = println (mapping_line m)"

section \<open>Configuration\<close>

definition update_config :: "file_config \<Rightarrow> edge_config \<Rightarrow> edge_config" where
  "update_config f cfg =
     cfg\<lparr>wan_interface := (case fc_wan_interface f of None \<Rightarrow> wan_interface cfg | Some v \<Rightarrow> v),
         netbird_interface := (case fc_netbird_interface f of None \<Rightarrow> netbird_interface cfg | Some v \<Rightarrow> v),
         target_cidrs := (case fc_target_cidrs f of None \<Rightarrow> target_cidrs cfg | Some v \<Rightarrow> v),
         oci_compartment_id := fc_oci_compartment_id f, oci_vnic_id := fc_oci_vnic_id f,
         oci_subnet_id := fc_oci_subnet_id f,
         oci_nsg_ids := (case fc_oci_nsg_ids f of None \<Rightarrow> [] | Some v \<Rightarrow> v),
         oci_region := fc_oci_region f,
         oci_auth := (case fc_oci_auth f of None \<Rightarrow> oci_auth cfg | Some v \<Rightarrow> v),
         api_token := fc_api_token f\<rparr>"

definition load_config :: "('h, 'e) cli_env_scheme \<Rightarrow> string option \<Rightarrow> string \<Rightarrow> string \<Rightarrow> ipv4_net list \<Rightarrow>
    (anyhow, edge_config) result" where
  "load_config E path wan nb cidrs =
     (let cfg = edge_config_new wan nb cidrs
      in case path of
           None \<Rightarrow> Inr cfg
         | Some p \<Rightarrow>
             res_bind (map_err (\<lambda>e. [''read config '' @ p, e]) (read_to_string E p)) (\<lambda>raw.
             res_bind (map_err (\<lambda>e. [''parse config '' @ p, e]) (toml_config E raw)) (\<lambda>f.
             Inr (update_config f cfg))))"

definition open_store :: "('h, 'e) cli_env_scheme \<Rightarrow> string \<Rightarrow> (anyhow, unit) result" where
  "open_store E db =
     (case db_open E db of None \<Rightarrow> Inr () | Some e \<Rightarrow> Inl [''open state database '' @ db, e])"

definition reject_public_bind :: "(socket_addr \<Rightarrow> string) \<Rightarrow> socket_addr \<Rightarrow> (anyhow, unit) result" where
  "reject_public_bind show addr =
     (if unspecified (sa_ip addr)
      then Inl [''refusing to bind management API to public wildcard address '' @ show addr] else Inr ())"

record agent_args =
  ag_db :: string
  ag_config :: "string option"
  ag_bind :: socket_addr
  ag_unix_socket :: "string option"
  ag_api_token :: "string option"
  ag_allow_no_auth :: bool
  ag_wan_interface :: string
  ag_netbird_interface :: string
  ag_target_cidrs :: "ipv4_net list"

text \<open>The agent's \<open>main\<close> up to the configuration its router is built with.\<close>

definition agent_start :: "('h, 'e) cli_env_scheme \<Rightarrow> (socket_addr \<Rightarrow> string) \<Rightarrow> agent_args \<Rightarrow>
    ('w db_scheme, anyhow failure, edge_config) eff" where
  "agent_start E show args =
     eff_bind (eff_lift (map_err Fail (reject_public_bind show (ag_bind args)))) (\<lambda>_.
     eff_bind (eff_lift (map_err Fail (load_config E (ag_config args) (ag_wan_interface args)
       (ag_netbird_interface args) (ag_target_cidrs args)))) (\<lambda>requested.
     eff_bind (eff_lift (map_err Fail (open_store E (ag_db args)))) (\<lambda>_.
     eff_bind (cli_core (resolve_edge_config E requested (ag_config args \<noteq> None))) (\<lambda>cfg.
     let cfg' = (if api_token cfg = None then cfg\<lparr>api_token := ag_api_token args\<rparr> else cfg)
     in if api_token cfg' = None \<and> \<not> ag_allow_no_auth args
        then eff_err (Fail [''missing API token; set EDGE_API_TOKEN, config api_token, or pass --allow-no-auth for local development''])
        else eff_ret cfg'))))"

section \<open>Mappings\<close>

record create_mapping_args =
  ca_edge_private_ip :: ipv4_addr
  ca_target :: ipv4_addr
  ca_public_ip :: "ipv4_addr option"
  ca_public_port :: "u16 option"
  ca_target_port :: "u16 option"
  ca_mode :: mapping_mode
  ca_protocol :: protocol
  ca_backend :: mapping_backend
  ca_name :: "string option"
  ca_skip_route_check :: bool

record delete_mapping_args =
  da_id :: string
  da_keep_oci_resources :: bool
  da_skip_reconcile :: bool
  da_output :: string

datatype map_command =
    MapCreate create_mapping_args
  | MapList
  | MapGet string
  | MapDelete delete_mapping_args
  | MapEnable string
  | MapDisable string

definition cli_id :: "string \<Rightarrow> ('h, 'w, mapping_id) cli_eff" where
  "cli_id v = eff_lift (map_err (\<lambda>e. Fail [core_error_to_string e]) (mapping_id_from_str v))"

definition validate_netbird_route :: "('h, 'e) cli_env_scheme \<Rightarrow> ipv4_addr \<Rightarrow> string \<Rightarrow> ('h, 'w, unit) cli_eff" where
  "validate_netbird_route E target nb =
     eff_bind (cli_netbird (route_get E netbird_cli_default target)) (\<lambda>route.
     if \<not> uses_interface route nb
     then bail (''target route does not use '' @ nb @ '': '' @ rt_route route) else eff_ret ())"

definition default_name :: "ipv4_addr \<Rightarrow> string" where
  "default_name target = map (\<lambda>c. if c = CHR ''.'' then CHR ''_'' else c) (''target_'' @ ip_to_string target)"

definition map_create :: "('h, 'e) cli_env_scheme \<Rightarrow> edge_config \<Rightarrow> create_mapping_args \<Rightarrow> ('h, 'w, unit) cli_eff" where
  "map_create E cfg a =
     eff_bind (if \<not> ca_skip_route_check a then validate_netbird_route E (ca_target a) (netbird_interface cfg)
               else eff_ret ()) (\<lambda>_.
     let name = (case ca_name a of None \<Rightarrow> default_name (ca_target a) | Some n \<Rightarrow> n)
     in eff_bind (now_utc E) (\<lambda>now.
        eff_bind (fresh_uuid E) (\<lambda>uuid.
        let m = (mapping_new uuid now name (ca_public_ip a) (ca_edge_private_ip a) (ca_target a))
              \<lparr>public_port := ca_public_port a, target_port := ca_target_port a, m_mode := ca_mode a,
               m_protocol := ca_protocol a, m_backend := ca_backend a\<rparr>
        in eff_bind (cli_core (insert_mapping E m)) (\<lambda>_.
           eff_bind (println (''Created mapping: '' @ id_str (m_id m))) (\<lambda>_.
           eff_bind (case public_ip m of
               None \<Rightarrow> eff_ret ()
             | Some ip \<Rightarrow> println (''Public IP: '' @ ip_to_string ip @ port_suffix (public_port m))) (\<lambda>_.
           eff_bind (println (''Edge private IP: '' @ ip_to_string (edge_private_ip m))) (\<lambda>_.
           eff_bind (println (''Target IP: '' @ ip_to_string (target_ip m) @ port_suffix (target_port m))) (\<lambda>_.
           eff_bind (println (''Mode: '' @ mode_debug (m_mode m) @ '' '' @ protocol_debug (m_protocol m))) (\<lambda>_.
           println (''Status: '' @ status_debug (m_status m)))))))))))"

definition is_oci_not_found :: "oci_error \<Rightarrow> bool" where
  "is_oci_not_found e =
     (let t = to_ascii_lowercase (oci_error_to_string e)
      in str_contains t ''notfound'' \<or> str_contains t ''not found'' \<or> str_contains t ''404'')"

definition cleanup_address :: "(string \<Rightarrow> (('h, 'w) console_scheme, oci_error, unit) eff) \<Rightarrow> string \<Rightarrow>
    string option \<Rightarrow> string list \<Rightarrow> ('h, 'w, string list) cli_eff" where
  "cleanup_address del kind v failures =
     (case v of
        None \<Rightarrow> eff_ret failures
      | Some i \<Rightarrow>
          eff_catch (del i) (\<lambda>r.
          case r of
            Inr _ \<Rightarrow> eff_bind (println (''Deleted OCI '' @ kind @ '': '' @ i)) (\<lambda>_. eff_ret failures)
          | Inl e \<Rightarrow>
              if is_oci_not_found e
              then eff_bind (println (''OCI '' @ kind @ '' already absent: '' @ i)) (\<lambda>_. eff_ret failures)
              else eff_ret (failures @ [kind @ '' '' @ i @ '': '' @ oci_error_to_string e])))"

definition cleanup_mapping_oci :: "('h, 'e) cli_env_scheme \<Rightarrow> mapping \<Rightarrow> ('h, 'w, unit) cli_eff" where
  "cleanup_mapping_oci E m =
     eff_bind (cleanup_address (delete_public_ip E oci_cli_default) ''public IP'' (oci_public_ip_ocid m) []) (\<lambda>f1.
     eff_bind (cleanup_address (delete_private_ip E oci_cli_default) ''private IP'' (oci_private_ip_ocid m) f1) (\<lambda>f2.
     if f2 \<noteq> [] then bail (''OCI cleanup failed: '' @ intercalate ''; '' f2) else eff_ret ()))"

definition map_delete :: "('h, 'e) cli_env_scheme \<Rightarrow> edge_config \<Rightarrow> delete_mapping_args \<Rightarrow> ('h, 'w, unit) cli_eff" where
  "map_delete E cfg a =
     eff_bind (cli_id (da_id a)) (\<lambda>i.
     eff_bind (cli_core (get_mapping E i)) (\<lambda>m.
     eff_bind (cli_core (set_mapping_enabled E i False)) (\<lambda>_.
     eff_bind (if \<not> da_skip_reconcile a
               then eff_bind (with_context (''reconcile disabled mapping '' @ id_str i) (cli_reconciled
                      (reconcile E reconciler_default cfg
                        \<lparr>nft_output = da_output a, dry_run = False, apply_nft = True, apply_linux = True,
                         opt_xdp = xdp_config_disabled []\<rparr>))) (\<lambda>_. eff_ret ())
               else eff_ret ()) (\<lambda>_.
     eff_bind (if \<not> da_keep_oci_resources a then cleanup_mapping_oci E m else eff_ret ()) (\<lambda>_.
     eff_bind (cli_core (delete_mapping E i)) (\<lambda>deleted.
     println (''Deleted mapping: '' @ id_str (m_id deleted))))))))"

definition map_switch :: "('h, 'e) cli_env_scheme \<Rightarrow> bool \<Rightarrow> string \<Rightarrow> string \<Rightarrow> ('h, 'w, unit) cli_eff" where
  "map_switch E on verb v =
     eff_bind (cli_id v) (\<lambda>i.
     eff_bind (cli_core (set_mapping_enabled E i on)) (\<lambda>m.
     println (verb @ '' mapping: '' @ id_str (m_id m))))"

fun handle_map :: "('h, 'e) cli_env_scheme \<Rightarrow> edge_config \<Rightarrow> map_command \<Rightarrow> ('h, 'w, unit) cli_eff" where
  "handle_map E cfg (MapCreate a) = map_create E cfg a"
| "handle_map E cfg MapList =
     eff_bind (cli_core (list_mappings E)) (\<lambda>ms. eff_forM print_mapping_line ms)"
| "handle_map E cfg (MapGet v) =
     eff_bind (cli_id v) (\<lambda>i. eff_bind (cli_core (get_mapping E i)) print_mapping_line)"
| "handle_map E cfg (MapDelete a) = map_delete E cfg a"
| "handle_map E cfg (MapEnable v) = map_switch E True ''Enabled'' v"
| "handle_map E cfg (MapDisable v) = map_switch E False ''Disabled'' v"

end
