(* ===== verification/Cli_Commands.thy ===== *)
theory Cli_Commands
  imports Cli
begin

text \<open>
  The remaining commands of \<open>src/crates/edge-cli/src/main.rs\<close>: applying, reconciling, rolling back,
  Oracle addresses, NetBird, status, and the dispatch of \<open>main\<close>.
\<close>

section \<open>Applying\<close>

record apply_args =
  aa_dry_run :: bool
  aa_check :: bool
  aa_output :: string
  aa_enable_xdp :: bool
  aa_xdp_interface :: "string option"
  aa_xdp_pin_path :: string

record reconcile_args =
  ra_dry_run :: bool
  ra_skip_linux :: bool
  ra_skip_nft :: bool
  ra_output :: string
  ra_enable_xdp :: bool
  ra_xdp_interface :: "string option"
  ra_xdp_pin_path :: string

record rollback_args =
  ro_generation_id :: int
  ro_output :: string

definition cli_xdp_config :: "bool \<Rightarrow> string option \<Rightarrow> string \<Rightarrow> edge_config \<Rightarrow> xdp_config" where
  "cli_xdp_config on interface pin cfg =
     (let i = (case interface of None \<Rightarrow> wan_interface cfg | Some x \<Rightarrow> x)
      in if on then xdp_config_enabled i pin else xdp_config_disabled i)"

definition xdp_note :: "nat \<Rightarrow> ('h, 'w, unit) cli_eff" where
  "xdp_note n = (if 0 < n then eprintln (''XDP plan entries: '' @ show_nat n) else eff_ret ())"

definition handle_apply :: "('h, 'e) cli_env_scheme \<Rightarrow> edge_config \<Rightarrow> apply_args \<Rightarrow> ('h, 'w, unit) cli_eff" where
  "handle_apply E cfg a =
     eff_bind (cli_core (list_mappings E)) (\<lambda>ms.
     eff_bind (eff_lift (map_err (lift_failure (\<lambda>e. [core_error_to_string e]))
       (render_nftables E ms cfg default_table_name))) (\<lambda>rendered.
     if aa_dry_run a \<and> aa_check a then bail ''--dry-run and --check are mutually exclusive''
     else
       let has_xdp = list_ex (\<lambda>m. enabled m \<and> m_backend m = Xdp) ms
       in if aa_dry_run a \<and> \<not> aa_enable_xdp a \<and> \<not> has_xdp then print rendered
          else
            eff_bind (cli_reconciled (reconcile E reconciler_default cfg
              \<lparr>nft_output = aa_output a, dry_run = aa_dry_run a, apply_nft = (\<not> aa_check a),
               apply_linux = (\<not> aa_check a),
               opt_xdp = cli_xdp_config (aa_enable_xdp a) (aa_xdp_interface a) (aa_xdp_pin_path a) cfg\<rparr>)) (\<lambda>report.
            if aa_dry_run a
            then eff_bind (print rendered) (\<lambda>_. xdp_note (rep_xdp_plan_entries report))
            else if aa_check a then println (''nft validation ok: '' @ aa_output a)
            else println (''Applied nftables config: '' @ aa_output a))))"

definition handle_reconcile :: "('h, 'e) cli_env_scheme \<Rightarrow> edge_config \<Rightarrow> reconcile_args \<Rightarrow> ('h, 'w, unit) cli_eff" where
  "handle_reconcile E cfg a =
     eff_bind (cli_reconciled (reconcile E reconciler_default cfg
       \<lparr>nft_output = ra_output a, dry_run = ra_dry_run a, apply_nft = (\<not> ra_skip_nft a),
        apply_linux = (\<not> ra_skip_linux a),
        opt_xdp = cli_xdp_config (ra_enable_xdp a) (ra_xdp_interface a) (ra_xdp_pin_path a) cfg\<rparr>)) (\<lambda>report.
     if ra_dry_run a
     then eff_bind (print (rep_nftables_config report)) (\<lambda>_. xdp_note (rep_xdp_plan_entries report))
     else
       eff_bind (println (''Reconciled generation: '' @ show_status (rep_generation_id report))) (\<lambda>_.
       eff_bind (println (''Added addresses: '' @ intercalate '','' (rep_added_addresses report))) (\<lambda>_.
       eff_bind (println (''Removed addresses: '' @ intercalate '','' (rep_removed_addresses report))) (\<lambda>_.
       println (''XDP plan entries: '' @ show_nat (rep_xdp_plan_entries report))))))"

definition handle_rollback :: "('h, 'e) cli_env_scheme \<Rightarrow> rollback_args \<Rightarrow> ('h, 'w, unit) cli_eff" where
  "handle_rollback E a =
     eff_bind (cli_reconciled (rollback E reconciler_default (ro_generation_id a) (ro_output a))) (\<lambda>_.
     println (''Rolled back to generation: '' @ show_int (ro_generation_id a)))"

section \<open>Oracle addresses\<close>

datatype oracle_command =
    IpList string
  | IpAllocate string string string "string option"
  | IpRelease string "string option"
  | VnicCheck "string option"

definition oracle_list :: "('h, 'e) cli_env_scheme \<Rightarrow> string \<Rightarrow> ('h, 'w, unit) cli_eff" where
  "oracle_list E compartment =
     eff_bind (cli_oci (list_public_ips E oci_cli_default compartment)) (\<lambda>ips.
     eff_forM (\<lambda>p. println (pub_id p @ tab @ ip_to_string (pub_ip_address p) @ tab @
       or_dash (pub_private_ip_id p) @ tab @ or_dash (pub_lifecycle_state p))) ips)"

text \<open>After the allocation: the mapping is updated, or both addresses are deleted and the error says
  how that went. The two \<open>unwrap\<close>s are on fields just set.\<close>

definition cli_store_allocation :: "('h, 'e) cli_env_scheme \<Rightarrow> mapping \<Rightarrow> allocation \<Rightarrow> ('h, 'w, unit) cli_eff" where
  "cli_store_allocation E m a =
     eff_bind (now_utc E) (\<lambda>now.
     let m' = allocated_mapping now a m
     in eff_catch (update_mapping E m') (\<lambda>updated.
        case updated of
          Inl error \<Rightarrow>
            eff_catch (delete_public_ip E oci_cli_default (pub_id (alloc_public_ip a))) (\<lambda>public.
            eff_catch (delete_private_ip E oci_cli_default (priv_id (alloc_private_ip a))) (\<lambda>private.
            case (public, private) of
              (Inr _, Inr _) \<Rightarrow>
                bail (''database update failed after OCI allocation; cleaned up OCI resources: '' @
                  core_error_to_string error)
            | _ \<Rightarrow>
                bail (''database update failed after OCI allocation: '' @ core_error_to_string error @
                  ''; public IP cleanup: '' @
                  oci_error_debug E (case public of Inl e \<Rightarrow> Some e | Inr _ \<Rightarrow> None) @
                  ''; private IP cleanup: '' @
                  oci_error_debug E (case private of Inl e \<Rightarrow> Some e | Inr _ \<Rightarrow> None))))
        | Inr _ \<Rightarrow>
            eff_bind (println (''Allocated public IP: '' @ ip_to_string (pub_ip_address (alloc_public_ip a)))) (\<lambda>_.
            eff_bind (println (''Allocated OCI private IP: '' @ ip_to_string (edge_private_ip m'))) (\<lambda>_.
            eff_bind (println (''OCI public IP OCID: '' @ or_dash (oci_public_ip_ocid m'))) (\<lambda>_.
            println (''OCI private IP OCID: '' @ or_dash (oci_private_ip_ocid m')))))))"

definition oracle_allocate :: "('h, 'e) cli_env_scheme \<Rightarrow> string \<Rightarrow> string \<Rightarrow> string \<Rightarrow> string option \<Rightarrow>
    ('h, 'w, unit) cli_eff" where
  "oracle_allocate E mapping_text compartment vnic display_name =
     eff_bind (cli_id mapping_text) (\<lambda>i.
     eff_bind (cli_core (get_mapping E i)) (\<lambda>m.
     if already_allocated m then bail (''mapping already has OCI allocation fields: '' @ id_str i)
     else
       let name = (case display_name of None \<Rightarrow> m_name m | Some n \<Rightarrow> n)
       in eff_bind (cli_oci (validate_forwarding_vnic E oci_cli_default vnic)) (\<lambda>_.
          eff_bind (cli_oci (create_private_ip E oci_cli_default vnic (Some name))) (\<lambda>private.
          eff_catch (create_reserved_public_ip E oci_cli_default compartment (priv_id private) (Some name)) (\<lambda>created.
          case created of
            Inl error \<Rightarrow>
              eff_catch (delete_private_ip E oci_cli_default (priv_id private)) (\<lambda>cleanup.
              case cleanup of
                Inl cleanup_error \<Rightarrow>
                  bail (''public IP allocation failed: '' @ oci_error_to_string error @
                    ''; private IP cleanup failed: '' @ oci_error_to_string cleanup_error)
              | Inr _ \<Rightarrow> eff_err (Fail [oci_error_to_string error]))
          | Inr public \<Rightarrow>
              cli_store_allocation E m \<lparr>alloc_private_ip = private, alloc_public_ip = public\<rparr>)))))"

definition oracle_release :: "('h, 'e) cli_env_scheme \<Rightarrow> string \<Rightarrow> string option \<Rightarrow> ('h, 'w, unit) cli_eff" where
  "oracle_release E public private =
     eff_bind (cli_oci (delete_public_ip E oci_cli_default public)) (\<lambda>_.
     eff_bind (println (''Released public IP: '' @ public)) (\<lambda>_.
     case private of
       None \<Rightarrow> eff_ret ()
     | Some i \<Rightarrow>
         eff_bind (cli_oci (delete_private_ip E oci_cli_default i)) (\<lambda>_.
         println (''Deleted private IP: '' @ i))))"

definition oracle_vnic_check :: "('h, 'e) cli_env_scheme \<Rightarrow> string option \<Rightarrow> ('h, 'w, unit) cli_eff" where
  "oracle_vnic_check E v =
     eff_bind (cli_core (get_edge_config E)) (\<lambda>stored.
     eff_bind (eff_lift (ok_or (Fail [''missing VNIC ID; pass --vnic-id or set oci_vnic_id in config''])
       (or_else v (Option.bind stored oci_vnic_id)))) (\<lambda>i.
     eff_bind (cli_oci (validate_forwarding_vnic E oci_cli_default i)) (\<lambda>card.
     println (''VNIC forwarding check ok: '' @ vnic_id card @ '' ('' @ or_dash (vnic_display_name card) @ '')''))))"

fun handle_oracle :: "('h, 'e) cli_env_scheme \<Rightarrow> oracle_command \<Rightarrow> ('h, 'w, unit) cli_eff" where
  "handle_oracle E (IpList c) = oracle_list E c"
| "handle_oracle E (IpAllocate m c v n) = oracle_allocate E m c v n"
| "handle_oracle E (IpRelease p q) = oracle_release E p q"
| "handle_oracle E (VnicCheck v) = oracle_vnic_check E v"

section \<open>NetBird and status\<close>

datatype netbird_command = NbStatus | NbNetworks | NbCheck ipv4_addr bool

definition netbird_check :: "('h, 'e) cli_env_scheme \<Rightarrow> string \<Rightarrow> ipv4_addr \<Rightarrow> bool \<Rightarrow> ('h, 'w, unit) cli_eff" where
  "netbird_check E nb target ping =
     eff_bind (cli_netbird (route_get E netbird_cli_default target)) (\<lambda>route.
     eff_bind (println (''Route: '' @ rt_route route)) (\<lambda>_.
     eff_bind (println (''Interface: '' @ or_dash (rt_interface route))) (\<lambda>_.
     if \<not> uses_interface route nb
     then bail (''target route does not use '' @ nb @ '': '' @ rt_route route)
     else if ping
     then eff_bind (cli_netbird (ping_once E netbird_cli_default target)) (\<lambda>_. println ''Ping: ok'')
     else eff_ret ())))"

fun handle_netbird :: "('h, 'e) cli_env_scheme \<Rightarrow> string \<Rightarrow> netbird_command \<Rightarrow> ('h, 'w, unit) cli_eff" where
  "handle_netbird E nb NbStatus =
     eff_bind (cli_netbird (nb_status E netbird_cli_default)) (\<lambda>st.
     eff_bind (println (''Daemon: '' @ (case daemon_status st of None \<Rightarrow> ''unknown'' | Some v \<Rightarrow> v))) (\<lambda>_.
     eff_bind (println (''FQDN: '' @ or_dash (nb_fqdn st))) (\<lambda>_.
     eff_bind (println (''NetBird IPv4: '' @ or_dash (netbird_ip st))) (\<lambda>_.
     eff_bind (println (''NetBird IPv6: '' @ or_dash (netbird_ipv6 st))) (\<lambda>_.
     println (''Peers: '' @ show_nat (unat (peers_connected (nb_peers st))) @ ''/'' @
       show_nat (unat (peers_total (nb_peers st))) @ '' connected''))))))"
| "handle_netbird E nb NbNetworks =
     eff_bind (cli_netbird (nb_status E netbird_cli_default)) (\<lambda>st. eff_forM println (advertised_networks st))"
| "handle_netbird E nb (NbCheck target ping) = netbird_check E nb target ping"

definition handle_status :: "('h, 'e) cli_env_scheme \<Rightarrow> edge_config \<Rightarrow> ('h, 'w, unit) cli_eff" where
  "handle_status E cfg =
     eff_bind (cli_core (list_mappings E)) (\<lambda>ms.
     eff_bind (println (''WAN interface: '' @ wan_interface cfg)) (\<lambda>_.
     eff_bind (println (''NetBird interface: '' @ netbird_interface cfg)) (\<lambda>_.
     eff_bind (println (''Target CIDRs: '' @ nets_debug E (target_cidrs cfg))) (\<lambda>_.
     println (''Mappings: '' @ show_nat (length ms) @ '' total, '' @ show_nat (length (filter enabled ms)) @
       '' enabled'')))))"

section \<open>The program\<close>

datatype cli_command =
    CmdMap map_command
  | CmdApply apply_args
  | CmdReconcile reconcile_args
  | CmdRollback rollback_args
  | CmdOracle oracle_command
  | CmdStatus
  | CmdNetbird netbird_command

record cli_args =
  cl_db :: string
  cl_config :: "string option"
  cl_wan_interface :: string
  cl_netbird_interface :: string
  cl_target_cidrs :: "ipv4_net list"
  cl_command :: cli_command

fun run_command :: "('h, 'e) cli_env_scheme \<Rightarrow> edge_config \<Rightarrow> cli_command \<Rightarrow> ('h, 'w, unit) cli_eff" where
  "run_command E cfg (CmdMap c) = handle_map E cfg c"
| "run_command E cfg (CmdApply a) = handle_apply E cfg a"
| "run_command E cfg (CmdReconcile a) = handle_reconcile E cfg a"
| "run_command E cfg (CmdRollback a) = handle_rollback E a"
| "run_command E cfg (CmdOracle c) = handle_oracle E c"
| "run_command E cfg CmdStatus = handle_status E cfg"
| "run_command E cfg (CmdNetbird c) = handle_netbird E (netbird_interface cfg) c"

definition cli_main :: "('h, 'e) cli_env_scheme \<Rightarrow> cli_args \<Rightarrow> ('h, 'w, unit) cli_eff" where
  "cli_main E args =
     eff_bind (eff_lift (map_err Fail (load_config E (cl_config args) (cl_wan_interface args)
       (cl_netbird_interface args) (cl_target_cidrs args)))) (\<lambda>requested.
     eff_bind (eff_lift (map_err Fail (open_store E (cl_db args)))) (\<lambda>_.
     eff_bind (cli_core (resolve_edge_config E requested (cl_config args \<noteq> None))) (\<lambda>cfg.
     run_command E cfg (cl_command args))))"

end
