(* ===== verification/Sqlite_Props.thy ===== *)
theory Sqlite_Props
  imports Sqlite_Store
begin

text \<open>
  The properties of the SQLite store: what any interleaving of its operations guarantees, what one
  client at a time can rely on, and the round trips of its tables.
\<close>

section \<open>Sample databases\<close>

definition sample_row :: "mapping \<Rightarrow> mapping_row" where
  "sample_row m =
     mapping_columns m (map_option sample_time_text (last_checked_at m)) (sample_time_text (created_at m))
       (sample_time_text (updated_at m))"

lemma sample_insert_values: "insert_values sample_env m = Inr (sample_row m)"
  by (cases "last_checked_at m")
    (simp_all add: insert_values_def format_optional_time_def format_time_def sample_row_def)

definition sample_db0 :: db where
  "sample_db0 = empty_db\<lparr>t_config := [(''default'', ''sample'')]\<rparr>"

definition sample_db1 :: db where
  "sample_db1 = sample_db0\<lparr>tick := 3, t_mappings := [sample_row sample_tcp]\<rparr>"

definition sample_db2 :: db where
  "sample_db2 = sample_db0\<lparr>tick := 6, t_mappings := [sample_row sample_tcp, sample_row sample_udp]\<rparr>"

lemma sample_id_wf: "id_wf (m_id sample_tcp)" "id_wf (m_id sample_udp)"
  by (simp_all add: id_wf_def) (rule trim_graphic; simp add: ascii_graphic_def)+

lemma sample_env_valid:
  "mapping_ok sample_env sample_config sample_tcp" "mapping_ok sample_env sample_config sample_udp"
  by (simp_all add: sample_ok)

lemma sample_row_decodes:
  "row_to_mapping sample_env (sample_row sample_tcp) = Inr sample_tcp"
  "row_to_mapping sample_env (sample_row sample_udp) = Inr sample_udp"
  using insert_values_decode(1) [OF sample_env_doc(1) sample_insert_values sample_env_valid(1) sample_id_wf(1)]
    insert_values_decode(1) [OF sample_env_doc(1) sample_insert_values sample_env_valid(2) sample_id_wf(2)]
  by simp_all

lemma sample_row_id [simp]: "r_id (sample_row m) = id_str (m_id m)"
  by (simp add: sample_row_def)

lemma sample_dbs_invar: "sql_invar sample_env sample_db0" "sql_invar sample_env sample_db1"
  "sql_invar sample_env sample_db2"
  by (auto simp: sql_invar_def row_good_def sample_db0_def sample_db1_def sample_db2_def empty_db_def
      sample_row_decodes)

lemma sample_config_stored:
  "map_of (t_config sample_db0) ''default'' = Some ''sample''"
  "config_from_json sample_env ''sample'' = Inr sample_config"
  by (simp_all add: sample_db0_def sample_unjson_def)

lemma sample_insert1: "insert_mapping sample_env sample_tcp sample_db0 = (Inr (), sample_db1)"
proof -
  have "sql_view sample_env sample_db0 = Map.empty"
    by (simp add: sql_view_def sample_db0_def empty_db_def row_at_def fun_eq_iff)
  moreover have "rows_ok (t_mappings sample_db0)" "fits sample_tcp Map.empty" "tick sample_db0 = 0"
    "t_mappings sample_db0 = []"
    by (simp_all add: sample_db0_def empty_db_def rows_ok_def fits_def)
  ultimately show ?thesis
    using insert_mapping_complete [OF _ sample_config_stored sample_env_valid(1) sample_insert_values sample_dbs_invar(1)]
    by (simp add: sample_db1_def)
qed

lemma sample_db1_reachable: "sql_reachable sample_db1"
proof -
  have "sql_reachable sample_db0" by (rule sql_init) (simp add: sample_db0_def empty_db_def)
  then show ?thesis using keepsD [OF keeps_reachable_insert_mapping sample_insert1] by simp
qed

lemma sample_view1: "sql_view sample_env sample_db1 = [m_id sample_tcp \<mapsto> sample_tcp]"
proof
  fix i
  show "sql_view sample_env sample_db1 i = [m_id sample_tcp \<mapsto> sample_tcp] i"
    by (cases "id_str i = ''map_uuid2''")
      (auto simp: sql_view_def sample_db1_def row_at_def decoded_def sample_row_decodes mapping_id.expand)
qed

lemma sample_insert2: "insert_mapping sample_env sample_udp sample_db1 = (Inr (), sample_db2)"
proof -
  have cfg: "map_of (t_config sample_db1) ''default'' = Some ''sample''"
    by (simp add: sample_db1_def sample_config_stored)
  have "fits sample_udp (sql_view sample_env sample_db1)"
    by (simp add: sample_view1 fits_def sample_admits)
  moreover have "sql_view sample_env sample_db1 (m_id sample_udp) = None" by (simp add: sample_view1)
  ultimately show ?thesis
    using insert_mapping_complete [OF _ cfg sample_config_stored(2) sample_env_valid(2) sample_insert_values
        sample_dbs_invar(2) sql_reachable_rows_ok [OF sample_db1_reachable]]
    by (simp add: sample_db2_def) (simp add: sample_db1_def)
qed

lemma sample_db2_reachable: "sql_reachable sample_db2"
  using keepsD [OF keeps_reachable_insert_mapping sample_insert2] sample_db1_reachable by simp

section \<open>Lists\<close>

lemma list_mappings_rows:
  assumes "list_mappings E s = (Inr ms, t)"
  shows "list_all2 (\<lambda>r m. row_to_mapping E r = Inr m)
    (sort_key (\<lambda>r. [r_created_at r, r_id r]) (t_mappings s)) ms"
  using assms by (auto simp: list_mappings_def eff_bind_eq_Inr res_mapM_ok dest!: select_Inr)

lemma list_mappings_total:
  assumes "sql_fault E (tick s) = None" "sql_invar E s"
  shows "\<exists>ms. list_mappings E s = (Inr ms, s\<lparr>tick := Suc (tick s)\<rparr>) \<and> length ms = length (t_mappings s)"
proof -
  let ?rows = "sort_key (\<lambda>r. [r_created_at r, r_id r]) (t_mappings s)"
  let ?ms = "map (\<lambda>r. the (decoded E r)) ?rows"
  have "res_mapM (row_to_mapping E) ?rows = Inr ?ms"
    by (rule res_mapM_eq_map) (use assms(2) in \<open>auto simp: sql_invar_def row_good_def decoded_def\<close>)
  then show ?thesis using assms(1) by (auto simp: list_mappings_def select_ok eff_bind_def)
qed

lemma keeps_snd: "keeps P m \<Longrightarrow> P s \<Longrightarrow> P (snd (m s))"
  by (simp add: keeps_def)

lemma sort_key_last:
  "(\<And>x. x \<in> set xs \<Longrightarrow> f y < f x) \<Longrightarrow> sort_key f (xs @ [y]) = y # sort_key f xs"
proof (induction xs)
  case (Cons a xs)
  then have "f y < f a" "sort_key f (xs @ [y]) = y # sort_key f xs" by simp_all
  then show ?case by (simp add: not_le [symmetric])
qed simp

lemma reachable_listed_apart:
  assumes reach: "sql_reachable s" and list: "list_mappings E s = (Inr ms, t)"
  shows "pairwise_ok (\<lambda>a b. enabled a \<longrightarrow> enabled b \<longrightarrow> \<not> conflicts a b \<and> \<not> public_clash a b) ms"
proof -
  let ?rows = "sort_key (\<lambda>r. [r_created_at r, r_id r]) (t_mappings s)"
  have ok: "rows_ok (t_mappings s)" using sql_reachable_rows_ok [OF reach] .
  then have "distinct (map r_id (t_mappings s))"
    by (auto simp: rows_ok_def rows_apart_def intro!: pairwise_neq_distinct elim: pairwise_ok_mono)
  then have "distinct (t_mappings s)" by (simp add: distinct_map)
  then have "pairwise_ok rows_apart ?rows"
    using ok pairwise_ok_distinct [of rows_apart "t_mappings s"] rows_apart_sym
    by (intro pairwise_ok_set) (auto simp: rows_ok_def)
  then show ?thesis
  proof (rule pairwise_ok_list_all2 [OF list_mappings_rows [OF list]])
    fix r r' a b
    assume r: "r \<in> set ?rows" "r' \<in> set ?rows" "row_to_mapping E r = Inr a" "row_to_mapping E r' = Inr b"
      and apart: "rows_apart r r'"
    have wf: "row_wf r" "row_wf r'" using r ok by (simp_all add: rows_ok_def)
    have port: "m_mode a = PortForwardSnat \<Longrightarrow> public_port a \<noteq> None"
      using wf(1) row_to_mapping_fields(5,7) [OF r(3)] by (auto simp: row_wf_def simp del: mode_wire.simps)
    show "enabled a \<longrightarrow> enabled b \<longrightarrow> \<not> conflicts a b \<and> \<not> public_clash a b"
      using row_clash_mapping [OF r(3,4) _ _ _ port] apart wf row_to_mapping_fields(8) [OF r(3)]
        row_to_mapping_fields(8) [OF r(4)]
      by (auto simp: rows_apart_def row_wf_def compatible_def)
  qed
qed

section \<open>Properties\<close>

text \<open>C4. However the statements of any number of clients are interleaved, and whichever of them
  fail, two enabled mappings that the store lists never conflict and never share a public address
  one of them owns alone: what the checks of \<open>insert_mapping\<close> and \<open>update_mapping\<close> can miss in a
  race, the unique indexes and triggers reject.\<close>

theorem sqlite_interleaving_safe:
  assumes reach: "sql_reachable s" and list: "list_mappings E s = (Inr ms, t)"
  shows "pairwise_ok (\<lambda>a b. enabled a \<longrightarrow> enabled b \<longrightarrow> \<not> conflicts a b \<and> \<not> public_clash a b) ms"
  using assms by (rule reachable_listed_apart)

theorem sqlite_interleaving_safe_witness:
  "\<exists>ms t. list_mappings sample_env sample_db2 = (Inr ms, t) \<and> length ms = 2 \<and>
     pairwise_ok (\<lambda>a b. enabled a \<longrightarrow> enabled b \<longrightarrow> \<not> conflicts a b \<and> \<not> public_clash a b) ms"
proof -
  obtain ms where list: "list_mappings sample_env sample_db2 = (Inr ms, sample_db2\<lparr>tick := Suc (tick sample_db2)\<rparr>)"
    and len: "length ms = length (t_mappings sample_db2)"
    using list_mappings_total [OF _ sample_dbs_invar(3)] by auto
  have "length ms = 2" using len by (simp add: sample_db2_def)
  then show ?thesis using list sqlite_interleaving_safe [OF sample_db2_reachable list] by blast
qed

text \<open>C31. Every operation of the store, wherever it stops, has issued only statements of that
  interleaving: it takes reachable databases to reachable databases, so the guarantee above covers
  the agent and the command line working on the same file.\<close>

theorem sqlite_operations_stay_reachable:
  assumes "sql_reachable s"
  shows "sql_reachable (snd (insert_mapping E m s)) \<and> sql_reachable (snd (update_mapping E m s)) \<and>
    sql_reachable (snd (delete_mapping E i s)) \<and> sql_reachable (snd (set_mapping_enabled E i en s)) \<and>
    sql_reachable (snd (set_mapping_health E i st h err s)) \<and>
    sql_reachable (snd (resolve_edge_config E cfg auth s)) \<and>
    sql_reachable (snd (record_generation E gs text ap err s)) \<and>
    sql_reachable (snd (record_event E lv msg dt s))"
proof -
  have r: "keeps sql_reachable (resolve_edge_config E cfg auth)"
    unfolding resolve_edge_config_def by (intro keeps_intros)
  show ?thesis
    by (intro conjI; rule keeps_snd [where P = sql_reachable, OF _ assms];
        intro r keeps_reachable_insert_mapping keeps_reachable_update_mapping keeps_reachable_ops)
qed

theorem sqlite_operations_stay_reachable_witness:
  "sql_reachable (snd (set_mapping_enabled sample_env (m_id sample_tcp) False sample_db2))"
  using sqlite_operations_stay_reachable [OF sample_db2_reachable] by blast

text \<open>C28. For one client at a time, whatever the engine's faults: after any sequence of inserts,
  updates, deletes and enables on an empty table every row decodes, and the stored mappings are
  coherent: each under its own identifier, no two with a public address one of them owns alone or
  with the same one-to-one target, enabled or not.\<close>

theorem sqlite_sequential_coherent:
  assumes doc: "time_doc E" and empty: "t_mappings s = []"
  shows "coherent (sql_view E (sql_run E ws s)) \<and>
    (\<forall>r\<in>set (t_mappings (sql_run E ws s)). \<exists>m. row_to_mapping E r = Inr m \<and> id_str (m_id m) = r_id r)"
proof -
  have env: "sqlite_env E" using doc by (rule sqlite_env.intro)
  have inv: "sql_invar E s" "coherent (sql_view E s)"
    using empty by (simp_all add: sql_invar_def sql_view_def row_at_def coherent_def)
  show ?thesis
    using sqlite_env.run_coherent [OF env inv, of ws] sqlite_env.run_invar [OF env inv(1), of ws]
    by (simp add: sql_invar_def row_good_def)
qed

theorem sqlite_sequential_coherent_witness:
  "coherent (sql_view sample_env (sql_run sample_env
     [WInsert sample_tcp, WInsert sample_udp, WEnable 0 (m_id sample_tcp) False] sample_db0)) \<and>
   sql_run sample_env [WInsert sample_tcp, WInsert sample_udp] sample_db0 = sample_db2"
proof -
  have "t_mappings sample_db0 = []" by (simp add: sample_db0_def empty_db_def)
  moreover have "sql_run sample_env [WInsert sample_tcp, WInsert sample_udp] sample_db0 = sample_db2"
    by (simp add: sample_insert1 sample_insert2 sample_id_wf del: sample_ids)
  ultimately show ?thesis
    using sqlite_sequential_coherent [OF sample_env_doc(1), of sample_db0] by blast
qed

text \<open>C29. Without faults of the engine, \<open>insert_mapping\<close> accepts exactly the mappings that are
  acceptable under the stored configuration, have a new identifier and are admissible beside every
  stored mapping: then its row is appended, in three statements, and otherwise the database is left
  as it was. In particular the indexes and triggers of the schema never reject what the checks
  have accepted.\<close>

theorem sqlite_insert_exact:
  assumes doc: "time_doc E" and faults: "\<forall>n. sql_fault E n = None"
    and cfg: "map_of (t_config s) ''default'' = Some v" "config_from_json E v = Inr cfg"
    and row: "insert_values E m = Inr row" and wf: "id_wf (m_id m)"
    and inv: "sql_invar E s" "sql_reachable s"
  shows "insert_mapping E m s = (Inr (), s\<lparr>tick := tick s + 3, t_mappings := t_mappings s @ [row]\<rparr>) \<and>
      mapping_ok E cfg m \<and> sql_view E s (m_id m) = None \<and> fits m (sql_view E s) \<or>
    (\<exists>e n. insert_mapping E m s = (Inl e, s\<lparr>tick := n\<rparr>)) \<and>
      \<not> (mapping_ok E cfg m \<and> sql_view E s (m_id m) = None \<and> fits m (sql_view E s))"
proof -
  have f: "\<And>n. sql_fault E n = None" using faults by simp
  note complete = insert_mapping_complete [OF f cfg _ row inv(1) sql_reachable_rows_ok [OF inv(2)]]
  show ?thesis
  proof (cases "insert_mapping E m s")
    case (Pair r t)
    show ?thesis
    proof (cases r)
      case (Inl e)
      then have err: "insert_mapping E m s = (Inl e, t)" using Pair by simp
      show ?thesis using insert_mapping_Inl [OF err] err complete by fastforce
    next
      case (Inr u)
      then have t: "insert_mapping E m s = (Inr (), t)" using Pair by simp
      then have "validate_mapping E m cfg = Inr ()"
        using require_edge_config_ok [OF f cfg] by (auto simp: insert_mapping_def eff_bind_eq_Inr)
      then have "mapping_ok E cfg m" by (simp add: validate_mapping_ok)
      with sql_insert_law(2,3) [OF doc inv(1) wf t] complete show ?thesis by blast
    qed
  qed
qed

theorem sqlite_insert_exact_witness:
  "fst (insert_mapping sample_env sample_udp sample_db1) = Inr () \<and>
   mapping_ok sample_env sample_config sample_udp \<and> fits sample_udp (sql_view sample_env sample_db1)"
proof -
  have cfg: "map_of (t_config sample_db1) ''default'' = Some ''sample''"
    by (simp add: sample_db1_def sample_config_stored)
  have faults: "\<forall>n. sql_fault sample_env n = None" by simp
  show ?thesis
    using sqlite_insert_exact [OF sample_env_doc(1) faults cfg sample_config_stored(2)
        sample_insert_values sample_id_wf(2) sample_dbs_invar(2) sample_db1_reachable] sample_insert2
    by simp
qed

text \<open>C30. Reading back: a mapping inserted into a table of decodable rows is returned unchanged, field
  for field, by the next \<open>get_mapping\<close>, and by the \<open>delete_mapping\<close> that removes it, which leaves the
  table as it was before the insert.\<close>

theorem sqlite_insert_read_back:
  assumes doc: "time_doc E" and faults: "\<forall>n. sql_fault E n = None"
    and inv: "sql_invar E s" and wf: "id_wf (m_id m)" and ins: "insert_mapping E m s = (Inr u, t)"
  shows "fst (get_mapping E (m_id m) t) = Inr m \<and> fst (delete_mapping E (m_id m) t) = Inr m \<and>
    t_mappings (snd (delete_mapping E (m_id m) t)) = t_mappings s"
proof -
  from insert_mapping_Inr [OF ins] obtain cfg row s' where ok: "mapping_ok E cfg m"
    and row: "insert_values E m = Inr row" and s': "t_mappings s' = t_mappings s"
    and st: "insert_mapping_row row s' = Inr ((), t)" by blast
  from st s' have c: "check_row row (t_mappings s) = Inr ()" and t: "t_mappings t = t_mappings s @ [row]"
    by (auto simp: insert_mapping_row_def)
  note dec = insert_values_decode [OF doc row ok wf]
  have fresh: "r_id r \<noteq> id_str (m_id m)" if "r \<in> set (t_mappings s)" for r
    using check_row_ok(1) [OF c that] dec(2) by simp
  then have "find (\<lambda>r. r_id r = id_str (m_id m)) (t_mappings t) = Some row"
    using row_at_append [of "t_mappings s" row "id_str (m_id m)"] dec(2)
    by (auto simp: t row_at_def find_None_iff_ex [THEN iffD2] split: option.splits)
  then have get: "get_mapping E (m_id m) t = (Inr m, t\<lparr>tick := Suc (tick t)\<rparr>)"
    using faults dec(1) by (simp add: get_mapping_def select_ok eff_bind_def)
  have "filter (\<lambda>r. r_id r \<noteq> id_str (m_id m)) (t_mappings t) = t_mappings s"
    using fresh dec(2) by (simp add: t filter_id_conv)
  then show ?thesis
    using get faults by (simp add: delete_mapping_def eff_bind_def query_def delete_mapping_row_def Let_def)
qed

theorem sqlite_insert_read_back_witness:
  "fst (get_mapping sample_env (m_id sample_udp) sample_db2) = Inr sample_udp"
proof -
  have faults: "\<forall>n. sql_fault sample_env n = None" by simp
  show ?thesis
    using sqlite_insert_read_back [OF sample_env_doc(1) faults sample_dbs_invar(2) sample_id_wf(2) sample_insert2]
    by blast
qed

text \<open>C32. Whatever fails, and at whatever statement, an insert, update or delete that reports an error
  has left every table as it was.\<close>

theorem sqlite_failed_write_no_effect:
  assumes "insert_mapping E m s = (Inl e, t) \<or> update_mapping E m s = (Inl e, t) \<or>
    delete_mapping E i s = (Inl e, t)"
  shows "\<exists>n. t = s\<lparr>tick := n\<rparr>"
  using assms by (auto dest: insert_mapping_Inl update_mapping_Inl delete_mapping_Inl)

theorem sqlite_failed_write_no_effect_witness:
  "\<exists>e n. insert_mapping sample_env sample_tcp empty_db = (Inl e, empty_db\<lparr>tick := n\<rparr>)"
proof -
  have "insert_mapping sample_env sample_tcp empty_db =
      (Inl (Store ''edge config must be set before mappings''), empty_db\<lparr>tick := 1\<rparr>)"
    by (simp add: insert_mapping_def require_edge_config_def get_edge_config_def select_ok eff_bind_def
        empty_db_def)
  then show ?thesis using sqlite_failed_write_no_effect [of sample_env sample_tcp empty_db] by blast
qed

text \<open>The configuration that is stored is the one read back: an authoritative
  \<open>resolve_edge_config\<close> installs the given configuration, a later one that is not authoritative
  returns it whatever it is given, and both leave the mappings alone.\<close>

theorem sqlite_config_roundtrip:
  assumes doc: "json_doc E" and faults: "\<forall>n. sql_fault E n = None"
    and set: "resolve_edge_config E cfg True s = (Inr cfg', t)"
  shows "cfg' = cfg \<and> edge_config_ok cfg \<and> t_mappings t = t_mappings s \<and>
    fst (get_edge_config E t) = Inr (Some cfg) \<and>
    fst (resolve_edge_config E other False t) = Inr cfg"
proof -
  from set obtain v where cfg': "cfg' = cfg" and ok: "validate_edge_config E cfg = Inr ()"
    and v: "config_to_json E cfg = Inr v" and q: "query E (upsert_config v) s = (Inr (), t)"
    by (auto simp: resolve_edge_config_def set_edge_config_def eff_bind_eq_Inr)
  have t: "t_mappings t = t_mappings s" "map_of (t_config t) ''default'' = Some v"
    using query_Inr [OF q] by (auto simp: upsert_config_def update_conv)
  have "config_from_json E v = Inr cfg" using doc v by (simp add: json_doc_def)
  then have get: "get_edge_config E t = (Inr (Some cfg), t\<lparr>tick := Suc (tick t)\<rparr>)"
    using faults t by (simp add: get_edge_config_def select_ok eff_bind_def)
  then have "fst (resolve_edge_config E other False t) = Inr cfg"
    by (simp add: resolve_edge_config_def ensure_edge_config_def eff_bind_def)
  with get t ok cfg' show ?thesis by (simp add: validate_edge_config_ok)
qed

theorem sqlite_config_roundtrip_witness:
  "\<exists>t. resolve_edge_config sample_env sample_config True empty_db = (Inr sample_config, t) \<and>
     fst (get_edge_config sample_env t) = Inr (Some sample_config)"
proof -
  have ok: "validate_edge_config sample_env sample_config = Inr ()"
    using sample_config_ok by (simp add: validate_edge_config_ok)
  obtain t where t: "resolve_edge_config sample_env sample_config True empty_db = (Inr sample_config, t)"
    using ok by (simp add: resolve_edge_config_def set_edge_config_def eff_bind_def query_def
        upsert_config_def sample_json_def Let_def)
  have "\<forall>n. sql_fault sample_env n = None" by simp
  from sqlite_config_roundtrip [OF sample_env_doc(2) this t] t show ?thesis by blast
qed

section \<open>Generations and events\<close>

text \<open>Identifiers handed out so far are at most the sequence.\<close>

definition generations_ok :: "'w db_scheme \<Rightarrow> bool" where
  "generations_ok s \<longleftrightarrow> (\<forall>r\<in>set (t_generations s). gr_id r \<le> seq_generations s)"

lemma generations_ok_empty: "generations_ok empty_db"
  by (simp add: generations_ok_def empty_db_def)

lemma record_generation_Inr:
  assumes "record_generation E gs text ap err s = (Inr g, t)"
  shows "\<exists>ct at. format_time E (g_created_at g) = Inr ct \<and> format_optional_time E ap = Inr at \<and>
    g_id g = seq_generations s + 1 \<and> seq_generations t = g_id g \<and> g_id g \<le> i64_max \<and>
    g_status g = gs \<and> nftables_config g = text \<and> applied_at g = ap \<and> g_error g = err \<and>
    t_mappings t = t_mappings s \<and>
    t_generations t = t_generations s @ [\<lparr>gr_id = g_id g, gr_status = generation_wire gs,
      gr_nftables_config = text, gr_created_at = ct, gr_applied_at = at, gr_error = err\<rparr>]"
  using assms
  by (auto simp: record_generation_def eff_bind_eq_Inr now_utc_def insert_generation_row_def Let_def
      i64_max_def split: if_splits dest!: query_Inr)

lemma keeps_generations_ok: "keeps generations_ok (record_generation E gs text ap err)"
proof -
  have tick: "ignores_tick generations_ok" by (simp add: ignores_tick_def generations_ok_def)
  show ?thesis
    unfolding record_generation_def
    by (intro keeps_intros keeps_query [OF tick] keeps_reads [OF tick] reads_intros)
      (auto simp: generations_ok_def insert_generation_row_def Let_def split: if_splits)
qed

text \<open>The generation just recorded as active is the one \<open>latest_active_generation\<close> returns, with every
  field as recorded, and the one \<open>get_generation\<close> finds under its identifier; the identifier is
  larger than every earlier one and never exceeds the largest \<open>i64\<close>. (Rollback reads it this way.)\<close>

theorem sqlite_latest_active:
  assumes doc: "time_doc E" and faults: "\<forall>n. sql_fault E n = None" and ok: "generations_ok s"
    and rec: "record_generation E GActive text ap err s = (Inr g, t)"
  shows "fst (latest_active_generation E t) = Inr (Some g) \<and> fst (get_generation E (g_id g) t) = Inr g \<and>
    generations_ok t \<and> (\<forall>r\<in>set (t_generations s). gr_id r < g_id g) \<and> g_id g \<le> i64_max"
proof -
  from record_generation_Inr [OF rec] obtain ct at where
      times: "format_time E (g_created_at g) = Inr ct" "format_optional_time E ap = Inr at"
    and g: "g_id g = seq_generations s + 1" "g_id g \<le> i64_max" "g_status g = GActive"
      "nftables_config g = text" "applied_at g = ap" "g_error g = err"
    and rows: "t_generations t = t_generations s @ [\<lparr>gr_id = g_id g, gr_status = ''active'',
      gr_nftables_config = text, gr_created_at = ct, gr_applied_at = at, gr_error = err\<rparr>]" (is "_ = _ @ [?r]")
    by auto
  have new: "gr_id r < g_id g" if "r \<in> set (t_generations s)" for r
    using ok that g(1) by (auto simp: generations_ok_def)
  have dec: "row_to_generation E ?r = Inr g"
    using parse_format_time [OF doc times(1)] parse_format_optional_time [OF doc times(2)] g
      enum_from_string_wire(5) [of E GActive]
    by (simp add: row_to_generation_def)
  have "sort_key (\<lambda>r. - gr_id r) (filter (\<lambda>r. gr_status r = ''active'') (t_generations t)) =
      ?r # sort_key (\<lambda>r. - gr_id r) (filter (\<lambda>r. gr_status r = ''active'') (t_generations s))"
    using sort_key_last [of "filter (\<lambda>r. gr_status r = ''active'') (t_generations s)" "\<lambda>r. - gr_id r" ?r] new
    by (simp add: rows)
  moreover have "find (\<lambda>r. gr_id r = g_id g) (t_generations t) = Some ?r"
    by (auto simp: rows find_Some_iff nth_append intro!: exI [of _ "length (t_generations s)"]
        dest: new [OF nth_mem])
  moreover have "generations_ok t" using keepsD [OF keeps_generations_ok rec ok] .
  ultimately show ?thesis
    using dec faults new g
    by (simp add: latest_active_generation_def get_generation_def select_ok eff_bind_def)
qed

theorem sqlite_latest_active_witness:
  "\<exists>g t. record_generation sample_env GActive ''table'' (Some 7) None empty_db = (Inr g, t) \<and>
     g_id g = 1 \<and> fst (latest_active_generation sample_env t) = Inr (Some g)"
proof -
  have "trim ''table'' = ''table''" by (rule trim_graphic; simp add: ascii_graphic_def)
  then obtain g t where rec: "record_generation sample_env GActive ''table'' (Some 7) None empty_db = (Inr g, t)"
    and "g_id g = 1"
    by (simp add: record_generation_def eff_bind_def now_utc_def query_def insert_generation_row_def
        format_time_def format_optional_time_def empty_db_def i64_max_def Let_def)
  have "\<forall>n. sql_fault sample_env n = None" by simp
  from sqlite_latest_active [OF sample_env_doc(1) this generations_ok_empty rec] rec \<open>g_id g = 1\<close>
  show ?thesis by blast
qed

text \<open>\<open>list_events\<close> returns at most 500 events and at most as many as were asked for (one at least
  when there are any), the newest first.\<close>

theorem sqlite_list_events_bound:
  assumes "list_events E limit s = (Inr evs, t)"
  shows "int (length evs) = min (clamp 1 500 limit) (int (length (t_events s))) \<and>
    length evs \<le> 500 \<and> sorted_wrt (\<ge>) (map ev_id evs)"
proof -
  let ?rows = "take (nat (clamp 1 500 limit)) (sort_key (\<lambda>r. - er_id r) (t_events s))"
  have all: "list_all2 (\<lambda>r e. row_to_event E r = Inr e) ?rows evs"
    using assms by (auto simp: list_events_def eff_bind_eq_Inr res_mapM_ok dest!: select_Inr)
  have c: "1 \<le> clamp 1 500 limit" "clamp 1 500 limit \<le> 500" by (auto simp: clamp_def)
  have len: "length evs = min (nat (clamp 1 500 limit)) (length (t_events s))"
    using list_all2_lengthD [OF all] by simp
  have ids: "map ev_id evs = map er_id ?rows"
    using all by (induction rule: list_all2_induct) (auto simp: row_to_event_def)
  have "sorted (map (\<lambda>r. - er_id r) (sort_key (\<lambda>r. - er_id r) (t_events s)))" by simp
  then have "sorted (map (\<lambda>r. - er_id r) ?rows)" by (simp add: take_map [symmetric] sorted_wrt_take)
  then have "sorted_wrt (\<ge>) (map er_id ?rows)" by (simp add: sorted_wrt_map)
  with ids len c show ?thesis by (auto simp: min_def)
qed

theorem sqlite_list_events_bound_witness:
  "\<exists>evs t. list_events sample_env 0 (snd (record_event sample_env EvInfo ''table'' None empty_db)) = (Inr evs, t) \<and>
     length evs = 1"
proof -
  have "trim ''table'' = ''table''" by (rule trim_graphic; simp add: ascii_graphic_def)
  then have rec: "snd (record_event sample_env EvInfo ''table'' None empty_db) =
      empty_db\<lparr>tick := 2, seq_events := 1, t_events := [\<lparr>er_id = 1, er_level = level_wire EvInfo,
        er_message = ''table'', er_data = None, er_created_at = sample_time_text 10000\<rparr>]\<rparr>" (is "_ = ?s")
    by (simp add: record_event_def eff_bind_def now_utc_def query_def insert_event_row_def
        format_time_def empty_db_def i64_max_def Let_def numeral_2_eq_2)
  have "parse_time sample_env (sample_time_text 10000) = Inr 10000"
    by (rule parse_format_time [OF sample_env_doc(1)]) (simp add: format_time_def)
  then obtain evs t where t: "list_events sample_env 0 ?s = (Inr evs, t)"
    using enum_from_string_wire(6) [of sample_env EvInfo]
    by (simp add: list_events_def select_ok eff_bind_def row_to_event_def clamp_def)
  show ?thesis
    using t sqlite_list_events_bound [OF t] unfolding rec by (auto simp: clamp_def)
qed

end
