(* ===== verification/Reconcile_Props.thy ===== *)
theory Reconcile_Props
  imports Reconcile Sqlite_Props
begin

text \<open>
  What a reconciliation does to the host and to the history kept in the database: the order of the
  commands, the life of a generation, atomic replacement of the script, the addresses of the
  interface, and rollback.
\<close>

section \<open>Case analysis\<close>

lemma eff_bind_cases:
  assumes "eff_bind m f s = (r, t)"
  obtains (error) e where "m s = (Inl e, t)" "r = Inl e"
  | (ok) x u where "m s = (Inr x, u)" "f x u = (r, t)"
  using assms by (auto simp: eff_bind_def split: prod.splits sum.splits)

lemma eff_catch_cases:
  assumes "eff_catch m h s = (r, t)"
  obtains r' u where "m s = (r', u)" "h r' u = (r, t)"
  using assms by (auto simp: eff_catch_def split: prod.splits)

lemma eff_map_err_cases:
  assumes "eff_map_err g m s = (r, t)"
  obtains r' where "m s = (r', t)" "r = map_err g r'"
  using assms by (auto simp: eff_map_err_def split: prod.splits)

section \<open>Files\<close>

lemma fs_call_cases:
  assumes "fs_call E full partly s = (r, t)"
  obtains (ok) "r = Inr ()" "t = s\<lparr>tick := Suc (tick s), files := full (files s)\<rparr>"
  | (error) msg where "r = Inl msg"
      "t = s\<lparr>tick := Suc (tick s), files := partly (io_partial E (tick s)) (files s)\<rparr>"
  using assms by (auto simp: fs_call_def Let_def split: option.splits)

text \<open>A computation that changes nothing but the counter and the files for which it is allowed to.\<close>

definition touches :: "string set \<Rightarrow> ('h, 'w) world_scheme \<Rightarrow> ('h, 'w) world_scheme \<Rightarrow> bool" where
  "touches P s t \<longleftrightarrow> (\<exists>n f. t = s\<lparr>tick := n, files := f\<rparr> \<and> (\<forall>p. p \<notin> P \<longrightarrow> f p = files s p))"

lemma touches_refl: "touches P s s"
  unfolding touches_def by (rule exI [of _ "tick s"], rule exI [of _ "files s"]) simp

lemma touches_trans: "touches P s t \<Longrightarrow> touches P t u \<Longrightarrow> touches P s u"
  by (fastforce simp: touches_def)

lemma touches_tick: "touches P s (s\<lparr>tick := n\<rparr>)"
  unfolding touches_def by (rule exI [of _ n], rule exI [of _ "files s"]) simp

lemma touchesI: "(\<And>p. p \<notin> P \<Longrightarrow> f p = files s p) \<Longrightarrow> touches P s (s\<lparr>tick := n, files := f\<rparr>)"
  unfolding touches_def by blast

lemma touches_fs_call:
  assumes "fs_call E full partly s = (r, t)"
    and "\<And>p f. p \<notin> P \<Longrightarrow> full f p = f p" "\<And>n p f. p \<notin> P \<Longrightarrow> partly n f p = f p"
  shows "touches P s t"
  using assms(1) by (cases rule: fs_call_cases) (use assms(2,3) in \<open>auto intro: touchesI\<close>)

lemma touches_host:
  "touches P s t \<Longrightarrow> hstate t = hstate s \<and> trace t = trace s \<and> t_generations t = t_generations s \<and>
     t_events t = t_events s \<and> t_mappings t = t_mappings s \<and> t_config t = t_config s \<and>
     (\<forall>p. p \<notin> P \<longrightarrow> files t p = files s p)"
  by (auto simp: touches_def)

text \<open>The steps before the temporary file exists.\<close>

lemma parent_step:
  assumes "(case path_parent path of Some dir \<Rightarrow> create_dir_all E dir | None \<Rightarrow> eff_ret ()) s = (r, t)"
  shows "\<exists>n. t = s\<lparr>tick := n\<rparr>"
  using assms tick_same [of s]
  by (auto simp: create_dir_all_def split: option.splits if_splits elim!: fs_call_cases)

text \<open>The steps after the rename.\<close>

lemma sync_parent_step:
  assumes "(case path_parent path of
      Some dir \<Rightarrow> eff_catch (open_read E dir) (\<lambda>opened.
        case opened of Inr _ \<Rightarrow> eff_catch (sync_all E) (\<lambda>_. eff_ret ()) | Inl _ \<Rightarrow> eff_ret ())
    | None \<Rightarrow> eff_ret ()) s = (r, t)"
  shows "r = Inr () \<and> (\<exists>n. t = s\<lparr>tick := n\<rparr>)"
proof -
  have upd: "\<exists>n. s\<lparr>tick := k\<rparr> = s\<lparr>tick := n\<rparr>" for k by blast
  show ?thesis
    using assms tick_same [of s] upd
    by (auto simp: open_read_def sync_all_def split: option.splits sum.splits
        elim!: eff_catch_cases fs_call_cases)
qed

text \<open>From the temporary file to the rename.\<close>

lemma replace_steps:
  fixes s :: "('h, 'w) world_scheme"
  assumes run: "eff_bind (open_truncate E tmp) (\<lambda>_. eff_bind (write_all E tmp bytes) (\<lambda>_.
      eff_bind (sync_all E) (\<lambda>_. eff_bind (fs_rename E tmp path) K))) s = (r, t)"
    and K: "\<And>(u :: ('h, 'w) world_scheme) r t. K () u = (r, t) \<Longrightarrow> r = Inr () \<and> (\<exists>n. t = u\<lparr>tick := n\<rparr>)"
  shows "touches {path, tmp} s t \<and>
    (r = Inr () \<longrightarrow> files t path = Some bytes \<and> (tmp \<noteq> path \<longrightarrow> files t tmp = None)) \<and>
    (r \<noteq> Inr () \<longrightarrow> tmp \<noteq> path \<longrightarrow> files t path = files s path)"
proof -
  let ?f = "\<lambda>k. io_fault E ((Suc ^^ k) (tick s))"
  note steps = open_truncate_def write_all_def sync_all_def fs_rename_def fs_call_def eff_bind_def
  have touch: "touches {path, tmp} s (s\<lparr>tick := n, files := f\<rparr>)" if "\<And>p. p \<noteq> path \<Longrightarrow> p \<noteq> tmp \<Longrightarrow> f p = files s p" for n f
    by (rule touchesI) (use that in auto)
  have swap: "u\<lparr>files := f, tick := n\<rparr> = u\<lparr>tick := n, files := f\<rparr>" for u :: "('h, 'w) world_scheme" and n f
    by simp
  consider "?f 0 \<noteq> None" | "?f 0 = None" "?f 1 \<noteq> None" | "?f 0 = None" "?f 1 = None" "?f 2 \<noteq> None"
    | "?f 0 = None" "?f 1 = None" "?f 2 = None" "?f 3 \<noteq> None"
    | "?f 0 = None" "?f 1 = None" "?f 2 = None" "?f 3 = None" by blast
  then show ?thesis
  proof cases
    case 5
    let ?u = "s\<lparr>tick := Suc (Suc (Suc (Suc (tick s)))), files := (files s)(tmp := None, path \<mapsto> bytes)\<rparr>"
    have "K () ?u = (r, t)" using run 5 by (simp add: steps Let_def numeral_2_eq_2 numeral_3_eq_3)
    from K [OF this] show ?thesis by (auto simp: swap simp del: world.update_convs intro!: touch)
  qed (use run in \<open>auto simp: steps Let_def numeral_2_eq_2 numeral_3_eq_3 intro!: touch touches_tick\<close>)
qed

lemma atomic_write_cases:
  fixes s :: "('h, 'w) world_scheme"
  assumes "atomic_write E path bytes s = (r, t)"
  obtains tmp n where "tmp = with_extension path (''tmp-'' @ uuid_v4 E n)" "touches {path, tmp} s t"
    "r = Inr () \<Longrightarrow> files t path = Some bytes \<and> (tmp \<noteq> path \<longrightarrow> files t tmp = None)"
    "r \<noteq> Inr () \<Longrightarrow> tmp \<noteq> path \<Longrightarrow> files t path = files s path"
  using assms unfolding atomic_write_def
proof (cases rule: eff_bind_cases)
  case (error e)
  obtain k where "t = s\<lparr>tick := k\<rparr>" using parent_step [OF error(1)] by blast
  with error(2) that [OF refl, of 0] show thesis by (simp add: touches_tick)
next
  case (ok x u)
  obtain k where u: "u = s\<lparr>tick := k\<rparr>" using parent_step [OF ok(1)] by blast
  define tmp where tmp: "tmp = with_extension path (''tmp-'' @ uuid_v4 E k)"
  let ?v = "s\<lparr>tick := Suc k\<rparr>"
  have "touches {path, tmp} ?v t \<and>
      (r = Inr () \<longrightarrow> files t path = Some bytes \<and> (tmp \<noteq> path \<longrightarrow> files t tmp = None)) \<and>
      (r \<noteq> Inr () \<longrightarrow> tmp \<noteq> path \<longrightarrow> files t path = files ?v path)"
    using ok(2) unfolding u
    by (intro replace_steps) (auto simp: fresh_uuid_def eff_bind_def tmp Let_def dest: sync_parent_step)
  then show thesis
    using that [OF tmp] touches_trans [OF touches_tick [of "{path, tmp}" s "Suc k"], of t] by simp
qed

section \<open>The history in the database\<close>

text \<open>Status, text and error of the generations recorded, oldest first, and level, message and data of
  the events.\<close>

definition gen_log :: "'w db_scheme \<Rightarrow> (string \<times> string \<times> string option) list" where
  "gen_log s = map (\<lambda>r. (gr_status r, gr_nftables_config r, gr_error r)) (t_generations s)"

definition event_log :: "'w db_scheme \<Rightarrow> (string \<times> string \<times> string option) list" where
  "event_log s = map (\<lambda>r. (er_level r, er_message r, er_data r)) (t_events s)"

lemma log_tick [simp]: "gen_log (s\<lparr>tick := n\<rparr>) = gen_log s" "event_log (s\<lparr>tick := n\<rparr>) = event_log s"
  by (simp_all add: gen_log_def event_log_def)

lemma more_tick [simp]: "db.more (s\<lparr>tick := n\<rparr>) = db.more s"
  by (cases s) simp

lemma more_host:
  fixes s t :: "('h, 'w) world_scheme"
  assumes "db.more s = db.more t"
  shows "files s = files t" "hstate s = hstate t" "trace s = trace t"
  using assms by (cases s; cases t; simp)+

lemma touches_logs: "touches P s t \<Longrightarrow> gen_log t = gen_log s \<and> event_log t = event_log s"
  by (simp add: gen_log_def event_log_def touches_host)

lemma record_generation_effect:
  assumes "record_generation E gs text ap err s = (r, t)"
  shows "db.more t = db.more s \<and> event_log t = event_log s \<and> t_mappings t = t_mappings s \<and>
    gen_log t = gen_log s @ (if res_ok r then [(generation_wire gs, text, err)] else [])"
  using assms unfolding record_generation_def
  by (cases s; cases t)
    (auto simp: now_utc_def insert_generation_row_def Let_def gen_log_def event_log_def query_def
      split: if_splits option.splits sum.splits elim!: eff_bind_cases)

lemma record_event_effect:
  assumes "record_event E level msg data s = (r, t)"
  shows "db.more t = db.more s \<and> gen_log t = gen_log s \<and> t_mappings t = t_mappings s \<and>
    event_log t = event_log s @ (if res_ok r then [(level_wire level, msg, data)] else [])"
  using assms unfolding record_event_def
  by (cases s; cases t)
    (auto simp: now_utc_def insert_event_row_def Let_def gen_log_def event_log_def query_def
      split: if_splits option.splits sum.splits elim!: eff_bind_cases)

lemma set_mapping_health_effect:
  assumes "set_mapping_health E i st h err s = (r, t)"
  shows "db.more t = db.more s \<and> gen_log t = gen_log s \<and> event_log t = event_log s"
proof -
  let ?P = "\<lambda>u. db.more u = db.more s \<and> gen_log u = gen_log s \<and> event_log u = event_log s"
  have tick: "ignores_tick ?P" by (simp add: ignores_tick_def)
  have "keeps ?P (set_mapping_health E i st h err)"
    unfolding set_mapping_health_def
    by (intro keeps_intros keeps_query [OF tick] keeps_reads [OF tick] reads_intros)
      (auto simp: update_mapping_row_def gen_log_def event_log_def split: option.splits)
  from keepsD [OF this assms] show ?thesis by simp
qed

section \<open>The stages\<close>

lemma core_step_cases:
  assumes "core_step m s = (r, t)"
  obtains (error) e where "m s = (Inl e, t)" "r = Inl (Fail (RCore e))"
  | (ok) x where "m s = (Inr x, t)" "r = Inr x"
  using assms unfolding core_step_def
  by (cases rule: eff_map_err_cases) (metis map_err_simps sum.exhaust)

text \<open>How a stage that fails leaves the history: the failure is recorded with the message of the error
  that is returned, or the database itself failed on the way.\<close>

definition failure_recorded ::
  "(string \<Rightarrow> reconcile_error) \<Rightarrow> string \<Rightarrow> string \<Rightarrow> reconcile_error failure \<Rightarrow>
     'w db_scheme \<Rightarrow> 'w db_scheme \<Rightarrow> bool" where
  "failure_recorded mk text ev e s t \<longleftrightarrow>
     (\<exists>m. e = Fail (mk m) \<and> gen_log t = gen_log s @ [(''failed'', text, Some m)] \<and>
        event_log t = event_log s @ [(''error'', ev, Some m)]) \<or>
     (\<exists>c. e = Fail (RCore c)) \<and> event_log t = event_log s \<and>
       (gen_log t = gen_log s \<or> (\<exists>m. gen_log t = gen_log s @ [(''failed'', text, Some m)]))"

lemma record_failure_effect:
  assumes "eff_bind (record_failure E text ev m) (\<lambda>_. eff_err (Fail (mk m))) s = (r, t)"
  shows "db.more t = db.more s \<and> (\<exists>e. r = Inl e \<and> failure_recorded mk text ev e s t)"
  using assms unfolding record_failure_def failure_recorded_def
  by (auto elim!: eff_bind_cases core_step_cases dest!: record_generation_effect record_event_effect)

lemma write_stage_effect:
  fixes s :: "('h, 'w) world_scheme"
  assumes "write_stage E opts text s = (r, t)"
  shows "trace t = trace s" "hstate t = hstate s"
    "r = Inr () \<Longrightarrow> files t (nft_output opts) = Some text \<and> gen_log t = gen_log s \<and> event_log t = event_log s"
    "r = Inl e \<Longrightarrow> failure_recorded RIo text ''failed to write nftables config'' e s t"
proof -
  from assms obtain r' u where w: "atomic_write E (nft_output opts) text s = (r', u)"
    and rest: "(case r' of
       Inl msg \<Rightarrow> eff_bind (record_failure E text ''failed to write nftables config'' msg) (\<lambda>_.
         eff_err (Fail (RIo msg)))
     | Inr _ \<Rightarrow> eff_ret ()) u = (r, t)"
    unfolding write_stage_def by (rule eff_catch_cases)
  obtain tmp where tch: "touches {nft_output opts, tmp} s u"
    and new: "r' = Inr () \<Longrightarrow> files u (nft_output opts) = Some text"
    using atomic_write_cases [OF w] by metis
  note same = touches_host [OF tch] touches_logs [OF tch]
  have "trace t = trace s \<and> hstate t = hstate s \<and>
    (r = Inr () \<longrightarrow> files t (nft_output opts) = Some text \<and> gen_log t = gen_log s \<and> event_log t = event_log s) \<and>
    (r = Inl e \<longrightarrow> failure_recorded RIo text ''failed to write nftables config'' e s t)"
  proof (cases r')
    case (Inl msg)
    with rest have "eff_bind (record_failure E text ''failed to write nftables config'' msg)
        (\<lambda>_. eff_err (Fail (RIo msg))) u = (r, t)" by simp
    from record_failure_effect [where mk = RIo, OF this] same show ?thesis
      by (auto dest: more_host simp: failure_recorded_def)
  qed (use rest new same in auto)
  then show "trace t = trace s" "hstate t = hstate s"
    "r = Inr () \<Longrightarrow> files t (nft_output opts) = Some text \<and> gen_log t = gen_log s \<and> event_log t = event_log s"
    "r = Inl e \<Longrightarrow> failure_recorded RIo text ''failed to write nftables config'' e s t" by blast+
qed

definition same_history :: "'w db_scheme \<Rightarrow> 'w db_scheme \<Rightarrow> bool" where
  "same_history s t \<longleftrightarrow> gen_log t = gen_log s \<and> event_log t = event_log s"

definition nft_check_cmd :: "reconciler \<Rightarrow> string \<Rightarrow> (string \<Rightarrow> string option) \<Rightarrow> cmd_outcome \<Rightarrow> action" where
  "nft_check_cmd R path f out = Ran (nft_binary (rc_nft R)) [''-c'', ''-f'', path] f out"

definition nft_apply_cmd :: "reconciler \<Rightarrow> string \<Rightarrow> (string \<Rightarrow> string option) \<Rightarrow> cmd_outcome \<Rightarrow> action" where
  "nft_apply_cmd R path f out = Ran (nft_binary (rc_nft R)) [''-f'', path] f out"

text \<open>One run of \<open>nft\<close>: a command is added to the trace with its outcome, nothing else that is
  observed changes, and the result is a success exactly when the outcome is one.\<close>

definition nft_ran :: "(cmd_outcome \<Rightarrow> action) \<Rightarrow> ('h, 'w) world_scheme \<Rightarrow> ('e, nft_command) result \<Rightarrow>
    ('h, 'w) world_scheme \<Rightarrow> bool" where
  "nft_ran cmd s r t \<longleftrightarrow> (\<exists>out. trace t = trace s @ [cmd out] \<and> files t = files s \<and> same_history s t \<and>
     (case r of Inr c \<Rightarrow> cmd_ok out \<longleftrightarrow> is_success (nc_status c) | Inl _ \<Rightarrow> \<not> cmd_ok out))"

lemma nft_run_ran:
  fixes s :: "('h, 'w) world_scheme"
  assumes "nft_run E T args path s = (r, t)"
  shows "nft_ran (Ran (nft_binary T) (filter (\<lambda>a. a \<noteq> []) args @ [path]) (files s)) s r t"
  using assms unfolding nft_run_def command_def nft_ran_def
  by (cases rule: eff_bind_cases; cases "run_cmd E (tick s) (hstate s) (nft_binary T) (filter (\<lambda>a. a \<noteq> []) args @ [path])")
    (auto simp: same_history_def gen_log_def event_log_def cmd_ok_def split: cmd_outcome.splits)

lemma check_file_ran:
  "\<forall>r t. check_file E (rc_nft R) path s = (r, t) \<longrightarrow> nft_ran (nft_check_cmd R path (files s)) s r t"
  unfolding check_file_def nft_check_cmd_def by (auto dest: nft_run_ran)

lemma apply_file_ran:
  "\<forall>r t. apply_file E (rc_nft R) path s = (r, t) \<longrightarrow> nft_ran (nft_apply_cmd R path (files s)) s r t"
  unfolding apply_file_def nft_apply_cmd_def by (auto dest: nft_run_ran)

lemma nft_map_err_ran:
  fixes s :: "('h, 'w) world_scheme"
  assumes "eff_map_err (\<lambda>e. Fail (RNft e)) m s = (r, t)" "\<forall>r u. m s = (r, u) \<longrightarrow> nft_ran cmd s r u"
  shows "nft_ran cmd s r t \<and> (\<forall>e. r = Inl e \<longrightarrow> (\<exists>x. e = Fail (RNft x)))"
proof -
  obtain r' where "m s = (r', t)" "r = map_err (\<lambda>e. Fail (RNft e)) r'" using assms(1) by (rule eff_map_err_cases)
  with assms(2) [rule_format, of r' t] show ?thesis by (cases r') (simp_all add: nft_ran_def)
qed

lemma failure_recorded_same: "same_history s u \<Longrightarrow> failure_recorded mk text ev e u t \<Longrightarrow> failure_recorded mk text ev e s t"
  by (simp add: failure_recorded_def same_history_def)

text \<open>A stage around \<open>nft\<close> fails without a trace in the history when the tool could not be run to its
  end, and with a recorded failure when it reported one.\<close>

definition nft_failed ::
  "(string \<Rightarrow> reconcile_error) \<Rightarrow> string \<Rightarrow> string \<Rightarrow> reconcile_error failure \<Rightarrow>
     'w db_scheme \<Rightarrow> 'w db_scheme \<Rightarrow> bool" where
  "nft_failed mk text ev e s t \<longleftrightarrow>
     (\<exists>x. e = Fail (RNft x)) \<and> same_history s t \<or> failure_recorded mk text ev e s t"

lemma nft_step_effect:
  fixes s :: "('h, 'w) world_scheme"
  assumes "eff_bind (eff_map_err (\<lambda>e. Fail (RNft e)) m) (\<lambda>c.
      if \<not> is_success (nc_status c)
      then let msg = error_message (nc_status c) (nc_stderr c)
           in eff_bind (record_failure E text ev msg) (\<lambda>_. eff_err (Fail (mk msg)))
      else k) s = (r, t)"
    and m: "\<forall>r u. m s = (r, u) \<longrightarrow> nft_ran cmd s r u"
  obtains (failed) out e where "trace t = trace s @ [cmd out]" "files t = files s" "\<not> cmd_ok out"
      "r = Inl e" "nft_failed mk text ev e s t"
  | (passed) out u where "trace u = trace s @ [cmd out]" "files u = files s" "same_history s u" "cmd_ok out"
      "k u = (r, t)"
  using assms(1)
proof (cases rule: eff_bind_cases)
  case (error e)
  with nft_map_err_ran [OF error(1) m] show thesis
    by (auto simp: nft_ran_def nft_failed_def intro: failed)
next
  case (ok c u)
  obtain out where out: "trace u = trace s @ [cmd out]" "files u = files s" "same_history s u"
    "cmd_ok out \<longleftrightarrow> is_success (nc_status c)"
    using nft_map_err_ran [OF ok(1) m] by (auto simp: nft_ran_def)
  show thesis
  proof (cases "is_success (nc_status c)")
    case False
    let ?msg = "error_message (nc_status c) (nc_stderr c)"
    from ok(2) False have "eff_bind (record_failure E text ev ?msg) (\<lambda>_. eff_err (Fail (mk ?msg))) u = (r, t)"
      by (simp add: Let_def)
    from record_failure_effect [where mk = mk, OF this] obtain e where e: "r = Inl e" "db.more t = db.more u"
      "failure_recorded mk text ev e u t" by blast
    show thesis
      using more_host [OF e(2)] out False e(1) failure_recorded_same [OF out(3) e(3)]
      by (intro failed [of out e]) (auto simp: nft_failed_def)
  qed (use ok(2) out passed in auto)
qed

lemma check_stage_effect:
  fixes s :: "('h, 'w) world_scheme"
  assumes "check_stage E R opts text s = (r, t)"
  obtains (failed) out e where "trace t = trace s @ [nft_check_cmd R (nft_output opts) (files s) out]"
      "files t = files s" "\<not> cmd_ok out" "r = Inl e"
      "nft_failed RNftValidation text ''nft validation failed'' e s t"
  | (passed) out where "trace t = trace s @ [nft_check_cmd R (nft_output opts) (files s) out]"
      "files t = files s" "cmd_ok out" "event_log t = event_log s"
      "gen_log t = gen_log s @ (if res_ok r then [(''validated'', text, None)] else [])"
      "\<not> res_ok r \<longrightarrow> (\<exists>c. r = Inl (Fail (RCore c)))"
  using assms unfolding check_stage_def
proof (cases rule: nft_step_effect [OF _ check_file_ran, consumes 1, case_names failed passed])
  case (failed out e)
  then show thesis by (rule that(1))
next
  case (passed out u)
  from passed(5) obtain r' where rec: "record_generation E GValidated text None None u = (r', t)"
    and r: "res_ok r = res_ok r'" "\<not> res_ok r \<longrightarrow> (\<exists>c. r = Inl (Fail (RCore c)))"
    by (auto elim!: eff_bind_cases core_step_cases)
  have "db.more t = db.more u" using record_generation_effect [OF rec] by blast
  from more_host [OF this] passed record_generation_effect [OF rec] r show thesis
    by (intro that(2) [of out]) (simp_all add: same_history_def)
qed

lemma apply_stage_effect:
  fixes s :: "('h, 'w) world_scheme"
  assumes "apply_stage E R opts text s = (r, t)" "apply_nft opts"
  obtains (failed) out e where "trace t = trace s @ [nft_apply_cmd R (nft_output opts) (files s) out]"
      "files t = files s" "\<not> cmd_ok out" "r = Inl e"
      "nft_failed RNftApply text ''nft apply failed'' e s t"
  | (passed) out where "trace t = trace s @ [nft_apply_cmd R (nft_output opts) (files s) out]"
      "files t = files s" "cmd_ok out" "same_history s t" "r = Inr ()"
proof -
  from assms have "eff_bind (eff_map_err (\<lambda>e. Fail (RNft e)) (apply_file E (rc_nft R) (nft_output opts))) (\<lambda>c.
      if \<not> is_success (nc_status c)
      then let msg = error_message (nc_status c) (nc_stderr c)
           in eff_bind (record_failure E text ''nft apply failed'' msg) (\<lambda>_. eff_err (Fail (RNftApply msg)))
      else eff_ret ()) s = (r, t)" by (simp add: apply_stage_def)
  then show thesis
  proof (cases rule: nft_step_effect [OF _ apply_file_ran, consumes 1, case_names failed passed])
    case (failed out e)
    then show thesis by (rule that(1))
  next
    case (passed out u)
    then show thesis by (intro that(2) [of out]) simp_all
  qed
qed

text \<open>The address stage runs \<open>ip\<close> only.\<close>

definition ip_cmd :: "reconciler \<Rightarrow> action \<Rightarrow> bool" where
  "ip_cmd R a \<longleftrightarrow> ran_program a = linux_ip (rc_linux R) \<and> length (ran_args a) = 5"

definition ip_only :: "reconciler \<Rightarrow> ('h, 'w) world_scheme \<Rightarrow> ('h, 'w) world_scheme \<Rightarrow> bool" where
  "ip_only R s t \<longleftrightarrow> (\<exists>ips. trace t = trace s @ ips \<and> (\<forall>a\<in>set ips. ip_cmd R a)) \<and>
     files t = files s \<and> same_history s t"

lemma ip_only_refl: "ip_only R s s"
  by (simp add: ip_only_def same_history_def)

lemma keeps_ip_only_run: "length args = 5 \<Longrightarrow> keeps (ip_only R s) (linux_run_owned E (rc_linux R) args)"
proof (rule keepsI)
  fix u
  assume "length args = 5" "ip_only R s u"
  then show "ip_only R s (snd (linux_run_owned E (rc_linux R) args u))"
    by (cases "run_cmd E (tick u) (hstate u) (linux_ip (rc_linux R)) args")
      (auto simp: ip_only_def ip_cmd_def same_history_def gen_log_def event_log_def linux_run_owned_def
        command_def eff_bind_def split: cmd_outcome.splits)
qed

lemma keeps_ip_only_address: "keeps (ip_only R s) (address_step E R cfg m acc)"
  unfolding address_step_def ensure_addr_def delete_addr_if_present_def interface_addresses_def
  by (intro keeps_intros keeps_ip_only_run) simp_all

lemma address_step_error:
  assumes "address_step E R cfg m acc s = (Inl e, t)" shows "\<exists>x. e = Fail (RLinux x)"
  using assms unfolding address_step_def
  by (auto simp: eff_bind_eq_Inl eff_map_err_def map_err_def split: prod.splits if_splits sum.splits)

lemma address_steps_error:
  "eff_foldM (address_step E R cfg) ms acc s = (Inl e, t) \<Longrightarrow> \<exists>x. e = Fail (RLinux x)"
  by (induction ms arbitrary: acc s) (auto simp: eff_bind_eq_Inl dest: address_step_error)

lemma linux_stage_effect:
  assumes "linux_stage E R cfg opts ms s = (r, t)"
  shows "ip_only R s t" "\<not> apply_linux opts \<Longrightarrow> t = s" "r = Inl e \<Longrightarrow> \<exists>x. e = Fail (RLinux x)"
proof -
  have "keeps (ip_only R s) (linux_stage E R cfg opts ms)"
    unfolding linux_stage_def by (intro keeps_intros keeps_ip_only_address)
  from keepsD [OF this assms ip_only_refl] show "ip_only R s t" .
  show "t = s" if "\<not> apply_linux opts" using assms that by (simp add: linux_stage_def)
  show "\<exists>x. e = Fail (RLinux x)" if "r = Inl e"
    using assms that unfolding linux_stage_def by (auto split: if_splits dest: address_steps_error)
qed

text \<open>The last stage touches the database only.\<close>

lemma keeps_effect: "(\<And>s r t. m s = (r, t) \<Longrightarrow> P s \<Longrightarrow> P t) \<Longrightarrow> keeps P m"
  by (rule keepsI) (metis surjective_pairing)

lemma keeps_core_step: "keeps P m \<Longrightarrow> keeps P (core_step m)"
  unfolding core_step_def by (rule keeps_map_err)

definition db_only :: "'w db_scheme \<Rightarrow> 'w db_scheme \<Rightarrow> bool" where
  "db_only s t \<longleftrightarrow> db.more t = db.more s \<and> gen_log t = gen_log s"

lemma keeps_db_only:
  "keeps (db_only s) (set_mapping_health E i st h err)" "keeps (db_only s) (record_event E l msg d)"
  by (rule keeps_effect, drule set_mapping_health_effect, simp add: db_only_def)
    (rule keeps_effect, drule record_event_effect, simp add: db_only_def)

lemma keeps_db_only_connect: "keeps (db_only s) (connect E ip port)"
  by (rule keepsI) (simp add: connect_def db_only_def)

lemma keeps_db_only_health: "keeps (db_only s) (health_check E ip port proto)"
proof -
  have "keeps (db_only s) (case out of ConnectTimeout \<Rightarrow> eff_err a | ConnectFailed msg \<Rightarrow> eff_err (b msg)
      | Connected \<Rightarrow> eff_ret c)" for out a b c
    by (cases out) (simp_all add: keeps_ret keeps_err)
  then show ?thesis
    unfolding health_check_def by (intro keeps_intros keeps_db_only_connect)
qed

lemma keeps_db_only_step: "keeps (db_only s) (health_step E m)"
  unfolding health_step_def
  by (intro keeps_intros keeps_db_only keeps_core_step keeps_db_only_health)

lemma health_steps_error: "eff_forM (health_step E) ms s = (Inl e, t) \<Longrightarrow> \<exists>c. e = Fail (RCore c)"
proof (induction ms arbitrary: s)
  case (Cons m ms)
  have "\<exists>c. e = Fail (RCore c)" if "health_step E m s = (Inl e, u)" for u
    using that unfolding health_step_def
    by (auto simp: Let_def split: sum.splits elim!: eff_catch_cases eff_bind_cases core_step_cases)
  with Cons show ?case by (auto simp: eff_bind_eq_Inl)
qed simp

lemma finish_stage_effect:
  fixes s :: "('h, 'w) world_scheme"
  assumes run: "finish_stage E opts ms text g s = (r, t)"
  shows "db.more t = db.more s \<and> (\<forall>e. r = Inl e \<longrightarrow> (\<exists>c. e = Fail (RCore c))) \<and>
    (gen_log t = gen_log s \<and> (res_ok r \<longrightarrow> \<not> (apply_nft opts \<and> apply_linux opts)) \<or>
     apply_nft opts \<and> apply_linux opts \<and> gen_log t = gen_log s @ [(''active'', text, None)])"
proof (cases "apply_nft opts \<and> apply_linux opts")
  case False
  with run show ?thesis
    unfolding finish_stage_def by (auto elim!: eff_bind_cases core_step_cases dest!: record_event_effect)
next
  case True
  let ?rest = "\<lambda>active. eff_bind (eff_forM (health_step E) (filter (\<lambda>m. enabled m \<and> m_backend m = Nft) ms)) (\<lambda>_.
      eff_bind (core_step (record_event E EvInfo ''reconcile applied''
        (Some (''generation='' @ show_int (g_id active))))) (\<lambda>_. eff_ret (g_id active)))"
  from run True have "eff_bind (core_step (record_generation E GActive text (Some (clock E (tick s))) None)) ?rest
      (s\<lparr>tick := Suc (tick s)\<rparr>) = (r, t)"
    by (simp add: finish_stage_def now_utc_def eff_bind_def)
  then show ?thesis
  proof (cases rule: eff_bind_cases)
    case (error e)
    then show ?thesis by (auto elim!: core_step_cases dest!: record_generation_effect)
  next
    case (ok active u)
    have "keeps (db_only u) (?rest active)"
      by (intro keeps_intros keeps_core_step keeps_db_only keeps_db_only_step)
    then have "db_only u t" using keepsD [of "db_only u" "?rest active" u r t] ok(2) by (simp add: db_only_def)
    moreover have "db.more u = db.more s" "gen_log u = gen_log s @ [(''active'', text, None)]"
      using ok(1) by (auto elim!: core_step_cases dest!: record_generation_effect)
    moreover have "\<exists>c. e = Fail (RCore c)" if "r = Inl e" for e
      using ok(2) that by (auto elim!: eff_bind_cases core_step_cases dest: health_steps_error)
    ultimately show ?thesis using True by (simp add: db_only_def)
  qed
qed

section \<open>A whole reconciliation\<close>

definition renders :: "'e env_ops_scheme \<Rightarrow> edge_config \<Rightarrow> 'w db_scheme \<Rightarrow> string \<Rightarrow> bool" where
  "renders E cfg s text \<longleftrightarrow>
     (\<exists>ms. fst (list_mappings E s) = Inr ms \<and> render_nftables E ms cfg default_table_name = Inr text)"

definition full_apply :: "reconcile_options \<Rightarrow> bool" where
  "full_apply opts \<longleftrightarrow> apply_nft opts \<and> apply_linux opts"

text \<open>After the script is applied: addresses, then the active generation.\<close>

lemma tail_effect:
  fixes s :: "('h, 'w) world_scheme"
  assumes "eff_bind (linux_stage E R cfg opts ms) (\<lambda>(added, removed).
      eff_bind (finish_stage E opts ms text g) (\<lambda>i. eff_ret (report added removed i))) s = (r, t)"
  shows "\<exists>ips. trace t = trace s @ ips \<and> (\<forall>a\<in>set ips. ip_cmd R a) \<and> (\<not> apply_linux opts \<longrightarrow> ips = []) \<and>
    files t = files s \<and> (\<forall>rep. r = Inr rep \<longrightarrow> (\<exists>added removed i. rep = report added removed i)) \<and>
    (\<forall>e. r = Inl e \<longrightarrow> (\<exists>x. e = Fail (RLinux x)) \<or> (\<exists>c. e = Fail (RCore c))) \<and>
    (gen_log t = gen_log s \<and> (res_ok r \<longrightarrow> \<not> full_apply opts) \<or>
     full_apply opts \<and> gen_log t = gen_log s @ [(''active'', text, None)])"
  using assms
proof (cases rule: eff_bind_cases)
  case (error e)
  then show ?thesis
    using linux_stage_effect [OF error(1)] by (auto simp: ip_only_def same_history_def)
next
  case (ok x u)
  obtain added removed where x: "x = (added, removed)" by (cases x)
  have u: "\<exists>ips. trace u = trace s @ ips \<and> (\<forall>a\<in>set ips. ip_cmd R a) \<and> (\<not> apply_linux opts \<longrightarrow> ips = [])"
    "files u = files s" "gen_log u = gen_log s"
    using linux_stage_effect [OF ok(1)] by (auto simp: ip_only_def same_history_def)
  have "eff_bind (finish_stage E opts ms text g) (\<lambda>i. eff_ret (report added removed i)) u = (r, t)"
    using ok(2) by (simp add: x)
  then obtain r' where f: "finish_stage E opts ms text g u = (r', t)"
    and r: "res_ok r = res_ok r' \<and> (\<forall>rep. r = Inr rep \<longrightarrow> (\<exists>i. rep = report added removed i)) \<and>
      (\<forall>e. r = Inl e \<longrightarrow> r' = Inl e)"
    by (cases rule: eff_bind_cases) (auto, blast)
  note fin = finish_stage_effect [OF f]
  have "db.more t = db.more u" using fin by blast
  moreover have "\<forall>rep. r = Inr rep \<longrightarrow> (\<exists>added removed i. rep = report added removed i)" using r by blast
  ultimately show ?thesis using more_host [of t u] u fin r by (simp add: full_apply_def)
qed

text \<open>The five ways a reconciliation that is not a dry run can go.\<close>

definition prepared :: "('h, 'e) host_env_scheme \<Rightarrow> edge_config \<Rightarrow> ('h, 'w) world_scheme \<Rightarrow> string \<Rightarrow>
    ('h, 'w) world_scheme \<Rightarrow> bool" where
  "prepared E cfg s text u \<longleftrightarrow> renders E cfg s text \<and> trace u = trace s \<and>
     gen_log u = gen_log s @ [(''rendered'', text, None)] \<and> event_log u = event_log s"

lemma pipeline_start:
  fixes s :: "('h, 'w) world_scheme"
  assumes run: "reconcile E R cfg opts s = (r, t)" and "\<not> dry_run opts"
  obtains (early) e where "r = Inl e" "same_history s t" "trace t = trace s" "files t = files s"
      "\<forall>m. e \<noteq> Fail (RIo m) \<and> e \<noteq> Fail (RNftValidation m) \<and> e \<noteq> Fail (RNftApply m)" "\<forall>x. e \<noteq> Fail (RNft x)"
  | (begun) script ms g u report where "prepared E cfg s script u"
      "eff_bind (write_stage E opts script) (\<lambda>_. eff_bind (check_stage E R opts script) (\<lambda>_.
        eff_bind (apply_stage E R opts script) (\<lambda>_. eff_bind (linux_stage E R cfg opts ms) (\<lambda>(added, removed).
        eff_bind (finish_stage E opts ms script g) (\<lambda>i. eff_ret (report added removed i)))))) u = (r, t)"
      "\<And>a b i. rep_nftables_config (report a b i) = script \<and> rep_generation_id (report a b i) = Some i"
  using run unfolding reconcile_def
proof (cases rule: eff_bind_cases)
  case (error e)
  obtain ea where "list_mappings E s = (Inl ea, t)" using error(1) by (auto elim: core_step_cases)
  from readsD [OF reads_lists(1) this] obtain n where "t = s\<lparr>tick := n\<rparr>" by blast
  with error show thesis by (auto elim!: core_step_cases intro!: early simp: same_history_def)
next
  case (ok ms u)
  have ms: "list_mappings E s = (Inr ms, u)" using ok(1) by (auto elim: core_step_cases)
  obtain n where u: "u = s\<lparr>tick := n\<rparr>" using readsD [OF reads_lists(1) ms] by blast
  show thesis
  proof (cases "render_nftables E ms cfg default_table_name")
    case (Inl f)
    with ok(2) u show thesis
      by (cases f) (auto intro!: early simp: lift_render_def same_history_def)
  next
    case (Inr script)
    show thesis
    proof (cases "xdp_plan_of E (opt_xdp opts) ms cfg")
      case (Inl x)
      with ok(2) Inr u show thesis by (auto intro!: early simp: lift_render_def same_history_def)
    next
      case plan: (Inr plan)
      define report where "report a b i = \<lparr>rep_nftables_config = script, rep_generation_id = Some i,
        rep_added_addresses = a, rep_removed_addresses = b, rep_xdp_plan_entries = length (plan_entries plan)\<rparr>" for a b i
      show thesis
      proof (cases "plan_is_empty plan")
        case False
        with ok(2) Inr plan u assms(2) show thesis
          by (auto intro!: early simp: lift_render_def same_history_def)
      next
        case True
        with ok(2) Inr plan assms(2) have
          "eff_bind (core_step (record_generation E GRendered script None None)) (\<lambda>g.
            eff_bind (write_stage E opts script) (\<lambda>_. eff_bind (check_stage E R opts script) (\<lambda>_.
            eff_bind (apply_stage E R opts script) (\<lambda>_. eff_bind (linux_stage E R cfg opts ms) (\<lambda>(added, removed).
            eff_bind (finish_stage E opts ms script g) (\<lambda>i. eff_ret (report added removed i))))))) u = (r, t)"
          by (simp add: lift_render_def report_def)
        then show thesis
        proof (cases rule: eff_bind_cases)
          case (error e)
          then obtain c where rec: "record_generation E GRendered script None None u = (Inl c, t)"
            and e: "e = Fail (RCore c)" by (auto elim: core_step_cases)
          have "db.more t = db.more u" using record_generation_effect [OF rec] by blast
          from more_host [OF this] record_generation_effect [OF rec] error(2) e u show thesis
            by (intro early) (auto simp: same_history_def)
        next
          case step: (ok g v)
          then have rec: "record_generation E GRendered script None None u = (Inr g, v)"
            by (auto elim: core_step_cases)
          have "db.more v = db.more u" using record_generation_effect [OF rec] by blast
          from more_host [OF this] record_generation_effect [OF rec] u ms Inr
          have "prepared E cfg s script v" by (auto simp: prepared_def renders_def)
          from begun [OF this step(2)] show thesis by (simp add: report_def)
        qed
      qed
    qed
  qed
qed

text \<open>The specification of a reconciliation: which generations it may record and which commands it may
  run, in which order. \<open>lost\<close> is the record of a failure, which is missing when the database fails
  too; \<open>f\<close> is the content of the files when \<open>nft\<close> reads the script.\<close>

definition gen_entry :: "generation_status \<Rightarrow> string \<Rightarrow> string \<times> string \<times> string option" where
  "gen_entry st script = (generation_wire st, script, None)"

definition failure_log :: "string \<Rightarrow> (string \<times> string \<times> string option) list \<Rightarrow> bool" where
  "failure_log script lost \<longleftrightarrow> lost = [] \<or> (\<exists>m. lost = [(''failed'', script, Some m)])"

inductive reconcile_course ::
  "reconciler \<Rightarrow> reconcile_options \<Rightarrow> string \<Rightarrow> (string \<times> string \<times> string option) list \<Rightarrow> action list \<Rightarrow> bool \<Rightarrow> bool"
  for R opts script where
  nothing_done: "reconcile_course R opts script [] [] False"
| not_written: "failure_log script lost \<Longrightarrow>
    reconcile_course R opts script (gen_entry GRendered script # lost) [] False"
| check_failed: "failure_log script lost \<Longrightarrow> f (nft_output opts) = Some script \<Longrightarrow> \<not> cmd_ok oc \<Longrightarrow>
    reconcile_course R opts script (gen_entry GRendered script # lost)
      [nft_check_cmd R (nft_output opts) f oc] False"
| not_recorded: "f (nft_output opts) = Some script \<Longrightarrow> cmd_ok oc \<Longrightarrow>
    reconcile_course R opts script [gen_entry GRendered script] [nft_check_cmd R (nft_output opts) f oc] False"
| apply_failed: "failure_log script lost \<Longrightarrow> f (nft_output opts) = Some script \<Longrightarrow> cmd_ok oc \<Longrightarrow> \<not> cmd_ok oa \<Longrightarrow>
    apply_nft opts \<Longrightarrow>
    reconcile_course R opts script (gen_entry GRendered script # gen_entry GValidated script # lost)
      [nft_check_cmd R (nft_output opts) f oc, nft_apply_cmd R (nft_output opts) f oa] False"
| not_activated: "f (nft_output opts) = Some script \<Longrightarrow> cmd_ok oc \<Longrightarrow> cmd_ok oa \<Longrightarrow>
    (\<forall>a\<in>set ips. ip_cmd R a) \<Longrightarrow> (\<not> apply_linux opts \<Longrightarrow> ips = []) \<Longrightarrow> (success \<Longrightarrow> \<not> full_apply opts) \<Longrightarrow>
    reconcile_course R opts script [gen_entry GRendered script, gen_entry GValidated script]
      (nft_check_cmd R (nft_output opts) f oc #
       (if apply_nft opts then [nft_apply_cmd R (nft_output opts) f oa] else []) @ ips) success"
| activated: "f (nft_output opts) = Some script \<Longrightarrow> cmd_ok oc \<Longrightarrow> cmd_ok oa \<Longrightarrow>
    (\<forall>a\<in>set ips. ip_cmd R a) \<Longrightarrow> full_apply opts \<Longrightarrow>
    reconcile_course R opts script
      [gen_entry GRendered script, gen_entry GValidated script, gen_entry GActive script]
      (nft_check_cmd R (nft_output opts) f oc # nft_apply_cmd R (nft_output opts) f oa # ips) success"

inductive_cases reconcile_course_success: "reconcile_course R opts script log cmds True"

lemma failure_recorded_log:
  "failure_recorded mk script ev e s t \<Longrightarrow> \<exists>lost. failure_log script lost \<and> gen_log t = gen_log s @ lost"
  by (auto simp: failure_recorded_def failure_log_def)

lemma nft_failed_log:
  "nft_failed mk script ev e s t \<Longrightarrow> \<exists>lost. failure_log script lost \<and> gen_log t = gen_log s @ lost"
  using failure_recorded_log by (fastforce simp: nft_failed_def same_history_def failure_log_def)

text \<open>From the application on, and from the check on.\<close>

lemma applied_course:
  fixes s :: "('h, 'w) world_scheme"
  assumes run: "eff_bind (apply_stage E R opts script) (\<lambda>_.
      eff_bind (linux_stage E R cfg opts ms) (\<lambda>(added, removed).
      eff_bind (finish_stage E opts ms script g) (\<lambda>i. eff_ret (report added removed i)))) s = (r, t)"
    and written: "files s (nft_output opts) = Some script" and oc: "cmd_ok oc"
  shows "\<exists>log cmds. reconcile_course R opts script
      (gen_entry GRendered script # gen_entry GValidated script # log)
      (nft_check_cmd R (nft_output opts) (files s) oc # cmds) (res_ok r) \<and>
    gen_log t = gen_log s @ log \<and> trace t = trace s @ cmds \<and>
    (\<forall>rep. r = Inr rep \<longrightarrow> (\<exists>added removed i. rep = report added removed i))"
proof -
  have tail: ?thesis
    if u: "trace u = trace s @ (if apply_nft opts then [nft_apply_cmd R (nft_output opts) (files s) oa] else [])"
      "gen_log u = gen_log s" "cmd_ok oa"
      and rest: "eff_bind (linux_stage E R cfg opts ms) (\<lambda>(added, removed).
        eff_bind (finish_stage E opts ms script g) (\<lambda>i. eff_ret (report added removed i))) u = (r, t)" for u oa
  proof -
    from tail_effect [OF rest] obtain ips where t: "trace t = trace u @ ips" "\<forall>a\<in>set ips. ip_cmd R a"
        "\<not> apply_linux opts \<Longrightarrow> ips = []"
      and rep: "\<forall>rep. r = Inr rep \<longrightarrow> (\<exists>added removed i. rep = report added removed i)"
      and g: "gen_log t = gen_log u \<and> (res_ok r \<longrightarrow> \<not> full_apply opts) \<or>
        full_apply opts \<and> gen_log t = gen_log u @ [gen_entry GActive script]"
      by (auto simp: gen_entry_def)
    from g show ?thesis
    proof
      assume "gen_log t = gen_log u \<and> (res_ok r \<longrightarrow> \<not> full_apply opts)"
      with not_activated [where f = "files s" and R = R and success = "res_ok r", OF written oc u(3) t(2,3)] t(1) u rep
      show ?thesis by (intro exI [of _ "[]"] exI [of _ "(if apply_nft opts then _ else _) @ ips"]) auto
    next
      assume full: "full_apply opts \<and> gen_log t = gen_log u @ [gen_entry GActive script]"
      with activated [where f = "files s" and R = R and success = "res_ok r", OF written oc u(3) t(2)] t(1) u rep
      show ?thesis by (intro exI [of _ "[gen_entry GActive script]"]) (auto simp: full_apply_def)
    qed
  qed
  show ?thesis
  proof (cases "apply_nft opts")
    case False
    with run have "eff_bind (linux_stage E R cfg opts ms) (\<lambda>(added, removed).
        eff_bind (finish_stage E opts ms script g) (\<lambda>i. eff_ret (report added removed i))) s = (r, t)"
      by (simp add: apply_stage_def)
    with False oc show ?thesis by (intro tail [of s oc]) simp_all
  next
    case nft: True
    from run show ?thesis
    proof (cases rule: eff_bind_cases)
      case (error e)
      from error(1) nft show ?thesis
      proof (cases rule: apply_stage_effect)
        case (failed out e')
        obtain lost where "failure_log script lost" "gen_log t = gen_log s @ lost"
          using nft_failed_log [OF failed(5)] by blast
        with apply_failed [where R = R and f = "files s", OF _ written oc failed(3) nft] failed(1) error(2)
        show ?thesis by auto
      qed simp
    next
      case (ok x u)
      from ok(1) nft show ?thesis
      proof (cases rule: apply_stage_effect)
        case (passed out)
        with ok(2) nft show ?thesis by (intro tail [of u out]) (simp_all add: same_history_def)
      qed simp
    qed
  qed
qed

lemma checked_course:
  fixes s :: "('h, 'w) world_scheme"
  assumes run: "eff_bind (check_stage E R opts script) (\<lambda>_. eff_bind (apply_stage E R opts script) (\<lambda>_.
      eff_bind (linux_stage E R cfg opts ms) (\<lambda>(added, removed).
      eff_bind (finish_stage E opts ms script g) (\<lambda>i. eff_ret (report added removed i))))) s = (r, t)"
    and written: "files s (nft_output opts) = Some script"
  shows "\<exists>log cmds. reconcile_course R opts script (gen_entry GRendered script # log) cmds (res_ok r) \<and>
    gen_log t = gen_log s @ log \<and> trace t = trace s @ cmds \<and>
    (\<forall>rep. r = Inr rep \<longrightarrow> (\<exists>added removed i. rep = report added removed i))"
  using run
proof (cases rule: eff_bind_cases)
  case (error e)
  from error(1) show ?thesis
  proof (cases rule: check_stage_effect)
    case (failed out e')
    obtain lost where "failure_log script lost" "gen_log t = gen_log s @ lost"
      using nft_failed_log [OF failed(5)] by blast
    with check_failed [where R = R and f = "files s", OF _ written failed(3)] failed(1) error(2)
    show ?thesis by auto
  next
    case (passed out)
    with not_recorded [where R = R and f = "files s", OF written passed(3)] error(2) show ?thesis by auto
  qed
next
  case (ok x u)
  from ok(1) show ?thesis
  proof (cases rule: check_stage_effect)
    case (passed out)
    have "files u (nft_output opts) = Some script" using passed(2) written by simp
    from applied_course [OF ok(2) this passed(3)] obtain log cmds where
      "reconcile_course R opts script (gen_entry GRendered script # gen_entry GValidated script # log)
        (nft_check_cmd R (nft_output opts) (files s) out # cmds) (res_ok r)"
      "gen_log t = gen_log u @ log" "trace t = trace u @ cmds"
      "\<forall>rep. r = Inr rep \<longrightarrow> (\<exists>added removed i. rep = report added removed i)"
      using passed(2) by auto
    with passed show ?thesis
      by (intro exI [of _ "gen_entry GValidated script # log"]
          exI [of _ "nft_check_cmd R (nft_output opts) (files s) out # cmds"]) (simp add: gen_entry_def)
  qed simp
qed

lemma reconcile_follows_course:
  fixes s :: "('h, 'w) world_scheme"
  assumes run: "reconcile E R cfg opts s = (r, t)" and real: "\<not> dry_run opts"
  shows "\<exists>script log cmds. reconcile_course R opts script log cmds (res_ok r) \<and>
    (log \<noteq> [] \<or> cmds \<noteq> [] \<longrightarrow> renders E cfg s script) \<and>
    gen_log t = gen_log s @ log \<and> trace t = trace s @ cmds \<and>
    (\<forall>rep. r = Inr rep \<longrightarrow> rep_nftables_config rep = script \<and> rep_generation_id rep \<noteq> None)"
  using run real
proof (cases rule: pipeline_start)
  case (early e)
  then show ?thesis
    by (intro exI [of _ "[]"]) (auto simp: same_history_def intro: nothing_done)
next
  case (begun script ms g u report)
  have u: "renders E cfg s script" "trace u = trace s" "gen_log u = gen_log s @ [gen_entry GRendered script]"
    using begun(1) by (simp_all add: prepared_def gen_entry_def)
  from begun(2) show ?thesis
  proof (cases rule: eff_bind_cases)
    case (error e)
    obtain lost where "failure_log script lost" "gen_log t = gen_log u @ lost"
      using failure_recorded_log [OF write_stage_effect(4) [OF error(1) refl]] by blast
    with not_written [of script lost R opts] u error(2) write_stage_effect(1) [OF error(1)] show ?thesis
      by (intro exI [of _ script]) auto
  next
    case (ok x v)
    have v: "trace v = trace u" "files v (nft_output opts) = Some script" "gen_log v = gen_log u"
      using write_stage_effect [OF ok(1)] by simp_all
    from checked_course [OF ok(2) v(2)] obtain log cmds where
      c: "reconcile_course R opts script (gen_entry GRendered script # log) cmds (res_ok r)"
      "gen_log t = gen_log v @ log" "trace t = trace v @ cmds"
      "\<forall>rep. r = Inr rep \<longrightarrow> (\<exists>added removed i. rep = report added removed i)" by blast
    have "\<forall>rep. r = Inr rep \<longrightarrow> rep_nftables_config rep = script \<and> rep_generation_id rep \<noteq> None"
      using c(4) begun(3) by fastforce
    with c u v show ?thesis
      by (intro exI [of _ script] exI [of _ "gen_entry GRendered script # log"] exI [of _ cmds]) simp
  qed
qed

end
