(* ===== verification/Total_Eff.thy ===== *)
theory Total_Eff
  imports Prelude
begin

text \<open>
  Total correctness of stateful computations: \<open>returns P m Q\<close> says that from every state with \<open>P\<close>
  the computation \<open>m\<close> returns a value, not an error, and leaves a state with \<open>Q\<close>. The rules follow
  the structure of the code; a loop takes an invariant that may consume a budget.
\<close>

definition returns :: "('s \<Rightarrow> bool) \<Rightarrow> ('s, 'e, 'a) eff \<Rightarrow> ('a \<Rightarrow> 's \<Rightarrow> bool) \<Rightarrow> bool" where
  "returns P m Q \<longleftrightarrow> (\<forall>s. P s \<longrightarrow> (\<exists>x t. m s = (Inr x, t) \<and> Q x t))"

lemma returnsI: "(\<And>s. P s \<Longrightarrow> \<exists>x t. m s = (Inr x, t) \<and> Q x t) \<Longrightarrow> returns P m Q"
  by (simp add: returns_def)

lemma returnsD: "returns P m Q \<Longrightarrow> P s \<Longrightarrow> \<exists>x t. m s = (Inr x, t) \<and> Q x t"
  by (simp add: returns_def)

lemma returns_weaken:
  "returns P m Q \<Longrightarrow> (\<And>s. P' s \<Longrightarrow> P s) \<Longrightarrow> (\<And>x t. Q x t \<Longrightarrow> Q' x t) \<Longrightarrow> returns P' m Q'"
  by (fastforce simp: returns_def)

lemma returns_ret: "(\<And>s. P s \<Longrightarrow> Q x s) \<Longrightarrow> returns P (eff_ret x) Q"
  by (simp add: returns_def)

lemma returns_lift: "(\<And>s. P s \<Longrightarrow> \<exists>x. r = Inr x \<and> Q x s) \<Longrightarrow> returns P (eff_lift r) Q"
  by (auto simp: returns_def)

lemma returns_bind:
  assumes "returns P m R" "\<And>x. returns (R x) (f x) Q" shows "returns P (eff_bind m f) Q"
proof (rule returnsI)
  fix s
  assume "P s"
  with assms(1) obtain x u where "m s = (Inr x, u)" "R x u" by (blast dest: returnsD)
  moreover from \<open>R x u\<close> obtain y t where "f x u = (Inr y, t)" "Q y t"
    using returnsD [OF assms(2)] by blast
  ultimately show "\<exists>y t. eff_bind m f s = (Inr y, t) \<and> Q y t" by (simp add: eff_bind_def)
qed

lemma returns_bind_inv:
  "returns I m (\<lambda>_. I) \<Longrightarrow> (\<And>x. returns I (f x) (\<lambda>_. I)) \<Longrightarrow> returns I (eff_bind m f) (\<lambda>_. I)"
  by (rule returns_bind)

text \<open>A call whose failure is handled.\<close>

lemma returns_catch:
  assumes "keeps P m" "\<And>r. returns P (h r) Q" shows "returns P (eff_catch m h) Q"
proof (rule returnsI)
  fix s
  assume P: "P s"
  obtain r u where m: "m s = (r, u)" by (cases "m s")
  have "P u" using keepsD [OF assms(1) m P] .
  with m show "\<exists>y t. eff_catch m h s = (Inr y, t) \<and> Q y t"
    using returnsD [OF assms(2)] by (simp add: eff_catch_def)
qed

lemma returns_catch_ok:
  assumes "returns P m R" "\<And>x. returns (R x) (h (Inr x)) Q" shows "returns P (eff_catch m h) Q"
proof (rule returnsI)
  fix s
  assume "P s"
  with assms(1) obtain x u where "m s = (Inr x, u)" "R x u" by (blast dest: returnsD)
  moreover from \<open>R x u\<close> obtain y t where "h (Inr x) u = (Inr y, t)" "Q y t"
    using returnsD [OF assms(2)] by blast
  ultimately show "\<exists>y t. eff_catch m h s = (Inr y, t) \<and> Q y t" by (simp add: eff_catch_def)
qed

lemma returns_map_err: "returns P m Q \<Longrightarrow> returns P (eff_map_err g m) Q"
  by (fastforce simp: returns_def eff_map_err_def)

lemma returns_forM:
  assumes "\<And>x n. x \<in> set xs \<Longrightarrow> returns (I (Suc n)) (f x) (\<lambda>_. I n)"
  shows "returns (I (length xs + n)) (eff_forM f xs) (\<lambda>_. I n)"
  using assms
proof (induction xs)
  case (Cons x xs)
  have "returns (I (Suc (length xs + n))) (f x) (\<lambda>_. I (length xs + n))" using Cons.prems by simp
  moreover have "returns (I (length xs + n)) (eff_forM f xs) (\<lambda>_. I n)" using Cons by simp
  ultimately show ?case using returns_bind by fastforce
qed (simp add: returns_ret)

lemma returns_foldM:
  assumes "\<And>x acc. returns I (f x acc) (\<lambda>_. I)"
  shows "returns I (eff_foldM f xs acc) (\<lambda>_. I)"
  by (induction xs arbitrary: acc) (auto intro: returns_ret returns_bind assms)

end
