(* ===== verification/Reconcile_Total.thy ===== *)
theory Reconcile_Total
  imports Reconcile_Props Total_Eff
begin

text \<open>
  When everything outside works, reconciling succeeds: no statement, file operation or command
  fails, times can be written, the stored rows decode to mappings \<open>validate_mappings\<close> accepts, none
  of them asks for XDP, and the two identifier sequences have room. Targets that do not answer do
  not matter.
\<close>

definition all_works :: "('h, 'e) host_env_scheme \<Rightarrow> bool" where
  "all_works E \<longleftrightarrow> (\<forall>n. sql_fault E n = None) \<and> (\<forall>n. io_fault E n = None) \<and>
     (\<forall>t. \<exists>x. time_format E t = Inr x) \<and> (\<forall>n h p args. cmd_ok (fst (run_cmd E n h p args)))"

text \<open>A database with room for \<open>g\<close> generations and \<open>e\<close> events in which the listed mappings are.\<close>

definition ready :: "'e env_ops_scheme \<Rightarrow> mapping list \<Rightarrow> nat \<Rightarrow> nat \<Rightarrow> 'w db_scheme \<Rightarrow> bool" where
  "ready E ms g e s \<longleftrightarrow> sql_invar E s \<and> (\<forall>m\<in>set ms. sql_view E s (m_id m) \<noteq> None) \<and>
     seq_generations s + int g \<le> i64_max \<and> seq_events s + int e \<le> i64_max"

lemma ready_tick [simp]: "ready E ms g e (s\<lparr>tick := n\<rparr>) = ready E ms g e s"
  by (simp add: ready_def)

lemma ready_host [simp]:
  "ready E ms g e (s\<lparr>files := f\<rparr>) = ready E ms g e s" "ready E ms g e (s\<lparr>hstate := h\<rparr>) = ready E ms g e s"
  "ready E ms g e (s\<lparr>trace := tr\<rparr>) = ready E ms g e s"
  by (simp_all add: ready_def sql_invar_def sql_view_def)

lemma ready_mono: "ready E ms g e s \<Longrightarrow> g' \<le> g \<Longrightarrow> e' \<le> e \<Longrightarrow> ready E ms g' e' s"
  by (auto simp: ready_def)

section \<open>The database\<close>

lemma all_works_times:
  assumes "all_works E"
  shows "\<exists>x. format_time E t = Inr x" "\<exists>x. format_optional_time E ot = Inr x"
proof -
  have works: "\<exists>x. format_time E t = Inr x" for t
    using assms by (simp add: all_works_def format_time_def)
  then show "\<exists>x. format_time E t = Inr x" .
  obtain x where "format_time E (the ot) = Inr x" using works by blast
  then show "\<exists>x. format_optional_time E ot = Inr x" by (cases ot) (simp_all add: format_optional_time_def)
qed

lemma returns_record_generation:
  assumes E: "all_works E" and "trim script \<noteq> []"
  shows "returns (ready E ms (Suc g) e) (record_generation E gs script ap err) (\<lambda>_. ready E ms g e)"
proof (rule returnsI)
  fix s
  assume s: "ready E ms (Suc g) e s"
  obtain c where c: "format_time E (clock E (tick s)) = Inr c" using all_works_times(1) [OF E] by blast
  obtain a where a: "format_optional_time E ap = Inr a" using all_works_times(2) [OF E] by blast
  have "sql_fault E n = None" for n using E by (simp add: all_works_def)
  then show "\<exists>x t. record_generation E gs script ap err s = (Inr x, t) \<and> ready E ms g e t"
    using s assms(2)
    by (simp add: record_generation_def now_utc_def eff_bind_def c a query_def insert_generation_row_def
        Let_def ready_def sql_invar_def sql_view_def)
qed

lemma returns_record_event:
  assumes E: "all_works E" and "trim msg \<noteq> []"
  shows "returns (ready E ms g (Suc e)) (record_event E l msg d) (\<lambda>_. ready E ms g e)"
proof (rule returnsI)
  fix s
  assume s: "ready E ms g (Suc e) s"
  obtain c where c: "format_time E (clock E (tick s)) = Inr c" using all_works_times(1) [OF E] by blast
  have "sql_fault E n = None" for n using E by (simp add: all_works_def)
  then show "\<exists>x t. record_event E l msg d s = (Inr x, t) \<and> ready E ms g e t"
    using s assms(2)
    by (simp add: record_event_def now_utc_def eff_bind_def c query_def insert_event_row_def
        Let_def ready_def sql_invar_def sql_view_def)
qed

lemma row_assign_health:
  assumes "row_to_mapping E r = Inr x" "parse_time E checked = Inr c" "parse_time E time = Inr u"
  shows "\<exists>y. row_to_mapping E (assign_health (status_wire st) h err checked time r) = Inr y \<and> m_id y = m_id x"
  using assms
  by (auto simp: row_to_mapping_def assign_health_def parse_optional_time_def simp del: status_wire.simps)

lemma returns_set_mapping_health:
  assumes E: "all_works E" and doc: "time_doc E" and m: "m \<in> set ms"
  shows "returns (ready E ms g e) (set_mapping_health E (m_id m) st h err) (\<lambda>_. ready E ms g e)"
proof (rule returnsI)
  fix s
  assume s: "ready E ms g e s"
  obtain c u where times: "format_time E (clock E (tick s)) = Inr c" "format_time E (clock E (Suc (tick s))) = Inr u"
    using all_works_times(1) [OF E] by metis
  define f where "f = assign_health (status_wire st) h err c u"
  define rows where "rows = map (\<lambda>x. if r_id x = id_str (m_id m) then f x else x) (t_mappings s)"
  have fid: "r_id (f r) = r_id r" for r by (simp add: f_def)
  have dec: "\<exists>y. row_to_mapping E (f r) = Inr y \<and> m_id y = m_id x" if "row_to_mapping E r = Inr x" for r x
    unfolding f_def using row_assign_health that parse_format_time [OF doc] times by blast
  have inv: "row_good E r" if "r \<in> set rows" for r
    using that s dec fid unfolding rows_def ready_def sql_invar_def row_good_def by fastforce
  from s m obtain x where "sql_view E s (m_id m) = Some x" unfolding ready_def by blast
  then obtain r where r: "row_at (t_mappings s) (id_str (m_id m)) = Some r" by (auto simp: sql_view_Some)
  have at: "row_at rows j = (if j = id_str (m_id m) then Some (f r) else row_at (t_mappings s) j)" for j
    unfolding rows_def using row_at_map [of f, OF fid] r by simp
  have row: "row_at rows (id_str (m_id m)) = Some (f r)" using at by simp
  then obtain y where y: "row_to_mapping E (f r) = Inr y" using inv row_at_SomeD by (fastforce simp: row_good_def)
  define t where "t = s\<lparr>tick := Suc (Suc (Suc (Suc (tick s)))), t_mappings := rows\<rparr>"
  have "find (\<lambda>x. r_id x = id_str (m_id m)) (t_mappings s) = Some r" using r by (simp add: row_at_def)
  moreover have "sql_fault E n = None" for n using E by (simp add: all_works_def)
  ultimately have run: "set_mapping_health E (m_id m) st h err s = (Inr y, t)"
    using row y unfolding t_def rows_def f_def
    by (simp add: set_mapping_health_def get_mapping_def now_utc_def eff_bind_def times query_def
        update_mapping_row_def select_stmt_def Let_def row_at_def)
  have "sql_view E t k \<noteq> None" if "sql_view E s k \<noteq> None" for k
  proof -
    have "row_at (t_mappings t) (id_str k) \<noteq> None"
      using that s at sql_view_None [of E s k] by (auto simp: t_def ready_def)
    moreover have "sql_invar E t" using inv by (simp add: t_def sql_invar_def)
    ultimately show ?thesis by (simp add: sql_view_None)
  qed
  then have "ready E ms g e t" using s inv unfolding ready_def by (simp add: t_def sql_invar_def)
  with run show "\<exists>x t. set_mapping_health E (m_id m) st h err s = (Inr x, t) \<and> ready E ms g e t" by blast
qed

section \<open>Files and commands\<close>

lemma fs_call_works: "all_works E \<Longrightarrow> fs_call E full partly s =
    (Inr (), s\<lparr>tick := Suc (tick s), files := full (files s)\<rparr>)"
  by (simp add: fs_call_def all_works_def)

lemma returns_fs_call:
  "all_works E \<Longrightarrow> returns (ready E' ms g e) (fs_call E full partly) (\<lambda>_. ready E' ms g e)"
  by (rule returnsI) (simp add: fs_call_works)

lemma returns_atomic_write:
  assumes "all_works E"
  shows "returns (ready E' ms g e) (atomic_write E path bytes) (\<lambda>_. ready E' ms g e)"
proof -
  note fs = returns_fs_call [OF assms]
  have uuid: "returns (ready E' ms g e) (fresh_uuid E) (\<lambda>_. ready E' ms g e)"
    by (rule returnsI) (simp add: fresh_uuid_def)
  have keep: "keeps (ready E' ms g e) (fs_call E full partly)" for full partly
    by (rule keepsI) (simp add: fs_call_works [OF assms])
  show ?thesis
    unfolding atomic_write_def Let_def open_truncate_def write_all_def sync_all_def fs_rename_def
      create_dir_all_def open_read_def
    by (intro returns_bind_inv uuid fs; cases "path_parent path")
      (auto intro!: returns_ret fs returns_catch keep split: sum.splits)
qed

lemma returns_command:
  fixes E :: "('h, 'x) host_env_scheme"
  assumes "all_works E"
  shows "returns (ready E' ms g e) (command E prog args :: (('h, 'w) world_scheme, 'f, cmd_outcome) eff) (\<lambda>out t. ready E' ms g e t \<and> cmd_ok out)"
proof (rule returnsI)
  fix s :: "('h, 'w) world_scheme"
  assume "ready E' ms g e s"
  obtain out h where "run_cmd E (tick s) (hstate s) prog args = (out, h)" by force
  moreover have "cmd_ok out"
    using assms calculation unfolding all_works_def by (metis fst_conv)
  ultimately show "\<exists>x t. command E prog args s = (Inr x, t) \<and> ready E' ms g e t \<and> cmd_ok x"
    using \<open>ready E' ms g e s\<close> by (simp add: command_def)
qed

lemma returns_nft_run:
  assumes "all_works E"
  shows "returns (ready E' ms g e) (nft_run E T args path) (\<lambda>c t. ready E' ms g e t \<and> is_success (nc_status c))"
  unfolding nft_run_def
  by (rule returns_bind [OF returns_command [OF assms]], rule returnsI)
    (auto simp: cmd_ok_def split: cmd_outcome.splits)

lemma returns_linux_run:
  assumes "all_works E"
  shows "returns (ready E' ms g e) (linux_run_owned E L args) (\<lambda>_. ready E' ms g e)"
  unfolding linux_run_owned_def
  by (rule returns_bind [OF returns_command [OF assms]], rule returnsI)
    (auto simp: cmd_ok_def split: cmd_outcome.splits)

section \<open>The stages\<close>

lemma returns_core_step: "returns P m Q \<Longrightarrow> returns P (core_step m) Q"
  unfolding core_step_def by (rule returns_map_err)

lemma returns_write_stage:
  assumes "all_works E"
  shows "returns (ready E' ms g e) (write_stage E opts script) (\<lambda>_. ready E' ms g e)"
  unfolding write_stage_def
  by (rule returns_catch_ok [OF returns_atomic_write [OF assms]]) (simp add: returns_ret)

lemma returns_check_stage:
  assumes E: "all_works E" and script: "trim script \<noteq> []"
  shows "returns (ready E ms (Suc g) e) (check_stage E R opts script) (\<lambda>_. ready E ms g e)"
  unfolding check_stage_def check_file_def
proof (rule returns_bind [OF returns_map_err [OF returns_nft_run [OF E]]])
  fix c
  show "returns (\<lambda>t. ready E ms (Suc g) e t \<and> is_success (nc_status c))
    (if \<not> is_success (nc_status c)
     then let message = error_message (nc_status c) (nc_stderr c)
          in eff_bind (record_failure E script ''nft validation failed'' message)
            (\<lambda>_. eff_err (Fail (RNftValidation message)))
     else eff_bind (core_step (record_generation E GValidated script None None)) (\<lambda>_. eff_ret ()))
    (\<lambda>_. ready E ms g e)"
  proof (cases "is_success (nc_status c)")
    case True
    have "returns (ready E ms (Suc g) e)
        (eff_bind (core_step (record_generation E GValidated script None None)) (\<lambda>_. eff_ret ())) (\<lambda>_. ready E ms g e)"
      by (rule returns_bind [OF returns_core_step [OF returns_record_generation [OF E script]]]) (simp add: returns_ret)
    with True show ?thesis by simp
  qed (simp add: returns_def)
qed

lemma returns_apply_stage:
  assumes "all_works E"
  shows "returns (ready E' ms g e) (apply_stage E R opts script) (\<lambda>_. ready E' ms g e)"
proof (cases "apply_nft opts")
  case True
  have nft: "returns (ready E' ms g e) (eff_map_err (\<lambda>x. Fail (RNft x)) (apply_file E (rc_nft R) (nft_output opts)))
      (\<lambda>c t. ready E' ms g e t \<and> is_success (nc_status c))"
    unfolding apply_file_def by (rule returns_map_err [OF returns_nft_run [OF assms]])
  have rest: "returns (\<lambda>t. ready E' ms g e t \<and> is_success (nc_status c))
      (if \<not> is_success (nc_status c)
       then let message = error_message (nc_status c) (nc_stderr c)
            in eff_bind (record_failure E script ''nft apply failed'' message)
              (\<lambda>_. eff_err (Fail (RNftApply message)))
       else eff_ret ()) (\<lambda>_. ready E' ms g e)" for c
    by (cases "is_success (nc_status c)") (simp_all add: returns_def)
  show ?thesis using returns_bind [OF nft rest] True by (simp add: apply_stage_def)
qed (simp add: apply_stage_def returns_ret)

lemma returns_address_step:
  assumes "all_works E"
  shows "returns (ready E' ms g e) (address_step E R cfg m acc) (\<lambda>_. ready E' ms g e)"
proof (cases acc)
  case (Pair added removed)
  note run = returns_linux_run [OF assms]
  show ?thesis
    unfolding address_step_def Pair ensure_addr_def delete_addr_if_present_def interface_addresses_def prod.case
    by (auto intro!: returns_bind_inv returns_map_err run returns_ret)
qed

lemma returns_linux_stage:
  assumes "all_works E"
  shows "returns (ready E' ms g e) (linux_stage E R cfg opts ms') (\<lambda>_. ready E' ms g e)"
  unfolding linux_stage_def by (simp add: returns_foldM returns_ret returns_address_step [OF assms])

lemma returns_health_step:
  fixes E :: "('h, 'x) host_env_scheme"
  assumes E: "all_works E" and doc: "time_doc E" and m: "m \<in> set ms"
  shows "returns (ready E ms g (Suc e)) (health_step E m :: ('h, 'w, unit) rec_eff) (\<lambda>_. ready E ms g e)"
proof -
  note event = returns_core_step [OF returns_record_event [OF E]]
  note health = returns_core_step [OF returns_set_mapping_health [OF E doc m]]
  have msg: "trim ''mapping health degraded'' \<noteq> []"
    using trim_graphic [of "''mapping health degraded''"] by (simp add: ascii_graphic_def)
  have check: "keeps (ready E ms g (Suc e)) (health_check E (target_ip m) (target_port m) (m_protocol m)
      :: (('h, 'w) world_scheme, reconcile_error, string) eff)"
  proof -
    have "keeps (ready E ms g (Suc e)) (connect E ip p :: (('h, 'w) world_scheme, reconcile_error, connect_outcome) eff)" for ip p
      by (rule keepsI) (simp add: connect_def)
    moreover have "keeps (ready E ms g (Suc e)) (case out of ConnectTimeout \<Rightarrow> eff_err a
        | ConnectFailed msg \<Rightarrow> eff_err (b msg) | Connected \<Rightarrow> eff_ret c)" for out a b c
      by (cases out) (simp_all add: keeps_ret keeps_err)
    ultimately show ?thesis unfolding health_check_def by (intro keeps_intros)
  qed
  have ok: "returns (ready E ms g (Suc e)) (eff_bind (core_step (set_mapping_health E (m_id m) MActive (Some st) None))
      (\<lambda>_. eff_ret ())) (\<lambda>_. ready E ms g e)" for st
    by (rule returns_bind [OF health], rule returns_ret, erule ready_mono) simp_all
  have bad: "returns (ready E ms g (Suc e))
      (eff_bind (core_step (set_mapping_health E (m_id m) MDegraded (Some ''degraded'') (Some w))) (\<lambda>_.
       eff_bind (core_step (record_event E EvWarn ''mapping health degraded'' (Some w))) (\<lambda>_. eff_ret ())))
      (\<lambda>_. ready E ms g e)" for w
    by (rule returns_bind [OF health], rule returns_bind [OF event [OF msg]]) (simp add: returns_ret)
  show ?thesis
    unfolding health_step_def
    by (rule returns_catch [OF check]) (auto simp: ok bad Let_def split: sum.split)
qed

lemma returns_finish_stage:
  fixes E :: "('h, 'x) host_env_scheme"
  assumes E: "all_works E" and doc: "time_doc E" and script: "trim script \<noteq> []"
  shows "returns (ready E ms 1 (Suc (length ms))) (finish_stage E opts ms script g :: ('h, 'w, int) rec_eff)
    (\<lambda>_. ready E ms 0 0)"
proof -
  note event = returns_core_step [OF returns_record_event [OF E]]
  have msg: "trim ''reconcile applied'' \<noteq> []" "trim ''reconcile validated without full apply'' \<noteq> []"
    using trim_graphic [of "''reconcile applied''"] trim_graphic [of "''reconcile validated without full apply''"]
    by (simp_all add: ascii_graphic_def)
  let ?xs = "filter (\<lambda>m. enabled m \<and> m_backend m = Nft) ms"
  have now: "returns (ready E ms 1 (length ms + 1)) (now_utc E) (\<lambda>_. ready E ms 1 (length ms + 1))"
    by (rule returnsI) (simp add: now_utc_def)
  have gen: "returns (ready E ms 1 (length ms + 1)) (core_step (record_generation E GActive script (Some t) None))
      (\<lambda>_. ready E ms 0 (length ?xs + 1))" for t
    by (rule returns_weaken [OF returns_core_step [OF returns_record_generation [OF E script, of ms 0 "length ms + 1"]]])
      (auto elim: ready_mono simp: le_Suc_eq length_filter_le)
  have loop: "returns (ready E ms 0 (length ?xs + 1)) (eff_forM (health_step E :: _ \<Rightarrow> ('h, 'w, unit) rec_eff) ?xs)
      (\<lambda>_. ready E ms 0 1)"
    by (rule returns_forM) (rule returns_health_step [OF E doc], simp)
  show ?thesis
  proof (cases "apply_nft opts \<and> apply_linux opts")
    case True
    show ?thesis
      unfolding finish_stage_def using True
      by simp (rule returns_bind [OF now [simplified]], rule returns_bind [OF gen [simplified]],
          rule returns_bind [OF loop [simplified]],
          rule returns_bind [OF event [OF msg(1), of ms 0 0, simplified]], simp add: returns_ret)
  next
    case False
    have "returns (ready E ms 1 (Suc (length ms))) (core_step (record_event E EvInfo
        ''reconcile validated without full apply'' d)) (\<lambda>_. ready E ms 1 (length ms))" for d
      by (rule event [OF msg(2)])
    with False show ?thesis
      unfolding finish_stage_def by (auto intro!: returns_bind returns_ret elim: ready_mono)
  qed
qed

section \<open>A whole reconciliation\<close>

lemma trim_end_graphic: "ascii_graphic c \<Longrightarrow> \<exists>r. trim_end (c # s) = c # r"
proof (induction "c # s" arbitrary: s rule: trim_end.induct)
  case 1
  show ?case
  proof (cases "ws_last (c # s)")
    case (Some w)
    have w: "w \<noteq> []" "take (length w) (rev (c # s)) = rev w" "w \<in> set white_space"
      using ws_last_SomeD [OF Some] Some by (auto simp: ws_last_def dest: find_SomeD)
    have "length w < length (c # s)"
    proof (rule ccontr)
      assume "\<not> length w < length (c # s)"
      with w(2) have "rev (c # s) = rev w" by simp
      then have "w = c # s" by (simp only: rev_is_rev_conv)
      with w(3) white_space_ends 1(2) show False by fastforce
    qed
    then obtain s' where s': "take (length (c # s) - length w) (c # s) = c # s'"
      by (cases "length (c # s) - length w") auto
    with 1(1) [OF Some s' 1(2)] show ?thesis by (subst trim_end.simps) (simp add: Some)
  qed simp
qed

lemma trim_head_graphic: "ascii_graphic c \<Longrightarrow> trim (c # s) \<noteq> []"
  using trim_end_graphic [of c s] by (auto simp: trim_def ws_head_graphic)

lemma script_not_blank: "render_nftables N ms cfg table = Inr script \<Longrightarrow> trim script \<noteq> []"
  by (auto simp: render_nftables_eq nft_script_def ascii_graphic_def intro!: trim_head_graphic)

lemma listed_present:
  assumes "list_mappings E s = (Inr ms, u)" "sql_invar E s" "m \<in> set ms"
  shows "sql_view E s (m_id m) \<noteq> None"
proof -
  let ?rows = "sort_key (\<lambda>r. [r_created_at r, r_id r]) (t_mappings s)"
  note all = list_mappings_rows [OF assms(1)]
  from assms(3) obtain i where i: "i < length ms" "ms ! i = m" by (auto simp: in_set_conv_nth)
  have "row_to_mapping E (?rows ! i) = Inr m" using list_all2_nthD2 [OF all i(1)] i(2) by simp
  moreover have "i < length ?rows" using list_all2_lengthD [OF all] i(1) by simp
  then have "?rows ! i \<in> set ?rows" by (rule nth_mem)
  then have "?rows ! i \<in> set (t_mappings s)" by (simp only: set_sort)
  moreover from this assms(2) have "row_good E (?rows ! i)" unfolding sql_invar_def by blast
  ultimately have "r_id (?rows ! i) = id_str (m_id m)" by (auto simp: row_good_def)
  then have "row_at (t_mappings s) (id_str (m_id m)) \<noteq> None"
    using \<open>?rows ! i \<in> set (t_mappings s)\<close> unfolding row_at_def find_None_iff_ex by blast
  with assms(2) show ?thesis by (simp add: sql_view_None)
qed

lemma reconcile_total_ready:
  fixes s :: "('h, 'w) world_scheme"
  assumes E: "all_works E" and doc: "time_doc E" and inv: "sql_invar E s"
    and ms: "list_mappings E s = (Inr ms, u)" and valid: "validate_mappings E ms cfg = Inr ()"
    and xdp: "xdp_validate_config (opt_xdp opts) = Inr ()" "filter is_xdp ms = []"
    and room: "seq_generations s + 3 \<le> i64_max" "seq_events s + int (length ms) + 1 \<le> i64_max"
  shows "\<exists>rep t. reconcile E R cfg opts s = (Inr rep, t) \<and> ready E ms 0 0 t"
proof -
  obtain n where u: "u = s\<lparr>tick := n\<rparr>" using readsD [OF reads_lists(1) ms] by blast
  have rdy: "ready E ms 3 (Suc (length ms)) u"
    using inv room listed_present [OF ms inv] by (auto simp: u ready_def)
  obtain script where script: "render_nftables E ms cfg default_table_name = Inr script"
    using valid by (simp add: render_nftables_eq)
  note nonblank = script_not_blank [OF script]
  define plan where "plan = \<lparr>plan_interface = xdp_interface (opt_xdp opts), plan_pin_path = pin_path (opt_xdp opts),
         plan_attach_mode = attach_mode (opt_xdp opts), plan_entries = map xdp_entry (filter is_xdp ms)\<rparr>"
  have plan: "xdp_plan_of E (opt_xdp opts) ms cfg = Inr plan" "plan_is_empty plan"
    using plan_ok [OF valid xdp(1)] xdp(2) by (simp_all add: plan_def plan_is_empty_def)
  let ?rest = "\<lambda>g. eff_bind (write_stage E opts script) (\<lambda>_. eff_bind (check_stage E R opts script) (\<lambda>_.
      eff_bind (apply_stage E R opts script) (\<lambda>_. eff_bind (linux_stage E R cfg opts ms) (\<lambda>(added, removed).
      eff_bind (finish_stage E opts ms script g) (\<lambda>i.
       eff_ret \<lparr>rep_nftables_config = script, rep_generation_id = Some i,
                rep_added_addresses = added, rep_removed_addresses = removed,
                rep_xdp_plan_entries = length (plan_entries plan)\<rparr>)))))"
  have all: "returns (ready E ms 3 (Suc (length ms)))
      (eff_bind (core_step (record_generation E GRendered script None None)) ?rest :: ('h, 'w, reconcile_report) rec_eff)
      (\<lambda>_. ready E ms 0 0)"
  proof (rule returns_bind)
    show "returns (ready E ms 3 (Suc (length ms))) (core_step (record_generation E GRendered script None None))
        (\<lambda>_. ready E ms 2 (Suc (length ms)))"
      using returns_core_step [OF returns_record_generation [OF E nonblank, of ms 2 "Suc (length ms)"]]
      by (simp add: numeral_3_eq_3 numeral_2_eq_2)
    fix g
    have check: "returns (ready E ms 2 (Suc (length ms))) (check_stage E R opts script) (\<lambda>_. ready E ms 1 (Suc (length ms)))"
      using returns_check_stage [OF E nonblank, of ms 1] by (simp add: numeral_2_eq_2)
    note fin = returns_finish_stage [OF E doc nonblank, of ms opts g, simplified]
    show "returns (ready E ms 2 (Suc (length ms))) (?rest g :: ('h, 'w, reconcile_report) rec_eff) (\<lambda>_. ready E ms 0 0)"
      by (rule returns_bind [OF returns_write_stage [OF E]], rule returns_bind [OF check],
          rule returns_bind [OF returns_apply_stage [OF E]], rule returns_bind [OF returns_linux_stage [OF E]])
        (auto intro!: returns_bind [OF fin] returns_ret split: prod.split)
  qed
  have "core_step (list_mappings E) s = (Inr ms, u)" by (simp add: core_step_def eff_map_err_def ms)
  note list = eff_bind_step(2) [of "core_step (list_mappings E)", OF this]
  have "ready E ms 0 0 u" using rdy by (rule ready_mono) simp_all
  then show ?thesis
    using returnsD [OF all rdy] script plan
    by (cases "dry_run opts") (simp_all add: reconcile_def list lift_render_def)
qed

lemma reconcile_total:
  assumes "all_works E" and "time_doc E" and "sql_invar E s"
    and "list_mappings E s = (Inr ms, u)" and "validate_mappings E ms cfg = Inr ()"
    and "xdp_validate_config (opt_xdp opts) = Inr ()" "filter is_xdp ms = []"
    and "seq_generations s + 3 \<le> i64_max" "seq_events s + int (length ms) + 1 \<le> i64_max"
  shows "\<exists>rep t. reconcile E R cfg opts s = (Inr rep, t)"
  using reconcile_total_ready [OF assms] by blast

end
