(* ===== verification/Reconcile_Safety.thy ===== *)
theory Reconcile_Safety
  imports Reconcile_Total
begin

text \<open>
  The properties of the reconciler, over the stage lemmas of \<open>Reconcile_Props\<close> and the totality
  lemmas of \<open>Reconcile_Total\<close>.
\<close>

section \<open>A sample run\<close>

text \<open>A database with an enabled and a disabled port forward on the same private address, and a machine
  on which every command succeeds.\<close>

definition udp_off :: mapping where
  "udp_off = sample_udp\<lparr>enabled := False, m_status := MDisabled\<rparr>"

definition shared_world :: "(string \<Rightarrow> ipv4_addr list) world" where
  "shared_world = sample_world\<lparr>t_mappings := [sample_row sample_tcp, sample_row udp_off]\<rparr>"

definition sample_reconciler :: reconciler where
  "sample_reconciler = \<lparr>rc_linux = linux_default, rc_nft = nft_default\<rparr>"

lemma sample_host_env_simps [simp]:
  "net_contains sample_host_env = net_contains cidr_ops" "net_network sample_host_env = net_network cidr_ops"
  "net_broadcast sample_host_env = net_broadcast cidr_ops" "sql_fault sample_host_env n = None"
  "io_fault sample_host_env n = None" "time_format sample_host_env t = Inr (sample_time_text t)"
  "time_parse sample_host_env = sample_time_parse" "uuid_v4 sample_host_env = sample_uuid"
  using sample_env_simps by (simp_all add: sample_host_env_def env_ops.defs sample_env_def ipnet_ops.defs cidr_ops_def)

lemma sample_host_works: "all_works sample_host_env" "time_doc sample_host_env"
  using sample_env_doc(1)
  by (auto simp: all_works_def time_doc_def sample_host_run_def cmd_ok_def is_success_def split: list.split option.split)

lemma udp_off_ok: "mapping_ok cidr_ops sample_config udp_off" "id_wf (m_id udp_off)"
proof -
  have "mapping_ok cidr_ops sample_config sample_udp" using sample_env_valid(2) by simp
  then show "mapping_ok cidr_ops sample_config udp_off"
    by (cases "m_mode sample_udp") (simp_all add: udp_off_def mapping_ok_def backend_ok_def ports_ok_def)
  show "id_wf (m_id udp_off)" using sample_id_wf(2) by (simp add: udp_off_def)
qed

lemma sample_host_row:
  assumes "mapping_ok N cfg m" "id_wf (m_id m)"
  shows "row_to_mapping sample_host_env (sample_row m) = Inr m"
proof -
  have "insert_values sample_host_env m = Inr (sample_row m)"
    by (cases "last_checked_at m")
      (simp_all add: insert_values_def format_optional_time_def format_time_def sample_row_def)
  from insert_values_decode(1) [OF sample_host_works(2) this assms] show ?thesis .
qed

lemma sample_host_decodes:
  "row_to_mapping sample_host_env (sample_row sample_tcp) = Inr sample_tcp"
  "row_to_mapping sample_host_env (sample_row udp_off) = Inr udp_off"
  using sample_host_row [OF sample_env_valid(1) sample_id_wf(1)] sample_host_row [OF udp_off_ok] by simp_all

lemma shared_listed:
  "list_mappings sample_host_env shared_world = (Inr [sample_tcp, udp_off], shared_world\<lparr>tick := Suc (tick shared_world)\<rparr>)"
proof -
  have "sample_time_text 2000 = ''+2000''" "sample_time_text 3000 = ''+3000''"
    by (simp_all add: sample_time_text_def show_nat.simps digit_char_def char_of_def bit_numeral_rec bit_0)
  then have "sort_key (\<lambda>r. [r_created_at r, r_id r]) [sample_row sample_tcp, sample_row udp_off] =
      [sample_row sample_tcp, sample_row udp_off]"
    by (intro sort_key_id_if_sorted)
      (simp add: sample_row_def mapping_columns_def udp_off_def sample_defs less_char_def)
  then show ?thesis
    by (simp add: list_mappings_def select_ok eff_bind_def shared_world_def sample_host_decodes)
qed

lemma shared_valid: "validate_mappings sample_host_env [sample_tcp, udp_off] sample_config = Inr ()"
proof -
  have "mapping_ok sample_host_env cfg m = mapping_ok cidr_ops cfg m" for cfg m by (rule net_only) simp_all
  moreover have "compatible sample_tcp udp_off"
    by (simp add: compatible_def conflicts_def public_clash_def udp_off_def)
      (simp add: sample_defs)
  ultimately show ?thesis using udp_off_ok(1) sample_env_valid(1) by (simp add: validate_mappings_ok)
qed

lemma shared_invar: "sql_invar sample_host_env shared_world"
  using sample_host_decodes by (auto simp: sql_invar_def shared_world_def row_good_def udp_off_def)

lemma shared_reconciles:
  "\<exists>rep t. reconcile sample_host_env sample_reconciler sample_config reconcile_options_default shared_world = (Inr rep, t)"
proof (rule reconcile_total [OF sample_host_works shared_invar shared_listed shared_valid])
  show "xdp_validate_config (opt_xdp reconcile_options_default) = Inr ()"
    by (simp add: reconcile_options_default_def xdp_config_disabled_def xdp_validate_config_def)
  show "filter is_xdp [sample_tcp, udp_off] = []" by (simp add: is_xdp_def udp_off_def sample_defs)
  show "seq_generations shared_world + 3 \<le> i64_max"
    "seq_events shared_world + int (length [sample_tcp, udp_off]) + 1 \<le> i64_max"
    by (simp_all add: shared_world_def sample_world_def empty_db_def db.defs i64_max_def)
qed


section \<open>Atomic replacement of the script\<close>

text \<open>C22. \<open>atomic_write\<close> replaces a file or leaves it alone: whichever call into the file system fails and
  however much of the temporary file was written, the target holds its old content when an error is
  returned and exactly the new bytes when none is; no other file but the temporary one changes, and
  that one is gone after a success. (The temporary name is that of the target with a fresh extension.)\<close>

theorem atomic_write_replaces:
  assumes run: "atomic_write E path bytes s = (r, t)"
    and fresh: "\<forall>n. with_extension path (''tmp-'' @ uuid_v4 E n) \<noteq> path"
  shows "\<exists>n. let tmp = with_extension path (''tmp-'' @ uuid_v4 E n) in
    (case r of Inr _ \<Rightarrow> files t path = Some bytes \<and> files t tmp = None | Inl _ \<Rightarrow> files t path = files s path) \<and>
    (\<forall>p. p \<noteq> path \<longrightarrow> p \<noteq> tmp \<longrightarrow> files t p = files s p)"
proof -
  obtain tmp n where tmp: "tmp = with_extension path (''tmp-'' @ uuid_v4 E n)" and tch: "touches {path, tmp} s t"
    and w: "r = Inr () \<Longrightarrow> files t path = Some bytes \<and> (tmp \<noteq> path \<longrightarrow> files t tmp = None)"
      "r \<noteq> Inr () \<Longrightarrow> tmp \<noteq> path \<Longrightarrow> files t path = files s path"
    using atomic_write_cases [OF run] by metis
  have "tmp \<noteq> path" using fresh tmp by simp
  with w touches_host [OF tch] tmp show ?thesis
    by (intro exI [of _ n]) (cases r; auto simp: Let_def)
qed

lemma sample_path_fresh:
  "with_extension ''/run/edge-router/generated.nft'' (''tmp-'' @ u) \<noteq> ''/run/edge-router/generated.nft''"
proof -
  have "with_extension ''/run/edge-router/generated.nft'' (''tmp-'' @ u) = ''/run/edge-router/generated.tmp-'' @ u"
    by (simp add: with_extension_def dir_part_def file_name_def file_stem_def)
  then show ?thesis by simp
qed

text \<open>A disk that is full after three bytes of the new script.\<close>

definition full_disk_env :: "(string \<Rightarrow> ipv4_addr list) host_env" where
  "full_disk_env = sample_host_env\<lparr>io_fault := (\<lambda>n. if n = 3 then Some ''disk full'' else None), io_partial := (\<lambda>_. 3)\<rparr>"

theorem atomic_write_replaces_witness:
  "\<exists>t. atomic_write full_disk_env ''/run/edge-router/generated.nft'' ''new script''
        (sample_world\<lparr>files := [''/run/edge-router/generated.nft'' \<mapsto> ''old script'']\<rparr>) = (Inl ''disk full'', t) \<and>
     files t ''/run/edge-router/generated.nft'' = Some ''old script''"
proof -
  let ?p = "''/run/edge-router/generated.nft''"
  let ?s = "sample_world\<lparr>files := [?p \<mapsto> ''old script'']\<rparr>"
  have "path_parent ?p = Some ''/run/edge-router''" by (simp add: path_parent_def dir_part_def)
  then obtain t where t: "atomic_write full_disk_env ?p ''new script'' ?s = (Inl ''disk full'', t)"
    by (simp add: atomic_write_def create_dir_all_def open_truncate_def write_all_def fs_call_def fresh_uuid_def
        eff_bind_def full_disk_env_def Let_def sample_world_def empty_db_def db.defs numeral_3_eq_3)
  have "\<forall>n. with_extension ?p (''tmp-'' @ uuid_v4 full_disk_env n) \<noteq> ?p" using sample_path_fresh by blast
  from atomic_write_replaces [OF t this] t show ?thesis by (auto simp: Let_def)
qed

section \<open>The course of a reconciliation\<close>

text \<open>C16. Every reconciliation that is not a dry run follows one of the courses of \<open>reconcile_course\<close>,
  whatever fails: the generations it records and the commands it runs, in their order, with the
  rendering of the stored mappings as the text of both, and the report carries that text.\<close>

theorem reconcile_refines_course:
  assumes "reconcile E R cfg opts s = (r, t)" and "\<not> dry_run opts"
  shows "\<exists>script log cmds. reconcile_course R opts script log cmds (res_ok r) \<and>
    (log \<noteq> [] \<or> cmds \<noteq> [] \<longrightarrow> renders E cfg s script) \<and>
    gen_log t = gen_log s @ log \<and> trace t = trace s @ cmds \<and>
    (\<forall>rep. r = Inr rep \<longrightarrow> rep_nftables_config rep = script \<and> rep_generation_id rep \<noteq> None)"
  using assms by (rule reconcile_follows_course)

theorem reconcile_refines_course_witness:
  "\<exists>script log cmds. reconcile_course sample_reconciler reconcile_options_default script log cmds True \<and>
     renders sample_host_env sample_config shared_world script \<and> log \<noteq> []"
proof -
  obtain rep t where run: "reconcile sample_host_env sample_reconciler sample_config reconcile_options_default
      shared_world = (Inr rep, t)" using shared_reconciles by blast
  have "\<not> dry_run reconcile_options_default" by (simp add: reconcile_options_default_def)
  from reconcile_refines_course [OF run this] obtain script log cmds where
    c: "reconcile_course sample_reconciler reconcile_options_default script log cmds True"
    "log \<noteq> [] \<or> cmds \<noteq> [] \<longrightarrow> renders sample_host_env sample_config shared_world script" by auto
  have "log \<noteq> []" using c(1) by (rule reconcile_course_success) simp_all
  with c show ?thesis by blast
qed

lemma course_checked:
  assumes "reconcile_course R opts script log cmds success" "i < length cmds"
    and "ran_program (cmds ! i) = nft_binary (rc_nft R)" "ran_args (cmds ! i) = [''-f'', nft_output opts]"
  shows "\<exists>oc. i = 1 \<and> cmd_ok oc \<and> cmds ! 0 = nft_check_cmd R (nft_output opts) (ran_files (cmds ! i)) oc \<and>
    ran_files (cmds ! i) (nft_output opts) = Some script"
proof -
  have no_ip: "\<not> ip_cmd R (cmds ! i)" using assms(4) by (simp add: ip_cmd_def)
  have late: "i = 1" if "cmds = nft_check_cmd R p f oc # cs @ ips" "length cs \<le> 1" "\<forall>a\<in>set ips. ip_cmd R a"
    for p f oc cs ips
  proof (rule ccontr)
    assume "i \<noteq> 1"
    moreover have "i \<noteq> 0" using that(1) assms(4) by (cases i) (auto simp: nft_check_cmd_def)
    ultimately have "cmds ! i \<in> set ips"
      using that(1,2) assms(2) by (cases cs) (auto simp: nth_Cons' nth_append)
    with that(3) no_ip show False by blast
  qed
  show ?thesis
    using assms(1)
  proof cases
    case (not_activated f oc oa ips)
    show ?thesis
    proof (cases "apply_nft opts")
      case True
      with not_activated(2) have "i = 1"
        by (intro late [of _ f oc "[nft_apply_cmd R (nft_output opts) f oa]" ips])
          (use not_activated in auto)
      with not_activated True show ?thesis by (auto simp: nft_apply_cmd_def)
    next
      case False
      have "i \<noteq> 0" using not_activated assms(4) by (cases i) (auto simp: nft_check_cmd_def)
      with False not_activated assms(2) have "cmds ! i \<in> set ips" by (auto simp: nth_Cons')
      with not_activated no_ip show ?thesis by blast
    qed
  next
    case (activated f oc oa ips)
    then have "i = 1" by (intro late [of _ f oc "[nft_apply_cmd R (nft_output opts) f oa]" ips]) auto
    with activated show ?thesis by (auto simp: nft_apply_cmd_def)
  qed (use assms in \<open>auto simp: nft_check_cmd_def nft_apply_cmd_def less_Suc_eq\<close>)
qed

lemma reads_core_step: "reads m \<Longrightarrow> reads (core_step m)"
proof -
  have "snd (core_step m s) = snd (m s)" for s by (simp add: core_step_def eff_map_err_def split: prod.split)
  then show "reads m \<Longrightarrow> reads (core_step m)" by (simp add: reads_def)
qed

lemma dry_run_reads:
  assumes "dry_run opts" shows "reads (reconcile E R cfg opts)"
  unfolding reconcile_def using assms by (auto intro!: reads_intros reads_core_step)

text \<open>C1. No unchecked script reaches the firewall: whenever a reconciliation runs \<open>nft -f\<close> on its output file,
  the command right before it was \<open>nft -c -f\<close> on the same files, it succeeded, and the file held
  exactly the script rendered from the stored mappings. A dry run runs no command at all.\<close>

theorem reconcile_applies_checked:
  assumes "reconcile E R cfg opts s = (r, t)"
  shows "\<exists>cmds. trace t = trace s @ cmds \<and> (\<forall>i < length cmds.
    ran_program (cmds ! i) = nft_binary (rc_nft R) \<and> ran_args (cmds ! i) = [''-f'', nft_output opts] \<longrightarrow>
    \<not> dry_run opts \<and> i = 1 \<and>
    (\<exists>oc script. cmd_ok oc \<and> cmds ! 0 = nft_check_cmd R (nft_output opts) (ran_files (cmds ! i)) oc \<and>
       renders E cfg s script \<and> ran_files (cmds ! i) (nft_output opts) = Some script))"
proof (cases "dry_run opts")
  case True
  from readsD [OF dry_run_reads [OF this] assms] have "trace t = trace s" by auto
  then show ?thesis by auto
next
  case False
  from reconcile_follows_course [OF assms this] obtain script log cmds where
    c: "reconcile_course R opts script log cmds (res_ok r)" "cmds \<noteq> [] \<longrightarrow> renders E cfg s script"
      "trace t = trace s @ cmds" by blast
  then show ?thesis using course_checked [OF c(1)] False by (intro exI [of _ cmds]) fastforce
qed

theorem reconcile_applies_checked_witness:
  "\<exists>t cmds oc f. snd (reconcile sample_host_env sample_reconciler sample_config reconcile_options_default
       shared_world) = t \<and> trace t = trace shared_world @ cmds \<and>
     cmds ! 0 = nft_check_cmd sample_reconciler ''/run/edge-router/generated.nft'' f oc \<and> cmd_ok oc \<and>
     ran_args (cmds ! 1) = [''-f'', ''/run/edge-router/generated.nft'']"
proof -
  let ?o = reconcile_options_default
  obtain rep t where run: "reconcile sample_host_env sample_reconciler sample_config ?o shared_world = (Inr rep, t)"
    using shared_reconciles by blast
  have o: "\<not> dry_run ?o" "apply_nft ?o" "nft_output ?o = ''/run/edge-router/generated.nft''"
    by (simp_all add: reconcile_options_default_def)
  from reconcile_follows_course [OF run o(1)] obtain script log cmds' where
    c: "reconcile_course sample_reconciler ?o script log cmds' True" "trace t = trace shared_world @ cmds'" by auto
  from reconcile_applies_checked [OF run] obtain cmds where cmds: "trace t = trace shared_world @ cmds"
    "\<forall>i < length cmds. ran_program (cmds ! i) = nft_binary (rc_nft sample_reconciler) \<and>
       ran_args (cmds ! i) = [''-f'', nft_output ?o] \<longrightarrow> \<not> dry_run ?o \<and> i = 1 \<and>
      (\<exists>oc script. cmd_ok oc \<and> cmds ! 0 = nft_check_cmd sample_reconciler (nft_output ?o) (ran_files (cmds ! i)) oc \<and>
         renders sample_host_env sample_config shared_world script \<and>
         ran_files (cmds ! i) (nft_output ?o) = Some script)" by blast
  have "1 < length cmds \<and> ran_program (cmds ! 1) = nft_binary (rc_nft sample_reconciler) \<and>
      ran_args (cmds ! 1) = [''-f'', nft_output ?o]"
    using c(1) c(2) cmds(1) o by (auto elim!: reconcile_course_success simp: nft_apply_cmd_def)
  with cmds(2) [rule_format, of 1] cmds(1) run o(3) show ?thesis by auto
qed

text \<open>A generation is recorded as active only when its text was checked and applied: if a reconciliation adds
  an active generation, it was the last one it added, its text is the rendering of the stored
  mappings, and \<open>nft\<close> succeeded on that text twice, first checking and then applying it. A
  reconciliation that applies everything and returns a report has added one.\<close>

theorem reconcile_active_applied:
  assumes run: "reconcile E R cfg opts s = (r, t)" and real: "\<not> dry_run opts"
  shows "\<exists>log. gen_log t = gen_log s @ log \<and>
    (res_ok r \<and> apply_nft opts \<and> apply_linux opts \<longrightarrow> (\<exists>x. x \<in> set log \<and> fst x = ''active'')) \<and>
    (\<forall>x \<in> set log. fst x = ''active'' \<longrightarrow>
      (\<exists>script f oc oa ips. x = (''active'', script, None) \<and> last log = x \<and> renders E cfg s script \<and>
         f (nft_output opts) = Some script \<and> cmd_ok oc \<and> cmd_ok oa \<and>
         trace t = trace s @ nft_check_cmd R (nft_output opts) f oc #
           nft_apply_cmd R (nft_output opts) f oa # ips))"
proof -
  from reconcile_follows_course [OF run real] obtain script log cmds where
    c: "reconcile_course R opts script log cmds (res_ok r)" "log \<noteq> [] \<or> cmds \<noteq> [] \<longrightarrow> renders E cfg s script"
      "gen_log t = gen_log s @ log" "trace t = trace s @ cmds" by blast
  have "res_ok r \<longrightarrow> full_apply opts \<longrightarrow> (\<exists>x. x \<in> set log \<and> fst x = ''active'')"
    using c(1) by (cases) (auto simp: gen_entry_def)
  moreover have act: "\<exists>f oc oa ips. x = (''active'', script, None) \<and> last log = x \<and>
      f (nft_output opts) = Some script \<and> cmd_ok oc \<and> cmd_ok oa \<and>
      cmds = nft_check_cmd R (nft_output opts) f oc # nft_apply_cmd R (nft_output opts) f oa # ips"
    if "x \<in> set log" "fst x = ''active''" for x
    using c(1) that by (cases) (auto simp: gen_entry_def failure_log_def)
  moreover have "\<exists>script f oc oa ips. x = (''active'', script, None) \<and> last log = x \<and> renders E cfg s script \<and>
      f (nft_output opts) = Some script \<and> cmd_ok oc \<and> cmd_ok oa \<and>
      trace t = trace s @ nft_check_cmd R (nft_output opts) f oc # nft_apply_cmd R (nft_output opts) f oa # ips"
    if x: "x \<in> set log" "fst x = ''active''" for x
  proof -
    have "renders E cfg s script" using c(2) x(1) by (cases log) simp_all
    with act [OF x] c(4) show ?thesis by metis
  qed
  ultimately show ?thesis using c(3) unfolding full_apply_def by (intro exI [of _ log]) blast
qed

theorem reconcile_active_applied_witness:
  "\<exists>t log x script. snd (reconcile sample_host_env sample_reconciler sample_config reconcile_options_default
       shared_world) = t \<and> gen_log t = gen_log shared_world @ log \<and> x \<in> set log \<and>
     x = (''active'', script, None) \<and> renders sample_host_env sample_config shared_world script"
proof -
  let ?o = reconcile_options_default
  obtain rep t where run: "reconcile sample_host_env sample_reconciler sample_config ?o shared_world = (Inr rep, t)"
    using shared_reconciles by blast
  have o: "\<not> dry_run ?o" "apply_nft ?o" "apply_linux ?o" by (simp_all add: reconcile_options_default_def)
  from reconcile_active_applied [OF run o(1)] obtain log x where
    "gen_log t = gen_log shared_world @ log" "x \<in> set log" "fst x = ''active''"
    "\<forall>x \<in> set log. fst x = ''active'' \<longrightarrow>
      (\<exists>script f oc oa ips. x = (''active'', script, None) \<and> last log = x \<and>
         renders sample_host_env sample_config shared_world script \<and>
         f (nft_output ?o) = Some script \<and> cmd_ok oc \<and> cmd_ok oa \<and>
         trace t = trace shared_world @ nft_check_cmd sample_reconciler (nft_output ?o) f oc #
           nft_apply_cmd sample_reconciler (nft_output ?o) f oa # ips)"
    using o by auto
  with run show ?thesis by (metis snd_conv)
qed

section \<open>Failures\<close>

text \<open>How the errors of the stages after the script is written come about.\<close>

lemma checked_errors:
  fixes s :: "('h, 'w) world_scheme"
  assumes run: "eff_bind (check_stage E R opts script) (\<lambda>_. eff_bind (apply_stage E R opts script) (\<lambda>_.
      eff_bind (linux_stage E R cfg opts ms) (\<lambda>(added, removed).
      eff_bind (finish_stage E opts ms script g) (\<lambda>i. eff_ret (report added removed i))))) s = (Inl e, t)"
  shows "e \<noteq> Fail (RIo m)"
    "e = Fail (RNftValidation m) \<Longrightarrow> gen_log t = gen_log s @ [(''failed'', script, Some m)] \<and>
       event_log t = event_log s @ [(''error'', ''nft validation failed'', Some m)]"
    "e = Fail (RNftApply m) \<Longrightarrow> gen_log t = gen_log s @ [(''validated'', script, None), (''failed'', script, Some m)] \<and>
       event_log t = event_log s @ [(''error'', ''nft apply failed'', Some m)]"
    "e = Fail (RNft x) \<Longrightarrow> (gen_log t = gen_log s \<or> gen_log t = gen_log s @ [(''validated'', script, None)]) \<and>
       event_log t = event_log s"
proof -
  have "e \<noteq> Fail (RIo m) \<and>
    (e = Fail (RNft x) \<longrightarrow> (gen_log t = gen_log s \<or> gen_log t = gen_log s @ [(''validated'', script, None)]) \<and>
       event_log t = event_log s) \<and>
    (e = Fail (RNftValidation m) \<longrightarrow> gen_log t = gen_log s @ [(''failed'', script, Some m)] \<and>
       event_log t = event_log s @ [(''error'', ''nft validation failed'', Some m)]) \<and>
    (e = Fail (RNftApply m) \<longrightarrow> gen_log t = gen_log s @ [(''validated'', script, None), (''failed'', script, Some m)] \<and>
       event_log t = event_log s @ [(''error'', ''nft apply failed'', Some m)])"
    using run
  proof (cases rule: eff_bind_cases)
    case (error e')
    from error(1) show ?thesis
    proof (cases rule: check_stage_effect)
      case (failed out x)
      then show ?thesis
        using failed(5) error(2) by (auto simp: nft_failed_def failure_recorded_def same_history_def)
    next
      case (passed out)
      with error(2) show ?thesis by auto
    qed
  next
    case (ok x u)
    from ok(1) have u: "gen_log u = gen_log s @ [(''validated'', script, None)]" "event_log u = event_log s"
      by (cases rule: check_stage_effect; simp)+
    from ok(2) show ?thesis
    proof (cases rule: eff_bind_cases)
      case (error e')
      show ?thesis
      proof (cases "apply_nft opts")
        case True
        with error(1) show ?thesis
          by (cases rule: apply_stage_effect) (use error(2) u in \<open>auto simp: nft_failed_def failure_recorded_def same_history_def\<close>)
      qed (use error(1) in \<open>simp add: apply_stage_def\<close>)
    next
      case tail: (ok y v)
      from tail_effect [OF tail(2)] show ?thesis by auto
    qed
  qed
  then show "e \<noteq> Fail (RIo m)"
    "e = Fail (RNftValidation m) \<Longrightarrow> gen_log t = gen_log s @ [(''failed'', script, Some m)] \<and>
       event_log t = event_log s @ [(''error'', ''nft validation failed'', Some m)]"
    "e = Fail (RNftApply m) \<Longrightarrow> gen_log t = gen_log s @ [(''validated'', script, None), (''failed'', script, Some m)] \<and>
       event_log t = event_log s @ [(''error'', ''nft apply failed'', Some m)]"
    "e = Fail (RNft x) \<Longrightarrow> (gen_log t = gen_log s \<or> gen_log t = gen_log s @ [(''validated'', script, None)]) \<and>
       event_log t = event_log s" by blast+
qed

text \<open>C18. What a failed reconciliation leaves in the history. When the script could not be written, or \<open>nft\<close> ran and
  reported a failure of the check or of the application, then after the \<open>rendered\<close> generation there is a \<open>failed\<close> one
  with the script and an error event, both with the message of the returned error. When \<open>nft\<close> could not be started or
  timed out, nothing of the failure is recorded: the history ends with the \<open>rendered\<close> or the \<open>validated\<close>
  generation and there is no event.\<close>

theorem reconcile_failure_recorded:
  assumes run: "reconcile E R cfg opts s = (Inl e, t)"
  shows "(\<forall>m. e = Fail (RIo m) \<or> e = Fail (RNftValidation m) \<or> e = Fail (RNftApply m) \<longrightarrow>
      (\<exists>script before ev. renders E cfg s script \<and>
        gen_log t = gen_log s @ (''rendered'', script, None) # before @ [(''failed'', script, Some m)] \<and>
        before = (if e = Fail (RNftApply m) then [(''validated'', script, None)] else []) \<and>
        event_log t = event_log s @ [(''error'', ev, Some m)])) \<and>
    (\<forall>x. e = Fail (RNft x) \<longrightarrow>
      (\<exists>script. renders E cfg s script \<and> event_log t = event_log s \<and>
        (gen_log t = gen_log s @ [(''rendered'', script, None)] \<or>
         gen_log t = gen_log s @ [(''rendered'', script, None), (''validated'', script, None)])))"
proof (cases "dry_run opts")
  case True
  with run show ?thesis
    by (auto simp: reconcile_def lift_render_def eff_bind_eq_Inl core_step_def eff_map_err_def map_err_def
        split: prod.splits sum.splits failure.splits)
next
  case False
  with run show ?thesis
  proof (cases rule: pipeline_start)
    case (early e')
    then show ?thesis by auto
  next
    case (begun script ms g u report)
    have u: "renders E cfg s script" "gen_log u = gen_log s @ [(''rendered'', script, None)]" "event_log u = event_log s"
      using begun(1) by (simp_all add: prepared_def)
    from begun(2) show ?thesis
    proof (cases rule: eff_bind_cases)
      case (error e')
      from write_stage_effect(4) [OF error(1) refl] error(2) u show ?thesis
        by (auto simp: failure_recorded_def)
    next
      case (ok x v)
      have "gen_log v = gen_log u" "event_log v = event_log u" using write_stage_effect [OF ok(1)] by simp_all
      with checked_errors [OF ok(2)] u show ?thesis by auto
    qed
  qed
qed

definition broken_nft_env :: "(string \<Rightarrow> ipv4_addr list) host_env" where
  "broken_nft_env = sample_host_env\<lparr>run_cmd := (\<lambda>_ h _ _. (Exited (Some 1) [] ''syntax error'', h))\<rparr>"

lemma default_options_simps [simp]:
  "nft_output reconcile_options_default = ''/run/edge-router/generated.nft''" "\<not> dry_run reconcile_options_default"
  "apply_nft reconcile_options_default" "apply_linux reconcile_options_default"
  by (simp_all add: reconcile_options_default_def)

lemma broken_nft_run:
  "\<exists>t. reconcile broken_nft_env sample_reconciler sample_config reconcile_options_default sample_world =
     (Inl (Fail (RNftValidation ''syntax error'')), t)"
proof -
  have ms: "list_mappings broken_nft_env sample_world = (Inr [], sample_world\<lparr>tick := Suc (tick sample_world)\<rparr>)"
    by (simp add: list_mappings_def select_ok eff_bind_def broken_nft_env_def sample_world_def empty_db_def db.defs)
  obtain script where script: "render_nftables broken_nft_env [] sample_config default_table_name = Inr script"
    by (simp add: render_nftables_eq validate_mappings_ok [THEN iffD2])
  have plan: "xdp_plan_of broken_nft_env (opt_xdp reconcile_options_default) [] sample_config =
      Inr \<lparr>plan_interface = [], plan_pin_path = pin_path (xdp_config_disabled []),
        plan_attach_mode = attach_mode (xdp_config_disabled []), plan_entries = []\<rparr>"
    by (simp add: xdp_plan_of_def reconcile_options_default_def xdp_config_disabled_def xdp_validate_config_def)
  have env [simp]: "sql_fault broken_nft_env n = None" "io_fault broken_nft_env n = None"
    "time_format broken_nft_env i = Inr (sample_time_text i)"
    "run_cmd broken_nft_env n h p args = (Exited (Some 1) [] ''syntax error'', h)" for n i h p args
    by (simp_all add: broken_nft_env_def)
  have world [simp]: "seq_generations sample_world = 0" "seq_events sample_world = 0"
    by (simp_all add: sample_world_def empty_db_def db.defs)
  have texts: "trim ''syntax error'' = ''syntax error''" "trim ''nft validation failed'' = ''nft validation failed''"
    by (rule trim_graphic; simp add: ascii_graphic_def)+
  have "path_parent ''/run/edge-router/generated.nft'' = Some ''/run/edge-router''"
    by (simp add: path_parent_def dir_part_def)
  then show ?thesis
    using script_not_blank [OF script]
    by (simp add: reconcile_def core_step_def eff_map_err_def eff_bind_def eff_catch_def ms script lift_render_def plan
        plan_is_empty_def record_generation_def record_event_def record_failure_def write_stage_def check_stage_def
        atomic_write_def create_dir_all_def open_truncate_def write_all_def sync_all_def fs_rename_def open_read_def
        fs_call_def fresh_uuid_def check_file_def nft_run_def command_def now_utc_def query_def
        insert_generation_row_def insert_event_row_def format_time_def format_optional_time_def
        error_message_def is_success_def texts i64_max_def Let_def)
qed

theorem reconcile_failure_recorded_witness:
  "\<exists>t script ev. reconcile broken_nft_env sample_reconciler sample_config reconcile_options_default sample_world =
       (Inl (Fail (RNftValidation ''syntax error'')), t) \<and>
     gen_log t = [(''rendered'', script, None), (''failed'', script, Some ''syntax error'')] \<and>
     event_log t = [(''error'', ev, Some ''syntax error'')]"
proof -
  obtain t where run: "reconcile broken_nft_env sample_reconciler sample_config reconcile_options_default sample_world =
     (Inl (Fail (RNftValidation ''syntax error'')), t)" using broken_nft_run by blast
  have "gen_log sample_world = []" "event_log sample_world = []"
    by (simp_all add: gen_log_def event_log_def sample_world_def empty_db_def db.defs)
  with reconcile_failure_recorded [OF run] run show ?thesis by auto
qed

section \<open>Dry runs, and runs that succeed\<close>

text \<open>A dry run has no effect whatever it returns: database, files, machine and command history are as
  before. What it reports is the rendering of the stored mappings and the number of XDP entries,
  and it touches no address.\<close>

theorem reconcile_dry_run:
  assumes run: "reconcile E R cfg opts s = (r, t)" and dry: "dry_run opts"
  shows "(\<exists>n. t = s\<lparr>tick := n\<rparr>) \<and> (\<forall>rep. r = Inr rep \<longrightarrow>
    renders E cfg s (rep_nftables_config rep) \<and> rep_generation_id rep = None \<and>
    rep_added_addresses rep = [] \<and> rep_removed_addresses rep = [] \<and>
    (\<exists>ms plan. fst (list_mappings E s) = Inr ms \<and> xdp_plan_of E (opt_xdp opts) ms cfg = Inr plan \<and>
       rep_xdp_plan_entries rep = length (plan_entries plan)))"
proof -
  have "\<exists>n. t = s\<lparr>tick := n\<rparr>" using readsD [OF dry_run_reads [OF dry] run] .
  moreover have "renders E cfg s (rep_nftables_config rep) \<and> rep_generation_id rep = None \<and>
    rep_added_addresses rep = [] \<and> rep_removed_addresses rep = [] \<and>
    (\<exists>ms plan. fst (list_mappings E s) = Inr ms \<and> xdp_plan_of E (opt_xdp opts) ms cfg = Inr plan \<and>
       rep_xdp_plan_entries rep = length (plan_entries plan))" if "r = Inr rep" for rep
    using run dry that unfolding reconcile_def
    by (auto simp: eff_bind_eq_Inr lift_render_def renders_def elim!: core_step_cases)
  ultimately show ?thesis by blast
qed

theorem reconcile_dry_run_witness:
  "\<exists>rep n. reconcile sample_host_env sample_reconciler sample_config
       (reconcile_options_default\<lparr>dry_run := True\<rparr>) shared_world = (Inr rep, shared_world\<lparr>tick := n\<rparr>) \<and>
     renders sample_host_env sample_config shared_world (rep_nftables_config rep)"
proof -
  let ?o = "reconcile_options_default\<lparr>dry_run := True\<rparr>"
  have "xdp_validate_config (opt_xdp ?o) = Inr ()" "filter is_xdp [sample_tcp, udp_off] = []"
    by (simp_all add: reconcile_options_default_def xdp_config_disabled_def xdp_validate_config_def is_xdp_def
        udp_off_def sample_defs)
  moreover have "seq_generations shared_world + 3 \<le> i64_max"
    "seq_events shared_world + int (length [sample_tcp, udp_off]) + 1 \<le> i64_max"
    by (simp_all add: shared_world_def sample_world_def empty_db_def db.defs i64_max_def)
  ultimately obtain rep t where run:
      "reconcile sample_host_env sample_reconciler sample_config ?o shared_world = (Inr rep, t)"
    using reconcile_total [OF sample_host_works shared_invar shared_listed shared_valid] by blast
  have "dry_run ?o" by simp
  from reconcile_dry_run [OF run this] run show ?thesis by auto
qed

text \<open>C20. Reconciling succeeds when nothing outside fails: if no statement, file operation or command fails, times
  can be written, the stored rows decode, \<open>validate_mappings\<close> accepts what they decode to, the XDP
  configuration is valid, no enabled mapping asks for XDP, and the sequences have room for three
  generations and one event per mapping and one more, then \<open>reconcile\<close> returns a report. Targets
  that do not answer do not make it fail.\<close>

theorem reconcile_succeeds:
  assumes "all_works E" and "time_doc E" and "sql_invar E s"
    and "list_mappings E s = (Inr ms, u)" and "validate_mappings E ms cfg = Inr ()"
    and "xdp_validate_config (opt_xdp opts) = Inr ()" and "\<forall>m\<in>set ms. \<not> is_xdp m"
    and "seq_generations s + 3 \<le> i64_max" and "seq_events s + int (length ms) + 1 \<le> i64_max"
  shows "\<exists>rep t. reconcile E R cfg opts s = (Inr rep, t)"
  using assms by (intro reconcile_total) (auto simp: filter_empty_conv)

theorem reconcile_succeeds_witness:
  "\<exists>rep t. reconcile sample_host_env sample_reconciler sample_config reconcile_options_default shared_world = (Inr rep, t)"
proof (rule reconcile_succeeds [OF sample_host_works shared_invar shared_listed shared_valid])
  show "xdp_validate_config (opt_xdp reconcile_options_default) = Inr ()"
    by (simp add: reconcile_options_default_def xdp_config_disabled_def xdp_validate_config_def)
  show "\<forall>m\<in>set [sample_tcp, udp_off]. \<not> is_xdp m" by (simp add: is_xdp_def udp_off_def sample_defs)
  show "seq_generations shared_world + 3 \<le> i64_max"
    "seq_events shared_world + int (length [sample_tcp, udp_off]) + 1 \<le> i64_max"
    by (simp_all add: shared_world_def sample_world_def empty_db_def db.defs i64_max_def)
qed

section \<open>Addresses of the interface\<close>

lemma eff_map_err_Inr [simp]: "eff_map_err g m s = (Inr x, t) \<longleftrightarrow> m s = (Inr x, t)"
  by (cases "m s"; cases "fst (m s)") (auto simp: eff_map_err_def)

lemma core_step_Inr [simp]: "core_step m s = (Inr x, t) \<longleftrightarrow> m s = (Inr x, t)"
  by (simp add: core_step_def)

lemma address_loop:
  assumes tool: "ip_tool E (rc_linux R) addrs"
    and run: "eff_foldM (address_step E R cfg) ms acc s = (Inr acc', t)"
  shows "addrs (hstate t) = (addrs (hstate s))(wan_interface cfg :=
    apply_addresses (map (\<lambda>m. (enabled m, edge_private_ip m)) (filter (\<lambda>m. m_backend m = Nft) ms))
      (addrs (hstate s) (wan_interface cfg)))"
proof (rule addr_manager.loop_ok [OF ip_tool.manages [OF tool], where step = "address_step E R cfg" and acc = acc])
  fix m acc acc' s t
  assume "address_step E R cfg m acc s = (Inr acc', t)"
  then show "if m_backend m = Nft
      then \<exists>changed. (if enabled m then ensure_addr E (rc_linux R) (wan_interface cfg) (edge_private_ip m)
             else delete_addr_if_present E (rc_linux R) (wan_interface cfg) (edge_private_ip m)) s = (Inr changed, t)
      else t = s"
    by (auto simp: address_step_def eff_bind_eq_Inr split: if_splits prod.splits elim!: eff_map_err_cases)
qed (rule run)

text \<open>\<open>nft\<close> does not manage addresses.\<close>

definition nft_keeps_addresses :: "('h, 'e) host_env_scheme \<Rightarrow> nft \<Rightarrow> ('h \<Rightarrow> string \<Rightarrow> addr_set) \<Rightarrow> bool" where
  "nft_keeps_addresses E T addrs \<longleftrightarrow>
     (\<forall>n h opts path out h'. run_cmd E n h (nft_binary T) (opts @ [path]) = (out, h') \<longrightarrow>
        set opts \<subseteq> {''-c'', ''-f''} \<longrightarrow> addrs h' = addrs h)"

lemma nft_run_addresses:
  fixes s :: "('h, 'w) world_scheme"
  assumes "nft_run E T args path s = (r, t)" "nft_keeps_addresses E T addrs" "set args \<subseteq> {[], ''-c'', ''-f''}"
  shows "addrs (hstate t) = addrs (hstate s)"
proof -
  let ?args = "filter (\<lambda>a. a \<noteq> []) args"
  obtain out h where c: "run_cmd E (tick s) (hstate s) (nft_binary T) (?args @ [path]) = (out, h)" by force
  then have "hstate t = h"
    using assms(1) by (auto simp: nft_run_def command_def eff_bind_def split: cmd_outcome.splits)
  moreover have "set ?args \<subseteq> {''-c'', ''-f''}" using assms(3) by auto
  ultimately show ?thesis using assms(2) c unfolding nft_keeps_addresses_def by blast
qed

lemma write_stage_hstate: "write_stage E opts script s = (r, t) \<Longrightarrow> hstate t = hstate s"
  by (rule write_stage_effect(2))

lemma check_stage_addresses:
  fixes s :: "('h, 'w) world_scheme"
  assumes "check_stage E R opts script s = (Inr x, t)" "nft_keeps_addresses E (rc_nft R) addrs"
  shows "addrs (hstate t) = addrs (hstate s)"
proof -
  from assms(1) obtain c u g where c: "check_file E (rc_nft R) (nft_output opts) s = (Inr c, u)"
    and g: "record_generation E GValidated script None None u = (Inr g, t)"
    by (auto simp: check_stage_def eff_bind_eq_Inr Let_def split: if_splits)
  have "db.more t = db.more u" using record_generation_effect [OF g] by blast
  then have "hstate t = hstate u" by (rule more_host)
  with nft_run_addresses [OF c [unfolded check_file_def] assms(2)] show ?thesis by simp
qed

lemma apply_stage_addresses:
  fixes s :: "('h, 'w) world_scheme"
  assumes "apply_stage E R opts script s = (Inr x, t)" "nft_keeps_addresses E (rc_nft R) addrs"
  shows "addrs (hstate t) = addrs (hstate s)"
proof (cases "apply_nft opts")
  case True
  with assms(1) obtain c where "apply_file E (rc_nft R) (nft_output opts) s = (Inr c, t)"
    by (auto simp: apply_stage_def eff_bind_eq_Inr Let_def split: if_splits)
  from nft_run_addresses [OF this [unfolded apply_file_def] assms(2)] show ?thesis by simp
qed (use assms(1) in \<open>simp add: apply_stage_def\<close>)

lemma find_map_option: "find P (map f xs) = map_option f (find (\<lambda>x. P (f x)) xs)"
  by (induction xs) auto

lemma reconciled_addresses:
  assumes tool: "ip_tool E (rc_linux R) addrs" and nft: "nft_keeps_addresses E (rc_nft R) addrs"
    and run: "reconcile E R cfg opts s = (Inr rep, t)" and real: "\<not> dry_run opts" "apply_linux opts"
  shows "\<exists>ms. fst (list_mappings E s) = Inr ms \<and>
    (\<forall>iface. iface \<noteq> wan_interface cfg \<longrightarrow> addrs (hstate t) iface = addrs (hstate s) iface) \<and>
    (\<forall>a p. p \<noteq> 32 \<longrightarrow> ((a, p) \<in> addrs (hstate t) (wan_interface cfg) \<longleftrightarrow> (a, p) \<in> addrs (hstate s) (wan_interface cfg))) \<and>
    (\<forall>a. case find (\<lambda>m. edge_private_ip m = a) (rev (filter (\<lambda>m. m_backend m = Nft) ms)) of
       None \<Rightarrow> (a, 32) \<in> addrs (hstate t) (wan_interface cfg) \<longleftrightarrow> (a, 32) \<in> addrs (hstate s) (wan_interface cfg)
     | Some m \<Rightarrow> if enabled m then has_addr (addrs (hstate t) (wan_interface cfg)) a
                 else (a, 32) \<notin> addrs (hstate t) (wan_interface cfg))"
proof -
  from run real obtain ms script g u0 u1 u2 u3 u4 u5 acc i where
      ms: "list_mappings E s = (Inr ms, u0)"
    and g: "record_generation E GRendered script None None u0 = (Inr g, u1)"
    and w: "write_stage E opts script u1 = (Inr (), u2)" and c: "check_stage E R opts script u2 = (Inr (), u3)"
    and a: "apply_stage E R opts script u3 = (Inr (), u4)" and l: "linux_stage E R cfg opts ms u4 = (Inr acc, u5)"
    and f: "finish_stage E opts ms script g u5 = (Inr i, t)"
    unfolding reconcile_def by (auto simp: eff_bind_eq_Inr split: if_splits prod.splits)
  have "db.more u1 = db.more u0" "db.more t = db.more u5"
    using record_generation_effect [OF g] finish_stage_effect [OF f] by blast+
  then have "hstate u1 = hstate u0" "hstate t = hstate u5" by (auto dest: more_host)
  moreover have "hstate u0 = hstate s" using readsD [OF reads_lists(1) ms] by auto
  ultimately have pre: "addrs (hstate u4) = addrs (hstate s)" "hstate t = hstate u5"
    using write_stage_hstate [OF w] check_stage_addresses [OF c nft] apply_stage_addresses [OF a nft] by simp_all
  have "eff_foldM (address_step E R cfg) ms ([], []) u4 = (Inr acc, u5)"
    using l real by (simp add: linux_stage_def)
  note fin = address_loop [OF tool this]
  let ?qs = "map (\<lambda>m. (enabled m, edge_private_ip m)) (filter (\<lambda>m. m_backend m = Nft) ms)"
  have "find (\<lambda>q. snd q = a) (rev ?qs) =
      map_option (\<lambda>m. (enabled m, edge_private_ip m)) (find (\<lambda>m. edge_private_ip m = a) (rev (filter (\<lambda>m. m_backend m = Nft) ms)))" for a
    by (simp add: rev_map find_map_option)
  then have "case find (\<lambda>m. edge_private_ip m = a) (rev (filter (\<lambda>m. m_backend m = Nft) ms)) of
       None \<Rightarrow> (a, 32) \<in> addrs (hstate t) (wan_interface cfg) \<longleftrightarrow> (a, 32) \<in> addrs (hstate s) (wan_interface cfg)
     | Some m \<Rightarrow> if enabled m then has_addr (addrs (hstate t) (wan_interface cfg)) a
                 else (a, 32) \<notin> addrs (hstate t) (wan_interface cfg)" for a
    using fin pre apply_addresses_last [of a ?qs "addrs (hstate s) (wan_interface cfg)"]
    by (auto split: option.splits if_splits)
  moreover have "(a, p) \<in> addrs (hstate t) (wan_interface cfg) \<longleftrightarrow> (a, p) \<in> addrs (hstate s) (wan_interface cfg)"
    if "p \<noteq> 32" for a p
    using fin pre apply_addresses_other [OF that] by simp
  ultimately show ?thesis using fin pre ms by (intro exI [of _ ms]) auto
qed

text \<open>C17. Which addresses a reconciliation leaves on the interface: if \<open>ip\<close> and \<open>nft\<close> behave as documented and a
  reconciliation that is not a dry run and manages addresses returns a report, then for every address the last stored
  nft mapping with that private address decides: if it is enabled, the address is on the WAN interface; if it is
  disabled, its host address is not. An address of no nft mapping, an address with another prefix
  length than 32 and every other interface are as before.\<close>

theorem reconcile_addresses:
  assumes tool: "ip_tool E (rc_linux R) addrs" and nft: "nft_keeps_addresses E (rc_nft R) addrs"
    and run: "reconcile E R cfg opts s = (Inr rep, t)" and real: "\<not> dry_run opts" "apply_linux opts"
  shows "\<exists>ms. fst (list_mappings E s) = Inr ms \<and>
    (\<forall>iface. iface \<noteq> wan_interface cfg \<longrightarrow> addrs (hstate t) iface = addrs (hstate s) iface) \<and>
    (\<forall>a p. p \<noteq> 32 \<longrightarrow> ((a, p) \<in> addrs (hstate t) (wan_interface cfg) \<longleftrightarrow> (a, p) \<in> addrs (hstate s) (wan_interface cfg))) \<and>
    (\<forall>a. case find (\<lambda>m. edge_private_ip m = a) (rev (filter (\<lambda>m. m_backend m = Nft) ms)) of
       None \<Rightarrow> (a, 32) \<in> addrs (hstate t) (wan_interface cfg) \<longleftrightarrow> (a, 32) \<in> addrs (hstate s) (wan_interface cfg)
     | Some m \<Rightarrow> if enabled m then has_addr (addrs (hstate t) (wan_interface cfg)) a
                 else (a, 32) \<notin> addrs (hstate t) (wan_interface cfg))"
  using assms by (rule reconciled_addresses)

lemma sample_host_nft: "nft_keeps_addresses sample_host_env (rc_nft sample_reconciler) sample_host_addrs"
proof -
  have "sample_host_addrs h' = sample_host_addrs h"
    if "sample_host_run n h prog (opts @ [path]) = (out, h')" and opts: "set opts \<subseteq> {''-c'', ''-f''}"
    for n h prog opts path out h'
  proof (cases "length opts = 4")
    case True
    then obtain a b c d where abcd: "opts = [a, b, c, d]" by (auto simp: length_Suc_conv numeral_eq_Suc)
    have "b \<noteq> ''addr''" "parse_ipv4 (takeWhile (\<lambda>x. x \<noteq> CHR ''/'') c) = None"
      using opts by (auto simp: abcd parse_ipv4_def)
    with that(1) show ?thesis by (simp add: sample_host_run_def abcd)
  qed (use that(1) in \<open>auto simp: sample_host_run_def split: list.splits\<close>)
  then show ?thesis unfolding nft_keeps_addresses_def by auto
qed

theorem reconcile_addresses_witness:
  "\<exists>rep t. reconcile sample_host_env sample_reconciler sample_config reconcile_options_default shared_world = (Inr rep, t) \<and>
     (Ipv4Addr 10 0 0 5, 32) \<in> sample_host_addrs (hstate t) ''ens3'' \<and>
     (Ipv4Addr 10 0 0 101, 32) \<notin> sample_host_addrs (hstate t) ''ens3''"
proof -
  let ?find = "\<lambda>a. find (\<lambda>m. edge_private_ip m = a) (rev (filter (\<lambda>m. m_backend m = Nft) [sample_tcp, udp_off]))"
  obtain rep t where run: "reconcile sample_host_env sample_reconciler sample_config reconcile_options_default
      shared_world = (Inr rep, t)" using shared_reconciles by blast
  have tool: "ip_tool sample_host_env (rc_linux sample_reconciler) sample_host_addrs"
    using sample_host.ip_tool_axioms by (simp add: sample_reconciler_def)
  have wan: "wan_interface sample_config = ''ens3''" by (simp add: sample_defs)
  have find: "?find (Ipv4Addr 10 0 0 5) = None" "?find (Ipv4Addr 10 0 0 101) = Some udp_off" "\<not> enabled udp_off"
    by (simp_all add: udp_off_def sample_defs)
  have "(Ipv4Addr 10 0 0 5, 32) \<in> sample_host_addrs (hstate shared_world) ''ens3''"
    by (simp add: shared_world_def sample_world_def sample_host_addrs_def db.defs)
  moreover obtain ms where ms: "fst (list_mappings sample_host_env shared_world) = Inr ms"
    and addrs: "\<forall>a. case find (\<lambda>m. edge_private_ip m = a) (rev (filter (\<lambda>m. m_backend m = Nft) ms)) of
       None \<Rightarrow> (a, 32) \<in> sample_host_addrs (hstate t) (wan_interface sample_config) \<longleftrightarrow>
         (a, 32) \<in> sample_host_addrs (hstate shared_world) (wan_interface sample_config)
     | Some m \<Rightarrow> if enabled m then has_addr (sample_host_addrs (hstate t) (wan_interface sample_config)) a
                 else (a, 32) \<notin> sample_host_addrs (hstate t) (wan_interface sample_config)"
    using reconcile_addresses [OF tool sample_host_nft run default_options_simps(2,4)] by blast
  have "ms = [sample_tcp, udp_off]" using ms shared_listed by simp
  with spec [OF addrs, of "Ipv4Addr 10 0 0 5"] spec [OF addrs, of "Ipv4Addr 10 0 0 101"] find
  have "(Ipv4Addr 10 0 0 5, 32) \<in> sample_host_addrs (hstate t) ''ens3'' \<longleftrightarrow>
      (Ipv4Addr 10 0 0 5, 32) \<in> sample_host_addrs (hstate shared_world) ''ens3''"
    "(Ipv4Addr 10 0 0 101, 32) \<notin> sample_host_addrs (hstate t) ''ens3''" by (simp_all only: wan option.case if_False not_False_eq_True)
  ultimately show ?thesis using run by blast
qed

text \<open>A shared private address can be lost: two port forwards on one private address, the later of them
  disabled, are accepted by \<open>validate_mappings\<close>, a reconciliation with the default options succeeds
  and records its script as active, in which the enabled one has its rule, and yet the private
  address the rule matches is no longer on the WAN interface.\<close>

theorem shared_address_lost:
  "\<exists>rep t script. validate_mappings sample_host_env [sample_tcp, udp_off] sample_config = Inr () \<and>
     enabled sample_tcp \<and> edge_private_ip sample_tcp = Ipv4Addr 10 0 0 101 \<and>
     reconcile sample_host_env sample_reconciler sample_config reconcile_options_default shared_world = (Inr rep, t) \<and>
     last (gen_log t) = (''active'', script, None) \<and>
     render_nftables sample_host_env [sample_tcp, udp_off] sample_config default_table_name = Inr script \<and>
     (Ipv4Addr 10 0 0 101, 32) \<notin> sample_host_addrs (hstate t) (wan_interface sample_config)"
proof -
  obtain rep t where run: "reconcile sample_host_env sample_reconciler sample_config reconcile_options_default
      shared_world = (Inr rep, t)" using shared_reconciles by blast
  have tool: "ip_tool sample_host_env (rc_linux sample_reconciler) sample_host_addrs"
    using sample_host.ip_tool_axioms by (simp add: sample_reconciler_def)
  have tcp: "enabled sample_tcp" "edge_private_ip sample_tcp = Ipv4Addr 10 0 0 101" by (simp_all add: sample_defs)
  have "find (\<lambda>m. edge_private_ip m = Ipv4Addr 10 0 0 101) (rev (filter (\<lambda>m. m_backend m = Nft) [sample_tcp, udp_off])) =
      Some udp_off" by (simp add: udp_off_def sample_defs)
  moreover obtain ms where "fst (list_mappings sample_host_env shared_world) = Inr ms"
    "\<forall>a. case find (\<lambda>m. edge_private_ip m = a) (rev (filter (\<lambda>m. m_backend m = Nft) ms)) of
       None \<Rightarrow> (a, 32) \<in> sample_host_addrs (hstate t) (wan_interface sample_config) \<longleftrightarrow>
         (a, 32) \<in> sample_host_addrs (hstate shared_world) (wan_interface sample_config)
     | Some m \<Rightarrow> if enabled m then has_addr (sample_host_addrs (hstate t) (wan_interface sample_config)) a
                 else (a, 32) \<notin> sample_host_addrs (hstate t) (wan_interface sample_config)"
    using reconciled_addresses [OF tool sample_host_nft run default_options_simps(2,4)] by blast
  moreover have "\<not> enabled udp_off" by (simp add: udp_off_def)
  ultimately have lost: "(Ipv4Addr 10 0 0 101, 32) \<notin> sample_host_addrs (hstate t) (wan_interface sample_config)"
    using shared_listed by (auto dest!: spec [of _ "Ipv4Addr 10 0 0 101"])
  from reconcile_follows_course [OF run] obtain script log cmds where
    c: "reconcile_course sample_reconciler reconcile_options_default script log cmds True"
    "log \<noteq> [] \<longrightarrow> renders sample_host_env sample_config shared_world script"
    "gen_log t = gen_log shared_world @ log" by auto
  have "log \<noteq> [] \<and> last log = (''active'', script, None)"
    using c(1) by (rule reconcile_course_success) (simp_all add: gen_entry_def full_apply_def)
  with c(2,3) have "last (gen_log t) = (''active'', script, None)"
    "render_nftables sample_host_env [sample_tcp, udp_off] sample_config default_table_name = Inr script"
    using shared_listed by (simp_all add: renders_def)
  with shared_valid tcp run lost show ?thesis by blast
qed

section \<open>Rollback\<close>

text \<open>What is left of a rollback once the file is written, with the file as \<open>nft\<close> reads it.\<close>

lemma event_step_same:
  fixes s :: "('h, 'w) world_scheme"
  assumes "eff_bind (core_step (record_event E l msg d)) k s = (r, t)" "\<And>x u. snd (k x u) = u"
  shows "trace t = trace s" "files t = files s" "gen_log t = gen_log s"
proof -
  from assms obtain r' where rec: "record_event E l msg d s = (r', t)"
    by (auto elim!: eff_bind_cases core_step_cases) (metis snd_conv)+
  have "db.more t = db.more s" using record_event_effect [OF rec] by blast
  from more_host [OF this] record_event_effect [OF rec]
  show "trace t = trace s" "files t = files s" "gen_log t = gen_log s" by blast+
qed

definition rolled_back :: "reconciler \<Rightarrow> string \<Rightarrow> string \<Rightarrow> ('h, 'w) world_scheme \<Rightarrow> bool \<Rightarrow> ('h, 'w) world_scheme \<Rightarrow> bool" where
  "rolled_back R path script s success t \<longleftrightarrow> gen_log t = gen_log s \<and>
     (trace t = trace s \<and> \<not> success \<or>
      (\<exists>f oc. f path = Some script \<and>
        (trace t = trace s @ [nft_check_cmd R path f oc] \<and> \<not> cmd_ok oc \<and> \<not> success \<or>
         cmd_ok oc \<and> (\<exists>oa. trace t = trace s @ [nft_check_cmd R path f oc, nft_apply_cmd R path f oa] \<and>
           (success \<longrightarrow> cmd_ok oa \<and> files t path = Some script)))))"

lemma rollback_checked:
  fixes s :: "('h, 'w) world_scheme"
  assumes run: "eff_bind (eff_map_err (\<lambda>e. Fail (RNft e)) (check_file E (rc_nft R) path)) (\<lambda>check.
     if \<not> is_success (nc_status check)
     then let message = error_message (nc_status check) (nc_stderr check)
          in eff_bind (core_step (record_event E EvError ''rollback nft validation failed'' (Some message))) (\<lambda>_.
             eff_err (Fail (RNftValidation message)))
     else
       eff_bind (eff_map_err (\<lambda>e. Fail (RNft e)) (apply_file E (rc_nft R) path)) (\<lambda>applied.
       if \<not> is_success (nc_status applied)
       then let message = error_message (nc_status applied) (nc_stderr applied)
            in eff_bind (core_step (record_event E EvError ''rollback nft apply failed'' (Some message))) (\<lambda>_.
               eff_err (Fail (RNftApply message)))
       else eff_bind (core_step (record_event E EvWarn ''rollback applied'' d)) (\<lambda>_. eff_ret ()))) s = (r, t)"
    and script: "files s path = Some script"
  shows "rolled_back R path script s (res_ok r) t"
  using run
proof (cases rule: eff_bind_cases)
  case (error e)
  with nft_map_err_ran [OF error(1) check_file_ran] script show ?thesis
    by (auto simp: rolled_back_def nft_ran_def same_history_def)
next
  case (ok c u)
  from nft_map_err_ran [OF ok(1) check_file_ran] obtain oc where
    u: "trace u = trace s @ [nft_check_cmd R path (files s) oc]" "files u = files s" "gen_log u = gen_log s"
      "cmd_ok oc \<longleftrightarrow> is_success (nc_status c)" by (auto simp: nft_ran_def same_history_def)
  show ?thesis
  proof (cases "is_success (nc_status c)")
    case False
    let ?m = "error_message (nc_status c) (nc_stderr c)"
    from ok(2) False have ev: "eff_bind (core_step (record_event E EvError ''rollback nft validation failed'' (Some ?m)))
        (\<lambda>_. eff_err (Fail (RNftValidation ?m))) u = (r, t)" by (simp add: Let_def)
    have "\<not> res_ok r" using ev by (auto elim!: eff_bind_cases)
    with event_step_same [OF ev] u False script show ?thesis by (auto simp: rolled_back_def)
  next
    case True
    from ok(2) True have rest: "eff_bind (eff_map_err (\<lambda>e. Fail (RNft e)) (apply_file E (rc_nft R) path)) (\<lambda>applied.
       if \<not> is_success (nc_status applied)
       then let message = error_message (nc_status applied) (nc_stderr applied)
            in eff_bind (core_step (record_event E EvError ''rollback nft apply failed'' (Some message))) (\<lambda>_.
               eff_err (Fail (RNftApply message)))
       else eff_bind (core_step (record_event E EvWarn ''rollback applied'' d)) (\<lambda>_. eff_ret ())) u = (r, t)" by simp
    then show ?thesis
    proof (cases rule: eff_bind_cases)
      case (error e)
      with nft_map_err_ran [OF error(1) apply_file_ran] script u True show ?thesis
        by (auto simp: rolled_back_def nft_ran_def same_history_def)
    next
      case (ok a v)
      from nft_map_err_ran [OF ok(1) apply_file_ran] obtain oa where
        v: "trace v = trace u @ [nft_apply_cmd R path (files s) oa]" "files v = files s" "gen_log v = gen_log u"
          "cmd_ok oa \<longleftrightarrow> is_success (nc_status a)" using u(2) by (auto simp: nft_ran_def same_history_def)
      have "trace t = trace v \<and> files t = files v \<and> gen_log t = gen_log v \<and> (res_ok r \<longrightarrow> is_success (nc_status a))"
      proof (cases "is_success (nc_status a)")
        case True
        with ok(2) have "eff_bind (core_step (record_event E EvWarn ''rollback applied'' d)) (\<lambda>_. eff_ret ()) v = (r, t)"
          by simp
        from event_step_same [OF this] True show ?thesis by simp
      next
        case False
        let ?m = "error_message (nc_status a) (nc_stderr a)"
        from ok(2) False have ev: "eff_bind (core_step (record_event E EvError ''rollback nft apply failed'' (Some ?m)))
            (\<lambda>_. eff_err (Fail (RNftApply ?m))) v = (r, t)" by (simp add: Let_def)
        have "\<not> res_ok r" using ev by (auto elim!: eff_bind_cases)
        with event_step_same [OF ev] show ?thesis by simp
      qed
      with u v True script show ?thesis by (auto simp: rolled_back_def)
    qed
  qed
qed

text \<open>C21. Rolling back installs exactly a stored script: if \<open>rollback\<close> succeeds, the output file holds the text
  recorded for that generation, \<open>nft\<close> was run twice and succeeded on it, first checking and then
  applying it, and the history of generations is as before. Whatever happens, nothing is applied
  unless its check succeeded.\<close>

theorem rollback_restores:
  assumes run: "rollback E R i path s = (r, t)"
  shows "gen_log t = gen_log s \<and>
    (r = Inr () \<longrightarrow> (\<exists>g f oc oa. fst (get_generation E i s) = Inr g \<and> files t path = Some (nftables_config g) \<and>
       f path = Some (nftables_config g) \<and> cmd_ok oc \<and> cmd_ok oa \<and>
       trace t = trace s @ [nft_check_cmd R path f oc, nft_apply_cmd R path f oa])) \<and>
    (\<exists>cmds. trace t = trace s @ cmds \<and> (\<forall>i < length cmds. i > 0 \<longrightarrow>
       (\<exists>f oc. cmd_ok oc \<and> cmds ! 0 = nft_check_cmd R path f oc)))"
proof -
  have base: ?thesis if "trace t = trace s" "gen_log t = gen_log s" "r \<noteq> Inr ()" using that by auto
  show ?thesis
    using run unfolding rollback_def
  proof (cases rule: eff_bind_cases)
    case (error e)
    then obtain c where "get_generation E i s = (Inl c, t)" by (auto elim: core_step_cases)
    from readsD [OF reads_lists(3) this] error(2) show ?thesis by (intro base) auto
  next
    case (ok g u)
    then have g: "get_generation E i s = (Inr g, u)" by simp
    obtain n where u: "u = s\<lparr>tick := n\<rparr>" using readsD [OF reads_lists(3) g] by blast
    from ok(2) show ?thesis
    proof (cases rule: eff_bind_cases)
      case (error e)
      obtain r' where "atomic_write E path (nftables_config g) u = (r', t)"
        using error(1) by (rule eff_map_err_cases)
      then obtain tmp where "touches {path, tmp} u t" by (rule atomic_write_cases)
      with touches_host [OF this] touches_logs [OF this] error(2) u show ?thesis by (intro base) simp_all
    next
      case written: (ok x v)
      then have w: "atomic_write E path (nftables_config g) u = (Inr x, v)" by simp
      obtain tmp where tch: "touches {path, tmp} u v" and script: "files v path = Some (nftables_config g)"
        using atomic_write_cases [OF w] by (metis old.unit.exhaust)
      from rollback_checked [OF written(2) script] have "rolled_back R path (nftables_config g) v (res_ok r) t" .
      moreover have "trace v = trace s" "gen_log v = gen_log s"
        using touches_host [OF tch] touches_logs [OF tch] u by simp_all
      ultimately show ?thesis using g by (auto simp: rolled_back_def less_Suc_eq) blast+
    qed
  qed
qed

definition history_world :: "(string \<Rightarrow> ipv4_addr list) world" where
  "history_world = sample_world\<lparr>t_generations := [\<lparr>gr_id = 1, gr_status = generation_wire GActive,
     gr_nftables_config = ''table ip edge_nat'', gr_created_at = sample_time_text 0, gr_applied_at = None, gr_error = None\<rparr>]\<rparr>"

theorem rollback_restores_witness:
  "\<exists>t. rollback sample_host_env sample_reconciler 1 ''/run/edge-router/generated.nft'' history_world = (Inr (), t) \<and>
     files t ''/run/edge-router/generated.nft'' = Some ''table ip edge_nat'' \<and> gen_log t = gen_log history_world"
proof -
  let ?p = "''/run/edge-router/generated.nft''"
  have "parse_time sample_host_env (sample_time_text 0) = Inr 0"
    by (rule parse_format_time [OF sample_host_works(2)]) (simp add: format_time_def)
  then have get: "get_generation sample_host_env 1 history_world =
      (Inr \<lparr>g_id = 1, g_status = GActive, nftables_config = ''table ip edge_nat'', g_created_at = 0,
        applied_at = None, g_error = None\<rparr>, history_world\<lparr>tick := Suc (tick history_world)\<rparr>)"
    using enum_from_string_wire(5) [of sample_host_env GActive]
    by (simp add: get_generation_def select_ok eff_bind_def history_world_def row_to_generation_def
        parse_optional_time_def)
  have texts: "trim ''rollback applied'' = ''rollback applied''"
    by (rule trim_graphic; simp add: ascii_graphic_def)
  have world [simp]: "seq_events history_world = 0" by (simp add: history_world_def sample_world_def empty_db_def db.defs)
  have "path_parent ?p = Some ''/run/edge-router''" by (simp add: path_parent_def dir_part_def)
  then obtain t where run: "rollback sample_host_env sample_reconciler 1 ?p history_world = (Inr (), t)"
    by (simp add: rollback_def core_step_def eff_map_err_def eff_bind_def eff_catch_def get
        record_event_def atomic_write_def create_dir_all_def open_truncate_def write_all_def sync_all_def fs_rename_def
        open_read_def fs_call_def fresh_uuid_def check_file_def apply_file_def nft_run_def command_def now_utc_def query_def
        insert_event_row_def format_time_def is_success_def sample_host_run_def texts i64_max_def Let_def)
  from rollback_restores [OF run] get run show ?thesis by auto
qed

end
