(* ===== verification/Agent_Invariant.thy ===== *)
theory Agent_Invariant
  imports Agent_Oci Reconcile_Safety
begin

text \<open>
  What the agent's requests keep. \<open>reconcile_invariant\<close> collects what a predicate on the state needs to
  survive a reconciliation, \<open>api_invariant\<close> what it needs to survive every request; both are
  interpreted for the reachability of the mapping table, which gives the safety of the stored
  mappings after any sequence of requests, and the first also for the identifiers in the table,
  which gives what deleting a mapping does.
\<close>

section \<open>Predicates on the mapping table\<close>

locale reconcile_invariant =
  fixes P :: "('h, 'w) world_scheme \<Rightarrow> bool" and E :: "('h, 'e) host_env_scheme"
  assumes tables: "t_mappings t = t_mappings s \<Longrightarrow> P s \<Longrightarrow> P t"
    and health: "keeps P (set_mapping_health E i st h e)"
begin

lemma keeps_same: "(\<And>s. t_mappings (snd (m s)) = t_mappings s) \<Longrightarrow> keeps P m"
  by (rule keepsI) (use tables in blast)

lemma keeps_query_other:
  "keeps P (query E (insert_generation_row g))" "keeps P (query E (insert_event_row ev))"
  by (rule keeps_same; auto simp: query_def Let_def insert_generation_row_def insert_event_row_def
      split: option.splits sum.splits if_splits)+

lemma keeps_read: "reads m \<Longrightarrow> keeps P m"
proof (rule keeps_same)
  fix s
  assume "reads m"
  from readsD [OF this, of s "fst (m s)" "snd (m s)"] show "t_mappings (snd (m s)) = t_mappings s" by auto
qed

lemma keeps_records:
  "keeps P (record_generation E gs config ap err)" "keeps P (record_event E lv msg dt)"
  unfolding record_generation_def record_event_def Let_def
  by (intro keeps_bind keeps_if keeps_err keeps_ret keeps_lift keeps_query_other keeps_read reads_intros)+

lemma keeps_host:
  "keeps P (command E prog args)" "keeps P (connect E ip port)" "keeps P (fs_call E full partly)"
  "keeps P (now_utc E)" "keeps P (fresh_uuid E)"
  by (rule keeps_same; simp add: command_def connect_def fs_call_def now_utc_def fresh_uuid_def Let_def
      split: prod.splits option.splits)+

lemma keeps_outcome:
  "keeps P a \<Longrightarrow> (\<And>m. keeps P (b m)) \<Longrightarrow> (\<And>x y z. keeps P (c x y z)) \<Longrightarrow>
     keeps P (case out of TimedOut \<Rightarrow> a | SpawnFailed m \<Rightarrow> b m | Exited x y z \<Rightarrow> c x y z)"
  by (cases out) simp_all

lemma keeps_connected:
  "keeps P a \<Longrightarrow> (\<And>m. keeps P (b m)) \<Longrightarrow> keeps P c \<Longrightarrow>
     keeps P (case out of ConnectTimeout \<Rightarrow> a | ConnectFailed m \<Rightarrow> b m | Connected \<Rightarrow> c)"
  by (cases out) simp_all

lemmas keeps_steps = keeps_intros keeps_core_step keeps_records keeps_host keeps_outcome keeps_connected health

lemma keeps_atomic_write: "keeps P (atomic_write E path bytes)"
  unfolding atomic_write_def create_dir_all_def open_read_def open_truncate_def write_all_def sync_all_def
    fs_rename_def Let_def
  by (intro keeps_steps)

lemma keeps_nft: "keeps P (check_file E T path)" "keeps P (apply_file E T path)"
  unfolding check_file_def apply_file_def nft_run_def by (intro keeps_steps)+

lemma keeps_record_failure: "keeps P (record_failure E script ev msg)"
  unfolding record_failure_def by (intro keeps_steps)

lemma keeps_stages:
  "keeps P (write_stage E opts script)" "keeps P (check_stage E R opts script)"
  "keeps P (apply_stage E R opts script)"
  unfolding write_stage_def check_stage_def apply_stage_def Let_def
  by (intro keeps_steps keeps_atomic_write keeps_nft keeps_record_failure)+

lemma keeps_linux_stage: "keeps P (linux_stage E R cfg opts ms)"
  unfolding linux_stage_def address_step_def ensure_addr_def delete_addr_if_present_def
    interface_addresses_def linux_run_owned_def
  by (intro keeps_steps)

lemma keeps_finish_stage: "keeps P (finish_stage E opts ms script g)"
  unfolding finish_stage_def health_step_def health_check_def Let_def
  by (intro keeps_steps)

lemma keeps_reconcile: "keeps P (reconcile E R cfg opts)"
  unfolding reconcile_def
  by (intro keeps_steps keeps_stages keeps_linux_stage keeps_finish_stage keeps_read reads_intros)

end

section \<open>Predicates every request keeps\<close>

locale api_invariant = reconcile_invariant P E for P :: "('h, 'w) world_scheme \<Rightarrow> bool"
    and E :: "('h, 'e) oci_env_scheme" +
  assumes insertion: "keeps P (insert_mapping E m)"
    and update: "keeps P (update_mapping E m)"
    and deletion: "keeps P (delete_mapping E i)"
    and switch: "keeps P (set_mapping_enabled E i on)"
begin

lemma keeps_api_core: "keeps P m \<Longrightarrow> keeps P (api_core m)"
  unfolding api_core_def by (rule keeps_map_err)

lemma keeps_api_guards: "keeps P (api_auth H cfg hs)" "keeps P (parse_id v)" "keeps P (api_fail err)"
  unfolding api_auth_def parse_id_def api_fail_def by (intro keeps_intros)+

lemma keeps_netbird_status: "keeps P (api_netbird (nb_status E C))"
proof -
  have "keeps P (netbird_run_owned E b args)" for b args
    by (rule keeps_same) (auto simp: netbird_run_owned_def Let_def split: prod.splits sum.splits if_splits)
  then show ?thesis unfolding api_netbird_def nb_status_def by (intro keeps_intros)
qed

lemma keeps_oci_run: "keeps P (oci_run_owned E B args)"
  unfolding oci_run_owned_def by (intro keeps_steps)

lemma keeps_oci_ops:
  "keeps P (list_public_ips E B c)" "keeps P (oci_version E B)" "keeps P (delete_public_ip E B i)"
  "keeps P (delete_private_ip E B i)" "keeps P (get_vnic E B v)" "keeps P (add_nsg_rules E B nsg rules)"
  "keeps P (remove_nsg_rules E B nsg ids)" "keeps P (allocate_forwarding_ip E B c v n)"
  unfolding list_public_ips_def oci_version_def delete_public_ip_def delete_private_ip_def get_vnic_def
    add_nsg_rules_def remove_nsg_rules_def allocate_forwarding_ip_def validate_forwarding_vnic_def
    create_private_ip_def create_reserved_public_ip_def
  by (intro keeps_intros keeps_oci_run)+

lemma keeps_api_oci: "keeps P m \<Longrightarrow> keeps P (api_oci m)"
  unfolding api_oci_def by (rule keeps_map_err)

lemma keeps_drop: "keeps P m \<Longrightarrow> keeps P (drop_result m)"
  unfolding drop_result_def by (intro keeps_intros)

lemma keeps_delete_if_some: "(\<And>i. keeps P (del i)) \<Longrightarrow> keeps P (delete_if_some del v)"
  unfolding delete_if_some_def by (intro keeps_intros keeps_api_oci)

lemma keeps_map: "keeps P m \<Longrightarrow> keeps P (eff_map f m)"
  unfolding eff_map_def by (intro keeps_intros)

lemma keeps_failure_case:
  "(\<And>e. keeps P (a e)) \<Longrightarrow> (\<And>m. keeps P (b m)) \<Longrightarrow> keeps P (case f of Fail e \<Rightarrow> a e | Panic m \<Rightarrow> b m)"
  by (cases f) simp_all

lemmas keeps_api = keeps_steps keeps_api_core keeps_api_guards keeps_netbird_status keeps_oci_ops keeps_api_oci
  keeps_drop keeps_delete_if_some keeps_map keeps_failure_case keeps_reconcile insertion update deletion switch

lemma keeps_mapping_handlers:
  "keeps P (api_create_mapping E H cfg hs rq)" "keeps P (api_get_mapping E H cfg hs v)"
  "keeps P (api_delete_mapping E H cfg hs v)" "keeps P (api_set_enabled on E H cfg hs v)"
  "keeps P (api_list_mappings E H cfg hs)"
  unfolding api_create_mapping_def api_get_mapping_def api_delete_mapping_def api_set_enabled_def
    api_list_mappings_def Let_def
  by (intro keeps_api keeps_read reads_intros)+

lemma keeps_status_handlers:
  "keeps P (api_status E H cfg hs)" "keeps P (api_dry_run_apply E H cfg hs)"
  "keeps P (api_reconcile E H cfg hs rr)" "keeps P (api_netbird_status E H cfg hs)"
  "keeps P (api_netbird_networks E H cfg hs)" "keeps P (api_events E H cfg hs)"
  "keeps P (api_analytics E H cfg hs)" "keeps P (api_topology E H cfg hs)" "keeps P (api_oci_status E H cfg hs)"
  unfolding api_status_def api_dry_run_apply_def api_reconcile_def api_netbird_status_def
    api_netbird_networks_def api_events_def api_analytics_def api_topology_def api_oci_status_def Let_def
  by (intro keeps_api keeps_read reads_intros)+

lemma keeps_oci_handlers:
  "keeps P (oci_allocate E H cfg hs a)" "keeps P (oci_release E H cfg hs b)"
  "keeps P (oci_vnic_check E H cfg hs q)" "keeps P (oci_public_ips E H cfg hs q)"
  "keeps P (oci_nsg_add E H cfg hs c)" "keeps P (oci_nsg_remove E H cfg hs d)"
  unfolding oci_allocate_def store_allocation_def oci_release_def release_mapping_def oci_vnic_check_def oci_public_ips_def
    oci_nsg_add_def oci_nsg_remove_def Let_def
  by (intro keeps_api keeps_read reads_intros)+

lemma keeps_handle: "keeps P (handle E H cfg hs rq)"
  by (cases rq)
    (simp_all add: keeps_map keeps_mapping_handlers keeps_status_handlers keeps_oci_handlers
      api_enable_mapping_def api_disable_mapping_def)

end

section \<open>The mapping table\<close>

interpretation reach: api_invariant "sql_reachable :: ('h, 'w) world_scheme \<Rightarrow> bool" E
  for E :: "('h, 'e) oci_env_scheme"
proof
  fix s t :: "('h, 'w) world_scheme"
  show "t_mappings t = t_mappings s \<Longrightarrow> sql_reachable s \<Longrightarrow> sql_reachable t" using sql_other by blast
qed (rule keeps_reachable_ops keeps_reachable_insert_mapping keeps_reachable_update_mapping)+

section \<open>Deleting a mapping\<close>

interpretation ids: reconcile_invariant "\<lambda>s :: ('h, 'w) world_scheme. map r_id (t_mappings s) = ks" E
  for ks and E :: "('h, 'e) host_env_scheme"
proof
  fix i st h e
  have "map r_id (t_mappings t) = map r_id (t_mappings s)"
    if "update_mapping_row False i (assign_health a b c d f) s = Inr (n, t)"
    for i a b c d f n and s t :: "('h, 'w) world_scheme"
    using update_mapping_row_cases [OF that] by auto
  then have q: "keeps (\<lambda>s :: ('h, 'w) world_scheme. map r_id (t_mappings s) = ks)
      (query E (update_mapping_row False i (assign_health a b c d f)))" for i a b c d f
    by (intro keeps_query) (auto simp: ignores_tick_def)
  have r: "reads m \<Longrightarrow> keeps (\<lambda>s :: ('h, 'w) world_scheme. map r_id (t_mappings s) = ks) m" for m :: "(_, 'f, 'a) eff"
    by (rule keeps_reads) (auto simp: ignores_tick_def)
  show "keeps (\<lambda>s :: ('h, 'w) world_scheme. map r_id (t_mappings s) = ks) (set_mapping_health E i st h e)"
    unfolding set_mapping_health_def Let_def
    by (intro keeps_bind keeps_if keeps_ret keeps_err keeps_lift q; rule r; intro reads_intros)
qed simp

end
