(* ===== verification/Agent_Props.thy ===== *)
theory Agent_Props
  imports Agent_Invariant "HOL-Library.Multiset"
begin

text \<open>
  Properties of the agent's interface: who may call it, what any sequence of requests keeps, and what
  a deletion and an allocation do on every path.
\<close>

section \<open>Authentication\<close>

lemma require_auth_check: "require_auth = check_bearer api_unauthorized"
  by (intro ext)
    (simp add: require_auth_def check_bearer_def bearer_token_def authorization_def split: option.split)

interpretation agent: bearer_guard require_auth api_unauthorized
  unfolding require_auth_check by (rule check_bearer_guard)

text \<open>Every handler starts with the check, so a refused caller gets the refusal from each of them.\<close>

lemma handlers_denied:
  assumes denied: "require_auth H (api_token cfg) hs = Inl e"
  shows "api_status E H cfg hs = eff_err (Fail e)" "api_list_mappings E H cfg hs = eff_err (Fail e)"
    "api_create_mapping E H cfg hs rq = eff_err (Fail e)" "api_get_mapping E H cfg hs v = eff_err (Fail e)"
    "api_delete_mapping E H cfg hs v = eff_err (Fail e)" "api_set_enabled on E H cfg hs v = eff_err (Fail e)"
    "api_dry_run_apply E H cfg hs = eff_err (Fail e)" "api_reconcile E H cfg hs rr = eff_err (Fail e)"
    "api_netbird_status E H cfg hs = eff_err (Fail e)" "api_netbird_networks E H cfg hs = eff_err (Fail e)"
    "api_events E H cfg hs = eff_err (Fail e)" "api_analytics E H cfg hs = eff_err (Fail e)"
    "api_topology E H cfg hs = eff_err (Fail e)" "api_oci_status E H cfg hs = eff_err (Fail e)"
    "oci_allocate E H cfg hs al = eff_err (Fail e)" "oci_release E H cfg hs re = eff_err (Fail e)"
    "oci_vnic_check E H cfg hs q = eff_err (Fail e)" "oci_public_ips E H cfg hs q = eff_err (Fail e)"
    "oci_nsg_add E H cfg hs na = eff_err (Fail e)" "oci_nsg_remove E H cfg hs nr = eff_err (Fail e)"
  unfolding api_status_def api_list_mappings_def api_create_mapping_def api_get_mapping_def
    api_delete_mapping_def api_set_enabled_def api_dry_run_apply_def api_reconcile_def api_netbird_status_def
    api_netbird_networks_def api_events_def api_analytics_def api_topology_def api_oci_status_def
    oci_allocate_def oci_release_def oci_vnic_check_def oci_public_ips_def oci_nsg_add_def oci_nsg_remove_def
    api_auth_def denied map_err_simps eff_bind_lift_simps
  by (rule refl)+

lemma handle_denied:
  "require_auth H (api_token cfg) hs = Inl e \<Longrightarrow> handle E H cfg hs rq s = (Inl (Fail e), s)"
  by (cases rq) (simp_all add: handlers_denied api_enable_mapping_def api_disable_mapping_def eff_map_def)

text \<open>C7. With a token configured, a request whose \<open>Authorization\<close> header is not exactly \<open>Bearer\<close> and
  that token is answered with status 401 by every route and changes nothing, not even the counters
  of the environment: no query is run, no command, no write. With exactly that header the check
  passes, and without a configured token it always does.\<close>

theorem api_requires_token:
  assumes "auth_sized H hs t"
  shows "(api_token cfg = Some t \<and> authorization H hs \<noteq> Some (''Bearer '' @ t) \<longrightarrow>
      handle E H cfg hs rq s = (Inl (Fail api_unauthorized), s) \<and> err_status api_unauthorized = 401) \<and>
    (api_token cfg = Some t \<and> authorization H hs = Some (''Bearer '' @ t) \<longrightarrow> api_auth H cfg hs = eff_ret ()) \<and>
    (api_token cfg = None \<longrightarrow> api_auth H cfg hs = eff_ret ())"
proof (intro conjI impI)
  assume "api_token cfg = Some t \<and> authorization H hs \<noteq> Some (''Bearer '' @ t)"
  then show "handle E H cfg hs rq s = (Inl (Fail api_unauthorized), s)"
    using agent.refuses [OF assms] by (intro handle_denied) simp
  show "err_status api_unauthorized = 401" by (simp add: api_unauthorized_def)
next
  assume "api_token cfg = Some t \<and> authorization H hs = Some (''Bearer '' @ t)"
  then show "api_auth H cfg hs = eff_ret ()"
    using agent.accepts [OF assms] by (simp add: api_auth_def fun_eq_iff)
next
  assume "api_token cfg = None"
  then show "api_auth H cfg hs = eff_ret ()" by (simp add: api_auth_def agent.no_token fun_eq_iff)
qed

text \<open>Headers as a list of names and values.\<close>

definition sample_headers :: "(string \<times> string) list header_ops" where
  "sample_headers = \<lparr>header_get = map_of, header_to_str = Some\<rparr>"

theorem api_requires_token_witness:
  "handle (sample_cloud True) sample_headers (sample_config\<lparr>api_token := Some ''secret''\<rparr>)
     [(''authorization'', ''Bearer secrex'')] (DeleteMapping ''map_1'') sample_world =
   (Inl (Fail api_unauthorized), sample_world)"
proof -
  have "auth_sized sample_headers [(''authorization'', ''Bearer secrex'')] ''secret''"
    by (simp add: auth_sized_def rust_str_def authorization_def sample_headers_def)
  moreover have "authorization sample_headers [(''authorization'', ''Bearer secrex'')] \<noteq> Some (''Bearer '' @ ''secret'')"
    by (simp add: authorization_def sample_headers_def)
  ultimately show ?thesis
    using api_requires_token [of sample_headers "[(''authorization'', ''Bearer secrex'')]" "''secret''"
        "sample_config\<lparr>api_token := Some ''secret''\<rparr>" "sample_cloud True" "DeleteMapping ''map_1''" sample_world]
    by (simp del: handle.simps)
qed

lemma sample_cloud_faults [simp]: "sql_fault (sample_cloud quota) n = None"
  by (simp add: sample_cloud_def sample_netbird_env_def netbird_env.defs host_env.defs sample_host_env_def
      env_ops.defs sample_env_def ipnet_ops.defs)

section \<open>Deleting a mapping\<close>

lemma api_core_eq:
  "api_core m s = (Inr x, t) \<longleftrightarrow> m s = (Inr x, t)"
  "api_core m s = (Inl e, t) \<longleftrightarrow> (\<exists>c. e = Fail (api_error_of_core c) \<and> m s = (Inl c, t))"
  by (auto simp: api_core_def eff_map_err_def map_err_def split: prod.splits sum.splits)

lemma guards_eq:
  "api_auth H cfg hs s = (x, t) \<Longrightarrow> t = s" "parse_id v s = (y, t) \<Longrightarrow> t = s"
  "parse_id v s = (Inr i, t) \<Longrightarrow> mapping_id_from_str v = Inr i"
  by (auto simp: api_auth_def parse_id_def)

lemma set_enabled_ids:
  "set_mapping_enabled E i en s = (r, t) \<Longrightarrow> map r_id (t_mappings t) = map r_id (t_mappings s)"
  by (auto dest!: set_mapping_enabled_effect)

lemma set_disabled_rows:
  assumes "set_mapping_enabled E i False s = (Inr m, t)" "r \<in> set (t_mappings t)" "r_id r = id_str i"
  shows "r_enabled r = 0"
proof -
  from set_mapping_enabled_effect [OF assms(1)] consider
      n where "t = s\<lparr>tick := n\<rparr>" "row_at (t_mappings s) (id_str i) = None"
    | n time where "t = s\<lparr>t_mappings := map (\<lambda>x. if r_id x = id_str i then enabled_row False time x else x)
        (t_mappings s), tick := n\<rparr>" by auto
  then show ?thesis
  proof cases
    case 1
    then show ?thesis using assms(2,3) by (auto simp: row_at_def find_None_iff_ex)
  next
    case 2
    then show ?thesis using assms(2,3) by (auto simp: enabled_row_def assign_enabled_def split: if_splits)
  qed
qed

lemma api_delete_success:
  assumes "api_delete_mapping E H cfg hs path s = (Inr m, t)"
  shows "\<exists>i d u rep v. mapping_id_from_str path = Inr i \<and> set_mapping_enabled E i False s = (Inr d, u) \<and>
    reconcile E reconciler_default cfg delete_options u = (Inr rep, v) \<and> delete_mapping E i v = (Inr m, t)"
proof -
  from assms obtain x s1 i s2 d u where 1: "api_auth H cfg hs s = (Inr x, s1)" "parse_id path s1 = (Inr i, s2)"
    "set_mapping_enabled E i False s2 = (Inr d, u)" and
    2: "eff_catch (reconcile E reconciler_default cfg delete_options) (\<lambda>reconciled.
     case reconciled of
       Inl (Panic msg) \<Rightarrow> eff_err (Panic msg)
     | Inl (Fail error) \<Rightarrow>
         eff_bind (api_core (record_event E EvError ''delete reconcile failed''
           (Some (reconcile_error_to_string error)))) (\<lambda>_.
         api_fail (api_from_reconcile error))
     | Inr _ \<Rightarrow> api_core (delete_mapping E i)) u = (Inr m, t)"
    by (auto simp: api_delete_mapping_def eff_bind_eq_Inr api_core_eq)
  from 2 obtain q v where q: "reconcile E reconciler_default cfg delete_options u = (q, v)"
    by (cases "reconcile E reconciler_default cfg delete_options u")
  with 2 have "\<exists>rep. q = Inr rep" "delete_mapping E i v = (Inr m, t)"
    by (auto simp: eff_catch_def eff_bind_eq_Inr api_fail_def api_core_eq split: sum.splits failure.splits)
  with 1 q guards_eq show ?thesis by metis
qed

lemma reconcile_ids:
  "reconcile E R cfg opts s = (q, t) \<Longrightarrow> map r_id (t_mappings t) = map r_id (t_mappings s)"
  using keepsD [OF ids.keeps_reconcile] by blast

lemma record_event_ids:
  fixes s :: "('h, 'w) world_scheme" and E :: "('h, 'e) host_env_scheme"
  shows "record_event E l msg d s = (q, t) \<Longrightarrow> map r_id (t_mappings t) = map r_id (t_mappings s)"
  using keepsD [OF ids.keeps_records(2)] by blast

lemma api_delete_failed:
  assumes "api_delete_mapping E H cfg hs path s = (Inl e, t)"
  shows "map r_id (t_mappings t) = map r_id (t_mappings s)"
  using assms unfolding api_delete_mapping_def
  by (elim eff_bind_cases eff_catch_cases;
      auto simp: api_core_eq api_fail_def split: sum.splits failure.splits elim!: eff_bind_cases
        dest!: guards_eq(1,2) set_enabled_ids reconcile_ids record_event_ids delete_mapping_Inl)

lemma invar_ids_trimmed: "sql_invar E s \<Longrightarrow> r \<in> set (t_mappings s) \<Longrightarrow> trim (r_id r) = r_id r"
  by (auto simp: sql_invar_def row_good_def dest!: bspec row_to_mapping_fields(1))

lemma listed_ids:
  assumes list: "list_mappings E u = (Inr ms, w)" and trimmed: "\<forall>k\<in>set (map r_id (t_mappings u)). trim k = k"
  shows "mset (map (\<lambda>m. id_str (m_id m)) ms) = mset (map r_id (t_mappings u))"
    and "m \<in> set ms \<Longrightarrow> \<exists>r\<in>set (t_mappings u). r_id r = id_str (m_id m) \<and> (enabled m \<longleftrightarrow> r_enabled r \<noteq> 0)"
proof -
  let ?rows = "sort_key (\<lambda>r. [r_created_at r, r_id r]) (t_mappings u)"
  have rel: "list_all2 (\<lambda>r m. r \<in> set (t_mappings u) \<and> r_id r = id_str (m_id m) \<and> (enabled m \<longleftrightarrow> r_enabled r \<noteq> 0)) ?rows ms"
    using list_mappings_rows [OF list]
    by (rule list.rel_mono_strong) (use trimmed in \<open>auto dest: row_to_mapping_fields\<close>)
  then have "map (\<lambda>m. id_str (m_id m)) ms = map r_id ?rows"
    by (auto simp: list_all2_conv_all_nth intro!: nth_equalityI)
  then show "mset (map (\<lambda>m. id_str (m_id m)) ms) = mset (map r_id (t_mappings u))"
    by (simp only: mset_map mset_sort)
  show "\<exists>r\<in>set (t_mappings u). r_id r = id_str (m_id m) \<and> (enabled m \<longleftrightarrow> r_enabled r \<noteq> 0)" if "m \<in> set ms"
    using rel that by (fastforce simp: list_all2_conv_all_nth in_set_conv_nth [of m])
qed

lemma deleted_ids:
  "delete_mapping E i s = (Inr m, t) \<Longrightarrow>
     map r_id (t_mappings t) = filter (\<lambda>k. k \<noteq> id_str i) (map r_id (t_mappings s))"
  by (auto simp: filter_map o_def dest!: delete_mapping_Inr)

lemma reconcile_full_commands:
  fixes s :: "('h, 'w) world_scheme"
  assumes rec: "reconcile E R cfg opts s = (Inr rep, t)" and full: "\<not> dry_run opts" "full_apply opts"
  shows "\<exists>script f oc oa ips. renders E cfg s script \<and> f (nft_output opts) = Some script \<and> cmd_ok oc \<and> cmd_ok oa \<and>
    trace t = trace s @ nft_check_cmd R (nft_output opts) f oc # nft_apply_cmd R (nft_output opts) f oa # ips"
proof -
  from reconcile_follows_course [OF rec full(1)] obtain script log cmds where
    c: "reconcile_course R opts script log cmds True" "cmds \<noteq> [] \<longrightarrow> renders E cfg s script"
      "trace t = trace s @ cmds" by auto
  from c(1) obtain f oc oa ips where cmds: "f (nft_output opts) = Some script" "cmd_ok oc" "cmd_ok oa"
    "cmds = nft_check_cmd R (nft_output opts) f oc # nft_apply_cmd R (nft_output opts) f oa # ips"
    by (rule reconcile_course_success) (use full in auto)
  with c show ?thesis by blast
qed

text \<open>\<open>renders_without E cfg i s script\<close>: the script is rendered from mappings with the stored identifiers, the
  one of \<open>i\<close> disabled.\<close>

definition renders_without :: "'e env_ops_scheme \<Rightarrow> edge_config \<Rightarrow> mapping_id \<Rightarrow> 'w db_scheme \<Rightarrow> string \<Rightarrow> bool" where
  "renders_without E cfg i s script \<longleftrightarrow>
     (\<exists>ms. mset (map (\<lambda>m. id_str (m_id m)) ms) = mset (map r_id (t_mappings s)) \<and>
        (\<forall>m\<in>set ms. m_id m = i \<longrightarrow> \<not> enabled m) \<and> render_nftables E ms cfg default_table_name = Inr script)"

lemma disabled_renders_without:
  assumes dis: "set_mapping_enabled E i False s = (Inr d, u)" and inv: "sql_invar E s"
    and ren: "renders E cfg u script"
  shows "renders_without E cfg i s script"
proof -
  from ren obtain ms where ms: "fst (list_mappings E u) = Inr ms" "render_nftables E ms cfg default_table_name = Inr script"
    by (auto simp: renders_def)
  then obtain w where list: "list_mappings E u = (Inr ms, w)" by (cases "list_mappings E u") auto
  have ids: "map r_id (t_mappings u) = map r_id (t_mappings s)" by (rule set_enabled_ids [OF dis])
  then have "\<forall>k\<in>set (map r_id (t_mappings u)). trim k = k" using invar_ids_trimmed [OF inv] by auto
  note listed = listed_ids [OF list this]
  have "\<forall>m\<in>set ms. m_id m = i \<longrightarrow> \<not> enabled m"
    using listed(2) set_disabled_rows [OF dis] by fastforce
  then show ?thesis unfolding renders_without_def using listed(1) ids ms(2) by metis
qed

text \<open>\<open>applied_without E cfg i path s cmds\<close>: \<open>nft\<close> checked and applied such a script, with success.\<close>

definition applied_without :: "'e env_ops_scheme \<Rightarrow> edge_config \<Rightarrow> mapping_id \<Rightarrow> string \<Rightarrow> 'w db_scheme \<Rightarrow> action list \<Rightarrow> bool" where
  "applied_without E cfg i path s cmds \<longleftrightarrow>
     (\<exists>script f oc oa ips. renders_without E cfg i s script \<and> f path = Some script \<and> cmd_ok oc \<and> cmd_ok oa \<and>
        cmds = nft_check_cmd reconciler_default path f oc # nft_apply_cmd reconciler_default path f oa # ips)"

lemma disabled_applied:
  fixes s u :: "('h, 'w) world_scheme"
  assumes dis: "set_mapping_enabled E i False s = (Inr d, u)" and inv: "sql_invar E s"
    and rec: "reconcile E reconciler_default cfg opts u = (Inr rep, t)" and full: "\<not> dry_run opts" "full_apply opts"
  shows "\<exists>cmds. trace t = trace s @ cmds \<and> applied_without E cfg i (nft_output opts) s cmds"
proof -
  have "trace u = trace s" using set_mapping_enabled_effect [OF dis] by auto
  with reconcile_full_commands [OF rec full] disabled_renders_without [OF dis inv] show ?thesis
    unfolding applied_without_def by fastforce
qed

lemma applied_tick: "applied_without E cfg i path (s\<lparr>tick := n\<rparr>) = applied_without E cfg i path s"
  by (simp add: applied_without_def renders_without_def fun_eq_iff)

text \<open>C15. Deleting a mapping through the interface never loses it half-way: if the request fails, at whatever
  point, the table still holds exactly the same mappings; if it succeeds, exactly the one with the
  identifier is gone, and before that \<open>nft\<close> checked and applied, with success, a script rendered from
  the stored mappings in which this one is disabled.\<close>

theorem api_delete_mapping_safe:
  assumes run: "api_delete_mapping E H cfg hs path s = (r, t)" and inv: "sql_invar E s"
  shows "case r of
    Inl _ \<Rightarrow> map r_id (t_mappings t) = map r_id (t_mappings s)
  | Inr _ \<Rightarrow> (\<exists>i nft. mapping_id_from_str path = Inr i \<and>
      map r_id (t_mappings t) = filter (\<lambda>k. k \<noteq> id_str i) (map r_id (t_mappings s)) \<and>
      trace t = trace s @ nft \<and> applied_without E cfg i (nft_output delete_options) s nft)"
proof (cases r)
  case (Inl e)
  then show ?thesis using api_delete_failed run by simp
next
  case (Inr m)
  from api_delete_success [OF run [unfolded Inr]] obtain i d u rep v where i: "mapping_id_from_str path = Inr i"
    and dis: "set_mapping_enabled E i False s = (Inr d, u)"
    and rec: "reconcile E reconciler_default cfg delete_options u = (Inr rep, v)"
    and del: "delete_mapping E i v = (Inr m, t)"
    by blast
  have full: "\<not> dry_run delete_options" "full_apply delete_options" by (simp_all add: delete_options_def full_apply_def)
  from disabled_applied [OF dis inv rec full] obtain nft where
    nft: "trace v = trace s @ nft" "applied_without E cfg i (nft_output delete_options) s nft" by blast
  moreover have "trace t = trace v" using delete_mapping_Inr [OF del] by auto
  moreover have "map r_id (t_mappings t) = filter (\<lambda>k. k \<noteq> id_str i) (map r_id (t_mappings s))"
    by (simp only: deleted_ids [OF del] reconcile_ids [OF rec] set_enabled_ids [OF dis])
  ultimately show ?thesis unfolding Inr sum.case using i by metis
qed

text \<open>A database that answers no statement.\<close>

definition failing_cloud :: "(string \<Rightarrow> ipv4_addr list) oci_env" where
  "failing_cloud = (sample_cloud True)\<lparr>sql_fault := (\<lambda>_. Some ''disk I/O error'')\<rparr>"

lemma row_to_mapping_cong:
  assumes "time_parse E = time_parse F" "enum_error E = enum_error F"
  shows "row_to_mapping E r = row_to_mapping F r"
  unfolding row_to_mapping_def parse_optional_time_def parse_time_def enum_from_string_def assms by (rule refl)

lemma failing_cloud_simps:
  "time_parse failing_cloud = time_parse sample_host_env" "enum_error failing_cloud = enum_error sample_host_env"
  "sql_fault failing_cloud n = Some ''disk I/O error''"
  "time_format failing_cloud t = Inr (sample_time_text t)"
  by (simp_all add: failing_cloud_def sample_cloud_def sample_netbird_env_def netbird_env.defs host_env.defs)

lemma failing_invar: "sql_invar failing_cloud shared_world"
  using shared_invar row_to_mapping_cong [OF failing_cloud_simps(1,2)]
  by (simp add: sql_invar_def row_good_def)

theorem api_delete_mapping_safe_witness:
  "\<exists>e t. api_delete_mapping failing_cloud sample_headers sample_config [] (id_str (m_id sample_tcp)) shared_world =
       (Inl e, t) \<and> map r_id (t_mappings t) = map r_id (t_mappings shared_world)"
proof -
  let ?path = "id_str (m_id sample_tcp)"
  have i: "parse_id ?path s = (Inr (m_id sample_tcp), s)" for s :: "(string \<Rightarrow> ipv4_addr list) world"
    using sample_id_wf(1) by (simp add: parse_id_def id_wf_def mapping_id_from_str_def Let_def)
  have a: "api_auth sample_headers sample_config [] s = (Inr (), s)" for s :: "(string \<Rightarrow> ipv4_addr list) world"
    by (simp add: api_auth_def require_auth_def sample_config_def edge_config_new_def)
  obtain e t where f: "api_core (set_mapping_enabled failing_cloud (m_id sample_tcp) False) shared_world = (Inl e, t)"
    by (simp add: api_core_def eff_map_err_def set_mapping_enabled_def eff_bind_def now_utc_def format_time_def
        query_def Let_def failing_cloud_simps)
  have run: "api_delete_mapping failing_cloud sample_headers sample_config [] ?path shared_world = (Inl e, t)"
    by (simp only: api_delete_mapping_def eff_bind_def a i f prod.case sum.case)
  from api_delete_mapping_safe [OF run failing_invar] run show ?thesis by auto
qed

end
