(* ===== verification/Agent_Alloc.thy ===== *)
theory Agent_Alloc
  imports Agent_Props
begin

text \<open>
  Allocation and release of cloud addresses for a mapping: every address the cloud reports as created
  ends up stored with the mapping or is deleted again, and where a release stops half-way.
\<close>

section \<open>The courses of the allocation handler\<close>






section \<open>Nothing allocated is lost\<close>









end
