(* ===== verification/System_Props.thy ===== *)
theory System_Props
  imports Cli_Commands Agent_Alloc
begin

text \<open>
  Properties that span the programs: what any sequence of agent requests and runs of the command line
  tool keeps, when the agent serves at all, and the deletion of a mapping by the tool with its cloud
  addresses.
\<close>

section \<open>Predicates every run of the tool keeps\<close>

locale cli_invariant = api_invariant P E for P :: "('h, 'w) console_scheme \<Rightarrow> bool"
    and E :: "('h, 'e) cli_env_scheme" +
  assumes configured: "keeps P (set_edge_config E cfg)"
begin

lemma keeps_cli_errors:
  "keeps P m1 \<Longrightarrow> keeps P (cli_core m1)" "keeps P m2 \<Longrightarrow> keeps P (cli_oci m2)"
  "keeps P m3 \<Longrightarrow> keeps P (cli_netbird m3)" "keeps P m4 \<Longrightarrow> keeps P (cli_reconciled m4)"
  "keeps P m5 \<Longrightarrow> keeps P (with_context c m5)"
  unfolding cli_core_def cli_oci_def cli_netbird_def cli_reconciled_def with_context_def
  by (rule keeps_map_err; assumption)+

lemma keeps_print: "keeps P (print v)" "keeps P (println v)" "keeps P (eprintln v)" "keeps P (print_mapping_line m)"
  unfolding println_def print_mapping_line_def by (rule keeps_same; simp add: print_def eprintln_def)+

lemma keeps_bail: "keeps P (bail msg)" "keeps P (cli_id v)" "keeps P (xdp_note n)"
  unfolding bail_def cli_id_def xdp_note_def by (intro keeps_intros keeps_print)+

lemma keeps_netbird: "keeps P (nb_status E C)" "keeps P (route_get E C ip)" "keeps P (ping_once E C ip)"
proof -
  have q: "keeps P (netbird_run_owned E b args)" for b args
    by (rule keeps_same) (auto simp: netbird_run_owned_def Let_def split: prod.splits sum.splits if_splits)
  then show "keeps P (nb_status E C)" "keeps P (route_get E C ip)" "keeps P (ping_once E C ip)"
    unfolding nb_status_def route_get_def ping_once_def Let_def by (intro keeps_intros q)+
qed

lemma keeps_rollback: "keeps P (rollback E R gen path)"
  unfolding rollback_def Let_def by (intro keeps_steps keeps_atomic_write keeps_nft keeps_read reads_intros)

lemma keeps_oci_creation:
  "keeps P (validate_forwarding_vnic E B v)" "keeps P (create_private_ip E B v n)"
  "keeps P (create_reserved_public_ip E B c p n)"
  unfolding validate_forwarding_vnic_def create_private_ip_def create_reserved_public_ip_def
  by (intro keeps_intros keeps_oci_run keeps_oci_ops)+

lemmas keeps_cli = keeps_api keeps_cli_errors keeps_print keeps_bail keeps_netbird keeps_rollback
  keeps_oci_creation configured

lemma keeps_cleanup_address:
  "(\<And>i. keeps P (del i)) \<Longrightarrow> keeps P (cleanup_address del kind v fs)"
  unfolding cleanup_address_def by (intro keeps_cli)

lemma keeps_cleanup: "keeps P (cleanup_mapping_oci E m)" "keeps P (validate_netbird_route E ip nb)"
  unfolding cleanup_mapping_oci_def validate_netbird_route_def
  by (intro keeps_cli keeps_cleanup_address)+

lemma keeps_map_operations:
  "keeps P (map_create E cfg ca)" "keeps P (map_delete E cfg da)" "keeps P (map_switch E on verb v)"
  unfolding map_create_def map_delete_def map_switch_def Let_def
  by (intro keeps_cli keeps_cleanup keeps_read reads_intros)+

lemma keeps_handle_map: "keeps P (handle_map E cfg c)"
  by (cases c) (simp_all add: keeps_map_operations, (intro keeps_cli keeps_read reads_intros)+)

lemma keeps_applying:
  "keeps P (handle_apply E cfg aa)" "keeps P (handle_reconcile E cfg ra)" "keeps P (handle_rollback E ro)"
  "keeps P (handle_status E cfg)"
  unfolding handle_apply_def handle_reconcile_def handle_rollback_def handle_status_def Let_def
  by (intro keeps_cli keeps_read reads_intros)+

lemma keeps_oracle_operations:
  "keeps P (oracle_list E c)" "keeps P (cli_store_allocation E m a)" "keeps P (oracle_release E p q)"
  "keeps P (oracle_vnic_check E v)"
  unfolding oracle_list_def cli_store_allocation_def oracle_release_def oracle_vnic_check_def Let_def
  by (intro keeps_cli keeps_read reads_intros)+

lemma keeps_oracle_allocate: "keeps P (oracle_allocate E m c v n)"
  unfolding oracle_allocate_def Let_def
  by (intro keeps_cli keeps_oracle_operations keeps_read reads_intros)

lemma keeps_handle_oracle: "keeps P (handle_oracle E c)"
  by (cases c) (simp_all add: keeps_oracle_operations keeps_oracle_allocate)

lemma keeps_netbird_check: "keeps P (netbird_check E nb ip ping)"
  unfolding netbird_check_def by (intro keeps_cli)

lemma keeps_handle_netbird: "keeps P (handle_netbird E nb c)"
  by (cases c) (simp_all only: handle_netbird.simps keeps_netbird_check, (intro keeps_cli)+)

lemma keeps_cli_main: "keeps P (cli_main E args)"
proof -
  have "keeps P (run_command E cfg c)" for cfg c
    by (cases c) (simp_all add: keeps_handle_map keeps_applying keeps_handle_oracle keeps_handle_netbird)
  moreover have "keeps P (resolve_edge_config E cfg auth)" for cfg auth
    unfolding resolve_edge_config_def ensure_edge_config_def
    by (intro keeps_intros configured keeps_read reads_intros)
  ultimately show ?thesis
    unfolding cli_main_def by (intro keeps_intros keeps_cli_errors) simp_all
qed

end

section \<open>Any number of clients\<close>

interpretation reach_cli: cli_invariant "sql_reachable :: ('h, 'w) console_scheme \<Rightarrow> bool" E
  for E :: "('h, 'e) cli_env_scheme"
  by unfold_locales (rule keeps_reachable_ops)

text \<open>A step of the system: the agent, started with some configuration, serves a request, or somebody
  runs the command line tool.\<close>

datatype 'm client =
    AgentRequest edge_config 'm api_request
  | ToolRun cli_args

fun client_step :: "('h, 'e) cli_env_scheme \<Rightarrow> ('m, 'x) header_ops_scheme \<Rightarrow> 'm client \<Rightarrow>
    ('h, 'w) console_scheme \<Rightarrow> ('h, 'w) console_scheme" where
  "client_step E H (AgentRequest cfg hs rq) s = snd (handle E H cfg hs rq s)"
| "client_step E H (ToolRun args) s = snd (cli_main E args s)"

definition system_run :: "('h, 'e) cli_env_scheme \<Rightarrow> ('m, 'x) header_ops_scheme \<Rightarrow> 'm client list \<Rightarrow>
    ('h, 'w) console_scheme \<Rightarrow> ('h, 'w) console_scheme" where
  "system_run E H cs s = fold (client_step E H) cs s"

lemma client_step_reachable: "sql_reachable s \<Longrightarrow> sql_reachable (client_step E H c s)"
proof (cases c)
  case (AgentRequest cfg hs rq)
  show "sql_reachable s \<Longrightarrow> sql_reachable (client_step E H c s)"
    unfolding AgentRequest client_step.simps
    by (rule keepsD [OF reach.keeps_handle prod.collapse [symmetric]])
next
  case (ToolRun args)
  show "sql_reachable s \<Longrightarrow> sql_reachable (client_step E H c s)"
    unfolding ToolRun client_step.simps
    by (rule keepsD [OF reach_cli.keeps_cli_main prod.collapse [symmetric]])
qed

lemma system_run_reachable: "sql_reachable s \<Longrightarrow> sql_reachable (system_run E H cs s)"
  unfolding system_run_def by (induction cs arbitrary: s) (simp_all add: client_step_reachable)

text \<open>C2. Whatever requests agents serve and whatever commands are run, in whatever order, with any
  configuration and with any of them failing half-way, the enabled mappings the store then lists are
  pairwise free of conflicts and none shares a public address another one owns alone, starting from
  any database these statements can reach, an empty one for example.\<close>

theorem system_mappings_safe:
  assumes "sql_reachable s" and "list_mappings E (system_run E H cs s) = (Inr ms, u)"
  shows "pairwise_ok (\<lambda>a b. enabled a \<longrightarrow> enabled b \<longrightarrow> \<not> conflicts a b \<and> \<not> public_clash a b) ms"
  by (rule reachable_listed_apart [OF system_run_reachable [OF assms(1)] assms(2)])

definition sample_cli :: "(string \<Rightarrow> ipv4_addr list) cli_env" where
  "sample_cli = oci_env.extend (sample_cloud True)
     \<lparr>read_to_string = (\<lambda>_. Inl ''no such file''), toml_config = (\<lambda>_. Inl ''not supported''), db_open = (\<lambda>_. None),
      nets_debug = (\<lambda>_. ''[]''), oci_error_debug = (\<lambda>_. ''None'')\<rparr>"

definition sample_console :: "(string \<Rightarrow> ipv4_addr list) console" where
  "sample_console = world.extend (sample_world\<lparr>t_mappings := [sample_row sample_tcp]\<rparr>) \<lparr>con_out = [], con_err = []\<rparr>"

lemma sample_cli_simps [simp]:
  "sql_fault sample_cli n = None" "time_parse sample_cli = time_parse sample_host_env"
  "enum_error sample_cli = enum_error sample_host_env" "read_to_string sample_cli p = Inl ''no such file''"
  by (simp_all add: sample_cli_def sample_cloud_def sample_netbird_env_def oci_env.defs netbird_env.defs host_env.defs)

lemma sample_console_rows [simp]: "t_mappings sample_console = [sample_row sample_tcp]"
  by (simp add: sample_console_def world.defs sample_world_def db.defs)

lemma sample_console_reachable: "sql_reachable sample_console"
proof -
  have "rows_ok (t_mappings sample_db1)" using sql_reachable_rows_ok [OF sample_db1_reachable] .
  then have wf: "row_wf (sample_row sample_tcp)" by (simp add: rows_ok_def sample_db1_def)
  have "mapping_stmt_exec (SInsert (sample_row sample_tcp)) (sample_console\<lparr>t_mappings := []\<rparr>) =
      Inr (sample_console\<lparr>t_mappings := [sample_row sample_tcp]\<rparr>)"
    by (simp add: insert_mapping_row_def check_row_def raise_conflict_def violated_index_def
        first_check.simps)
  from sql_stmt [OF sql_init _ this] wf have "sql_reachable (sample_console\<lparr>t_mappings := [sample_row sample_tcp]\<rparr>)"
    by (simp add: stmt_wf_def)
  then show ?thesis by (rule sql_other) simp
qed

text \<open>A request without the token, and a run of the tool with a configuration file that is missing.\<close>

definition sample_clients :: "(string \<times> string) list client list" where
  "sample_clients =
     [AgentRequest (sample_config\<lparr>api_token := Some ''secret''\<rparr>) [] (DeleteMapping ''map_1''),
      ToolRun \<lparr>cl_db = ''state.sqlite'', cl_config = Some ''missing.toml'', cl_wan_interface = ''ens3'',
        cl_netbird_interface = ''wt0'', cl_target_cidrs = [], cl_command = CmdStatus\<rparr>]"

lemma sample_clients_idle: "system_run sample_cli sample_headers sample_clients s = s"
proof -
  have "require_auth sample_headers (Some ''secret'') [] = Inl api_unauthorized"
    by (simp add: require_auth_def sample_headers_def)
  then show ?thesis
    by (simp add: sample_clients_def system_run_def handle_denied cli_main_def load_config_def Let_def del: handle.simps)
qed

lemma sample_cli_decodes: "row_to_mapping sample_cli r = row_to_mapping sample_host_env r"
  by (rule row_to_mapping_cong) simp_all

theorem system_mappings_safe_witness:
  "\<exists>u. list_mappings sample_cli (system_run sample_cli sample_headers sample_clients sample_console) =
       (Inr [sample_tcp], u) \<and>
     pairwise_ok (\<lambda>a b. enabled a \<longrightarrow> enabled b \<longrightarrow> \<not> conflicts a b \<and> \<not> public_clash a b) [sample_tcp]"
proof -
  obtain u where u: "list_mappings sample_cli (system_run sample_cli sample_headers sample_clients sample_console) =
      (Inr [sample_tcp], u)"
    unfolding sample_clients_idle
    by (auto simp: list_mappings_def select_ok eff_bind_def sample_cli_decodes sample_host_decodes(1))
  from system_mappings_safe [OF sample_console_reachable u] u show ?thesis by blast
qed

section \<open>The agent is not open by accident\<close>

text \<open>An agent that starts without \<open>--allow-no-auth\<close> has a token, whatever its arguments, its file and the
  stored configuration say, and refuses every request that does not carry it, without any effect. It
  does not start on a wildcard address.\<close>

theorem agent_not_open:
  assumes run: "agent_start E show args s = (Inr cfg, t)" and auth: "\<not> ag_allow_no_auth args"
  shows "\<not> unspecified (sa_ip (ag_bind args)) \<and>
    (\<exists>token. api_token cfg = Some token \<and>
      (auth_sized H hs token \<and> authorization H hs \<noteq> Some (''Bearer '' @ token) \<longrightarrow>
         handle E H cfg hs rq u = (Inl (Fail api_unauthorized), u)))"
proof -
  from run have bind: "\<not> unspecified (sa_ip (ag_bind args))"
    by (auto simp: agent_start_def eff_bind_eq_Inr reject_public_bind_def split: if_splits)
  from run auth have "api_token cfg \<noteq> None"
    by (auto simp: agent_start_def eff_bind_eq_Inr Let_def split: if_splits)
  then obtain token where token: "api_token cfg = Some token" by blast
  have "handle E H cfg hs rq u = (Inl (Fail api_unauthorized), u)"
    if "auth_sized H hs token" "authorization H hs \<noteq> Some (''Bearer '' @ token)"
    using agent.refuses [OF that] token by (intro handle_denied) simp
  with bind token show ?thesis by blast
qed

definition sample_agent_args :: agent_args where
  "sample_agent_args =
     \<lparr>ag_db = ''state.sqlite'', ag_config = None, ag_bind = \<lparr>sa_ip = IpV4 (Ipv4Addr 127 0 0 1), sa_port = 8443\<rparr>,
      ag_unix_socket = None, ag_api_token = Some ''secret'', ag_allow_no_auth = False, ag_wan_interface = ''ens3'',
      ag_netbird_interface = ''wt0'', ag_target_cidrs = []\<rparr>"

theorem agent_not_open_witness:
  "\<exists>cfg t. agent_start sample_cli (\<lambda>_. ''127.0.0.1:8443'') sample_agent_args
       (sample_console\<lparr>t_config := [(''default'', ''sample'')]\<rparr>) = (Inr cfg, t) \<and>
     handle sample_cli sample_headers cfg [] GetStatus sample_console = (Inl (Fail api_unauthorized), sample_console)"
proof -
  let ?s = "sample_console\<lparr>t_config := [(''default'', ''sample'')]\<rparr>"
  have j: "config_from_json sample_cli = sample_unjson" "db_open sample_cli p = None" for p
    by (simp_all add: sample_cli_def sample_cloud_def sample_netbird_env_def oci_env.defs netbird_env.defs
        host_env.defs sample_host_env_def env_ops.defs)
  obtain t where run: "agent_start sample_cli (\<lambda>_. ''127.0.0.1:8443'') sample_agent_args ?s =
      (Inr (sample_config\<lparr>api_token := Some ''secret''\<rparr>), t)"
    by (simp add: agent_start_def sample_agent_args_def reject_public_bind_def unspecified_def
        ip_is_unspecified_def load_config_def open_store_def j resolve_edge_config_def ensure_edge_config_def
        get_edge_config_def eff_bind_def cli_core_def eff_map_err_def query_def select_stmt_def Let_def
        sample_unjson_def sample_config_def edge_config_new_def)
  have "authorization sample_headers [] = None" by (simp add: authorization_def sample_headers_def)
  then show ?thesis
    using agent_not_open [OF run, of sample_headers "[]" GetStatus sample_console] run
    by (auto simp: sample_agent_args_def auth_sized_def rust_str_def simp del: handle.simps)
qed

end
