(* ===== verification/Cli_Props.thy ===== *)
theory Cli_Props
  imports System_Props
begin

text \<open>
  Deleting a mapping with the command line tool, together with its cloud addresses, and how the tool
  tells an address that is already gone.
\<close>

section \<open>Deleting cloud addresses\<close>

definition outcome_error :: "cmd_outcome \<Rightarrow> oci_error" where
  "outcome_error out =
     (case out of
        TimedOut \<Rightarrow> OciTimeout 12
      | SpawnFailed msg \<Rightarrow> OciIo msg
      | Exited status _ err \<Rightarrow> OciCommand (error_message status err))"

text \<open>The text of a failure that the tool takes for a missing address: one of three words, in upper or
  lower case letters, is somewhere in it.\<close>

definition says_missing :: "string \<Rightarrow> bool" where
  "says_missing text \<longleftrightarrow>
     (\<exists>u w v. to_ascii_lowercase text = u @ w @ v \<and> w \<in> {''notfound'', ''not found'', ''404''})"

definition reported_gone :: "cmd_outcome \<Rightarrow> bool" where
  "reported_gone out \<longleftrightarrow>
     cmd_ok out \<or> out \<noteq> TimedOut \<and> says_missing (oci_error_to_string (outcome_error out))"

lemma not_found_iff: "is_oci_not_found e \<longleftrightarrow> says_missing (oci_error_to_string e)"
  unfolding is_oci_not_found_def says_missing_def Let_def str_contains_iff by blast

lemma timeout_not_missing: "\<not> is_oci_not_found (OciTimeout 12)"
  by code_simp

lemma gone_outcome: "is_oci_not_found (outcome_error out) \<Longrightarrow> reported_gone out"
  using timeout_not_missing by (cases out) (auto simp: reported_gone_def not_found_iff outcome_error_def)

definition deletes :: "(string \<Rightarrow> string list) \<Rightarrow> (string \<Rightarrow> ('h, 'w, unit) oci_eff) \<Rightarrow> bool" where
  "deletes args del \<longleftrightarrow> (\<forall>i s r t. del i s = (r, t) \<longrightarrow>
     (\<exists>out. ran_cmd oci_cli_default (args i) out s t \<and>
        (case r of Inr _ \<Rightarrow> cmd_ok out | Inl e \<Rightarrow> e = outcome_error out)))"

lemma deletes_run: "deletes args (\<lambda>i. eff_bind (oci_run_owned E oci_cli_default (args i)) (\<lambda>_. eff_ret ()))"
  unfolding deletes_def
proof (intro allI impI)
  fix i s r t
  assume run: "eff_bind (oci_run_owned E oci_cli_default (args i)) (\<lambda>_. eff_ret ()) s = (r, t)"
  obtain out h where "run_cmd E (tick s) (hstate s) oci_cli_default (args i) = (out, h)"
    by (cases "run_cmd E (tick s) (hstate s) oci_cli_default (args i)")
  with run show "\<exists>out. ran_cmd oci_cli_default (args i) out s t \<and>
        (case r of Inr _ \<Rightarrow> cmd_ok out | Inl e \<Rightarrow> e = outcome_error out)"
    by (cases out)
      (auto simp: oci_run_owned_def eff_bind_def command_def ran_cmd_def cmd_ok_def outcome_error_def
        split: if_splits)
qed

lemma deletes_addresses:
  "deletes public_delete_args (delete_public_ip E oci_cli_default)"
  "deletes private_delete_args (delete_private_ip E oci_cli_default)"
  unfolding delete_public_ip_def [abs_def] delete_private_ip_def [abs_def] by (rule deletes_run)+

lemma println_effect [simp]: "println v s = (Inr (), s\<lparr>con_out := con_out s @ v @ [CHR 0x0A]\<rparr>)"
  by (simp add: println_def print_def)

text \<open>\<open>only_ran cmds s t\<close>: commands were run and lines printed; the table is the same.\<close>

definition only_ran :: "action list \<Rightarrow> ('h, 'w) world_scheme \<Rightarrow> ('h, 'w) world_scheme \<Rightarrow> bool" where
  "only_ran cmds s t \<longleftrightarrow> trace t = trace s @ cmds \<and> t_mappings t = t_mappings s"

lemma cleanup_address_effect:
  fixes s :: "('h, 'w) console_scheme" and del :: "string \<Rightarrow> (('h, 'w) console_scheme, oci_error, unit) eff"
  assumes del: "deletes args del" and run: "cleanup_address del kind v failures s = (r, t)"
  shows "\<exists>f cmds. r = Inr f \<and> only_ran cmds s t \<and>
    (f = [] \<longrightarrow> failures = [] \<and> (\<forall>i. v = Some i \<longrightarrow>
       (\<exists>fs out. Ran oci_cli_default (args i) fs out \<in> set cmds \<and> reported_gone out)))"
proof (cases v)
  case None
  then show ?thesis using run by (auto simp: cleanup_address_def only_ran_def)
next
  case (Some i)
  obtain q u where q: "del i s = (q, u)" by (cases "del i s")
  from del [unfolded deletes_def, rule_format, OF q] obtain out where
    out: "ran_cmd oci_cli_default (args i) out s u"
      "case q of Inr _ \<Rightarrow> cmd_ok out | Inl e \<Rightarrow> e = outcome_error out"
    by blast
  then have "only_ran [Ran oci_cli_default (args i) (files s) out] s u"
    using ran_cmd_keeps [OF out(1)] by (simp add: only_ran_def)
  then show ?thesis
    using run q out(2) Some
    by (cases q)
      (auto simp: cleanup_address_def eff_catch_def eff_bind_def only_ran_def reported_gone_def [where out = out]
        dest: gone_outcome split: if_splits)
qed

definition addresses_gone :: "mapping \<Rightarrow> action list \<Rightarrow> bool" where
  "addresses_gone m cmds \<longleftrightarrow>
     (\<forall>i. oci_public_ip_ocid m = Some i \<longrightarrow>
        (\<exists>fs out. Ran oci_cli_default (public_delete_args i) fs out \<in> set cmds \<and> reported_gone out)) \<and>
     (\<forall>i. oci_private_ip_ocid m = Some i \<longrightarrow>
        (\<exists>fs out. Ran oci_cli_default (private_delete_args i) fs out \<in> set cmds \<and> reported_gone out))"

lemma cleanup_effect:
  fixes s :: "('h, 'w) console_scheme"
  assumes run: "cleanup_mapping_oci E m s = (r, t)"
  shows "\<exists>cmds. only_ran cmds s t \<and> (res_ok r \<longrightarrow> addresses_gone m cmds)"
proof -
  let ?a = "cleanup_address (delete_public_ip E oci_cli_default) ''public IP'' (oci_public_ip_ocid m) []"
  let ?b = "\<lambda>f. cleanup_address (delete_private_ip E oci_cli_default) ''private IP'' (oci_private_ip_ocid m) f"
  obtain r1 u where a: "?a s = (r1, u)" by (cases "?a s")
  from cleanup_address_effect [OF deletes_addresses(1) this] obtain f1 c1 where
    1: "r1 = Inr f1" "only_ran c1 s u" "f1 = [] \<longrightarrow> (\<forall>i. oci_public_ip_ocid m = Some i \<longrightarrow>
       (\<exists>fs out. Ran oci_cli_default (public_delete_args i) fs out \<in> set c1 \<and> reported_gone out))" by auto
  obtain r2 w where b: "?b f1 u = (r2, w)" by (cases "?b f1 u")
  from cleanup_address_effect [OF deletes_addresses(2) this] obtain f2 c2 where
    2: "r2 = Inr f2" "only_ran c2 u w" "f2 = [] \<longrightarrow> f1 = [] \<and> (\<forall>i. oci_private_ip_ocid m = Some i \<longrightarrow>
       (\<exists>fs out. Ran oci_cli_default (private_delete_args i) fs out \<in> set c2 \<and> reported_gone out))" by auto
  have "t = w" "res_ok r \<longleftrightarrow> f2 = []"
    using run a b 1(1) 2(1) by (auto simp: cleanup_mapping_oci_def eff_bind_def bail_def split: if_splits)
  moreover have "only_ran (c1 @ c2) s w" using 1(2) 2(2) by (simp add: only_ran_def)
  ultimately show ?thesis unfolding addresses_gone_def using 1(3) 2(3)
    by (intro exI [of _ "c1 @ c2"]) (simp, blast)
qed

section \<open>Deleting a mapping\<close>

lemma cli_errors_eq:
  "cli_core m1 s = (Inr x, t) \<longleftrightarrow> m1 s = (Inr x, t)" "cli_core m1 s = (Inl e, t) \<Longrightarrow> \<exists>c. m1 s = (Inl c, t)"
  "with_context msg (cli_reconciled m2) s = (Inr y, t) \<longleftrightarrow> m2 s = (Inr y, t)"
  "with_context msg (cli_reconciled m2) s = (Inl e, t) \<Longrightarrow> \<exists>c. m2 s = (Inl c, t)"
  by (auto simp: cli_core_def with_context_def cli_reconciled_def eff_map_err_def map_err_def
      split: prod.splits sum.splits)

definition cli_delete_options :: "delete_mapping_args \<Rightarrow> reconcile_options" where
  "cli_delete_options a = \<lparr>nft_output = da_output a, dry_run = False, apply_nft = True, apply_linux = True,
     opt_xdp = xdp_config_disabled []\<rparr>"

lemma cli_delete_full [simp]: "\<not> dry_run (cli_delete_options a)" "full_apply (cli_delete_options a)"
  "nft_output (cli_delete_options a) = da_output a"
  by (simp_all add: cli_delete_options_def full_apply_def)

lemma cli_id_eq: "cli_id v s = (x, t) \<Longrightarrow> t = s" "cli_id v s = (Inr i, t) \<Longrightarrow> mapping_id_from_str v = Inr i"
  by (auto simp: cli_id_def)

lemma cleanup_ids:
  fixes s :: "('h, 'w) console_scheme"
  shows "cleanup_mapping_oci E m s = (r, t) \<Longrightarrow> t_mappings t = t_mappings s"
  using cleanup_effect by (fastforce simp: only_ran_def)

lemma get_mapping_ids: "get_mapping E i s = (r, t) \<Longrightarrow> t_mappings t = t_mappings s"
  by (auto dest!: readsD [OF reads_get_mapping])

lemma map_delete_failed:
  fixes s :: "('h, 'w) console_scheme"
  assumes "map_delete E cfg a s = (Inl e, t)"
  shows "map r_id (t_mappings t) = map r_id (t_mappings s)"
  using assms unfolding map_delete_def
  by (elim eff_bind_cases;
      auto simp: cli_errors_eq split: if_splits elim!: eff_bind_cases
        dest!: cli_errors_eq(2,4) cli_id_eq(1) get_mapping_ids set_enabled_ids reconcile_ids cleanup_ids delete_mapping_Inl)

lemma map_delete_success:
  fixes s :: "('h, 'w) console_scheme"
  assumes "map_delete E cfg a s = (Inr x, t)"
  shows "\<exists>i m (s1 :: ('h, 'w) console_scheme) d s2 s3 s4 d' s5. mapping_id_from_str (da_id a) = Inr i \<and>
    get_mapping E i s = (Inr m, s1) \<and> set_mapping_enabled E i False s1 = (Inr d, s2) \<and>
    (if da_skip_reconcile a then s3 = s2
     else \<exists>rep. reconcile E reconciler_default cfg (cli_delete_options a) s2 = (Inr rep, s3)) \<and>
    (if da_keep_oci_resources a then s4 = s3 else cleanup_mapping_oci E m s3 = (Inr (), s4)) \<and>
    delete_mapping E i s4 = (Inr d', s5) \<and> trace t = trace s5 \<and> t_mappings t = t_mappings s5"
proof -
  let ?rec = "\<lambda>i. if \<not> da_skip_reconcile a
      then eff_bind (with_context (''reconcile disabled mapping '' @ id_str i) (cli_reconciled
             (reconcile E reconciler_default cfg (cli_delete_options a)))) (\<lambda>_. eff_ret ())
      else eff_ret ()"
  from assms [unfolded map_delete_def cli_delete_options_def [symmetric]] obtain i s0 m s1 d s2 y s3 z s4 d' s5 where
    steps: "cli_id (da_id a) s = (Inr i, s0)" "get_mapping E i s0 = (Inr m, s1)"
      "set_mapping_enabled E i False s1 = (Inr d, s2)" "?rec i s2 = (Inr y, s3)"
      "(if \<not> da_keep_oci_resources a then cleanup_mapping_oci E m else eff_ret ()) s3 = (Inr z, s4)"
      "delete_mapping E i s4 = (Inr d', s5)" "println (''Deleted mapping: '' @ id_str (m_id d')) s5 = (Inr x, t)"
    unfolding eff_bind_eq_Inr cli_errors_eq by blast
  have "trace t = trace s5" "t_mappings t = t_mappings s5" using steps(7) by auto
  moreover have "if da_skip_reconcile a then s3 = s2
      else \<exists>rep. reconcile E reconciler_default cfg (cli_delete_options a) s2 = (Inr rep, s3)"
    using steps(4) by (auto simp: eff_bind_eq_Inr cli_errors_eq)
  moreover have "if da_keep_oci_resources a then s4 = s3 else cleanup_mapping_oci E m s3 = (Inr (), s4)"
    using steps(5) by auto
  moreover have "s0 = s" "mapping_id_from_str (da_id a) = Inr i" using cli_id_eq steps(1) by blast+
  ultimately show ?thesis using steps(2,3,6) by blast
qed

text \<open>C14. Deleting a mapping with the tool never loses it half-way: if the command fails, at whatever point,
  the table still holds exactly the same mappings. If it succeeds, exactly the one with the identifier
  is gone; unless the flags skip it, \<open>nft\<close> first checked and applied, with success, a script without
  the mapping, and only then, for every cloud address of the mapping, the deletion succeeded or failed, not
  by a timeout, with an error whose text has \<open>notfound\<close>, \<open>not found\<close> or \<open>404\<close> in it.\<close>

theorem cli_delete_mapping_safe:
  fixes s :: "('h, 'w) console_scheme"
  assumes run: "map_delete E cfg a s = (r, t)" and inv: "sql_invar E s"
  shows "case r of
    Inl _ \<Rightarrow> map r_id (t_mappings t) = map r_id (t_mappings s)
  | Inr _ \<Rightarrow> (\<exists>i m nft oci. mapping_id_from_str (da_id a) = Inr i \<and> sql_view E s i = Some m \<and>
      map r_id (t_mappings t) = filter (\<lambda>k. k \<noteq> id_str i) (map r_id (t_mappings s)) \<and>
      trace t = trace s @ nft @ oci \<and>
      (\<not> da_skip_reconcile a \<longrightarrow> applied_without E cfg i (da_output a) s nft) \<and>
      (\<not> da_keep_oci_resources a \<longrightarrow> addresses_gone m oci))"
proof (cases r)
  case (Inl e)
  then show ?thesis using map_delete_failed run by simp
next
  case (Inr x)
  from map_delete_success [OF run [unfolded Inr]] obtain i m d d' and s1 s2 s3 s4 s5 :: "('h, 'w) console_scheme" where
    i: "mapping_id_from_str (da_id a) = Inr i" and get: "get_mapping E i s = (Inr m, s1)"
    and dis: "set_mapping_enabled E i False s1 = (Inr d, s2)"
    and rec: "if da_skip_reconcile a then s3 = s2
      else \<exists>rep. reconcile E reconciler_default cfg (cli_delete_options a) s2 = (Inr rep, s3)"
    and oci: "if da_keep_oci_resources a then s4 = s3 else cleanup_mapping_oci E m s3 = (Inr (), s4)"
    and del: "delete_mapping E i s4 = (Inr d', s5)" and t: "trace t = trace s5" "t_mappings t = t_mappings s5"
    by blast
  obtain n where s1: "s1 = s\<lparr>tick := n\<rparr>" using readsD [OF reads_get_mapping get] by blast
  have m: "sql_view E s i = Some m" using get_mapping_Inr [OF get] by (simp add: s1)
  have inv1: "sql_invar E s1" using inv by (simp add: s1 sql_invar_def)
  have "map r_id (t_mappings s3) = map r_id (t_mappings s2)" using rec reconcile_ids by (auto split: if_splits)
  with set_enabled_ids [OF dis] have ids: "map r_id (t_mappings s3) = map r_id (t_mappings s)" by (simp add: s1)
  have "\<exists>nft. trace s3 = trace s1 @ nft \<and> (\<not> da_skip_reconcile a \<longrightarrow> applied_without E cfg i (da_output a) s1 nft)"
    using rec disabled_applied [OF dis inv1] set_mapping_enabled_effect [OF dis] by (fastforce split: if_splits)
  then obtain nft where nft: "trace s3 = trace s @ nft"
      "\<not> da_skip_reconcile a \<longrightarrow> applied_without E cfg i (da_output a) s nft"
    using applied_tick [of E cfg i "da_output a" n s] unfolding s1 by auto
  obtain oci where oci: "trace s4 = trace s3 @ oci" "t_mappings s4 = t_mappings s3"
    "\<not> da_keep_oci_resources a \<longrightarrow> addresses_gone m oci"
    using oci cleanup_effect by (fastforce simp: only_ran_def split: if_splits)
  have "trace t = trace s @ nft @ oci" using t(1) delete_mapping_Inr [OF del] oci(1) nft(1) by auto
  moreover have "map r_id (t_mappings t) = filter (\<lambda>k. k \<noteq> id_str i) (map r_id (t_mappings s))"
    by (simp only: t(2) deleted_ids [OF del] oci(2) ids)
  ultimately show ?thesis unfolding Inr sum.case using i m nft(2) oci(3) by blast
qed

definition sample_delete :: delete_mapping_args where
  "sample_delete = \<lparr>da_id = id_str (m_id sample_tcp), da_keep_oci_resources = False, da_skip_reconcile = False,
     da_output = ''generated.nft''\<rparr>"

text \<open>A mapping with both cloud addresses, alone in the store, and a machine on which every command succeeds.\<close>

definition cloud_tcp :: mapping where
  "cloud_tcp = sample_tcp\<lparr>oci_public_ip_ocid := Some ''ocid1.publicip.7'', oci_private_ip_ocid := Some ''ocid1.privateip.7''\<rparr>"

definition working_cli :: "(string \<Rightarrow> ipv4_addr list) cli_env" where
  "working_cli = sample_cli\<lparr>run_cmd := sample_host_run\<rparr>"

definition cloud_console :: "(string \<Rightarrow> ipv4_addr list) console" where
  "cloud_console = sample_console\<lparr>t_mappings := [sample_row cloud_tcp]\<rparr>"

lemma get_single:
  assumes "sql_fault E (tick s) = None" "t_mappings s = [r]" "row_to_mapping E r = Inr m" "r_id r = id_str i"
  shows "get_mapping E i s = (Inr m, s\<lparr>tick := Suc (tick s)\<rparr>)"
  using assms by (simp add: get_mapping_def select_ok eff_bind_def)

lemma disable_single:
  assumes f: "\<And>n. sql_fault E n = None" and s: "t_mappings s = [r]" and d: "row_to_mapping E r = Inr m"
    and i: "r_id r = id_str i" and t: "format_time E (clock E (tick s)) = Inr time" "time_doc E"
  shows "\<exists>x. set_mapping_enabled E i False s =
    (Inr x, s\<lparr>t_mappings := [enabled_row False time r], tick := tick s + 3\<rparr>)"
proof -
  let ?u = "s\<lparr>t_mappings := [enabled_row False time r], tick := tick s + 2\<rparr>"
  have "parse_time E time = Inr (clock E (tick s))" by (rule parse_format_time [OF t(2,1)])
  from row_assign_enabled [OF d this, of False]
  have g: "get_mapping E i ?u = (Inr (mapping_set_enabled (clock E (tick s)) False m), ?u\<lparr>tick := tick s + 3\<rparr>)"
    using get_single [OF f, of ?u] i by (simp add: eval_nat_numeral)
  have "query E (update_mapping_row True (id_str i) (assign_enabled False (status_wire MDisabled) time))
      (s\<lparr>tick := Suc (tick s)\<rparr>) = (Inr 1, ?u)"
    using s i f by (simp add: query_def Let_def update_mapping_row_def enabled_row_def eval_nat_numeral
        check_row_def raise_conflict_def violated_index_def first_check.simps)
  with g t(1) show ?thesis
    by (simp add: set_mapping_enabled_def now_utc_def eff_bind_def Let_def)
qed

lemma working_cli_env:
  "all_works working_cli" "time_doc working_cli" "format_time working_cli t = Inr (sample_time_text t)"
  "row_to_mapping working_cli r = row_to_mapping sample_host_env r"
  "mapping_ok working_cli cfg m = mapping_ok cidr_ops cfg m"
proof -
  have e: "time_parse working_cli = time_parse sample_host_env" "time_format working_cli = time_format sample_host_env"
    "enum_error working_cli = enum_error sample_host_env" "sql_fault working_cli = sql_fault sample_host_env"
    "io_fault working_cli = io_fault sample_host_env" "run_cmd working_cli = run_cmd sample_host_env"
    "net_contains working_cli = net_contains sample_host_env" "net_network working_cli = net_network sample_host_env"
    "net_broadcast working_cli = net_broadcast sample_host_env"
    by (simp_all add: working_cli_def sample_cli_def sample_cloud_def sample_netbird_env_def oci_env.defs
        netbird_env.defs host_env.defs del: sample_host_env_simps)
  show "all_works working_cli" "time_doc working_cli"
    using sample_host_works by (simp_all add: all_works_def time_doc_def e)
  show "format_time working_cli t = Inr (sample_time_text t)" by (simp add: format_time_def e)
  show "row_to_mapping working_cli r = row_to_mapping sample_host_env r" by (rule row_to_mapping_cong [OF e(1,3)])
  show "mapping_ok working_cli cfg m = mapping_ok cidr_ops cfg m" by (rule net_only) (simp_all only: e sample_host_env_simps)
qed

lemma delete_present:
  assumes f: "\<And>n. sql_fault E n = None" and v: "sql_view E s i = Some m"
  shows "\<exists>t. delete_mapping E i s = (Inr m, t)"
proof -
  have "get_mapping E i s = (Inr m, s\<lparr>tick := Suc (tick s)\<rparr>)"
    using v f by (auto simp: sql_view_Some row_at_def get_mapping_def select_ok eff_bind_def)
  with f show ?thesis by (simp add: delete_mapping_def eff_bind_def query_def delete_mapping_row_def Let_def)
qed

lemma cleanup_works:
  fixes s :: "('h, 'w) console_scheme"
  assumes "all_works E"
  shows "\<exists>t. cleanup_mapping_oci E m s = (Inr (), t)"
proof -
  have run: "\<exists>c u. oci_run_owned E oci_cli_default args q = (Inr c, u)" for args and q :: "('h, 'w) console_scheme"
  proof -
    obtain out h where out: "run_cmd E (tick q) (hstate q) oci_cli_default args = (out, h)"
      by (cases "run_cmd E (tick q) (hstate q) oci_cli_default args")
    then have "cmd_ok out" using assms by (metis all_works_def fst_conv)
    with out show ?thesis by (cases out) (simp_all add: oci_run_owned_def eff_bind_def command_def cmd_ok_def)
  qed
  have del: "\<exists>u. cleanup_address (\<lambda>i. eff_bind (oci_run_owned E oci_cli_default (args i)) (\<lambda>_. eff_ret ())) kind v f q = (Inr f, u)"
    for args kind v f and q :: "('h, 'w) console_scheme"
  proof (cases v)
    case (Some i)
    obtain c u where "oci_run_owned E oci_cli_default (args i) q = (Inr c, u)" using run by blast
    with Some show ?thesis by (simp add: cleanup_address_def eff_catch_def eff_bind_def)
  qed (simp add: cleanup_address_def)
  from del [of public_delete_args "''public IP''" "oci_public_ip_ocid m" "[]" s] obtain u where
    "cleanup_address (delete_public_ip E oci_cli_default) ''public IP'' (oci_public_ip_ocid m) [] s = (Inr [], u)"
    by (auto simp: delete_public_ip_def [abs_def])
  moreover from del [of private_delete_args "''private IP''" "oci_private_ip_ocid m" "[]" u] obtain t where
    "cleanup_address (delete_private_ip E oci_cli_default) ''private IP'' (oci_private_ip_ocid m) [] u = (Inr [], t)"
    by (auto simp: delete_private_ip_def [abs_def])
  ultimately show ?thesis by (simp add: cleanup_mapping_oci_def eff_bind_def)
qed

lemma map_delete_returns:
  fixes s :: "('h, 'w) console_scheme"
  assumes "mapping_id_from_str (da_id a) = Inr i" "get_mapping E i s = (Inr m, u)"
    "set_mapping_enabled E i False u = (Inr d, v)" "\<not> da_skip_reconcile a" "\<not> da_keep_oci_resources a"
    "reconcile E reconciler_default cfg (cli_delete_options a) v = (Inr rep, w)"
    "cleanup_mapping_oci E m w = (Inr (), x)" "delete_mapping E i x = (Inr d', z)"
  shows "\<exists>t. map_delete E cfg a s = (Inr (), t)"
proof -
  have core: "cli_core m q = (Inr y, q')" if "m q = (Inr y, q')" for m y and q q' :: "('h, 'w) console_scheme"
    using that by (simp add: cli_errors_eq)
  have rec: "with_context msg (cli_reconciled (reconcile E reconciler_default cfg (cli_delete_options a))) v = (Inr rep, w)" for msg
    using assms(6) by (simp add: cli_errors_eq)
  have i: "cli_id (da_id a) s = (Inr i, s)" using assms(1) by (simp add: cli_id_def)
  show ?thesis
    unfolding map_delete_def cli_delete_options_def [symmetric]
    by (simp only: assms(4,5,7) eff_bind_def i rec core [of "get_mapping E i", OF assms(2)]
        core [of "set_mapping_enabled E i False", OF assms(3)] core [of "delete_mapping E i", OF assms(8)]
        eff_ret_app not_False_eq_True if_True prod.case sum.case println_effect) simp
qed

lemma cloud_tcp_ok: "mapping_ok cidr_ops sample_config cloud_tcp" "id_wf (m_id cloud_tcp)" "m_id cloud_tcp = m_id sample_tcp"
proof -
  have "mapping_ok cidr_ops sample_config sample_tcp" using sample_env_valid(1) by simp
  then show "mapping_ok cidr_ops sample_config cloud_tcp"
    by (cases "m_mode sample_tcp") (simp_all add: cloud_tcp_def mapping_ok_def backend_ok_def ports_ok_def)
  show "id_wf (m_id cloud_tcp)" "m_id cloud_tcp = m_id sample_tcp" using sample_id_wf(1) by (simp_all add: cloud_tcp_def)
qed

lemma cloud_decodes:
  "row_to_mapping working_cli (sample_row cloud_tcp) = Inr cloud_tcp"
  "row_to_mapping working_cli (enabled_row False (sample_time_text n) (sample_row cloud_tcp)) =
     Inr (mapping_set_enabled n False cloud_tcp)"
proof -
  show d: "row_to_mapping working_cli (sample_row cloud_tcp) = Inr cloud_tcp"
    using sample_host_row [OF cloud_tcp_ok(1,2)] by (simp add: working_cli_env(4))
  show "row_to_mapping working_cli (enabled_row False (sample_time_text n) (sample_row cloud_tcp)) =
     Inr (mapping_set_enabled n False cloud_tcp)"
    by (rule row_assign_enabled [OF d parse_format_time [OF working_cli_env(2,3)]])
qed

lemma working_cli_faults [simp]: "sql_fault working_cli n = None"
  using working_cli_env(1) by (simp add: all_works_def)

lemma cloud_reconciles:
  fixes s :: "(string \<Rightarrow> ipv4_addr list) console"
  assumes s: "t_mappings s = [enabled_row False (sample_time_text n) (sample_row cloud_tcp)]"
    "seq_generations s = 0" "seq_events s = 0"
  shows "\<exists>rep t d. reconcile working_cli reconciler_default sample_config (cli_delete_options sample_delete) s = (Inr rep, t) \<and>
    sql_view working_cli t (m_id sample_tcp) = Some d"
proof -
  let ?m = "mapping_set_enabled n False cloud_tcp"
  have inv: "sql_invar working_cli s"
    using cloud_decodes(2) by (simp add: sql_invar_def s row_good_def cloud_tcp_ok(3) mapping_set_enabled_def)
  have l: "list_mappings working_cli s = (Inr [?m], s\<lparr>tick := Suc (tick s)\<rparr>)"
    by (simp add: list_mappings_def select_ok eff_bind_def s cloud_decodes)
  have "mapping_ok cidr_ops sample_config ?m"
    using cloud_tcp_ok(1) by (cases "m_mode cloud_tcp") (simp_all add: mapping_set_enabled_def mapping_ok_def backend_ok_def ports_ok_def)
  then have v: "validate_mappings working_cli [?m] sample_config = Inr ()"
    by (simp add: validate_mappings_ok working_cli_env(5))
  have x: "xdp_validate_config (opt_xdp (cli_delete_options sample_delete)) = Inr ()"
    by (simp add: cli_delete_options_def xdp_config_disabled_def xdp_validate_config_def)
  have "filter is_xdp [?m] = []" by (simp add: is_xdp_def mapping_set_enabled_def)
  from reconcile_total_ready [OF working_cli_env(1,2) inv l v x this, where R = reconciler_default] obtain rep t where
    "reconcile working_cli reconciler_default sample_config (cli_delete_options sample_delete) s = (Inr rep, t)"
    "ready working_cli [?m] 0 0 t"
    using s by (auto simp: i64_max_def)
  then show ?thesis by (auto simp: ready_def cloud_tcp_ok(3))
qed

text \<open>The reconciliation runs, and both addresses are deleted.\<close>

theorem cli_delete_mapping_safe_witness:
  "\<exists>t nft oci. map_delete working_cli sample_config sample_delete cloud_console = (Inr (), t) \<and>
     map r_id (t_mappings cloud_console) = [id_str (m_id sample_tcp)] \<and> map r_id (t_mappings t) = [] \<and>
     trace t = trace cloud_console @ nft @ oci \<and>
     applied_without working_cli sample_config (m_id sample_tcp) ''generated.nft'' cloud_console nft \<and>
     (\<exists>fs out. Ran oci_cli_default (public_delete_args ''ocid1.publicip.7'') fs out \<in> set oci \<and> reported_gone out)"
proof -
  let ?i = "m_id sample_tcp" and ?s = cloud_console
  let ?u = "?s\<lparr>tick := Suc (tick ?s)\<rparr>"
  let ?r = "enabled_row False (sample_time_text (clock working_cli (tick ?u))) (sample_row cloud_tcp)"
  let ?v = "?u\<lparr>t_mappings := [?r], tick := tick ?u + 3\<rparr>"
  have rows: "t_mappings ?s = [sample_row cloud_tcp]" by (simp add: cloud_console_def)
  have id: "r_id (sample_row cloud_tcp) = id_str ?i" by (simp add: sample_row_def mapping_columns_def cloud_tcp_ok)
  have i: "mapping_id_from_str (da_id sample_delete) = Inr ?i"
    using sample_id_wf(1) by (simp add: sample_delete_def id_wf_def mapping_id_from_str_def Let_def)
  have g: "get_mapping working_cli ?i ?s = (Inr cloud_tcp, ?u)"
    by (rule get_single [OF _ rows cloud_decodes(1) id]) simp
  obtain d where d: "set_mapping_enabled working_cli ?i False ?u = (Inr d, ?v)"
    using disable_single [of working_cli ?u "sample_row cloud_tcp" cloud_tcp ?i, OF _ _ cloud_decodes(1) id working_cli_env(3,2)]
      rows by auto
  have "seq_generations ?v = 0" "seq_events ?v = 0"
    by (simp_all add: cloud_console_def sample_console_def world.defs sample_world_def empty_db_def db.defs)
  then obtain rep w e where rec: "reconcile working_cli reconciler_default sample_config (cli_delete_options sample_delete) ?v = (Inr rep, w)"
    and e: "sql_view working_cli w ?i = Some e"
    using cloud_reconciles [of ?v "clock working_cli (tick ?u)"] by auto
  obtain x where x: "cleanup_mapping_oci working_cli cloud_tcp w = (Inr (), x)" using cleanup_works [OF working_cli_env(1)] by blast
  then have "sql_view working_cli x ?i = Some e" using e cleanup_ids [OF x] by (simp add: sql_view_def)
  then obtain z where "delete_mapping working_cli ?i x = (Inr e, z)" using delete_present [of working_cli x ?i e] by auto
  from map_delete_returns [OF i g d _ _ rec x this] obtain t where
    run: "map_delete working_cli sample_config sample_delete ?s = (Inr (), t)" by (auto simp: sample_delete_def)
  have "sql_invar working_cli ?s" using cloud_decodes(1) by (simp add: sql_invar_def rows row_good_def id cloud_tcp_ok)
  from cli_delete_mapping_safe [OF run this] show ?thesis
    using run i get_mapping_Inr [OF g] by (auto simp: rows id sample_delete_def addresses_gone_def cloud_tcp_def)
qed

section \<open>Telling that an address is gone\<close>

text \<open>\<open>is_oci_not_found\<close> looks for \<open>404\<close> anywhere in the text of the error, so a refused deletion whose
  message has these digits in a request identifier is taken for a missing address.\<close>

theorem not_found_misread:
  "is_oci_not_found (outcome_error (Exited (Some 1) []
     ''ServiceError: status 429, code TooManyRequests, opc-request-id 7C1404D2''))"
  by code_simp

end
