(* ===== verification/Agent_Main.thy ===== *)
theory Agent_Main
  imports System_Props
begin

text \<open>
  The rest of \<open>main\<close> of \<open>src/crates/edge-agent/src/main.rs\<close>: after \<open>agent_start\<close> the agent takes its
  Unix socket, or its address, and hands the router to the server.

  The entry of a socket in the file system is a file without content. What else \<open>Path::exists\<close> sees, such as a
  directory, and whether binding succeeds are parameters; by the documentation of \<open>bind\<close> it fails when the path is
  taken. The server itself is axum's; \<open>agent_serve\<close> is a history of requests answered by the dispatch \<open>handle\<close>.
\<close>

section \<open>Listening\<close>

record 'h serve_env = "'h cli_env" +
  entry_at :: "nat \<Rightarrow> string \<Rightarrow> bool"
  bind_fault :: "nat \<Rightarrow> string option"
  addr_in_use :: string

datatype listener = OnUnix string | OnTcp socket_addr

definition path_exists :: "('h, 'e) serve_env_scheme \<Rightarrow> string \<Rightarrow> (('h, 'w) world_scheme, 'f, bool) eff" where
  "path_exists E p s = (Inr (files s p \<noteq> None \<or> entry_at E (tick s) p), s)"

definition remove_file :: "('h, 'e) host_env_scheme \<Rightarrow> string \<Rightarrow> (('h, 'w) world_scheme, string, unit) eff" where
  "remove_file E p = fs_call E (\<lambda>f. f(p := None)) (\<lambda>_ f. f)"

definition bind_tcp :: "('h, 'e) serve_env_scheme \<Rightarrow> (('h, 'w) world_scheme, string, unit) eff" where
  "bind_tcp E s =
     ((case bind_fault E (tick s) of Some msg \<Rightarrow> Inl msg | None \<Rightarrow> Inr ()), s\<lparr>tick := Suc (tick s)\<rparr>)"

definition bind_unix :: "('h, 'e) serve_env_scheme \<Rightarrow> string \<Rightarrow> (('h, 'w) world_scheme, string, unit) eff" where
  "bind_unix E p s =
     eff_bind (bind_tcp E) (\<lambda>_ u.
       if files u p \<noteq> None then (Inl (addr_in_use E), u) else (Inr (), u\<lparr>files := (files u)(p \<mapsto> [])\<rparr>)) s"

definition io_step :: "string \<Rightarrow> ('s, string, 'a) eff \<Rightarrow> ('s, anyhow failure, 'a) eff" where
  "io_step context m = with_context context (eff_map_err (\<lambda>e. Fail [e]) m)"

definition agent_listen :: "('h, 'e) serve_env_scheme \<Rightarrow> (socket_addr \<Rightarrow> string) \<Rightarrow> agent_args \<Rightarrow>
    (('h, 'w) world_scheme, anyhow failure, listener) eff" where
  "agent_listen E show args =
     (case ag_unix_socket args of
        Some socket \<Rightarrow>
          eff_bind (path_exists E socket) (\<lambda>stale.
          eff_bind (if stale then io_step (''remove stale socket '' @ socket) (remove_file E socket) else eff_ret ()) (\<lambda>_.
          eff_bind (case path_parent socket of
                      Some parent \<Rightarrow> io_step (''create socket dir '' @ parent) (create_dir_all E parent)
                    | None \<Rightarrow> eff_ret ()) (\<lambda>_.
          eff_bind (io_step (''bind unix socket '' @ socket) (bind_unix E socket)) (\<lambda>_.
          eff_ret (OnUnix socket)))))
      | None \<Rightarrow>
          eff_bind (io_step (''bind '' @ show (ag_bind args)) (bind_tcp E)) (\<lambda>_.
          eff_ret (OnTcp (ag_bind args))))"

definition agent_main :: "('h, 'e) serve_env_scheme \<Rightarrow> (socket_addr \<Rightarrow> string) \<Rightarrow> agent_args \<Rightarrow>
    (('h, 'w) world_scheme, anyhow failure, edge_config \<times> listener) eff" where
  "agent_main E show args =
     eff_bind (agent_start E show args) (\<lambda>cfg.
     eff_bind (agent_listen E show args) (\<lambda>l. eff_ret (cfg, l)))"

text \<open>A history: the requests in the order they are taken, each with its headers.\<close>

fun agent_serve :: "('h, 'e) oci_env_scheme \<Rightarrow> ('m, 'x) header_ops_scheme \<Rightarrow> edge_config \<Rightarrow> ('m \<times> api_request) list \<Rightarrow>
    ('h, 'w) world_scheme \<Rightarrow> (api_error failure, api_response) result list \<times> ('h, 'w) world_scheme" where
  "agent_serve E H cfg [] s = ([], s)"
| "agent_serve E H cfg ((hs, rq) # rqs) s =
     (case handle E H cfg hs rq s of (r, t) \<Rightarrow>
      case agent_serve E H cfg rqs t of (rs, u) \<Rightarrow> (r # rs, u))"

section \<open>What starting leaves alone\<close>

lemma agent_start_keeps:
  assumes "agent_start E show args s = (r, t)"
  shows "db.more t = db.more s \<and> t_mappings t = t_mappings s"
proof -
  let ?P = "\<lambda>u. db.more u = db.more s \<and> t_mappings u = t_mappings s"
  have tick: "ignores_tick ?P" by (simp add: ignores_tick_def)
  have q: "keeps ?P (query E (upsert_config v))" for v
    by (rule keeps_query [OF tick]) (auto simp: upsert_config_def)
  have "keeps ?P (agent_start E show args)"
    unfolding agent_start_def cli_core_def resolve_edge_config_def ensure_edge_config_def set_edge_config_def
      get_edge_config_def Let_def
    by (intro keeps_intros q; rule keeps_reads [OF tick]; intro reads_intros)
  from keepsD [OF this assms] show ?thesis by simp
qed

text \<open>A step of the listening stage changes no file but the socket.\<close>

definition socket_only :: "agent_args \<Rightarrow> ('h, 'w) world_scheme \<Rightarrow> ('h, 'w) world_scheme \<Rightarrow> bool" where
  "socket_only args s u \<longleftrightarrow> touches (set_option (ag_unix_socket args)) s u"

lemma socket_only_touches: "touches (set_option (ag_unix_socket args)) u v \<Longrightarrow> socket_only args s u \<Longrightarrow> socket_only args s v"
  unfolding socket_only_def by (rule touches_trans)

lemma keeps_socket_only:
  "(\<And>u r v. m u = (r, v) \<Longrightarrow> touches (set_option (ag_unix_socket args)) u v) \<Longrightarrow> keeps (socket_only args s) m"
  by (rule keepsI) (metis socket_only_touches surjective_pairing)

lemma keeps_bind_tcp: "keeps (socket_only args s) (bind_tcp E)"
  by (rule keeps_socket_only) (auto simp: bind_tcp_def intro: touches_tick)

lemma keeps_path_exists: "keeps (socket_only args s) (path_exists E q)"
  by (rule keeps_socket_only) (auto simp: path_exists_def intro: touches_refl)

lemma keeps_create_dir: "keeps (socket_only args s) (create_dir_all E d)"
  by (rule keeps_socket_only)
    (auto simp: create_dir_all_def intro: touches_refl elim!: touches_fs_call split: if_splits)

lemma keeps_remove_file: "ag_unix_socket args = Some p \<Longrightarrow> keeps (socket_only args s) (remove_file E p)"
  by (rule keeps_socket_only) (auto simp: remove_file_def elim!: touches_fs_call split: if_splits)

lemma keeps_bind_unix:
  assumes "ag_unix_socket args = Some p"
  shows "keeps (socket_only args s) (bind_unix E p)"
proof -
  have set_file: "touches (set_option (ag_unix_socket args)) u (u\<lparr>files := (files u)(p \<mapsto> [])\<rparr>)" for u :: "('a, 'b) world_scheme"
    unfolding touches_def using assms by (intro exI [of _ "tick u"] exI [of _ "(files u)(p \<mapsto> [])"]) auto
  have "keeps (socket_only args s) (\<lambda>u. if files u p \<noteq> None then (Inl (addr_in_use E), u) else (Inr (), u\<lparr>files := (files u)(p \<mapsto> [])\<rparr>))"
    by (rule keeps_socket_only) (auto intro: touches_refl set_file split: if_splits)
  then have "keeps (socket_only args s) (eff_bind (bind_tcp E)
      (\<lambda>_ u. if files u p \<noteq> None then (Inl (addr_in_use E), u) else (Inr (), u\<lparr>files := (files u)(p \<mapsto> [])\<rparr>)))"
    by (intro keeps_bind keeps_bind_tcp)
  then show ?thesis unfolding bind_unix_def [abs_def] .
qed

lemma keeps_io_step: "keeps P m \<Longrightarrow> keeps P (io_step context m)"
  unfolding io_step_def with_context_def by (intro keeps_intros)

lemma agent_listen_keeps: "keeps (socket_only args s) (agent_listen E show args)"
proof (cases "ag_unix_socket args")
  case None
  then show ?thesis by (simp add: agent_listen_def) (intro keeps_intros keeps_io_step keeps_bind_tcp)
next
  case (Some p)
  then show ?thesis unfolding agent_listen_def Some option.case
    by (intro keeps_bind keeps_ret keeps_if keeps_io_step keeps_path_exists keeps_remove_file keeps_bind_unix)
      (auto simp: Some intro: keeps_io_step keeps_create_dir keeps_ret split: option.split)
qed

lemma agent_main_cases:
  assumes "agent_main E show args s = (r, t)"
  obtains (refused) e where "agent_start E show args s = (Inl e, t)" "r = Inl e"
  | (started) cfg u where "agent_start E show args s = (Inr cfg, u)" "socket_only args u t"
      "\<And>c l. r = Inr (c, l) \<Longrightarrow> c = cfg \<and> agent_listen E show args u = (Inr l, t)"
proof (cases "agent_start E show args s")
  case (Pair q u)
  show thesis
  proof (cases q)
    case (Inl e)
    with Pair assms refused show thesis by (simp add: agent_main_def eff_bind_def)
  next
    case (Inr cfg)
    obtain x v where x: "agent_listen E show args u = (x, v)" by (cases "agent_listen E show args u")
    with Pair Inr assms have v: "v = t" "r = (case x of Inl e \<Rightarrow> Inl e | Inr l \<Rightarrow> Inr (cfg, l))"
      by (auto simp: agent_main_def eff_bind_def eff_ret_def split: sum.splits)
    have "socket_only args u t"
      using keepsD [OF agent_listen_keeps x] v(1) by (simp add: socket_only_def touches_refl)
    then show thesis using started Pair Inr x v by (cases x) auto
  qed
qed

lemma agent_listen_result:
  assumes "agent_listen E show args s = (Inr l, t)"
  shows "case l of OnUnix p \<Rightarrow> ag_unix_socket args = Some p \<and> files t p = Some [] | OnTcp a \<Rightarrow> a = ag_bind args"
  using assms
  by (auto simp: agent_listen_def bind_unix_def io_step_def with_context_def eff_map_err_def eff_ret_def
      elim!: eff_bind_cases split: option.splits if_splits prod.splits sum.splits)

lemma agent_start_guard:
  assumes "agent_start E show args s = (Inr cfg, t)"
  shows "\<not> unspecified (sa_ip (ag_bind args)) \<and> (ag_allow_no_auth args \<or> api_token cfg \<noteq> None)"
  using assms by (auto simp: agent_start_def eff_bind_eq_Inr reject_public_bind_def Let_def split: if_splits)

lemma agent_serve_denied:
  assumes "list_all (\<lambda>(hs, rq). require_auth H (api_token cfg) hs = Inl e) rqs"
  shows "agent_serve E H cfg rqs s = (map (\<lambda>_. Inl (Fail e)) rqs, s)"
  using assms by (induction rqs) (auto simp: handle_denied simp del: handle.simps)

text \<open>The agent takes its socket whenever no call fails, whatever is at the path: that is removed, be it the socket of an agent that is running or a file of
  another kind: nothing checks that it is a stale socket.\<close>

lemma agent_listen_unix:
  assumes "ag_unix_socket args = Some p" "\<forall>n. io_fault E n = None" "\<forall>n. bind_fault E n = None"
  shows "\<exists>t. agent_listen E show args s = (Inr (OnUnix p), t) \<and> files t p = Some []"
  using assms
  by (auto simp: agent_listen_def path_exists_def remove_file_def fs_call_def create_dir_all_def bind_unix_def
      bind_tcp_def io_step_def with_context_def eff_map_err_def eff_bind_def eff_ret_def Let_def split: option.splits)

section \<open>Sample run\<close>

definition sample_serve :: "(string \<Rightarrow> ipv4_addr list) serve_env" where
  "sample_serve = cli_env.extend sample_cli (serve_env.fields (\<lambda>_ _. False) (\<lambda>_. None) ''Address already in use'')"

definition sample_args :: agent_args where
  "sample_args = sample_agent_args\<lparr>ag_unix_socket := Some ''/run/edge-agent.sock''\<rparr>"

lemma sample_serve_answers:
  "config_from_json sample_serve = sample_unjson" "db_open sample_serve p = None" "sql_fault sample_serve n = None"
  "io_fault sample_serve n = None" "bind_fault sample_serve n = None" "entry_at sample_serve n p = False"
  by (simp_all add: sample_serve_def cli_env.defs serve_env.defs sample_cli_def sample_cloud_def sample_netbird_env_def
      oci_env.defs netbird_env.defs host_env.defs sample_host_env_def env_ops.defs)

abbreviation stored_console :: "(string \<Rightarrow> ipv4_addr list) console" where
  "stored_console \<equiv> sample_console\<lparr>t_config := [(''default'', ''sample'')]\<rparr>"

lemma sample_start:
  "\<exists>u. agent_start sample_serve show sample_args stored_console = (Inr (sample_config\<lparr>api_token := Some ''secret''\<rparr>), u)"
  by (simp add: agent_start_def sample_args_def sample_agent_args_def reject_public_bind_def unspecified_def
      ip_is_unspecified_def load_config_def open_store_def sample_serve_answers resolve_edge_config_def
      ensure_edge_config_def get_edge_config_def eff_bind_def cli_core_def eff_map_err_def query_def select_stmt_def Let_def
      sample_unjson_def sample_config_def edge_config_new_def)

lemma sample_main:
  "\<exists>t. agent_main sample_serve show sample_args stored_console =
     (Inr (sample_config\<lparr>api_token := Some ''secret''\<rparr>, OnUnix ''/run/edge-agent.sock''), t)"
proof -
  obtain u where u: "agent_start sample_serve show sample_args stored_console = (Inr (sample_config\<lparr>api_token := Some ''secret''\<rparr>), u)"
    using sample_start by blast
  obtain t where "agent_listen sample_serve show sample_args u = (Inr (OnUnix ''/run/edge-agent.sock''), t)"
    using agent_listen_unix [of sample_args "''/run/edge-agent.sock''" sample_serve "show" u] by (auto simp: sample_args_def sample_serve_answers)
  with u show ?thesis by (simp add: agent_main_def eff_bind_def)
qed

section \<open>Properties\<close>

text \<open>C23. An agent that came up without \<open>--allow-no-auth\<close> listens where its arguments say, on its own fresh socket or on an
  address that is no wildcard, and it has a token: any number of requests none of which carries that token
  are all answered with 401, and together they change nothing.\<close>

theorem agent_main_guarded:
  assumes "agent_main E show args s = (Inr (cfg, l), t)" "\<not> ag_allow_no_auth args"
  shows "(case l of OnUnix p \<Rightarrow> ag_unix_socket args = Some p \<and> files t p = Some []
      | OnTcp a \<Rightarrow> a = ag_bind args \<and> \<not> unspecified (sa_ip a)) \<and>
    (\<exists>token. api_token cfg = Some token \<and>
      (list_all (\<lambda>(hs, rq). auth_sized H hs token \<and> authorization H hs \<noteq> Some (''Bearer '' @ token)) rqs \<longrightarrow>
         agent_serve E H cfg rqs u = (map (\<lambda>_. Inl (Fail api_unauthorized)) rqs, u)))"
  using assms(1)
proof (cases rule: agent_main_cases)
  case (started cfg' v)
  from started(3) [of cfg l] have *: "cfg' = cfg" "agent_listen E show args v = (Inr l, t)" by simp_all
  from agent_start_guard [OF started(1)] assms(2) * obtain token where token: "api_token cfg = Some token"
    and bind: "\<not> unspecified (sa_ip (ag_bind args))" by auto
  have "agent_serve E H cfg rqs u = (map (\<lambda>_. Inl (Fail api_unauthorized)) rqs, u)"
    if "list_all (\<lambda>(hs, rq). auth_sized H hs token \<and> authorization H hs \<noteq> Some (''Bearer '' @ token)) rqs"
    by (rule agent_serve_denied, rule list.pred_mono_strong [OF that]) (use token agent.refuses in auto)
  with agent_listen_result [OF *(2)] bind token show ?thesis by (auto split: listener.splits)
qed simp

theorem agent_main_guarded_witness:
  "\<exists>cfg t. agent_main sample_serve (\<lambda>_. ''127.0.0.1:8443'') sample_args stored_console = (Inr (cfg, OnUnix ''/run/edge-agent.sock''), t) \<and>
     agent_serve sample_serve sample_headers cfg [([], GetStatus), ([], ListMappings)] t =
       ([Inl (Fail api_unauthorized), Inl (Fail api_unauthorized)], t)"
proof -
  obtain t where run: "agent_main sample_serve (\<lambda>_. ''127.0.0.1:8443'') sample_args stored_console =
      (Inr (sample_config\<lparr>api_token := Some ''secret''\<rparr>, OnUnix ''/run/edge-agent.sock''), t)"
    using sample_main by blast
  have "authorization sample_headers [] = None" by (simp add: authorization_def sample_headers_def)
  then show ?thesis
    using agent_main_guarded [OF run, of sample_headers "[([], GetStatus), ([], ListMappings)]" t] run
    by (auto simp: sample_args_def sample_agent_args_def auth_sized_def rust_str_def simp del: agent_serve.simps)
qed

text \<open>Starting the agent, whether it succeeds or fails at any point, stores and deletes no mapping and runs no
  command; the only file it touches besides the database is its socket, and that only after every
  check of its arguments and its configuration has passed: an agent that refuses to start leaves the
  socket of a running one alone.\<close>

theorem agent_main_socket_only:
  assumes "agent_main E show args s = (r, t)"
  shows "t_mappings t = t_mappings s \<and> trace t = trace s \<and> hstate t = hstate s \<and>
    (\<forall>p. files t p \<noteq> files s p \<longrightarrow>
      ag_unix_socket args = Some p \<and> (\<exists>cfg u. agent_start E show args s = (Inr cfg, u)))"
  using assms
proof (cases rule: agent_main_cases)
  case (refused e)
  from agent_start_keeps [OF refused(1)] more_host [of t s] show ?thesis by simp
next
  case (started cfg u)
  from started(2) have t: "touches (set_option (ag_unix_socket args)) u t" by (simp add: socket_only_def)
  from agent_start_keeps [OF started(1)] more_host [of u s] touches_host [OF t] started(1) show ?thesis
    by (auto simp: elem_set)
qed

theorem agent_main_socket_only_witness:
  "\<exists>t. snd (agent_main sample_serve (\<lambda>_. ''127.0.0.1:8443'') sample_args stored_console) = t \<and>
     t_mappings t = [sample_row sample_tcp] \<and> files t ''/etc/hosts'' = files stored_console ''/etc/hosts''"
proof -
  obtain r t where run: "agent_main sample_serve (\<lambda>_. ''127.0.0.1:8443'') sample_args stored_console = (r, t)"
    by (cases "agent_main sample_serve (\<lambda>_. ''127.0.0.1:8443'') sample_args stored_console")
  show ?thesis using agent_main_socket_only [OF run] run by (auto simp: sample_args_def)
qed


end
