(* ===== verification/Sqlite_Migrate.thy ===== *)
theory Sqlite_Migrate
  imports Sqlite_Props Reconcile
begin

text \<open>
  \<open>SqliteStore::connect\<close> and \<open>SqliteStore::migrate\<close> (\<open>src/crates/edge-store/src/lib.rs\<close>): how an existing
  database file, of this or an earlier version of the program, gets the tables, columns, indexes and
  triggers the store relies on.

  The database is here a catalog of tables as SQLite keeps it: the text of the \<open>CREATE TABLE\<close> statement in
  \<open>sqlite_master\<close>, the columns, the indexes with what \<open>PRAGMA index_list\<close> and \<open>index_info\<close> say of them, the
  names of the triggers, and rows that give a value to every column. Statements are those the program
  issues; each may fail in the engine, and a transaction that is not committed leaves nothing behind.
  The declared types of columns are kept in the text only.
\<close>

section \<open>Catalog\<close>

datatype sql_value = VNull | VText string | VInt int

type_synonym raw_row = "(string \<times> sql_value) list"

record index_info =
  ix_name :: string
  ix_unique :: int
  ix_origin :: string
  ix_columns :: "string list"

record raw_table =
  rt_sql :: string
  rt_columns :: "string list"
  rt_indexes :: "index_info list"
  rt_triggers :: "string list"
  rt_rows :: "raw_row list"

record catalog =
  cat_tick :: nat
  cat_tables :: "(string \<times> raw_table) list"

datatype ddl_failure =
    NoSuchTable string
  | TableExists string
  | NoSuchColumn string
  | NotNullFailed string
  | UniqueFailed string

record ddl_env = env_ops +
  ddl_text :: "ddl_failure \<Rightarrow> string"
  create_dir_all :: "string \<Rightarrow> string option"
  pool_connect :: "string \<Rightarrow> string option"

type_synonym 'a ddl_eff = "(catalog, edge_core_error, 'a) eff"
type_synonym 'a ddl_stmt = "catalog \<Rightarrow> (ddl_failure, 'a \<times> catalog) result"

definition ddl :: "'e ddl_env_scheme \<Rightarrow> 'a ddl_stmt \<Rightarrow> 'a ddl_eff" where
  "ddl E st s =
     (let s' = s\<lparr>cat_tick := Suc (cat_tick s)\<rparr>
      in case sql_fault E (cat_tick s) of
           Some msg \<Rightarrow> (Inl (Store msg), s')
         | None \<Rightarrow> (case st s' of
                      Inl e \<Rightarrow> (Inl (Store (ddl_text E e)), s')
                    | Inr (x, t) \<Rightarrow> (Inr x, t)))"

definition col :: "raw_row \<Rightarrow> string \<Rightarrow> sql_value" where
  "col r c = (case map_of r c of None \<Rightarrow> VNull | Some v \<Rightarrow> v)"

definition table_at :: "catalog \<Rightarrow> string \<Rightarrow> raw_table option" where
  "table_at s name = map_of (cat_tables s) name"

definition put_table :: "string \<Rightarrow> raw_table \<Rightarrow> catalog \<Rightarrow> catalog" where
  "put_table name t s = s\<lparr>cat_tables := AList.update name t (cat_tables s)\<rparr>"

section \<open>The schema\<close>

definition create_text :: "string \<Rightarrow> (string \<times> string) list \<Rightarrow> string" where
  "create_text name cols =
     ''CREATE TABLE '' @ name @ '' ('' @ intercalate '', '' (map (\<lambda>(c, d). c @ '' '' @ d) cols) @ '')''"

definition new_table :: "string \<Rightarrow> (string \<times> string) list \<Rightarrow> index_info list \<Rightarrow> raw_table" where
  "new_table name cols idx =
     \<lparr>rt_sql = create_text name cols, rt_columns = map fst cols, rt_indexes = idx, rt_triggers = [], rt_rows = []\<rparr>"

definition quoted :: "string \<Rightarrow> string" where
  "quoted v = CHR 0x27 # v @ [CHR 0x27]"

definition mappings_columns :: "(string \<times> string) list" where
  "mappings_columns =
     [(''id'', ''TEXT PRIMARY KEY''), (''name'', ''TEXT NOT NULL''), (''public_ip'', ''TEXT''),
      (''oci_public_ip_ocid'', ''TEXT''), (''edge_private_ip'', ''TEXT NOT NULL''),
      (''oci_private_ip_ocid'', ''TEXT''), (''target_ip'', ''TEXT NOT NULL''), (''public_port'', ''INTEGER''),
      (''target_port'', ''INTEGER''), (''protocol'', ''TEXT NOT NULL DEFAULT '' @ quoted ''all''),
      (''mode'', ''TEXT NOT NULL DEFAULT '' @ quoted ''one_to_one_snat''),
      (''backend'', ''TEXT NOT NULL DEFAULT '' @ quoted ''nft''), (''enabled'', ''INTEGER NOT NULL DEFAULT 1''),
      (''status'', ''TEXT NOT NULL DEFAULT '' @ quoted ''pending''), (''last_error'', ''TEXT''),
      (''health_status'', ''TEXT''), (''last_checked_at'', ''TEXT''), (''created_at'', ''TEXT NOT NULL''),
      (''updated_at'', ''TEXT NOT NULL'')]"

definition not_null_columns :: "string list" where
  "not_null_columns =
     [''name'', ''edge_private_ip'', ''target_ip'', ''protocol'', ''mode'', ''backend'', ''enabled'', ''status'',
      ''created_at'', ''updated_at'']"

definition primary_index :: "string \<Rightarrow> string \<Rightarrow> index_info" where
  "primary_index table c =
     \<lparr>ix_name = ''sqlite_autoindex_'' @ table @ ''_1'', ix_unique = 1, ix_origin = ''pk'', ix_columns = [c]\<rparr>"

text \<open>The four tables of \<open>SQLITE_SCHEMA\<close> (\<open>src/crates/edge-core/src/state.rs\<close>).\<close>

definition sqlite_schema :: "(string \<times> raw_table) list" where
  "sqlite_schema =
     [(''mappings'', new_table ''mappings'' mappings_columns [primary_index ''mappings'' ''id'']),
      (''edge_config'', new_table ''edge_config'' [(''key'', ''TEXT PRIMARY KEY''), (''value'', ''TEXT NOT NULL'')]
        [primary_index ''edge_config'' ''key'']),
      (''generations'', new_table ''generations''
        [(''id'', ''INTEGER PRIMARY KEY AUTOINCREMENT''), (''status'', ''TEXT NOT NULL''),
         (''nftables_config'', ''TEXT NOT NULL''), (''created_at'', ''TEXT NOT NULL''), (''applied_at'', ''TEXT''),
         (''error'', ''TEXT'')] []),
      (''events'', new_table ''events''
        [(''id'', ''INTEGER PRIMARY KEY AUTOINCREMENT''), (''level'', ''TEXT NOT NULL''),
         (''message'', ''TEXT NOT NULL''), (''data'', ''TEXT''), (''created_at'', ''TEXT NOT NULL'')] [])]"

text \<open>\<open>CREATE TABLE IF NOT EXISTS\<close>, and the script of the schema, statement by statement.\<close>

definition create_if_missing :: "string \<Rightarrow> raw_table \<Rightarrow> unit ddl_stmt" where
  "create_if_missing name t s =
     Inr ((), case table_at s name of None \<Rightarrow> put_table name t s | Some _ \<Rightarrow> s)"

definition run_schema :: "'e ddl_env_scheme \<Rightarrow> unit ddl_eff" where
  "run_schema E = eff_forM (\<lambda>(name, t). ddl E (create_if_missing name t)) sqlite_schema"

section \<open>Statements\<close>

definition select_table :: "string \<Rightarrow> raw_table option ddl_stmt" where
  "select_table name s = Inr (table_at s name, s)"

definition rename_table :: "string \<Rightarrow> string \<Rightarrow> unit ddl_stmt" where
  "rename_table old new s =
     (case table_at s old of
        None \<Rightarrow> Inl (NoSuchTable old)
      | Some t \<Rightarrow>
          if table_at s new \<noteq> None then Inl (TableExists new)
          else Inr ((), put_table new t (s\<lparr>cat_tables := AList.delete old (cat_tables s)\<rparr>)))"

definition drop_table :: "string \<Rightarrow> unit ddl_stmt" where
  "drop_table name s =
     (if table_at s name = None then Inl (NoSuchTable name)
      else Inr ((), s\<lparr>cat_tables := AList.delete name (cat_tables s)\<rparr>))"

text \<open>The columns the \<open>INSERT ... SELECT\<close> copies from the old table, and the row it makes of an old one:
  \<open>public_port\<close> becomes \<open>NULL\<close> and \<open>backend\<close> the text \<open>nft\<close>.\<close>

definition copied_columns :: "string list" where
  "copied_columns = filter (\<lambda>c. c \<noteq> ''public_port'' \<and> c \<noteq> ''backend'') (map fst mappings_columns)"

definition rebuilt_row :: "raw_row \<Rightarrow> raw_row" where
  "rebuilt_row r =
     map (\<lambda>(c, _). (c, if c = ''public_port'' then VNull else if c = ''backend'' then VText ''nft'' else col r c))
       mappings_columns"

definition insert_rows :: "raw_row list \<Rightarrow> raw_table \<Rightarrow> (ddl_failure, raw_table) result" where
  "insert_rows rows t =
     (case find (\<lambda>c. list_ex (\<lambda>r. col r c = VNull) rows) not_null_columns of
        Some c \<Rightarrow> Inl (NotNullFailed c)
      | None \<Rightarrow>
          (let ids = filter (\<lambda>v. v \<noteq> VNull) (map (\<lambda>r. col r ''id'') (rt_rows t @ rows))
           in if distinct ids then Inr (t\<lparr>rt_rows := rt_rows t @ rows\<rparr>) else Inl (UniqueFailed ''mappings.id'')))"

definition copy_rows :: "string \<Rightarrow> string \<Rightarrow> unit ddl_stmt" where
  "copy_rows src dst s =
     (case (table_at s src, table_at s dst) of
        (Some old, Some new) \<Rightarrow>
          (case find (\<lambda>c. c \<notin> set (rt_columns old)) copied_columns of
             Some c \<Rightarrow> Inl (NoSuchColumn c)
           | None \<Rightarrow> res_bind (insert_rows (map rebuilt_row (rt_rows old)) new) (\<lambda>t. Inr ((), put_table dst t s)))
      | (None, _) \<Rightarrow> Inl (NoSuchTable src)
      | (_, None) \<Rightarrow> Inl (NoSuchTable dst))"

text \<open>\<open>ALTER TABLE ... ADD COLUMN\<close>: rows that are there read the default.\<close>

definition add_column :: "string \<Rightarrow> string \<Rightarrow> string \<Rightarrow> sql_value \<Rightarrow> unit ddl_stmt" where
  "add_column table c decl dflt s =
     (case table_at s table of
        None \<Rightarrow> Inl (NoSuchTable table)
      | Some t \<Rightarrow>
          Inr ((), put_table table
            (t\<lparr>rt_sql := butlast (rt_sql t) @ '', '' @ c @ '' '' @ decl @ '')'',
               rt_columns := rt_columns t @ [c],
               rt_rows := map (\<lambda>r. r @ [(c, dflt)]) (rt_rows t)\<rparr>) s))"

text \<open>A partial unique index: its name, its columns, and the mode its predicate asks for; \<open>public_ip IS NOT NULL\<close>
  of the second one changes nothing, as \<open>NULL\<close>s are distinct in a unique index.\<close>

definition mapping_indexes :: "(string \<times> string list \<times> string) list" where
  "mapping_indexes =
     [(''mappings_one_to_one_edge_private_ip_enabled_idx'', [''edge_private_ip''], o2o_text),
      (''mappings_one_to_one_public_ip_enabled_idx'', [''public_ip''], o2o_text),
      (''mappings_one_to_one_target_ip_enabled_idx'', [''target_ip''], o2o_text),
      (''mappings_port_forward_tuple_enabled_idx'', [''edge_private_ip'', ''protocol'', ''public_port''], pf_text)]"

definition mapping_triggers :: "string list" where
  "mapping_triggers = [''mappings_reject_conflict_insert'', ''mappings_reject_conflict_update'']"

definition index_keys :: "string list \<Rightarrow> string \<Rightarrow> raw_row list \<Rightarrow> sql_value list list" where
  "index_keys cols mode rows =
     filter (\<lambda>k. VNull \<notin> set k)
       (map (\<lambda>r. map (col r) cols) (filter (\<lambda>r. col r ''enabled'' = VInt 1 \<and> col r ''mode'' = VText mode) rows))"

definition create_index :: "string \<Rightarrow> string \<times> string list \<times> string \<Rightarrow> unit ddl_stmt" where
  "create_index table ix s =
     (case ix of (name, cols, mode) \<Rightarrow>
        (case table_at s table of
           None \<Rightarrow> Inl (NoSuchTable table)
         | Some t \<Rightarrow>
             if name \<in> set (map ix_name (rt_indexes t)) then Inr ((), s)
             else if distinct (index_keys cols mode (rt_rows t))
             then Inr ((), put_table table
                    (t\<lparr>rt_indexes := rt_indexes t @
                        [\<lparr>ix_name = name, ix_unique = 1, ix_origin = ''c'', ix_columns = cols\<rparr>]\<rparr>) s)
             else Inl (UniqueFailed name)))"

definition create_trigger :: "string \<Rightarrow> string \<Rightarrow> unit ddl_stmt" where
  "create_trigger table name s =
     (case table_at s table of
        None \<Rightarrow> Inl (NoSuchTable table)
      | Some t \<Rightarrow>
          Inr ((), if name \<in> set (rt_triggers t) then s
                   else put_table table (t\<lparr>rt_triggers := rt_triggers t @ [name]\<rparr>) s))"

section \<open>Migration\<close>

text \<open>The loop over \<open>PRAGMA index_list\<close>.\<close>

fun legacy_index :: "'e ddl_env_scheme \<Rightarrow> index_info list \<Rightarrow> bool ddl_eff" where
  "legacy_index E [] = eff_ret False"
| "legacy_index E (ix # rest) =
     (if ix_unique ix = 0 \<or> ix_origin ix = ''c'' then legacy_index E rest
      else eff_bind (ddl E (\<lambda>s. Inr (ix_columns ix, s))) (\<lambda>columns.
           if columns = [''public_ip''] \<or> columns = [''edge_private_ip''] then eff_ret True
           else legacy_index E rest))"

definition has_legacy_mapping_unique_constraints :: "'e ddl_env_scheme \<Rightarrow> bool ddl_eff" where
  "has_legacy_mapping_unique_constraints E =
     eff_bind (ddl E (select_table ''mappings'')) (\<lambda>row.
     case row of
       None \<Rightarrow> eff_ret False
     | Some t \<Rightarrow>
         if str_contains (to_ascii_uppercase (rt_sql t)) ''UNIQUE'' then eff_ret True
         else eff_bind (ddl E (select_table ''mappings'')) (\<lambda>t'.
              legacy_index E (case t' of None \<Rightarrow> [] | Some x \<Rightarrow> rt_indexes x)))"

text \<open>\<open>pool.begin()\<close> up to \<open>tx.commit()\<close>: when a step fails the transaction is dropped and the tables are what they
  were.\<close>

definition transaction :: "'e ddl_env_scheme \<Rightarrow> unit ddl_eff \<Rightarrow> unit ddl_eff" where
  "transaction E body =
     eff_bind (ddl E (\<lambda>s. Inr (s, s))) (\<lambda>before s.
     case eff_bind body (\<lambda>_. ddl E (\<lambda>s. Inr ((), s))) s of
       (Inr x, t) \<Rightarrow> (Inr x, t)
     | (Inl e, t) \<Rightarrow> (Inl e, t\<lparr>cat_tables := cat_tables before\<rparr>))"

definition ensure_port_forward_schema :: "'e ddl_env_scheme \<Rightarrow> unit ddl_eff" where
  "ensure_port_forward_schema E =
     eff_bind (has_legacy_mapping_unique_constraints E) (\<lambda>legacy.
     if \<not> legacy then eff_ret ()
     else transaction E
       (eff_bind (ddl E (rename_table ''mappings'' ''mappings_old_unique'')) (\<lambda>_.
        eff_bind (run_schema E) (\<lambda>_.
        eff_bind (ddl E (copy_rows ''mappings_old_unique'' ''mappings'')) (\<lambda>_.
        ddl E (drop_table ''mappings_old_unique''))))))"

definition ensure_column :: "'e ddl_env_scheme \<Rightarrow> string \<Rightarrow> string \<Rightarrow> string \<Rightarrow> sql_value \<Rightarrow> unit ddl_eff" where
  "ensure_column E table c decl dflt =
     eff_bind (ddl E (select_table table)) (\<lambda>t.
     if c \<in> set (case t of None \<Rightarrow> [] | Some x \<Rightarrow> rt_columns x) then eff_ret ()
     else ddl E (add_column table c decl dflt))"

definition ensure_mapping_constraints :: "'e ddl_env_scheme \<Rightarrow> unit ddl_eff" where
  "ensure_mapping_constraints E =
     eff_bind (eff_forM (\<lambda>ix. ddl E (create_index ''mappings'' ix)) mapping_indexes) (\<lambda>_.
     eff_forM (\<lambda>name. ddl E (create_trigger ''mappings'' name)) mapping_triggers)"

definition migrate :: "'e ddl_env_scheme \<Rightarrow> unit ddl_eff" where
  "migrate E =
     eff_bind (run_schema E) (\<lambda>_.
     eff_bind (ensure_port_forward_schema E) (\<lambda>_.
     eff_bind (ensure_column E ''mappings'' ''public_port'' ''INTEGER'' VNull) (\<lambda>_.
     eff_bind (ensure_column E ''mappings'' ''backend'' (''TEXT NOT NULL DEFAULT '' @ quoted ''nft'') (VText ''nft'')) (\<lambda>_.
     eff_bind (ensure_column E ''mappings'' ''health_status'' ''TEXT'' VNull) (\<lambda>_.
     eff_bind (ensure_column E ''mappings'' ''last_checked_at'' ''TEXT'' VNull) (\<lambda>_.
     ensure_mapping_constraints E))))))"

definition store_connect :: "'e ddl_env_scheme \<Rightarrow> string \<Rightarrow> unit ddl_eff" where
  "store_connect E path =
     eff_bind (case Option.bind (path_parent path) (create_dir_all E) of
                 None \<Rightarrow> eff_ret ()
               | Some e \<Rightarrow> eff_err (Store (''failed to create database directory: '' @ e))) (\<lambda>_.
     eff_bind (case pool_connect E path of None \<Rightarrow> eff_ret () | Some e \<Rightarrow> eff_err (Store e)) (\<lambda>_.
     migrate E))"

end
