(* ===== verification/Migrate_Steps.thy ===== *)
theory Migrate_Steps
  imports Sqlite_Migrate Reconcile_Props
begin

text \<open>
  The statements and stages of a migration one by one: what each does to the tables when it succeeds, that a
  stage that fails leaves the mapping table alone, and the form of the table after the whole (\<open>migrate_result\<close>).
\<close>

section \<open>Statements\<close>

lemma ddl_cases:
  assumes "ddl E st s = (r, t)"
  obtains (error) e where "r = Inl e" "cat_tables t = cat_tables s"
  | (ok) x where "r = Inr x" "st (s\<lparr>cat_tick := Suc (cat_tick s)\<rparr>) = Inr (x, t)"
  using assms by (auto simp: ddl_def Let_def split: option.splits sum.splits)

lemma table_at_cong: "cat_tables t = cat_tables s \<Longrightarrow> table_at t = table_at s"
  by (simp add: table_at_def fun_eq_iff)

lemma table_at_tick [simp]: "table_at (s\<lparr>cat_tick := n\<rparr>) = table_at s"
  by (rule table_at_cong) simp

lemma table_at_put [simp]: "table_at (put_table name t s) = (table_at s)(name \<mapsto> t)"
  by (simp add: table_at_def put_table_def fun_eq_iff update_conv')

lemma table_at_delete [simp]:
  "table_at (s\<lparr>cat_tables := AList.delete name (cat_tables s)\<rparr>) = (table_at s)(name := None)"
  "table_at (s\<lparr>cat_tick := n, cat_tables := AList.delete name (cat_tables s)\<rparr>) = (table_at s)(name := None)"
  by (simp_all add: table_at_def fun_eq_iff delete_conv')

text \<open>Faults of the engine apart, a statement that can run does.\<close>

definition quiet :: "'e ddl_env_scheme \<Rightarrow> bool" where
  "quiet E \<longleftrightarrow> (\<forall>n. sql_fault E n = None)"

lemma not_quiet: "sql_fault E n = Some msg \<Longrightarrow> \<not> quiet E"
  by (auto simp: quiet_def)

lemma ddl_run:
  assumes "ddl E st s = (r, t)" "st (s\<lparr>cat_tick := Suc (cat_tick s)\<rparr>) = Inr (x, u)"
  obtains (error) e where "r = Inl e" "cat_tables t = cat_tables s" "\<not> quiet E"
  | (ok) "r = Inr x" "t = u"
  using assms by (auto simp: ddl_def Let_def dest: not_quiet split: option.splits)

lemma ddl_quiet:
  "quiet E \<Longrightarrow> st (s\<lparr>cat_tick := Suc (cat_tick s)\<rparr>) = Inr (x, t) \<Longrightarrow> ddl E st s = (Inr x, t)"
  by (simp add: ddl_def quiet_def)

text \<open>A statement that reads gives what is there and changes nothing.\<close>

lemma ddl_read:
  assumes "ddl E (\<lambda>u. Inr (f u, u)) s = (r, t)" and "\<And>n. f (s\<lparr>cat_tick := n\<rparr>) = f s"
  obtains (error) e where "r = Inl e" "cat_tables t = cat_tables s" "\<not> quiet E"
  | (ok) "r = Inr (f s)" "cat_tables t = cat_tables s"
  using assms by (auto simp: ddl_def Let_def dest: not_quiet split: option.splits)

lemma ddl_select:
  assumes "ddl E (select_table name) s = (r, t)"
  obtains (error) e where "r = Inl e" "cat_tables t = cat_tables s" "\<not> quiet E"
  | (ok) "r = Inr (table_at s name)" "cat_tables t = cat_tables s"
  using assms by (auto simp: ddl_def select_table_def Let_def dest: not_quiet split: option.splits)

section \<open>The schema script\<close>

lemma create_if_missing_cases:
  assumes "ddl E (create_if_missing name t) s = (r, u)"
  shows "table_at s name \<noteq> None \<Longrightarrow> table_at u = table_at s"
    and "r = Inr () \<Longrightarrow> table_at u = [name \<mapsto> t] ++ table_at s"
    and "table_at s m = Some x \<Longrightarrow> table_at u m = Some x"
  using assms
  by (auto simp: create_if_missing_def fun_eq_iff map_add_def dest!: table_at_cong split: option.splits if_splits elim!: ddl_cases)

lemma schema_loop:
  assumes "eff_forM (\<lambda>(name, t). ddl E (create_if_missing name t)) ts s = (r, u)"
  shows "r = Inr () \<Longrightarrow> table_at u = map_of ts ++ table_at s"
    and "table_at s m = Some x \<Longrightarrow> table_at u m = Some x"
    and "(\<forall>name\<in>fst ` set ts. table_at s name \<noteq> None) \<Longrightarrow> table_at u = table_at s"
  using assms
proof (induction ts arbitrary: s)
  case (Cons p ts)
  obtain name t where p: "p = (name, t)" by (cases p)
  { case 1
    with p obtain v where v: "ddl E (create_if_missing name t) s = (Inr (), v)"
      "eff_forM (\<lambda>(name, t). ddl E (create_if_missing name t)) ts v = (r, u)"
      by (auto elim!: eff_bind_cases)
    from Cons.IH(1) [OF _ v(2)] create_if_missing_cases(2) [OF v(1)] 1 show ?case
      by (auto simp: p fun_eq_iff map_add_def split: option.splits) }
  { case 2 with p show ?case
      by (auto dest: create_if_missing_cases(3) Cons.IH(2) elim!: eff_bind_cases) }
  { case 3
    then have s: "table_at s name \<noteq> None" "\<forall>n\<in>fst ` set ts. table_at s n \<noteq> None"
      using p by auto
    from 3(2) p have "eff_bind (ddl E (create_if_missing name t))
        (\<lambda>_. eff_forM (\<lambda>(name, t). ddl E (create_if_missing name t)) ts) s = (r, u)" by simp
    then show ?case
    proof (cases rule: eff_bind_cases)
      case (ok x v)
      with Cons.IH(3) [OF _ ok(2)] create_if_missing_cases(1) [OF ok(1) s(1)] s(2) show ?thesis by simp
    next
      case (error e)
      with create_if_missing_cases(1) [OF error(1) s(1)] show ?thesis by simp
    qed }
qed (auto simp: fun_eq_iff map_add_def)

lemmas run_schema_ok = schema_loop(1) [of E sqlite_schema s "Inr ()" u, folded run_schema_def, simplified] for E s u
lemmas run_schema_old = schema_loop(2) [of E sqlite_schema s r u, folded run_schema_def] for E s r u
lemmas run_schema_same = schema_loop(3) [of E sqlite_schema s r u, folded run_schema_def] for E s r u

lemma schema_mappings [simp]:
  "map_of sqlite_schema ''mappings'' = Some (new_table ''mappings'' mappings_columns [primary_index ''mappings'' ''id''])"
  "map_of sqlite_schema ''mappings_old_unique'' = None"
  by (simp_all add: sqlite_schema_def)

section \<open>Old uniqueness constraints\<close>

definition unique_text :: "string \<Rightarrow> bool" where
  "unique_text sql \<longleftrightarrow> str_contains (to_ascii_uppercase sql) ''UNIQUE''"

definition old_unique_index :: "index_info \<Rightarrow> bool" where
  "old_unique_index ix \<longleftrightarrow>
     ix_unique ix \<noteq> 0 \<and> ix_origin ix \<noteq> ''c'' \<and> ix_columns ix \<in> {[''public_ip''], [''edge_private_ip'']}"

definition legacy :: "raw_table \<Rightarrow> bool" where
  "legacy t \<longleftrightarrow> unique_text (rt_sql t) \<or> (\<exists>ix\<in>set (rt_indexes t). old_unique_index ix)"

lemma legacy_index_spec:
  assumes "legacy_index E ixs s = (r, t)"
  shows "cat_tables t = cat_tables s \<and>
    (r = Inr (\<exists>ix\<in>set ixs. old_unique_index ix) \<or> (\<exists>e. r = Inl e \<and> \<not> quiet E))"
  using assms
proof (induction E ixs arbitrary: s rule: legacy_index.induct)
  case (2 E ix rest)
  show ?case
  proof (cases "ix_unique ix = 0 \<or> ix_origin ix = ''c''")
    case True
    then have "\<not> old_unique_index ix" by (auto simp: old_unique_index_def)
    then show ?thesis using True "2.IH"(1) [OF True] "2.prems" by auto
  next
    case False
    note IH = "2.IH"(2) [OF False]
    from "2.prems" False have "eff_bind (ddl E (\<lambda>v. Inr (ix_columns ix, v))) (\<lambda>columns.
        if columns = [''public_ip''] \<or> columns = [''edge_private_ip''] then eff_ret True
        else legacy_index E rest) s = (r, t)" by simp
    then show ?thesis
    proof (cases rule: eff_bind_cases)
      case (error e)
      then show ?thesis by (auto elim!: ddl_read)
    next
      case (ok cs u)
      then have "cs = ix_columns ix" "cat_tables u = cat_tables s" by (auto elim!: ddl_read)
      with ok(2) IH [of cs u] False show ?thesis by (auto simp: old_unique_index_def split: if_splits)
    qed
  qed
qed auto

lemma has_legacy_spec:
  assumes "has_legacy_mapping_unique_constraints E s = (r, t)" "table_at s ''mappings'' = Some t0"
  obtains (error) e where "r = Inl e" "cat_tables t = cat_tables s" "\<not> quiet E"
  | (ok) "r = Inr (legacy t0)" "cat_tables t = cat_tables s"
proof -
  note t0 = assms(2)
  from assms(1) show thesis
    unfolding has_legacy_mapping_unique_constraints_def
  proof (cases rule: eff_bind_cases)
    case (error e)
    then show thesis by (auto elim!: ddl_select intro: that)
  next
    case (ok x u)
    then have u: "x = Some t0" "cat_tables u = cat_tables s" using t0 by (auto elim!: ddl_select)
    show thesis
    proof (cases "unique_text (rt_sql t0)")
      case True
      with ok(2) u show thesis by (intro that(2)) (auto simp: legacy_def unique_text_def)
    next
      case False
      with ok(2) u have "eff_bind (ddl E (select_table ''mappings''))
          (\<lambda>t'. legacy_index E (case t' of None \<Rightarrow> [] | Some x \<Rightarrow> rt_indexes x)) u = (r, t)"
        by (simp add: unique_text_def)
      then show thesis
        by (cases rule: eff_bind_cases)
          (use False u t0 table_at_cong [OF u(2)] that in
            \<open>auto simp: legacy_def dest!: legacy_index_spec elim!: ddl_select\<close>)
    qed
  qed
qed

text \<open>A text that is searched for the word cannot get it from a column that is added.\<close>

lemma str_contains_set: "str_contains s p \<Longrightarrow> set p \<subseteq> set s"
  by (auto simp: str_contains_iff)

lemma str_contains_separated:
  assumes "str_contains (a @ c # b) p" "c \<notin> set p"
  shows "str_contains a p \<or> str_contains b p"
proof -
  from assms(1) obtain x y where "a @ c # b = x @ p @ y" by (auto simp: str_contains_iff)
  then obtain us where "a = x @ us \<and> us @ c # b = p @ y \<or> a @ us = x \<and> c # b = us @ p @ y"
    by (auto simp: append_eq_append_conv2)
  then show ?thesis
  proof
    assume *: "a = x @ us \<and> us @ c # b = p @ y"
    then obtain vs where "us = p @ vs \<or> us @ vs = p \<and> c # b = vs @ y"
      by (auto simp: append_eq_append_conv2)
    then show ?thesis
    proof
      assume "us = p @ vs" with * show ?thesis by (auto simp: str_contains_iff)
    next
      assume **: "us @ vs = p \<and> c # b = vs @ y"
      then have "vs = []" using assms(2) by (cases vs) auto
      with * ** have "a = x @ p @ []" by simp
      then show ?thesis unfolding str_contains_iff by blast
    qed
  next
    assume *: "a @ us = x \<and> c # b = us @ p @ y"
    show ?thesis
    proof (cases us)
      case Nil
      with * assms(2) have "a = [] @ p @ a" by (cases p) auto
      then show ?thesis unfolding str_contains_iff by blast
    next
      case (Cons d vs)
      with * have "b = vs @ p @ y" by simp
      then show ?thesis by (auto simp: str_contains_iff)
    qed
  qed
qed

lemma upper_Q: "ascii_upper c = CHR ''Q'' \<Longrightarrow> c = CHR ''Q'' \<or> c = CHR ''q''"
proof -
  assume *: "ascii_upper c = CHR ''Q''"
  define n where "n = (of_char c :: nat)"
  show ?thesis
  proof (cases "97 \<le> n \<and> n \<le> 122")
    case True
    with * have "of_char (char_of (n - 32) :: char) = (of_char (CHR ''Q'') :: nat)"
      by (simp add: ascii_upper_def n_def Let_def)
    moreover have "(n - 32) mod 256 = n - 32" by (rule mod_less) (use True in linarith)
    ultimately have "n = 113" using True by simp
    then have "of_char c = (of_char (CHR ''q'') :: nat)" by (simp add: n_def)
    then have "c = CHR ''q''" by (simp only: of_char_eq_iff)
    then show ?thesis by simp
  next
    case False
    with * show ?thesis by (auto simp: ascii_upper_def n_def Let_def)
  qed
qed

lemma no_Q: "CHR ''Q'' \<notin> set s \<Longrightarrow> CHR ''q'' \<notin> set s \<Longrightarrow> \<not> str_contains (to_ascii_uppercase s) ''UNIQUE''"
  using upper_Q by (auto simp: to_ascii_uppercase_def dest!: str_contains_set) metis

lemma unique_text_added:
  assumes "\<not> unique_text sql" "CHR ''Q'' \<notin> set decl" "CHR ''q'' \<notin> set decl"
  shows "\<not> unique_text (butlast sql @ CHR '','' # decl)"
proof
  let ?u = to_ascii_uppercase
  assume "unique_text (butlast sql @ CHR '','' # decl)"
  then have "str_contains (?u (butlast sql) @ CHR '','' # ?u decl) ''UNIQUE''"
    by (simp add: unique_text_def to_ascii_uppercase_def ascii_upper_def)
  then have "str_contains (?u (butlast sql)) ''UNIQUE''"
    using str_contains_separated [of "?u (butlast sql)"] no_Q [OF assms(2,3)] by fastforce
  then obtain x y where "?u (butlast sql) = x @ ''UNIQUE'' @ y" by (auto simp: str_contains_iff)
  then have "?u sql = x @ ''UNIQUE'' @ (y @ (if sql = [] then [] else [ascii_upper (last sql)]))"
    by (cases sql rule: rev_cases) (auto simp: to_ascii_uppercase_def)
  with assms(1) show False by (auto simp: unique_text_def str_contains_iff)
qed

abbreviation fresh_mappings :: raw_table where
  "fresh_mappings \<equiv> new_table ''mappings'' mappings_columns [primary_index ''mappings'' ''id'']"

lemma fresh_not_legacy: "\<not> unique_text (rt_sql fresh_mappings)"
  unfolding unique_text_def
  by (rule no_Q) (simp_all add: new_table_def create_text_def mappings_columns_def quoted_def)

section \<open>The rebuild\<close>

lemma insert_rows_ok:
  assumes "insert_rows rows t = Inr t'"
  shows "t' = t\<lparr>rt_rows := rt_rows t @ rows\<rparr>"
    "distinct (filter (\<lambda>v. v \<noteq> VNull) (map (\<lambda>r. col r ''id'') (rt_rows t @ rows)))"
  using assms by (auto simp: insert_rows_def Let_def split: option.splits if_splits)

definition rebuild :: "'e ddl_env_scheme \<Rightarrow> unit ddl_eff" where
  "rebuild E =
     eff_bind (ddl E (rename_table ''mappings'' ''mappings_old_unique'')) (\<lambda>_.
     eff_bind (run_schema E) (\<lambda>_.
     eff_bind (ddl E (copy_rows ''mappings_old_unique'' ''mappings'')) (\<lambda>_.
     ddl E (drop_table ''mappings_old_unique''))))"

lemma rebuild_ok:
  assumes "rebuild E s = (Inr (), t)" "table_at s ''mappings'' = Some t0"
  shows "table_at t = (map_of sqlite_schema ++ table_at s)
           (''mappings'' \<mapsto> fresh_mappings\<lparr>rt_rows := map rebuilt_row (rt_rows t0)\<rparr>)"
    "set copied_columns \<subseteq> set (rt_columns t0)"
    "distinct (filter (\<lambda>v. v \<noteq> VNull) (map (\<lambda>r. col r ''id'') (map rebuilt_row (rt_rows t0))))"
proof -
  let ?o = "''mappings_old_unique''" and ?m = "''mappings''"
  from assms(1) obtain s1 s2 s3 where
    1: "ddl E (rename_table ?m ?o) s = (Inr (), s1)" and 2: "run_schema E s1 = (Inr (), s2)"
    and 3: "ddl E (copy_rows ?o ?m) s2 = (Inr (), s3)" and 4: "ddl E (drop_table ?o) s3 = (Inr (), t)"
    by (auto simp: rebuild_def elim!: eff_bind_cases)
  have s1: "table_at s1 = (table_at s)(?m := None, ?o \<mapsto> t0)" and o: "table_at s ?o = None"
    using 1 assms(2) by (auto simp: rename_table_def split: if_splits elim!: ddl_cases)
  have s2: "table_at s2 = map_of sqlite_schema ++ table_at s1" by (rule run_schema_ok [OF 2])
  then have s2': "table_at s2 ?o = Some t0" "table_at s2 ?m = Some fresh_mappings"
    by (simp_all add: s1 map_add_def)
  from 3 s2' obtain t1 where t1: "find (\<lambda>c. c \<notin> set (rt_columns t0)) copied_columns = None"
    "insert_rows (map rebuilt_row (rt_rows t0)) fresh_mappings = Inr t1" "table_at s3 = (table_at s2)(?m \<mapsto> t1)"
    by (auto simp: copy_rows_def res_bind_def split: option.splits sum.splits elim!: ddl_cases)
  from t1(1) show "set copied_columns \<subseteq> set (rt_columns t0)" by (auto simp: find_None_iff_ex)
  have rows: "rt_rows fresh_mappings = []" by (simp add: new_table_def)
  from insert_rows_ok [OF t1(2)] rows
  show "distinct (filter (\<lambda>v. v \<noteq> VNull) (map (\<lambda>r. col r ''id'') (map rebuilt_row (rt_rows t0))))" by simp
  have "table_at t = (table_at s3)(?o := None)"
    using 4 by (auto simp: drop_table_def split: if_splits elim!: ddl_cases)
  then show "table_at t = (map_of sqlite_schema ++ table_at s)
      (?m \<mapsto> fresh_mappings\<lparr>rt_rows := map rebuilt_row (rt_rows t0)\<rparr>)"
    using t1(3) s2 s1 o rows insert_rows_ok(1) [OF t1(2)]
    by (auto simp: fun_eq_iff map_add_def split: option.splits)
qed

lemma transaction_cases:
  assumes "transaction E body s = (r, t)"
  obtains (error) e where "r = Inl e" "cat_tables t = cat_tables s"
  | (ok) s1 t1 where "r = Inr ()" "cat_tables s1 = cat_tables s" "body s1 = (Inr (), t1)" "cat_tables t = cat_tables t1"
proof -
  let ?s = "s\<lparr>cat_tick := Suc (cat_tick s)\<rparr>" and ?body = "eff_bind body (\<lambda>_. ddl E (\<lambda>u. Inr ((), u)))"
  from assms show thesis
    unfolding transaction_def
  proof (cases rule: eff_bind_cases)
    case (error e)
    then show thesis by (auto elim!: ddl_cases intro: that(1))
  next
    case (ok before v)
    then have v: "before = ?s" "v = ?s" by (auto elim!: ddl_cases)
    obtain r' u where u: "?body ?s = (r', u)" by (cases "?body ?s")
    show thesis
    proof (cases r')
      case (Inl e)
      with ok(2) u v show thesis by (auto intro: that(1))
    next
      case (Inr x)
      with u obtain t1 where "body ?s = (Inr (), t1)" "cat_tables u = cat_tables t1"
        by (auto elim!: eff_bind_cases ddl_cases)
      with ok(2) u v Inr show thesis by (intro that(2)) auto
    qed
  qed
qed

lemma ensure_port_forward_schema_cases:
  assumes "ensure_port_forward_schema E s = (r, t)" "table_at s ''mappings'' = Some t0"
  obtains (error) e where "r = Inl e" "cat_tables t = cat_tables s" "\<not> legacy t0 \<Longrightarrow> \<not> quiet E"
  | (current) "r = Inr ()" "\<not> legacy t0" "cat_tables t = cat_tables s"
  | (rebuilt) "r = Inr ()" "legacy t0" "set copied_columns \<subseteq> set (rt_columns t0)"
      "distinct (filter (\<lambda>v. v \<noteq> VNull) (map (\<lambda>r. col r ''id'') (map rebuilt_row (rt_rows t0))))"
      "table_at t = (map_of sqlite_schema ++ table_at s)
           (''mappings'' \<mapsto> fresh_mappings\<lparr>rt_rows := map rebuilt_row (rt_rows t0)\<rparr>)"
proof -
  from assms(1) show thesis
    unfolding ensure_port_forward_schema_def
  proof (cases rule: eff_bind_cases)
    case (error e)
    then show thesis using has_legacy_spec [OF error(1) assms(2)] that(1) by auto
  next
    case (ok b u)
    have u: "b = legacy t0" "cat_tables u = cat_tables s"
      using has_legacy_spec [OF ok(1) assms(2)] by auto
    show thesis
    proof (cases "legacy t0")
      case False
      with ok(2) u show thesis by (auto intro: that(2))
    next
      case True
      with ok(2) u have "transaction E (rebuild E) u = (r, t)" by (simp add: rebuild_def)
      then show thesis
      proof (cases rule: transaction_cases)
        case (error e)
        with True u show thesis by (auto intro: that(1))
      next
        case ok: (ok s1 t1)
        then have eq: "table_at s1 = table_at s" "table_at t = table_at t1"
          using u table_at_cong [of s1 s] table_at_cong [of t t1] by simp_all
        show thesis
          by (rule that(3)) (use rebuild_ok [OF ok(3), unfolded eq(1), OF assms(2)] eq(2) ok(1) True in simp_all)
      qed
    qed
  qed
qed

section \<open>Columns, indexes and triggers\<close>

text \<open>The change a statement may make to the mapping table once it has the program's constraints:
  columns, indexes the program creates and triggers are added, rows get values for added columns.\<close>

definition add_col :: "string \<Rightarrow> string \<Rightarrow> sql_value \<Rightarrow> raw_table \<Rightarrow> raw_table" where
  "add_col c decl dflt t =
     t\<lparr>rt_sql := butlast (rt_sql t) @ '', '' @ c @ '' '' @ decl @ '')'', rt_columns := rt_columns t @ [c],
       rt_rows := map (\<lambda>r. r @ [(c, dflt)]) (rt_rows t)\<rparr>"

lemma ensure_column_cases:
  assumes "ensure_column E ''mappings'' c decl dflt s = (r, t)" "table_at s ''mappings'' = Some t0"
  obtains (error) e where "r = Inl e" "table_at t = table_at s" "\<not> quiet E"
  | (there) "r = Inr ()" "c \<in> set (rt_columns t0)" "cat_tables t = cat_tables s"
  | (added) "r = Inr ()" "c \<notin> set (rt_columns t0)" "table_at t = (table_at s)(''mappings'' \<mapsto> add_col c decl dflt t0)"
proof -
  from assms(1) show thesis
    unfolding ensure_column_def
  proof (cases rule: eff_bind_cases)
    case (error e)
    then show thesis by (auto elim!: ddl_select dest: table_at_cong intro: that(1))
  next
    case (ok x u)
    then have u: "x = Some t0" "cat_tables u = cat_tables s" "table_at u = table_at s"
      using assms(2) table_at_cong [of u s] by (auto elim!: ddl_select)
    show thesis
    proof (cases "c \<in> set (rt_columns t0)")
      case True
      with ok(2) u show thesis by (auto intro: that(2))
    next
      case False
      with ok(2) u have "ddl E (add_column ''mappings'' c decl dflt) u = (r, t)" by simp
      then show thesis
      proof (rule ddl_run)
        show "add_column ''mappings'' c decl dflt (u\<lparr>cat_tick := Suc (cat_tick u)\<rparr>) =
            Inr ((), put_table ''mappings'' (add_col c decl dflt t0) (u\<lparr>cat_tick := Suc (cat_tick u)\<rparr>))"
          using u(3) assms(2) by (simp add: add_column_def add_col_def)
      qed (use False u that table_at_cong [of t u] in auto)
    qed
  qed
qed

definition index_names :: "raw_table \<Rightarrow> string set" where
  "index_names t = ix_name ` set (rt_indexes t)"

lemma create_index_cases:
  assumes "ddl E (create_index ''mappings'' (name, cols, mode)) s = (r, t)" "table_at s ''mappings'' = Some t0"
  obtains (error) e where "r = Inl e" "cat_tables t = cat_tables s" "name \<in> index_names t0 \<or> distinct (index_keys cols mode (rt_rows t0)) \<Longrightarrow> \<not> quiet E"
  | (there) "r = Inr ()" "name \<in> index_names t0" "cat_tables t = cat_tables s"
  | (created) "r = Inr ()" "name \<notin> index_names t0" "distinct (index_keys cols mode (rt_rows t0))"
      "table_at t = (table_at s)(''mappings'' \<mapsto> t0\<lparr>rt_indexes := rt_indexes t0 @
         [\<lparr>ix_name = name, ix_unique = 1, ix_origin = ''c'', ix_columns = cols\<rparr>]\<rparr>)"
  using assms
  by (auto simp: ddl_def create_index_def Let_def index_names_def dest: not_quiet
      split: option.splits sum.splits if_splits)

lemma create_trigger_cases:
  assumes "ddl E (create_trigger ''mappings'' name) s = (r, t)" "table_at s ''mappings'' = Some t0"
  obtains (error) e where "r = Inl e" "cat_tables t = cat_tables s" "\<not> quiet E"
  | (there) "r = Inr ()" "name \<in> set (rt_triggers t0)" "cat_tables t = cat_tables s"
  | (created) "r = Inr ()" "name \<notin> set (rt_triggers t0)"
      "table_at t = (table_at s)(''mappings'' \<mapsto> t0\<lparr>rt_triggers := rt_triggers t0 @ [name]\<rparr>)"
  using assms
  by (auto simp: ddl_def create_trigger_def Let_def dest: not_quiet split: option.splits sum.splits if_splits)

text \<open>What these statements leave of the table, and what they add.\<close>

definition constrained :: "raw_table \<Rightarrow> raw_table \<Rightarrow> bool" where
  "constrained t0 t \<longleftrightarrow>
     rt_sql t = rt_sql t0 \<and> rt_columns t = rt_columns t0 \<and> rt_rows t = rt_rows t0 \<and>
     set (rt_indexes t0) \<subseteq> set (rt_indexes t) \<and> set (rt_triggers t0) \<subseteq> set (rt_triggers t) \<and>
     (\<forall>ix\<in>set (rt_indexes t). ix \<in> set (rt_indexes t0) \<or> ix_origin ix = ''c'')"

lemma constrained_refl [simp]: "constrained t t"
  by (simp add: constrained_def)

lemma constrained_trans: "constrained t0 t1 \<Longrightarrow> constrained t1 t2 \<Longrightarrow> constrained t0 t2"
  by (auto simp: constrained_def)

lemma constrained_legacy: "constrained t0 t \<Longrightarrow> legacy t \<longleftrightarrow> legacy t0"
  by (auto simp: constrained_def legacy_def old_unique_index_def)

lemma constrained_indexes: "constrained t0 t \<Longrightarrow> index_names t0 \<subseteq> index_names t"
  by (auto simp: constrained_def index_names_def)

definition indexes_checked :: "(string \<times> string list \<times> string) list \<Rightarrow> raw_table \<Rightarrow> bool" where
  "indexes_checked ixs t \<longleftrightarrow>
     (\<forall>(name, cols, mode)\<in>set ixs. name \<in> index_names t \<or> distinct (index_keys cols mode (rt_rows t)))"

lemma index_loop:
  assumes "eff_forM (\<lambda>ix. ddl E (create_index ''mappings'' ix)) ixs s = (r, t)" "table_at s ''mappings'' = Some t0"
    "distinct (map fst ixs)"
  shows "\<exists>t1. table_at t = (table_at s)(''mappings'' \<mapsto> t1) \<and> constrained t0 t1 \<and>
     (r = Inr () \<longrightarrow> fst ` set ixs \<subseteq> index_names t1 \<and> indexes_checked ixs t0) \<and>
     (fst ` set ixs \<subseteq> index_names t0 \<longrightarrow> cat_tables t = cat_tables s) \<and>
     (quiet E \<longrightarrow> indexes_checked ixs t0 \<longrightarrow> r = Inr ())"
  using assms
proof (induction ixs arbitrary: s t0)
  case Nil
  then show ?case by (intro exI [of _ t0]) (auto simp: indexes_checked_def)
next
  case (Cons ix ixs)
  obtain name cols mode where ix: "ix = (name, cols, mode)" by (cases ix)
  from Cons.prems(1) have "eff_bind (ddl E (create_index ''mappings'' (name, cols, mode)))
      (\<lambda>_. eff_forM (\<lambda>ix. ddl E (create_index ''mappings'' ix)) ixs) s = (r, t)" by (simp add: ix)
  then show ?case
  proof (cases rule: eff_bind_cases)
    case (error e)
    from error(1) Cons.prems(2) show ?thesis
      by (cases rule: create_index_cases) (use error ix Cons.prems(2) table_at_cong [of t s] in
          \<open>auto simp: indexes_checked_def intro!: exI [of _ t0]\<close>)
  next
    case (ok x u)
    from ok(1) Cons.prems(2) show ?thesis
    proof (cases rule: create_index_cases)
      case there
      have u: "table_at u = table_at s" by (rule table_at_cong [OF there(3)])
      from Cons.prems(3) have "distinct (map fst ixs)" by simp
      from Cons.IH [OF ok(2), unfolded u, OF Cons.prems(2) this] obtain t1 where
        t1: "table_at t = (table_at s)(''mappings'' \<mapsto> t1)" "constrained t0 t1"
        "r = Inr () \<longrightarrow> fst ` set ixs \<subseteq> index_names t1 \<and> indexes_checked ixs t0"
        "fst ` set ixs \<subseteq> index_names t0 \<longrightarrow> cat_tables t = cat_tables u"
        "quiet E \<longrightarrow> indexes_checked ixs t0 \<longrightarrow> r = Inr ()" by blast
      moreover have "name \<in> index_names t1" using constrained_indexes [OF t1(2)] there(2) by blast
      ultimately show ?thesis
        by (intro exI [of _ t1]) (simp add: ix there indexes_checked_def)
    next
      case created
      let ?t = "t0\<lparr>rt_indexes := rt_indexes t0 @
         [\<lparr>ix_name = name, ix_unique = 1, ix_origin = ''c'', ix_columns = cols\<rparr>]\<rparr>"
      have new: "constrained t0 ?t" "index_names ?t = insert name (index_names t0)"
        by (auto simp: constrained_def index_names_def)
      have checked: "indexes_checked ixs ?t \<longleftrightarrow> indexes_checked (ix # ixs) t0"
        using created(3) Cons.prems(3) ix by (force simp: indexes_checked_def index_names_def)
      have u: "table_at u ''mappings'' = Some ?t" "distinct (map fst ixs)"
        using created(4) Cons.prems(3) by simp_all
      from Cons.IH [OF ok(2) u] obtain t1 where
        t1: "table_at t = (table_at u)(''mappings'' \<mapsto> t1)" "constrained ?t t1"
        "r = Inr () \<longrightarrow> fst ` set ixs \<subseteq> index_names t1 \<and> indexes_checked ixs ?t"
        "quiet E \<longrightarrow> indexes_checked ixs ?t \<longrightarrow> r = Inr ()" by blast
      show ?thesis
      proof (intro exI [of _ t1] conjI impI)
        show "table_at t = (table_at s)(''mappings'' \<mapsto> t1)" using t1(1) created(4) by simp
        show "constrained t0 t1" by (rule constrained_trans [OF new(1) t1(2)])
        show "indexes_checked (ix # ixs) t0" if "r = Inr ()" using t1(3) that checked by simp
        show "fst ` set (ix # ixs) \<subseteq> index_names t1" if "r = Inr ()"
          using t1(3) that constrained_indexes [OF t1(2)] new(2) ix by auto
      qed (use created(2) ix t1(4) checked in auto)
    qed simp
  qed
qed

lemma trigger_loop:
  assumes "eff_forM (\<lambda>name. ddl E (create_trigger ''mappings'' name)) names s = (r, t)"
    "table_at s ''mappings'' = Some t0"
  shows "\<exists>t1. table_at t = (table_at s)(''mappings'' \<mapsto> t1) \<and> constrained t0 t1 \<and>
     (r = Inr () \<longrightarrow> set names \<subseteq> set (rt_triggers t1)) \<and>
     (set names \<subseteq> set (rt_triggers t0) \<longrightarrow> cat_tables t = cat_tables s) \<and> (quiet E \<longrightarrow> r = Inr ())"
  using assms
proof (induction names arbitrary: s t0)
  case Nil
  then show ?case by (intro exI [of _ t0]) auto
next
  case (Cons name names)
  from Cons.prems(1) have "eff_bind (ddl E (create_trigger ''mappings'' name))
      (\<lambda>_. eff_forM (\<lambda>name. ddl E (create_trigger ''mappings'' name)) names) s = (r, t)" by simp
  then show ?case
  proof (cases rule: eff_bind_cases)
    case (error e)
    from error(1) Cons.prems(2) show ?thesis
      by (cases rule: create_trigger_cases) (use error Cons.prems(2) table_at_cong [of t s] in \<open>auto intro!: exI [of _ t0]\<close>)
  next
    case (ok x u)
    from ok(1) Cons.prems(2) show ?thesis
    proof (cases rule: create_trigger_cases)
      case there
      have u: "table_at u = table_at s" by (rule table_at_cong [OF there(3)])
      from Cons.IH [OF ok(2), unfolded u, OF Cons.prems(2)] obtain t1 where
        t1: "table_at t = (table_at s)(''mappings'' \<mapsto> t1)" "constrained t0 t1"
        "r = Inr () \<longrightarrow> set names \<subseteq> set (rt_triggers t1)"
        "set names \<subseteq> set (rt_triggers t0) \<longrightarrow> cat_tables t = cat_tables u" "quiet E \<longrightarrow> r = Inr ()" by blast
      moreover have "name \<in> set (rt_triggers t1)" using t1(2) there(2) by (auto simp: constrained_def)
      ultimately show ?thesis
        by (intro exI [of _ t1]) (simp add: there)
    next
      case created
      let ?t = "t0\<lparr>rt_triggers := rt_triggers t0 @ [name]\<rparr>"
      have new: "constrained t0 ?t" by (auto simp: constrained_def)
      have u: "table_at u ''mappings'' = Some ?t" using created(3) by simp
      from Cons.IH [OF ok(2) u] obtain t1 where
        t1: "table_at t = (table_at u)(''mappings'' \<mapsto> t1)" "constrained ?t t1"
        "r = Inr () \<longrightarrow> set names \<subseteq> set (rt_triggers t1)" "quiet E \<longrightarrow> r = Inr ()" by blast
      show ?thesis
      proof (intro exI [of _ t1] conjI impI)
        show "table_at t = (table_at s)(''mappings'' \<mapsto> t1)" using t1(1) created(3) by simp
        show "constrained t0 t1" by (rule constrained_trans [OF new t1(2)])
        show "set (name # names) \<subseteq> set (rt_triggers t1)" if "r = Inr ()"
          using t1(2,3) that by (auto simp: constrained_def)
      qed (use created(2) t1(4) in auto)
    qed simp
  qed
qed

lemma ensure_mapping_constraints_spec:
  assumes "ensure_mapping_constraints E s = (r, t)" "table_at s ''mappings'' = Some t0"
  shows "\<exists>t1. table_at t = (table_at s)(''mappings'' \<mapsto> t1) \<and> constrained t0 t1 \<and>
     (r = Inr () \<longrightarrow> fst ` set mapping_indexes \<subseteq> index_names t1 \<and> set mapping_triggers \<subseteq> set (rt_triggers t1) \<and>
        indexes_checked mapping_indexes t0) \<and>
     (fst ` set mapping_indexes \<subseteq> index_names t0 \<longrightarrow> set mapping_triggers \<subseteq> set (rt_triggers t0) \<longrightarrow>
        cat_tables t = cat_tables s) \<and> (quiet E \<longrightarrow> indexes_checked mapping_indexes t0 \<longrightarrow> r = Inr ())"
proof -
  have d: "distinct (map fst mapping_indexes)" by (simp add: mapping_indexes_def)
  from assms(1) show ?thesis
    unfolding ensure_mapping_constraints_def
  proof (cases rule: eff_bind_cases)
    case (error e)
    from index_loop [OF error(1) assms(2) d] error(2) show ?thesis by auto
  next
    case (ok x u)
    from index_loop [OF ok(1) assms(2) d] obtain t1 where
      t1: "table_at u = (table_at s)(''mappings'' \<mapsto> t1)" "constrained t0 t1"
      "fst ` set mapping_indexes \<subseteq> index_names t1" "indexes_checked mapping_indexes t0"
      "fst ` set mapping_indexes \<subseteq> index_names t0 \<longrightarrow> cat_tables u = cat_tables s" by auto
    then have "table_at u ''mappings'' = Some t1" by simp
    from trigger_loop [OF ok(2) this] obtain t2 where
      t2: "table_at t = (table_at u)(''mappings'' \<mapsto> t2)" "constrained t1 t2"
      "r = Inr () \<longrightarrow> set mapping_triggers \<subseteq> set (rt_triggers t2)"
      "set mapping_triggers \<subseteq> set (rt_triggers t1) \<longrightarrow> cat_tables t = cat_tables u" "quiet E \<longrightarrow> r = Inr ()"
      by auto
    have "set (rt_triggers t0) \<subseteq> set (rt_triggers t1)" using t1(2) by (simp add: constrained_def)
    then show ?thesis
      using t1 t2 constrained_trans [OF t1(2) t2(2)] constrained_indexes [OF t2(2)]
      by (intro exI [of _ t2]) auto
  qed
qed

section \<open>A migrated database is a fixed point\<close>

definition program_columns :: "string list" where
  "program_columns = [''public_port'', ''backend'', ''health_status'', ''last_checked_at'']"

definition migrated :: "catalog \<Rightarrow> bool" where
  "migrated s \<longleftrightarrow>
     (\<forall>name\<in>fst ` set sqlite_schema. table_at s name \<noteq> None) \<and>
     (\<exists>t. table_at s ''mappings'' = Some t \<and> \<not> legacy t \<and> set program_columns \<subseteq> set (rt_columns t) \<and>
        fst ` set mapping_indexes \<subseteq> index_names t \<and> set mapping_triggers \<subseteq> set (rt_triggers t))"

text \<open>A step that leaves the tables alone and, faults of the engine apart, succeeds.\<close>

definition idle :: "'e ddl_env_scheme \<Rightarrow> unit ddl_eff \<Rightarrow> catalog \<Rightarrow> bool" where
  "idle E m s \<longleftrightarrow> (\<forall>u. cat_tables u = cat_tables s \<longrightarrow>
     cat_tables (snd (m u)) = cat_tables s \<and> (quiet E \<longrightarrow> fst (m u) = Inr ()))"

lemma idle_bind:
  assumes "idle E m s" "idle E n s"
  shows "idle E (eff_bind m (\<lambda>_. n)) s"
  unfolding idle_def
proof (intro allI impI)
  fix u :: catalog
  assume u: "cat_tables u = cat_tables s"
  obtain r v where m: "m u = (r, v)" by fastforce
  with assms(1) [unfolded idle_def, rule_format, OF u] have v: "cat_tables v = cat_tables s" "quiet E \<longrightarrow> r = Inr ()"
    by simp_all
  then show "cat_tables (snd (eff_bind m (\<lambda>_. n) u)) = cat_tables s \<and>
      (quiet E \<longrightarrow> fst (eff_bind m (\<lambda>_. n) u) = Inr ())"
    using m assms(2) [unfolded idle_def, rule_format, OF v(1)] by (cases r) (auto simp: eff_bind_def)
qed

lemma idle_forM: "(\<And>x. x \<in> set xs \<Longrightarrow> idle E (f x) s) \<Longrightarrow> idle E (eff_forM f xs) s"
  by (induction xs) (auto simp: idle_def [of E "eff_ret ()"] intro: idle_bind)

lemma idle_ensure_column:
  assumes "table_at s ''mappings'' = Some t0" "c \<in> set (rt_columns t0)"
  shows "idle E (ensure_column E ''mappings'' c decl dflt) s"
  unfolding idle_def
proof (intro allI impI)
  fix u :: catalog
  assume u: "cat_tables u = cat_tables s"
  obtain r v where m: "ensure_column E ''mappings'' c decl dflt u = (r, v)" by fastforce
  have t0: "table_at u ''mappings'' = Some t0" using assms(1) table_at_cong [OF u] by simp
  have "eff_bind (ddl E (select_table ''mappings'')) (\<lambda>x. if c \<in> set (case x of None \<Rightarrow> [] | Some y \<Rightarrow> rt_columns y)
      then eff_ret () else ddl E (add_column ''mappings'' c decl dflt)) u = (r, v)"
    using m by (simp add: ensure_column_def)
  then show "cat_tables (snd (ensure_column E ''mappings'' c decl dflt u)) = cat_tables s \<and>
      (quiet E \<longrightarrow> fst (ensure_column E ''mappings'' c decl dflt u) = Inr ())"
    by (cases rule: eff_bind_cases) (use m u t0 assms(2) in \<open>auto elim!: ddl_select\<close>)
qed

lemma idle_I:
  assumes "\<And>u r v. cat_tables u = cat_tables s \<Longrightarrow> table_at u = table_at s \<Longrightarrow> m u = (r, v) \<Longrightarrow>
    cat_tables v = cat_tables s \<and> (quiet E \<longrightarrow> r = Inr ())"
  shows "idle E m s"
  unfolding idle_def
proof (intro allI impI)
  fix u :: catalog
  assume u: "cat_tables u = cat_tables s"
  show "cat_tables (snd (m u)) = cat_tables s \<and> (quiet E \<longrightarrow> fst (m u) = Inr ())"
    using assms [OF u table_at_cong [OF u], of "fst (m u)" "snd (m u)"] by simp
qed

lemma idle_run_schema:
  assumes "\<forall>name\<in>fst ` set sqlite_schema. table_at s name \<noteq> None"
  shows "idle E (run_schema E) s"
  unfolding run_schema_def
proof (rule idle_forM, clarify, rule idle_I)
  fix name t and u v :: catalog and r :: "edge_core_error + unit"
  assume "(name, t) \<in> set sqlite_schema" "cat_tables u = cat_tables s" "table_at u = table_at s"
    "ddl E (create_if_missing name t) u = (r, v)"
  then show "cat_tables v = cat_tables s \<and> (quiet E \<longrightarrow> r = Inr ())"
    using assms by (fastforce simp: create_if_missing_def ddl_def Let_def dest: not_quiet split: option.splits)
qed

lemma migrated_idle:
  assumes "migrated s"
  shows "idle E (migrate E) s"
proof -
  from assms obtain t0 where t0: "table_at s ''mappings'' = Some t0" "\<not> legacy t0"
    "set program_columns \<subseteq> set (rt_columns t0)" "fst ` set mapping_indexes \<subseteq> index_names t0"
    "set mapping_triggers \<subseteq> set (rt_triggers t0)"
    and schema: "\<forall>name\<in>fst ` set sqlite_schema. table_at s name \<noteq> None"
    unfolding migrated_def by blast
  have pf: "idle E (ensure_port_forward_schema E) s"
  proof (rule idle_I)
    fix u v :: catalog and r :: "edge_core_error + unit"
    assume u: "cat_tables u = cat_tables s" "table_at u = table_at s" "ensure_port_forward_schema E u = (r, v)"
    then have "table_at u ''mappings'' = Some t0" using t0(1) by simp
    from ensure_port_forward_schema_cases [OF u(3) this] show "cat_tables v = cat_tables s \<and> (quiet E \<longrightarrow> r = Inr ())"
      using t0(2) u(1) by (metis)
  qed
  have cs: "idle E (ensure_mapping_constraints E) s"
  proof (rule idle_I)
    fix u v :: catalog and r :: "edge_core_error + unit"
    assume u: "cat_tables u = cat_tables s" "table_at u = table_at s" "ensure_mapping_constraints E u = (r, v)"
    then have "table_at u ''mappings'' = Some t0" using t0(1) by simp
    from ensure_mapping_constraints_spec [OF u(3) this] show "cat_tables v = cat_tables s \<and> (quiet E \<longrightarrow> r = Inr ())"
      using t0(4,5) u(1) by (auto simp: indexes_checked_def)
  qed
  have col: "idle E (ensure_column E ''mappings'' c decl dflt) s" if "c \<in> set program_columns" for c decl dflt
    by (rule idle_ensure_column [OF t0(1)]) (use that t0(3) in blast)
  show ?thesis
    unfolding migrate_def
    by (intro idle_bind idle_run_schema [OF schema] pf cs col) (simp_all add: program_columns_def)
qed

section \<open>The steps of a migration\<close>

text \<open>The four calls of \<open>ensure_column\<close>, one after the other.\<close>

definition program_decls :: "(string \<times> string \<times> sql_value) list" where
  "program_decls =
     [(''public_port'', ''INTEGER'', VNull),
      (''backend'', ''TEXT NOT NULL DEFAULT '' @ quoted ''nft'', VText ''nft''),
      (''health_status'', ''TEXT'', VNull), (''last_checked_at'', ''TEXT'', VNull)]"

definition ensure_columns :: "'e ddl_env_scheme \<Rightarrow> unit ddl_eff" where
  "ensure_columns E = eff_forM (\<lambda>(c, decl, dflt). ensure_column E ''mappings'' c decl dflt) program_decls"

lemma migrate_stages:
  "migrate E = eff_bind (run_schema E) (\<lambda>_. eff_bind (ensure_port_forward_schema E) (\<lambda>_.
     eff_bind (ensure_columns E) (\<lambda>_. ensure_mapping_constraints E)))"
  by (simp add: migrate_def ensure_columns_def program_decls_def eff_bind_assoc)

text \<open>Columns are added at the end; what a row had it keeps, and no uniqueness comes in.\<close>

definition widened :: "raw_table \<Rightarrow> raw_table \<Rightarrow> bool" where
  "widened t0 t \<longleftrightarrow>
     set (rt_columns t0) \<subseteq> set (rt_columns t) \<and> rt_indexes t = rt_indexes t0 \<and> rt_triggers t = rt_triggers t0 \<and>
     (\<not> unique_text (rt_sql t0) \<longrightarrow> \<not> unique_text (rt_sql t)) \<and>
     list_all2 (\<lambda>r r'. \<forall>c\<in>set (rt_columns t0). col r' c = col r c) (rt_rows t0) (rt_rows t)"

lemma widened_refl [simp]: "widened t t"
  by (simp add: widened_def list_all2_refl)

lemma widened_trans: "widened t0 t1 \<Longrightarrow> widened t1 t2 \<Longrightarrow> widened t0 t2"
  by (simp add: widened_def list_all2_conv_all_nth subset_iff)

lemma widened_legacy: "widened t0 t \<Longrightarrow> \<not> legacy t0 \<Longrightarrow> \<not> legacy t"
  by (auto simp: widened_def legacy_def)

lemma add_col_widened:
  assumes "c \<notin> set (rt_columns t0)" "CHR ''Q'' \<notin> set (c @ decl)" "CHR ''q'' \<notin> set (c @ decl)"
  shows "widened t0 (add_col c decl dflt t0)"
proof -
  have "\<not> unique_text (butlast (rt_sql t0) @ '', '' @ c @ '' '' @ decl @ '')'')" if "\<not> unique_text (rt_sql t0)"
    using unique_text_added [OF that, of "'' '' @ c @ '' '' @ decl @ '')''"] assms(2,3) by simp
  then show ?thesis
    using assms(1) by (auto simp: widened_def add_col_def col_def list_all2_conv_all_nth split: option.splits if_splits)
qed

lemma column_loop:
  assumes "eff_forM (\<lambda>(c, decl, dflt). ensure_column E ''mappings'' c decl dflt) ds s = (r, t)"
    "table_at s ''mappings'' = Some t0"
    "\<forall>(c, decl, dflt)\<in>set ds. CHR ''Q'' \<notin> set (c @ decl) \<and> CHR ''q'' \<notin> set (c @ decl)"
  shows "\<exists>t1. table_at t = (table_at s)(''mappings'' \<mapsto> t1) \<and> widened t0 t1 \<and>
    (r = Inr () \<longrightarrow> fst ` set ds \<subseteq> set (rt_columns t1)) \<and> (fst ` set ds \<subseteq> set (rt_columns t0) \<longrightarrow> t1 = t0) \<and>
    (quiet E \<longrightarrow> r = Inr ())"
  using assms
proof (induction ds arbitrary: s t0)
  case Nil
  then show ?case by (intro exI [of _ t0]) auto
next
  case (Cons d ds)
  obtain c decl dflt where d: "d = (c, decl, dflt)" by (cases d)
  from Cons.prems(1) have "eff_bind (ensure_column E ''mappings'' c decl dflt)
      (\<lambda>_. eff_forM (\<lambda>(c, decl, dflt). ensure_column E ''mappings'' c decl dflt) ds) s = (r, t)" by (simp add: d)
  then show ?case
  proof (cases rule: eff_bind_cases)
    case (error e)
    from error(1) Cons.prems(2) show ?thesis
      by (cases rule: ensure_column_cases) (use error Cons.prems(2) in \<open>auto intro!: exI [of _ t0]\<close>)
  next
    case (ok x u)
    have decls: "\<forall>(c, decl, dflt)\<in>set ds. CHR ''Q'' \<notin> set (c @ decl) \<and> CHR ''q'' \<notin> set (c @ decl)"
      using Cons.prems(3) by simp
    obtain t1 where t1: "table_at u = (table_at s)(''mappings'' \<mapsto> t1)" "widened t0 t1" "c \<in> set (rt_columns t1)"
      "c \<in> set (rt_columns t0) \<longrightarrow> t1 = t0"
      using ok(1) Cons.prems(2)
    proof (cases rule: ensure_column_cases)
      case there
      with table_at_cong [OF there(3)] Cons.prems(2) that [of t0] show thesis by (simp add: map_upd_triv)
    next
      case added
      with add_col_widened [OF added(2), of decl dflt] Cons.prems(3) d that show thesis by (simp add: add_col_def)
    qed simp
    then have "table_at u ''mappings'' = Some t1" by simp
    from Cons.IH [OF ok(2) this decls] obtain t2 where t2: "table_at t = (table_at u)(''mappings'' \<mapsto> t2)"
      "widened t1 t2" "r = Inr () \<longrightarrow> fst ` set ds \<subseteq> set (rt_columns t2)"
      "fst ` set ds \<subseteq> set (rt_columns t1) \<longrightarrow> t2 = t1" "quiet E \<longrightarrow> r = Inr ()" by blast
    have "c \<in> set (rt_columns t2)" using t1(3) t2(2) by (auto simp: widened_def)
    then show ?thesis
      using t1 t2 widened_trans [OF t1(2) t2(2)] d by (intro exI [of _ t2]) auto
  qed
qed

lemma ensure_columns_spec:
  assumes "ensure_columns E s = (r, t)" "table_at s ''mappings'' = Some t0"
  shows "\<exists>t1. table_at t = (table_at s)(''mappings'' \<mapsto> t1) \<and> widened t0 t1 \<and>
    (r = Inr () \<longrightarrow> set program_columns \<subseteq> set (rt_columns t1)) \<and>
    (set program_columns \<subseteq> set (rt_columns t0) \<longrightarrow> t1 = t0) \<and> (quiet E \<longrightarrow> r = Inr ())"
proof -
  have "\<forall>(c, decl, dflt)\<in>set program_decls. CHR ''Q'' \<notin> set (c @ decl) \<and> CHR ''q'' \<notin> set (c @ decl)"
    by (simp add: program_decls_def quoted_def)
  moreover have "fst ` set program_decls = set program_columns"
    by (simp add: program_decls_def program_columns_def)
  ultimately show ?thesis using column_loop [OF assms(1) [unfolded ensure_columns_def] assms(2)] by simp
qed

text \<open>The rebuilt table has the columns of the schema, so that nothing is added to it, and none of the
  old constraints.\<close>

abbreviation rebuilt :: "raw_table \<Rightarrow> raw_table" where
  "rebuilt t0 \<equiv> fresh_mappings\<lparr>rt_rows := map rebuilt_row (rt_rows t0)\<rparr>"

lemma rebuilt_columns: "set program_columns \<subseteq> set (rt_columns (rebuilt t0))"
  by (simp add: program_columns_def new_table_def mappings_columns_def)

lemma rebuilt_not_legacy: "\<not> legacy (rebuilt t0)"
  using fresh_not_legacy by (simp add: legacy_def new_table_def old_unique_index_def primary_index_def)

lemma map_of_columns: "c \<in> fst ` set cols \<Longrightarrow> map_of (map (\<lambda>(c, _). (c, f c)) cols) c = Some (f c)"
  by (induction cols) auto

lemma col_rebuilt: "c \<in> set copied_columns \<Longrightarrow> col (rebuilt_row r) c = col r c"
  unfolding rebuilt_row_def col_def [of "map _ _"]
  by (subst map_of_columns) (auto simp: copied_columns_def)

lemma rebuilt_widens:
  assumes "K \<subseteq> set copied_columns"
  shows "K \<subseteq> set (rt_columns (rebuilt t0))"
    "list_all2 (\<lambda>r r'. \<forall>c\<in>K. col r' c = col r c) (rt_rows t0) (rt_rows (rebuilt t0))"
  using assms by (auto simp: new_table_def copied_columns_def list_all2_conv_all_nth col_rebuilt subset_iff)

definition rebuilt_from :: "raw_table \<Rightarrow> raw_table \<Rightarrow> bool" where
  "rebuilt_from t0 t1 \<longleftrightarrow>
     legacy t0 \<and> set copied_columns \<subseteq> set (rt_columns t0) \<and> t1 = rebuilt t0 \<and>
     distinct (filter (\<lambda>v. v \<noteq> VNull) (map (\<lambda>r. col r ''id'') (rt_rows t1)))"

definition finished :: "catalog \<Rightarrow> raw_table \<Rightarrow> raw_table \<Rightarrow> bool" where
  "finished t t2 t3 \<longleftrightarrow>
     set program_columns \<subseteq> set (rt_columns t2) \<and> indexes_checked mapping_indexes t2 \<and>
     fst ` set mapping_indexes \<subseteq> index_names t3 \<and> set mapping_triggers \<subseteq> set (rt_triggers t3) \<and>
     (\<forall>name\<in>fst ` set sqlite_schema. table_at t name \<noteq> None)"

lemma columns_then_constraints:
  assumes "eff_bind (ensure_columns E) (\<lambda>_. ensure_mapping_constraints E) s = (r, t)"
    "table_at s ''mappings'' = Some t1" "r = Inr () \<longrightarrow> (\<forall>name\<in>fst ` set sqlite_schema. table_at s name \<noteq> None)"
  shows "\<exists>t2 t3. widened t1 t2 \<and> (set program_columns \<subseteq> set (rt_columns t1) \<longrightarrow> t2 = t1) \<and> constrained t2 t3 \<and>
    table_at t ''mappings'' = Some t3 \<and> (r = Inr () \<longrightarrow> finished t t2 t3)"
  using assms(1)
proof (cases rule: eff_bind_cases)
  case (error e)
  from ensure_columns_spec [OF error(1) assms(2)] obtain t2 where
    "table_at t = (table_at s)(''mappings'' \<mapsto> t2)" "widened t1 t2" "set program_columns \<subseteq> set (rt_columns t1) \<longrightarrow> t2 = t1"
    by blast
  with error(2) show ?thesis by (intro exI [of _ t2]) simp
next
  case (ok x u)
  from ensure_columns_spec [OF ok(1) assms(2)] obtain t2 where
    t2: "table_at u = (table_at s)(''mappings'' \<mapsto> t2)" "widened t1 t2" "set program_columns \<subseteq> set (rt_columns t1) \<longrightarrow> t2 = t1"
    "set program_columns \<subseteq> set (rt_columns t2)" by auto
  then have "table_at u ''mappings'' = Some t2" by simp
  from ensure_mapping_constraints_spec [OF ok(2) this] obtain t3 where
    t3: "table_at t = (table_at u)(''mappings'' \<mapsto> t3)" "constrained t2 t3"
    "r = Inr () \<longrightarrow> fst ` set mapping_indexes \<subseteq> index_names t3 \<and> set mapping_triggers \<subseteq> set (rt_triggers t3) \<and>
      indexes_checked mapping_indexes t2" by blast
  have "\<forall>name\<in>fst ` set sqlite_schema. table_at t name \<noteq> None" if "r = Inr ()"
    using assms(3) that t2(1) t3(1) by auto
  with t2 t3 show ?thesis unfolding finished_def by (intro exI [of _ t2] exI [of _ t3]) simp
qed

lemma migrate_result:
  assumes "migrate E s = (r, t)" "(map_of sqlite_schema ++ table_at s) ''mappings'' = Some t0"
    "table_at s ''mappings'' \<noteq> None \<or> r = Inr ()"
  shows "\<exists>t1 t2 t3. (t1 = t0 \<and> \<not> legacy t0 \<or> t1 = t0 \<and> t3 = t0 \<and> r \<noteq> Inr () \<or> rebuilt_from t0 t1) \<and> widened t1 t2 \<and>
    (set program_columns \<subseteq> set (rt_columns t1) \<longrightarrow> t2 = t1) \<and> constrained t2 t3 \<and>
    table_at t ''mappings'' = Some t3 \<and> (r = Inr () \<longrightarrow> finished t t2 t3)"
  using assms(1) [unfolded migrate_stages]
proof (cases rule: eff_bind_cases)
  case (error e)
  with assms(2,3) have "table_at t ''mappings'' = Some t0"
    using run_schema_old [OF error(1), of "''mappings''"] by (auto simp: map_add_def split: option.splits)
  with error(2) show ?thesis by (intro exI [of _ t0]) auto
next
  case (ok x u)
  have u: "table_at u = map_of sqlite_schema ++ table_at s" using run_schema_ok ok(1) by simp
  then have t0: "table_at u ''mappings'' = Some t0" using assms(2) by simp
  have schema: "table_at u name \<noteq> None" if "name \<in> fst ` set sqlite_schema" for name
  proof -
    have "map_of sqlite_schema name \<noteq> None" using that by (simp only: map_of_eq_None_iff not_not)
    then show ?thesis by (auto simp: u map_add_def split: option.splits)
  qed
  from ok(2) show ?thesis
  proof (cases rule: eff_bind_cases)
    case (error e)
    from error(1) t0 have "table_at t ''mappings'' = Some t0"
      by (cases rule: ensure_port_forward_schema_cases) (use t0 table_at_cong [of t u] in auto)
    with error(2) show ?thesis by (intro exI [of _ t0]) auto
  next
    case ok': (ok y v)
    obtain t1 where t1: "t1 = t0 \<and> \<not> legacy t0 \<or> rebuilt_from t0 t1" "table_at v ''mappings'' = Some t1"
      "\<And>name. name \<in> fst ` set sqlite_schema \<Longrightarrow> table_at v name \<noteq> None"
      using ok'(1) t0
    proof (cases rule: ensure_port_forward_schema_cases)
      case current
      with t0 schema table_at_cong [of v u] that show thesis by simp
    next
      case rebuilt
      then have "rebuilt_from t0 (rebuilt t0)" by (simp add: rebuilt_from_def)
      moreover have "table_at v name \<noteq> None" if "name \<in> fst ` set sqlite_schema" for name
        using that schema [OF that] rebuilt(5) by (auto simp: map_add_def split: option.splits)
      ultimately show thesis using rebuilt(5) that [of "rebuilt t0"] by auto
    qed simp
    from columns_then_constraints [OF ok'(2) t1(2)] t1(3) obtain t2 t3 where
      "widened t1 t2" "set program_columns \<subseteq> set (rt_columns t1) \<longrightarrow> t2 = t1" "constrained t2 t3"
      "table_at t ''mappings'' = Some t3" "r = Inr () \<longrightarrow> finished t t2 t3" by blast
    with t1(1) show ?thesis by blast
  qed
qed

lemma schema_over: "table_at s ''mappings'' = Some t0 \<Longrightarrow> (map_of sqlite_schema ++ table_at s) ''mappings'' = Some t0"
  by (simp add: map_add_def)

lemma migrate_migrated:
  assumes "migrate E s = (Inr (), t)"
  shows "migrated t"
proof -
  obtain t0 where t0: "(map_of sqlite_schema ++ table_at s) ''mappings'' = Some t0"
    by (cases "table_at s ''mappings''") (auto simp: map_add_def)
  from migrate_result [OF assms t0] obtain t1 t2 t3 where
    *: "t1 = t0 \<and> \<not> legacy t0 \<or> rebuilt_from t0 t1" "widened t1 t2" "constrained t2 t3"
    "table_at t ''mappings'' = Some t3" "finished t t2 t3" by auto
  have "\<not> legacy t1" using *(1) rebuilt_not_legacy by (auto simp: rebuilt_from_def)
  then have "\<not> legacy t3" using widened_legacy *(2) constrained_legacy *(3) by blast
  with *(3,4,5) show ?thesis by (auto simp: migrated_def finished_def constrained_def)
qed

end
