(* ===== verification/Migrate_Props.thy ===== *)
theory Migrate_Props
  imports Migrate_Steps
begin

text \<open>
  What opening a database does to it: no row of the mapping table is lost whatever statement fails; a
  migrated database is a fixed point; the rebuild of a table with the old uniqueness constraints gives
  rows the store's own constraints accept; when a migration succeeds, and a table the rebuild cannot copy.
\<close>

section \<open>Rows as the store reads them\<close>

definition opt_value :: "('a \<Rightarrow> sql_value) \<Rightarrow> 'a option \<Rightarrow> sql_value" where
  "opt_value f v = (case v of None \<Rightarrow> VNull | Some x \<Rightarrow> f x)"

definition raw_of :: "mapping_row \<Rightarrow> raw_row" where
  "raw_of m =
     [(''id'', VText (r_id m)), (''name'', VText (r_name m)), (''public_ip'', opt_value VText (r_public_ip m)),
      (''oci_public_ip_ocid'', opt_value VText (r_oci_public_ip_ocid m)),
      (''edge_private_ip'', VText (r_edge_private_ip m)),
      (''oci_private_ip_ocid'', opt_value VText (r_oci_private_ip_ocid m)), (''target_ip'', VText (r_target_ip m)),
      (''public_port'', opt_value VInt (r_public_port m)), (''target_port'', opt_value VInt (r_target_port m)),
      (''protocol'', VText (r_protocol m)), (''mode'', VText (r_mode m)), (''backend'', VText (r_backend m)),
      (''enabled'', VInt (r_enabled m)), (''status'', VText (r_status m)),
      (''last_error'', opt_value VText (r_last_error m)), (''health_status'', opt_value VText (r_health_status m)),
      (''last_checked_at'', opt_value VText (r_last_checked_at m)), (''created_at'', VText (r_created_at m)),
      (''updated_at'', VText (r_updated_at m))]"

definition represents :: "raw_row \<Rightarrow> mapping_row \<Rightarrow> bool" where
  "represents r m \<longleftrightarrow> list_all (\<lambda>(c, v). col r c = v) (raw_of m)"

lemma represents_cols:
  assumes "represents r m"
  shows "col r ''id'' = VText (r_id m)" "col r ''public_ip'' = opt_value VText (r_public_ip m)"
    "col r ''edge_private_ip'' = VText (r_edge_private_ip m)" "col r ''target_ip'' = VText (r_target_ip m)"
    "col r ''mode'' = VText (r_mode m)" "col r ''enabled'' = VInt (r_enabled m)"
  using assms by (simp_all add: represents_def raw_of_def)

lemma distinct_pairs:
  "distinct (filter P (map f (filter Q xs))) \<Longrightarrow>
   pairwise_ok (\<lambda>a b. Q a \<longrightarrow> Q b \<longrightarrow> P (f a) \<longrightarrow> f a \<noteq> f b) xs"
  by (induction xs) (auto split: if_splits)

lemma pairwise_ok_conj: "pairwise_ok R xs \<Longrightarrow> pairwise_ok S xs \<Longrightarrow> pairwise_ok (\<lambda>a b. R a b \<and> S a b) xs"
  by (induction xs) auto

text \<open>\<open>UNIQUE\<close> on a column, as the old tables had it.\<close>

definition unique_column :: "string \<Rightarrow> raw_row list \<Rightarrow> bool" where
  "unique_column c rows \<longleftrightarrow> distinct (filter (\<lambda>v. v \<noteq> VNull) (map (\<lambda>r. col r c) rows))"

lemma unique_column_pairs: "unique_column c rows \<Longrightarrow> pairwise_ok (\<lambda>a b. col a c \<noteq> VNull \<longrightarrow> col a c \<noteq> col b c) rows"
  using distinct_pairs [where Q = "\<lambda>_. True"] by (auto simp: unique_column_def)

lemma unique_column_rebuilt: "c \<in> set copied_columns \<Longrightarrow> unique_column c (map rebuilt_row rows) \<longleftrightarrow> unique_column c rows"
  by (simp add: unique_column_def col_rebuilt comp_def)

lemma target_pairs:
  assumes "distinct (index_keys [''target_ip''] o2o_text rows)"
  shows "pairwise_ok (\<lambda>a b. col a ''enabled'' = VInt 1 \<and> col a ''mode'' = VText o2o_text \<longrightarrow>
    col b ''enabled'' = VInt 1 \<and> col b ''mode'' = VText o2o_text \<longrightarrow> col a ''target_ip'' \<noteq> VNull \<longrightarrow>
    col a ''target_ip'' \<noteq> col b ''target_ip'') rows"
  by (rule pairwise_ok_mono [OF distinct_pairs [OF assms [unfolded index_keys_def]]]) auto

lemma rebuilt_rows_apart:
  assumes "unique_column ''id'' rows" "unique_column ''public_ip'' rows" "unique_column ''edge_private_ip'' rows"
    "distinct (index_keys [''target_ip''] o2o_text rows)" "list_all2 represents rows ms"
  shows "pairwise_ok rows_apart ms"
proof (rule pairwise_ok_list_all2 [OF assms(5) pairwise_ok_conj [OF unique_column_pairs [OF assms(1)]
      pairwise_ok_conj [OF unique_column_pairs [OF assms(2)] pairwise_ok_conj [OF unique_column_pairs [OF assms(3)]
        target_pairs [OF assms(4)]]]]])
  fix r r' m m'
  assume "represents r m" "represents r' m'"
  note cols = represents_cols [OF this(1)] represents_cols [OF this(2)]
  assume "(col r ''id'' \<noteq> VNull \<longrightarrow> col r ''id'' \<noteq> col r' ''id'') \<and>
    (col r ''public_ip'' \<noteq> VNull \<longrightarrow> col r ''public_ip'' \<noteq> col r' ''public_ip'') \<and>
    (col r ''edge_private_ip'' \<noteq> VNull \<longrightarrow> col r ''edge_private_ip'' \<noteq> col r' ''edge_private_ip'') \<and>
    (col r ''enabled'' = VInt 1 \<and> col r ''mode'' = VText o2o_text \<longrightarrow>
     col r' ''enabled'' = VInt 1 \<and> col r' ''mode'' = VText o2o_text \<longrightarrow> col r ''target_ip'' \<noteq> VNull \<longrightarrow>
     col r ''target_ip'' \<noteq> col r' ''target_ip'')"
  then show "rows_apart m m'"
    by (auto simp: cols rows_apart_def row_clash_def sql_eq_def opt_value_def split: option.splits)
qed

lemma legacy_migrated_rows:
  assumes "table_at s ''mappings'' = Some t0" "legacy t0" "migrate E s = (Inr (), t)"
  shows "\<exists>t1. table_at t ''mappings'' = Some t1 \<and> rt_rows t1 = map rebuilt_row (rt_rows t0)"
proof -
  from migrate_result [OF assms(3) schema_over [OF assms(1)]] assms(2) obtain u1 u2 t1 where
    "rebuilt_from t0 u1" "constrained u2 t1" "set program_columns \<subseteq> set (rt_columns u1) \<longrightarrow> u2 = u1"
    "table_at t ''mappings'' = Some t1" by auto
  then show ?thesis using rebuilt_columns by (auto simp: rebuilt_from_def constrained_def)
qed

section \<open>When a migration succeeds\<close>

lemma schema_quiet: "quiet E \<Longrightarrow> \<exists>t. eff_forM (\<lambda>(name, t). ddl E (create_if_missing name t)) ts s = (Inr (), t)"
  by (induction ts arbitrary: s) (auto simp: eff_bind_def ddl_def quiet_def create_if_missing_def Let_def)

text \<open>What the copy asks of an old table: its columns, values where the new table has \<open>NOT NULL\<close>, and
  distinct keys.\<close>

definition copyable :: "raw_table \<Rightarrow> bool" where
  "copyable t \<longleftrightarrow>
     set copied_columns \<subseteq> set (rt_columns t) \<and>
     (\<forall>r\<in>set (rt_rows t). \<forall>c\<in>set not_null_columns \<inter> set copied_columns. col r c \<noteq> VNull) \<and>
     unique_column ''id'' (rt_rows t)"

lemma rebuilt_not_null:
  assumes "copyable t" "c \<in> set not_null_columns" "r \<in> set (rt_rows t)"
  shows "col (rebuilt_row r) c \<noteq> VNull"
proof (cases "c = ''backend''")
  case True
  have "''backend'' \<in> fst ` set mappings_columns" by (simp add: mappings_columns_def)
  then show ?thesis unfolding True rebuilt_row_def col_def [of "map _ _"] by (subst map_of_columns) simp_all
next
  case False
  with assms(2) have "c \<in> set copied_columns"
    by (auto simp: not_null_columns_def copied_columns_def mappings_columns_def)
  with assms show ?thesis by (auto simp: copyable_def col_rebuilt)
qed

lemma insert_rows_copyable:
  assumes "copyable t"
  shows "insert_rows (map rebuilt_row (rt_rows t)) fresh_mappings = Inr (rebuilt t)"
proof -
  have "find (\<lambda>c. list_ex (\<lambda>r. col r c = VNull) (map rebuilt_row (rt_rows t))) not_null_columns = None"
    using rebuilt_not_null [OF assms] by (auto simp: find_None_iff_ex list_ex_iff)
  moreover have "unique_column ''id'' (map rebuilt_row (rt_rows t))"
    using assms by (simp add: copyable_def unique_column_rebuilt copied_columns_def mappings_columns_def)
  moreover have "rt_rows fresh_mappings = []" by (simp add: new_table_def)
  ultimately show ?thesis by (simp add: insert_rows_def unique_column_def)
qed

lemma rebuild_quiet:
  assumes "quiet E" "table_at s ''mappings'' = Some t0" "table_at s ''mappings_old_unique'' = None" "copyable t0"
  shows "\<exists>t. rebuild E s = (Inr (), t)"
proof -
  let ?o = "''mappings_old_unique''" and ?m = "''mappings''"
  let ?s = "s\<lparr>cat_tick := Suc (cat_tick s)\<rparr>"
  let ?s1 = "put_table ?o t0 (?s\<lparr>cat_tables := AList.delete ?m (cat_tables ?s)\<rparr>)"
  have 1: "ddl E (rename_table ?m ?o) s = (Inr (), ?s1)"
    by (rule ddl_quiet [OF assms(1)]) (use assms(2,3) in \<open>simp add: rename_table_def\<close>)
  obtain s2 where 2: "run_schema E ?s1 = (Inr (), s2)" using schema_quiet [OF assms(1)] by (auto simp: run_schema_def)
  have s2: "table_at s2 ?o = Some t0" "table_at s2 ?m = Some fresh_mappings"
    by (simp_all add: run_schema_ok [OF 2] map_add_def)
  let ?s2 = "s2\<lparr>cat_tick := Suc (cat_tick s2)\<rparr>"
  let ?s3 = "put_table ?m (rebuilt t0) ?s2"
  have "find (\<lambda>c. c \<notin> set (rt_columns t0)) copied_columns = None"
    using assms(4) by (auto simp: copyable_def find_None_iff_ex)
  then have 3: "ddl E (copy_rows ?o ?m) s2 = (Inr (), ?s3)"
    by (intro ddl_quiet [OF assms(1)]) (simp add: copy_rows_def s2 insert_rows_copyable [OF assms(4)])
  have "\<exists>t. ddl E (drop_table ?o) ?s3 = (Inr (), t)"
    using s2(1) by (intro exI, intro ddl_quiet [OF assms(1)]) (simp add: drop_table_def)
  with 1 2 3 show ?thesis by (auto simp: rebuild_def eff_bind_def)
qed

lemma transaction_quiet:
  assumes "quiet E" "\<And>u. cat_tables u = cat_tables s \<Longrightarrow> \<exists>t. body u = (Inr (), t)"
  shows "\<exists>t. transaction E body s = (Inr (), t)"
proof -
  let ?s = "s\<lparr>cat_tick := Suc (cat_tick s)\<rparr>"
  obtain t where t: "body ?s = (Inr (), t)" using assms(2) [of ?s] by auto
  have "ddl E (\<lambda>u. Inr (u, u)) s = (Inr ?s, ?s)" by (rule ddl_quiet [OF assms(1)]) simp
  moreover have "ddl E (\<lambda>u. Inr ((), u)) t = (Inr (), t\<lparr>cat_tick := Suc (cat_tick t)\<rparr>)"
    by (rule ddl_quiet [OF assms(1)]) simp
  ultimately show ?thesis using t by (simp add: transaction_def eff_bind_def)
qed

lemma ensure_port_forward_schema_quiet:
  assumes "quiet E" "table_at s ''mappings'' = Some t0"
    "legacy t0 \<longrightarrow> table_at s ''mappings_old_unique'' = None \<and> copyable t0"
  shows "\<exists>t. ensure_port_forward_schema E s = (Inr (), t)"
proof -
  obtain r u where m: "has_legacy_mapping_unique_constraints E s = (r, u)" by fastforce
  then have u: "r = Inr (legacy t0)" "cat_tables u = cat_tables s"
    using assms(1) has_legacy_spec [OF m assms(2)] by auto
  have "\<exists>t. transaction E (rebuild E) u = (Inr (), t)" if "legacy t0"
  proof (rule transaction_quiet [OF assms(1)])
    fix v :: catalog
    assume "cat_tables v = cat_tables u"
    then have "table_at v = table_at s" using u(2) table_at_cong [of v s] by simp
    then show "\<exists>t. rebuild E v = (Inr (), t)" using rebuild_quiet [OF assms(1), of v t0] assms(2,3) that by simp
  qed
  then show ?thesis using m u(1) by (auto simp: ensure_port_forward_schema_def eff_bind_def rebuild_def)
qed

lemma migrate_quiet:
  assumes q: "quiet E" and t0: "(map_of sqlite_schema ++ table_at s) ''mappings'' = Some t0"
    and l: "legacy t0 \<longrightarrow> table_at s ''mappings_old_unique'' = None \<and> copyable t0"
    and cols: "\<not> legacy t0 \<longrightarrow> set program_columns \<subseteq> set (rt_columns t0)"
    and idx: "indexes_checked mapping_indexes (if legacy t0 then rebuilt t0 else t0)"
  shows "\<exists>t. migrate E s = (Inr (), t)"
proof -
  obtain u where u: "run_schema E s = (Inr (), u)" using schema_quiet [OF q] by (auto simp: run_schema_def)
  have tu: "table_at u = map_of sqlite_schema ++ table_at s" by (rule run_schema_ok [OF u])
  then have mu: "table_at u ''mappings'' = Some t0" and "table_at u ''mappings_old_unique'' = table_at s ''mappings_old_unique''"
    using t0 by (simp_all add: map_add_def split: option.splits)
  with l obtain v where v: "ensure_port_forward_schema E u = (Inr (), v)"
    using ensure_port_forward_schema_quiet [OF q mu] by auto
  let ?t = "if legacy t0 then rebuilt t0 else t0"
  from v mu have mv: "table_at v ''mappings'' = Some ?t"
    by (cases rule: ensure_port_forward_schema_cases) (use mu table_at_cong [of v u] in auto)
  obtain r w where w: "ensure_columns E v = (r, w)" by fastforce
  have "set program_columns \<subseteq> set (rt_columns ?t)" using cols rebuilt_columns by simp
  with ensure_columns_spec [OF w mv] q have "r = Inr ()" "table_at w ''mappings'' = Some ?t" by auto
  moreover obtain r' t where t: "ensure_mapping_constraints E w = (r', t)" by fastforce
  ultimately have "r' = Inr ()" using ensure_mapping_constraints_spec [OF t, of ?t] q idx by auto
  then show ?thesis using u v w t \<open>r = Inr ()\<close> by (simp add: migrate_stages eff_bind_def)
qed

section \<open>A sample of the old version\<close>

definition sample_ddl_env :: ddl_env where
  "sample_ddl_env = env_ops.extend sample_env
     \<lparr>ddl_text = (\<lambda>_. ''constraint failed''), create_dir_all = (\<lambda>_. None), pool_connect = (\<lambda>_. None)\<rparr>"

definition old_columns :: "(string \<times> string) list" where
  "old_columns =
     [(''id'', ''TEXT PRIMARY KEY''), (''name'', ''TEXT NOT NULL''), (''public_ip'', ''TEXT UNIQUE''),
      (''oci_public_ip_ocid'', ''TEXT''), (''edge_private_ip'', ''TEXT NOT NULL UNIQUE''),
      (''oci_private_ip_ocid'', ''TEXT''), (''target_ip'', ''TEXT NOT NULL''), (''target_port'', ''INTEGER''),
      (''protocol'', ''TEXT NOT NULL''), (''mode'', ''TEXT NOT NULL''), (''enabled'', ''INTEGER NOT NULL''),
      (''status'', ''TEXT NOT NULL''), (''last_error'', ''TEXT''), (''health_status'', ''TEXT''),
      (''last_checked_at'', ''TEXT''), (''created_at'', ''TEXT NOT NULL''), (''updated_at'', ''TEXT NOT NULL'')]"

definition old_row :: "string \<Rightarrow> string \<Rightarrow> string \<Rightarrow> raw_row" where
  "old_row i edge target =
     [(''id'', VText i), (''name'', VText i), (''public_ip'', VNull), (''oci_public_ip_ocid'', VNull),
      (''edge_private_ip'', VText edge), (''oci_private_ip_ocid'', VNull), (''target_ip'', VText target),
      (''target_port'', VNull), (''protocol'', VText ''all''), (''mode'', VText ''one_to_one_snat''),
      (''enabled'', VInt 1), (''status'', VText ''active''), (''last_error'', VNull), (''health_status'', VNull),
      (''last_checked_at'', VNull), (''created_at'', VText ''t0''), (''updated_at'', VText ''t0'')]"

definition old_table :: "(string \<times> string) list \<Rightarrow> raw_table" where
  "old_table cols =
     (new_table ''mappings'' cols
       [primary_index ''mappings'' ''id'',
        \<lparr>ix_name = ''sqlite_autoindex_mappings_2'', ix_unique = 1, ix_origin = ''u'', ix_columns = [''public_ip'']\<rparr>])
     \<lparr>rt_rows := [old_row ''a'' ''10.0.0.101'' ''192.168.20.42'', old_row ''b'' ''10.0.0.102'' ''192.168.20.43'']\<rparr>"

definition old_db :: catalog where
  "old_db = \<lparr>cat_tick = 0, cat_tables = [(''mappings'', old_table old_columns)]\<rparr>"

lemma sample_ddl_quiet: "sql_fault sample_ddl_env n = None"
  using sample_env_simps(5) [of n] by (simp add: sample_ddl_env_def env_ops.defs)

lemma old_db_table [simp]: "table_at old_db ''mappings'' = Some (old_table old_columns)"
  "table_at old_db ''mappings_old_unique'' = None"
  by (simp_all add: old_db_def table_at_def)

lemma old_table_sample [simp]:
  "rt_rows (old_table cols) = [old_row ''a'' ''10.0.0.101'' ''192.168.20.42'', old_row ''b'' ''10.0.0.102'' ''192.168.20.43'']"
  "rt_columns (old_table cols) = map fst cols" "legacy (old_table cols)"
  by (simp_all add: old_table_def new_table_def legacy_def old_unique_index_def)

lemma old_row_cols [simp]:
  "col (old_row i e t) ''id'' = VText i" "col (old_row i e t) ''public_ip'' = VNull"
  "col (old_row i e t) ''edge_private_ip'' = VText e" "col (old_row i e t) ''target_ip'' = VText t"
  "col (old_row i e t) ''mode'' = VText o2o_text" "col (old_row i e t) ''enabled'' = VInt 1"
  by (simp_all add: old_row_def col_def o2o_text_def)

lemma old_columns_copied: "set copied_columns \<subseteq> set (map fst old_columns)"
  by (simp add: copied_columns_def mappings_columns_def old_columns_def)

lemma old_table_copyable: "copyable (old_table old_columns)"
proof -
  have "\<forall>c\<in>set not_null_columns \<inter> set copied_columns. col (old_row i e t) c \<noteq> VNull" for i e t
    by (simp add: not_null_columns_def copied_columns_def mappings_columns_def old_row_def col_def)
  then show ?thesis using old_columns_copied by (simp add: copyable_def unique_column_def)
qed

lemma copied_sample [simp]:
  "''id'' \<in> set copied_columns" "''edge_private_ip'' \<in> set copied_columns" "''public_ip'' \<in> set copied_columns"
  "''target_ip'' \<in> set copied_columns" "''mode'' \<in> set copied_columns" "''enabled'' \<in> set copied_columns"
  by (simp_all add: copied_columns_def mappings_columns_def)

lemma old_table_indexes: "indexes_checked mapping_indexes
    (fresh_mappings\<lparr>rt_rows := map rebuilt_row (rt_rows (old_table old_columns))\<rparr>)"
  by (simp add: indexes_checked_def mapping_indexes_def index_keys_def col_rebuilt)

lemma old_migration: "\<exists>t. migrate sample_ddl_env old_db = (Inr (), t)"
  by (rule migrate_quiet [of _ _ "old_table old_columns"])
    (use sample_ddl_quiet old_table_copyable old_table_indexes in \<open>simp_all add: quiet_def map_add_def\<close>)

lemma old_db_migrated:
  "migrate sample_ddl_env old_db = (Inr (), t) \<Longrightarrow>
    \<exists>t1. table_at t ''mappings'' = Some t1 \<and> rt_rows t1 = map rebuilt_row (rt_rows (old_table old_columns))"
  using legacy_migrated_rows [OF old_db_table(1)] by simp

text \<open>A table of the version whose \<open>public_ip\<close> and \<open>edge_private_ip\<close> were declared \<open>UNIQUE\<close> becomes one
  that meets the constraints of the store: no two of its rows have the same id or clash.\<close>

lemma legacy_rows_apart:
  assumes "table_at s ''mappings'' = Some t0" "legacy t0"
    and "unique_column ''public_ip'' (rt_rows t0)" "unique_column ''edge_private_ip'' (rt_rows t0)"
    and "migrate E s = (Inr (), t)" "table_at t ''mappings'' = Some t1" "list_all2 represents (rt_rows t1) rows"
  shows "pairwise_ok rows_apart rows"
proof -
  from migrate_result [OF assms(5) schema_over [OF assms(1)]] assms(2,6) obtain u1 u2 where
    *: "rebuilt_from t0 u1" "constrained u2 t1" "set program_columns \<subseteq> set (rt_columns u1) \<longrightarrow> u2 = u1" "finished t u2 t1"
    by auto
  then have u: "u2 = rebuilt t0" using rebuilt_columns by (auto simp: rebuilt_from_def)
  then have rows: "rt_rows t1 = map rebuilt_row (rt_rows t0)" using *(2) by (simp add: constrained_def)
  have "unique_column ''id'' (rt_rows t1)" using *(1) rows by (auto simp: rebuilt_from_def unique_column_def)
  moreover have "unique_column ''public_ip'' (rt_rows t1)" "unique_column ''edge_private_ip'' (rt_rows t1)"
    using assms(3,4) rows by (simp_all add: unique_column_rebuilt copied_columns_def mappings_columns_def)
  moreover have "distinct (index_keys [''target_ip''] o2o_text (rt_rows t1))"
    using *(4) u rows by (simp add: finished_def indexes_checked_def mapping_indexes_def index_names_def
        new_table_def primary_index_def)
  ultimately show ?thesis using assms(7) by (rule rebuilt_rows_apart)
qed

lemma fresh_migrated:
  assumes "table_at s ''mappings'' = None" "migrate E s = (Inr (), t)" "table_at t ''mappings'' = Some t1"
  shows "rt_rows t1 = []"
proof -
  have "(map_of sqlite_schema ++ table_at s) ''mappings'' = Some fresh_mappings"
    using assms(1) by (simp add: map_add_def)
  from migrate_result [OF assms(2) this] assms(3) obtain u1 u2 where
    "u1 = fresh_mappings \<or> rebuilt_from fresh_mappings u1" "constrained u2 t1"
    "set program_columns \<subseteq> set (rt_columns u1) \<longrightarrow> u2 = u1" by auto
  then show ?thesis
    using rebuilt_columns rebuilt_columns [of "fresh_mappings"]
    by (auto simp: rebuilt_from_def constrained_def new_table_def)
qed

section \<open>Properties\<close>

text \<open>C9. Opening a database never loses a row: whatever statement of the migration fails, and whether or
  not the table is rebuilt, the mapping table is there afterwards with the same rows in the same order, each with
  the values it had in every column that is copied (all but \<open>public_port\<close> and \<open>backend\<close>).\<close>

theorem migrate_keeps_rows:
  assumes "table_at s ''mappings'' = Some t0"
  shows "\<exists>t1. table_at (snd (migrate E s)) ''mappings'' = Some t1 \<and>
    list_all2 (\<lambda>r r'. \<forall>c\<in>set copied_columns \<inter> set (rt_columns t0). col r' c = col r c) (rt_rows t0) (rt_rows t1)"
proof -
  let ?K = "set copied_columns \<inter> set (rt_columns t0)"
  obtain r t where m: "migrate E s = (r, t)" by (cases "migrate E s")
  from migrate_result [OF m schema_over [OF assms]] assms obtain t1 t2 t3 where
    *: "t1 = t0 \<or> rebuilt_from t0 t1" "widened t1 t2" "constrained t2 t3" "table_at t ''mappings'' = Some t3" by auto
  have K: "?K \<subseteq> set (rt_columns t1)" and 1: "list_all2 (\<lambda>r r'. \<forall>c\<in>?K. col r' c = col r c) (rt_rows t0) (rt_rows t1)"
    using *(1) rebuilt_widens [of ?K t0] by (auto simp: rebuilt_from_def list_all2_refl)
  have "list_all2 (\<lambda>r r'. \<forall>c\<in>?K. col r' c = col r c) (rt_rows t0) (rt_rows t3)"
    using 1 *(2,3) K by (auto simp: widened_def constrained_def list_all2_conv_all_nth)
  with *(4) m show ?thesis by simp
qed

theorem migrate_keeps_rows_witness:
  "\<exists>t1. table_at (snd (migrate sample_ddl_env old_db)) ''mappings'' = Some t1 \<and> length (rt_rows t1) = 2"
  using migrate_keeps_rows [OF old_db_table(1), of sample_ddl_env] by (auto dest!: list_all2_lengthD)

text \<open>C25. A migration that has returned \<open>Ok\<close> is final: opening the database again changes no table, whatever
  fails, and succeeds when the engine reports no fault.\<close>

theorem migrate_idempotent:
  assumes "migrate E s = (Inr (), t)"
  shows "cat_tables (snd (migrate E' t)) = cat_tables t \<and>
    ((\<forall>n. sql_fault E' n = None) \<longrightarrow> fst (migrate E' t) = Inr ())"
  using migrated_idle [OF migrate_migrated [OF assms], of E'] by (simp add: idle_def quiet_def)

theorem migrate_idempotent_witness:
  "\<exists>t. migrate sample_ddl_env old_db = (Inr (), t) \<and> cat_tables (snd (migrate sample_ddl_env t)) = cat_tables t \<and>
     fst (migrate sample_ddl_env t) = Inr ()"
proof -
  obtain t where t: "migrate sample_ddl_env old_db = (Inr (), t)" using old_migration by blast
  show ?thesis using t migrate_idempotent [OF t, of sample_ddl_env] sample_ddl_quiet by auto
qed

text \<open>C26. The rebuild reads every copied column of the old table, and it runs before the missing columns are
  added: a table with the old \<open>UNIQUE\<close> constraints that lacks one of these columns, \<open>health_status\<close> or
  \<open>last_checked_at\<close> say, is never migrated. Every attempt to open the database fails and leaves it as it was.\<close>

theorem legacy_without_column_stuck:
  assumes "table_at s ''mappings'' = Some t0" "legacy t0" "c \<in> set copied_columns" "c \<notin> set (rt_columns t0)"
  shows "(\<exists>e. fst (migrate E s) = Inl e) \<and> table_at (snd (migrate E s)) ''mappings'' = Some t0"
proof -
  obtain r t where m: "migrate E s = (r, t)" by (cases "migrate E s")
  from migrate_result [OF m schema_over [OF assms(1)]] assms have "r \<noteq> Inr () \<and> table_at t ''mappings'' = Some t0"
    by (auto simp: rebuilt_from_def)
  then show ?thesis using m by (cases r) simp_all
qed

theorem legacy_without_column_stuck_witness:
  "\<exists>e. fst (migrate sample_ddl_env
     \<lparr>cat_tick = 0, cat_tables = [(''mappings'', old_table (filter (\<lambda>c. fst c \<noteq> ''health_status'') old_columns))]\<rparr>) = Inl e"
proof -
  let ?t = "old_table (filter (\<lambda>c. fst c \<noteq> ''health_status'') old_columns)"
  have "table_at \<lparr>cat_tick = 0, cat_tables = [(''mappings'', ?t)]\<rparr> ''mappings'' = Some ?t" by (simp add: table_at_def)
  moreover have "''health_status'' \<notin> set (rt_columns ?t)" "''health_status'' \<in> set copied_columns"
    by (auto simp: copied_columns_def mappings_columns_def)
  ultimately show ?thesis
    using legacy_without_column_stuck [of _ ?t "''health_status''" sample_ddl_env] by simp
qed

text \<open>C24. A migration succeeds unless the engine reports a fault: on a new database file, and on a table of the
  version with the \<open>UNIQUE\<close> constraints whose rows the new table accepts.\<close>

theorem migrate_succeeds:
  assumes "\<forall>n. sql_fault E n = None"
    and "case table_at s ''mappings'' of
           None \<Rightarrow> True
         | Some t0 \<Rightarrow> legacy t0 \<and> copyable t0 \<and> table_at s ''mappings_old_unique'' = None \<and>
             indexes_checked mapping_indexes (fresh_mappings\<lparr>rt_rows := map rebuilt_row (rt_rows t0)\<rparr>)"
  shows "\<exists>t. migrate E s = (Inr (), t) \<and> migrated t"
proof (cases "table_at s ''mappings''")
  case None
  have "indexes_checked mapping_indexes fresh_mappings"
    by (simp add: indexes_checked_def mapping_indexes_def index_keys_def new_table_def)
  moreover have "\<not> legacy fresh_mappings"
    using rebuilt_not_legacy [of "fresh_mappings"] by (simp add: new_table_def legacy_def)
  moreover have "set program_columns \<subseteq> set (rt_columns fresh_mappings)"
    using rebuilt_columns [of "fresh_mappings"] by simp
  ultimately show ?thesis
    using migrate_quiet [of E s fresh_mappings] assms(1) None migrate_migrated
    by (fastforce simp: quiet_def map_add_def)
next
  case (Some t0)
  with assms show ?thesis
    using migrate_quiet [OF _ schema_over [OF Some]] migrate_migrated by (fastforce simp: quiet_def)
qed

theorem migrate_succeeds_witness: "\<exists>t. migrate sample_ddl_env old_db = (Inr (), t) \<and> migrated t"
  by (rule migrate_succeeds) (use sample_ddl_quiet old_table_copyable old_table_indexes in simp_all)

end
