(* ===== verification/Migrate_System.thy ===== *)
theory Migrate_System
  imports Migrate_Props System_Props
begin

text \<open>
  From opening a database to running on it: rows that satisfy the constraints are accepted by the indexes
  and triggers in any order, so a table that a migration rebuilt is a state the statements of the store can
  reach, and what holds of the running system holds after an upgrade.
\<close>

section \<open>Rows the constraints accept\<close>

definition known_mode :: "mapping_row \<Rightarrow> bool" where
  "known_mode r \<longleftrightarrow> r_mode r = o2o_text \<or> r_mode r = pf_text"

text \<open>The checks of an insertion are complete: a row apart from all others is accepted.\<close>

lemma check_row_accepts:
  assumes "\<And>r. r \<in> set others \<Longrightarrow> rows_apart new r" "\<And>r. r \<in> set others \<Longrightarrow> known_mode r"
  shows "check_row new others = Inr ()"
proof -
  have apart: "r_id r \<noteq> r_id new" "\<not> row_clash r new" "known_mode r" if "r \<in> set others" for r
    using rows_apart_sym [OF assms(1) [OF that]] assms(2) [OF that] by (auto simp: rows_apart_def)
  have "raise_conflict new others = None" if "r_enabled new = 1"
    unfolding raise_conflict_def first_check_None list_ex_iff row_on_def
    using apart(2,3) that by (auto simp: row_clash_def known_mode_def first_check_None list_ex_iff)
  moreover have "violated_index new others = None"
    unfolding violated_index_def first_check_None list_ex_iff row_on_def
    using apart by (auto simp: row_clash_def)
  ultimately show ?thesis by (cases "r_enabled new = 1") (simp_all add: check_row_def raise_conflict_def)
qed

lemma rows_reachable:
  assumes "pairwise_ok rows_apart (t_mappings s)" "list_all row_wf (t_mappings s)" "list_all known_mode (t_mappings s)"
  shows "sql_reachable s"
  using assms
proof (induction "t_mappings s" arbitrary: s rule: rev_induct)
  case Nil
  then show ?case by (simp add: sql_init)
next
  case (snoc r rows)
  let ?s = "s\<lparr>t_mappings := rows\<rparr>"
  have rows: "t_mappings s = rows @ [r]" using snoc(2) by simp
  with snoc.prems have "sql_reachable ?s" by (intro snoc(1)) (simp_all add: pairwise_ok_append)
  moreover have "check_row r rows = Inr ()"
    using snoc.prems rows rows_apart_sym
    by (intro check_row_accepts) (auto simp: pairwise_ok_append list_all_iff)
  then have "mapping_stmt_exec (SInsert r) ?s = Inr s" using rows by (simp add: insert_mapping_row_def)
  moreover have "stmt_wf (SInsert r)" using snoc.prems(2) rows by (simp add: stmt_wf_def)
  ultimately show ?case using sql_stmt by blast
qed

section \<open>A migrated table\<close>

text \<open>What a database may hold before the program opens it: nothing, or a table of the version that declared
  the public and the private address \<open>UNIQUE\<close>.\<close>

definition older_database :: "catalog \<Rightarrow> bool" where
  "older_database c \<longleftrightarrow>
     (case table_at c ''mappings'' of
        None \<Rightarrow> True
      | Some t \<Rightarrow> legacy t \<and> unique_column ''public_ip'' (rt_rows t) \<and> unique_column ''edge_private_ip'' (rt_rows t))"

lemma migrated_rows_apart:
  assumes "older_database c" "migrate D c = (Inr (), c')" "table_at c' ''mappings'' = Some t1"
    "list_all2 represents (rt_rows t1) rows"
  shows "pairwise_ok rows_apart rows"
proof (cases "table_at c ''mappings''")
  case None
  have "rt_rows t1 = []"
    using fresh_migrated [OF None assms(2)] assms(3) by simp
  then show ?thesis using assms(4) by simp
next
  case (Some t0)
  then show ?thesis using assms legacy_rows_apart by (auto simp: older_database_def)
qed

text \<open>C10. After an upgrade the whole system is safe: the program opens a new file or one of the version with
  the \<open>UNIQUE\<close> addresses, the migration returns \<open>Ok\<close>, and the store works on the rows it left, each readable as
  one of the two modes. Whatever requests agents serve and whatever commands are run from then on, with any of
  them failing half-way, the enabled mappings the store lists are pairwise free of conflicts and none shares a
  public address another one owns alone.\<close>

theorem migrated_system_safe:
  assumes "older_database c" "migrate D c = (Inr (), c')" "table_at c' ''mappings'' = Some t1"
    and "list_all2 represents (rt_rows t1) (t_mappings s)" "list_all row_wf (t_mappings s)" "list_all known_mode (t_mappings s)"
    and "list_mappings E (system_run E H cs s) = (Inr ms, u)"
  shows "pairwise_ok (\<lambda>a b. enabled a \<longrightarrow> enabled b \<longrightarrow> \<not> conflicts a b \<and> \<not> public_clash a b) ms"
proof -
  have "sql_reachable s" by (rule rows_reachable [OF migrated_rows_apart [OF assms(1-4)] assms(5,6)])
  from reachable_listed_apart [OF system_run_reachable [OF this] assms(7)] show ?thesis .
qed

section \<open>A database of the old version\<close>

definition static_2 :: mapping where
  "static_2 = mapping_new (sample_uuid 3) 3000 ''udp_service'' None (Ipv4Addr 10 0 0 102) (Ipv4Addr 192 168 20 43)"

definition old_rows :: "mapping_row list" where
  "old_rows = [sample_row sample_static, sample_row static_2]"

definition old_raw :: "mapping_row \<Rightarrow> raw_row" where
  "old_raw r = filter (\<lambda>(c, _). c \<in> set (map fst old_columns)) (raw_of r)"

definition upgraded_table :: raw_table where
  "upgraded_table = (old_table old_columns)\<lparr>rt_rows := map old_raw old_rows\<rparr>"

definition upgraded_db :: catalog where
  "upgraded_db = \<lparr>cat_tick = 0, cat_tables = [(''mappings'', upgraded_table)]\<rparr>"

lemma static_2_ok: "mapping_ok cidr_ops sample_config static_2" "id_wf (m_id static_2)" "id_wf (m_id sample_static)"
proof -
  have id: "m_id static_2 = m_id sample_udp" by (simp add: static_2_def sample_defs)
  show "mapping_ok cidr_ops sample_config static_2"
    by (simp add: static_2_def mapping_ok_def sample_defs name_ok_def is_ascii_alphanumeric_def Let_def
      ip_is_private_def ip_is_unspecified_def ip_is_loopback_def ip_is_link_local_def
      ip_is_multicast_def ip_is_broadcast_def target_ok_def
      is_network_or_broadcast_def backend_ok_def ports_ok_def flip: sample_net_def)
  show "id_wf (m_id static_2)" using sample_id_wf(2) id by simp
  show "id_wf (m_id sample_static)" by (simp add: id_wf_def) (rule trim_graphic; simp add: ascii_graphic_def)
qed

lemma sample_row_columns [simp]:
  "r_public_ip (sample_row m) = map_option ip_to_string (public_ip m)"
  "r_edge_private_ip (sample_row m) = ip_to_string (edge_private_ip m)"
  "r_target_ip (sample_row m) = ip_to_string (target_ip m)" "r_mode (sample_row m) = mode_wire (m_mode m)"
  "r_enabled (sample_row m) = (if enabled m then 1 else 0)"
  by (simp_all add: sample_row_def mapping_columns_def)

lemma old_rows_good:
  "list_all row_wf old_rows" "list_all known_mode old_rows" "\<forall>r\<in>set old_rows. row_good sample_cli r"
proof -
  show "list_all row_wf old_rows" "list_all known_mode old_rows"
    by (simp_all add: old_rows_def row_wf_def known_mode_def sample_static_def static_2_def mapping_new_def o2o_text_def pf_text_def)
  show "\<forall>r\<in>set old_rows. row_good sample_cli r"
    using sample_host_row [OF sample_ok(1) static_2_ok(3)] sample_host_row [OF static_2_ok(1,2)]
    by (simp add: old_rows_def row_good_def sample_cli_decodes)
qed

lemma old_rows_represented: "list_all2 represents (map (rebuilt_row \<circ> old_raw) old_rows) old_rows"
  by (simp add: old_rows_def represents_def old_raw_def old_columns_def raw_of_def rebuilt_row_def mappings_columns_def opt_value_def col_def
      sample_row_def mapping_columns_def sample_static_def static_2_def mapping_new_def)

lemma upgraded_table_simps [simp]:
  "rt_rows upgraded_table = map old_raw old_rows" "rt_columns upgraded_table = map fst old_columns" "legacy upgraded_table"
  "table_at upgraded_db ''mappings'' = Some upgraded_table" "table_at upgraded_db ''mappings_old_unique'' = None"
  using old_table_sample(3) [of old_columns]
  by (simp_all add: upgraded_table_def upgraded_db_def table_at_def legacy_def)

lemma old_raw_cols [simp]:
  "col (old_raw r) ''id'' = VText (r_id r)" "col (old_raw r) ''public_ip'' = opt_value VText (r_public_ip r)"
  "col (old_raw r) ''edge_private_ip'' = VText (r_edge_private_ip r)" "col (old_raw r) ''target_ip'' = VText (r_target_ip r)"
  "col (old_raw r) ''mode'' = VText (r_mode r)" "col (old_raw r) ''enabled'' = VInt (r_enabled r)"
  by (simp_all add: old_raw_def old_columns_def raw_of_def col_def)

lemma old_rows_unique:
  "unique_column ''id'' (map old_raw old_rows)" "unique_column ''public_ip'' (map old_raw old_rows)"
  "unique_column ''edge_private_ip'' (map old_raw old_rows)" "unique_column ''target_ip'' (map old_raw old_rows)"
  by (simp_all add: old_rows_def unique_column_def opt_value_def sample_static_def static_2_def mapping_new_def
      mapping_id_new_def sample_uuid_def show_nat.simps)

lemma upgraded_copyable: "copyable upgraded_table"
proof -
  have "\<forall>c\<in>set not_null_columns \<inter> set copied_columns. col (old_raw r) c \<noteq> VNull" for r
    by (simp add: not_null_columns_def copied_columns_def mappings_columns_def old_raw_def old_columns_def raw_of_def col_def)
  then show ?thesis using old_columns_copied old_rows_unique(1) by (simp add: copyable_def)
qed

lemma upgraded_indexes: "indexes_checked mapping_indexes (rebuilt upgraded_table)"
  by (simp add: indexes_checked_def mapping_indexes_def index_keys_def col_rebuilt old_rows_def opt_value_def
      sample_static_def static_2_def mapping_new_def o2o_text_def pf_text_def)

lemma upgraded_migrates: "\<exists>t. migrate sample_ddl_env upgraded_db = (Inr (), t)"
  by (rule migrate_quiet [of _ _ upgraded_table])
    (use sample_ddl_quiet upgraded_copyable upgraded_indexes in \<open>simp_all add: quiet_def map_add_def\<close>)

theorem migrated_system_safe_witness:
  "\<exists>c' ms u. migrate sample_ddl_env upgraded_db = (Inr (), c') \<and>
     list_mappings sample_cli (system_run sample_cli sample_headers sample_clients (sample_console\<lparr>t_mappings := old_rows\<rparr>)) =
       (Inr ms, u) \<and> length ms = 2 \<and>
     pairwise_ok (\<lambda>a b. enabled a \<longrightarrow> enabled b \<longrightarrow> \<not> conflicts a b \<and> \<not> public_clash a b) ms"
proof -
  let ?s = "sample_console\<lparr>t_mappings := old_rows\<rparr>"
  obtain c' where c: "migrate sample_ddl_env upgraded_db = (Inr (), c')" using upgraded_migrates by blast
  obtain t1 where t1: "table_at c' ''mappings'' = Some t1" "rt_rows t1 = map (rebuilt_row \<circ> old_raw) old_rows"
    using legacy_migrated_rows [OF _ _ c] by auto
  obtain ms u where ms: "list_mappings sample_cli (system_run sample_cli sample_headers sample_clients ?s) = (Inr ms, u)"
    "length ms = 2"
    unfolding sample_clients_idle using list_mappings_total [of sample_cli ?s] old_rows_good(3)
    by (auto simp: sql_invar_def old_rows_def)
  have old: "older_database upgraded_db" using old_rows_unique by (simp add: older_database_def)
  from migrated_system_safe [OF old c t1(1) _ _ _ ms(1)] c ms show ?thesis
    using old_rows_represented old_rows_good(1,2) t1(2) by auto
qed

end
