(* ===== verification/Ui_Base.thy ===== *)
theory Ui_Base
  imports Gateway Agent_Oci
begin

text \<open>
  The functions of \<open>src/crates/edge-gateway/src/ui.rs\<close> below its handlers: what is accepted from forms, how
  texts and reports are put together, and the small pieces of markup the pages share; and, of the
  standard library, what they use: \<open>IpAddr\<close> as it is read and printed, \<open>str::matches\<close>, padded numbers.

  Markup is the tree \<open>maud\<close> builds from \<open>html!\<close>: text, and elements with attributes. The attributes by which
  a page refers to a route or names a field have constructors of their own. \<open>endpoint\<close>, \<open>count_by\<close> and the
  structures that only mirror what the agent sends are those of \<open>Agent_Api\<close>. Turning a tree into a page is
  \<open>maud\<close>'s and a parameter. Calendar fields of a time stamp are the \<open>time\<close> crate's and a parameter too.
\<close>

section \<open>Addresses of either family\<close>

definition hex_val :: "char \<Rightarrow> nat option" where
  "hex_val c =
     (let n = of_char c :: nat
      in if 48 \<le> n \<and> n \<le> 57 then Some (n - 48)
         else if 97 \<le> n \<and> n \<le> 102 then Some (n - 87)
         else if 65 \<le> n \<and> n \<le> 70 then Some (n - 55) else None)"

text \<open>\<open>read_number(16, Some(4), true)\<close>: a fifth digit is an error.\<close>

definition read_hex_group :: "string \<Rightarrow> (nat \<times> string) option" where
  "read_hex_group s =
     (let ds = takeWhile (\<lambda>c. hex_val c \<noteq> None) s
      in if ds = [] \<or> 4 < length ds then None
         else Some (fold (\<lambda>c n. 16 * n + the (hex_val c)) ds 0, drop (length ds) s))"

text \<open>\<open>read_ipv4_addr\<close> at the front of a text.\<close>

definition read_octet :: "string \<Rightarrow> (u8 \<times> string) option" where
  "read_octet s =
     (let ds = takeWhile (\<lambda>c. digit_val c \<noteq> None) s
      in map_option (\<lambda>b. (b, drop (length ds) s)) (parse_octet ds))"

definition read_dot_octet :: "string \<Rightarrow> (u8 \<times> string) option" where
  "read_dot_octet s = (case s of c # r \<Rightarrow> if c = CHR ''.'' then read_octet r else None | [] \<Rightarrow> None)"

definition read_ipv4 :: "string \<Rightarrow> (ipv4_addr \<times> string) option" where
  "read_ipv4 s =
     Option.bind (read_octet s) (\<lambda>(a, s1).
     Option.bind (read_dot_octet s1) (\<lambda>(b, s2).
     Option.bind (read_dot_octet s2) (\<lambda>(c, s3).
     Option.bind (read_dot_octet s3) (\<lambda>(d, s4). Some (Ipv4Addr a b c d, s4)))))"

text \<open>\<open>read_separator(':', i, f)\<close>.\<close>

definition after_colon :: "nat \<Rightarrow> (string \<Rightarrow> ('a \<times> string) option) \<Rightarrow> string \<Rightarrow> ('a \<times> string) option" where
  "after_colon i f s =
     (if i = 0 then f s
      else (case s of c # r \<Rightarrow> if c = CHR '':'' then f r else None | [] \<Rightarrow> None))"

text \<open>\<open>read_groups\<close> with \<open>k\<close> groups left and \<open>i\<close> read: the groups, whether they end in an IPv4 address, the rest.\<close>

fun read_groups :: "nat \<Rightarrow> nat \<Rightarrow> string \<Rightarrow> nat list \<times> bool \<times> string" where
  "read_groups 0 i s = ([], False, s)"
| "read_groups (Suc k) i s =
     (case (if k = 0 then None else after_colon i read_ipv4 s) of
        Some (ip, r) \<Rightarrow>
          ([unat (oct_a ip) * 256 + unat (oct_b ip), unat (oct_c ip) * 256 + unat (oct_d ip)], True, r)
      | None \<Rightarrow>
          (case after_colon i read_hex_group s of
             None \<Rightarrow> ([], False, s)
           | Some (g, r) \<Rightarrow> (case read_groups k (Suc i) r of (gs, v4, r') \<Rightarrow> (g # gs, v4, r'))))"

definition word_of_groups :: "nat list \<Rightarrow> 128 word" where
  "word_of_groups gs = of_nat (fold (\<lambda>g n. 65536 * n + g) gs 0)"

definition parse_ipv6 :: "string \<Rightarrow> 128 word option" where
  "parse_ipv6 s =
     (case read_groups 8 0 s of (head, v4, r) \<Rightarrow>
        if length head = 8 then (if r = [] then Some (word_of_groups head) else None)
        else if v4 then None
        else (case strip_prefix ''::'' r of
                None \<Rightarrow> None
              | Some r1 \<Rightarrow>
                  (case read_groups (7 - length head) 0 r1 of (rest, _, r2) \<Rightarrow>
                     if r2 = []
                     then Some (word_of_groups (head @ replicate (8 - length head - length rest) 0 @ rest))
                     else None)))"

definition parse_ip_addr :: "string \<Rightarrow> ip_addr option" where
  "parse_ip_addr s =
     (case parse_ipv4 s of Some ip \<Rightarrow> Some (IpV4 ip) | None \<Rightarrow> map_option IpV6 (parse_ipv6 s))"

text \<open>\<open>Display for Ipv6Addr\<close>: the first longest run of at least two zero groups is left out, and a mapped IPv4
  address is printed as one.\<close>

definition segments :: "128 word \<Rightarrow> nat list" where
  "segments w = map (\<lambda>i. unat w div 65536 ^ (7 - i) mod 65536) [0..<8]"

definition hex_digit :: "nat \<Rightarrow> char" where
  "hex_digit d = (if d < 10 then char_of (48 + d) else char_of (87 + d))"

fun show_hex :: "nat \<Rightarrow> string" where
  "show_hex n = (if n < 16 then [hex_digit n] else show_hex (n div 16) @ [hex_digit (n mod 16)])"

fun zero_run :: "nat list \<Rightarrow> nat \<Rightarrow> nat \<Rightarrow> nat \<Rightarrow> nat \<times> nat \<Rightarrow> nat \<times> nat" where
  "zero_run [] i start len best = best"
| "zero_run (g # gs) i start len best =
     (if g = 0
      then let start' = (if len = 0 then i else start); len' = Suc len
           in zero_run gs (Suc i) start' len' (if snd best < len' then (start', len') else best)
      else zero_run gs (Suc i) 0 0 best)"

definition ipv6_to_string :: "128 word \<Rightarrow> string" where
  "ipv6_to_string w =
     (let gs = segments w; hex = (\<lambda>xs. intercalate '':'' (map show_hex xs))
      in if take 6 gs = [0, 0, 0, 0, 0, 65535]
         then ''::ffff:'' @ ip_to_string (ip_from_bits (of_nat (gs ! 6 * 65536 + gs ! 7)))
         else (case zero_run gs 0 0 0 (0, 0) of (start, len) \<Rightarrow>
                 if 1 < len then hex (take start gs) @ ''::'' @ hex (drop (start + len) gs) else hex gs))"

definition ip_addr_to_string :: "ip_addr \<Rightarrow> string" where
  "ip_addr_to_string a = (case a of IpV4 ip \<Rightarrow> ip_to_string ip | IpV6 w \<Rightarrow> ipv6_to_string w)"

section \<open>Texts\<close>

definition nl :: string where
  "nl = [CHR 0x0A]"

text \<open>\<open>{:0w}\<close> and \<open>{:<w}\<close>.\<close>

definition zero_pad :: "nat \<Rightarrow> int \<Rightarrow> string" where
  "zero_pad w n =
     (let ds = show_nat (nat \<bar>n\<bar>); sign = (if n < 0 then ''-'' else [])
      in sign @ replicate (w - length sign - length ds) CHR ''0'' @ ds)"

definition left_pad :: "nat \<Rightarrow> string \<Rightarrow> string" where
  "left_pad w s = s @ replicate (w - length s) CHR '' ''"

text \<open>\<open>s.matches(p).count()\<close> for a non-empty \<open>p\<close>: matches do not overlap.\<close>

function count_matches :: "string \<Rightarrow> string \<Rightarrow> nat" where
  "count_matches p s =
     (if s = [] \<or> p = [] then 0
      else if take (length p) s = p then Suc (count_matches p (drop (length p) s))
      else count_matches p (tl s))"
  by auto
termination
  by (relation "measure (length \<circ> snd)") (auto simp: length_greater_0_conv [symmetric] simp del: length_greater_0_conv)

declare count_matches.simps [simp del]

text \<open>\<open>s.split([',', '\n', ' '])\<close>.\<close>

definition split_ids :: "string \<Rightarrow> string list" where
  "split_ids s = concat (map (split_on CHR '' '') (concat (map (split_on CHR 0x0A) (split_on CHR '','' s))))"

record date_parts =
  dp_year :: int
  dp_month :: nat
  dp_day :: nat
  dp_hour :: nat
  dp_minute :: nat
  dp_second :: nat

definition format_date :: "(timestamp \<Rightarrow> date_parts) \<Rightarrow> timestamp \<Rightarrow> string" where
  "format_date parts v =
     (let d = parts v
      in zero_pad 4 (dp_year d) @ ''-'' @ zero_pad 2 (int (dp_month d)) @ ''-'' @ zero_pad 2 (int (dp_day d)) @ '' '' @
         zero_pad 2 (int (dp_hour d)) @ '':'' @ zero_pad 2 (int (dp_minute d)) @ '':'' @
         zero_pad 2 (int (dp_second d)) @ ''Z'')"

definition bool_text :: "bool \<Rightarrow> string" where
  "bool_text v = (if v then ''configured'' else ''missing'')"

definition join_or_dash :: "string list \<Rightarrow> string" where
  "join_or_dash vs = (if vs = [] then ''-'' else intercalate '', '' vs)"

section \<open>What is accepted from forms\<close>

definition clean_opt :: "string option \<Rightarrow> string option" where
  "clean_opt v = Option.bind v (\<lambda>s. let t = trim s in if t = [] then None else Some t)"

text \<open>\<open>str::parse::<u16>\<close>: an optional plus sign and digits; the texts of its errors.\<close>

definition parse_u16 :: "string \<Rightarrow> (string, u16) result" where
  "parse_u16 s =
     (if s = [] then Inl ''cannot parse integer from empty string''
      else let ds = (if hd s = CHR ''+'' \<and> 1 < length s then tl s else s)
           in case read_digits 0 ds of
                None \<Rightarrow> Inl ''invalid digit found in string''
              | Some n \<Rightarrow> if 65535 < n then Inl ''number too large to fit in target type'' else Inr (of_nat n))"

definition clean_port :: "string option \<Rightarrow> (gateway_error, u16 option) result" where
  "clean_port v = res_opt (\<lambda>s. map_err gateway_bad_gateway (parse_u16 s)) (clean_opt v)"

definition interface_char :: "char \<Rightarrow> bool" where
  "interface_char c \<longleftrightarrow> is_ascii_alphanumeric c \<or> c \<in> {CHR ''.'', CHR ''_'', CHR ''-'', CHR '':''}"

definition clean_interface :: "string \<Rightarrow> (gateway_error, string) result" where
  "clean_interface v =
     (let t = trim v
      in if t = [] \<or> 32 < length t \<or> \<not> list_all interface_char t
         then Inl (gateway_bad_gateway ''invalid tcpdump interface'') else Inr t)"

definition unsafe_part :: "string \<Rightarrow> bool" where
  "unsafe_part p \<longleftrightarrow>
     take 1 p = ''-'' \<or> CHR '';'' \<in> set p \<or> CHR ''|'' \<in> set p \<or> CHR ''&'' \<in> set p"

definition clean_tcpdump_filter :: "string option \<Rightarrow> (gateway_error, string list) result" where
  "clean_tcpdump_filter v =
     (case clean_opt v of
        None \<Rightarrow> Inr []
      | Some t \<Rightarrow>
          if 240 < length t then Inl (gateway_bad_gateway ''tcpdump filter is too long'')
          else let parts = map trim (split_whitespace t)
               in if list_ex unsafe_part parts
                  then Inl (gateway_bad_gateway ''tcpdump filter contains unsafe tokens'') else Inr parts)"

definition with_query :: "string \<Rightarrow> string \<Rightarrow> string option \<Rightarrow> string" where
  "with_query path key v = (case v of None \<Rightarrow> path | Some x \<Rightarrow> path @ ''?'' @ key @ ''='' @ x)"

definition tcpdump_report :: "string \<Rightarrow> string \<Rightarrow> u16 \<Rightarrow> string list \<Rightarrow> string" where
  "tcpdump_report out err requested flt =
     (let packet_lines = length (filter (\<lambda>l. trim l \<noteq> []) (str_lines out));
          tcp = count_matches '' TCP '' out + count_matches '' Flags '' out;
          udp = count_matches '' UDP'' out;
          icmp = count_matches '' ICMP'' out;
          arp = count_matches '' ARP'' out
      in ''Requested packets: '' @ show_u16 requested @ nl @ ''Captured lines: '' @ show_nat packet_lines @ nl @
         ''Filter: '' @ (if flt = [] then ''(none)'' else intercalate '' '' flt) @ nl @ nl @ ''Protocol hints:'' @ nl @
         ''  tcp: '' @ show_nat tcp @ nl @ ''  udp: '' @ show_nat udp @ nl @ ''  icmp: '' @ show_nat icmp @ nl @
         ''  arp: '' @ show_nat arp @ nl @
         (if trim err \<noteq> [] then nl @ ''Tcpdump status:'' @ nl @ trim err @ nl else []) @
         (if trim out \<noteq> [] then nl @ ''Packets:'' @ nl @ trim out @ nl else []))"

section \<open>Markup\<close>

datatype attr =
    Attr string string
  | Flag string
  | Href string
  | HxGet string
  | HxPost string
  | HxDelete string
  | Name string

datatype node =
    Text string
  | Elem string "attr list" "node list"

type_synonym markup = "node list"

abbreviation cls :: "string \<Rightarrow> attr" where
  "cls \<equiv> Attr ''class''"

definition into_view :: "attr list" where
  "into_view = [Attr ''hx-target'' ''#view'', Attr ''hx-swap'' ''innerHTML transition:true'']"

definition empty_note :: "string \<Rightarrow> markup" where
  "empty_note message = [Elem ''div'' [cls ''empty''] [Elem ''p'' [] [Text message]]]"

definition error_card :: "string \<Rightarrow> markup" where
  "error_card message =
     [Elem ''div'' [cls ''card error-card''] [Elem ''div'' [cls ''card-body'']
       [Elem ''h2'' [] [Text ''Request failed''], Elem ''p'' [] [Text message]]]]"

definition page_head :: "string \<Rightarrow> string \<Rightarrow> markup \<Rightarrow> markup" where
  "page_head title eyebrow actions =
     [Elem ''div'' [cls ''page-head'']
       [Elem ''div'' [] [Elem ''p'' [cls ''eyebrow''] [Text eyebrow], Elem ''h1'' [] [Text title]],
        Elem ''div'' [cls ''actions''] actions]]"

definition summary_item :: "string \<Rightarrow> string \<Rightarrow> string \<Rightarrow> markup" where
  "summary_item label v meta =
     [Elem ''div'' [cls ''summary-item'']
       [Elem ''span'' [cls ''label''] [Text label], Elem ''strong'' [cls ''mono''] [Text v],
        Elem ''span'' [cls ''meta''] [Text meta]]]"

definition status_pill :: "string \<Rightarrow> markup" where
  "status_pill status = [Elem ''span'' [cls (''pill pill-'' @ status)] [Text status]]"

definition tab_button_class :: "string \<Rightarrow> string \<Rightarrow> string" where
  "tab_button_class active t = (if active = t then ''sub-menu-item active'' else ''sub-menu-item'')"

definition tab_panel_class :: "string \<Rightarrow> string \<Rightarrow> string" where
  "tab_panel_class active t = (if active = t then ''tool-tab-panel active'' else ''tool-tab-panel'')"

definition is_active_tab :: "string \<Rightarrow> string \<Rightarrow> string" where
  "is_active_tab active t = (if active = t then ''true'' else ''false'')"

definition confirm_field :: "string \<Rightarrow> string \<Rightarrow> markup" where
  "confirm_field word action =
     [Elem ''label'' [cls ''field confirm-field'']
       [Elem ''span'' [] [Text ''Type \"'', Text word, Text ''\" to '', Text action],
        Elem ''input'' [Name ''confirm'', Flag ''data-confirm-input'', Attr ''data-confirm-word'' word,
          Attr ''autocomplete'' ''off'', Attr ''placeholder'' word] []]]"

text \<open>The bars of a chart are drawn relative to the largest value.\<close>

definition bar_width :: "nat \<Rightarrow> nat \<Rightarrow> nat" where
  "bar_width peak v = v * 100 div peak"

definition bar_chart :: "(string, nat) btree \<Rightarrow> markup" where
  "bar_chart values =
     (let peak = max (fold max (map snd values) 0) 1
      in if values = [] \<or> list_all (\<lambda>v. v = 0) (map snd values) then empty_note ''No live data for this chart.''
         else [Elem ''div'' [cls ''bars''] (map (\<lambda>(label, v).
           Elem ''div'' [cls ''bar-row'']
             [Elem ''span'' [cls ''bar-label''] [Text label],
              Elem ''div'' [cls ''bar-track'']
                [Elem ''div'' [cls (''bar-fill bar-fill-'' @ label),
                   Attr ''style'' (''width: '' @ show_nat (bar_width peak v) @ ''%'')] []],
              Elem ''strong'' [] [Text (show_nat v)]]) values)])"

end
