(* ===== verification/Ui_Pages.thy ===== *)
theory Ui_Pages
  imports Ui_Base
begin

text \<open>
  The pages of \<open>src/crates/edge-gateway/src/ui.rs\<close> as functions from the data the agent answered to markup.
  \<open>D\<close> gives the calendar fields of a time stamp. The calls that fetch the data are in \<open>Ui_Actions\<close>.
\<close>

section \<open>Mappings\<close>

definition new_mapping_dialog :: markup where
  "new_mapping_dialog =
     [Elem ''dialog'' [Attr ''id'' ''new-mapping-dialog'', cls ''modal'']
       [Elem ''div'' [cls ''modal-box'']
         [Elem ''header'' []
           [Elem ''h2'' [] [Text ''New Mapping''],
            Elem ''button'' [cls ''btn'', Attr ''type'' ''button'', Attr ''data-close-dialog'' ''new-mapping-dialog'']
              [Text ''Close'']],
          Elem ''form'' ([cls ''mapping-form'', HxPost ''/ui/mappings''] @ into_view)
           [Elem ''label'' [cls ''field full'']
              [Elem ''span'' [] [Text ''Name''],
               Elem ''input'' [Name ''name'', Flag ''required'', Attr ''placeholder'' ''mysql''] []],
            Elem ''label'' [cls ''field'']
              [Elem ''span'' [] [Text ''Edge private IP''],
               Elem ''input'' [Name ''edge_private_ip'', Flag ''required'', Attr ''placeholder'' ''10.0.0.101''] []],
            Elem ''label'' [cls ''field'']
              [Elem ''span'' [] [Text ''Target IP''],
               Elem ''input'' [Name ''target_ip'', Flag ''required'', Attr ''placeholder'' ''192.168.20.42''] []],
            Elem ''label'' [cls ''field'']
              [Elem ''span'' [] [Text ''Public IP''],
               Elem ''input'' [Name ''public_ip'', Attr ''placeholder'' ''optional''] []],
            Elem ''label'' [cls ''field'']
              [Elem ''span'' [] [Text ''Public port''],
               Elem ''input'' [Name ''public_port'', Attr ''type'' ''number'', Attr ''min'' ''1'', Attr ''max'' ''65535''] []],
            Elem ''label'' [cls ''field'']
              [Elem ''span'' [] [Text ''Target port''],
               Elem ''input'' [Name ''target_port'', Attr ''type'' ''number'', Attr ''min'' ''1'', Attr ''max'' ''65535''] []],
            Elem ''label'' [cls ''field'']
              [Elem ''span'' [] [Text ''Protocol''],
               Elem ''select'' [Name ''protocol'']
                 [Elem ''option'' [Attr ''value'' ''all''] [Text ''all''],
                  Elem ''option'' [Attr ''value'' ''tcp''] [Text ''tcp''],
                  Elem ''option'' [Attr ''value'' ''udp''] [Text ''udp'']]],
            Elem ''label'' [cls ''field'']
              [Elem ''span'' [] [Text ''Mode''],
               Elem ''select'' [Name ''mode'']
                 [Elem ''option'' [Attr ''value'' ''one_to_one_snat''] [Text ''one_to_one_snat''],
                  Elem ''option'' [Attr ''value'' ''port_forward_snat''] [Text ''port_forward_snat'']]],
            Elem ''label'' [cls ''field'']
              [Elem ''span'' [] [Text ''Backend''],
               Elem ''select'' [Name ''backend'']
                 [Elem ''option'' [Attr ''value'' ''nft''] [Text ''nft''],
                  Elem ''option'' [Attr ''value'' ''xdp''] [Text ''xdp'']]],
            Elem ''div'' [cls ''modal-actions'']
              [Elem ''button'' [cls ''btn'', Attr ''type'' ''button'', Attr ''data-close-dialog'' ''new-mapping-dialog'']
                 [Text ''Cancel''],
               Elem ''button'' [cls ''primary'', Attr ''type'' ''submit''] [Text ''Create Mapping'']]]]]]"

definition inspect_dialog_id :: "mapping \<Rightarrow> string" where
  "inspect_dialog_id m = ''inspect-'' @ id_str (m_id m)"

definition binding_card :: "topology_flow \<Rightarrow> node" where
  "binding_card f =
     Elem ''article'' [cls ''bind-card'']
       [Elem ''header'' []
          ([Elem ''strong'' [] [Text (tf_name f)],
            Elem ''span'' [cls ''bind-meta'']
              [Text (tf_protocol f), Text '' / '', Text (tf_mode f), Text '' / '', Text (tf_backend f)]] @
           status_pill (tf_status f) @ (if \<not> tf_enabled f then status_pill ''disabled'' else [])),
        Elem ''div'' [cls ''bind-path'']
          [Elem ''code'' [] [Text (tf_public_endpoint f)], Elem ''span'' [] [Text ''->''],
           Elem ''code'' [] [Text (tf_edge_private_ip f)], Elem ''span'' [] [Text ''->''],
           Elem ''code'' [] [Text (tf_target_endpoint f)]]]"

definition binding_diagrams :: "topology_flow list \<Rightarrow> markup" where
  "binding_diagrams flows =
     (if flows = [] then empty_note ''No mapping binds configured.''
      else [Elem ''div'' [cls ''bind-list''] (map binding_card flows)])"

definition facts :: "string \<Rightarrow> (string \<times> attr list \<times> string) list \<Rightarrow> node" where
  "facts c rows =
     Elem ''dl'' [cls c] (concat (map (\<lambda>(label, attrs, v).
       [Elem ''dt'' [] [Text label], Elem ''dd'' attrs [Text v]]) rows))"

definition or_text :: "string \<Rightarrow> string option \<Rightarrow> string" where
  "or_text d v = (case v of None \<Rightarrow> d | Some x \<Rightarrow> x)"

definition path_node :: "string \<Rightarrow> string \<Rightarrow> node" where
  "path_node label v =
     Elem ''div'' [cls ''path-node''] [Elem ''span'' [] [Text label], Elem ''code'' [] [Text v]]"

definition inspect_mapping_dialog :: "(timestamp \<Rightarrow> date_parts) \<Rightarrow> mapping \<Rightarrow> topology_flow option \<Rightarrow> markup" where
  "inspect_mapping_dialog D m flow =
     (let dialog_id = inspect_dialog_id m;
          public = endpoint (map_option ip_to_string (public_ip m)) (public_port m);
          target = endpoint (Some (ip_to_string (target_ip m))) (target_port m);
          checked_at = or_text ''-'' (map_option (format_date D) (last_checked_at m));
          mono = [cls ''mono wrap'']
      in [Elem ''dialog'' [Attr ''id'' dialog_id, cls ''modal modal-wide'']
           [Elem ''div'' [cls ''modal-box'']
             [Elem ''header'' []
                ([Elem ''div'' []
                    [Elem ''h2'' [] [Text ''Inspect Mapping''],
                     Elem ''p'' [cls ''muted mono''] [Text (id_str (m_id m))]]] @
                 status_pill (status_wire (m_status m)) @
                 [Elem ''button'' [cls ''btn'', Attr ''type'' ''button'', Attr ''data-close-dialog'' dialog_id]
                    [Text ''Close'']]),
              Elem ''div'' [cls ''inspect-body'']
                ([Elem ''div'' [cls ''inspect-title'']
                    [Elem ''h3'' [] [Text (m_name m)],
                     Elem ''span'' [cls ''muted'']
                       [Text (protocol_wire (m_protocol m)), Text '' / '', Text (mode_wire (m_mode m)), Text '' / '',
                        Text (backend_wire (m_backend m))]],
                  Elem ''div'' [cls ''inspect-grid'']
                    [facts ''facts compact''
                       [(''Enabled'', [], if enabled m then ''yes'' else ''no''), (''Status'', [], status_wire (m_status m)),
                        (''Health'', [], or_text ''-'' (health_status m)), (''Checked'', [], checked_at)],
                     facts ''facts compact''
                       [(''Public'', mono, public), (''Edge'', mono, ip_to_string (edge_private_ip m)),
                        (''Target'', mono, target), (''Backend'', [], backend_wire (m_backend m))],
                     facts ''facts compact''
                       [(''Public OCID'', mono, or_text ''-'' (oci_public_ip_ocid m)),
                        (''Private OCID'', mono, or_text ''-'' (oci_private_ip_ocid m)),
                        (''Created'', [], format_date D (created_at m)), (''Updated'', [], format_date D (updated_at m))]]] @
                 (case last_error m of
                    None \<Rightarrow> []
                  | Some e \<Rightarrow>
                      [Elem ''div'' [cls ''inspect-alert'']
                         [Elem ''strong'' [] [Text ''Last error''], Elem ''code'' [] [Text e]]]) @
                 (case flow of
                    Some f \<Rightarrow>
                      [Elem ''div'' [cls ''inspect-path'']
                         [path_node ''Public'' (tf_public_endpoint f), Elem ''span'' [cls ''path-arrow''] [Text ''->''],
                          path_node ''Edge'' (tf_edge_private_ip f), Elem ''span'' [cls ''path-arrow''] [Text ''->''],
                          path_node ''Target'' (tf_target_endpoint f)]]
                  | None \<Rightarrow> empty_note ''No topology bind found for this mapping.''))]]])"

definition mapping_table_row :: "mapping \<Rightarrow> node" where
  "mapping_table_row m =
     (let dialog_id = inspect_dialog_id m;
          public = endpoint (map_option ip_to_string (public_ip m)) (public_port m);
          target = endpoint (Some (ip_to_string (target_ip m))) (target_port m);
          i = id_str (m_id m)
      in Elem ''tr'' []
           [Elem ''td'' []
              [Elem ''input'' [Attr ''type'' ''checkbox'', Flag ''data-row-select'', Attr ''data-dialog-id'' dialog_id,
                 Attr ''aria-label'' (''Select '' @ m_name m)] []],
            Elem ''td'' []
              [Elem ''strong'' [cls ''clip''] [Text (m_name m)], Elem ''span'' [cls ''sub mono clip''] [Text i]],
            Elem ''td'' [cls ''mono clip'', Attr ''title'' public] [Text public],
            Elem ''td'' [cls ''mono''] [Text (ip_to_string (edge_private_ip m))],
            Elem ''td'' [cls ''mono clip'', Attr ''title'' target] [Text target],
            Elem ''td'' [] [Text (protocol_wire (m_protocol m))],
            Elem ''td'' [] [Text (mode_wire (m_mode m))],
            Elem ''td'' [] [Text (backend_wire (m_backend m))],
            Elem ''td'' []
              (status_pill (status_wire (m_status m)) @
               (case last_error m of
                  None \<Rightarrow> []
                | Some e \<Rightarrow> [Elem ''span'' [cls ''sub err clip'', Attr ''title'' e] [Text e]])),
            Elem ''td'' [cls ''actions-cell'']
              [Elem ''div'' [cls ''row nowrap'']
                [Elem ''button'' [cls ''btn'', Attr ''type'' ''button'', Attr ''title'' (''Inspect '' @ m_name m),
                   Attr ''data-open-dialog'' dialog_id] [Text ''Inspect''],
                 (if enabled m
                  then Elem ''button'' ([cls ''btn'', HxPost (''/ui/mappings/'' @ i @ ''/disable'')] @ into_view)
                         [Text ''Disable'']
                  else Elem ''button'' ([cls ''btn'', HxPost (''/ui/mappings/'' @ i @ ''/enable'')] @ into_view)
                         [Text ''Enable'']),
                 Elem ''button'' ([cls ''btn danger'', HxDelete (''/ui/mappings/'' @ i)] @ into_view @
                   [Attr ''hx-confirm'' (''Delete mapping '' @ m_name m @ ''?'')]) [Text ''Delete'']]]])"

definition mappings_page :: "(timestamp \<Rightarrow> date_parts) \<Rightarrow> mapping list \<Rightarrow> topology_response option \<Rightarrow> markup" where
  "mappings_page D ms topology =
     (let flows = (case topology of None \<Rightarrow> [] | Some t \<Rightarrow> tr_flows t)
      in page_head ''Mappings'' ''NAT rules''
           [Elem ''button'' [cls ''primary'', Attr ''type'' ''button'', Attr ''data-open-dialog'' ''new-mapping-dialog'']
              [Text ''New Mapping''],
            Elem ''button'' [cls ''btn'', Attr ''type'' ''button'', Flag ''data-bulk-action'', Flag ''disabled'']
              [Text ''Bulk Actions''],
            Elem ''button'' [cls ''btn'', Attr ''type'' ''button'', Flag ''data-inspect-selected'', Flag ''disabled'']
              [Text ''Inspect''],
            Elem ''button'' ([cls ''btn'', HxGet ''/ui/mappings''] @ into_view) [Text ''Refresh'']] @
         [Elem ''section'' [cls ''console-section'']
           ([Elem ''div'' [cls ''section-toolbar'']
               [Elem ''div'' []
                  [Elem ''h2'' [] [Text ''Rules''],
                   Elem ''p'' [cls ''muted'']
                     [Text (show_nat (length ms)), Text '' total, '', Text (show_nat (length (filter enabled ms))),
                      Text '' enabled'']],
                Elem ''div'' [cls ''row'']
                  [Elem ''span'' [cls ''selection-count'', Flag ''data-selection-count''] [Text ''0 selected'']]]] @
            (if ms = [] then empty_note ''No mappings configured.''
             else [Elem ''div'' [cls ''table-wrap mappings-wrap'']
               [Elem ''table'' [cls ''mappings-table'']
                 [Elem ''colgroup'' [] (map (\<lambda>c. Elem ''col'' [cls c] [])
                    [''col-select'', ''col-name'', ''col-endpoint'', ''col-ip'', ''col-endpoint'', ''col-small'', ''col-mode'',
                     ''col-small'', ''col-status'', ''col-actions'']),
                  Elem ''thead'' [] [Elem ''tr'' []
                    (Elem ''th'' [] [Elem ''input'' [Attr ''type'' ''checkbox'', Flag ''data-select-all'',
                       Attr ''aria-label'' ''Select all mappings''] []] #
                     map (\<lambda>h. Elem ''th'' [] [Text h])
                       [''Name'', ''Public'', ''Edge'', ''Target'', ''Protocol'', ''Mode'', ''Backend'', ''Status'', ''Actions''])],
                  Elem ''tbody'' [] (map mapping_table_row ms)]]]))] @
         (case topology of
            None \<Rightarrow> []
          | Some t \<Rightarrow>
              [Elem ''section'' [cls ''console-section section-spaced'']
                ([Elem ''header'' []
                    [Elem ''h2'' [] [Text ''Path''],
                     Elem ''span'' [cls ''muted'']
                       [Text (tr_wan_interface t), Text '' -> '', Text (tr_netbird_interface t)]]] @
                 binding_diagrams (tr_flows t))]) @
         concat (map (\<lambda>m. inspect_mapping_dialog D m (find (\<lambda>f. tf_id f = id_str (m_id m)) flows)) ms) @
         new_mapping_dialog)"

end
