(* ===== verification/Ui_Console.thy ===== *)
theory Ui_Console
  imports Ui_Pages
begin

text \<open>
  The remaining pages of \<open>src/crates/edge-gateway/src/ui.rs\<close>: dashboard, reconciliation, topology, Oracle Cloud,
  tools, NetBird and logs, with the alerts the dashboard derives and the text of the downloaded log.
\<close>

section \<open>Events\<close>

definition event_item :: "(timestamp \<Rightarrow> date_parts) \<Rightarrow> event \<Rightarrow> node" where
  "event_item D e =
     Elem ''li'' []
       ([Elem ''time'' [] [Text (format_date D (ev_created_at e))],
         Elem ''span'' [cls (''pill pill-'' @ level_wire (ev_level e))] [Text (level_wire (ev_level e))],
         Elem ''span'' [cls ''msg''] [Text (ev_message e)]] @
        (case ev_data e of None \<Rightarrow> [] | Some d \<Rightarrow> [Elem ''code'' [] [Text d]]))"

definition events_list :: "(timestamp \<Rightarrow> date_parts) \<Rightarrow> event list \<Rightarrow> markup" where
  "events_list D evs =
     (if evs = [] then empty_note ''No events recorded.''
      else [Elem ''ol'' [cls ''events''] (map (event_item D) evs)])"

definition raw_log_line :: "(timestamp \<Rightarrow> date_parts) \<Rightarrow> event \<Rightarrow> string" where
  "raw_log_line D e =
     format_date D (ev_created_at e) @ '' '' @ left_pad 5 (level_wire (ev_level e)) @ '' '' @ ev_message e @
     (case ev_data e of None \<Rightarrow> [] | Some d \<Rightarrow> if trim d = [] then [] else '' '' @ d)"

definition raw_log_lines :: "(timestamp \<Rightarrow> date_parts) \<Rightarrow> event list \<Rightarrow> string" where
  "raw_log_lines D evs = intercalate nl (map (raw_log_line D) evs) @ nl"

definition raw_log_markup :: "(timestamp \<Rightarrow> date_parts) \<Rightarrow> event list \<Rightarrow> markup" where
  "raw_log_markup D evs =
     map (\<lambda>e. Elem ''span'' [cls ''log-line'', Attr ''data-level'' (level_wire (ev_level e))]
       ([Text (format_date D (ev_created_at e)), Text '' '', Text (left_pad 5 (level_wire (ev_level e))), Text '' '',
         Text (ev_message e)] @
        (case ev_data e of None \<Rightarrow> [] | Some d \<Rightarrow> [Text '' '', Text d]) @ [Text nl])) evs"

definition events_page :: "(timestamp \<Rightarrow> date_parts) \<Rightarrow> event list \<Rightarrow> markup" where
  "events_page D evs =
     (let counts = count_by (map (\<lambda>e. level_wire (ev_level e)) evs);
          count = (\<lambda>l. show_nat (case map_of counts l of None \<Rightarrow> 0 | Some n \<Rightarrow> n))
      in page_head ''Logs'' ''Agent audit and reconcile log''
           [Elem ''a'' [cls ''btn'', Href ''/ui/logs/download''] [Text ''Download''],
            Elem ''button'' [cls ''btn'', Attr ''type'' ''button'', Flag ''disabled'',
              Attr ''title'' ''Requires edge-agent log rotation endpoint''] [Text ''Roll''],
            Elem ''button'' ([cls ''btn'', HxGet ''/ui/logs''] @ into_view) [Text ''Refresh'']] @
         [Elem ''div'' [cls ''summary-row compact-row'']
            (summary_item ''Rows'' (show_nat (length evs)) ''agent events'' @
             summary_item ''Warn'' (count ''warn'') ''needs review'' @
             summary_item ''Error'' (count ''error'') ''failed actions'' @
             summary_item ''Source'' ''edge-agent'' ''event API''),
          Elem ''section'' [cls ''console-section log-console'']
            [Elem ''header'' []
               [Elem ''h2'' [] [Text ''Raw Event Stream''], Elem ''span'' [cls ''muted''] [Text ''newest first'']],
             Elem ''div'' [cls ''log-toolbar'']
               [Elem ''button'' [cls ''btn'', Attr ''type'' ''button'', Attr ''data-log-filter'' ''all''] [Text ''All''],
                Elem ''button'' [cls ''btn'', Attr ''type'' ''button'', Attr ''data-log-filter'' ''warn''] [Text ''Warn''],
                Elem ''button'' [cls ''btn'', Attr ''type'' ''button'', Attr ''data-log-filter'' ''error''] [Text ''Error''],
                Elem ''button'' [cls ''btn'', Attr ''type'' ''button'', Flag ''data-copy-logs''] [Text ''Copy'']],
             Elem ''pre'' [cls ''raw-log'', Flag ''data-raw-log'']
               (if evs = [] then [Text (''no events recorded'' @ nl)] else raw_log_markup D evs)]])"

section \<open>Dashboard\<close>

definition is_problem :: "mapping \<Rightarrow> bool" where
  "is_problem m \<longleftrightarrow> status_wire (m_status m) \<in> {''degraded'', ''error''}"

definition healthy_count :: "netbird_status \<Rightarrow> nat" where
  "healthy_count st = length (filter peer_is_healthy (peers_details (nb_peers st)))"

definition unhealthy_count :: "netbird_status \<Rightarrow> nat" where
  "unhealthy_count st = length (filter (\<lambda>p. \<not> peer_is_healthy p) (peers_details (nb_peers st)))"

definition dashboard_alerts :: "mapping list \<Rightarrow> event list \<Rightarrow> netbird_status option \<Rightarrow> string list" where
  "dashboard_alerts ms evs netbird =
     (let unhealthy = (case netbird of None \<Rightarrow> 0 | Some st \<Rightarrow> unhealthy_count st);
          bad = length (filter is_problem ms)
      in (if 0 < bad then [show_nat bad @ '' mapping(s) degraded or failed''] else []) @
         (if list_ex (\<lambda>e. level_wire (ev_level e) \<in> {''warn'', ''error''}) evs
          then [''warning/error events recorded''] else []) @
         (if 0 < unhealthy then [show_nat unhealthy @ '' NetBird peer(s) disconnected''] else []) @
         (if netbird = None then [''NetBird status is unavailable''] else []) @
         (case netbird of
            None \<Rightarrow> []
          | Some st \<Rightarrow> if \<not> daemon_connected st then [''NetBird daemon is not connected''] else []) @
         (case netbird of
            None \<Rightarrow> []
          | Some st \<Rightarrow>
              if \<not> svc_connected (management st) \<or> \<not> svc_connected (signal st)
              then [''NetBird control service is disconnected''] else []))"

definition fact_tile :: "string \<Rightarrow> string list \<Rightarrow> string \<Rightarrow> node" where
  "fact_tile label vs note =
     Elem ''div'' [] [Elem ''span'' [cls ''label''] [Text label], Elem ''strong'' [] (map Text vs), Elem ''small'' [] [Text note]]"

definition tool_link :: "string \<Rightarrow> string \<Rightarrow> string \<Rightarrow> node" where
  "tool_link page ui label =
     Elem ''a'' ([cls ''btn'', Href page, HxGet ui] @ into_view @ [Attr ''hx-push-url'' page]) [Text label]"

definition peer_chart :: "nat \<Rightarrow> nat \<Rightarrow> markup" where
  "peer_chart healthy unhealthy =
     bar_chart (bt_insert ''disconnected'' unhealthy (bt_insert ''healthy'' healthy []))"

definition dashboard_page :: "(timestamp \<Rightarrow> date_parts) \<Rightarrow> status_response \<Rightarrow> mapping list \<Rightarrow> event list \<Rightarrow>
    netbird_status option \<Rightarrow> string list \<Rightarrow> markup" where
  "dashboard_page D status ms evs netbird networks =
     (let healthy = (case netbird of None \<Rightarrow> 0 | Some st \<Rightarrow> healthy_count st);
          unhealthy = (case netbird of None \<Rightarrow> 0 | Some st \<Rightarrow> unhealthy_count st);
          alerts = dashboard_alerts ms evs netbird
      in page_head ''Dashboard'' ''Control plane state''
           [Elem ''button'' ([cls ''btn'', HxGet ''/ui/dashboard''] @ into_view) [Text ''Refresh'']] @
         [Elem ''div'' [cls ''summary-row'']
            (summary_item ''Mappings'' (show_nat (sr_mappings status)) ''total configured'' @
             summary_item ''Enabled'' (show_nat (sr_enabled_mappings status)) ''active in store'' @
             summary_item ''WAN'' (sr_wan_interface status) ''public interface'' @
             summary_item ''Alerts'' (show_nat (length alerts)) ''live derived''),
          Elem ''div'' [cls ''dashboard-layout'']
            [Elem ''section'' [cls ''console-section health-section'']
               [Elem ''header'' []
                  [Elem ''h2'' [] [Text ''Router Health''], Elem ''span'' [cls ''muted''] [Text ''live agent snapshot'']],
                Elem ''div'' [cls ''status-strip vertical'']
                  [fact_tile ''NetBird'' [or_text ''unknown'' (Option.bind netbird daemon_status)] (sr_netbird_interface status),
                   fact_tile ''Advertised Networks'' [show_nat (length networks)] (join_or_dash networks),
                   fact_tile ''Target CIDRs'' [show_nat (length (sr_target_cidrs status))]
                     (join_or_dash (sr_target_cidrs status)),
                   fact_tile ''Peers Healthy'' [show_nat healthy, ''/'', show_nat (healthy + unhealthy)] ''connected or idle'',
                   fact_tile ''Rule Coverage'' [show_nat (sr_enabled_mappings status), ''/'', show_nat (sr_mappings status)]
                     ''enabled mappings'']],
             Elem ''section'' [cls ''console-section alert-section'']
               [Elem ''header'' []
                  [Elem ''h2'' [] [Text ''Alerts''],
                   Elem ''a'' ([Href ''/ui/logs'', HxGet ''/ui/logs''] @ into_view) [Text ''Logs'']],
                Elem ''div'' [cls ''card-body'']
                  (if alerts = []
                   then [Elem ''div'' [cls ''ok-block'']
                           [Elem ''strong'' [] [Text ''Nominal''],
                            Elem ''span'' [] [Text ''No live health alerts from available APIs.'']]]
                   else [Elem ''ul'' [cls ''alert-list'']
                           (map (\<lambda>a. Elem ''li'' [] (status_pill ''warn'' @ [Elem ''span'' [] [Text a]])) alerts)])],
             Elem ''section'' [cls ''console-section chart-card'']
               [Elem ''header'' [] [Elem ''h2'' [] [Text ''Mapping Status'']],
                Elem ''div'' [cls ''card-body''] (bar_chart (count_by (map (\<lambda>m. status_wire (m_status m)) ms)))],
             Elem ''section'' [cls ''console-section chart-card'']
               [Elem ''header'' [] [Elem ''h2'' [] [Text ''Routing Backends'']],
                Elem ''div'' [cls ''card-body''] (bar_chart (count_by (map (\<lambda>m. backend_wire (m_backend m)) ms)))],
             Elem ''section'' [cls ''console-section chart-card'']
               [Elem ''header'' [] [Elem ''h2'' [] [Text ''NetBird Peer State'']],
                Elem ''div'' [cls ''card-body''] (peer_chart healthy unhealthy)],
             Elem ''section'' [cls ''console-section logs-preview'']
               (Elem ''header'' []
                  [Elem ''h2'' [] [Text ''Recent Logs''],
                   Elem ''a'' ([Href ''/ui/logs'', HxGet ''/ui/logs''] @ into_view) [Text ''View all'']] #
                events_list D (take 8 evs)),
             Elem ''section'' [cls ''console-section ops-actions'']
               [Elem ''header'' [] [Elem ''h2'' [] [Text ''Operations'']],
                Elem ''div'' [cls ''card-body'']
                  [Elem ''div'' [cls ''tool-links'']
                     [tool_link ''/tools'' ''/ui/tools'' ''Diagnostics'', tool_link ''/mappings'' ''/ui/mappings'' ''Mappings'',
                      tool_link ''/netbird'' ''/ui/netbird'' ''NetBird'',
                      tool_link ''/reconcile'' ''/ui/reconcile'' ''Reconcile'']]]]])"

section \<open>Reconciliation and topology\<close>

definition checkline :: "string \<Rightarrow> attr list \<Rightarrow> markup \<Rightarrow> node" where
  "checkline name flags label =
     Elem ''label'' [cls ''checkline'']
       [Elem ''input'' ([Attr ''type'' ''checkbox'', Name name] @ flags) [], Elem ''span'' [] label]"

definition text_field :: "string \<Rightarrow> attr list \<Rightarrow> node" where
  "text_field label attrs =
     Elem ''label'' [cls ''field''] [Elem ''span'' [] [Text label], Elem ''input'' attrs []]"

definition reconcile_page :: "reconcile_response option \<Rightarrow> string option \<Rightarrow> markup" where
  "reconcile_page report ruleset =
     page_head ''Reconcile'' ''Validate, render, and apply desired state'' [] @
     [Elem ''div'' [cls ''grid two'']
        [Elem ''section'' [cls ''card'']
           [Elem ''header'' [] [Elem ''h2'' [] [Text ''Reconcile Options'']],
            Elem ''div'' [cls ''card-body'']
              [Elem ''form'' (HxPost ''/ui/reconcile'' # into_view)
                 [checkline ''dry_run'' [Flag ''checked''] [Text ''Dry run'', Elem ''small'' [] [Text '' no live apply'']],
                  checkline ''include_config'' [Flag ''checked''] [Text ''Include nftables config''],
                  checkline ''skip_linux'' [] [Text ''Skip Linux address changes''],
                  checkline ''skip_nft'' [] [Text ''Skip nft apply''],
                  checkline ''enable_xdp'' [] [Text ''Enable XDP planning''],
                  text_field ''XDP interface'' [Name ''xdp_interface'', Attr ''placeholder'' ''ens3''],
                  text_field ''XDP pin path'' [Name ''xdp_pin_path'', Attr ''placeholder'' ''/sys/fs/bpf/edgeroute''],
                  Elem ''div'' [cls ''row'']
                    [Elem ''button'' [cls ''primary'', Attr ''type'' ''submit''] [Text ''Run Reconcile''],
                     Elem ''button'' ([cls ''btn'', Attr ''type'' ''button'', HxPost ''/ui/reconcile/dry-run''] @ into_view)
                       [Text ''Render Ruleset'']]]]],
         Elem ''section'' [cls ''card'']
           [Elem ''header'' [] [Elem ''h2'' [] [Text ''Result'']],
            Elem ''div'' [cls ''card-body'']
              (case (report, ruleset) of
                 (Some r, _) \<Rightarrow>
                   facts ''facts''
                     [(''Generation'', [], or_text ''dry-run'' (map_option show_int (rr_generation_id r))),
                      (''Added addresses'', [], join_or_dash (rr_added_addresses r)),
                      (''Removed addresses'', [], join_or_dash (rr_removed_addresses r)),
                      (''XDP plan entries'', [], show_nat (rr_xdp_plan_entries r))] #
                   (case rr_nftables_config r of None \<Rightarrow> [] | Some c \<Rightarrow> [Elem ''pre'' [cls ''code''] [Text c]])
               | (None, Some rules) \<Rightarrow> [Elem ''pre'' [cls ''code''] [Text rules]]
               | (None, None) \<Rightarrow> empty_note ''Run reconcile or render a dry-run ruleset.'')]]]"

definition topology_page :: "topology_response \<Rightarrow> markup" where
  "topology_page t =
     page_head ''Topology'' ''Live bind paths and routing shape''
       [Elem ''button'' ([cls ''btn'', HxGet ''/ui/topology''] @ into_view) [Text ''Refresh'']] @
     [Elem ''div'' [cls ''summary-row'']
        (summary_item ''WAN'' (tr_wan_interface t) ''public side'' @
         summary_item ''NetBird'' (tr_netbird_interface t) ''private side'' @
         summary_item ''Target CIDRs'' (show_nat (length (tr_target_cidrs t))) (join_or_dash (tr_target_cidrs t)) @
         summary_item ''Binds'' (show_nat (length (tr_flows t))) ''configured flows''),
      Elem ''section'' [cls ''console-section section-spaced'']
        (Elem ''header'' []
           [Elem ''h2'' [] [Text ''Binding Diagrams''], Elem ''span'' [cls ''muted''] [Text ''public edge to private target'']] #
         binding_diagrams (tr_flows t))]"

section \<open>NetBird\<close>

definition peer_row :: "nb_peer \<Rightarrow> node" where
  "peer_row p =
     Elem ''tr'' []
       [Elem ''td'' [] [Text (or_text ''-'' (peer_fqdn p))],
        Elem ''td'' [] (status_pill (if peer_is_healthy p then ''active'' else ''error'') @
          [Elem ''span'' [] [Text (or_text ''unknown'' (peer_status p))]]),
        Elem ''td'' [cls ''mono''] [Text (or_text ''-'' (peer_netbird_ip p))],
        Elem ''td'' [cls ''mono''] [Text (or_text ''-'' (peer_netbird_ipv6 p))],
        Elem ''td'' [cls ''mono wrap''] [Text (join_or_dash (peer_networks p))]]"

definition show_u64 :: "u64 \<Rightarrow> string" where
  "show_u64 n = show_nat (unat n)"

definition netbird_page :: "netbird_status \<Rightarrow> string list \<Rightarrow> markup" where
  "netbird_page st networks =
     (let healthy = healthy_count st; disconnected = unhealthy_count st;
          states = count_by (map (\<lambda>p. to_ascii_lowercase (or_text ''unknown'' (peer_status p))) (peers_details (nb_peers st)))
      in page_head ''NetBird'' ''Subnet router and peer state''
           [Elem ''button'' ([cls ''btn'', HxGet ''/ui/netbird''] @ into_view) [Text ''Refresh'']] @
         [Elem ''div'' [cls ''summary-row'']
            (summary_item ''Daemon'' (or_text ''unknown'' (daemon_status st)) ''netbird status'' @
             summary_item ''Peers'' (show_u64 (peers_total (nb_peers st))) ''netbird nodes'' @
             summary_item ''Healthy'' (show_nat healthy) ''connected or idle'' @
             summary_item ''Networks'' (show_nat (length networks)) ''advertised subnets''),
          Elem ''div'' [cls ''tabs-strip'']
            [Elem ''a'' [cls ''active'', Href ''#netbird-overview''] [Text ''Overview''],
             Elem ''a'' [Href ''#netbird-networks''] [Text ''Networks''],
             Elem ''a'' [Href ''#netbird-peers''] [Text ''Peers'']],
          Elem ''section'' [Attr ''id'' ''netbird-overview'', cls ''console-section section-spaced'']
            [Elem ''header'' []
               [Elem ''h2'' [] [Text ''Overview''], Elem ''span'' [cls ''muted''] [Text ''local node and peer health'']],
             Elem ''div'' [cls ''split-layout'']
               [Elem ''div'' []
                  [Elem ''h3'' [] [Text ''Local Node''],
                   facts ''facts''
                     [(''Host'', [], or_text ''-'' (nb_fqdn st)), (''Daemon'', [], or_text ''unknown'' (daemon_status st)),
                      (''NetBird IPv4'', [], or_text ''-'' (netbird_ip st)),
                      (''NetBird IPv6'', [], or_text ''-'' (netbird_ipv6 st)),
                      (''Interface'', [], if uses_kernel_interface st = Some True then ''kernel'' else ''userspace/unknown'')]],
                Elem ''div'' [] (Elem ''h3'' [] [Text ''Peer Availability''] # peer_chart healthy disconnected),
                Elem ''div'' [] (Elem ''h3'' [] [Text ''Peer Inventory''] # bar_chart states)]],
          Elem ''section'' [Attr ''id'' ''netbird-networks'', cls ''console-section section-spaced'']
            (Elem ''header'' []
               [Elem ''h2'' [] [Text ''Advertised Networks''],
                Elem ''span'' [cls ''muted''] [Text (show_nat (length networks)), Text '' networks'']] #
             (if networks = [] then empty_note ''No routed networks reported by NetBird.''
              else [Elem ''div'' [cls ''route-chips''] (map (\<lambda>n. Elem ''code'' [] [Text n]) networks)])),
          Elem ''section'' [Attr ''id'' ''netbird-peers'', cls ''console-section'']
            [Elem ''header'' []
               [Elem ''h2'' [] [Text ''Peers''],
                Elem ''span'' [cls ''muted''] [Text (show_u64 (peers_total (nb_peers st))), Text '' peers'']],
             Elem ''div'' [cls ''table-wrap'']
               [Elem ''table'' [cls ''stable-table'']
                  [Elem ''thead'' [] [Elem ''tr'' [] (map (\<lambda>h. Elem ''th'' [] [Text h])
                     [''Host'', ''State'', ''IPv4'', ''IPv6'', ''Networks''])],
                   Elem ''tbody'' [] (map peer_row (peers_details (nb_peers st)))]]]])"

end
