(* ===== verification/Ui_Forms.thy ===== *)
theory Ui_Forms
  imports Ui_Console
begin

text \<open>
  The two pages of \<open>src/crates/edge-gateway/src/ui.rs\<close> that consist of forms: Oracle Cloud and the diagnostic
  tools.
\<close>

section \<open>Oracle Cloud\<close>

record ui_oci_status =
  uo_auth_mode :: string
  uo_region :: "string option"
  uo_compartment_id_configured :: bool
  uo_vnic_id_configured :: bool
  uo_subnet_id_configured :: bool
  uo_nsg_count :: nat
  uo_api_key_env_ready :: bool
  uo_env :: oci_env_status
  uo_cli_available :: bool
  uo_cli_version :: "string option"
  uo_compartment_id :: "string option"
  uo_vnic_id :: "string option"
  uo_subnet_id :: "string option"
  uo_nsg_ids :: "string list"

record oracle_result =
  or_title :: string
  or_ok :: bool
  or_body :: string

definition em_dash :: string where
  "em_dash = [CHR 0xE2, CHR 0x80, CHR 0x94]"

definition oracle_result_section :: "oracle_result \<Rightarrow> node" where
  "oracle_result_section r =
     Elem ''section'' [cls (''console-section section-spaced oracle-result '' @ (if or_ok r then ''ok'' else ''err''))]
       [Elem ''header'' [] [Elem ''h2'' []
          [Text (or_title r), Text ('' '' @ em_dash @ '' ''), Text (if or_ok r then ''ok'' else ''failed'')]],
        Elem ''pre'' [cls ''code''] [Text (or_body r)]]"

definition oracle_readiness :: "ui_oci_status \<Rightarrow> node" where
  "oracle_readiness oci =
     (let needs_api_key = uo_auth_mode oci = ''api_key'' \<and> \<not> uo_api_key_env_ready oci
      in Elem ''section'' [cls ''console-section section-spaced'']
           [Elem ''header'' [] [Elem ''h2'' [] [Text ''Configuration Readiness'']],
            Elem ''div'' [cls ''split-layout oracle-split'']
              [Elem ''div'' []
                 [Elem ''h3'' [] [Text ''Edge Config''],
                  facts ''facts''
                    [(''Compartment'', [], bool_text (uo_compartment_id_configured oci)),
                     (''VNIC'', [], bool_text (uo_vnic_id_configured oci)),
                     (''Subnet'', [], bool_text (uo_subnet_id_configured oci)),
                     (''NSGs'', [], show_nat (uo_nsg_count oci))]],
               Elem ''div'' []
                 [Elem ''h3'' [] [Text ''API Key Env''],
                  facts ''facts''
                    [(''OCI_TENANCY_ID'', [], bool_text (ev_tenancy_id (uo_env oci))),
                     (''OCI_USER_ID'', [], bool_text (ev_user_id (uo_env oci))),
                     (''OCI_FINGERPRINT'', [], bool_text (ev_fingerprint (uo_env oci))),
                     (''OCI_PRIVATE_KEY_PATH'', [], bool_text (ev_private_key_path (uo_env oci)))]],
               Elem ''div'' []
                 [Elem ''h3'' [] [Text ''What This Means''],
                  (if needs_api_key
                   then Elem ''p'' [cls ''warn-text'']
                          [Text ''api_key mode is selected but required env vars are missing.'']
                   else if uo_auth_mode oci = ''instance_principal''
                   then Elem ''p'' [cls ''muted'']
                          [Text ''Instance principal works only when OCI CLI is configured to use it, usually on an OCI instance with proper dynamic-group policy.'']
                   else Elem ''p'' [cls ''muted''] [Text ''OCI API key environment looks ready for direct API mode.'']),
                  Elem ''pre'' [cls ''code tight'']
                    [Text (''oci setup config'' @ nl @ ''# or for an OCI instance:'' @ nl @
                       ''oci --auth instance_principal iam region list'')]]]])"

definition mapping_select :: "(mapping \<Rightarrow> markup) \<Rightarrow> mapping list \<Rightarrow> node" where
  "mapping_select label ms =
     Elem ''label'' [cls ''field'']
       [Elem ''span'' [] [Text ''Mapping''],
        Elem ''select'' [Name ''mapping_id'', Flag ''required'']
          (map (\<lambda>m. Elem ''option'' [Attr ''value'' (id_str (m_id m))] (label m)) ms)]"

definition confirm_button :: "string \<Rightarrow> string \<Rightarrow> node" where
  "confirm_button c label =
     Elem ''button'' [cls c, Attr ''type'' ''submit'', Flag ''data-confirm-submit'', Flag ''disabled''] [Text label]"

definition allocatable :: "mapping \<Rightarrow> bool" where
  "allocatable m \<longleftrightarrow> public_ip m = None \<and> oci_public_ip_ocid m = None"

definition oracle_allocation :: "string \<Rightarrow> string \<Rightarrow> mapping list \<Rightarrow> node" where
  "oracle_allocation compartment vnic ms =
     (let free = filter allocatable ms; allocated = filter (\<lambda>m. oci_public_ip_ocid m \<noteq> None) ms
      in Elem ''section'' [cls ''console-section section-spaced'']
           [Elem ''header'' []
              [Elem ''h2'' [] [Text ''Allocation Control''],
               Elem ''span'' [cls ''muted''] [Text ''public IP to edge private IP to local target'']],
            Elem ''div'' [cls ''split-layout oracle-split'']
              [Elem ''div'' []
                 [Elem ''h3'' [] [Text ''Allocate public + private IP''],
                  (if free = []
                   then Elem ''p'' [cls ''muted''] [Text ''No unallocated mappings. Create a mapping first.'']
                   else Elem ''form'' (HxPost ''/ui/oracle/allocate'' # into_view)
                     ([mapping_select (\<lambda>m. [Text (m_name m), Text '' ('', Text (id_str (m_id m)), Text '')'']) free,
                       text_field ''Compartment OCID''
                         [Name ''compartment_id'', Attr ''value'' compartment, Attr ''placeholder'' ''from config''],
                       text_field ''VNIC OCID'' [Name ''vnic_id'', Attr ''value'' vnic, Attr ''placeholder'' ''from config''],
                       text_field ''Display name'' [Name ''display_name'', Attr ''placeholder'' ''defaults to mapping name'']] @
                      confirm_field ''confirm'' ''allocate'' @ [confirm_button ''primary'' ''Allocate'']))],
               Elem ''div'' []
                 [Elem ''h3'' [] [Text ''Release allocation''],
                  (if allocated = [] then Elem ''p'' [cls ''muted''] [Text ''No allocated mappings to release.'']
                   else Elem ''form'' (HxPost ''/ui/oracle/release'' # into_view)
                     ([mapping_select (\<lambda>m. [Text (m_name m), Text '' ('',
                         Text (endpoint (map_option ip_to_string (public_ip m)) (public_port m)), Text '')'']) allocated] @
                      confirm_field ''delete'' ''delete'' @ [confirm_button ''danger'' ''Release (deletes OCI IPs)'']))]]])"

definition oracle_inventory :: "string \<Rightarrow> string \<Rightarrow> node" where
  "oracle_inventory compartment vnic =
     Elem ''section'' [cls ''console-section section-spaced'']
       [Elem ''header'' [] [Elem ''h2'' [] [Text ''VNIC and Inventory'']],
        Elem ''div'' [cls ''split-layout oracle-split'']
          [Elem ''div'' []
             [Elem ''h3'' [] [Text ''Forwarding VNIC check''],
              Elem ''form'' (HxPost ''/ui/oracle/vnic-check'' # into_view)
                [text_field ''VNIC OCID'' [Name ''vnic_id'', Attr ''value'' vnic, Attr ''placeholder'' ''from config''],
                 Elem ''button'' [cls ''btn'', Attr ''type'' ''submit''] [Text ''Check skip-source-dest-check'']]],
           Elem ''div'' []
             [Elem ''h3'' [] [Text ''List reserved public IPs''],
              Elem ''form'' (HxPost ''/ui/oracle/public-ips'' # into_view)
                [text_field ''Compartment OCID''
                   [Name ''compartment_id'', Attr ''value'' compartment, Attr ''placeholder'' ''from config''],
                 Elem ''button'' [cls ''btn'', Attr ''type'' ''submit''] [Text ''List Public IPs'']]]]]"

definition oracle_nsg :: "string \<Rightarrow> node" where
  "oracle_nsg nsg =
     Elem ''section'' [cls ''console-section section-spaced'']
       [Elem ''header'' []
          [Elem ''h2'' [] [Text ''NSG Ingress Rules''],
           Elem ''span'' [cls ''muted''] [Text ''open the OCI firewall for a forward'']],
        Elem ''div'' [cls ''split-layout oracle-split'']
          [Elem ''div'' []
             [Elem ''h3'' [] [Text ''Add ingress rule''],
              Elem ''form'' (HxPost ''/ui/oracle/nsg/add'' # into_view)
                ([text_field ''NSG OCID'' [Name ''nsg_id'', Attr ''value'' nsg, Attr ''placeholder'' ''from config''],
                  Elem ''label'' [cls ''field'']
                    [Elem ''span'' [] [Text ''Protocol''],
                     Elem ''select'' [Name ''protocol'']
                       [Elem ''option'' [Attr ''value'' ''tcp''] [Text ''tcp''],
                        Elem ''option'' [Attr ''value'' ''udp''] [Text ''udp''],
                        Elem ''option'' [Attr ''value'' ''all''] [Text ''all'']]],
                  text_field ''Source CIDR'' [Name ''source'', Flag ''required'', Attr ''value'' ''0.0.0.0/0''],
                  text_field ''Port min'' [Name ''port_min'', Attr ''type'' ''number'', Attr ''min'' ''1'', Attr ''max'' ''65535''],
                  text_field ''Port max'' [Name ''port_max'', Attr ''type'' ''number'', Attr ''min'' ''1'', Attr ''max'' ''65535''],
                  text_field ''Description'' [Name ''description'', Attr ''placeholder'' ''EdgeRoute forward'']] @
                 confirm_field ''confirm'' ''add'' @ [confirm_button ''primary'' ''Add Rule''])],
           Elem ''div'' []
             [Elem ''h3'' [] [Text ''Remove ingress rules''],
              Elem ''form'' (HxPost ''/ui/oracle/nsg/remove'' # into_view)
                ([text_field ''NSG OCID'' [Name ''nsg_id'', Attr ''value'' nsg, Attr ''placeholder'' ''from config''],
                  text_field ''Rule IDs''
                    [Name ''rule_ids'', Flag ''required'', Attr ''placeholder'' ''comma or space separated'']] @
                 confirm_field ''delete'' ''delete'' @ [confirm_button ''danger'' ''Remove Rules''])]]]"

definition oracle_page :: "ui_oci_status \<Rightarrow> mapping list \<Rightarrow> oracle_result option \<Rightarrow> markup" where
  "oracle_page oci ms result =
     (let compartment = or_text [] (uo_compartment_id oci);
          vnic = or_text [] (uo_vnic_id oci);
          nsg = (case uo_nsg_ids oci of [] \<Rightarrow> [] | i # _ \<Rightarrow> i)
      in page_head ''Oracle'' ''OCI CLI and allocation readiness''
           [Elem ''button'' ([cls ''btn'', HxGet ''/ui/oracle''] @ into_view) [Text ''Refresh'']] @
         (case result of None \<Rightarrow> [] | Some r \<Rightarrow> [oracle_result_section r]) @
         [Elem ''div'' [cls ''summary-row'']
            (summary_item ''Auth Mode'' (uo_auth_mode oci) ''edge config'' @
             summary_item ''Region'' (or_text ''-'' (uo_region oci)) ''OCI region'' @
             summary_item ''OCI CLI'' (if uo_cli_available oci then ''available'' else ''missing/timeout'')
               (or_text ''no version'' (uo_cli_version oci)) @
             summary_item ''API Key Env'' (if uo_api_key_env_ready oci then ''ready'' else ''missing'') ''for api_key mode''),
          oracle_readiness oci, oracle_allocation compartment vnic ms, oracle_inventory compartment vnic,
          oracle_nsg nsg])"

section \<open>Tools\<close>

record tool_result =
  tl_title :: string
  tl_ok :: bool
  tl_body :: string

definition tab_button :: "string \<Rightarrow> string \<Rightarrow> string \<Rightarrow> node" where
  "tab_button active t label =
     Elem ''button'' [Attr ''type'' ''button'', Attr ''role'' ''tab'', cls (tab_button_class active t),
       Attr ''aria-selected'' (is_active_tab active t), Attr ''data-tab-target'' t] [Text label]"

definition tab_panel :: "string \<Rightarrow> string \<Rightarrow> markup \<Rightarrow> node" where
  "tab_panel active t body =
     Elem ''section'' [cls (tab_panel_class active t), Attr ''data-tab-panel'' t] body"

definition tools_page :: "status_response \<Rightarrow> mapping list \<Rightarrow> string list \<Rightarrow> tool_result option \<Rightarrow> string \<Rightarrow> markup" where
  "tools_page status ms networks result active =
     page_head ''Tools'' ''Validate routing, reachability, and config state''
       [Elem ''button'' ([cls ''btn'', HxGet ''/ui/tools''] @ into_view) [Text ''Refresh'']] @
     [Elem ''div'' [cls ''summary-row'']
        (summary_item ''WAN'' (sr_wan_interface status) ''agent config'' @
         summary_item ''NetBird IF'' (sr_netbird_interface status) ''agent config'' @
         summary_item ''Networks'' (show_nat (length networks)) ''netbird advertised'' @
         summary_item ''Mappings'' (show_nat (length ms)) ''loaded from agent''),
      Elem ''div'' [cls ''tools-layout'', Flag ''data-tabs-scope'']
        [Elem ''section'' [cls ''console-section tool-console'']
           [Elem ''header'' []
              [Elem ''h2'' [] [Text ''Toolbox''], Elem ''span'' [cls ''muted''] [Text ''select one diagnostic mode'']],
            Elem ''div'' [cls ''sub-menu'', Attr ''role'' ''tablist'', Attr ''aria-label'' ''Tool categories'']
              [tab_button active ''validation'' ''Validation'', tab_button active ''reachability'' ''Reachability'',
               tab_button active ''capture'' ''Packet Capture'', tab_button active ''inputs'' ''Route Inputs''],
            Elem ''div'' [cls ''tool-panels'']
              [tab_panel active ''validation''
                 [Elem ''h2'' [] [Text ''Validation''],
                  Elem ''p'' [cls ''muted''] [Text ''Check generated firewall state before anything is applied.''],
                  Elem ''div'' [cls ''tool-actions-block'']
                    [Elem ''button'' ([cls ''primary'', HxPost ''/ui/tools/dry-run''] @ into_view) [Text ''Validate Ruleset''],
                     Elem ''button'' ([cls ''btn'', HxPost ''/ui/tools/reconcile-check''] @ into_view)
                       [Text ''Run Dry Reconcile'']]],
               tab_panel active ''reachability''
                 [Elem ''h2'' [] [Text ''Reachability''],
                  Elem ''div'' [cls ''tool-form-grid'']
                    [Elem ''form'' (HxPost ''/ui/tools/ping'' # into_view)
                       [Elem ''h3'' [] [Text ''ICMP Ping''],
                        text_field ''Target IP'' [Name ''target'', Flag ''required'', Attr ''placeholder'' ''100.64.0.1''],
                        Elem ''button'' [cls ''primary'', Attr ''type'' ''submit''] [Text ''Ping Target'']],
                     Elem ''form'' (HxPost ''/ui/tools/port-test'' # into_view)
                       [Elem ''h3'' [] [Text ''TCP Port''],
                        Elem ''div'' [cls ''tool-form-row'']
                          [text_field ''Target IP'' [Name ''target'', Flag ''required'', Attr ''placeholder'' ''192.168.20.80''],
                           Elem ''label'' [cls ''field port-field'']
                             [Elem ''span'' [] [Text ''Port''],
                              Elem ''input'' [Name ''port'', Attr ''type'' ''number'', Attr ''min'' ''1'', Attr ''max'' ''65535'',
                                Flag ''required'', Attr ''placeholder'' ''443''] []]],
                        Elem ''button'' [cls ''btn'', Attr ''type'' ''submit''] [Text ''Test TCP Port'']]]],
               tab_panel active ''capture''
                 [Elem ''h2'' [] [Text ''Packet Capture''],
                  Elem ''form'' (HxPost ''/ui/tools/tcpdump'' # into_view)
                    [Elem ''div'' [cls ''tool-form-row'']
                       [text_field ''Interface'' [Name ''interface'', Flag ''required'', Attr ''value'' (sr_wan_interface status),
                          Attr ''placeholder'' ''ens3''],
                        Elem ''label'' [cls ''field port-field'']
                          [Elem ''span'' [] [Text ''Packets''],
                           Elem ''input'' [Name ''packets'', Attr ''type'' ''number'', Attr ''min'' ''1'', Attr ''max'' ''200'',
                             Attr ''value'' ''25''] []]],
                     text_field ''BPF filter'' [Name ''filter'', Attr ''placeholder'' ''host 192.168.20.80 and tcp''],
                     Elem ''button'' [cls ''primary'', Attr ''type'' ''submit''] [Text ''Run TCP Dump'']]],
               tab_panel active ''inputs''
                 [Elem ''h2'' [] [Text ''Route Inputs''],
                  facts ''facts compact''
                    [(''Advertised'', [cls ''mono''], join_or_dash networks),
                     (''Enabled'', [], show_nat (length (filter enabled ms))),
                     (''Problems'', [], show_nat (length (filter is_problem ms))),
                     (''WAN'', [cls ''mono''], sr_wan_interface status),
                     (''NetBird'', [cls ''mono''], sr_netbird_interface status)]]]],
         Elem ''section'' [cls ''console-section result-pane'']
           [Elem ''header'' []
              (Elem ''h2'' [] [Text ''Result''] #
               (case result of None \<Rightarrow> [] | Some r \<Rightarrow> status_pill (if tl_ok r then ''active'' else ''error''))),
            Elem ''div'' [cls ''card-body'']
              (case result of
                 Some r \<Rightarrow> [Elem ''h3'' [] [Text (tl_title r)], Elem ''pre'' [cls ''code''] [Text (tl_body r)]]
               | None \<Rightarrow> empty_note ''Run a validation or diagnostic tool.'')]]]"

end
