(* ===== verification/Ui_Actions.thy ===== *)
theory Ui_Actions
  imports Ui_Forms
begin

text \<open>
  The handlers of \<open>src/crates/edge-gateway/src/ui.rs\<close>, one definition each: what a page fetches from the agent,
  what a form sends to it, and the diagnostic tools that run \<open>ping\<close> and \<open>tcpdump\<close> or open a connection. The
  routing tables of the gateway and of the agent are at the end, with \<open>ui_request\<close>, one constructor per route of the
  pages, and \<open>ui_handle\<close>.

  \<open>ui_ops\<close> adds what is outside: \<open>maud\<close>'s text of markup, \<open>serde_json\<close> on the bodies exchanged with the agent, calendar
  dates, processes, sockets and the time a connection took. The form of a request is what \<open>axum\<close> extracted from it.
  The state adds the commands run and the connections tried.
\<close>

section \<open>Environment and state\<close>

record 'm ui_ops = "'m gateway_ops" +
  date_of :: "timestamp \<Rightarrow> date_parts"
  into_string :: "markup \<Rightarrow> string"
  json_to_vec :: "json \<Rightarrow> (string, string) result"
  json_pretty :: "json \<Rightarrow> (string, string) result"
  json_text :: "json \<Rightarrow> string"
  report_pretty :: "reconcile_response \<Rightarrow> (string, string) result"
  from_value :: "string \<Rightarrow> (string, json) result"
  from_mapping :: "string \<Rightarrow> (string, mapping) result"
  from_mappings :: "string \<Rightarrow> (string, mapping list) result"
  from_status :: "string \<Rightarrow> (string, status_response) result"
  from_events :: "string \<Rightarrow> (string, event list) result"
  from_netbird :: "string \<Rightarrow> (string, netbird_status) result"
  from_strings :: "string \<Rightarrow> (string, string list) result"
  from_topology :: "string \<Rightarrow> (string, topology_response) result"
  from_oci_status :: "string \<Rightarrow> (string, ui_oci_status) result"
  from_report :: "string \<Rightarrow> (string, reconcile_response) result"
  run_tool :: "nat \<Rightarrow> string \<Rightarrow> string list \<Rightarrow> cmd_outcome"
  tool_connect :: "nat \<Rightarrow> ip_addr \<Rightarrow> u16 \<Rightarrow> connect_outcome"
  elapsed_millis :: "nat \<Rightarrow> nat"

record 'm ui_state = "'m gateway_state" +
  tools_run :: "(string \<times> string list) list"
  connects :: "(ip_addr \<times> u16) list"

type_synonym ('m, 'w, 'a) ui_eff = "(('m, 'w) ui_state_scheme, gateway_error, 'a) eff"

text \<open>\<open>.unwrap_or_default()\<close> and \<open>.ok()\<close> on what a call returns.\<close>

definition unwrap_or :: "'a \<Rightarrow> ('s, 'e, 'a) eff \<Rightarrow> ('s, 'e, 'a) eff" where
  "unwrap_or d m = eff_catch m (\<lambda>r. eff_ret (case r of Inl _ \<Rightarrow> d | Inr x \<Rightarrow> x))"

definition ok_eff :: "('s, 'e, 'a) eff \<Rightarrow> ('s, 'e, 'a option) eff" where
  "ok_eff m = eff_catch m (\<lambda>r. eff_ret (case r of Inl _ \<Rightarrow> None | Inr x \<Rightarrow> Some x))"

definition caught :: "('s, 'e, 'a) eff \<Rightarrow> ('s, 'e, ('e, 'a) result) eff" where
  "caught m = eff_catch m eff_ret"

definition json_port :: "u16 option \<Rightarrow> json" where
  "json_port v = (case v of None \<Rightarrow> JNull | Some p \<Rightarrow> JNum (unat p))"

section \<open>Pages and what they fetch\<close>

definition dashboard_markup :: "('m, 'x) ui_ops_scheme \<Rightarrow> app_state \<Rightarrow> ('m, 'w, markup) ui_eff" where
  "dashboard_markup U st =
     eff_bind (get_json U st (from_status U) ''/v1/status'') (\<lambda>status.
     eff_bind (unwrap_or [] (get_json U st (from_mappings U) ''/v1/mappings'')) (\<lambda>ms.
     eff_bind (unwrap_or [] (get_json U st (from_events U) ''/v1/events'')) (\<lambda>evs.
     eff_bind (ok_eff (get_json U st (from_netbird U) ''/v1/netbird/status'')) (\<lambda>netbird.
     eff_bind (unwrap_or [] (get_json U st (from_strings U) ''/v1/netbird/networks'')) (\<lambda>networks.
     eff_ret (dashboard_page (date_of U) status ms evs netbird networks))))))"

definition mappings_markup :: "('m, 'x) ui_ops_scheme \<Rightarrow> app_state \<Rightarrow> ('m, 'w, markup) ui_eff" where
  "mappings_markup U st =
     eff_bind (get_json U st (from_mappings U) ''/v1/mappings'') (\<lambda>ms.
     eff_bind (ok_eff (get_json U st (from_topology U) ''/v1/topology'')) (\<lambda>topology.
     eff_ret (mappings_page (date_of U) ms topology)))"

definition reconcile_markup :: "reconcile_response option \<Rightarrow> string option \<Rightarrow> ('m, 'w, markup) ui_eff" where
  "reconcile_markup report ruleset = eff_ret (reconcile_page report ruleset)"

definition topology_markup :: "('m, 'x) ui_ops_scheme \<Rightarrow> app_state \<Rightarrow> ('m, 'w, markup) ui_eff" where
  "topology_markup U st =
     eff_bind (get_json U st (from_topology U) ''/v1/topology'') (\<lambda>t. eff_ret (topology_page t))"

definition oracle_markup :: "('m, 'x) ui_ops_scheme \<Rightarrow> app_state \<Rightarrow> oracle_result option \<Rightarrow> ('m, 'w, markup) ui_eff" where
  "oracle_markup U st result =
     eff_bind (get_json U st (from_oci_status U) ''/v1/oci/status'') (\<lambda>oci.
     eff_bind (unwrap_or [] (get_json U st (from_mappings U) ''/v1/mappings'')) (\<lambda>ms.
     eff_ret (oracle_page oci ms result)))"

definition tools_markup :: "('m, 'x) ui_ops_scheme \<Rightarrow> app_state \<Rightarrow> tool_result option \<Rightarrow> string \<Rightarrow> ('m, 'w, markup) ui_eff" where
  "tools_markup U st result active =
     eff_bind (get_json U st (from_status U) ''/v1/status'') (\<lambda>status.
     eff_bind (unwrap_or [] (get_json U st (from_mappings U) ''/v1/mappings'')) (\<lambda>ms.
     eff_bind (unwrap_or [] (get_json U st (from_strings U) ''/v1/netbird/networks'')) (\<lambda>networks.
     eff_ret (tools_page status ms networks result active))))"

definition netbird_markup :: "('m, 'x) ui_ops_scheme \<Rightarrow> app_state \<Rightarrow> ('m, 'w, markup) ui_eff" where
  "netbird_markup U st =
     eff_bind (get_json U st (from_netbird U) ''/v1/netbird/status'') (\<lambda>status.
     eff_bind (unwrap_or [] (get_json U st (from_strings U) ''/v1/netbird/networks'')) (\<lambda>networks.
     eff_ret (netbird_page status networks)))"

definition events_markup :: "('m, 'x) ui_ops_scheme \<Rightarrow> app_state \<Rightarrow> ('m, 'w, markup) ui_eff" where
  "events_markup U st =
     eff_bind (get_json U st (from_events U) ''/v1/events'') (\<lambda>evs. eff_ret (events_page (date_of U) evs))"

definition render_result :: "('m, 'x) ui_ops_scheme \<Rightarrow> ('m, 'w, markup) ui_eff \<Rightarrow> ('m, 'w, string) ui_eff" where
  "render_result U m =
     eff_catch m (\<lambda>r. eff_ret (case r of Inr page \<Rightarrow> into_string U page
                                       | Inl e \<Rightarrow> into_string U (error_card (ge_message e))))"

section \<open>Mappings\<close>

record create_mapping_form =
  cf_name :: string
  cf_public_ip :: "string option"
  cf_edge_private_ip :: string
  cf_target_ip :: string
  cf_public_port :: "string option"
  cf_target_port :: "string option"
  cf_mode :: string
  cf_protocol :: string
  cf_backend :: string

definition ui_create_mapping :: "('m, 'x) ui_ops_scheme \<Rightarrow> app_state \<Rightarrow> create_mapping_form \<Rightarrow> ('m, 'w, markup) ui_eff" where
  "ui_create_mapping U st form =
     eff_bind (eff_lift (clean_port (cf_public_port form))) (\<lambda>public_port.
     eff_bind (eff_lift (clean_port (cf_target_port form))) (\<lambda>target_port.
     let body = JObject
       [(''name'', JStr (cf_name form)), (''public_ip'', json_opt (clean_opt (cf_public_ip form))),
        (''edge_private_ip'', JStr (trim (cf_edge_private_ip form))), (''target_ip'', JStr (trim (cf_target_ip form))),
        (''public_port'', json_port public_port), (''target_port'', json_port target_port),
        (''mode'', JStr (cf_mode form)), (''protocol'', JStr (cf_protocol form)), (''backend'', JStr (cf_backend form))]
     in eff_bind (post_json U st (from_mapping U) (json_to_vec U) ''/v1/mappings'' body) (\<lambda>_. mappings_markup U st)))"

definition ui_enable_mapping :: "('m, 'x) ui_ops_scheme \<Rightarrow> app_state \<Rightarrow> string \<Rightarrow> ('m, 'w, markup) ui_eff" where
  "ui_enable_mapping U st i =
     eff_bind (post_empty_json U st (from_mapping U) (''/v1/mappings/'' @ i @ ''/enable'')) (\<lambda>_. mappings_markup U st)"

definition ui_disable_mapping :: "('m, 'x) ui_ops_scheme \<Rightarrow> app_state \<Rightarrow> string \<Rightarrow> ('m, 'w, markup) ui_eff" where
  "ui_disable_mapping U st i =
     eff_bind (post_empty_json U st (from_mapping U) (''/v1/mappings/'' @ i @ ''/disable'')) (\<lambda>_. mappings_markup U st)"

definition ui_delete_mapping :: "('m, 'x) ui_ops_scheme \<Rightarrow> app_state \<Rightarrow> string \<Rightarrow> ('m, 'w, markup) ui_eff" where
  "ui_delete_mapping U st i =
     eff_bind (delete_json U st (from_mapping U) (''/v1/mappings/'' @ i)) (\<lambda>_. mappings_markup U st)"

section \<open>Reconciliation\<close>

record reconcile_form =
  rf_dry_run :: "string option"
  rf_skip_linux :: "string option"
  rf_skip_nft :: "string option"
  rf_include_config :: "string option"
  rf_enable_xdp :: "string option"
  rf_xdp_interface :: "string option"
  rf_xdp_pin_path :: "string option"

definition reconcile_body :: "reconcile_form \<Rightarrow> json" where
  "reconcile_body form = JObject
     [(''dry_run'', JBool (rf_dry_run form \<noteq> None)), (''skip_linux'', JBool (rf_skip_linux form \<noteq> None)),
      (''skip_nft'', JBool (rf_skip_nft form \<noteq> None)), (''include_config'', JBool (rf_include_config form \<noteq> None)),
      (''enable_xdp'', JBool (rf_enable_xdp form \<noteq> None)),
      (''xdp_interface'', json_opt (Option.bind (rf_xdp_interface form) (\<lambda>v. if trim v \<noteq> [] then Some v else None))),
      (''xdp_pin_path'', json_opt (Option.bind (rf_xdp_pin_path form) (\<lambda>v. clean_opt (Some v))))]"

definition ui_run_reconcile :: "('m, 'x) ui_ops_scheme \<Rightarrow> app_state \<Rightarrow> reconcile_form \<Rightarrow> ('m, 'w, markup) ui_eff" where
  "ui_run_reconcile U st form =
     eff_bind (post_json U st (from_report U) (json_to_vec U) ''/v1/reconcile'' (reconcile_body form)) (\<lambda>report.
     reconcile_markup (Some report) None)"

definition ui_dry_run_ruleset :: "('m, 'x) ui_ops_scheme \<Rightarrow> app_state \<Rightarrow> ('m, 'w, markup) ui_eff" where
  "ui_dry_run_ruleset U st =
     eff_bind (post_text U st ''/v1/apply/dry-run'') (\<lambda>rules. reconcile_markup None (Some rules))"

section \<open>Oracle Cloud\<close>

record oracle_allocate_form =
  oa_mapping_id :: string
  oa_compartment_id :: "string option"
  oa_vnic_id :: "string option"
  oa_display_name :: "string option"
  oa_confirm :: string

record oracle_release_form =
  ol_mapping_id :: "string option"
  ol_public_ip_id :: "string option"
  ol_private_ip_id :: "string option"
  ol_confirm :: string

record oracle_nsg_add_form =
  og_nsg_id :: "string option"
  og_protocol :: string
  og_source :: string
  og_port_min :: "string option"
  og_port_max :: "string option"
  og_description :: "string option"
  og_confirm :: string

record oracle_nsg_remove_form =
  om_nsg_id :: "string option"
  om_rule_ids :: string
  om_confirm :: string

definition action_result :: "('m, 'x) ui_ops_scheme \<Rightarrow> string \<Rightarrow> (gateway_error, json) result \<Rightarrow> oracle_result" where
  "action_result U title result =
     (case result of
        Inr v \<Rightarrow> \<lparr>or_title = title, or_ok = True,
                   or_body = (case json_pretty U v of Inr t \<Rightarrow> t | Inl _ \<Rightarrow> json_text U v)\<rparr>
      | Inl e \<Rightarrow> \<lparr>or_title = title, or_ok = False, or_body = ge_message e\<rparr>)"

definition ui_oracle_allocate :: "('m, 'x) ui_ops_scheme \<Rightarrow> app_state \<Rightarrow> oracle_allocate_form \<Rightarrow> ('m, 'w, markup) ui_eff" where
  "ui_oracle_allocate U st form =
     (let body = JObject
        [(''mapping_id'', JStr (trim (oa_mapping_id form))), (''compartment_id'', json_opt (clean_opt (oa_compartment_id form))),
         (''vnic_id'', json_opt (clean_opt (oa_vnic_id form))), (''display_name'', json_opt (clean_opt (oa_display_name form))),
         (''confirm'', JStr (oa_confirm form))]
      in eff_bind (caught (post_json U st (from_value U) (json_to_vec U) ''/v1/oci/allocate'' body)) (\<lambda>result.
         oracle_markup U st (Some (action_result U ''Allocate'' result))))"

definition ui_oracle_release :: "('m, 'x) ui_ops_scheme \<Rightarrow> app_state \<Rightarrow> oracle_release_form \<Rightarrow> ('m, 'w, markup) ui_eff" where
  "ui_oracle_release U st form =
     (let body = JObject
        [(''mapping_id'', json_opt (clean_opt (ol_mapping_id form))), (''public_ip_id'', json_opt (clean_opt (ol_public_ip_id form))),
         (''private_ip_id'', json_opt (clean_opt (ol_private_ip_id form))), (''confirm'', JStr (ol_confirm form))]
      in eff_bind (caught (post_json U st (from_value U) (json_to_vec U) ''/v1/oci/release'' body)) (\<lambda>result.
         oracle_markup U st (Some (action_result U ''Release'' result))))"

definition ui_oracle_vnic_check :: "('m, 'x) ui_ops_scheme \<Rightarrow> app_state \<Rightarrow> string option \<Rightarrow> ('m, 'w, markup) ui_eff" where
  "ui_oracle_vnic_check U st v =
     eff_bind (caught (get_json U st (from_value U) (with_query ''/v1/oci/vnic/check'' ''vnic_id'' (clean_opt v)))) (\<lambda>result.
     oracle_markup U st (Some (action_result U ''VNIC Check'' result)))"

definition ui_oracle_public_ips :: "('m, 'x) ui_ops_scheme \<Rightarrow> app_state \<Rightarrow> string option \<Rightarrow> ('m, 'w, markup) ui_eff" where
  "ui_oracle_public_ips U st v =
     eff_bind (caught (get_json U st (from_value U)
       (with_query ''/v1/oci/public-ips'' ''compartment_id'' (clean_opt v)))) (\<lambda>result.
     oracle_markup U st (Some (action_result U ''Public IPs'' result)))"

definition ui_oracle_nsg_add :: "('m, 'x) ui_ops_scheme \<Rightarrow> app_state \<Rightarrow> oracle_nsg_add_form \<Rightarrow> ('m, 'w, markup) ui_eff" where
  "ui_oracle_nsg_add U st form =
     eff_bind (eff_lift (clean_port (og_port_min form))) (\<lambda>port_min.
     eff_bind (eff_lift (clean_port (og_port_max form))) (\<lambda>port_max.
     let body = JObject
       [(''nsg_id'', json_opt (clean_opt (og_nsg_id form))), (''protocol'', JStr (og_protocol form)),
        (''source'', JStr (trim (og_source form))), (''port_min'', json_port port_min), (''port_max'', json_port port_max),
        (''description'', json_opt (clean_opt (og_description form))), (''confirm'', JStr (og_confirm form))]
     in eff_bind (caught (post_json U st (from_value U) (json_to_vec U) ''/v1/oci/nsg/add'' body)) (\<lambda>result.
        oracle_markup U st (Some (action_result U ''NSG Add Rule'' result)))))"

definition ui_oracle_nsg_remove :: "('m, 'x) ui_ops_scheme \<Rightarrow> app_state \<Rightarrow> oracle_nsg_remove_form \<Rightarrow> ('m, 'w, markup) ui_eff" where
  "ui_oracle_nsg_remove U st form =
     (let rule_ids = filter (\<lambda>i. i \<noteq> []) (map trim (split_ids (om_rule_ids form)));
          body = JObject
        [(''nsg_id'', json_opt (clean_opt (om_nsg_id form))), (''rule_ids'', JArray (map JStr rule_ids)),
         (''confirm'', JStr (om_confirm form))]
      in eff_bind (caught (post_json U st (from_value U) (json_to_vec U) ''/v1/oci/nsg/remove'' body)) (\<lambda>result.
         oracle_markup U st (Some (action_result U ''NSG Remove Rule'' result))))"

section \<open>Tools\<close>

text \<open>\<open>timeout(.., Command::output())\<close>: the process and its outcome; a connection and its outcome.\<close>

definition tool_command :: "('m, 'x) ui_ops_scheme \<Rightarrow> string \<Rightarrow> string list \<Rightarrow> ('m, 'w, cmd_outcome) ui_eff" where
  "tool_command U prog args s =
     (Inr (run_tool U (gw_tick s) prog args),
      s\<lparr>gw_tick := Suc (gw_tick s), tools_run := tools_run s @ [(prog, args)]\<rparr>)"

definition tool_output :: "string \<Rightarrow> cmd_outcome \<Rightarrow> (gateway_error, int option \<times> string \<times> string) result" where
  "tool_output late out =
     (case out of
        TimedOut \<Rightarrow> Inl (gateway_bad_gateway late)
      | SpawnFailed e \<Rightarrow> Inl (gateway_bad_gateway e)
      | Exited code out err \<Rightarrow> Inr (code, out, err))"

definition tcp_try :: "('m, 'x) ui_ops_scheme \<Rightarrow> ip_addr \<Rightarrow> u16 \<Rightarrow> ('m, 'w, connect_outcome \<times> nat) ui_eff" where
  "tcp_try U ip port s =
     (Inr (tool_connect U (gw_tick s) ip port, elapsed_millis U (gw_tick s)),
      s\<lparr>gw_tick := Suc (gw_tick s), connects := connects s @ [(ip, port)]\<rparr>)"

definition ui_tools_dry_run :: "('m, 'x) ui_ops_scheme \<Rightarrow> app_state \<Rightarrow> ('m, 'w, markup) ui_eff" where
  "ui_tools_dry_run U st =
     eff_bind (post_text U st ''/v1/apply/dry-run'') (\<lambda>rules.
     tools_markup U st (Some \<lparr>tl_title = ''Ruleset Dry Run'', tl_ok = True, tl_body = rules\<rparr>) ''validation'')"

definition reconcile_check_body :: json where
  "reconcile_check_body = JObject
     [(''dry_run'', JBool True), (''skip_linux'', JBool True), (''skip_nft'', JBool True),
      (''include_config'', JBool True), (''enable_xdp'', JBool True)]"

definition ui_tools_reconcile_check :: "('m, 'x) ui_ops_scheme \<Rightarrow> app_state \<Rightarrow> ('m, 'w, markup) ui_eff" where
  "ui_tools_reconcile_check U st =
     eff_bind (post_json U st (from_report U) (json_to_vec U) ''/v1/reconcile'' reconcile_check_body) (\<lambda>report.
     eff_bind (eff_lift (map_err gateway_internal (report_pretty U report))) (\<lambda>body.
     tools_markup U st (Some \<lparr>tl_title = ''Reconcile Validation'', tl_ok = True, tl_body = body\<rparr>) ''validation''))"

definition ui_ping :: "('m, 'x) ui_ops_scheme \<Rightarrow> app_state \<Rightarrow> string \<Rightarrow> ('m, 'w, markup) ui_eff" where
  "ui_ping U st form_target =
     (let target = trim form_target
      in eff_bind (eff_lift (ok_or (gateway_bad_gateway ''ping target must be an IPv4 or IPv6 address'') (parse_ip_addr target))) (\<lambda>_.
         eff_bind (tool_command U ''ping'' [''-c'', ''3'', ''-W'', ''2'', target]) (\<lambda>out.
         eff_bind (eff_lift (tool_output ''ping timed out'' out)) (\<lambda>(code, stdout, stderr).
         let body = utf8_lossy U stdout @ (if stderr \<noteq> [] then utf8_lossy U stderr else [])
         in tools_markup U st (Some \<lparr>tl_title = ''Ping Result'', tl_ok = is_success code, tl_body = body\<rparr>) ''reachability''))))"

definition ui_port_test :: "('m, 'x) ui_ops_scheme \<Rightarrow> app_state \<Rightarrow> string \<Rightarrow> u16 \<Rightarrow> ('m, 'w, markup) ui_eff" where
  "ui_port_test U st form_target port =
     eff_bind (eff_lift (ok_or (gateway_bad_gateway ''port test target must be an IPv4 or IPv6 address'')
       (parse_ip_addr (trim form_target)))) (\<lambda>ip.
     if port = 0 then eff_err (gateway_bad_gateway ''port must be between 1 and 65535'')
     else eff_bind (tcp_try U ip port) (\<lambda>(result, elapsed_ms).
       let at = ''TCP connect to '' @ ip_addr_to_string ip @ '':'' @ show_u16 port;
           (ok, body) = (case result of
               Connected \<Rightarrow> (True, at @ '' succeeded in '' @ show_nat elapsed_ms @ '' ms'')
             | ConnectFailed e \<Rightarrow> (False, at @ '' failed after '' @ show_nat elapsed_ms @ '' ms'' @ nl @ e)
             | ConnectTimeout \<Rightarrow> (False, at @ '' timed out after 5000 ms''))
       in tools_markup U st (Some \<lparr>tl_title = ''Port Test Result'', tl_ok = ok, tl_body = body\<rparr>) ''reachability''))"

record tcpdump_form =
  td_interface :: string
  td_filter :: "string option"
  td_packets :: "u16 option"

definition clamp_packets :: "u16 option \<Rightarrow> u16" where
  "clamp_packets v = (let n = (case v of None \<Rightarrow> 25 | Some x \<Rightarrow> x) in if n < 1 then 1 else if 200 < n then 200 else n)"

definition ui_tcpdump :: "('m, 'x) ui_ops_scheme \<Rightarrow> app_state \<Rightarrow> tcpdump_form \<Rightarrow> ('m, 'w, markup) ui_eff" where
  "ui_tcpdump U st form =
     eff_bind (eff_lift (clean_interface (td_interface form))) (\<lambda>interface.
     let packets = clamp_packets (td_packets form)
     in eff_bind (eff_lift (clean_tcpdump_filter (td_filter form))) (\<lambda>flt.
        eff_bind (tool_command U ''tcpdump''
          ([''-i'', interface, ''-nn'', ''-tttt'', ''-vv'', ''-c'', show_u16 packets] @ flt)) (\<lambda>out.
        eff_bind (eff_lift (tool_output ''tcpdump capture timed out'' out)) (\<lambda>(code, stdout, stderr).
        let body = tcpdump_report (utf8_lossy U stdout) (utf8_lossy U stderr) packets flt
        in tools_markup U st (Some \<lparr>tl_title = ''TCP Dump Analysis'', tl_ok = is_success code, tl_body = body\<rparr>) ''capture''))))"

section \<open>Logs\<close>

definition log_headers :: "(string \<times> string) list" where
  "log_headers =
     [(''content-type'', ''text/plain; charset=utf-8''),
      (''content-disposition'', ''attachment; filename='' @ [CHR 0x22] @ ''edgeroute-events.log'' @ [CHR 0x22])]"

definition ui_download_logs :: "('m, 'x) ui_ops_scheme \<Rightarrow> app_state \<Rightarrow> ('m, 'w, (string \<times> string) list \<times> string) ui_eff" where
  "ui_download_logs U st =
     eff_bind (get_json U st (from_events U) ''/v1/events'') (\<lambda>evs. eff_ret (log_headers, raw_log_lines (date_of U) evs))"

section \<open>Start-up\<close>

record gateway_cli =
  gc_config :: "string option"
  gc_bind :: socket_addr
  gc_agent_socket :: string
  gc_static_dir :: string
  gc_gateway_token :: "string option"
  gc_api_token :: "string option"

text \<open>\<open>main\<close> up to the router: the state every handler gets.\<close>

definition gateway_start :: "('m, 'x) gateway_ops_scheme \<Rightarrow> (socket_addr \<Rightarrow> string) \<Rightarrow> gateway_cli \<Rightarrow> (anyhow, app_state) result" where
  "gateway_start G show cli =
     res_bind (gw_reject_public_bind show (gc_bind cli)) (\<lambda>_.
     res_bind (load_tokens G (gc_config cli) (gc_gateway_token cli) (gc_api_token cli)) (\<lambda>tokens.
     Inr \<lparr>as_agent_socket = gc_agent_socket cli, as_gateway_token = gt_gateway_token tokens,
          as_api_token = gt_api_token tokens\<rparr>))"

text \<open>\<open>health\<close>, and the response an error becomes.\<close>

definition gw_health :: string where
  "gw_health = ''ok''"

definition gateway_error_response :: "gateway_error \<Rightarrow> nat \<times> string" where
  "gateway_error_response e = (ge_status e, ge_message e)"

section \<open>Routes\<close>

text \<open>The routing tables: the method and the pattern of each route. A segment in braces takes any segment. The
  route \<open>/api/{*path}\<close>, which hands every method to \<open>proxy\<close>, and the static files under \<open>/static\<close> are not in
  the table: no page refers to them by \<open>htmx\<close>.\<close>

definition gateway_routes :: "(string \<times> string) list" where
  "gateway_routes =
     [(''GET'', ''/''), (''GET'', ''/dashboard''), (''GET'', ''/mappings''), (''GET'', ''/tools''), (''GET'', ''/topology''),
      (''GET'', ''/oracle''), (''GET'', ''/reconcile''), (''GET'', ''/netbird''), (''GET'', ''/logs''),
      (''GET'', ''/healthz''), (''GET'', ''/status''),
      (''GET'', ''/ui/dashboard''), (''GET'', ''/ui/mappings''), (''POST'', ''/ui/mappings''),
      (''POST'', ''/ui/mappings/{id}/enable''), (''POST'', ''/ui/mappings/{id}/disable''),
      (''DELETE'', ''/ui/mappings/{id}''), (''GET'', ''/ui/reconcile''), (''POST'', ''/ui/reconcile''),
      (''POST'', ''/ui/reconcile/dry-run''), (''GET'', ''/ui/tools''), (''POST'', ''/ui/tools/ping''),
      (''POST'', ''/ui/tools/port-test''), (''POST'', ''/ui/tools/tcpdump''), (''POST'', ''/ui/tools/dry-run''),
      (''POST'', ''/ui/tools/reconcile-check''), (''GET'', ''/ui/topology''), (''GET'', ''/ui/oracle''),
      (''POST'', ''/ui/oracle/allocate''), (''POST'', ''/ui/oracle/release''), (''POST'', ''/ui/oracle/vnic-check''),
      (''POST'', ''/ui/oracle/public-ips''), (''POST'', ''/ui/oracle/nsg/add''), (''POST'', ''/ui/oracle/nsg/remove''),
      (''GET'', ''/ui/netbird''), (''GET'', ''/ui/events''), (''GET'', ''/ui/logs''), (''GET'', ''/ui/logs/download'')]"

definition agent_routes :: "(string \<times> string) list" where
  "agent_routes =
     [(''GET'', ''/v1/status''), (''GET'', ''/v1/mappings''), (''POST'', ''/v1/mappings''), (''GET'', ''/v1/mappings/{id}''),
      (''DELETE'', ''/v1/mappings/{id}''), (''POST'', ''/v1/mappings/{id}/enable''),
      (''POST'', ''/v1/mappings/{id}/disable''), (''POST'', ''/v1/apply/dry-run''), (''POST'', ''/v1/reconcile''),
      (''GET'', ''/v1/netbird/status''), (''GET'', ''/v1/netbird/networks''), (''GET'', ''/v1/events''),
      (''GET'', ''/v1/analytics''), (''GET'', ''/v1/topology''), (''GET'', ''/v1/oci/status''),
      (''POST'', ''/v1/oci/allocate''), (''POST'', ''/v1/oci/release''), (''GET'', ''/v1/oci/vnic/check''),
      (''GET'', ''/v1/oci/public-ips''), (''POST'', ''/v1/oci/nsg/add''), (''POST'', ''/v1/oci/nsg/remove'')]"

text \<open>A path matches a pattern segment by segment; a parameter takes a segment that is not empty.\<close>

definition segment_matches :: "string \<Rightarrow> string \<Rightarrow> bool" where
  "segment_matches pat seg \<longleftrightarrow> (if take 1 pat = ''{'' then seg \<noteq> [] else seg = pat)"

definition path_matches :: "string \<Rightarrow> string \<Rightarrow> bool" where
  "path_matches pat path \<longleftrightarrow> list_all2 segment_matches (split_on CHR ''/'' pat) (split_on CHR ''/'' path)"

definition served_by :: "(string \<times> string) list \<Rightarrow> string \<Rightarrow> string \<Rightarrow> bool" where
  "served_by routes method target \<longleftrightarrow>
     list_ex (\<lambda>(m, pat). m = method \<and> path_matches pat (takeWhile (\<lambda>c. c \<noteq> CHR ''?'') target)) routes"

datatype ui_request =
    UiDashboard
  | UiMappings
  | UiCreateMapping create_mapping_form
  | UiEnableMapping string
  | UiDisableMapping string
  | UiDeleteMapping string
  | UiReconcile
  | UiRunReconcile reconcile_form
  | UiDryRunRuleset
  | UiTools
  | UiTopology
  | UiOracle
  | UiOracleAllocate oracle_allocate_form
  | UiOracleRelease oracle_release_form
  | UiOracleVnicCheck "string option"
  | UiOraclePublicIps "string option"
  | UiOracleNsgAdd oracle_nsg_add_form
  | UiOracleNsgRemove oracle_nsg_remove_form
  | UiToolsDryRun
  | UiToolsReconcileCheck
  | UiPing string
  | UiPortTest string u16
  | UiTcpdump tcpdump_form
  | UiNetbird
  | UiEvents

text \<open>The page a request leads to, and what is sent back.\<close>

fun ui_page :: "('m, 'x) ui_ops_scheme \<Rightarrow> app_state \<Rightarrow> ui_request \<Rightarrow> ('m, 'w, markup) ui_eff" where
  "ui_page U st UiDashboard = dashboard_markup U st"
| "ui_page U st UiMappings = mappings_markup U st"
| "ui_page U st (UiCreateMapping form) = ui_create_mapping U st form"
| "ui_page U st (UiEnableMapping i) = ui_enable_mapping U st i"
| "ui_page U st (UiDisableMapping i) = ui_disable_mapping U st i"
| "ui_page U st (UiDeleteMapping i) = ui_delete_mapping U st i"
| "ui_page U st UiReconcile = reconcile_markup None None"
| "ui_page U st (UiRunReconcile form) = ui_run_reconcile U st form"
| "ui_page U st UiDryRunRuleset = ui_dry_run_ruleset U st"
| "ui_page U st UiTools = tools_markup U st None ''validation''"
| "ui_page U st UiTopology = topology_markup U st"
| "ui_page U st UiOracle = oracle_markup U st None"
| "ui_page U st (UiOracleAllocate form) = ui_oracle_allocate U st form"
| "ui_page U st (UiOracleRelease form) = ui_oracle_release U st form"
| "ui_page U st (UiOracleVnicCheck v) = ui_oracle_vnic_check U st v"
| "ui_page U st (UiOraclePublicIps v) = ui_oracle_public_ips U st v"
| "ui_page U st (UiOracleNsgAdd form) = ui_oracle_nsg_add U st form"
| "ui_page U st (UiOracleNsgRemove form) = ui_oracle_nsg_remove U st form"
| "ui_page U st UiToolsDryRun = ui_tools_dry_run U st"
| "ui_page U st UiToolsReconcileCheck = ui_tools_reconcile_check U st"
| "ui_page U st (UiPing target) = ui_ping U st target"
| "ui_page U st (UiPortTest target port) = ui_port_test U st target port"
| "ui_page U st (UiTcpdump form) = ui_tcpdump U st form"
| "ui_page U st UiNetbird = netbird_markup U st"
| "ui_page U st UiEvents = events_markup U st"

definition ui_handle :: "('m, 'x) ui_ops_scheme \<Rightarrow> app_state \<Rightarrow> ui_request \<Rightarrow> ('m, 'w, string) ui_eff" where
  "ui_handle U st rq = render_result U (ui_page U st rq)"

end
