(* ===== verification/Ui_Calls.thy ===== *)
theory Ui_Calls
  imports Ui_Actions
begin

text \<open>
  What a request to a page makes the gateway do: the calls it makes to the agent, the commands it runs and the
  connections it opens. \<open>adds f P m\<close> is the shared notion: a computation only appends to the history \<open>f\<close>, and only
  entries with \<open>P\<close>.
\<close>

section \<open>Computations that append to a history\<close>

named_theorems adds_intros \<open>rules that establish \<open>adds f P m\<close>\<close>

definition adds :: "('s \<Rightarrow> 'b list) \<Rightarrow> ('b \<Rightarrow> bool) \<Rightarrow> ('s, 'e, 'a) eff \<Rightarrow> bool" where
  "adds f P m \<longleftrightarrow> (\<forall>s r t. m s = (r, t) \<longrightarrow> (\<exists>xs. f t = f s @ xs \<and> list_all P xs))"

lemma adds_pure [adds_intros]: "adds f P (eff_ret x)" "adds f P (eff_err e)" "adds f P (eff_lift r)"
  by (auto simp: adds_def)

lemma adds_catch [adds_intros]:
  assumes "adds f P m" "\<And>r. adds f P (h r)"
  shows "adds f P (eff_catch m h)"
  unfolding adds_def
proof (intro allI impI)
  fix s r t
  assume "eff_catch m h s = (r, t)"
  then obtain r' u where "m s = (r', u)" "h r' u = (r, t)" by (auto simp: eff_catch_def split: prod.splits)
  with assms obtain xs ys where "f u = f s @ xs" "list_all P xs" "f t = f u @ ys" "list_all P ys"
    unfolding adds_def by meson
  then show "\<exists>xs. f t = f s @ xs \<and> list_all P xs" by (intro exI [of _ "xs @ ys"]) simp
qed

lemma bind_as_catch: "eff_bind m g = eff_catch m (\<lambda>r. case r of Inl e \<Rightarrow> eff_err e | Inr x \<Rightarrow> g x)"
  by (rule ext) (simp add: eff_bind_def eff_catch_def split: prod.splits sum.splits)

lemma adds_bind [adds_intros]:
  assumes "adds f P m" "\<And>x. adds f P (g x)"
  shows "adds f P (eff_bind m g)"
  unfolding bind_as_catch by (rule adds_catch [OF assms(1)]) (auto intro: adds_intros assms(2) split: sum.split)

text \<open>After a pure check the rest may rely on its result.\<close>

lemma adds_lift_bind: "(\<And>x. r = Inr x \<Longrightarrow> adds f P (g x)) \<Longrightarrow> adds f P (eff_bind (eff_lift r) g)"
  by (cases r) (auto intro: adds_intros)

lemma adds_case_prod [adds_intros]: "(\<And>x y. adds f P (g x y)) \<Longrightarrow> adds f P (case p of (x, y) \<Rightarrow> g x y)"
  by (cases p) auto

lemma adds_if [adds_intros]: "(b \<Longrightarrow> adds f P m) \<Longrightarrow> (\<not> b \<Longrightarrow> adds f P n) \<Longrightarrow> adds f P (if b then m else n)"
  by simp

lemma adds_let [adds_intros]: "(\<And>x. adds f P (g x)) \<Longrightarrow> adds f P (Let v g)"
  by simp

lemma adds_wrapped [adds_intros]:
  "adds f P m \<Longrightarrow> adds f P (unwrap_or d m)" "adds f P m \<Longrightarrow> adds f P (ok_eff m)" "adds f P m \<Longrightarrow> adds f P (caught m)"
  by (auto simp: unwrap_or_def ok_eff_def caught_def intro!: adds_intros)

lemma adds_render [adds_intros]: "adds f P m \<Longrightarrow> adds f P (render_result U m)"
  unfolding render_result_def by (intro adds_intros)

section \<open>Calls to the agent\<close>

text \<open>A request as the agent's router serves it, with the agent's token as its only credential.\<close>

definition agent_call :: "('m, 'x) gateway_ops_scheme \<Rightarrow> app_state \<Rightarrow> 'm http_request \<Rightarrow> bool" where
  "agent_call G st q \<longleftrightarrow>
     (\<exists>token path uri. as_api_token st = Some token \<and> served_by agent_routes (hr_method q) path \<and>
        upstream_uri G path = Inr uri \<and> hr_path_and_query q = Some uri \<and>
        header_get_all G (hr_headers q) ''authorization'' = [''Bearer '' @ token])"

lemma send_raw_adds:
  assumes "header_doc G" "served_by agent_routes m p"
  shows "adds sent (agent_call G st) (send_raw G st m p hs body)"
  unfolding adds_def
proof (intro allI impI)
  fix s t r
  assume "send_raw G st m p hs body s = (r, t)"
  from send_raw_sent [OF this] show "\<exists>xs. sent t = sent s @ xs \<and> list_all (agent_call G st) xs"
  proof (elim disjE exE conjE)
    fix token hs' uri
    assume "as_api_token st = Some token" "rewrite_headers G hs token = Inr hs'" "upstream_uri G p = Inr uri"
      "sent t = sent s @ [\<lparr>hr_method = m, hr_path_and_query = Some uri, hr_headers = hs', hr_body = body\<rparr>]"
    then show ?thesis
      using assms(2) rewritten_headers [OF assms(1), of hs token hs' "''authorization''"]
      by (auto simp: agent_call_def)
  qed simp
qed

lemma send_raw_runs_nothing:
  "adds tools_run P (send_raw G st m p hs body)" "adds connects Q (send_raw G st m p hs body)"
  by (auto simp: adds_def send_raw_def eff_bind_def Let_def split: prod.splits sum.splits)

lemmas agent_calls = get_json_def post_json_def post_empty_json_def delete_json_def post_text_def

lemma agent_calls_add:
  assumes "header_doc G"
  shows "served_by agent_routes ''GET'' p \<Longrightarrow> adds sent (agent_call G st) (get_json G st dec p)"
    and "served_by agent_routes ''POST'' p \<Longrightarrow> adds sent (agent_call G st) (post_json G st dec enc p body)"
    and "served_by agent_routes ''POST'' p \<Longrightarrow> adds sent (agent_call G st) (post_empty_json G st dec p)"
    and "served_by agent_routes ''DELETE'' p \<Longrightarrow> adds sent (agent_call G st) (delete_json G st dec p)"
    and "served_by agent_routes ''POST'' p \<Longrightarrow> adds sent (agent_call G st) (post_text G st p)"
  unfolding agent_calls by (intro adds_intros send_raw_adds assms, assumption)+

lemma agent_calls_run_nothing [adds_intros]:
  "adds tools_run P (get_json G st dec p)" "adds connects Q (get_json G st dec p)"
  "adds tools_run P (post_json G st dec enc p body)" "adds connects Q (post_json G st dec enc p body)"
  "adds tools_run P (post_empty_json G st dec p)" "adds connects Q (post_empty_json G st dec p)"
  "adds tools_run P (delete_json G st dec p)" "adds connects Q (delete_json G st dec p)"
  "adds tools_run P (post_text G st p)" "adds connects Q (post_text G st p)"
  unfolding agent_calls by (intro adds_intros send_raw_runs_nothing)+

section \<open>Routes\<close>

lemma static_routes:
  "served_by agent_routes ''GET'' ''/v1/status''" "served_by agent_routes ''GET'' ''/v1/mappings''"
  "served_by agent_routes ''POST'' ''/v1/mappings''" "served_by agent_routes ''GET'' ''/v1/events''"
  "served_by agent_routes ''GET'' ''/v1/netbird/status''" "served_by agent_routes ''GET'' ''/v1/netbird/networks''"
  "served_by agent_routes ''GET'' ''/v1/topology''" "served_by agent_routes ''GET'' ''/v1/oci/status''"
  "served_by agent_routes ''POST'' ''/v1/reconcile''" "served_by agent_routes ''POST'' ''/v1/apply/dry-run''"
  "served_by agent_routes ''POST'' ''/v1/oci/allocate''" "served_by agent_routes ''POST'' ''/v1/oci/release''"
  "served_by agent_routes ''POST'' ''/v1/oci/nsg/add''" "served_by agent_routes ''POST'' ''/v1/oci/nsg/remove''"
  by code_simp+

text \<open>An identifier that is one segment of a path.\<close>

definition path_segment :: "string \<Rightarrow> bool" where
  "path_segment i \<longleftrightarrow> i \<noteq> [] \<and> CHR ''/'' \<notin> set i \<and> CHR ''?'' \<notin> set i"

lemma served_byI:
  "(m, pat) \<in> set routes \<Longrightarrow> path_matches pat (takeWhile (\<lambda>c. c \<noteq> CHR ''?'') p) \<Longrightarrow> served_by routes m p"
  by (auto simp: served_by_def list_ex_iff)

lemma takeWhile_none: "c \<notin> set s \<Longrightarrow> takeWhile (\<lambda>x. x \<noteq> c) s = s"
  by (induction s) auto

lemma served_by_plain:
  assumes "(m, pat) \<in> set routes" "CHR ''?'' \<notin> set p" "path_matches pat p"
  shows "served_by routes m p"
  by (rule served_byI [OF assms(1)]) (simp add: takeWhile_none [OF assms(2)] assms(3))

text \<open>The identifiers the program generates, \<open>map_\<close> and a UUID, are single segments.\<close>

lemma generated_id_segment:
  "\<forall>c\<in>set u. is_ascii_alphanumeric c \<or> c = CHR ''-'' \<Longrightarrow> path_segment (id_str (mapping_id_new u))"
  by (auto simp: path_segment_def mapping_id_new_def is_ascii_alphanumeric_def)

lemma segment_paths:
  assumes "path_segment i"
  shows "path_matches ''/v1/mappings/{id}'' (''/v1/mappings/'' @ i)"
    and "path_matches ''/v1/mappings/{id}/enable'' (''/v1/mappings/'' @ i @ ''/enable'')"
    and "path_matches ''/v1/mappings/{id}/disable'' (''/v1/mappings/'' @ i @ ''/disable'')"
    and "path_matches ''/ui/mappings/{id}'' (''/ui/mappings/'' @ i)"
    and "path_matches ''/ui/mappings/{id}/enable'' (''/ui/mappings/'' @ i @ ''/enable'')"
    and "path_matches ''/ui/mappings/{id}/disable'' (''/ui/mappings/'' @ i @ ''/disable'')"
  using assms split_on_append [of "CHR ''/''" i] split_on_no_sep [of "CHR ''/''" i]
  by (simp_all add: path_matches_def path_segment_def segment_matches_def)

lemma segment_routes:
  assumes "path_segment i"
  shows "served_by agent_routes ''DELETE'' (''/v1/mappings/'' @ i)"
    and "served_by agent_routes ''POST'' (''/v1/mappings/'' @ i @ ''/enable'')"
    and "served_by agent_routes ''POST'' (''/v1/mappings/'' @ i @ ''/disable'')"
  by (rule served_by_plain [OF _ _ segment_paths(1) [OF assms]] served_by_plain [OF _ _ segment_paths(2) [OF assms]]
      served_by_plain [OF _ _ segment_paths(3) [OF assms]],
      simp add: agent_routes_def, use assms in \<open>simp add: path_segment_def\<close>)+

lemma query_routes:
  "served_by agent_routes ''GET'' (with_query ''/v1/oci/vnic/check'' k v)"
  "served_by agent_routes ''GET'' (with_query ''/v1/oci/public-ips'' k v)"
proof -
  show "served_by agent_routes ''GET'' (with_query ''/v1/oci/vnic/check'' k v)"
    by (rule served_byI [of _ "''/v1/oci/vnic/check''"])
      (simp_all add: agent_routes_def with_query_def path_matches_def segment_matches_def split: option.split)
  show "served_by agent_routes ''GET'' (with_query ''/v1/oci/public-ips'' k v)"
    by (rule served_byI [of _ "''/v1/oci/public-ips''"])
      (simp_all add: agent_routes_def with_query_def path_matches_def segment_matches_def split: option.split)
qed

section \<open>Pages\<close>

lemmas markups = dashboard_markup_def mappings_markup_def reconcile_markup_def topology_markup_def oracle_markup_def
  tools_markup_def netbird_markup_def events_markup_def

lemma markups_call_agent:
  assumes "header_doc U"
  shows "adds sent (agent_call U st) (dashboard_markup U st)" "adds sent (agent_call U st) (mappings_markup U st)"
    "adds sent (agent_call U st) (reconcile_markup report ruleset)" "adds sent (agent_call U st) (topology_markup U st)"
    "adds sent (agent_call U st) (oracle_markup U st result)" "adds sent (agent_call U st) (tools_markup U st tool active)"
    "adds sent (agent_call U st) (netbird_markup U st)" "adds sent (agent_call U st) (events_markup U st)"
  unfolding markups by (intro adds_intros agent_calls_add assms static_routes)+

lemma markups_run_nothing [adds_intros]:
  "adds tools_run P (dashboard_markup U st)" "adds connects Q (dashboard_markup U st)"
  "adds tools_run P (mappings_markup U st)" "adds connects Q (mappings_markup U st)"
  "adds tools_run P (reconcile_markup report ruleset)" "adds connects Q (reconcile_markup report ruleset)"
  "adds tools_run P (topology_markup U st)" "adds connects Q (topology_markup U st)"
  "adds tools_run P (oracle_markup U st result)" "adds connects Q (oracle_markup U st result)"
  "adds tools_run P (tools_markup U st tool active)" "adds connects Q (tools_markup U st tool active)"
  "adds tools_run P (netbird_markup U st)" "adds connects Q (netbird_markup U st)"
  "adds tools_run P (events_markup U st)" "adds connects Q (events_markup U st)"
  unfolding markups by (intro adds_intros)+

lemma tools_send_nothing [adds_intros]:
  "adds sent P (tool_command U prog args)" "adds sent P (tcp_try U ip port)"
  by (auto simp: adds_def tool_command_def tcp_try_def)

lemma tool_histories:
  "P (prog, args) \<Longrightarrow> adds tools_run P (tool_command U prog args)" "adds connects Q (tool_command U prog args)"
  "adds tools_run P (tcp_try U ip port)" "Q (ip, port) \<Longrightarrow> adds connects Q (tcp_try U ip port)"
  by (auto simp: adds_def tool_command_def tcp_try_def)

fun request_ids :: "ui_request \<Rightarrow> string list" where
  "request_ids (UiEnableMapping i) = [i]"
| "request_ids (UiDisableMapping i) = [i]"
| "request_ids (UiDeleteMapping i) = [i]"
| "request_ids _ = []"

lemmas actions = ui_create_mapping_def ui_enable_mapping_def ui_disable_mapping_def ui_delete_mapping_def
  ui_run_reconcile_def ui_dry_run_ruleset_def ui_oracle_allocate_def ui_oracle_release_def
  ui_oracle_vnic_check_def ui_oracle_public_ips_def ui_oracle_nsg_add_def ui_oracle_nsg_remove_def
  ui_tools_dry_run_def ui_tools_reconcile_check_def ui_ping_def ui_port_test_def ui_tcpdump_def

lemma ui_page_calls_agent:
  assumes doc: "header_doc U" and ids: "list_all path_segment (request_ids rq)"
  shows "adds sent (agent_call U st) (ui_page U st rq)"
  using ids
  by (cases rq)
    (auto simp only: ui_page.simps actions request_ids.simps list.pred_inject simp_thms
       intro!: adds_intros agent_calls_add doc static_routes segment_routes query_routes markups_call_agent)

section \<open>Tools\<close>

text \<open>An argument a program would take for an option.\<close>

definition option_like :: "string \<Rightarrow> bool" where
  "option_like a \<longleftrightarrow> take 1 a = ''-''"

lemma dash_no_octet: "read_octet (CHR ''-'' # s) = None"
  by (simp add: read_octet_def parse_octet_def digit_val_def)

lemma dash_no_group: "read_hex_group (CHR ''-'' # s) = None"
  by (simp add: read_hex_group_def hex_val_def)

lemma dash_no_ipv6: "parse_ipv6 (CHR ''-'' # s) = None"
proof -
  have "read_groups (Suc k) 0 (CHR ''-'' # s) = ([], False, CHR ''-'' # s)" for k
    by (simp add: after_colon_def read_ipv4_def dash_no_octet dash_no_group)
  from this [of 7] show ?thesis by (simp add: parse_ipv6_def strip_prefix_def)
qed

lemma dash_no_ipv4: "parse_ipv4 (CHR ''-'' # s) = None"
proof (cases "parse_ipv4 (CHR ''-'' # s)")
  case (Some ip)
  then have "CHR ''-'' # s = ip_to_string ip" by (rule parse_ipv4_canonical)
  then obtain r where "show_octet (oct_a ip) = CHR ''-'' # r"
    by (cases "show_octet (oct_a ip)") (auto simp: ip_to_string_def)
  with parse_octet_show [of "oct_a ip"] show ?thesis by (simp add: parse_octet_def digit_val_def split: if_splits)
qed simp

lemma address_not_option: "parse_ip_addr t = Some a \<Longrightarrow> \<not> option_like t"
  by (cases t) (auto simp: option_like_def parse_ip_addr_def dash_no_ipv4 dash_no_ipv6)

lemma filter_parts:
  "clean_tcpdump_filter v = Inr parts \<Longrightarrow> p \<in> set parts \<Longrightarrow>
     \<not> option_like p \<and> CHR '';'' \<notin> set p \<and> CHR ''|'' \<notin> set p \<and> CHR ''&'' \<notin> set p"
  by (auto simp: clean_tcpdump_filter_def Let_def list_ex_iff unsafe_part_def option_like_def
      split: option.splits if_splits)

lemma clean_interface_ok:
  "clean_interface v = Inr i \<Longrightarrow> i \<noteq> [] \<and> length i \<le> 32 \<and> list_all interface_char i"
  by (auto simp: clean_interface_def Let_def split: if_splits)

lemma clamp_packets_range: "1 \<le> unat (clamp_packets v)" "unat (clamp_packets v) \<le> 200"
  by (auto simp: clamp_packets_def Let_def word_less_nat_alt split: option.splits)

text \<open>How a command reads its arguments, after \<open>getopt(3)\<close>: an argument that starts with a dash is an option
  wherever it stands, the options that take a value take the argument that follows, whatever it is, \<open>--\<close> ends the
  options, and what is left are the operands.\<close>

fun read_options :: "(string \<Rightarrow> bool) \<Rightarrow> string list \<Rightarrow> (string \<times> string option) list \<times> string list" where
  "read_options valued [] = ([], [])"
| "read_options valued [a] =
     (if a = ''--'' then ([], []) else if option_like a then ([(a, None)], []) else ([], [a]))"
| "read_options valued (a # v # as) =
     (if a = ''--'' then ([], v # as)
      else if option_like a \<and> valued a then apfst (Cons (a, Some v)) (read_options valued as)
      else if option_like a then apfst (Cons (a, None)) (read_options valued (v # as))
      else apsnd (Cons a) (read_options valued (v # as)))"

definition takes_value :: "string \<Rightarrow> bool" where
  "takes_value a \<longleftrightarrow> a \<in> {''-c'', ''-W'', ''-i''}"

lemma read_operands: "\<forall>p\<in>set ws. \<not> option_like p \<Longrightarrow> read_options valued ws = ([], ws)"
  by (induction valued ws rule: read_options.induct) (auto simp: option_like_def)

text \<open>The commands the tools may run. The options a command reads are the program's own; a value of the form is the
  value of one of them or an operand.\<close>

definition safe_tool :: "string \<times> string list \<Rightarrow> bool" where
  "safe_tool cmd \<longleftrightarrow>
     (\<exists>target. fst cmd = ''ping'' \<and> parse_ip_addr target \<noteq> None \<and>
        read_options takes_value (snd cmd) = ([(''-c'', Some ''3''), (''-W'', Some ''2'')], [target])) \<or>
     (\<exists>interface n flt. fst cmd = ''tcpdump'' \<and>
        read_options takes_value (snd cmd) =
          ([(''-i'', Some interface), (''-nn'', None), (''-tttt'', None), (''-vv'', None), (''-c'', Some (show_nat n))], flt) \<and>
        interface \<noteq> [] \<and> length interface \<le> 32 \<and> list_all interface_char interface \<and> 1 \<le> n \<and> n \<le> 200 \<and>
        (\<forall>p\<in>set flt. CHR '';'' \<notin> set p \<and> CHR ''|'' \<notin> set p \<and> CHR ''&'' \<notin> set p))"

lemma tool_options:
  "\<not> option_like t \<Longrightarrow> read_options takes_value [''-c'', ''3'', ''-W'', ''2'', t] = ([(''-c'', Some ''3''), (''-W'', Some ''2'')], [t])"
  "\<forall>p\<in>set flt. \<not> option_like p \<Longrightarrow>
     read_options takes_value ([''-i'', i, ''-nn'', ''-tttt'', ''-vv'', ''-c'', n] @ flt) =
       ([(''-i'', Some i), (''-nn'', None), (''-tttt'', None), (''-vv'', None), (''-c'', Some n)], flt)"
  using read_operands [of flt takes_value]
  by (auto simp: takes_value_def option_like_def)

lemma ui_page_tools: "adds tools_run safe_tool (ui_page U st rq)"
proof (cases rq)
  case (UiPing target)
  have "safe_tool (''ping'', [''-c'', ''3'', ''-W'', ''2'', trim target])" if "parse_ip_addr (trim target) \<noteq> None"
    using that address_not_option [of "trim target"] tool_options(1) [of "trim target"]
    unfolding safe_tool_def by (auto simp del: read_options.simps)
  then show ?thesis
    unfolding UiPing ui_page.simps ui_ping_def Let_def
    by (intro adds_lift_bind adds_intros tool_histories) (auto split: option.splits)
next
  case (UiTcpdump form)
  have "safe_tool (''tcpdump'', [''-i'', i, ''-nn'', ''-tttt'', ''-vv'', ''-c'', show_u16 (clamp_packets (td_packets form))] @ flt)"
    if "clean_interface (td_interface form) = Inr i" "clean_tcpdump_filter (td_filter form) = Inr flt" for i flt
    using clean_interface_ok [OF that(1)] filter_parts [OF that(2)] clamp_packets_range [of "td_packets form"]
      tool_options(2) [of flt i "show_u16 (clamp_packets (td_packets form))"]
    unfolding safe_tool_def show_u16_def by (intro disjI2 exI conjI) auto
  then show ?thesis
    unfolding UiTcpdump ui_page.simps ui_tcpdump_def Let_def
    by (intro adds_lift_bind adds_bind tool_histories adds_intros)
qed (simp only: ui_page.simps actions, intro adds_intros tool_histories)+

lemma ui_page_connects: "adds connects (\<lambda>(ip, port). port \<noteq> 0) (ui_page U st rq)"
  by (cases rq; simp only: ui_page.simps actions; intro adds_intros tool_histories; simp)

end
