(* ===== verification/Mock.thy ===== *)
theory Mock
  imports Ui_Calls
begin

text \<open>
  \<open>src/crates/edge-gateway/src/mock.rs\<close>: the answers of the gateway when it is built with the \<open>mock\<close> feature and has no
  upstream token, from a store in memory. \<open>serde_json\<close>, the clock and the UUID generator are parameters in \<open>mock_ops\<close>;
  serialising a value (\<open>to_value\<close>, then \<open>to_vec\<close>) is one step. A reply is a status, headers and a body. The lock
  around the store can only be poisoned by a panic, which no handler has.
\<close>

section \<open>State\<close>

datatype mock_value =
    MvJson json
  | MvMapping mapping
  | MvMappings "mapping list"
  | MvEvents "event list"
  | MvNetbird netbird_status

record mock_ops =
  mk_clock :: "nat \<Rightarrow> timestamp"
  mk_uuid :: "nat \<Rightarrow> string"
  mk_decode :: "string \<Rightarrow> (string, create_mapping_request) result"
  mk_encode :: "mock_value \<Rightarrow> (string, string) result"

record mock_store =
  mk_tick :: nat
  mk_mappings :: "mapping list"
  mk_events :: "event list"

type_synonym mock_reply = "nat \<times> (string \<times> string) list \<times> string"
type_synonym mock_eff = "(mock_store, gateway_error, mock_reply) eff"

record mapping_seed =
  sd_id :: string
  sd_name :: string
  sd_edge_ip :: string
  sd_target_ip :: string
  sd_mode :: mapping_mode
  sd_protocol :: protocol
  sd_public_port :: "u16 option"
  sd_target_port :: "u16 option"
  sd_backend :: mapping_backend
  sd_status :: mapping_status

text \<open>\<open>parse().unwrap()\<close> on the seeds' texts; time stamps are in seconds.\<close>

definition seed_ip :: "string \<Rightarrow> ipv4_addr" where
  "seed_ip s = the (parse_ipv4 s)"

definition seed_id :: "string \<Rightarrow> mapping_id" where
  "seed_id s = the (case mapping_id_from_str s of Inr i \<Rightarrow> Some i | Inl _ \<Rightarrow> None)"

definition mock_sample_mapping :: "string \<Rightarrow> timestamp \<Rightarrow> timestamp \<Rightarrow> mapping_seed \<Rightarrow> mapping" where
  "mock_sample_mapping uuid now checked seed =
     (with_id (seed_id (sd_id seed))
       (mapping_new uuid now (sd_name seed) (Some (seed_ip ''203.0.113.10'')) (seed_ip (sd_edge_ip seed))
         (seed_ip (sd_target_ip seed))))
     \<lparr>m_mode := sd_mode seed, m_protocol := sd_protocol seed, public_port := sd_public_port seed,
      target_port := sd_target_port seed, m_backend := sd_backend seed, m_status := sd_status seed,
      health_status := Some ''sample'', last_checked_at := Some (checked - 120)\<rparr>"

definition mock_sample_event :: "timestamp \<Rightarrow> int \<Rightarrow> event_level \<Rightarrow> string \<Rightarrow> string option \<Rightarrow> event" where
  "mock_sample_event now i level message data =
     \<lparr>ev_id = i, ev_level = level, ev_message = message, ev_data = data, ev_created_at = now - i * 45\<rparr>"

definition mock_new :: "'e mock_ops_scheme \<Rightarrow> mock_store" where
  "mock_new M =
     \<lparr>mk_tick = 7,
      mk_mappings =
        [mock_sample_mapping (mk_uuid M 0) (mk_clock M 0) (mk_clock M 1)
           \<lparr>sd_id = ''map_0a1b2c3d4e5f'', sd_name = ''mysql'', sd_edge_ip = ''10.0.0.101'', sd_target_ip = ''192.168.20.42'',
            sd_mode = PortForwardSnat, sd_protocol = Tcp, sd_public_port = Some 13306, sd_target_port = Some 3306,
            sd_backend = Nft, sd_status = MActive\<rparr>,
         mock_sample_mapping (mk_uuid M 1) (mk_clock M 2) (mk_clock M 3)
           \<lparr>sd_id = ''map_112233445566'', sd_name = ''home-web'', sd_edge_ip = ''10.0.0.102'', sd_target_ip = ''192.168.20.80'',
            sd_mode = OneToOneSnat, sd_protocol = ProtoAll, sd_public_port = None, sd_target_port = None,
            sd_backend = Nft, sd_status = MDegraded\<rparr>],
      mk_events =
        [mock_sample_event (mk_clock M 4) 3 EvWarn ''mapping health degraded'' (Some ''192.168.20.80: timed out''),
         mock_sample_event (mk_clock M 5) 2 EvInfo ''reconcile applied'' (Some ''generation=617''),
         mock_sample_event (mk_clock M 6) 1 EvDebug ''agent started'' None]\<rparr>"

definition mock_netbird_status :: netbird_status where
  "mock_netbird_status =
     \<lparr>nb_peers = \<lparr>peers_total = 2, peers_connected = 1, peers_details =
        [\<lparr>peer_fqdn = Some ''netbird-routing.bird.home'', peer_netbird_ip = Some ''100.64.94.84'',
          peer_netbird_ipv6 = Some ''fd66:a144::2'', peer_status = Some ''Connected'',
          peer_connection_type = Some ''Relayed'', peer_networks = [''10.10.40.0/24'']\<rparr>,
         \<lparr>peer_fqdn = Some ''idle.bird.home'', peer_netbird_ip = Some ''100.64.34.182'',
          peer_netbird_ipv6 = Some ''fd66:a144::3'', peer_status = Some ''Idle'',
          peer_connection_type = Some ''-'', peer_networks = []\<rparr>]\<rparr>,
      cli_version = Some ''0.73.2'', daemon_version = Some ''0.73.2'', daemon_status = Some ''Connected'',
      management = \<lparr>svc_connected = True\<rparr>, signal = \<lparr>svc_connected = True\<rparr>, netbird_ip = Some ''100.64.65.67/16'',
      netbird_ipv6 = Some ''fd66:a144::1/64'', uses_kernel_interface = Some True, nb_fqdn = Some ''mainvnic.bird.home'',
      nb_networks = [], lazy_connection_enabled = True\<rparr>"

definition nft_text :: string where
  "nft_text =
     ''table ip edge_nat {'' @ nl @ ''  chain prerouting {'' @ nl @
     ''    type nat hook prerouting priority dstnat; policy accept;'' @ nl @ ''  }'' @ nl @ ''}'' @ nl"

section \<open>Replies\<close>

definition encode_json :: "'e mock_ops_scheme \<Rightarrow> mock_value \<Rightarrow> mock_eff" where
  "encode_json M v =
     eff_bind (eff_lift (map_err gateway_bad_gateway (mk_encode M v))) (\<lambda>bytes.
     eff_ret (200, [(''content-type'', ''application/json'')], bytes))"

definition plain_reply :: "nat \<Rightarrow> string \<Rightarrow> mock_eff" where
  "plain_reply status text = eff_ret (status, [], text)"

definition mapping_action :: "string \<Rightarrow> (string \<times> string option) option" where
  "mapping_action path =
     (case strip_prefix ''/v1/mappings/'' path of
        None \<Rightarrow> None
      | Some rest \<Rightarrow>
          (case split_once CHR ''/'' rest of
             Some (i, action) \<Rightarrow>
               if action = ''enable'' then Some (i, Some ''enable'')
               else if action = ''disable'' then Some (i, Some ''disable'') else None
           | None \<Rightarrow> Some (rest, None)))"

definition mock_now :: "'e mock_ops_scheme \<Rightarrow> (mock_store, gateway_error, timestamp) eff" where
  "mock_now M s = (Inr (mk_clock M (mk_tick s)), s\<lparr>mk_tick := Suc (mk_tick s)\<rparr>)"

fun position :: "('a \<Rightarrow> bool) \<Rightarrow> 'a list \<Rightarrow> nat option" where
  "position P [] = None"
| "position P (x # xs) = (if P x then Some 0 else map_option Suc (position P xs))"

definition put_mapping :: "nat \<Rightarrow> mapping \<Rightarrow> (mock_store, gateway_error, unit) eff" where
  "put_mapping i m s = (Inr (), s\<lparr>mk_mappings := (mk_mappings s)[i := m]\<rparr>)"

definition switch_mapping :: "'e mock_ops_scheme \<Rightarrow> nat \<Rightarrow> mapping \<Rightarrow> bool \<Rightarrow> mapping_status \<Rightarrow> mock_eff" where
  "switch_mapping M i m on st =
     eff_bind (mock_now M) (\<lambda>now.
     let m' = m\<lparr>enabled := on, m_status := st, updated_at := now\<rparr>
     in eff_bind (put_mapping i m') (\<lambda>_. encode_json M (MvMapping m')))"

definition handle_mapping_action :: "'e mock_ops_scheme \<Rightarrow> string \<Rightarrow> string \<Rightarrow> string option \<Rightarrow> mock_eff" where
  "handle_mapping_action M method mapping_id action s =
     (case position (\<lambda>m. id_str (m_id m) = mapping_id) (mk_mappings s) of
        None \<Rightarrow> plain_reply 404 ''mapping not found'' s
      | Some i \<Rightarrow>
          (let m = mk_mappings s ! i
           in (if method = ''GET'' \<and> action = None then encode_json M (MvMapping m)
               else if method = ''DELETE'' \<and> action = None
               then (\<lambda>s. encode_json M (MvMapping m) (s\<lparr>mk_mappings := take i (mk_mappings s) @ drop (Suc i) (mk_mappings s)\<rparr>))
               else if method = ''POST'' \<and> action = Some ''enable'' then switch_mapping M i m True MPending
               else if method = ''POST'' \<and> action = Some ''disable'' then switch_mapping M i m False MDisabled
               else plain_reply 405 ''method not allowed'') s))"

definition mock_create :: "'e mock_ops_scheme \<Rightarrow> string \<Rightarrow> mock_eff" where
  "mock_create M body =
     eff_bind (eff_lift (map_err gateway_bad_gateway (mk_decode M body))) (\<lambda>input s.
     let m = (mapping_new (mk_uuid M (mk_tick s)) (mk_clock M (mk_tick s)) (cr_name input) (cr_public_ip input)
                (cr_edge_private_ip input) (cr_target_ip input))
             \<lparr>public_port := cr_public_port input, target_port := cr_target_port input,
              m_protocol := (case cr_protocol input of None \<Rightarrow> ProtoAll | Some p \<Rightarrow> p),
              m_mode := (case cr_mode input of None \<Rightarrow> OneToOneSnat | Some x \<Rightarrow> x),
              m_backend := (case cr_backend input of None \<Rightarrow> Nft | Some b \<Rightarrow> b), m_status := MPending\<rparr>
     in encode_json M (MvMapping m) (s\<lparr>mk_tick := Suc (mk_tick s), mk_mappings := mk_mappings s @ [m]\<rparr>))"

definition count_status :: "(mapping_status \<Rightarrow> bool) \<Rightarrow> mapping list \<Rightarrow> json" where
  "count_status P ms = JNum (length (filter (\<lambda>m. P (m_status m)) ms))"

definition mock_flow :: "mapping \<Rightarrow> json" where
  "mock_flow m = JObject
     [(''id'', JStr (id_str (m_id m))), (''name'', JStr (m_name m)),
      (''public_endpoint'', JStr (endpoint (map_option ip_to_string (public_ip m)) (public_port m))),
      (''edge_private_ip'', JStr (ip_to_string (edge_private_ip m))),
      (''target_endpoint'', JStr (endpoint (Some (ip_to_string (target_ip m))) (target_port m))),
      (''protocol'', JStr (protocol_wire (m_protocol m))), (''mode'', JStr (mode_wire (m_mode m))),
      (''backend'', JStr (backend_wire (m_backend m))), (''status'', JStr (status_wire (m_status m))),
      (''enabled'', JBool (enabled m))]"

text \<open>The answers that read the store, as a table from method and path.\<close>

definition mock_answers :: "mock_store \<Rightarrow> ((string \<times> string) \<times> mock_value) list" where
  "mock_answers s =
     (let ms = mk_mappings s
      in [((''GET'', ''/v1/status''), MvJson (JObject
            [(''wan_interface'', JStr ''ens3''), (''netbird_interface'', JStr ''wt0''),
             (''target_cidrs'', JArray (map JStr [''10.10.30.0/24'', ''10.10.40.0/24'', ''10.10.50.0/24''])),
             (''mappings'', JNum (length ms)), (''enabled_mappings'', JNum (length (filter enabled ms)))])),
          ((''GET'', ''/v1/mappings''), MvMappings ms),
          ((''POST'', ''/v1/reconcile''), MvJson (JObject
            [(''generation_id'', JNum 618), (''added_addresses'', JArray [JStr ''10.0.0.101'']),
             (''removed_addresses'', JArray []), (''xdp_plan_entries'', JNum 0), (''nftables_config'', JStr nft_text)])),
          ((''GET'', ''/v1/netbird/status''), MvNetbird mock_netbird_status),
          ((''GET'', ''/v1/netbird/networks''), MvJson (JArray [JStr ''10.10.40.0/24''])),
          ((''GET'', ''/v1/events''), MvEvents (mk_events s)),
          ((''GET'', ''/v1/analytics''), MvJson (JObject
            [(''mapping_total'', JNum (length ms)), (''mapping_enabled'', JNum (length (filter enabled ms))),
             (''mapping_status'', JObject [(''active'', count_status (\<lambda>st. st = MActive) ms),
                (''degraded'', count_status (\<lambda>st. st = MDegraded) ms)]),
             (''mapping_backend'', JObject [(''nft'', JNum (length ms))]),
             (''event_level'', JObject [(''warn'', JNum 1), (''info'', JNum 1), (''debug'', JNum 1)]),
             (''problem_mappings'', count_status (\<lambda>st. st = MDegraded \<or> st = MError) ms)])),
          ((''GET'', ''/v1/topology''), MvJson (JObject
            [(''wan_interface'', JStr ''ens3''), (''netbird_interface'', JStr ''wt0''),
             (''target_cidrs'', JArray [JStr ''10.10.40.0/24'']), (''flows'', JArray (map mock_flow ms))])),
          ((''GET'', ''/v1/oci/status''), MvJson (JObject
            [(''auth_mode'', JStr ''instance_principal''), (''region'', JStr ''eu-paris-1''),
             (''compartment_id_configured'', JBool True), (''vnic_id_configured'', JBool True),
             (''subnet_id_configured'', JBool True), (''nsg_count'', JNum 1), (''api_key_env_ready'', JBool False),
             (''env'', JObject [(''tenancy_id'', JBool False), (''user_id'', JBool False), (''fingerprint'', JBool False),
                (''private_key_path'', JBool False)]),
             (''cli_available'', JBool True), (''cli_version'', JStr ''oci-cli fixture''),
             (''compartment_id'', JStr ''ocid1.compartment.oc1..fixture''), (''vnic_id'', JStr ''ocid1.vnic.oc1..fixture''),
             (''subnet_id'', JStr ''ocid1.subnet.oc1..fixture''),
             (''nsg_ids'', JArray [JStr ''ocid1.networksecuritygroup.oc1..fixture''])])),
          ((''POST'', ''/v1/oci/allocate''), MvJson (JObject
            [(''id'', JStr ''fixture''), (''name'', JStr ''fixture''), (''public_ip'', JStr ''152.0.0.10''),
             (''edge_private_ip'', JStr ''10.0.0.101''), (''oci_public_ip_ocid'', JStr ''ocid1.publicip.oc1..fixture''),
             (''oci_private_ip_ocid'', JStr ''ocid1.privateip.oc1..fixture''),
             (''note'', JStr ''mock allocate; no OCI call made'')])),
          ((''POST'', ''/v1/oci/release''), MvJson (JObject
            [(''released'', JBool True), (''note'', JStr ''mock release; no OCI call made'')])),
          ((''GET'', ''/v1/oci/vnic/check''), MvJson (JObject
            [(''id'', JStr ''ocid1.vnic.oc1..fixture''), (''display_name'', JStr ''edge''),
             (''skip_source_dest_check'', JBool True), (''ok'', JBool True)])),
          ((''GET'', ''/v1/oci/public-ips''), MvJson (JArray [JObject
            [(''id'', JStr ''ocid1.publicip.oc1..fixture''), (''ip-address'', JStr ''152.0.0.10''),
             (''private-ip-id'', JStr ''ocid1.privateip.oc1..fixture''), (''lifetime'', JStr ''RESERVED''),
             (''scope'', JStr ''REGION''), (''lifecycle-state'', JStr ''AVAILABLE''), (''display-name'', JStr ''fixture'')]])),
          ((''POST'', ''/v1/oci/nsg/add''), MvJson (JObject [(''added'', JBool True), (''nsg_id'', JStr ''fixture'')])),
          ((''POST'', ''/v1/oci/nsg/remove''), MvJson (JObject [(''removed'', JNum 1), (''nsg_id'', JStr ''fixture'')]))])"

definition mock_handle :: "'e mock_ops_scheme \<Rightarrow> string \<Rightarrow> string \<Rightarrow> string \<Rightarrow> mock_eff" where
  "mock_handle M method target body s =
     (let path = takeWhile (\<lambda>c. c \<noteq> CHR ''?'') target
      in if (method, path) = (''POST'', ''/v1/mappings'') then mock_create M body s
         else if (method, path) = (''POST'', ''/v1/apply/dry-run'') then plain_reply 200 nft_text s
         else (case map_of (mock_answers s) (method, path) of
                 Some v \<Rightarrow> encode_json M v s
               | None \<Rightarrow>
                   (case mapping_action path of
                      Some (i, action) \<Rightarrow> handle_mapping_action M method i action s
                    | None \<Rightarrow> plain_reply 404 ''mock route not found'' s)))"

section \<open>Properties\<close>

text \<open>A store as the program can have it: identifiers that are segments of a path.\<close>

lemma position_Some:
  "position P xs = Some i \<Longrightarrow> i < length xs \<and> P (xs ! i)" "(\<exists>x\<in>set xs. P x) \<Longrightarrow> \<exists>i. position P xs = Some i"
  by (induction xs arbitrary: i) (auto split: if_splits)

lemma mapping_action_ok:
  assumes "path_segment i"
  shows "mapping_action (''/v1/mappings/'' @ i) = Some (i, None)"
    "mapping_action (''/v1/mappings/'' @ i @ ''/enable'') = Some (i, Some ''enable'')"
    "mapping_action (''/v1/mappings/'' @ i @ ''/disable'') = Some (i, Some ''disable'')"
proof -
  have "takeWhile (\<lambda>x. x \<noteq> CHR ''/'') (i @ CHR ''/'' # r) = i" "dropWhile (\<lambda>x. x \<noteq> CHR ''/'') (i @ CHR ''/'' # r) = CHR ''/'' # r" for r
    using assms by (auto simp: path_segment_def takeWhile_append dropWhile_append3 intro: dropWhile_append2)
  then show "mapping_action (''/v1/mappings/'' @ i) = Some (i, None)"
    "mapping_action (''/v1/mappings/'' @ i @ ''/enable'') = Some (i, Some ''enable'')"
    "mapping_action (''/v1/mappings/'' @ i @ ''/disable'') = Some (i, Some ''disable'')"
    using assms by (simp_all add: mapping_action_def strip_prefix_def split_once_def path_segment_def)
qed

definition mock_keys :: "(string \<times> string) list" where
  "mock_keys =
     [(''GET'', ''/v1/status''), (''GET'', ''/v1/mappings''), (''POST'', ''/v1/reconcile''), (''GET'', ''/v1/netbird/status''),
      (''GET'', ''/v1/netbird/networks''), (''GET'', ''/v1/events''), (''GET'', ''/v1/analytics''), (''GET'', ''/v1/topology''),
      (''GET'', ''/v1/oci/status''), (''POST'', ''/v1/oci/allocate''), (''POST'', ''/v1/oci/release''),
      (''GET'', ''/v1/oci/vnic/check''), (''GET'', ''/v1/oci/public-ips''), (''POST'', ''/v1/oci/nsg/add''),
      (''POST'', ''/v1/oci/nsg/remove'')]"

lemma mock_answers_keys: "map fst (mock_answers s) = mock_keys"
  by (simp add: mock_answers_def mock_keys_def Let_def)

lemma mock_answer_iff: "map_of (mock_answers s) k = None \<longleftrightarrow> k \<notin> set mock_keys"
  by (metis map_of_eq_None_iff mock_answers_keys set_map)

definition replies :: "mock_eff \<Rightarrow> mock_store \<Rightarrow> bool" where
  "replies m s \<longleftrightarrow> (\<exists>hs b t. m s = (Inr (200, hs, b), t))"

definition encodes :: "'e mock_ops_scheme \<Rightarrow> bool" where
  "encodes M \<longleftrightarrow> (\<forall>v. \<exists>b. mk_encode M v = Inr b)"

lemma encode_replies: "encodes M \<Longrightarrow> replies (encode_json M v) s"
  by (auto simp: encodes_def replies_def encode_json_def eff_bind_def dest: spec [of _ v])

lemma mock_handle_static:
  assumes "(m, p) \<in> set mock_keys" "CHR ''?'' \<notin> set p"
  obtains v where "mock_handle M m p body s = encode_json M v s"
proof -
  from assms(1) obtain v where v: "map_of (mock_answers s) (m, p) = Some v" using mock_answer_iff [of s "(m, p)"] by blast
  have "(m, p) \<noteq> (''POST'', ''/v1/mappings'')" "(m, p) \<noteq> (''POST'', ''/v1/apply/dry-run'')"
    using assms(1) by (auto simp: mock_keys_def)
  then show thesis using v by (intro that [of v]) (auto simp: mock_handle_def Let_def takeWhile_none [OF assms(2)])
qed

lemma mock_handle_action:
  assumes "(m, p) \<notin> set mock_keys" "m \<noteq> ''POST'' \<or> p \<noteq> ''/v1/mappings'' \<and> p \<noteq> ''/v1/apply/dry-run''"
    "CHR ''?'' \<notin> set p" "mapping_action p = Some (i, a)"
  shows "mock_handle M m p body s = handle_mapping_action M m i a s"
  using assms mock_answer_iff [of s "(m, p)"] by (auto simp: mock_handle_def Let_def takeWhile_none [OF assms(3)])

text \<open>A path of the agent's interface with an identifier in the place of the parameter.\<close>

definition route_path :: "string \<Rightarrow> string \<Rightarrow> string" where
  "route_path i pat = intercalate ''/'' (map (\<lambda>seg. if take 1 seg = ''{'' then i else seg) (split_on CHR ''/'' pat))"

lemma split_on_set: "seg \<in> set (split_on c s) \<Longrightarrow> set seg \<subseteq> set s"
proof (induction s arbitrary: seg)
  case (Cons x s)
  then show ?case by (cases "split_on c s") (fastforce split: if_splits)+
qed simp

lemma route_path_static:
  assumes "CHR ''{'' \<notin> set pat"
  shows "route_path i pat = pat"
proof -
  have "take 1 seg \<noteq> ''{''" if "seg \<in> set (split_on CHR ''/'' pat)" for seg
    using split_on_set [OF that] assms by (cases seg) auto
  then have "map (\<lambda>seg. if take 1 seg = ''{'' then i else seg) (split_on CHR ''/'' pat) = split_on CHR ''/'' pat"
    by (intro map_idI) simp
  then show ?thesis by (simp only: route_path_def intercalate_split_on)
qed

lemma static_replies:
  assumes "encodes M" "list_all (\<lambda>(m, p). (m, p) \<in> set mock_keys \<and> CHR ''?'' \<notin> set p) rs"
  shows "list_all (\<lambda>(m, p). replies (mock_handle M m p body) s) rs"
proof -
  have "replies (mock_handle M m p body) s" if "(m, p) \<in> set mock_keys" "CHR ''?'' \<notin> set p" for m p
  proof -
    note key = that
    obtain v where "mock_handle M m p body s = encode_json M v s" by (rule mock_handle_static [OF key])
    with encode_replies [OF assms(1), of v s] show ?thesis by (simp add: replies_def)
  qed
  then show ?thesis using assms(2) by (auto simp: list_all_iff)
qed

lemma action_replies:
  assumes "encodes M" "path_segment i" "i \<in> (\<lambda>m. id_str (m_id m)) ` set (mk_mappings s)"
  shows "replies (mock_handle M ''GET'' (''/v1/mappings/'' @ i) body) s" "replies (mock_handle M ''DELETE'' (''/v1/mappings/'' @ i) body) s"
    "replies (mock_handle M ''POST'' (''/v1/mappings/'' @ i @ ''/enable'') body) s"
    "replies (mock_handle M ''POST'' (''/v1/mappings/'' @ i @ ''/disable'') body) s"
proof -
  obtain k where k: "position (\<lambda>m. id_str (m_id m) = i) (mk_mappings s) = Some k"
    using position_Some(2) [of "mk_mappings s" "\<lambda>m. id_str (m_id m) = i"] assms(3) by auto
  have q: "CHR ''?'' \<notin> set i" "i \<noteq> []" using assms(2) by (simp_all add: path_segment_def)
  have enc: "\<exists>b. mk_encode M v = Inr b" for v using assms(1) by (simp add: encodes_def)
  have "replies (handle_mapping_action M m i a) s" if "(m, a) \<in> {(''GET'', None), (''DELETE'', None), (''POST'', Some ''enable''), (''POST'', Some ''disable'')}" for m a
    using that k encode_replies [OF assms(1)]
    by (auto simp: handle_mapping_action_def replies_def switch_mapping_def mock_now_def put_mapping_def eff_bind_def Let_def)
  moreover have "mock_handle M ''GET'' (''/v1/mappings/'' @ i) body s = handle_mapping_action M ''GET'' i None s"
    "mock_handle M ''DELETE'' (''/v1/mappings/'' @ i) body s = handle_mapping_action M ''DELETE'' i None s"
    "mock_handle M ''POST'' (''/v1/mappings/'' @ i @ ''/enable'') body s = handle_mapping_action M ''POST'' i (Some ''enable'') s"
    "mock_handle M ''POST'' (''/v1/mappings/'' @ i @ ''/disable'') body s = handle_mapping_action M ''POST'' i (Some ''disable'') s"
    by (rule mock_handle_action; use q mapping_action_ok [OF assms(2)] in \<open>simp add: mock_keys_def\<close>)+
  ultimately show "replies (mock_handle M ''GET'' (''/v1/mappings/'' @ i) body) s" "replies (mock_handle M ''DELETE'' (''/v1/mappings/'' @ i) body) s"
    "replies (mock_handle M ''POST'' (''/v1/mappings/'' @ i @ ''/enable'') body) s"
    "replies (mock_handle M ''POST'' (''/v1/mappings/'' @ i @ ''/disable'') body) s"
    by (simp_all add: replies_def)
qed

lemma switch_handled:
  assumes "path_segment i"
  shows "mock_handle M ''POST'' (''/v1/mappings/'' @ i @ ''/enable'') body s = handle_mapping_action M ''POST'' i (Some ''enable'') s"
    "mock_handle M ''POST'' (''/v1/mappings/'' @ i @ ''/disable'') body s = handle_mapping_action M ''POST'' i (Some ''disable'') s"
  by (rule mock_handle_action;
      use mapping_action_ok [OF assms] assms in \<open>simp add: mock_keys_def path_segment_def\<close>)+

definition flow_json :: "topology_flow \<Rightarrow> json" where
  "flow_json f = JObject
     [(''id'', JStr (tf_id f)), (''name'', JStr (tf_name f)), (''public_endpoint'', JStr (tf_public_endpoint f)),
      (''edge_private_ip'', JStr (tf_edge_private_ip f)), (''target_endpoint'', JStr (tf_target_endpoint f)),
      (''protocol'', JStr (tf_protocol f)), (''mode'', JStr (tf_mode f)), (''backend'', JStr (tf_backend f)),
      (''status'', JStr (tf_status f)), (''enabled'', JBool (tf_enabled f))]"

lemma create_replies:
  assumes "encodes M" "mk_decode M body = Inr input"
  shows "replies (mock_handle M ''POST'' ''/v1/mappings'' body) s"
  using encode_replies [OF assms(1)] assms(2)
  by (simp add: mock_handle_def mock_create_def replies_def eff_bind_def Let_def)

definition sample_mock :: mock_ops where
  "sample_mock =
     \<lparr>mk_clock = (\<lambda>n. 10000 + int n), mk_uuid = sample_uuid,
      mk_decode = (\<lambda>_. Inr \<lparr>cr_name = ''web'', cr_public_ip = None, cr_edge_private_ip = Ipv4Addr 10 0 0 103,
        cr_target_ip = Ipv4Addr 192 168 20 81, cr_public_port = None, cr_target_port = None, cr_mode = None,
        cr_protocol = None, cr_backend = None\<rparr>),
      mk_encode = (\<lambda>_. Inr ''{}'')\<rparr>"

lemma mock_new_ids: "map (\<lambda>m. id_str (m_id m)) (mk_mappings (mock_new M)) = [''map_0a1b2c3d4e5f'', ''map_112233445566'']"
proof -
  have "trim ''map_0a1b2c3d4e5f'' = ''map_0a1b2c3d4e5f''" "trim ''map_112233445566'' = ''map_112233445566''"
    by (rule trim_graphic; simp add: ascii_graphic_def)+
  then show ?thesis
    by (simp add: mock_new_def mock_sample_mapping_def with_id_def seed_id_def mapping_id_from_str_def Let_def)
qed

text \<open>The mock answers for the whole interface of the agent: on every route of the agent's router, with the
  identifier of a mapping it holds in place of a parameter and a body that decodes, the reply has status 200.\<close>

theorem mock_serves_agent_routes:
  assumes "encodes M" "mk_decode M body = Inr input"
    and "path_segment i" "i \<in> (\<lambda>m. id_str (m_id m)) ` set (mk_mappings s)"
  shows "list_all (\<lambda>(m, pat). \<exists>hs b t. mock_handle M m (route_path i pat) body s = (Inr (200, hs, b), t)) agent_routes"
proof -
  have "list_all (\<lambda>(m, p). replies (mock_handle M m p body) s) mock_keys"
    by (rule static_replies [OF assms(1)]) (simp add: mock_keys_def)
  moreover have "replies (mock_handle M ''POST'' ''/v1/apply/dry-run'' body) s"
    by (simp add: replies_def mock_handle_def plain_reply_def)
  moreover have "route_path i ''/v1/mappings/{id}'' = ''/v1/mappings/'' @ i" "route_path i ''/v1/mappings/{id}/enable'' = ''/v1/mappings/'' @ i @ ''/enable''"
    "route_path i ''/v1/mappings/{id}/disable'' = ''/v1/mappings/'' @ i @ ''/disable''"
    by (simp_all add: route_path_def)
  ultimately have "list_all (\<lambda>(m, pat). replies (mock_handle M m (route_path i pat) body) s) agent_routes"
    using create_replies [OF assms(1,2), of s] action_replies [OF assms(1,3,4), of body]
    by (simp add: agent_routes_def mock_keys_def route_path_static)
  then show ?thesis by (simp add: replies_def)
qed

theorem mock_serves_agent_routes_witness:
  "list_all (\<lambda>(m, pat). \<exists>hs b t. mock_handle sample_mock m (route_path ''map_0a1b2c3d4e5f'' pat) [] (mock_new sample_mock) =
     (Inr (200, hs, b), t)) agent_routes"
proof (rule mock_serves_agent_routes)
  show "encodes sample_mock" by (simp add: encodes_def sample_mock_def)
  show "mk_decode sample_mock [] = Inr \<lparr>cr_name = ''web'', cr_public_ip = None, cr_edge_private_ip = Ipv4Addr 10 0 0 103,
        cr_target_ip = Ipv4Addr 192 168 20 81, cr_public_port = None, cr_target_port = None, cr_mode = None,
        cr_protocol = None, cr_backend = None\<rparr>" by (simp add: sample_mock_def)
  show "path_segment ''map_0a1b2c3d4e5f''" by (simp add: path_segment_def)
  have "''map_0a1b2c3d4e5f'' \<in> set (map (\<lambda>m. id_str (m_id m)) (mk_mappings (mock_new sample_mock)))" by (simp only: mock_new_ids) simp
  then show "''map_0a1b2c3d4e5f'' \<in> (\<lambda>m. id_str (m_id m)) ` set (mk_mappings (mock_new sample_mock))" by (simp only: set_map)
qed

text \<open>Enabling and disabling in the mock is \<open>Mapping::set_enabled\<close> of \<open>edge-core\<close> on the one mapping found, and its topology
  has the flows the agent would send for the same mappings.\<close>

theorem mock_agrees_with_core:
  assumes "position (\<lambda>m. id_str (m_id m) = i) (mk_mappings s) = Some k" "path_segment i"
  shows "mk_mappings (snd (mock_handle M ''POST'' (''/v1/mappings/'' @ i @ ''/enable'') body s)) =
      (mk_mappings s)[k := mapping_set_enabled (mk_clock M (mk_tick s)) True (mk_mappings s ! k)] \<and>
    mk_mappings (snd (mock_handle M ''POST'' (''/v1/mappings/'' @ i @ ''/disable'') body s)) =
      (mk_mappings s)[k := mapping_set_enabled (mk_clock M (mk_tick s)) False (mk_mappings s ! k)] \<and>
    map mock_flow (mk_mappings s) = map (\<lambda>m. flow_json (topology_flow_of m)) (mk_mappings s)"
proof -
  have "mk_mappings (snd (encode_json M v u)) = mk_mappings u" for v u
    by (cases "mk_encode M v") (simp_all add: encode_json_def eff_bind_def)
  then show ?thesis
    using assms(1) switch_handled [OF assms(2), of M body s]
    by (simp add: handle_mapping_action_def switch_mapping_def mock_now_def put_mapping_def eff_bind_def Let_def
        mapping_set_enabled_def mock_flow_def flow_json_def topology_flow_of_def)
qed

theorem mock_agrees_with_core_witness:
  "mk_mappings (snd (mock_handle sample_mock ''POST'' (''/v1/mappings/'' @ ''map_0a1b2c3d4e5f'' @ ''/disable'') [] (mock_new sample_mock))) =
     (mk_mappings (mock_new sample_mock))[0 := mapping_set_enabled 10007 False (mk_mappings (mock_new sample_mock) ! 0)]"
proof -
  have "position (\<lambda>m. id_str (m_id m) = ''map_0a1b2c3d4e5f'') (mk_mappings (mock_new sample_mock)) = Some 0"
    using mock_new_ids [of sample_mock] by (cases "mk_mappings (mock_new sample_mock)") auto
  moreover have "path_segment ''map_0a1b2c3d4e5f''" by (simp add: path_segment_def)
  ultimately show ?thesis
    using mock_agrees_with_core [of "''map_0a1b2c3d4e5f''" "mock_new sample_mock" 0 sample_mock "[]"]
    by (simp add: sample_mock_def mock_new_def)
qed

end
