(* ===== verification/Agent_Http.thy ===== *)
theory Agent_Http
  imports Ui_Calls Agent_Props
begin

text \<open>
  The agent behind the gateway. \<open>agent_router\<close> is the routing table of \<open>router\<close> in
  \<open>src/crates/edge-agent/src/api.rs\<close> with the handler and the extractors of each route, and \<open>route_request\<close> what becomes
  of a request: a route and its arguments, or the refusal of the router or of an extractor, none of which reaches
  a handler.

  Extractors are axum's and serde's: percent-decoding of a path segment, JSON bodies and query strings are
  parameters, each with the status of its rejection. What the composition with the gateway relies on is in
  \<open>extract_doc\<close> and \<open>uri_doc\<close>.
\<close>

section \<open>The router\<close>

record 'm extractors =
  path_param :: "string \<Rightarrow> (nat, string) result"
  json_create :: "'m \<Rightarrow> string \<Rightarrow> (nat, create_mapping_request) result"
  json_reconcile :: "'m \<Rightarrow> string \<Rightarrow> (nat, reconcile_request) result"
  json_allocate :: "'m \<Rightarrow> string \<Rightarrow> (nat, oci_allocate_request) result"
  json_release :: "'m \<Rightarrow> string \<Rightarrow> (nat, oci_release_request) result"
  json_nsg_add :: "'m \<Rightarrow> string \<Rightarrow> (nat, oci_nsg_add_request) result"
  json_nsg_remove :: "'m \<Rightarrow> string \<Rightarrow> (nat, oci_nsg_remove_request) result"
  query_vnic :: "string \<Rightarrow> (nat, string option) result"
  query_compartment :: "string \<Rightarrow> (nat, string option) result"

datatype dispatched =
    NoRoute
  | WrongMethod
  | Refused nat
  | Routed api_request

definition res_map :: "('a \<Rightarrow> 'b) \<Rightarrow> ('e, 'a) result \<Rightarrow> ('e, 'b) result" where
  "res_map f r = res_bind r (\<lambda>x. Inr (f x))"

definition agent_router :: "'m extractors \<Rightarrow> 'm \<Rightarrow> string \<Rightarrow> string \<Rightarrow>
    (string \<times> string \<times> (string \<Rightarrow> (nat, api_request) result)) list" where
  "agent_router X hs qs body =
     [(''GET'', ''/v1/status'', \<lambda>_. Inr GetStatus),
      (''GET'', ''/v1/mappings'', \<lambda>_. Inr ListMappings),
      (''POST'', ''/v1/mappings'', \<lambda>_. res_map CreateMapping (json_create X hs body)),
      (''GET'', ''/v1/mappings/{id}'', \<lambda>i. res_map GetMapping (path_param X i)),
      (''DELETE'', ''/v1/mappings/{id}'', \<lambda>i. res_map DeleteMapping (path_param X i)),
      (''POST'', ''/v1/mappings/{id}/enable'', \<lambda>i. res_map EnableMapping (path_param X i)),
      (''POST'', ''/v1/mappings/{id}/disable'', \<lambda>i. res_map DisableMapping (path_param X i)),
      (''POST'', ''/v1/apply/dry-run'', \<lambda>_. Inr DryRunApply),
      (''POST'', ''/v1/reconcile'', \<lambda>_. res_map DoReconcile (json_reconcile X hs body)),
      (''GET'', ''/v1/netbird/status'', \<lambda>_. Inr GetNetbirdStatus),
      (''GET'', ''/v1/netbird/networks'', \<lambda>_. Inr GetNetbirdNetworks),
      (''GET'', ''/v1/events'', \<lambda>_. Inr GetEvents),
      (''GET'', ''/v1/analytics'', \<lambda>_. Inr GetAnalytics),
      (''GET'', ''/v1/topology'', \<lambda>_. Inr GetTopology),
      (''GET'', ''/v1/oci/status'', \<lambda>_. Inr GetOciStatus),
      (''POST'', ''/v1/oci/allocate'', \<lambda>_. res_map OciAllocate (json_allocate X hs body)),
      (''POST'', ''/v1/oci/release'', \<lambda>_. res_map OciRelease (json_release X hs body)),
      (''GET'', ''/v1/oci/vnic/check'', \<lambda>_. res_map OciVnicCheck (query_vnic X qs)),
      (''GET'', ''/v1/oci/public-ips'', \<lambda>_. res_map OciPublicIps (query_compartment X qs)),
      (''POST'', ''/v1/oci/nsg/add'', \<lambda>_. res_map OciNsgAdd (json_nsg_add X hs body)),
      (''POST'', ''/v1/oci/nsg/remove'', \<lambda>_. res_map OciNsgRemove (json_nsg_remove X hs body))]"

text \<open>The segment a parameter of the pattern takes. \<open>get\<close> also serves \<open>HEAD\<close>.\<close>

definition captured :: "string \<Rightarrow> string \<Rightarrow> string" where
  "captured pat path =
     (case find (\<lambda>(p, _). take 1 p = ''{'') (zip (split_on CHR ''/'' pat) (split_on CHR ''/'' path)) of
        None \<Rightarrow> []
      | Some (_, seg) \<Rightarrow> seg)"

definition as_get :: "string \<Rightarrow> string" where
  "as_get method = (if method = ''HEAD'' then ''GET'' else method)"

definition target_path :: "string \<Rightarrow> string" where
  "target_path target = takeWhile (\<lambda>c. c \<noteq> CHR ''?'') target"

definition target_query :: "string \<Rightarrow> string" where
  "target_query target = drop 1 (dropWhile (\<lambda>c. c \<noteq> CHR ''?'') target)"

definition route_request :: "'m extractors \<Rightarrow> string \<Rightarrow> string \<Rightarrow> 'm \<Rightarrow> string \<Rightarrow> dispatched" where
  "route_request X method target hs body =
     (let path = target_path target;
          here = filter (\<lambda>(_, pat, _). path_matches pat path) (agent_router X hs (target_query target) body)
      in if here = [] then NoRoute
         else case find (\<lambda>(m, _). m = as_get method) here of
           None \<Rightarrow> WrongMethod
         | Some (_, pat, extract) \<Rightarrow>
             (case extract (captured pat path) of Inl status \<Rightarrow> Refused status | Inr rq \<Rightarrow> Routed rq))"

text \<open>The target of a request on the wire, where \<open>tgt\<close> gives the path and query of a \<open>Uri\<close>.\<close>

definition dispatch :: "'m extractors \<Rightarrow> (string \<Rightarrow> string) \<Rightarrow> 'm http_request \<Rightarrow> dispatched" where
  "dispatch X tgt q =
     route_request X (hr_method q) (case hr_path_and_query q of None \<Rightarrow> ''/'' | Some u \<Rightarrow> tgt u) (hr_headers q) (hr_body q)"

text \<open>Requests the agent receives one after the other, and the state they leave. A refusal of the router or of an
  extractor has no effect.\<close>

fun agent_receives :: "('h, 'e) oci_env_scheme \<Rightarrow> ('m, 'x) header_ops_scheme \<Rightarrow> 'm extractors \<Rightarrow> (string \<Rightarrow> string) \<Rightarrow>
    edge_config \<Rightarrow> 'm http_request list \<Rightarrow> ('h, 'w) world_scheme \<Rightarrow> ('h, 'w) world_scheme" where
  "agent_receives E H X tgt cfg [] s = s"
| "agent_receives E H X tgt cfg (q # qs) s =
     agent_receives E H X tgt cfg qs
       (case dispatch X tgt q of
          Routed rq \<Rightarrow> snd (handle E H cfg (hr_headers q) rq s)
        | _ \<Rightarrow> s)"

section \<open>The table\<close>

lemma router_table: "map (\<lambda>(m, pat, _). (m, pat)) (agent_router X hs qs body) = agent_routes"
  by (simp add: agent_router_def agent_routes_def)

lemma served_by_router:
  "served_by agent_routes m target \<longleftrightarrow>
     (\<exists>x\<in>set (agent_router X hs qs body). fst x = m \<and> path_matches (fst (snd x)) (target_path target))"
  unfolding router_table [of X hs qs body, symmetric] served_by_def target_path_def
  by (simp add: list_ex_iff case_prod_beta)

text \<open>The dispatch and the table of routes say the same.\<close>

lemma routed_iff_served:
  "route_request X method target hs body \<notin> {NoRoute, WrongMethod} \<longleftrightarrow> served_by agent_routes (as_get method) target"
proof -
  let ?here = "filter (\<lambda>(_, pat, _). path_matches pat (target_path target)) (agent_router X hs (target_query target) body)"
  have "served_by agent_routes (as_get method) target \<longleftrightarrow> (\<exists>x\<in>set ?here. fst x = as_get method)"
    unfolding served_by_router [of _ _ X hs "target_query target" body] by force
  also have "\<dots> \<longleftrightarrow> find (\<lambda>(m, _). m = as_get method) ?here \<noteq> None"
    by (force simp: find_None_iff)
  finally show ?thesis
    by (auto simp: route_request_def Let_def split: option.splits sum.splits)
qed

text \<open>No path matches two patterns of one method, so a route that matches is the one taken.\<close>

definition may_overlap :: "string \<Rightarrow> string \<Rightarrow> bool" where
  "may_overlap p q \<longleftrightarrow>
     list_all2 (\<lambda>a b. take 1 a = ''{'' \<or> take 1 b = ''{'' \<or> a = b) (split_on CHR ''/'' p) (split_on CHR ''/'' q)"

lemma patterns_apart:
  "list_all (\<lambda>(m, p). list_all (\<lambda>(m', p'). m = m' \<and> may_overlap p p' \<longrightarrow> p = p') agent_routes) agent_routes"
  by code_simp

lemma matches_overlap: "path_matches p x \<Longrightarrow> path_matches q x \<Longrightarrow> may_overlap p q"
  unfolding path_matches_def may_overlap_def segment_matches_def list_all2_conv_all_nth by metis

lemma routes_distinct: "distinct agent_routes"
  by code_simp

lemma router_unique:
  assumes "(m, p, f) \<in> set (agent_router X hs qs b)" "(m, p', f') \<in> set (agent_router X hs qs b)"
    "path_matches p x" "path_matches p' x"
  shows "(p', f') = (p, f)"
proof -
  let ?key = "\<lambda>(m, pat, _). (m, pat)"
  have "(m, p) \<in> set agent_routes" "(m, p') \<in> set agent_routes"
    using assms(1,2) unfolding router_table [of X hs qs b, symmetric] by force+
  then have "p = p'" using patterns_apart matches_overlap [OF assms(3,4)] by (fastforce simp: list_all_iff)
  moreover have "inj_on ?key (set (agent_router X hs qs b))"
    using routes_distinct unfolding router_table [of X hs qs b, symmetric] by (simp add: distinct_map)
  ultimately show ?thesis using assms(1,2) inj_onD [of ?key _ "(m, p, f)" "(m, p', f')"] by auto
qed

lemma route_taken:
  assumes "(as_get m, pat, extract) \<in> set (agent_router X hs (target_query target) body)"
    and "path_matches pat (target_path target)"
  shows "route_request X m target hs body =
    (case extract (captured pat (target_path target)) of Inl status \<Rightarrow> Refused status | Inr rq \<Rightarrow> Routed rq)"
proof -
  let ?here = "filter (\<lambda>(_, pat, _). path_matches pat (target_path target)) (agent_router X hs (target_query target) body)"
  have here: "(as_get m, pat, extract) \<in> set ?here" using assms by simp
  then obtain y where y: "find (\<lambda>(m', _). m' = as_get m) ?here = Some y"
    by (cases "find (\<lambda>(m', _). m' = as_get m) ?here") (auto simp: find_None_iff)
  from find_SomeD [OF y] obtain pat' f where "y = (as_get m, pat', f)" "(as_get m, pat', f) \<in> set ?here" by (cases y) auto
  then have "y = (as_get m, pat, extract)"
    using router_unique [OF assms(1) _ assms(2), of pat' f] by simp
  moreover have "?here \<noteq> []" using here by (metis empty_iff empty_set)
  ultimately show ?thesis using y by (simp add: route_request_def Let_def)
qed

end
