(* ===== verification/Ui_Links.thy ===== *)
theory Ui_Links
  imports Ui_Calls
begin

text \<open>
  The pages against the routes: every call a page can make has a route of the gateway, every reference within a page
  has its element, and every form sends the fields its handler asks for.
\<close>

section \<open>What a page refers to\<close>

text \<open>\<open>gather f\<close> collects what \<open>f\<close> finds in the attributes of a tree.\<close>

fun gather :: "(attr \<Rightarrow> 'b list) \<Rightarrow> node \<Rightarrow> 'b list" where
  "gather f (Text t) = []"
| "gather f (Elem tag attrs ns) = concat (map f attrs) @ concat (map (gather f) ns)"

definition gathers :: "(attr \<Rightarrow> 'b list) \<Rightarrow> markup \<Rightarrow> 'b list" where
  "gathers f ns = concat (map (gather f) ns)"

fun attr_calls :: "attr \<Rightarrow> (string \<times> string) list" where
  "attr_calls (Href p) = (if take 1 p = ''#'' then [] else [(''GET'', p)])"
| "attr_calls (HxGet p) = [(''GET'', p)]"
| "attr_calls (HxPost p) = [(''POST'', p)]"
| "attr_calls (HxDelete p) = [(''DELETE'', p)]"
| "attr_calls _ = []"

fun attr_anchors :: "attr \<Rightarrow> string list" where
  "attr_anchors (Href p) = (if take 1 p = ''#'' then [tl p] else [])"
| "attr_anchors (Attr k v) = (if k = ''data-open-dialog'' \<or> k = ''data-close-dialog'' then [v] else [])"
| "attr_anchors _ = []"

text \<open>Each row of the table of mappings carries the identifier of its dialog, \<open>inspect-\<close> and the identifier of the mapping.\<close>

fun attr_rows :: "attr \<Rightarrow> string list" where
  "attr_rows (Attr k v) = (if k = ''data-dialog-id'' then [v] else [])"
| "attr_rows _ = []"

definition listed_ids :: "markup \<Rightarrow> string list" where
  "listed_ids page = map (drop (length ''inspect-'')) (gathers attr_rows page)"

fun attr_ids :: "attr \<Rightarrow> string list" where
  "attr_ids (Attr k v) = (if k = ''id'' then [v] else [])"
| "attr_ids _ = []"

fun attr_names :: "attr \<Rightarrow> string list" where
  "attr_names (Name n) = [n]"
| "attr_names _ = []"

fun post_target :: "attr \<Rightarrow> string list" where
  "post_target (HxPost p) = [p]"
| "post_target _ = []"

text \<open>The forms of a tree: the route each is posted to, and the names of its fields.\<close>

fun forms :: "node \<Rightarrow> (string \<times> string list) list" where
  "forms (Text t) = []"
| "forms (Elem tag attrs ns) =
     (if tag = ''form'' then map (\<lambda>p. (p, gathers attr_names ns)) (concat (map post_target attrs)) else []) @
     concat (map forms ns)"

definition page_forms :: "markup \<Rightarrow> (string \<times> string list) list" where
  "page_forms ns = concat (map forms ns)"

text \<open>The fields of the \<open>Deserialize\<close> structures the handlers take, and whether they have to be there.\<close>

definition form_fields :: "(string \<times> (string \<times> bool) list) list" where
  "form_fields =
     [(''/ui/mappings'', [(''name'', True), (''public_ip'', False), (''edge_private_ip'', True), (''target_ip'', True),
         (''public_port'', False), (''target_port'', False), (''mode'', True), (''protocol'', True), (''backend'', True)]),
      (''/ui/reconcile'', [(''dry_run'', False), (''skip_linux'', False), (''skip_nft'', False), (''include_config'', False),
         (''enable_xdp'', False), (''xdp_interface'', False), (''xdp_pin_path'', False)]),
      (''/ui/oracle/allocate'', [(''mapping_id'', True), (''compartment_id'', False), (''vnic_id'', False),
         (''display_name'', False), (''confirm'', True)]),
      (''/ui/oracle/release'', [(''mapping_id'', False), (''public_ip_id'', False), (''private_ip_id'', False), (''confirm'', True)]),
      (''/ui/oracle/vnic-check'', [(''vnic_id'', False)]),
      (''/ui/oracle/public-ips'', [(''compartment_id'', False)]),
      (''/ui/oracle/nsg/add'', [(''nsg_id'', False), (''protocol'', True), (''source'', True), (''port_min'', False),
         (''port_max'', False), (''description'', False), (''confirm'', True)]),
      (''/ui/oracle/nsg/remove'', [(''nsg_id'', False), (''rule_ids'', True), (''confirm'', True)]),
      (''/ui/tools/ping'', [(''target'', True)]),
      (''/ui/tools/port-test'', [(''target'', True), (''port'', True)]),
      (''/ui/tools/tcpdump'', [(''interface'', True), (''filter'', False), (''packets'', False)])]"

definition form_ok :: "string \<times> string list \<Rightarrow> bool" where
  "form_ok f \<longleftrightarrow>
     (case map_of form_fields (fst f) of
        None \<Rightarrow> False
      | Some fs \<Rightarrow> list_all (\<lambda>(n, needed). needed \<longrightarrow> n \<in> set (snd f)) fs \<and> set (snd f) \<subseteq> fst ` set fs)"

definition call_ok :: "string \<times> string \<Rightarrow> bool" where
  "call_ok c \<longleftrightarrow> served_by gateway_routes (fst c) (snd c)"

definition page_ok :: "markup \<Rightarrow> bool" where
  "page_ok page \<longleftrightarrow>
     list_all call_ok (gathers attr_calls page) \<and>
     set (gathers attr_anchors page) \<subseteq> set (gathers attr_ids page) \<and>
     list_all form_ok (page_forms page)"

section \<open>Pages\<close>

lemma call_ok_static:
  "call_ok (''GET'', ''/tools'')" "call_ok (''GET'', ''/mappings'')" "call_ok (''GET'', ''/netbird'')"
  "call_ok (''GET'', ''/reconcile'')" "call_ok (''GET'', ''/ui/dashboard'')" "call_ok (''GET'', ''/ui/mappings'')"
  "call_ok (''POST'', ''/ui/mappings'')" "call_ok (''GET'', ''/ui/reconcile'')" "call_ok (''POST'', ''/ui/reconcile'')"
  "call_ok (''POST'', ''/ui/reconcile/dry-run'')" "call_ok (''GET'', ''/ui/tools'')"
  "call_ok (''POST'', ''/ui/tools/ping'')" "call_ok (''POST'', ''/ui/tools/port-test'')"
  "call_ok (''POST'', ''/ui/tools/tcpdump'')" "call_ok (''POST'', ''/ui/tools/dry-run'')"
  "call_ok (''POST'', ''/ui/tools/reconcile-check'')" "call_ok (''GET'', ''/ui/topology'')"
  "call_ok (''GET'', ''/ui/oracle'')" "call_ok (''POST'', ''/ui/oracle/allocate'')"
  "call_ok (''POST'', ''/ui/oracle/release'')" "call_ok (''POST'', ''/ui/oracle/vnic-check'')"
  "call_ok (''POST'', ''/ui/oracle/public-ips'')" "call_ok (''POST'', ''/ui/oracle/nsg/add'')"
  "call_ok (''POST'', ''/ui/oracle/nsg/remove'')" "call_ok (''GET'', ''/ui/netbird'')" "call_ok (''GET'', ''/ui/logs'')"
  "call_ok (''GET'', ''/ui/logs/download'')"
  by code_simp+

lemmas page_simps = gathers_def page_forms_def into_view_def page_head_def summary_item_def status_pill_def empty_note_def
  text_field_def checkline_def facts_def

lemma concat_map_empty [simp]: "concat (map (\<lambda>x. []) xs) = []"
  by (induction xs) auto

lemma gathers_append [simp]: "gathers f (xs @ ys) = gathers f xs @ gathers f ys"
  by (simp add: gathers_def)
lemma gathers_Cons [simp]: "gathers f (x # xs) = gather f x @ gathers f xs" "gathers f [] = []"
  by (simp_all add: gathers_def)
lemma page_forms_append [simp]: "page_forms (xs @ ys) = page_forms xs @ page_forms ys"
  by (simp add: page_forms_def)
lemma page_forms_Cons [simp]: "page_forms (x # xs) = forms x @ page_forms xs" "page_forms [] = []"
  by (simp_all add: page_forms_def)

lemma reconcile_page_ok: "page_ok (reconcile_page report ruleset)"
  unfolding reconcile_page_def page_ok_def
  by (auto simp: page_simps call_ok_static form_ok_def form_fields_def split: option.splits)

lemma topology_page_ok: "page_ok (topology_page t)"
  unfolding topology_page_def page_ok_def binding_diagrams_def binding_card_def
  by (auto simp: page_simps call_ok_static list_all_iff)

lemma events_page_ok: "page_ok (events_page D evs)"
  unfolding events_page_def page_ok_def Let_def raw_log_markup_def
  by (auto simp: page_simps call_ok_static list_all_iff split: option.splits)


lemma bar_chart_plain [simp]: "gathers attr_calls (bar_chart vs) = []" "gathers attr_anchors (bar_chart vs) = []"
  "page_forms (bar_chart vs) = []"
  by (auto simp: bar_chart_def Let_def page_simps)

lemma events_list_plain [simp]: "gathers attr_calls (events_list D evs) = []" "gathers attr_anchors (events_list D evs) = []"
  "page_forms (events_list D evs) = []"
  by (auto simp: events_list_def event_item_def page_simps split: option.splits)

lemma dashboard_page_ok: "page_ok (dashboard_page D status ms evs netbird networks)"
  unfolding dashboard_page_def page_ok_def Let_def fact_tile_def tool_link_def peer_chart_def
  by (auto simp: into_view_def page_head_def summary_item_def status_pill_def call_ok_static list_all_iff simp flip: gathers_def page_forms_def)

lemma netbird_page_ok: "page_ok (netbird_page st networks)"
  unfolding netbird_page_def page_ok_def Let_def peer_row_def peer_chart_def
  by (auto simp: into_view_def page_head_def summary_item_def status_pill_def empty_note_def facts_def call_ok_static list_all_iff simp flip: gathers_def page_forms_def)

lemma forms_static:
  "form_ok (''/ui/tools/ping'', [''target''])" "form_ok (''/ui/tools/port-test'', [''target'', ''port''])"
  "form_ok (''/ui/tools/tcpdump'', [''interface'', ''packets'', ''filter''])"
  "form_ok (''/ui/oracle/allocate'', [''mapping_id'', ''compartment_id'', ''vnic_id'', ''display_name'', ''confirm''])"
  "form_ok (''/ui/oracle/release'', [''mapping_id'', ''confirm''])" "form_ok (''/ui/oracle/vnic-check'', [''vnic_id''])"
  "form_ok (''/ui/oracle/public-ips'', [''compartment_id''])"
  "form_ok (''/ui/oracle/nsg/add'', [''nsg_id'', ''protocol'', ''source'', ''port_min'', ''port_max'', ''description'', ''confirm''])"
  "form_ok (''/ui/oracle/nsg/remove'', [''nsg_id'', ''rule_ids'', ''confirm''])"
  by code_simp+

lemma tools_page_ok: "page_ok (tools_page status ms networks result active)"
  unfolding tools_page_def page_ok_def tab_button_def tab_panel_def
  by (cases result) (simp_all add: page_simps call_ok_static forms_static)

definition section_ok :: "node \<Rightarrow> bool" where
  "section_ok n \<longleftrightarrow> list_all call_ok (gather attr_calls n) \<and> gather attr_anchors n = [] \<and> list_all form_ok (forms n)"

lemma page_ok_sections: "list_all section_ok ns \<Longrightarrow> page_ok ns"
  by (induction ns) (auto simp: page_ok_def section_ok_def)

lemma readiness_ok: "section_ok (oracle_readiness oci)"
  by (simp add: oracle_readiness_def Let_def section_ok_def facts_def)

lemma allocation_ok: "section_ok (oracle_allocation compartment vnic ms)"
  by (simp add: oracle_allocation_def Let_def section_ok_def mapping_select_def confirm_button_def confirm_field_def
      page_simps call_ok_static forms_static comp_def)

lemma inventory_ok: "section_ok (oracle_inventory compartment vnic)"
  by (simp add: oracle_inventory_def section_ok_def page_simps call_ok_static forms_static)

lemma nsg_ok: "section_ok (oracle_nsg nsg)"
  by (simp add: oracle_nsg_def section_ok_def confirm_button_def confirm_field_def page_simps call_ok_static forms_static)

lemma oracle_page_ok: "page_ok (oracle_page oci ms result)"
  by (rule page_ok_sections)
    (simp add: oracle_page_def Let_def readiness_ok allocation_ok inventory_ok nsg_ok, 
     simp add: section_ok_def oracle_result_section_def page_head_def summary_item_def into_view_def call_ok_static split: option.split)


lemma call_ok_segments:
  assumes "path_segment i"
  shows "call_ok (''DELETE'', ''/ui/mappings/'' @ i)"
    and "call_ok (''POST'', ''/ui/mappings/'' @ i @ ''/enable'')"
    and "call_ok (''POST'', ''/ui/mappings/'' @ i @ ''/disable'')"
  unfolding call_ok_def fst_conv snd_conv
  by (rule served_by_plain [OF _ _ segment_paths(4) [OF assms]] served_by_plain [OF _ _ segment_paths(5) [OF assms]]
      served_by_plain [OF _ _ segment_paths(6) [OF assms]],
      simp add: gateway_routes_def, use assms in \<open>simp add: path_segment_def\<close>)+

lemma mapping_row_links:
  "path_segment (id_str (m_id m)) \<Longrightarrow> list_all call_ok (gather attr_calls (mapping_table_row m))"
  "set (gather attr_anchors (mapping_table_row m)) = {inspect_dialog_id m}"
  "forms (mapping_table_row m) = []"
  using call_ok_segments [of "id_str (m_id m)"]
  by (auto simp: mapping_table_row_def Let_def into_view_def status_pill_def split: option.split)

lemma inspect_dialog_links:
  "gathers attr_calls (inspect_mapping_dialog D m flow) = []"
  "set (gathers attr_anchors (inspect_mapping_dialog D m flow)) = {inspect_dialog_id m}"
  "set (gathers attr_ids (inspect_mapping_dialog D m flow)) = {inspect_dialog_id m}"
  "page_forms (inspect_mapping_dialog D m flow) = []"
  by (cases "last_error m"; cases flow;
      simp add: inspect_mapping_dialog_def Let_def status_pill_def facts_def path_node_def empty_note_def)+

lemma new_mapping_links:
  "gathers attr_calls new_mapping_dialog = [(''POST'', ''/ui/mappings'')]"
  "set (gathers attr_anchors new_mapping_dialog) = {''new-mapping-dialog''}"
  "gathers attr_ids new_mapping_dialog = [''new-mapping-dialog'']"
  "page_forms new_mapping_dialog = [(''/ui/mappings'', [''name'', ''edge_private_ip'', ''target_ip'', ''public_ip'',
     ''public_port'', ''target_port'', ''protocol'', ''mode'', ''backend''])]"
  by (simp_all add: new_mapping_dialog_def into_view_def)

lemma new_mapping_form: "form_ok (''/ui/mappings'', [''name'', ''edge_private_ip'', ''target_ip'', ''public_ip'',
     ''public_port'', ''target_port'', ''protocol'', ''mode'', ''backend''])"
  by code_simp

lemma binding_plain [simp]: "gathers attr_calls (binding_diagrams fs) = []" "gathers attr_anchors (binding_diagrams fs) = []"
  "page_forms (binding_diagrams fs) = []"
  by (auto simp: binding_diagrams_def binding_card_def page_simps)


lemma binding_nodes:
  assumes "n \<in> set (binding_diagrams fs)"
  shows "gather attr_calls n = []" "gather attr_anchors n = []" "forms n = []"
  using assms binding_plain [of fs] by (auto simp: gathers_def page_forms_def)

lemma gathers_concat: "set (gathers f (concat xss)) = (\<Union>xs\<in>set xss. set (gathers f xs))"
  by (auto simp: gathers_def)

lemma page_forms_concat: "set (page_forms (concat xss)) = (\<Union>xs\<in>set xss. set (page_forms xs))"
  by (auto simp: page_forms_def)

text \<open>The page of mappings in four parts.\<close>

definition mappings_head :: markup where
  "mappings_head = page_head ''Mappings'' ''NAT rules''
     [Elem ''button'' [cls ''primary'', Attr ''type'' ''button'', Attr ''data-open-dialog'' ''new-mapping-dialog'']
        [Text ''New Mapping''],
      Elem ''button'' [cls ''btn'', Attr ''type'' ''button'', Flag ''data-bulk-action'', Flag ''disabled'']
        [Text ''Bulk Actions''],
      Elem ''button'' [cls ''btn'', Attr ''type'' ''button'', Flag ''data-inspect-selected'', Flag ''disabled'']
        [Text ''Inspect''],
      Elem ''button'' ([cls ''btn'', HxGet ''/ui/mappings''] @ into_view) [Text ''Refresh'']]"

lemma mappings_page_parts:
  obtains rules path inspect where "mappings_page D ms topology = mappings_head @ rules @ path @ inspect @ new_mapping_dialog"
    "set (gathers attr_calls rules) = (\<Union>m\<in>set ms. set (gather attr_calls (mapping_table_row m)))"
    "set (gathers attr_anchors rules) = (\<Union>m\<in>set ms. set (gather attr_anchors (mapping_table_row m)))"
    "page_forms rules = []"
    "gathers attr_calls path = []" "gathers attr_anchors path = []" "page_forms path = []"
    "\<exists>flow. inspect = concat (map (\<lambda>m. inspect_mapping_dialog D m (flow m)) ms)"
proof -
  define flows where "flows = (case topology of None \<Rightarrow> [] | Some t \<Rightarrow> tr_flows t)"
  define inspect where "inspect = concat (map (\<lambda>m. inspect_mapping_dialog D m (find (\<lambda>f. tf_id f = id_str (m_id m)) flows)) ms)"
  show thesis
    by (rule that [where inspect = inspect, OF _ _ _ _ _ _ _ exI [where P = "\<lambda>g. inspect = concat (map (\<lambda>m. inspect_mapping_dialog D m (g m)) ms)", OF inspect_def]],
        unfold mappings_page_def Let_def flows_def [symmetric] inspect_def [symmetric] mappings_head_def [symmetric], rule refl)
      (auto simp: empty_note_def mapping_row_links dest: binding_nodes split: option.splits)
qed

lemma mappings_page_ok:
  assumes "list_all (\<lambda>m. path_segment (id_str (m_id m))) ms"
  shows "page_ok (mappings_page D ms topology)"
proof -
  obtain rules path inspect flow where page: "mappings_page D ms topology = mappings_head @ rules @ path @ inspect @ new_mapping_dialog"
    and rules: "set (gathers attr_calls rules) = (\<Union>m\<in>set ms. set (gather attr_calls (mapping_table_row m)))"
      "set (gathers attr_anchors rules) = (\<Union>m\<in>set ms. set (gather attr_anchors (mapping_table_row m)))" "page_forms rules = []"
    and path: "gathers attr_calls path = []" "gathers attr_anchors path = []" "page_forms path = []"
    and inspect: "inspect = concat (map (\<lambda>m. inspect_mapping_dialog D m (flow m)) ms)"
    by (rule mappings_page_parts) blast
  have head: "gathers attr_calls mappings_head = [(''GET'', ''/ui/mappings'')]"
    "gathers attr_anchors mappings_head = [''new-mapping-dialog'']" "page_forms mappings_head = []"
    by (simp_all add: mappings_head_def page_head_def into_view_def)
  have "list_all call_ok (gathers attr_calls rules)"
    using assms mapping_row_links(1) by (fastforce simp: list_all_iff rules)
  moreover have "set (gathers attr_calls inspect) = {}" "set (page_forms inspect) = {}"
    by (simp_all add: inspect gathers_concat page_forms_concat inspect_dialog_links)
  moreover have "set (gathers attr_anchors inspect) = inspect_dialog_id ` set ms" "set (gathers attr_ids inspect) = inspect_dialog_id ` set ms"
    by (auto simp: inspect gathers_concat inspect_dialog_links)
  ultimately show ?thesis
    by (simp add: page page_ok_def head rules path new_mapping_links new_mapping_form call_ok_static mapping_row_links(2) image_iff subset_iff)
qed

section \<open>Results of handlers\<close>

named_theorems yields_intros \<open>rules that establish \<open>yields P m\<close>\<close>

definition yields :: "('a \<Rightarrow> bool) \<Rightarrow> ('s, 'e, 'a) eff \<Rightarrow> bool" where
  "yields P m \<longleftrightarrow> (\<forall>s x t. m s = (Inr x, t) \<longrightarrow> P x)"

lemma yields_bind: "yields Q m \<Longrightarrow> (\<And>x. Q x \<Longrightarrow> yields P (f x)) \<Longrightarrow> yields P (eff_bind m f)"
  unfolding yields_def eff_bind_eq_Inr by blast

lemma yields_after [yields_intros]: "(\<And>x. yields P (f x)) \<Longrightarrow> yields P (eff_bind m f)"
  unfolding yields_def eff_bind_eq_Inr by blast

lemma yields_ret [yields_intros]: "P x \<Longrightarrow> yields P (eff_ret x)" "yields P (eff_err e)"
  by (simp_all add: yields_def)

lemma yields_unwrap: "P d \<Longrightarrow> yields P m \<Longrightarrow> yields P (unwrap_or d m)"
  by (auto simp: yields_def unwrap_or_def eff_catch_def split: prod.splits sum.splits)

lemma yields_let [yields_intros]: "(\<And>x. yields P (f x)) \<Longrightarrow> yields P (Let v f)"
  by simp

lemma yields_if [yields_intros]: "yields P m \<Longrightarrow> yields P n \<Longrightarrow> yields P (if b then m else n)"
  by simp

lemma yields_case_prod [yields_intros]: "(\<And>x y. yields P (f x y)) \<Longrightarrow> yields P (case p of (x, y) \<Rightarrow> f x y)"
  by (cases p) auto

lemma yields_mono: "yields P m \<Longrightarrow> (\<And>x. P x \<Longrightarrow> Q x) \<Longrightarrow> yields Q m"
  by (auto simp: yields_def)

text \<open>A page is consistent when the identifiers of the mappings it lists are single segments of a path.\<close>

definition page_consistent :: "markup \<Rightarrow> bool" where
  "page_consistent page \<longleftrightarrow> (list_all path_segment (listed_ids page) \<longrightarrow> page_ok page)"

lemma mappings_page_lists: "m \<in> set ms \<Longrightarrow> id_str (m_id m) \<in> set (listed_ids (mappings_page D ms topology))"
  by (auto simp: listed_ids_def mappings_page_def Let_def gathers_def mapping_table_row_def inspect_dialog_id_def
      intro!: image_eqI [of _ _ "''inspect-'' @ id_str (m_id m)"])

lemma mappings_page_consistent: "page_consistent (mappings_page D ms topology)"
  using mappings_page_ok [of ms D topology] mappings_page_lists [of _ ms D topology]
  by (auto simp: page_consistent_def list_all_iff)

lemma mappings_markup_ok: "yields page_consistent (mappings_markup U st)"
  unfolding mappings_markup_def by (intro yields_intros mappings_page_consistent)

lemma markups_ok:
  "yields page_ok (dashboard_markup U st)" "yields page_ok (reconcile_markup report ruleset)"
  "yields page_ok (topology_markup U st)" "yields page_ok (oracle_markup U st result)"
  "yields page_ok (tools_markup U st tool active)" "yields page_ok (netbird_markup U st)" "yields page_ok (events_markup U st)"
  unfolding markups
  by (intro yields_intros dashboard_page_ok reconcile_page_ok topology_page_ok oracle_page_ok tools_page_ok
      netbird_page_ok events_page_ok)+

lemma page_ok_consistent: "page_ok p \<Longrightarrow> page_consistent p"
  by (simp add: page_consistent_def)

lemmas markups_consistent = markups_ok [THEN yields_mono [OF _ page_ok_consistent]]

lemma ui_page_ok: "yields page_consistent (ui_page U st rq)"
  by (cases rq; simp only: ui_page.simps actions; intro yields_intros mappings_markup_ok markups_consistent)

end
