(* ===== verification/Ui_Props.thy ===== *)
theory Ui_Props
  imports Ui_Links
begin

text \<open>
  Properties of the pages' handlers: every call they make is one the agent serves, the commands they run are
  harmless, and what the dashboard shows when parts of the system are down.
\<close>

section \<open>A sample gateway with pages\<close>

definition no_json :: "string \<Rightarrow> (string, 'a) result" where
  "no_json _ = Inl ''expected value at line 1 column 1''"

definition sample_ui :: "(string \<times> string) list ui_ops" where
  "sample_ui = gateway_ops.extend list_gateway
     \<lparr>date_of = (\<lambda>t. \<lparr>dp_year = 2024, dp_month = 1, dp_day = 1, dp_hour = 0, dp_minute = 0, dp_second = 0\<rparr>),
      into_string = (\<lambda>m. ''<html>''), json_to_vec = (\<lambda>_. Inr ''{}''), json_pretty = (\<lambda>_. Inr ''{}''),
      json_text = (\<lambda>_. ''{}''), report_pretty = (\<lambda>_. Inr ''{}''), from_value = (\<lambda>_. Inr JNull),
      from_mapping = no_json, from_mappings = (\<lambda>_. Inr []),
      from_status = (\<lambda>_. Inr \<lparr>sr_wan_interface = ''ens3'', sr_netbird_interface = ''wt0'', sr_target_cidrs = [],
        sr_mappings = 0, sr_enabled_mappings = 0\<rparr>),
      from_events = no_json, from_netbird = no_json, from_strings = (\<lambda>_. Inr []), from_topology = no_json,
      from_oci_status = no_json, from_report = no_json,
      run_tool = (\<lambda>_ _ _. Exited (Some 0) ''1 packets'' []), tool_connect = (\<lambda>_ _ _. Connected),
      elapsed_millis = (\<lambda>_. 3)\<rparr>"

definition sample_app :: app_state where
  "sample_app = \<lparr>as_agent_socket = ''/run/edge.sock'', as_gateway_token = None, as_api_token = Some ''secret''\<rparr>"

definition ui_start :: "(string \<times> string) list ui_state" where
  "ui_start = \<lparr>gw_tick = 0, sent = [], tools_run = [], connects = []\<rparr>"

lemma sample_ui_doc: "header_doc sample_ui"
  using list_gateway_doc by (simp add: header_doc_def sample_ui_def list_gateway_def gateway_ops.defs header_ops.defs)

text \<open>Why an id has to be one segment: it is put into the path as it is. With the id \<open>a1/disable?\<close>, which a client
  can send as \<open>a1%2Fdisable%3F\<close>, the request to enable a mapping reaches the agent's route that disables \<open>a1\<close>.\<close>

lemma unescaped_id_reroutes:
  "\<exists>q. sent (snd (ui_handle sample_ui sample_app (UiEnableMapping ''a1/disable?'') ui_start)) = [q] \<and>
     hr_path_and_query q = Some ''http://edge-agent/v1/mappings/a1/disable?/enable'' \<and>
     path_matches ''/v1/mappings/{id}/disable'' (takeWhile (\<lambda>c. c \<noteq> CHR ''?'') ''/v1/mappings/a1/disable?/enable'')"
  by (simp add: ui_handle_def render_result_def eff_catch_def ui_enable_mapping_def post_empty_json_def send_raw_def
      sample_ui_def list_gateway_def gateway_ops.defs header_ops.defs sample_app_def ui_start_def eff_bind_def
      rewrite_headers_def upstream_uri_def decode_json_def status_is_success_def no_json_def Let_def
      path_matches_def segment_matches_def)

section \<open>Properties\<close>

text \<open>Whatever page is asked for and whatever a form holds, each request the gateway makes for it is one the
  agent's router serves, with the agent's token as its only credential. A mapping id in the path has to be one
  segment of a path.\<close>

theorem ui_calls_agent_routes:
  assumes "header_doc U" "list_all path_segment (request_ids rq)"
  shows "\<exists>qs. sent (snd (ui_handle U st rq s)) = sent s @ qs \<and> list_all (agent_call U st) qs"
proof -
  have "adds sent (agent_call U st) (ui_handle U st rq)"
    unfolding ui_handle_def by (intro adds_intros ui_page_calls_agent assms)
  then show ?thesis unfolding adds_def by (metis surjective_pairing)
qed

theorem ui_calls_agent_routes_witness:
  "\<exists>q. sent (snd (ui_handle sample_ui sample_app (UiEnableMapping ''a1'') ui_start)) = [q] \<and> agent_call sample_ui sample_app q"
proof -
  let ?t = "snd (ui_handle sample_ui sample_app (UiEnableMapping ''a1'') ui_start)"
  have "list_all path_segment (request_ids (UiEnableMapping ''a1''))" by (simp add: path_segment_def)
  from ui_calls_agent_routes [OF sample_ui_doc this, of sample_app ui_start] obtain qs where
    "sent ?t = qs" "list_all (agent_call sample_ui sample_app) qs" by (auto simp: ui_start_def)
  moreover have "length (sent ?t) = 1"
    by (simp add: ui_handle_def render_result_def eff_catch_def ui_enable_mapping_def post_empty_json_def send_raw_def
        sample_ui_def list_gateway_def gateway_ops.defs header_ops.defs sample_app_def ui_start_def eff_bind_def
        rewrite_headers_def upstream_uri_def decode_json_def status_is_success_def no_json_def Let_def)
  ultimately show ?thesis by (cases qs) auto
qed

text \<open>C12. The pages run two programs only, and the options these read are the program's own, whatever a form holds.
  \<open>ping\<close> reads its count and its wait and one operand, an address. \<open>tcpdump\<close> reads its fixed options; the interface, at most 32
  letters, digits and \<open>._-:\<close>, stands where the value of \<open>-i\<close> does (a leading dash, which the check lets through, makes it
  a strange name and no option), the number of packets is 1 to 200, and the words of the filter are operands without
  \<open>;\<close>, \<open>|\<close> and \<open>&\<close>. A connection is tried to no port 0.\<close>

theorem ui_tools_safe:
  "\<exists>cmds tried. tools_run (snd (ui_handle U st rq s)) = tools_run s @ cmds \<and> list_all safe_tool cmds \<and>
     connects (snd (ui_handle U st rq s)) = connects s @ tried \<and> list_all (\<lambda>(ip, port). port \<noteq> 0) tried"
proof -
  have "adds tools_run safe_tool (ui_handle U st rq)" "adds connects (\<lambda>(ip, port). port \<noteq> 0) (ui_handle U st rq)"
    unfolding ui_handle_def by (intro adds_intros ui_page_tools ui_page_connects)+
  then show ?thesis unfolding adds_def by (metis surjective_pairing)
qed

text \<open>The dashboard needs the agent's status only: once that call has been answered, the page is rendered
  whatever the other four calls return. When the status cannot be had, the answer is the card with the error.\<close>

theorem dashboard_survives:
  "case get_json U st (from_status U) ''/v1/status'' s of
     (Inr status, u) \<Rightarrow>
       (\<exists>ms evs netbird networks. fst (ui_handle U st UiDashboard s) =
          Inr (into_string U (dashboard_page (date_of U) status ms evs netbird networks)))
   | (Inl e, u) \<Rightarrow> fst (ui_handle U st UiDashboard s) = Inr (into_string U (error_card (ge_message e)))"
  by (auto simp: ui_handle_def render_result_def dashboard_markup_def eff_catch_def eff_bind_def unwrap_or_def ok_eff_def
      split: prod.splits sum.splits)

text \<open>C27. The pages agree with the program that serves them. On every page a request leads to, every link, button and
  form has a route of the gateway with its method; every tab link and every button that opens or closes a dialog names
  an element of the page; and every form sends all the fields its handler requires and none it does not know. The
  identifiers of the mappings that the page lists have to be single segments of a path, as generated ones are
  (\<open>generated_id_segment\<close>): the page puts them into its links as they are.\<close>

theorem ui_pages_consistent:
  assumes "ui_page U st rq s = (Inr page, t)" "list_all path_segment (listed_ids page)"
  shows "page_ok page"
  using ui_page_ok [of U st rq] assms by (auto simp: yields_def page_consistent_def)

text \<open>A gateway whose agent lists two mappings.\<close>

definition listing_ui :: "(string \<times> string) list ui_ops" where
  "listing_ui = sample_ui\<lparr>from_mappings := \<lambda>_. Inr [sample_tcp, sample_udp\<lparr>enabled := False\<rparr>]\<rparr>"

theorem ui_pages_consistent_witness:
  "\<exists>t page. ui_page listing_ui sample_app UiMappings ui_start = (Inr page, t) \<and>
     listed_ids page = [''map_uuid2'', ''map_uuid3''] \<and> page_ok page"
proof -
  let ?page = "mappings_page (date_of listing_ui) [sample_tcp, sample_udp\<lparr>enabled := False\<rparr>] None"
  obtain t where t: "ui_page listing_ui sample_app UiMappings ui_start = (Inr ?page, t)"
    by (simp add: mappings_markup_def get_json_def send_raw_def ok_eff_def eff_catch_def listing_ui_def
        sample_ui_def list_gateway_def gateway_ops.defs header_ops.defs sample_app_def ui_start_def eff_bind_def
        rewrite_headers_def upstream_uri_def decode_json_def status_is_success_def no_json_def Let_def)
  have "last_error sample_tcp = None" "last_error sample_udp = None" by (simp_all add: sample_defs)
  then have ids: "listed_ids ?page = [''map_uuid2'', ''map_uuid3'']"
    by (simp add: listed_ids_def mappings_page_def Let_def mapping_table_row_def inspect_mapping_dialog_def
        new_mapping_dialog_def page_simps path_node_def inspect_dialog_id_def)
  then have "list_all path_segment (listed_ids ?page)" by (simp add: path_segment_def)
  from ui_pages_consistent [OF t this] t ids show ?thesis by blast
qed

text \<open>The dashboard shows no alert exactly when nothing is wrong: no mapping is degraded or failed, no
  event is a warning or an error, and NetBird answered with its daemon and both control services connected and every
  peer healthy.\<close>

theorem no_alerts_iff:
  "dashboard_alerts ms evs netbird = [] \<longleftrightarrow>
     list_all (\<lambda>m. m_status m \<noteq> MDegraded \<and> m_status m \<noteq> MError) ms \<and>
     list_all (\<lambda>e. ev_level e \<noteq> EvWarn \<and> ev_level e \<noteq> EvError) evs \<and>
     (\<exists>st. netbird = Some st \<and> daemon_connected st \<and> svc_connected (management st) \<and> svc_connected (signal st) \<and>
        list_all peer_is_healthy (peers_details (nb_peers st)))"
proof -
  have "is_problem m \<longleftrightarrow> m_status m = MDegraded \<or> m_status m = MError" for m
    by (cases "m_status m") (simp_all add: is_problem_def)
  moreover have "level_wire (ev_level e) \<in> {''warn'', ''error''} \<longleftrightarrow> ev_level e = EvWarn \<or> ev_level e = EvError" for e
    by (cases "ev_level e") simp_all
  ultimately show ?thesis
    by (cases netbird)
      (auto simp: dashboard_alerts_def unhealthy_count_def Let_def list_ex_iff list_all_iff filter_empty_conv split: if_splits)
qed

text \<open>The bars of a chart, given in per cent of their track, stay within it; a bar fills it exactly when
  its value is the largest.\<close>

theorem bar_widths:
  "list_all (\<lambda>v. bar_width (max (fold max vs 0) 1) v \<le> 100 \<and>
     (bar_width (max (fold max vs 0) 1) v = 100 \<longleftrightarrow> v = max (fold max vs 0) 1)) vs"
proof -
  let ?peak = "max (fold max vs 0) 1"
  have fold: "v \<le> fold max vs 0" if "v \<in> set vs" for v
    using that Max_ge [of "set (0 # vs)" v] by (simp only: Max.set_eq_fold [symmetric]) simp
  have "bar_width ?peak v \<le> 100 \<and> (bar_width ?peak v = 100 \<longleftrightarrow> v = ?peak)" if "v \<in> set vs" for v
  proof -
    have le: "v \<le> ?peak" and pos: "0 < ?peak" using fold [OF that] by (simp_all add: le_max_iff_disj)
    have "v * 100 div p < 100" if "v < p" for p
      using that by (simp add: div_less_iff_less_mult)
    moreover have "p * 100 div p = 100" if "0 < p" for p :: nat using that by simp
    ultimately show ?thesis using le pos unfolding bar_width_def by (metis le_neq_implies_less less_imp_le nat_less_le order_refl)
  qed
  then show ?thesis by (simp add: list_all_iff)
qed

text \<open>A gateway that started has a token for the agent, no empty token, and is not bound to a wildcard address.\<close>

theorem gateway_started_safe:
  assumes "gateway_start G show cli = Inr st"
  shows "\<not> unspecified (sa_ip (gc_bind cli)) \<and> (\<exists>t. as_api_token st = Some t \<and> t \<noteq> []) \<and> as_gateway_token st \<noteq> Some []"
  using assms
  by (auto simp: gateway_start_def gw_reject_public_bind_def load_tokens_def res_bind_def Let_def
      split: if_splits sum.splits)

theorem gateway_started_safe_witness:
  "\<exists>st. gateway_start list_gateway (\<lambda>_. ''127.0.0.1:8080'')
     \<lparr>gc_config = None, gc_bind = \<lparr>sa_ip = IpV4 (Ipv4Addr 127 0 0 1), sa_port = 8080\<rparr>, gc_agent_socket = ''/run/a.sock'', gc_static_dir = ''web'',
      gc_gateway_token = None, gc_api_token = Some ''secret''\<rparr> = Inr st \<and> (\<exists>t. as_api_token st = Some t \<and> t \<noteq> [])"
proof -
  let ?cli = "\<lparr>gc_config = None, gc_bind = \<lparr>sa_ip = IpV4 (Ipv4Addr 127 0 0 1), sa_port = 8080\<rparr>,
      gc_agent_socket = ''/run/a.sock'', gc_static_dir = ''web'', gc_gateway_token = None, gc_api_token = Some ''secret''\<rparr>"
  obtain st where st: "gateway_start list_gateway (\<lambda>_. ''127.0.0.1:8080'') ?cli = Inr st"
    by (simp add: gateway_start_def gw_reject_public_bind_def unspecified_def ip_is_unspecified_def load_tokens_def
        or_else_def Let_def)
  with gateway_started_safe [OF st] show ?thesis by blast
qed

end
