(* ===== verification/Gateway_Agent.thy ===== *)
theory Gateway_Agent
  imports Agent_Http Ui_Props
begin

text \<open>
  The gateway and the agent together: what a request to a page makes the agent do. Every call of the gateway is taken
  by the agent's router and passes its guard, and it asks for what the page is for and nothing else; showing a page
  and the diagnostic tools leave the agent's database and files as they are.
\<close>

section \<open>Requests that change nothing\<close>

text \<open>The tables and the files are the same; what commands did to the machine is left open.\<close>

definition same_store :: "('h, 'w) world_scheme \<Rightarrow> ('h, 'w) world_scheme \<Rightarrow> bool" where
  "same_store s u \<longleftrightarrow> (\<exists>n h tr. u = s\<lparr>tick := n, hstate := h, trace := tr\<rparr>)"

lemma same_store_refl: "same_store s s"
  unfolding same_store_def by (intro exI [of _ "tick s"] exI [of _ "hstate s"] exI [of _ "trace s"]) simp

lemma same_store_trans: "same_store s u \<Longrightarrow> same_store u v \<Longrightarrow> same_store s v"
  unfolding same_store_def by (elim exE, hypsubst, simp, intro exI, rule refl)

lemma same_store_fields:
  "same_store s u \<Longrightarrow> t_mappings u = t_mappings s \<and> t_config u = t_config s \<and> t_generations u = t_generations s \<and>
     t_events u = t_events s \<and> files u = files s"
  by (auto simp: same_store_def)

lemma keeps_same_store: "(\<And>u. same_store u (snd (m u))) \<Longrightarrow> keeps (same_store s) m"
  by (rule keepsI) (blast intro: same_store_trans)

lemma keeps_store_read: "reads m \<Longrightarrow> keeps (same_store s) (m :: (('h, 'w) world_scheme, 'e, 'a) eff)"
proof (rule keeps_same_store)
  fix u :: "('h, 'w) world_scheme"
  assume "reads m"
  then obtain n where "snd (m u) = u\<lparr>tick := n\<rparr>" by (auto simp: reads_def)
  then show "same_store u (snd (m u))"
    unfolding same_store_def by (intro exI [of _ n] exI [of _ "hstate u"] exI [of _ "trace u"]) simp
qed

lemma keeps_store_command: "keeps (same_store s) (command E prog args)"
  by (rule keeps_same_store) (auto simp: command_def same_store_def split: prod.splits)

lemma keeps_store_oci:
  "keeps (same_store s) (oci_version E B)" "keeps (same_store s) (get_vnic E B v)"
  "keeps (same_store s) (list_public_ips E B c)"
proof -
  have q: "keeps (same_store s) (oci_run_owned E B args)" for B args
    unfolding oci_run_owned_def by (intro keeps_intros keeps_store_command) (auto intro: keeps_intros split: cmd_outcome.split)
  show "keeps (same_store s) (oci_version E B)" "keeps (same_store s) (get_vnic E B v)"
    "keeps (same_store s) (list_public_ips E B c)"
    unfolding oci_version_def get_vnic_def list_public_ips_def by (intro keeps_intros q)+
qed

lemma keeps_store_netbird: "keeps (same_store s) (nb_status E C)"
proof -
  have q: "keeps (same_store s) (netbird_run_owned E b args)" for b args
    by (rule keeps_same_store)
      (auto simp: netbird_run_owned_def same_store_def Let_def split: prod.splits sum.splits if_splits)
  show ?thesis unfolding nb_status_def by (intro keeps_intros q)
qed

lemma keeps_store_guards:
  "keeps (same_store s) (api_auth H cfg hs)" "keeps (same_store s) (parse_id v)"
  "keeps (same_store s) m \<Longrightarrow> keeps (same_store s) (api_core m)"
  "keeps (same_store s) n \<Longrightarrow> keeps (same_store s) (api_oci n)"
  "keeps (same_store s) k \<Longrightarrow> keeps (same_store s) (api_netbird k)"
  "keeps (same_store s) j \<Longrightarrow> keeps (same_store s) (eff_map f j)"
  unfolding api_auth_def parse_id_def api_core_def api_oci_def api_netbird_def eff_map_def
  by (intro keeps_intros; assumption)+

lemmas keeps_store = keeps_intros keeps_store_guards keeps_store_oci keeps_store_netbird

text \<open>The requests that only read, and reconciliations that are dry runs.\<close>

fun read_request :: "api_request \<Rightarrow> bool" where
  "read_request (CreateMapping _) = False"
| "read_request (DeleteMapping _) = False"
| "read_request (EnableMapping _) = False"
| "read_request (DisableMapping _) = False"
| "read_request (DoReconcile c) = rq_dry_run c"
| "read_request (OciAllocate _) = False"
| "read_request (OciRelease _) = False"
| "read_request (OciNsgAdd _) = False"
| "read_request (OciNsgRemove _) = False"
| "read_request _ = True"

lemma read_handlers:
  "keeps (same_store s) (api_status E H cfg hs)" "keeps (same_store s) (api_list_mappings E H cfg hs)"
  "keeps (same_store s) (api_get_mapping E H cfg hs i)" "keeps (same_store s) (api_dry_run_apply E H cfg hs)"
  "keeps (same_store s) (api_netbird_status E H cfg hs)" "keeps (same_store s) (api_netbird_networks E H cfg hs)"
  "keeps (same_store s) (api_events E H cfg hs)" "keeps (same_store s) (api_analytics E H cfg hs)"
  "keeps (same_store s) (api_topology E H cfg hs)" "keeps (same_store s) (api_oci_status E H cfg hs)"
  "keeps (same_store s) (oci_vnic_check E H cfg hs q)" "keeps (same_store s) (oci_public_ips E H cfg hs q)"
  unfolding api_status_def api_list_mappings_def api_get_mapping_def api_dry_run_apply_def api_netbird_status_def
    api_netbird_networks_def api_events_def api_analytics_def api_topology_def api_oci_status_def oci_vnic_check_def
    oci_public_ips_def Let_def
  by (intro keeps_store keeps_store_read reads_intros)+

lemma read_reconcile: "rq_dry_run c \<Longrightarrow> keeps (same_store s) (api_reconcile E H cfg hs c)"
  unfolding api_reconcile_def Let_def
  by (intro keeps_store keeps_store_read dry_run_reads) simp

lemma handle_reads: "read_request rq \<Longrightarrow> keeps (same_store s) (handle E H cfg hs rq)"
  by (cases rq) (simp_all add: keeps_store_guards(6) read_handlers read_reconcile)

section \<open>What a page asks for\<close>

text \<open>The documented behaviour the composition relies on. A \<open>Uri\<close> made from an authority and a path keeps that path
  with its query, without a fragment (\<open>http\<close>); \<open>hyper\<close> sends it as the target of the request.\<close>

definition uri_doc :: "('m, 'x) gateway_ops_scheme \<Rightarrow> (string \<Rightarrow> string) \<Rightarrow> bool" where
  "uri_doc G tgt \<longleftrightarrow>
     (\<forall>p u. take 1 p = ''/'' \<and> uri_parse G (''http://edge-agent'' @ p) = Inr u \<longrightarrow> tgt u = takeWhile (\<lambda>c. c \<noteq> CHR ''#'') p)"

text \<open>A segment without percent signs is its own decoding (\<open>axum\<close>), and \<open>dry_run\<close> is read from the body the gateway
  encoded, with the default \<open>false\<close> (\<open>serde\<close>).\<close>

definition extract_doc :: "'m extractors \<Rightarrow> ('m, 'x) ui_ops_scheme \<Rightarrow> bool" where
  "extract_doc X U \<longleftrightarrow>
     (\<forall>i. CHR ''%'' \<notin> set i \<longrightarrow> path_param X i = Inr i) \<and>
     (\<forall>hs fs bytes c. json_to_vec U (JObject fs) = Inr bytes \<and> json_reconcile X hs bytes = Inr c \<longrightarrow>
        rq_dry_run c = (map_of fs ''dry_run'' = Some (JBool True)))"

definition plain_id :: "string \<Rightarrow> bool" where
  "plain_id i \<longleftrightarrow> path_segment i \<and> CHR ''#'' \<notin> set i \<and> CHR ''%'' \<notin> set i"

text \<open>The one thing a request to a page may ask the agent to change.\<close>

definition ui_intent :: "ui_request \<Rightarrow> api_request \<Rightarrow> bool" where
  "ui_intent rq r \<longleftrightarrow>
     (case rq of
        UiCreateMapping _ \<Rightarrow> (\<exists>c. r = CreateMapping c)
      | UiEnableMapping i \<Rightarrow> r = EnableMapping i
      | UiDisableMapping i \<Rightarrow> r = DisableMapping i
      | UiDeleteMapping i \<Rightarrow> r = DeleteMapping i
      | UiRunReconcile form \<Rightarrow> (\<exists>c. r = DoReconcile c \<and> rq_dry_run c = (rf_dry_run form \<noteq> None))
      | UiOracleAllocate _ \<Rightarrow> (\<exists>c. r = OciAllocate c)
      | UiOracleRelease _ \<Rightarrow> (\<exists>c. r = OciRelease c)
      | UiOracleNsgAdd _ \<Rightarrow> (\<exists>c. r = OciNsgAdd c)
      | UiOracleNsgRemove _ \<Rightarrow> (\<exists>c. r = OciNsgRemove c)
      | _ \<Rightarrow> False)"

definition asks :: "ui_request \<Rightarrow> api_request \<Rightarrow> bool" where
  "asks rq r \<longleftrightarrow> read_request r \<or> ui_intent rq r"

text \<open>How the router takes a target: it finds the route, and what the extractors let through is a request with \<open>P\<close>.\<close>

definition lands :: "(api_request \<Rightarrow> bool) \<Rightarrow> dispatched \<Rightarrow> bool" where
  "lands P d \<longleftrightarrow> (case d of NoRoute \<Rightarrow> False | WrongMethod \<Rightarrow> False | Refused _ \<Rightarrow> True | Routed r \<Rightarrow> P r)"

definition agent_takes :: "'m extractors \<Rightarrow> ('m, 'x) gateway_ops_scheme \<Rightarrow> (string \<Rightarrow> string) \<Rightarrow> app_state \<Rightarrow>
    (api_request \<Rightarrow> bool) \<Rightarrow> 'm http_request \<Rightarrow> bool" where
  "agent_takes X G tgt st P q \<longleftrightarrow>
     (\<exists>token. as_api_token st = Some token \<and> header_get_all G (hr_headers q) ''authorization'' = [''Bearer '' @ token]) \<and>
     lands P (dispatch X tgt q)"

lemma send_raw_taken:
  assumes "header_doc G" "uri_doc G tgt" "take 1 p = ''/''"
    and "\<And>hs'. lands P (route_request X m (takeWhile (\<lambda>c. c \<noteq> CHR ''#'') p) hs' body)"
  shows "adds sent (agent_takes X G tgt st P) (send_raw G st m p hs body)"
  unfolding adds_def
proof (intro allI impI)
  fix s t r
  assume "send_raw G st m p hs body s = (r, t)"
  from send_raw_sent [OF this] show "\<exists>xs. sent t = sent s @ xs \<and> list_all (agent_takes X G tgt st P) xs"
  proof (elim disjE exE conjE)
    fix token hs' uri
    assume *: "as_api_token st = Some token" "rewrite_headers G hs token = Inr hs'" "upstream_uri G p = Inr uri"
      "sent t = sent s @ [\<lparr>hr_method = m, hr_path_and_query = Some uri, hr_headers = hs', hr_body = body\<rparr>]"
    have "p \<noteq> [] \<and> hd p = CHR ''/''" using assms(3) by (cases p) auto
    with *(3) have "uri_parse G (''http://edge-agent'' @ p) = Inr uri" by (simp add: upstream_uri_def)
    with assms(2,3) have "tgt uri = takeWhile (\<lambda>c. c \<noteq> CHR ''#'') p" unfolding uri_doc_def by blast
    then show ?thesis
      using * assms(4) rewritten_headers [OF assms(1) *(2), of "''authorization''"] by (auto simp: agent_takes_def dispatch_def)
  qed simp
qed

lemma agent_calls_taken:
  assumes "header_doc G" "uri_doc G tgt" "take 1 p = ''/''"
  shows "(\<And>hs. lands P (route_request X ''GET'' (takeWhile (\<lambda>c. c \<noteq> CHR ''#'') p) hs [])) \<Longrightarrow>
      adds sent (agent_takes X G tgt st P) (get_json G st dec p)"
    and "(\<And>hs bytes. enc body = Inr bytes \<Longrightarrow> lands P (route_request X ''POST'' (takeWhile (\<lambda>c. c \<noteq> CHR ''#'') p) hs bytes)) \<Longrightarrow>
      adds sent (agent_takes X G tgt st P) (post_json G st dec enc p body)"
    and "(\<And>hs. lands P (route_request X ''POST'' (takeWhile (\<lambda>c. c \<noteq> CHR ''#'') p) hs [])) \<Longrightarrow>
      adds sent (agent_takes X G tgt st P) (post_empty_json G st dec p)"
    and "(\<And>hs. lands P (route_request X ''DELETE'' (takeWhile (\<lambda>c. c \<noteq> CHR ''#'') p) hs [])) \<Longrightarrow>
      adds sent (agent_takes X G tgt st P) (delete_json G st dec p)"
    and "(\<And>hs. lands P (route_request X ''POST'' (takeWhile (\<lambda>c. c \<noteq> CHR ''#'') p) hs [])) \<Longrightarrow>
      adds sent (agent_takes X G tgt st P) (post_text G st p)"
  unfolding agent_calls
  by (intro adds_lift_bind adds_intros send_raw_taken assms; (cases "enc body")?; simp)+

section \<open>Where the targets lead\<close>

lemma lands_extracted:
  "lands P (case res_map f r of Inl status \<Rightarrow> Refused status | Inr rq \<Rightarrow> Routed rq) \<longleftrightarrow> (\<forall>x. r = Inr x \<longrightarrow> P (f x))"
  by (cases r) (simp_all add: lands_def res_map_def)

lemma lands_argument:
  assumes "(m, pat, \<lambda>i. res_map f (get i)) \<in> set (agent_router X hs (target_query target) body)" "m \<noteq> ''HEAD''"
    and "path_matches pat (target_path target)"
    and "\<And>x. get (captured pat (target_path target)) = Inr x \<Longrightarrow> P (f x)"
  shows "lands P (route_request X m target hs body)"
  using assms route_taken [of m pat "\<lambda>i. res_map f (get i)" X hs target body]
  by (auto simp: as_get_def lands_extracted)

text \<open>Routes without a parameter: the target is the pattern.\<close>

lemma lands_fixed:
  assumes "(m, p, \<lambda>_. r) \<in> set (agent_router X hs (target_query p) body)" "m \<noteq> ''HEAD''"
    and "path_matches p (target_path p)" "\<And>rq. r = Inr rq \<Longrightarrow> P rq"
  shows "lands P (route_request X m p hs body)"
  using assms route_taken [of m p "\<lambda>_. r" X hs p body] by (cases r) (auto simp: as_get_def lands_def)

lemma static_patterns:
  "path_matches ''/v1/status'' (target_path ''/v1/status'')"
  "path_matches ''/v1/mappings'' (target_path ''/v1/mappings'')"
  "path_matches ''/v1/events'' (target_path ''/v1/events'')"
  "path_matches ''/v1/netbird/status'' (target_path ''/v1/netbird/status'')"
  "path_matches ''/v1/netbird/networks'' (target_path ''/v1/netbird/networks'')"
  "path_matches ''/v1/topology'' (target_path ''/v1/topology'')"
  "path_matches ''/v1/oci/status'' (target_path ''/v1/oci/status'')"
  "path_matches ''/v1/apply/dry-run'' (target_path ''/v1/apply/dry-run'')"
  "path_matches ''/v1/reconcile'' (target_path ''/v1/reconcile'')"
  "path_matches ''/v1/oci/allocate'' (target_path ''/v1/oci/allocate'')"
  "path_matches ''/v1/oci/release'' (target_path ''/v1/oci/release'')"
  "path_matches ''/v1/oci/nsg/add'' (target_path ''/v1/oci/nsg/add'')"
  "path_matches ''/v1/oci/nsg/remove'' (target_path ''/v1/oci/nsg/remove'')"
  by code_simp+

lemma fixed_targets:
  "P GetStatus \<Longrightarrow> lands P (route_request X ''GET'' ''/v1/status'' hs b)"
  "P ListMappings \<Longrightarrow> lands P (route_request X ''GET'' ''/v1/mappings'' hs b)"
  "P GetEvents \<Longrightarrow> lands P (route_request X ''GET'' ''/v1/events'' hs b)"
  "P GetNetbirdStatus \<Longrightarrow> lands P (route_request X ''GET'' ''/v1/netbird/status'' hs b)"
  "P GetNetbirdNetworks \<Longrightarrow> lands P (route_request X ''GET'' ''/v1/netbird/networks'' hs b)"
  "P GetTopology \<Longrightarrow> lands P (route_request X ''GET'' ''/v1/topology'' hs b)"
  "P GetOciStatus \<Longrightarrow> lands P (route_request X ''GET'' ''/v1/oci/status'' hs b)"
  "P DryRunApply \<Longrightarrow> lands P (route_request X ''POST'' ''/v1/apply/dry-run'' hs b)"
  by (rule lands_fixed [where r = "Inr GetStatus"] lands_fixed [where r = "Inr ListMappings"]
      lands_fixed [where r = "Inr GetEvents"] lands_fixed [where r = "Inr GetNetbirdStatus"]
      lands_fixed [where r = "Inr GetNetbirdNetworks"] lands_fixed [where r = "Inr GetTopology"]
      lands_fixed [where r = "Inr GetOciStatus"] lands_fixed [where r = "Inr DryRunApply"],
      simp add: agent_router_def, simp, rule static_patterns, simp)+

lemma body_targets:
  "(\<And>c. json_create X hs b = Inr c \<Longrightarrow> P (CreateMapping c)) \<Longrightarrow> lands P (route_request X ''POST'' ''/v1/mappings'' hs b)"
  "(\<And>c. json_reconcile X hs b = Inr c \<Longrightarrow> P (DoReconcile c)) \<Longrightarrow> lands P (route_request X ''POST'' ''/v1/reconcile'' hs b)"
  "(\<And>c. json_allocate X hs b = Inr c \<Longrightarrow> P (OciAllocate c)) \<Longrightarrow> lands P (route_request X ''POST'' ''/v1/oci/allocate'' hs b)"
  "(\<And>c. json_release X hs b = Inr c \<Longrightarrow> P (OciRelease c)) \<Longrightarrow> lands P (route_request X ''POST'' ''/v1/oci/release'' hs b)"
  "(\<And>c. json_nsg_add X hs b = Inr c \<Longrightarrow> P (OciNsgAdd c)) \<Longrightarrow> lands P (route_request X ''POST'' ''/v1/oci/nsg/add'' hs b)"
  "(\<And>c. json_nsg_remove X hs b = Inr c \<Longrightarrow> P (OciNsgRemove c)) \<Longrightarrow> lands P (route_request X ''POST'' ''/v1/oci/nsg/remove'' hs b)"
  by (rule lands_fixed [where r = "res_map CreateMapping (json_create X hs b)"]
      lands_fixed [where r = "res_map DoReconcile (json_reconcile X hs b)"]
      lands_fixed [where r = "res_map OciAllocate (json_allocate X hs b)"]
      lands_fixed [where r = "res_map OciRelease (json_release X hs b)"]
      lands_fixed [where r = "res_map OciNsgAdd (json_nsg_add X hs b)"]
      lands_fixed [where r = "res_map OciNsgRemove (json_nsg_remove X hs b)"],
      simp add: agent_router_def, simp, rule static_patterns, force simp: res_map_def)+

text \<open>Up to the first \<open>#\<close> a target with a query has the path it was made from.\<close>

lemma until_append: "d \<notin> set p \<Longrightarrow> takeWhile (\<lambda>c. c \<noteq> d) (p @ r) = p @ takeWhile (\<lambda>c. c \<noteq> d) r"
  by (induction p) auto

lemma query_path:
  "CHR ''#'' \<notin> set p \<Longrightarrow> CHR ''?'' \<notin> set p \<Longrightarrow> target_path (takeWhile (\<lambda>c. c \<noteq> CHR ''#'') (with_query p k w)) = p"
  by (cases w) (simp_all add: with_query_def target_path_def until_append takeWhile_none)

lemma query_targets:
  "(\<And>v. P (OciVnicCheck v)) \<Longrightarrow>
     lands P (route_request X ''GET'' (takeWhile (\<lambda>c. c \<noteq> CHR ''#'') (with_query ''/v1/oci/vnic/check'' k w)) hs b)"
  "(\<And>v. P (OciPublicIps v)) \<Longrightarrow>
     lands P (route_request X ''GET'' (takeWhile (\<lambda>c. c \<noteq> CHR ''#'') (with_query ''/v1/oci/public-ips'' k w)) hs b)"
proof -
  let ?t = "\<lambda>p. takeWhile (\<lambda>c. c \<noteq> CHR ''#'') (with_query p k w)"
  have m: "path_matches p p" if "p \<in> {''/v1/oci/vnic/check'', ''/v1/oci/public-ips''}" for p
    using that by (auto simp: path_matches_def segment_matches_def)
  show "lands P (route_request X ''GET'' (?t ''/v1/oci/vnic/check'') hs b)" if "\<And>v. P (OciVnicCheck v)"
    by (rule lands_argument [of _ "''/v1/oci/vnic/check''" OciVnicCheck "\<lambda>_. query_vnic X (target_query (?t ''/v1/oci/vnic/check''))"])
      (use that m in \<open>simp_all add: agent_router_def query_path\<close>)
  show "lands P (route_request X ''GET'' (?t ''/v1/oci/public-ips'') hs b)" if "\<And>v. P (OciPublicIps v)"
    by (rule lands_argument [of _ "''/v1/oci/public-ips''" OciPublicIps "\<lambda>_. query_compartment X (target_query (?t ''/v1/oci/public-ips''))"])
      (use that m in \<open>simp_all add: agent_router_def query_path\<close>)
qed

text \<open>An identifier in the path is the one the handler gets.\<close>

lemma lands_id:
  assumes "plain_id i" "path_param X i = Inr i" "P (f i)"
    and "(m, ''/v1/mappings/{id}'' @ rest, \<lambda>i. res_map f (path_param X i)) \<in> set (agent_router X hs (target_query (''/v1/mappings/'' @ i @ rest)) b)"
    and "m \<noteq> ''HEAD''" "rest \<in> {[], ''/enable'', ''/disable''}"
  shows "lands P (route_request X m (takeWhile (\<lambda>c. c \<noteq> CHR ''#'') (''/v1/mappings/'' @ i @ rest)) hs b)"
proof -
  let ?p = "''/v1/mappings/'' @ i @ rest"
  have seg: "path_segment i" and i: "CHR ''/'' \<notin> set i" using assms(1) by (auto simp: plain_id_def path_segment_def)
  have t: "takeWhile (\<lambda>c. c \<noteq> CHR ''#'') ?p = ?p" "target_path ?p = ?p"
    using assms(1,6) unfolding target_path_def by (auto simp: plain_id_def path_segment_def intro!: takeWhile_none)
  have c: "captured (''/v1/mappings/{id}'' @ rest) ?p = i" and m: "path_matches (''/v1/mappings/{id}'' @ rest) ?p"
    using assms(6) segment_paths [OF seg] split_on_append [OF i] split_on_no_sep [OF i] by (auto simp: captured_def)
  show ?thesis unfolding t(1)
    by (rule lands_argument [OF assms(4,5)]) (use m c assms(2,3) in \<open>simp_all only: t(2), auto\<close>)
qed

lemma id_targets:
  assumes "plain_id i" "path_param X i = Inr i"
  shows "P (DeleteMapping i) \<Longrightarrow> lands P (route_request X ''DELETE'' (takeWhile (\<lambda>c. c \<noteq> CHR ''#'') (''/v1/mappings/'' @ i)) hs b)"
    and "P (EnableMapping i) \<Longrightarrow> lands P (route_request X ''POST'' (takeWhile (\<lambda>c. c \<noteq> CHR ''#'') (''/v1/mappings/'' @ i @ ''/enable'')) hs b)"
    and "P (DisableMapping i) \<Longrightarrow> lands P (route_request X ''POST'' (takeWhile (\<lambda>c. c \<noteq> CHR ''#'') (''/v1/mappings/'' @ i @ ''/disable'')) hs b)"
  using lands_id [OF assms, of P DeleteMapping "''DELETE''" "[]" hs b] lands_id [OF assms, of P EnableMapping "''POST''" "''/enable''" hs b]
    lands_id [OF assms, of P DisableMapping "''POST''" "''/disable''" hs b]
  by (simp_all add: agent_router_def)

section \<open>Pages\<close>

lemma asks_read: "read_request r \<Longrightarrow> asks rq r"
  by (simp add: asks_def)

lemma markups_taken:
  assumes "header_doc U" "uri_doc U tgt"
  shows "adds sent (agent_takes X U tgt st (asks rq)) (dashboard_markup U st)"
    "adds sent (agent_takes X U tgt st (asks rq)) (mappings_markup U st)"
    "adds sent (agent_takes X U tgt st (asks rq)) (reconcile_markup report ruleset)"
    "adds sent (agent_takes X U tgt st (asks rq)) (topology_markup U st)"
    "adds sent (agent_takes X U tgt st (asks rq)) (oracle_markup U st result)"
    "adds sent (agent_takes X U tgt st (asks rq)) (tools_markup U st tool active)"
    "adds sent (agent_takes X U tgt st (asks rq)) (netbird_markup U st)"
    "adds sent (agent_takes X U tgt st (asks rq)) (events_markup U st)"
  unfolding markups
  by (intro adds_intros agent_calls_taken assms; simp add: fixed_targets asks_read)+

lemma query_start: "take 1 (with_query (CHR ''/'' # p) k w) = ''/''"
  by (cases w) (simp_all add: with_query_def)

lemma reconcile_taken:
  assumes "extract_doc X U"
  shows "json_to_vec U (reconcile_body form) = Inr bytes \<Longrightarrow>
      lands (asks (UiRunReconcile form)) (route_request X ''POST'' ''/v1/reconcile'' hs bytes)"
    and "json_to_vec U reconcile_check_body = Inr bytes \<Longrightarrow> lands (asks rq) (route_request X ''POST'' ''/v1/reconcile'' hs bytes)"
proof -
  have dry: "rq_dry_run c = (map_of fs ''dry_run'' = Some (JBool True))"
    if "json_to_vec U (JObject fs) = Inr bytes" "json_reconcile X hs bytes = Inr c" for c fs
    using assms that unfolding extract_doc_def by blast
  show "lands (asks (UiRunReconcile form)) (route_request X ''POST'' ''/v1/reconcile'' hs bytes)"
    if "json_to_vec U (reconcile_body form) = Inr bytes"
    by (rule body_targets) (use dry [OF that [unfolded reconcile_body_def]] in \<open>simp add: asks_def ui_intent_def\<close>)
  show "lands (asks rq) (route_request X ''POST'' ''/v1/reconcile'' hs bytes)"
    if "json_to_vec U reconcile_check_body = Inr bytes"
    by (rule body_targets) (use dry [OF that [unfolded reconcile_check_body_def]] in \<open>simp add: asks_def\<close>)
qed

lemma ui_page_taken:
  assumes doc: "header_doc U" "uri_doc U tgt" "extract_doc X U" and ids: "list_all plain_id (request_ids rq)"
  shows "adds sent (agent_takes X U tgt st (asks rq)) (ui_page U st rq)"
proof -
  have param: "path_param X i = Inr i" if "plain_id i" for i
    using doc(3) that by (simp add: extract_doc_def plain_id_def)
  note taken = adds_intros agent_calls_taken doc(1,2) markups_taken
  show ?thesis
  proof (cases rq)
    case (UiEnableMapping i)
    with ids have "plain_id i" by simp
    note id_targets [OF this param [OF this]]
    then show ?thesis unfolding UiEnableMapping ui_page.simps actions by (intro taken; simp add: asks_def ui_intent_def)
  next
    case (UiDisableMapping i)
    with ids have "plain_id i" by simp
    note id_targets [OF this param [OF this]]
    then show ?thesis unfolding UiDisableMapping ui_page.simps actions by (intro taken; simp add: asks_def ui_intent_def)
  next
    case (UiDeleteMapping i)
    with ids have "plain_id i" by simp
    note id_targets [OF this param [OF this]]
    then show ?thesis unfolding UiDeleteMapping ui_page.simps actions by (intro taken; simp add: asks_def ui_intent_def)
  next
    case (UiRunReconcile form)
    show ?thesis unfolding UiRunReconcile ui_page.simps actions by (intro taken; simp add: reconcile_taken [OF doc(3)])
  next
    case UiToolsReconcileCheck
    show ?thesis unfolding UiToolsReconcileCheck ui_page.simps actions
      by (intro taken; simp add: reconcile_taken(2) [OF doc(3)])
  qed (simp_all only: ui_page.simps actions,
      (intro taken query_start; simp add: fixed_targets body_targets query_targets asks_def ui_intent_def)+)
qed

section \<open>What the agent makes of it\<close>

text \<open>A token of visible characters is what a handler reads from the header.\<close>

definition token_doc :: "('m, 'x) header_ops_scheme \<Rightarrow> app_state \<Rightarrow> bool" where
  "token_doc H st \<longleftrightarrow>
     (\<forall>token. as_api_token st = Some token \<longrightarrow>
        rust_str (''Bearer '' @ token) \<and> header_to_str H (''Bearer '' @ token) = Some (''Bearer '' @ token))"

lemma taken_accepted:
  assumes "header_doc U" "token_doc U st" "as_api_token st = Some token"
    "header_get_all U hs ''authorization'' = [''Bearer '' @ token]"
  shows "require_auth U (Some token) hs = Inr ()"
proof -
  have "header_get U hs ''authorization'' = Some (''Bearer '' @ token)" using assms(1,4) by (simp add: header_doc_def)
  with assms(2,3) have a: "authorization U hs = Some (''Bearer '' @ token)" by (simp add: authorization_def token_doc_def)
  moreover have "auth_sized U hs token" using assms(2,3) a by (auto simp: auth_sized_def token_doc_def rust_str_def)
  ultimately show ?thesis by (intro agent.accepts)
qed

text \<open>The requests that show something.\<close>

definition view_request :: "ui_request \<Rightarrow> bool" where
  "view_request rq \<longleftrightarrow>
     (case rq of
        UiCreateMapping _ \<Rightarrow> False
      | UiEnableMapping _ \<Rightarrow> False
      | UiDisableMapping _ \<Rightarrow> False
      | UiDeleteMapping _ \<Rightarrow> False
      | UiRunReconcile form \<Rightarrow> rf_dry_run form \<noteq> None
      | UiOracleAllocate _ \<Rightarrow> False
      | UiOracleRelease _ \<Rightarrow> False
      | UiOracleNsgAdd _ \<Rightarrow> False
      | UiOracleNsgRemove _ \<Rightarrow> False
      | _ \<Rightarrow> True)"

lemma view_asks: "view_request rq \<Longrightarrow> asks rq r \<Longrightarrow> read_request r"
  by (cases rq) (auto simp: view_request_def asks_def ui_intent_def)

lemma lands_mono: "lands P d \<Longrightarrow> (\<And>r. P r \<Longrightarrow> Q r) \<Longrightarrow> lands Q d"
  by (cases d) (auto simp: lands_def)

lemma receives_reads:
  "list_all (\<lambda>q. lands read_request (dispatch X tgt q)) qs \<Longrightarrow> same_store a (agent_receives E H X tgt cfg qs a)"
proof (induction qs arbitrary: a)
  case (Cons q qs)
  let ?b = "case dispatch X tgt q of Routed rq \<Rightarrow> snd (handle E H cfg (hr_headers q) rq a) | _ \<Rightarrow> a"
  have "same_store a ?b"
    using Cons.prems handle_reads [of _ a E H cfg "hr_headers q"] same_store_refl [of a]
    by (auto simp: lands_def keeps_def split: dispatched.splits)
  moreover have "same_store ?b (agent_receives E H X tgt cfg qs ?b)" using Cons by simp
  ultimately show ?case by (auto intro: same_store_trans)
qed (simp add: same_store_refl)

section \<open>A sample of both programs\<close>

text \<open>The only field of a body this sample keeps is \<open>dry_run\<close>.\<close>

definition sample_encode :: "json \<Rightarrow> (string, string) result" where
  "sample_encode v =
     (case v of
        JObject fs \<Rightarrow> Inr (if map_of fs ''dry_run'' = Some (JBool True) then ''dry'' else ''live'')
      | _ \<Rightarrow> Inr [])"

definition sample_pair :: "(string \<times> string) list ui_ops" where
  "sample_pair = sample_ui\<lparr>json_to_vec := sample_encode\<rparr>"

definition sample_target :: "string \<Rightarrow> string" where
  "sample_target u = takeWhile (\<lambda>c. c \<noteq> CHR ''#'') (drop (length ''http://edge-agent'') u)"

definition sample_extractors :: "'m extractors" where
  "sample_extractors =
     \<lparr>path_param = Inr, json_create = (\<lambda>_ _. Inl 422),
      json_reconcile = (\<lambda>_ b. Inr \<lparr>rq_dry_run = (b = ''dry''), rq_skip_linux = False, rq_skip_nft = False, rq_include_config = False,
         rq_enable_xdp = False, rq_xdp_interface = None, rq_xdp_pin_path = None, rq_output = None\<rparr>),
      json_allocate = (\<lambda>_ _. Inl 422), json_release = (\<lambda>_ _. Inl 422), json_nsg_add = (\<lambda>_ _. Inl 422),
      json_nsg_remove = (\<lambda>_ _. Inl 422), query_vnic = (\<lambda>_. Inr None), query_compartment = (\<lambda>_. Inr None)\<rparr>"

lemma sample_pair_doc:
  "header_doc sample_pair" "uri_doc sample_pair sample_target" "extract_doc sample_extractors sample_pair"
  "token_doc sample_pair sample_app"
proof -
  show "header_doc sample_pair" using sample_ui_doc by (simp add: header_doc_def sample_pair_def)
  show "uri_doc sample_pair sample_target"
    by (auto simp: uri_doc_def sample_pair_def sample_ui_def list_gateway_def gateway_ops.defs header_ops.defs sample_target_def)
  show "extract_doc sample_extractors sample_pair"
    by (auto simp: extract_doc_def sample_extractors_def sample_pair_def sample_encode_def)
  show "token_doc sample_pair sample_app"
    by (simp add: token_doc_def sample_pair_def sample_ui_def list_gateway_def gateway_ops.defs header_ops.defs sample_app_def rust_str_def)
qed

lemmas sample_run = ui_handle_def render_result_def eff_catch_def send_raw_def sample_pair_def
  sample_ui_def list_gateway_def gateway_ops.defs header_ops.defs sample_app_def ui_start_def eff_bind_def
  rewrite_headers_def upstream_uri_def decode_json_def status_is_success_def no_json_def Let_def

section \<open>Properties\<close>

text \<open>The identifiers the program generates meet what the properties ask of an id in a path.\<close>

lemma generated_id_plain:
  "\<forall>c\<in>set u. is_ascii_alphanumeric c \<or> c = CHR ''-'' \<Longrightarrow> plain_id (id_str (mapping_id_new u))"
  using generated_id_segment [of u] by (auto simp: plain_id_def mapping_id_new_def is_ascii_alphanumeric_def)

text \<open>C11. A page does with the agent what it is for, when the ids in its path are plain. For a request whose ids are
  single path segments without \<open>%\<close> and \<open>#\<close> (those the program generates are), and whatever a form holds, each request the
  gateway makes is taken by the agent: it passes the guard of an agent with the same token, the router has a route for
  its method and path, and what reaches a handler either only reads or is the one change the page is for, on
  the mapping the page names, and a dry run exactly when the form says so. For other ids it does not hold
  (\<open>unescaped_id_reroutes\<close>).\<close>

theorem ui_reaches_agent:
  assumes "header_doc U" "uri_doc U tgt" "extract_doc X U" "token_doc U st" "list_all plain_id (request_ids rq)"
    and "api_token cfg = as_api_token st"
  shows "\<exists>qs. sent (snd (ui_handle U st rq s)) = sent s @ qs \<and>
    list_all (\<lambda>q. require_auth U (api_token cfg) (hr_headers q) = Inr () \<and> lands (asks rq) (dispatch X tgt q)) qs"
proof -
  have "adds sent (agent_takes X U tgt st (asks rq)) (ui_handle U st rq)"
    unfolding ui_handle_def by (intro adds_intros ui_page_taken assms)
  then obtain qs where qs: "sent (snd (ui_handle U st rq s)) = sent s @ qs" "list_all (agent_takes X U tgt st (asks rq)) qs"
    unfolding adds_def by (metis surjective_pairing)
  have "list_all (\<lambda>q. require_auth U (api_token cfg) (hr_headers q) = Inr () \<and> lands (asks rq) (dispatch X tgt q)) qs"
    using qs(2) by (rule list.pred_mono_strong) (use taken_accepted [OF assms(1,4)] assms(6) in \<open>auto simp: agent_takes_def\<close>)
  with qs(1) show ?thesis by blast
qed

theorem ui_reaches_agent_witness:
  "\<exists>q. sent (snd (ui_handle sample_pair sample_app (UiEnableMapping ''a1'') ui_start)) = [q] \<and>
     require_auth sample_pair (Some ''secret'') (hr_headers q) = Inr () \<and>
     lands (asks (UiEnableMapping ''a1'')) (dispatch sample_extractors sample_target q)"
proof -
  let ?t = "snd (ui_handle sample_pair sample_app (UiEnableMapping ''a1'') ui_start)"
  have "list_all plain_id (request_ids (UiEnableMapping ''a1''))" by (simp add: plain_id_def path_segment_def)
  from ui_reaches_agent [OF sample_pair_doc this, of "sample_config\<lparr>api_token := Some ''secret''\<rparr>" ui_start] obtain qs where
    qs: "sent ?t = qs" "list_all (\<lambda>q. require_auth sample_pair (Some ''secret'') (hr_headers q) = Inr () \<and>
       lands (asks (UiEnableMapping ''a1'')) (dispatch sample_extractors sample_target q)) qs"
    by (auto simp: ui_start_def sample_app_def)
  moreover have "length (sent ?t) = 1" by (simp add: ui_enable_mapping_def post_empty_json_def sample_run)
  ultimately show ?thesis by (cases qs) auto
qed

text \<open>C13. Looking does not touch: showing any page, the diagnostic tools, the rule preview and a reconciliation that is
  a dry run leave every table of the agent's database and every file as they are, whatever the agent answers
  and whatever fails.\<close>

theorem ui_views_read_only:
  assumes "header_doc U" "uri_doc U tgt" "extract_doc X U" "view_request rq"
  shows "\<exists>qs. sent (snd (ui_handle U st rq s)) = sent s @ qs \<and> same_store a (agent_receives E H X tgt cfg qs a)"
proof -
  have "list_all plain_id (request_ids rq)" using assms(4) by (cases rq) (simp_all add: view_request_def)
  then have "adds sent (agent_takes X U tgt st (asks rq)) (ui_handle U st rq)"
    unfolding ui_handle_def by (intro adds_intros ui_page_taken assms)
  then obtain qs where qs: "sent (snd (ui_handle U st rq s)) = sent s @ qs" "list_all (agent_takes X U tgt st (asks rq)) qs"
    unfolding adds_def by (metis surjective_pairing)
  have "list_all (\<lambda>q. lands read_request (dispatch X tgt q)) qs"
    using qs(2) by (rule list.pred_mono_strong) (auto simp: agent_takes_def intro: lands_mono view_asks [OF assms(4)])
  from receives_reads [OF this] qs(1) show ?thesis by blast
qed

theorem ui_views_read_only_witness:
  "\<exists>qs. sent (snd (ui_handle sample_pair sample_app UiMappings ui_start)) = qs \<and> length qs = 2 \<and>
     same_store sample_world (agent_receives (sample_cloud True) sample_pair sample_extractors sample_target sample_config qs sample_world)"
proof -
  have "view_request UiMappings" by (simp add: view_request_def)
  from ui_views_read_only [OF sample_pair_doc(1-3) this, of sample_app ui_start sample_world "sample_cloud True" sample_pair sample_config]
  obtain qs where "sent (snd (ui_handle sample_pair sample_app UiMappings ui_start)) = qs"
    "same_store sample_world (agent_receives (sample_cloud True) sample_pair sample_extractors sample_target sample_config qs sample_world)"
    by (auto simp: ui_start_def)
  moreover have "length (sent (snd (ui_handle sample_pair sample_app UiMappings ui_start))) = 2"
    by (simp add: mappings_markup_def get_json_def ok_eff_def sample_run)
  ultimately show ?thesis by auto
qed

end
