(* ===== verification/Reconcile_Xdp.thy ===== *)
theory Reconcile_Xdp
  imports Reconcile_Safety
begin

text \<open>
  The safety behaviour \<open>docs/xdp.md\<close> promises of the experimental XDP backend: a mapping for it is never silently
  ignored and never applied.
\<close>

lemma xdp_plan_nonempty:
  assumes "xdp_plan_of N c ms cfg = Inr plan" "m \<in> set ms" "enabled m" "m_backend m = Xdp"
  shows "xdp_enabled c \<and> \<not> plan_is_empty plan"
proof -
  have ne: "filter is_xdp ms \<noteq> []" using assms(2-4) by (auto simp: filter_empty_conv is_xdp_def)
  with assms(1) have "xdp_enabled c" by (auto simp: xdp_plan_of_def Let_def split: if_splits)
  moreover from assms(1) ne have "plan_entries plan \<noteq> []"
    by (auto simp: xdp_plan_of_def Let_def res_mapM_ok split: if_splits)
  ultimately show ?thesis by (simp add: plan_is_empty_def)
qed

text \<open>C19. XDP fails closed. While an enabled mapping asks for the XDP back end, a reconciliation that is not a dry run,
  and every reconciliation with XDP disabled, ends with an error, and it has done nothing: no table, no file and no
  interface changed and no command ran.\<close>

theorem xdp_fails_closed:
  assumes "list_mappings E s = (Inr ms, u)" "m \<in> set ms" "enabled m" "m_backend m = Xdp"
    and "\<not> dry_run opts \<or> \<not> xdp_enabled (opt_xdp opts)" "reconcile E R cfg opts s = (r, t)"
  shows "(\<exists>e. r = Inl e) \<and> (\<exists>n. t = s\<lparr>tick := n\<rparr>)"
proof -
  have l: "core_step (list_mappings E) s = (Inr ms, u)" using assms(1) by (simp add: core_step_def eff_map_err_def)
  obtain n where u: "u = s\<lparr>tick := n\<rparr>" using readsD [OF reads_lists(1) assms(1)] by blast
  have "(\<exists>e. r = Inl e) \<and> t = u"
    using assms(5,6) xdp_plan_nonempty [OF _ assms(2-4), of E "opt_xdp opts" cfg] unfolding reconcile_def
    by (auto simp: eff_bind_def l split: sum.splits if_splits)
  with u show ?thesis by blast
qed

definition xdp_world :: "(string \<Rightarrow> ipv4_addr list) world" where
  "xdp_world = sample_world\<lparr>t_mappings := [sample_row (sample_tcp\<lparr>m_backend := Xdp\<rparr>)]\<rparr>"

theorem xdp_fails_closed_witness:
  "\<exists>e n. reconcile sample_host_env sample_reconciler sample_config reconcile_options_default xdp_world =
     (Inl e, xdp_world\<lparr>tick := n\<rparr>)"
proof -
  let ?m = "sample_tcp\<lparr>m_backend := Xdp\<rparr>"
  have "mapping_ok cidr_ops sample_config ?m"
    using sample_ok(2) by (simp add: mapping_ok_def backend_ok_def ports_ok_def sample_defs)
  from sample_host_row [OF this] sample_id_wf(1)
  have "list_mappings sample_host_env xdp_world = (Inr [?m], xdp_world\<lparr>tick := Suc (tick xdp_world)\<rparr>)"
    by (simp add: list_mappings_def select_ok eff_bind_def xdp_world_def)
  moreover have "enabled ?m" "\<not> dry_run reconcile_options_default" by (simp_all add: sample_defs)
  ultimately show ?thesis
    using xdp_fails_closed [of sample_host_env xdp_world "[?m]" _ ?m reconcile_options_default sample_reconciler sample_config]
    by (cases "reconcile sample_host_env sample_reconciler sample_config reconcile_options_default xdp_world") auto
qed

end
