(* ===== verification/Nft_Semantics.thy ===== *)
theory Nft_Semantics
  imports Nft_Render
begin

text \<open>
  What the rendered text means to \<open>nft\<close>, independently of the renderer: a reader for the part of the nftables
  language the script uses (\<open>nft(8)\<close>: blocks in braces, one statement per line, tokens separated by blanks), which
  rejects a line it does not know, and the verdicts of the rules it read on a packet. The properties read
  the rendered text back and compare its answers with the mappings.
\<close>

section \<open>Reading a script\<close>

datatype dnat_rule =
    DnatTo (dr_iface: string) (dr_addr: ipv4_addr) (dr_proto: string) (dr_port: u16) ipv4_addr u16
  | DnatMap

record ruleset =
  elements :: "(ipv4_addr \<times> ipv4_addr) list"
  prerouting :: "dnat_rule list"
  postrouting :: "(string \<times> string) list"

definition no_rules :: ruleset where
  "no_rules = \<lparr>elements = [], prerouting = [], postrouting = []\<rparr>"

definition nft_words :: "string \<Rightarrow> string list" where
  "nft_words l = filter (\<lambda>w. w \<noteq> []) (split_on CHR '' '' l)"

definition nft_port :: "string \<Rightarrow> u16 option" where
  "nft_port w =
     (case (if w = [] then None else read_digits 0 w) of
        Some n \<Rightarrow> if n < 65536 then Some (of_nat n) else None
      | None \<Rightarrow> None)"

definition unquoted :: "string \<Rightarrow> string option" where
  "unquoted w =
     (if 2 \<le> length w \<and> hd w = CHR 0x22 \<and> last w = CHR 0x22 \<and> CHR 0x22 \<notin> set (butlast (tl w))
      then Some (butlast (tl w)) else None)"

definition nft_element :: "string list \<Rightarrow> (ipv4_addr \<times> ipv4_addr) option" where
  "nft_element ws =
     (case ws of
        [k, c, v] \<Rightarrow>
          if c = '':'' \<and> v \<noteq> [] \<and> last v = CHR '',''
          then Option.bind (parse_ipv4 k) (\<lambda>a. map_option (Pair a) (parse_ipv4 (butlast v)))
          else None
      | _ \<Rightarrow> None)"

definition nft_endpoint :: "string \<Rightarrow> (ipv4_addr \<times> u16) option" where
  "nft_endpoint w =
     (case split_on CHR '':'' w of
        [a, p] \<Rightarrow> Option.bind (parse_ipv4 a) (\<lambda>ip. map_option (Pair ip) (nft_port p))
      | _ \<Rightarrow> None)"

definition nft_dnat :: "string list \<Rightarrow> dnat_rule option" where
  "nft_dnat ws =
     (if ws = [''dnat'', ''to'', ''ip'', ''daddr'', ''map'', ''@edge_to_target''] then Some DnatMap
      else (case ws of
        [k1, i, k2, k3, a, p, k4, n, k5, k6, e] \<Rightarrow>
          if [k1, k2, k3, k4, k5, k6] = [''iifname'', ''ip'', ''daddr'', ''dport'', ''dnat'', ''to''] \<and>
            (p = ''tcp'' \<or> p = ''udp'')
          then Option.bind (unquoted i) (\<lambda>iface. Option.bind (parse_ipv4 a) (\<lambda>ip.
               Option.bind (nft_port n) (\<lambda>port. Option.bind (nft_endpoint e) (\<lambda>(tip, tport).
               Some (DnatTo iface ip p port tip tport)))))
          else None
      | _ \<Rightarrow> None))"

definition nft_masquerade :: "string list \<Rightarrow> (string \<times> string) option" where
  "nft_masquerade ws =
     (case ws of
        [k1, i, k2, k3, net, k4] \<Rightarrow>
          if [k1, k2, k3, k4] = [''oifname'', ''ip'', ''daddr'', ''masquerade'']
          then map_option (\<lambda>iface. (iface, net)) (unquoted i) else None
      | _ \<Rightarrow> None)"

text \<open>A statement inside the blocks that are open, innermost first. A \<open>destroy\<close> empties the table.\<close>

definition nft_statement :: "string \<Rightarrow> string list list \<Rightarrow> string list \<Rightarrow> ruleset \<Rightarrow> ruleset option" where
  "nft_statement table open ws R =
     (let top = [''table'', ''ip'', table] in
      if open = [] then (if ws = [''destroy'', ''table'', ''ip'', table] then Some no_rules else None)
      else if open = [[''map'', ''edge_to_target''], top]
      then (if ws = [''type'', ''ipv4_addr'', '':'', ''ipv4_addr;''] then Some R else None)
      else if open = [[''elements'', ''=''], [''map'', ''edge_to_target''], top]
      then map_option (\<lambda>e. R\<lparr>elements := elements R @ [e]\<rparr>) (nft_element ws)
      else if open = [[''chain'', ''prerouting''], top]
      then (if ws = [''type'', ''nat'', ''hook'', ''prerouting'', ''priority'', ''dstnat;'', ''policy'', ''accept;''] then Some R
            else map_option (\<lambda>r. R\<lparr>prerouting := prerouting R @ [r]\<rparr>) (nft_dnat ws))
      else if open = [[''chain'', ''postrouting''], top]
      then (if ws = [''type'', ''nat'', ''hook'', ''postrouting'', ''priority'', ''srcnat;'', ''policy'', ''accept;''] then Some R
            else map_option (\<lambda>r. R\<lparr>postrouting := postrouting R @ [r]\<rparr>) (nft_masquerade ws))
      else None)"

definition nft_line :: "string \<Rightarrow> string list \<Rightarrow> string list list \<times> ruleset \<Rightarrow> (string list list \<times> ruleset) option" where
  "nft_line table ws \<sigma> =
     (case \<sigma> of (open, R) \<Rightarrow>
        if ws = [] then Some (open, R)
        else if ws = [''}''] then (case open of [] \<Rightarrow> None | _ # outer \<Rightarrow> Some (outer, R))
        else if last ws = ''{'' then Some (butlast ws # open, R)
        else map_option (Pair open) (nft_statement table open ws R))"

fun nft_lines :: "string \<Rightarrow> string list \<Rightarrow> string list list \<times> ruleset \<Rightarrow> (string list list \<times> ruleset) option" where
  "nft_lines table [] \<sigma> = Some \<sigma>"
| "nft_lines table (l # ls) \<sigma> = Option.bind (nft_line table (nft_words l) \<sigma>) (nft_lines table ls)"

definition read_script :: "string \<Rightarrow> string \<Rightarrow> ruleset option" where
  "read_script table text =
     (case nft_lines table (split_on CHR 0x0A text) ([], no_rules) of
        Some ([], R) \<Rightarrow> Some R
      | _ \<Rightarrow> None)"

section \<open>Verdicts\<close>

record packet =
  pk_iface :: string
  pk_daddr :: ipv4_addr
  pk_proto :: string
  pk_dport :: u16

text \<open>All translations that apply to a packet, in the order of the rules; a translation keeps the port
  unless it gives one. The first one is the verdict of the chain.\<close>

fun dnat_answers :: "(ipv4_addr \<times> ipv4_addr) list \<Rightarrow> packet \<Rightarrow> dnat_rule \<Rightarrow> (ipv4_addr \<times> u16 option) list" where
  "dnat_answers es pk (DnatTo iface ip p port tip tport) =
     (if pk_iface pk = iface \<and> pk_daddr pk = ip \<and> pk_proto pk = p \<and> pk_dport pk = port then [(tip, Some tport)] else [])"
| "dnat_answers es pk DnatMap = map (\<lambda>e. (snd e, None)) (filter (\<lambda>e. fst e = pk_daddr pk) es)"

definition answers :: "ruleset \<Rightarrow> packet \<Rightarrow> (ipv4_addr \<times> u16 option) list" where
  "answers R pk = concat (map (dnat_answers (elements R) pk) (prerouting R))"


text \<open>What a mapping promises, from its fields alone: all traffic of its private address goes to its target,
  or the traffic of one protocol and port that comes in over the WAN interface goes to its target and target port.\<close>

definition forwards :: "edge_config \<Rightarrow> mapping \<Rightarrow> packet \<Rightarrow> ipv4_addr \<times> u16 option \<Rightarrow> bool" where
  "forwards cfg m pk t \<longleftrightarrow>
     pk_daddr pk = edge_private_ip m \<and> fst t = target_ip m \<and>
     (case m_mode m of
        OneToOneSnat \<Rightarrow> snd t = None
      | PortForwardSnat \<Rightarrow>
          pk_iface pk = wan_interface cfg \<and> pk_proto pk = (case m_protocol m of Tcp \<Rightarrow> ''tcp'' | Udp \<Rightarrow> ''udp'' | ProtoAll \<Rightarrow> ''all'') \<and>
          public_port m = Some (pk_dport pk) \<and> snd t = target_port m)"

section \<open>Words of the rendered lines\<close>

text \<open>Names that print as one token: no blank, no line break, no quote and no brace.\<close>

definition plain_name :: "string \<Rightarrow> bool" where
  "plain_name n \<longleftrightarrow> n \<noteq> [] \<and> CHR '' '' \<notin> set n \<and> CHR 0x0A \<notin> set n \<and> CHR 0x22 \<notin> set n \<and> CHR ''{'' \<notin> set n"

lemma split_on_prefix: "c \<notin> set w \<Longrightarrow> split_on c (w @ s) = (w @ hd (split_on c s)) # tl (split_on c s)"
proof (induction w)
  case Nil
  then show ?case by (cases "split_on c s") simp_all
qed auto

lemma token_chars:
  "CHR '' '' \<notin> set (ip_to_string ip)" "CHR '' '' \<notin> set (show_u16 p)" "CHR '':'' \<notin> set (ip_to_string ip)"
  "CHR '':'' \<notin> set (show_u16 p)" "ip_to_string ip \<noteq> []" "show_u16 p \<noteq> []"
  by (simp_all add: ip_to_string_def show_octet_def show_u16_def digit_neq)

lemma nft_port_show [simp]: "nft_port (show_u16 p) = Some p"
proof -
  have "unat p < 65536" using unat_u16_less [of p] by simp
  then show ?thesis by (simp add: nft_port_def show_u16_def)
qed

lemma nft_endpoint_show [simp]: "nft_endpoint (ip_to_string ip @ CHR '':'' # show_u16 p) = Some (ip, p)"
  by (simp add: nft_endpoint_def split_on_append split_on_no_sep token_chars)

lemma unquoted_name [simp]: "plain_name n \<Longrightarrow> unquoted (CHR 0x22 # n @ [CHR 0x22]) = Some n"
  by (simp add: unquoted_def plain_name_def)

lemma element_words: "nft_words (element_line m) = [ip_to_string (edge_private_ip m), '':'', ip_to_string (target_ip m) @ '','']"
  by (simp add: nft_words_def element_line_def split_on_prefix token_chars)

lemma forward_words:
  assumes "plain_name (wan_interface cfg)" "m_protocol m \<noteq> ProtoAll"
  shows "nft_words (forward_line cfg m) =
    [''iifname'', dq @ wan_interface cfg @ dq, ''ip'', ''daddr'', ip_to_string (edge_private_ip m),
     protocol_wire (m_protocol m), ''dport'', show_u16 (the (public_port m)), ''dnat'', ''to'',
     ip_to_string (target_ip m) @ '':'' @ show_u16 (the (target_port m))]"
  using assms by (cases "m_protocol m") (simp_all add: nft_words_def forward_line_def split_on_prefix split_on_no_sep token_chars plain_name_def)

lemma masquerade_words:
  assumes "plain_name (netbird_interface cfg)" "plain_name (net_to_string N cidr)"
  shows "nft_words (masquerade_line N cfg cidr) =
    [''oifname'', dq @ netbird_interface cfg @ dq, ''ip'', ''daddr'', net_to_string N cidr, ''masquerade'']"
  using assms by (simp add: nft_words_def masquerade_line_def split_on_prefix plain_name_def)

lemma frame_words:
  assumes "plain_name table"
  shows "nft_words (''destroy table ip '' @ table) = [''destroy'', ''table'', ''ip'', table]"
    "nft_words (''table ip '' @ table @ '' {'') = [''table'', ''ip'', table, ''{'']"
  using assms by (simp_all add: nft_words_def split_on_prefix [of _ table "[]", simplified] split_on_prefix plain_name_def)

section \<open>Reading the rendered script\<close>

lemma nft_lines_append: "nft_lines table (ls @ ls') \<sigma> = Option.bind (nft_lines table ls \<sigma>) (nft_lines table ls')"
  by (induction ls arbitrary: \<sigma>) (simp_all split: Option.bind_split)

text \<open>A run of lines that each append one item to the rules.\<close>

lemma nft_lines_items:
  assumes "\<And>x R. x \<in> set xs \<Longrightarrow> nft_line table (nft_words (f x)) (open, R) = Some (open, add x R)"
  shows "nft_lines table (map f xs) (open, R) = Some (open, fold add xs R)"
  using assms by (induction xs arbitrary: R) simp_all

definition rule_of :: "edge_config \<Rightarrow> mapping \<Rightarrow> dnat_rule" where
  "rule_of cfg m = DnatTo (wan_interface cfg) (edge_private_ip m) (protocol_wire (m_protocol m)) (the (public_port m))
     (target_ip m) (the (target_port m))"

lemma read_elements:
  "nft_lines table (map element_line ms) ([[''elements'', ''=''], [''map'', ''edge_to_target''], [''table'', ''ip'', table]], R) =
    Some ([[''elements'', ''=''], [''map'', ''edge_to_target''], [''table'', ''ip'', table]],
      R\<lparr>elements := elements R @ map (\<lambda>m. (edge_private_ip m, target_ip m)) ms\<rparr>)"
proof -
  let ?add = "\<lambda>m R. R\<lparr>elements := elements R @ [(edge_private_ip m, target_ip m)]\<rparr>"
  have "fold ?add ms R = R\<lparr>elements := elements R @ map (\<lambda>m. (edge_private_ip m, target_ip m)) ms\<rparr>"
    by (induction ms arbitrary: R) simp_all
  moreover have "nft_lines table (map element_line ms)
      ([[''elements'', ''=''], [''map'', ''edge_to_target''], [''table'', ''ip'', table]], R) =
    Some ([[''elements'', ''=''], [''map'', ''edge_to_target''], [''table'', ''ip'', table]], fold ?add ms R)"
    by (rule nft_lines_items) (simp add: nft_line_def element_words nft_statement_def nft_element_def)
  ultimately show ?thesis by simp
qed

lemma nft_dnat_forward:
  assumes "plain_name i" "p = ''tcp'' \<or> p = ''udp''"
  shows "nft_dnat [''iifname'', dq @ i @ dq, ''ip'', ''daddr'', ip_to_string a, p, ''dport'', show_u16 n, ''dnat'', ''to'',
    ip_to_string b @ '':'' @ show_u16 q] = Some (DnatTo i a p n b q)"
  using assms(2) unquoted_name [OF assms(1)] by (simp add: nft_dnat_def)

lemma prerouting_line:
  "nft_line table (''iifname'' # ws @ [w]) ([[''chain'', ''prerouting''], [''table'', ''ip'', table]], R) =
     (if w = ''{'' then Some ((''iifname'' # ws) # [[''chain'', ''prerouting''], [''table'', ''ip'', table]], R)
      else map_option (\<lambda>r. ([[''chain'', ''prerouting''], [''table'', ''ip'', table]], R\<lparr>prerouting := prerouting R @ [r]\<rparr>))
        (nft_dnat (''iifname'' # ws @ [w])))"
  by (simp add: nft_line_def nft_statement_def option.map_comp comp_def)

lemma endpoint_no_brace: "ip_to_string a @ '':'' @ show_u16 p \<noteq> ''{''"
  by (simp add: append_eq_Cons_conv token_chars)

lemma read_forwards:
  assumes "plain_name (wan_interface cfg)" "\<forall>m\<in>set ms. m_protocol m \<noteq> ProtoAll"
  shows "nft_lines table (map (forward_line cfg) ms) ([[''chain'', ''prerouting''], [''table'', ''ip'', table]], R) =
    Some ([[''chain'', ''prerouting''], [''table'', ''ip'', table]], R\<lparr>prerouting := prerouting R @ map (rule_of cfg) ms\<rparr>)"
proof -
  let ?add = "\<lambda>m R. R\<lparr>prerouting := prerouting R @ [rule_of cfg m]\<rparr>"
  have "fold ?add ms R = R\<lparr>prerouting := prerouting R @ map (rule_of cfg) ms\<rparr>"
    by (induction ms arbitrary: R) simp_all
  moreover have "nft_line table (nft_words (forward_line cfg m)) ([[''chain'', ''prerouting''], [''table'', ''ip'', table]], R) =
      Some ([[''chain'', ''prerouting''], [''table'', ''ip'', table]], ?add m R)" if "m \<in> set ms" for m R
  proof -
    have prot: "m_protocol m \<noteq> ProtoAll" using assms(2) that by blast
    moreover from this have "protocol_wire (m_protocol m) = ''tcp'' \<or> protocol_wire (m_protocol m) = ''udp''"
      by (cases "m_protocol m") simp_all
    moreover note prerouting_line [of table "[dq @ wan_interface cfg @ dq, ''ip'', ''daddr'', ip_to_string (edge_private_ip m),
        protocol_wire (m_protocol m), ''dport'', show_u16 (the (public_port m)), ''dnat'', ''to'']"
        "ip_to_string (target_ip m) @ '':'' @ show_u16 (the (target_port m))" R]
    ultimately show ?thesis
      using nft_dnat_forward [OF assms(1)] endpoint_no_brace
      by (simp only: forward_words [OF assms(1) prot] append_Cons append_Nil rule_of_def if_False option.map)
  qed
  then have "nft_lines table (map (forward_line cfg) ms) ([[''chain'', ''prerouting''], [''table'', ''ip'', table]], R) =
      Some ([[''chain'', ''prerouting''], [''table'', ''ip'', table]], fold ?add ms R)"
    by (rule nft_lines_items)
  ultimately show ?thesis by simp
qed

lemma read_masquerades:
  assumes "plain_name (netbird_interface cfg)" "\<forall>cidr\<in>set cidrs. plain_name (net_to_string N cidr)"
  shows "nft_lines table (map (masquerade_line N cfg) cidrs) ([[''chain'', ''postrouting''], [''table'', ''ip'', table]], R) =
    Some ([[''chain'', ''postrouting''], [''table'', ''ip'', table]],
      R\<lparr>postrouting := postrouting R @ map (\<lambda>cidr. (netbird_interface cfg, net_to_string N cidr)) cidrs\<rparr>)"
proof -
  let ?add = "\<lambda>cidr R. R\<lparr>postrouting := postrouting R @ [(netbird_interface cfg, net_to_string N cidr)]\<rparr>"
  have "fold ?add cidrs R = R\<lparr>postrouting := postrouting R @ map (\<lambda>cidr. (netbird_interface cfg, net_to_string N cidr)) cidrs\<rparr>"
    by (induction cidrs arbitrary: R) simp_all
  moreover have "nft_lines table (map (masquerade_line N cfg) cidrs) ([[''chain'', ''postrouting''], [''table'', ''ip'', table]], R) =
      Some ([[''chain'', ''postrouting''], [''table'', ''ip'', table]], fold ?add cidrs R)"
    by (rule nft_lines_items) (use assms in \<open>simp add: nft_line_def masquerade_words nft_statement_def nft_masquerade_def\<close>)
  ultimately show ?thesis by simp
qed

lemma fixed_words:
  "nft_words [] = []" "nft_words ''    map edge_to_target {'' = [''map'', ''edge_to_target'', ''{'']"
  "nft_words ''        type ipv4_addr : ipv4_addr;'' = [''type'', ''ipv4_addr'', '':'', ''ipv4_addr;'']"
  "nft_words ''        elements = {'' = [''elements'', ''='', ''{'']" "nft_words ''        }'' = [''}'']"
  "nft_words ''    }'' = [''}'']" "nft_words ''}'' = [''}'']"
  "nft_words ''    chain prerouting {'' = [''chain'', ''prerouting'', ''{'']"
  "nft_words ''        type nat hook prerouting priority dstnat; policy accept;'' =
     [''type'', ''nat'', ''hook'', ''prerouting'', ''priority'', ''dstnat;'', ''policy'', ''accept;'']"
  "nft_words ''        dnat to ip daddr map @edge_to_target'' = [''dnat'', ''to'', ''ip'', ''daddr'', ''map'', ''@edge_to_target'']"
  "nft_words ''    chain postrouting {'' = [''chain'', ''postrouting'', ''{'']"
  "nft_words ''        type nat hook postrouting priority srcnat; policy accept;'' =
     [''type'', ''nat'', ''hook'', ''postrouting'', ''priority'', ''srcnat;'', ''policy'', ''accept;'']"
  by (simp_all add: nft_words_def)

text \<open>The whole script.\<close>

definition meaning :: "'a ipnet_ops_scheme \<Rightarrow> mapping list \<Rightarrow> edge_config \<Rightarrow> ruleset" where
  "meaning N ms cfg =
     \<lparr>elements = map (\<lambda>m. (edge_private_ip m, target_ip m)) (filter is_nft_one_to_one ms),
      prerouting = map (rule_of cfg) (filter is_nft_port_forward ms) @ [DnatMap],
      postrouting = map (\<lambda>cidr. (netbird_interface cfg, net_to_string N cidr)) (target_cidrs cfg)\<rparr>"

lemma nft_script_read:
  assumes names: "plain_name table" "plain_name (wan_interface cfg)" "plain_name (netbird_interface cfg)"
    "\<forall>cidr\<in>set (target_cidrs cfg). plain_name (net_to_string N cidr)"
    and ok: "\<forall>m\<in>set ms. is_nft_port_forward m \<longrightarrow> m_protocol m \<noteq> ProtoAll"
  shows "nft_lines table (nft_script N ms cfg table) ([], R) = Some ([], meaning N ms cfg)"
proof -
  let ?top = "[''table'', ''ip'', table]" and ?m = "[''map'', ''edge_to_target'']"
  have t: "table \<noteq> ''{''" using names(1) by (auto simp: plain_name_def)
  have head: "nft_lines table [''destroy table ip '' @ table, [], ''table ip '' @ table @ '' {'', ''    map edge_to_target {'',
      ''        type ipv4_addr : ipv4_addr;'', ''        elements = {''] ([], R) =
    Some ([[''elements'', ''=''], ?m, ?top], no_rules)"
    by (simp add: frame_words [OF names(1), simplified] fixed_words nft_line_def nft_statement_def t)
  have mid: "nft_lines table [''        }'', ''    }'', [], ''    chain prerouting {'',
      ''        type nat hook prerouting priority dstnat; policy accept;'', []] ([[''elements'', ''=''], ?m, ?top], S) =
    Some ([[''chain'', ''prerouting''], ?top], S)" for S
    by (simp add: fixed_words nft_line_def nft_statement_def)
  have tail: "nft_lines table [''        dnat to ip daddr map @edge_to_target'', ''    }'', [], ''    chain postrouting {'',
      ''        type nat hook postrouting priority srcnat; policy accept;'', []] ([[''chain'', ''prerouting''], ?top], S) =
    Some ([[''chain'', ''postrouting''], ?top], S\<lparr>prerouting := prerouting S @ [DnatMap]\<rparr>)" for S
    by (simp add: fixed_words nft_line_def nft_statement_def nft_dnat_def)
  have blank: "nft_lines table (if list_ex is_nft_one_to_one ms then [] else [[]]) \<sigma> = Some \<sigma>" for \<sigma>
    by (cases \<sigma>) (simp add: nft_line_def fixed_words)
  have close: "nft_lines table [''    }'', ''}''] ([[''chain'', ''postrouting''], ?top], S) = Some ([], S)" for S
    by (simp add: fixed_words nft_line_def)
  have fw: "\<forall>m\<in>set (filter is_nft_port_forward ms). m_protocol m \<noteq> ProtoAll" using ok by simp
  show ?thesis
    unfolding nft_script_def
    by (simp only: nft_lines_append head mid tail blank close read_elements read_forwards [OF names(2) fw]
        read_masquerades [OF names(3,4)] Option.bind.bind_lunit)
      (simp add: meaning_def no_rules_def)
qed

lemma rendered_meaning:
  assumes "render_nftables N ms cfg table = Inr out"
    "plain_name table" "plain_name (wan_interface cfg)" "plain_name (netbird_interface cfg)"
    "\<forall>cidr\<in>set (target_cidrs cfg). plain_name (net_to_string N cidr)"
  shows "read_script table out = Some (meaning N ms cfg)"
proof -
  have "\<forall>m\<in>set ms. mapping_ok N cfg m" using assms(1) by (auto simp: render_nftables_eq validate_mappings_ok)
  then have "\<forall>m\<in>set ms. is_nft_port_forward m \<longrightarrow> m_protocol m \<noteq> ProtoAll"
    by (auto simp: mapping_ok_def ports_ok_def is_nft_port_forward_def)
  note nft_script_read [OF assms(2-5) this, of no_rules]
  moreover have "split_on CHR 0x0A out = nft_script N ms cfg table @ [[]]"
    by (rule render_nftables_lines [OF assms(1)]) (use assms(2-5) in \<open>auto simp: plain_name_def\<close>)
  ultimately show ?thesis by (simp add: read_script_def nft_lines_append nft_line_def nft_words_def)
qed

section \<open>Answers of the script\<close>

lemma one_of_pairs: "pairwise_ok (\<lambda>a b. \<not> (P a \<and> P b)) xs \<Longrightarrow> length (filter P xs) \<le> 1"
  by (induction xs) (auto simp: filter_empty_conv)

lemma length_filter_either:
  "(\<And>x. x \<in> set xs \<Longrightarrow> \<not> (P x \<and> Q x)) \<Longrightarrow> length (filter P xs) + length (filter Q xs) = length (filter (\<lambda>x. P x \<or> Q x) xs)"
  by (induction xs) auto

definition active_for :: "edge_config \<Rightarrow> packet \<Rightarrow> mapping \<Rightarrow> bool" where
  "active_for cfg pk m \<longleftrightarrow> enabled m \<and> m_backend m = Nft \<and> (\<exists>t. forwards cfg m pk t)"

lemma meaning_answers:
  assumes "\<forall>m\<in>set ms. mapping_ok N cfg m"
  shows "answers (meaning N ms cfg) pk =
    map (\<lambda>m. (target_ip m, target_port m)) (filter (\<lambda>m. is_nft_port_forward m \<and> active_for cfg pk m) ms) @
    map (\<lambda>m. (target_ip m, None)) (filter (\<lambda>m. is_nft_one_to_one m \<and> active_for cfg pk m) ms)"
proof -
  have pf: "dnat_answers es pk (rule_of cfg m) = (if active_for cfg pk m then [(target_ip m, target_port m)] else [])"
    if m: "m \<in> set ms" "is_nft_port_forward m" for m es
  proof -
    have "mapping_ok N cfg m" using assms m(1) by blast
    with m(2) obtain p q where "public_port m = Some p" "target_port m = Some q" "m_protocol m \<noteq> ProtoAll"
      by (auto simp: mapping_ok_def ports_ok_def is_nft_port_forward_def)
    then show ?thesis
      using m(2) by (cases "m_protocol m") (auto simp: rule_of_def active_for_def forwards_def is_nft_port_forward_def)
  qed
  have "concat (map (dnat_answers es pk) (map (rule_of cfg) (filter is_nft_port_forward xs))) =
      map (\<lambda>m. (target_ip m, target_port m)) (filter (\<lambda>m. is_nft_port_forward m \<and> active_for cfg pk m) xs)"
    if "set xs \<subseteq> set ms" for xs es
    using that pf by (induction xs) auto
  moreover have o: "is_nft_one_to_one m \<Longrightarrow> edge_private_ip m = pk_daddr pk \<longleftrightarrow> active_for cfg pk m" for m
    by (auto simp: active_for_def forwards_def is_nft_one_to_one_def)
  have "filter (\<lambda>m. is_nft_one_to_one m \<and> edge_private_ip m = pk_daddr pk) ms =
      filter (\<lambda>m. is_nft_one_to_one m \<and> active_for cfg pk m) ms" using o by (intro filter_cong) auto
  then have "dnat_answers (elements (meaning N ms cfg)) pk DnatMap =
      map (\<lambda>m. (target_ip m, None)) (filter (\<lambda>m. is_nft_one_to_one m \<and> active_for cfg pk m) ms)"
    by (simp add: meaning_def filter_map comp_def)
  ultimately show ?thesis by (simp add: answers_def meaning_def)
qed



lemma one_answer:
  assumes ok: "\<forall>m\<in>set ms. mapping_ok N cfg m" "pairwise_ok compatible ms"
  shows "length (answers (meaning N ms cfg) pk) \<le> 1"
proof -
  have "\<not> (active_for cfg pk a \<and> active_for cfg pk b)" if "compatible a b" for a b
    using that
    by (cases "m_mode a"; cases "m_mode b"; cases "m_protocol a"; cases "m_protocol b")
      (auto simp: active_for_def forwards_def compatible_def conflicts_def)
  then have "length (filter (active_for cfg pk) ms) \<le> 1"
    by (intro one_of_pairs pairwise_ok_mono [OF ok(2)]) blast
  moreover have "(is_nft_port_forward m \<and> active_for cfg pk m \<or> is_nft_one_to_one m \<and> active_for cfg pk m) = active_for cfg pk m" for m
    by (cases "m_mode m") (auto simp: active_for_def is_nft_port_forward_def is_nft_one_to_one_def)
  ultimately show ?thesis
    unfolding meaning_answers [OF ok(1)]
    by (simp add: length_filter_either is_nft_port_forward_def is_nft_one_to_one_def)
qed

lemma rendered_ok:
  "render_nftables N ms cfg table = Inr out \<Longrightarrow> (\<forall>m\<in>set ms. mapping_ok N cfg m) \<and> pairwise_ok compatible ms"
  by (auto simp: render_nftables_eq validate_mappings_ok)

section \<open>Properties\<close>

text \<open>C35. In every script that is rendered, read as \<open>nft\<close> reads it, the map has no key twice (which \<open>nft\<close> would
  reject), and at most one of all its map elements and forwarding rules applies to a packet: the order of
  the rules does not matter. The table, the interfaces and the networks must print as one token, see the next property.\<close>

theorem render_nftables_deterministic:
  assumes "render_nftables N ms cfg table = Inr out"
    and "plain_name table" "plain_name (wan_interface cfg)" "plain_name (netbird_interface cfg)"
    and "\<forall>cidr\<in>set (target_cidrs cfg). plain_name (net_to_string N cidr)"
  shows "\<exists>R. read_script table out = Some R \<and> distinct (map fst (elements R)) \<and> (\<forall>pk. length (answers R pk) \<le> 1)"
proof -
  have ok: "\<forall>m\<in>set ms. mapping_ok N cfg m" "pairwise_ok compatible ms" using rendered_ok [OF assms(1)] by simp_all
  have "pairwise_ok (\<lambda>a b. edge_private_ip a \<noteq> edge_private_ip b) (filter is_nft_one_to_one ms)"
    by (rule pairwise_ok_mono [OF pairwise_ok_filter [OF ok(2)]])
      (auto simp: compatible_def conflicts_def is_nft_one_to_one_def)
  from pairwise_neq_distinct [OF this] have "distinct (map fst (elements (meaning N ms cfg)))"
    by (simp add: meaning_def comp_def)
  then show ?thesis using rendered_meaning [OF assms] one_answer [OF ok] by blast
qed

lemma sample_plain:
  "plain_name default_table_name" "plain_name (wan_interface sample_config)" "plain_name (netbird_interface sample_config)"
  "\<forall>cidr\<in>set (target_cidrs sample_config). plain_name (net_to_string cidr_ops cidr)"
  by (simp_all add: plain_name_def default_table_name_def sample_config_def edge_config_new_def cidr_ops_def
      ip_to_string_def show_octet_def digit_neq)

lemma sample_rendered: "\<exists>out. render_nftables cidr_ops [sample_tcp, sample_udp] sample_config default_table_name = Inr out"
  using render_nftables_eq [of cidr_ops "[sample_tcp, sample_udp]" sample_config default_table_name]
  by (simp add: validate_mappings_ok [THEN iffD2] sample_ok sample_compatible)

theorem render_nftables_deterministic_witness:
  "\<exists>out R. render_nftables cidr_ops [sample_tcp, sample_udp] sample_config default_table_name = Inr out \<and>
     read_script default_table_name out = Some R \<and> (\<forall>pk. length (answers R pk) \<le> 1)"
proof -
  obtain out where out: "render_nftables cidr_ops [sample_tcp, sample_udp] sample_config default_table_name = Inr out"
    using sample_rendered by blast
  with render_nftables_deterministic [OF out sample_plain] show ?thesis by blast
qed



text \<open>The name check looks at the trimmed name and only for slashes and NUL: a name with a line break and a quote
  passes, and the renderer puts it into the script as it is.\<close>

theorem interface_check_accepts_break:
  "validate_interface_name ''wan_interface'' [CHR ''e'', CHR 0x22, CHR 0x0A, CHR ''x''] = Inr ()"
proof -
  have "trim [CHR ''e'', CHR 0x22, CHR 0x0A, CHR ''x''] = [CHR ''e'', CHR 0x22, CHR 0x0A, CHR ''x'']"
    by code_simp
  then show ?thesis by (simp add: validate_interface_name_def)
qed

end
