(* ===== verification/Spec2Isabelle.thy ===== *)
theory Spec2Isabelle
  imports Cli_Props Agent_Main Migrate_System Mock Gateway_Agent Reconcile_Xdp Nft_Semantics
begin

text \<open>
  \<^bold>\<open>edge-route\<close> is the control plane of a NAT edge on a cloud instance. It stores \<^emph>\<open>mappings\<close> from addresses
  of a cloud network card to targets behind a NetBird overlay, and programs nftables, the interface
  addresses and, for some mappings, an XDP map from them. This development models the Rust crates under
  \<open>src/crates\<close> as HOL functions over an explicit state and proves what makes them correct.

  \<^bold>\<open>Parts and theories.\<close>

  \<^item> Shared: \<open>Prelude\<close> (machine integers, \<open>Result\<close>, and \<open>eff\<close>, a computation that returns an error or a value
    and the new state either way), \<open>Rust_Std\<close> (strings as byte lists, numbers and IPv4 addresses as the standard
    library reads and prints them), \<open>Samples\<close> (data of the witnesses), \<open>Btree_Map\<close>, \<open>Env\<close> (clock, UUIDs, time
    stamps, JSON and SQL faults as parameters), \<open>Host\<close> (files, commands and connections of the machine),
    \<open>Http_Auth\<close> (bearer tokens), \<open>Total_Eff\<close> (computations that cannot fail).
  \<^item> \<open>edge-core\<close>: \<open>Core_Mapping\<close> (\<open>mapping.rs\<close>, \<open>errors.rs\<close>), \<open>Core_Validation\<close> (\<open>validation.rs\<close>),
    \<open>Core_State\<close> (\<open>state.rs\<close>) over the contract \<open>mapping_store\<close> of \<open>Store_Contract\<close>.
  \<^item> \<open>edge-nft\<close>: \<open>Nft_Render\<close> (\<open>render.rs\<close>); \<open>Nft_Semantics\<close> (a reader of the script's grammar that knows nothing of
    the renderer, and the answer the rules it reads give a packet); the driver (\<open>apply.rs\<close>) in \<open>Reconcile\<close>. \<open>edge-xdp\<close>: \<open>Xdp_Plan\<close>.
    \<open>edge-linux\<close>: \<open>Linux_Addr\<close>. \<open>edge-netbird\<close>: \<open>Netbird\<close>. \<open>edge-oci\<close>: \<open>Oci\<close>.
  \<^item> \<open>edge-store\<close>: \<open>Sql_Table\<close> (rows, statements, triggers and indexes), \<open>Sqlite_Store\<close> (the operations),
    \<open>Sqlite_Props\<close>; \<open>Sqlite_Migrate\<close> (connecting, and bringing a database of an older version to the current
    schema), with \<open>Migrate_Steps\<close> and \<open>Migrate_Props\<close>; \<open>Migrate_System\<close> goes on from an opened database to the
    programs that work on it.
  \<^item> \<open>edge-reconcile\<close>: \<open>Reconcile\<close>, with \<open>Reconcile_Props\<close>, \<open>Reconcile_Total\<close>, \<open>Reconcile_Safety\<close> and
    \<open>Reconcile_Xdp\<close>.
  \<^item> \<open>edge-agent\<close>: \<open>Agent_Api\<close> and \<open>Agent_Oci\<close> (the handlers and the dispatch \<open>handle\<close> of \<open>api.rs\<close>),
    \<open>Agent_Invariant\<close>, \<open>Agent_Props\<close>, \<open>Agent_Alloc\<close>; \<open>Agent_Http\<close> (the routing table with the extractors, from a
    request on the wire to a handler); its start-up (\<open>main.rs\<close>) is in \<open>Cli\<close> and \<open>Agent_Main\<close>.
  \<^item> \<open>edge-gateway\<close>: \<open>Gateway\<close> (\<open>main.rs\<close>, \<open>agent.rs\<close>); the web interface (\<open>ui.rs\<close>) in \<open>Ui_Base\<close> (markup and
    the checks on form values), \<open>Ui_Pages\<close>, \<open>Ui_Console\<close> and \<open>Ui_Forms\<close> (the pages) and \<open>Ui_Actions\<close> (the handlers,
    the start-up and the routing tables of both servers), with \<open>Ui_Calls\<close> (what a handler sends and runs),
    \<open>Ui_Links\<close> (what a page refers to) and \<open>Ui_Props\<close>; \<open>Mock\<close> (\<open>mock.rs\<close>, the stand-in for the agent).
  \<^item> \<open>edge-cli\<close>: \<open>Cli\<close>, \<open>Cli_Commands\<close>, with \<open>Cli_Props\<close>.
  \<^item> What spans the programs: \<open>System_Props\<close> (agents and tools on one database), \<open>Gateway_Agent\<close> (what the pages of
    the gateway make the agent do).

  \<^bold>\<open>State.\<close> The database is the record \<open>db\<close> (tables as lists of rows, the two AUTOINCREMENT counters, and a tick that
  numbers the calls to the outside); \<open>world\<close> extends it with files, an opaque machine state and the trace
  of commands run; \<open>console\<close> extends that with what the tool prints; the gateway has its own
  \<open>gateway_state\<close>, which \<open>ui_state\<close> extends with the programs the pages run. A database that is being opened is
  a \<open>catalog\<close>: named tables with their columns, rows of untyped values, indexes and triggers. Every definition takes the outside as a record of functions (\<open>env_ops\<close>, \<open>host_env\<close>,
  \<open>oci_env\<close>, \<open>cli_env\<close>, \<open>gateway_ops\<close>, \<open>ui_ops\<close>, \<open>mock_ops\<close>, \<open>ddl_env\<close>, \<open>serve_env\<close>, \<open>extractors\<close>): a fault may occur at every call, and what the code relies on is a
  named hypothesis (\<open>time_doc\<close>, \<open>json_doc\<close>, \<open>ipnet_doc\<close>, \<open>header_doc\<close>, \<open>uri_doc\<close>, \<open>extract_doc\<close>, \<open>token_doc\<close>, and \<open>ip_tool\<close>: what \<open>ip\<close> prints for the addresses of an
  interface with their prefix lengths, and what its add and delete do to them), each with an instance in the
  witnesses. \<open>db_open\<close> of the programs stands for connecting and migrating, which \<open>Sqlite_Migrate\<close> models.

  \<^bold>\<open>What is shown.\<close>

  \<^item> Validation decides exactly the declarative description of an acceptable set of mappings; an accepted
    set is rendered to a script that, read back, translates a packet exactly as the enabled nft mappings ask and
    never has two answers for it, and to an XDP plan with distinct keys. The names of the configuration and the table
    have to print as one token each, which validation does not see to.
  \<^item> Both stores implement the contract of \<open>Store_Contract\<close>; on SQLite no interleaving of the statements of
    any number of clients stores two enabled mappings that conflict, and no sequence of agent requests and
    tool runs does.
  \<^item> Reconciling follows one of the courses of \<open>reconcile_course\<close> whatever fails: nothing is applied that was not
    checked, a generation is active only after its text was applied, failures to write and failures \<open>nft\<close> reports are
    recorded (an \<open>nft\<close> that cannot be started or does not end in time is not), the script
    file is replaced atomically, the addresses of the interface follow the last mapping that names them, and when nothing outside
    fails and the stored mappings pass validation without an XDP mapping it succeeds. With an XDP mapping enabled it refuses before it has done anything, as \<open>docs/xdp.md\<close> promises.
  \<^item> Cloud addresses are accounted for: a failed allocation is undone, a deletion by the tool drops a mapping only
    after each of its addresses was deleted or the deletion failed with a text that reads as "not found".
  \<^item> The agent answers nobody without its token and does not start open by accident; the gateway forwards only
    past its own guard and replaces the caller's credentials.
  \<^item> Opening a database keeps its rows whatever statement fails, is final once it succeeded, and makes a table of
    the version with \<open>UNIQUE\<close> addresses meet the constraints of the store; when such a table lacks a copied
    column it can never be opened, which is a fault of the program. Whatever agents and tools do after such an upgrade,
    the listed mappings stay free of conflicts.
  \<^item> For identifiers that are single segments of a path, as generated ones are, what a page asks of the agent passes its guard and its router and is the change the page is for or only reads;
    showing pages leaves the agent's database and files as they are. The pages run \<open>ping\<close> and \<open>tcpdump\<close> only; read the way
    \<open>getopt\<close> reads them, the options are the program's own. The pages refer only to routes, dialogs and form fields that exist; the stand-in answers every
    route of the agent, and switches mappings and lists flows as \<open>edge-core\<close> and the agent do.

  \<^bold>\<open>Loops and bounds.\<close> Loops over collections are structural; \<open>trim\<close>, \<open>split_whitespace\<close> and the like terminate
  by length. There is no fuel. Identifiers and ports keep their width; time outs of commands are an outcome
  of the parameter \<open>run_cmd\<close>.

  \<^bold>\<open>Not modelled.\<close> The server loops, the inside of extractors and the Unix socket connector (tokio, axum, tower,
  hyper), the static files, parsing of the command line (clap), logging, and loading of XDP programs (the crate only
  plans). Turning markup into text (maud), JSON (serde) and calendar dates are parameters. Helpers the
  crates repeat word for word (\<open>constant_time_eq\<close>, \<open>CommandOutput\<close>, the configuration file of the agent and the tool) are
  modelled once. What then remains of the Rust sources is declarations, delegation to these libraries and tests.
\<close>

end
